(* ===== verification/Gov_Prelude.thy ===== *)
theory Gov_Prelude
  imports
    Main
    "HOL-Library.AList"
    "HOL-Library.Char_ord"
    "HOL-Library.List_Lexorder"
    "HOL-Library.Product_Lexorder"
begin

text \<open>
  Shared vocabulary of the development.

  The control plane is a Python program, so the prelude fixes how its host language is read:
  a fallible operation is a value of \<open>'e + 'a\<close> (\<open>Inl\<close> is the raised exception),
  a chain of \<open>if ...: raise\<close> statements is a list of guards, and a dictionary is an
  association list kept in insertion order, because several repositories iterate over
  \<open>dict.values()\<close> and their answers depend on that order. The generic facts on these
  encodings carry the component proofs; the collections \<open>dict_simps\<close> and
  \<open>guard_simps\<close> gather them.
\<close>

named_theorems dict_simps
named_theorems guard_simps

section \<open>Exceptions\<close>

text \<open>
  The exception classes that the modelled code raises, and any other class by its name; an exception
  carries its message.
\<close>

datatype exc_class =
    ValueError
  | TypeError
  | KeyError
  | OverflowError
  | AuthorizationDenied
  | DecisionValidationError
  | ProtectedOperationBlocked
  | RuntimeActionDelegationRepositoryConflictError
  | RuntimeActionDelegationNotFoundError
  | RuntimeActionDelegationDeniedError
  | RuntimeActionDelegationConflictError
  | RuntimeActionAuthorizationNotFoundError
  | RuntimeActionAuthorizationConflictError
  | RuntimeActionAuthorizationPersistenceError
  | RuntimeActionAuthorizationTransportError
  | AgentExecutionNotFound
  | AgentExecutionInvalidTransition
  | AgentExecutionIdempotencyConflict
  | AgentExecutionRuntimeToolCallConflict
  | AgentExecutionConcurrencyConflict
  | AgentExecutionEventNotFound
  | PolicyAdministrationConflictError
  | PolicyAdminNotFoundError
  | PolicyVersionNotFoundError
  | PolicyConflictError
  | PolicyValidationFailedError
  | PolicyActivationFailedError
  | InvalidPolicyRequestError
  | ReplayConflict
  | ReplayIdempotencyConflict
  | ReplayUnauthorized
  | ReplayNotFound
  | ReplaySourceNotFound
  | ReplayNotReplayable
  | ReplayInvalidMode
  | ReplayInvalidTransition
  | ReplayNotReady
  | ReplayJobSubmissionFailed
  | ReplayNotCancellable
  | ReplayCancellationFailed
  | ReplayEvaluationNotReady
  | ReplayEvaluationSubmissionFailed
  | ReplayResultNotFound
  | ReplayResultConflict
  | ReplayAdapterNotFound
  | ReplayAdapterConfigurationInvalid
  | ReplayReconstructionFailed
  | ReplayExecutionIdentityConflict
  | ReplayExecutionPersistenceFailed
  | ReplayLineagePersistenceFailed
  | ReplayBaselineUnavailable
  | ReplayBaselineIncompatible
  | ReplayComparisonFailed
  | EvaluationNotFoundError
  | JobSubmissionValidationError
  | IdempotencyConflictError
  | JobNotFoundError
  | InvalidJobRequestError
  | OtherError string

datatype exc = Exc (exc_kind: exc_class) (exc_message: string)

text \<open>\<open>type(error).__name__\<close>.\<close>

primrec class_name :: "exc_class \<Rightarrow> string" where
  "class_name ValueError = ''ValueError''"
| "class_name TypeError = ''TypeError''"
| "class_name KeyError = ''KeyError''"
| "class_name OverflowError = ''OverflowError''"
| "class_name AuthorizationDenied = ''AuthorizationDenied''"
| "class_name DecisionValidationError = ''DecisionValidationError''"
| "class_name ProtectedOperationBlocked = ''ProtectedOperationBlocked''"
| "class_name RuntimeActionDelegationRepositoryConflictError = ''RuntimeActionDelegationRepositoryConflictError''"
| "class_name RuntimeActionDelegationNotFoundError = ''RuntimeActionDelegationNotFoundError''"
| "class_name RuntimeActionDelegationDeniedError = ''RuntimeActionDelegationDeniedError''"
| "class_name RuntimeActionDelegationConflictError = ''RuntimeActionDelegationConflictError''"
| "class_name RuntimeActionAuthorizationNotFoundError = ''RuntimeActionAuthorizationNotFoundError''"
| "class_name RuntimeActionAuthorizationConflictError = ''RuntimeActionAuthorizationConflictError''"
| "class_name RuntimeActionAuthorizationPersistenceError = ''RuntimeActionAuthorizationPersistenceError''"
| "class_name RuntimeActionAuthorizationTransportError = ''RuntimeActionAuthorizationTransportError''"
| "class_name AgentExecutionNotFound = ''AgentExecutionNotFound''"
| "class_name AgentExecutionInvalidTransition = ''AgentExecutionInvalidTransition''"
| "class_name AgentExecutionIdempotencyConflict = ''AgentExecutionIdempotencyConflict''"
| "class_name AgentExecutionRuntimeToolCallConflict = ''AgentExecutionRuntimeToolCallConflict''"
| "class_name AgentExecutionConcurrencyConflict = ''AgentExecutionConcurrencyConflict''"
| "class_name AgentExecutionEventNotFound = ''AgentExecutionEventNotFound''"
| "class_name PolicyAdministrationConflictError = ''PolicyAdministrationConflictError''"
| "class_name PolicyAdminNotFoundError = ''PolicyAdminNotFoundError''"
| "class_name PolicyVersionNotFoundError = ''PolicyVersionNotFoundError''"
| "class_name PolicyConflictError = ''PolicyConflictError''"
| "class_name PolicyValidationFailedError = ''PolicyValidationFailedError''"
| "class_name PolicyActivationFailedError = ''PolicyActivationFailedError''"
| "class_name InvalidPolicyRequestError = ''InvalidPolicyRequestError''"
| "class_name ReplayConflict = ''ReplayConflict''"
| "class_name ReplayIdempotencyConflict = ''ReplayIdempotencyConflict''"
| "class_name ReplayUnauthorized = ''ReplayUnauthorized''"
| "class_name ReplayNotFound = ''ReplayNotFound''"
| "class_name ReplaySourceNotFound = ''ReplaySourceNotFound''"
| "class_name ReplayNotReplayable = ''ReplayNotReplayable''"
| "class_name ReplayInvalidMode = ''ReplayInvalidMode''"
| "class_name ReplayInvalidTransition = ''ReplayInvalidTransition''"
| "class_name ReplayNotReady = ''ReplayNotReady''"
| "class_name ReplayJobSubmissionFailed = ''ReplayJobSubmissionFailed''"
| "class_name ReplayNotCancellable = ''ReplayNotCancellable''"
| "class_name ReplayCancellationFailed = ''ReplayCancellationFailed''"
| "class_name ReplayEvaluationNotReady = ''ReplayEvaluationNotReady''"
| "class_name ReplayEvaluationSubmissionFailed = ''ReplayEvaluationSubmissionFailed''"
| "class_name ReplayResultNotFound = ''ReplayResultNotFound''"
| "class_name ReplayResultConflict = ''ReplayResultConflict''"
| "class_name ReplayAdapterNotFound = ''ReplayAdapterNotFound''"
| "class_name ReplayAdapterConfigurationInvalid = ''ReplayAdapterConfigurationInvalid''"
| "class_name ReplayReconstructionFailed = ''ReplayReconstructionFailed''"
| "class_name ReplayExecutionIdentityConflict = ''ReplayExecutionIdentityConflict''"
| "class_name ReplayExecutionPersistenceFailed = ''ReplayExecutionPersistenceFailed''"
| "class_name ReplayLineagePersistenceFailed = ''ReplayLineagePersistenceFailed''"
| "class_name ReplayBaselineUnavailable = ''ReplayBaselineUnavailable''"
| "class_name ReplayBaselineIncompatible = ''ReplayBaselineIncompatible''"
| "class_name ReplayComparisonFailed = ''ReplayComparisonFailed''"
| "class_name EvaluationNotFoundError = ''EvaluationNotFoundError''"
| "class_name JobSubmissionValidationError = ''JobSubmissionValidationError''"
| "class_name IdempotencyConflictError = ''IdempotencyConflictError''"
| "class_name JobNotFoundError = ''JobNotFoundError''"
| "class_name InvalidJobRequestError = ''InvalidJobRequestError''"
| "class_name (OtherError n) = n"

text \<open>The classes that an \<open>except ValueError\<close> clause catches.\<close>

definition is_value_error :: "exc_class \<Rightarrow> bool" where
  "is_value_error c =
     (c \<in> {ValueError, DecisionValidationError, JobSubmissionValidationError, InvalidJobRequestError})"

text \<open>\<open>f"'{s}'"\<close>: a value quoted inside a message.\<close>

definition quoted :: "string \<Rightarrow> string" where
  "quoted s = CHR 0x27 # s @ [CHR 0x27]"

section \<open>Fallible results\<close>

text \<open>The sequencing of two statements, the first of which may raise.\<close>

definition res_bind :: "'e + 'a \<Rightarrow> ('a \<Rightarrow> 'e + 'b) \<Rightarrow> 'e + 'b" where
  "res_bind r f = (case r of Inl e \<Rightarrow> Inl e | Inr x \<Rightarrow> f x)"

lemma res_bind_simps [simp]:
  "res_bind (Inl e) f = Inl e"
  "res_bind (Inr x) f = f x"
  by (simp_all add: res_bind_def)

lemma res_bind_Inr_iff:
  "res_bind r f = Inr y \<longleftrightarrow> (\<exists>x. r = Inr x \<and> f x = Inr y)"
  by (cases r) simp_all

lemma res_bind_Inl_iff:
  "res_bind r f = Inl e \<longleftrightarrow> r = Inl e \<or> (\<exists>x. r = Inr x \<and> f x = Inl e)"
  by (cases r) simp_all

lemma res_bind_InrE:
  assumes "res_bind r f = Inr y"
  obtains x where "r = Inr x" "f x = Inr y"
  using assms by (auto simp: res_bind_Inr_iff)

text \<open>One guard in front of the rest of a computation.\<close>

lemma guard_Inr_iff [guard_simps]:
  "(if c then Inl e else r) = Inr x \<longleftrightarrow> \<not> c \<and> r = Inr x"
  by simp

text \<open>
  A sequence of \<open>if c: raise e\<close> statements: the first condition that holds decides.
\<close>

fun first_error :: "(bool \<times> 'e) list \<Rightarrow> 'e option" where
  "first_error [] = None"
| "first_error ((c, e) # gs) = (if c then Some e else first_error gs)"

definition checked :: "(bool \<times> 'e) list \<Rightarrow> 'a \<Rightarrow> 'e + 'a" where
  "checked gs x = (case first_error gs of Some e \<Rightarrow> Inl e | None \<Rightarrow> Inr x)"

lemma first_error_append [guard_simps]:
  "first_error (gs @ hs) =
     (case first_error gs of Some e \<Rightarrow> Some e | None \<Rightarrow> first_error hs)"
  by (induction gs rule: first_error.induct) auto

text \<open>No guard fires.\<close>

abbreviation all_pass :: "(bool \<times> 'e) list \<Rightarrow> bool" where
  "all_pass \<equiv> list_all (\<lambda>g. \<not> fst g)"

lemma first_error_None_iff [guard_simps]:
  "first_error gs = None \<longleftrightarrow> all_pass gs"
  by (induction gs rule: first_error.induct) auto

lemma all_pass_concat_map [guard_simps]:
  "all_pass (concat (map f xs)) \<longleftrightarrow> (\<forall>x \<in> set xs. all_pass (f x))"
  by (induction xs) auto

lemma first_error_Some_in:
  "first_error gs = Some e \<Longrightarrow> (True, e) \<in> set gs"
  by (induction gs rule: first_error.induct) (auto split: if_splits)

lemma checked_Nil [simp]: "checked [] x = Inr x"
  by (simp add: checked_def)

lemma checked_Cons [simp]:
  "checked ((c, e) # gs) x = (if c then Inl e else checked gs x)"
  by (simp add: checked_def)

lemma checked_append [simp]:
  "checked (gs @ hs) x = res_bind (checked gs ()) (\<lambda>_. checked hs x)"
  by (induction gs rule: first_error.induct) simp_all

lemma checked_Inr_iff:
  "checked gs x = Inr y \<longleftrightarrow> y = x \<and> all_pass gs"
  by (auto simp: checked_def first_error_None_iff [symmetric] split: option.splits)

lemma checked_map_Inr_iff:
  "checked (map (\<lambda>a. (c a, e a)) xs) x = Inr y \<longleftrightarrow> y = x \<and> (\<forall>a \<in> set xs. \<not> c a)"
  by (induction xs) auto

text \<open>A list comprehension whose element expression may raise.\<close>

fun map_res :: "('a \<Rightarrow> 'e + 'b) \<Rightarrow> 'a list \<Rightarrow> 'e + 'b list" where
  "map_res f [] = Inr []"
| "map_res f (x # xs) = res_bind (f x) (\<lambda>y. res_bind (map_res f xs) (\<lambda>ys. Inr (y # ys)))"

text \<open>The first failure of a list of checks, as an early \<open>return\<close> inside a loop.\<close>

fun first_Some :: "('a \<Rightarrow> 'b option) \<Rightarrow> 'a list \<Rightarrow> 'b option" where
  "first_Some f [] = None"
| "first_Some f (x # xs) = (case f x of Some y \<Rightarrow> Some y | None \<Rightarrow> first_Some f xs)"

lemma first_Some_None_iff:
  "first_Some f xs = None \<longleftrightarrow> (\<forall>x \<in> set xs. f x = None)"
  by (induction xs) (auto split: option.splits)

section \<open>Dictionaries in insertion order\<close>

text \<open>
  \<open>d[k] = v\<close> overwrites in place when the key is present and appends otherwise, which is what
  \<^const>\<open>AList.update\<close> does; \<open>d.get(k)\<close> is \<^const>\<open>map_of\<close>.
\<close>

type_synonym ('k, 'v) dict = "('k \<times> 'v) list"

abbreviation dict_put :: "'k \<Rightarrow> 'v \<Rightarrow> ('k, 'v) dict \<Rightarrow> ('k, 'v) dict" where
  "dict_put \<equiv> AList.update"

abbreviation dict_get :: "('k, 'v) dict \<Rightarrow> 'k \<Rightarrow> 'v option" where
  "dict_get \<equiv> map_of"

definition dict_values :: "('k, 'v) dict \<Rightarrow> 'v list" where
  "dict_values d = map snd d"

definition dict_ok :: "('k, 'v) dict \<Rightarrow> bool" where
  "dict_ok d = distinct (map fst d)"

text \<open>The dictionary display \<open>{**a, **b}\<close>: the entries of \<open>b\<close> win.\<close>

definition dict_merge :: "('k, 'v) dict \<Rightarrow> ('k, 'v) dict \<Rightarrow> ('k, 'v) dict" where
  "dict_merge a b = fold (\<lambda>(k, v). dict_put k v) b a"

lemma dict_get_put [dict_simps]:
  "dict_get (dict_put k v d) k' = (if k' = k then Some v else dict_get d k')"
  by (simp add: update_conv')

lemma dict_ok_Nil [simp]: "dict_ok []"
  by (simp add: dict_ok_def)

lemma dict_ok_put [simp]: "dict_ok d \<Longrightarrow> dict_ok (dict_put k v d)"
  by (simp add: dict_ok_def distinct_update)

lemma dict_put_keys: "fst ` set (dict_put k v d) = insert k (fst ` set d)"
  by (induction d) auto

lemma dict_get_Some_values:
  "dict_get d k = Some v \<Longrightarrow> v \<in> set (dict_values d)"
  by (force simp: dict_values_def dest!: map_of_SomeD)

lemma dict_values_get:
  assumes "dict_ok d" "v \<in> set (dict_values d)"
  obtains k where "dict_get d k = Some v"
  using assms by (auto simp: dict_values_def dict_ok_def)

lemma dict_values_put:
  assumes "dict_ok d" "v \<in> set (dict_values (dict_put k w d))"
  shows "v = w \<or> (\<exists>k'. k' \<noteq> k \<and> dict_get d k' = Some v)"
proof -
  from assms have "dict_ok (dict_put k w d)" by simp
  then obtain k' where "dict_get (dict_put k w d) k' = Some v"
    using assms(2) by (rule dict_values_get)
  then show ?thesis by (auto simp: dict_get_put split: if_splits)
qed

lemma dict_values_put_in: "w \<in> set (dict_values (dict_put k w d))"
  by (rule dict_get_Some_values [of _ k]) (simp add: dict_get_put)

lemma dict_get_merge:
  "dict_get (dict_merge a b) k =
     (case dict_get (rev b) k of Some v \<Rightarrow> Some v | None \<Rightarrow> dict_get a k)"
  unfolding dict_merge_def
proof (induction b arbitrary: a)
  case Nil
  then show ?case by simp
next
  case (Cons p b)
  obtain k' v where p: "p = (k', v)" by (cases p)
  show ?case
    using Cons.IH [of "dict_put k' v a"]
    by (auto simp: p dict_get_put map_add_def split: option.splits)
qed

section \<open>Python truth values and optional strings\<close>

text \<open>\<open>a or b\<close> on optional strings: an absent or empty \<open>a\<close> is falsy.\<close>

definition str_or :: "string option \<Rightarrow> string option \<Rightarrow> string option" where
  "str_or a b = (if a = None \<or> a = Some [] then b else a)"

text \<open>\<open>if a:\<close> on an optional string.\<close>

definition truthy :: "string option \<Rightarrow> bool" where
  "truthy a = (a \<noteq> None \<and> a \<noteq> Some [])"

definition opt_or :: "'a option \<Rightarrow> 'a \<Rightarrow> 'a" where
  "opt_or a b = (case a of None \<Rightarrow> b | Some x \<Rightarrow> x)"

lemma opt_or_simps [simp]: "opt_or None b = b" "opt_or (Some a) b = a"
  by (simp_all add: opt_or_def)

section \<open>Stable sorting\<close>

text \<open>
  \<open>sorted(xs, key=f)\<close> is stable, as \<^const>\<open>sort_key\<close> is; \<open>sorted(..., reverse=True)\<close>
  keeps equal elements in their original order too.
\<close>

definition sort_key_reverse :: "('a \<Rightarrow> 'k::linorder) \<Rightarrow> 'a list \<Rightarrow> 'a list" where
  "sort_key_reverse f xs = rev (sort_key f (rev xs))"

lemma set_sort_key_reverse [simp]: "set (sort_key_reverse f xs) = set xs"
  by (simp add: sort_key_reverse_def)

lemma find_filter_hd: "List.find P xs = (case filter P xs of [] \<Rightarrow> None | x # _ \<Rightarrow> Some x)"
  by (induction xs) auto

lemma find_Some_set: "List.find P xs = Some x \<Longrightarrow> x \<in> set xs \<and> P x"
  by (induction xs) (auto split: if_splits)

lemma find_None_iff_all: "List.find P xs = None \<longleftrightarrow> (\<forall>x \<in> set xs. \<not> P x)"
  by (induction xs) auto

end
