(* ===== verification/Py_Strings.thy ===== *)
theory Py_Strings
  imports Gov_Prelude
begin

text \<open>
  The part of Python's \<open>str\<close> type that the control plane uses. A string is a list of
  characters and a character is one of the code points 0 to 255; code points above that are
  outside the model. White space, lower case and ordering follow CPython on this range.
  \<open>re.fullmatch\<close> on the identifier and digest patterns of the contracts is written out as a
  predicate on the characters.
\<close>

section \<open>Characters\<close>

definition code_point :: "char \<Rightarrow> nat" where
  "code_point c = of_char c"

definition is_lower_hex :: "char \<Rightarrow> bool" where
  "is_lower_hex c = (c \<in> set ''0123456789abcdef'')"

definition is_ascii_digit :: "char \<Rightarrow> bool" where
  "is_ascii_digit c = (48 \<le> code_point c \<and> code_point c \<le> 57)"

definition is_ascii_upper :: "char \<Rightarrow> bool" where
  "is_ascii_upper c = (65 \<le> code_point c \<and> code_point c \<le> 90)"

definition is_ascii_lower :: "char \<Rightarrow> bool" where
  "is_ascii_lower c = (97 \<le> code_point c \<and> code_point c \<le> 122)"

definition is_ascii_alnum :: "char \<Rightarrow> bool" where
  "is_ascii_alnum c = (is_ascii_digit c \<or> is_ascii_upper c \<or> is_ascii_lower c)"

text \<open>\<open>str.isspace\<close> on one character.\<close>

definition py_isspace :: "char \<Rightarrow> bool" where
  "py_isspace c =
     (let n = code_point c in (9 \<le> n \<and> n \<le> 13) \<or> (28 \<le> n \<and> n \<le> 32) \<or> n = 133 \<or> n = 160)"

text \<open>\<open>str.lower\<close> on one character (A to Z, and the capital letters of Latin-1).\<close>

definition lower_char :: "char \<Rightarrow> char" where
  "lower_char c =
     (let n = code_point c in
      if (65 \<le> n \<and> n \<le> 90) \<or> (192 \<le> n \<and> n \<le> 222 \<and> n \<noteq> 215) then char_of (n + 32) else c)"

section \<open>String operations\<close>

definition py_lstrip :: "string \<Rightarrow> string" where
  "py_lstrip s = dropWhile py_isspace s"

definition py_strip :: "string \<Rightarrow> string" where
  "py_strip s = rev (py_lstrip (rev (py_lstrip s)))"

text \<open>\<open>not s.strip()\<close>.\<close>

definition blank :: "string \<Rightarrow> bool" where
  "blank s = (py_strip s = [])"

definition py_lower :: "string \<Rightarrow> string" where
  "py_lower s = map lower_char s"

text \<open>
  \<open>str.upper\<close>: the sharp s becomes two letters; the micro sign and the y with diaeresis, whose
  capitals lie outside Latin-1, are kept.
\<close>

definition upper_char :: "char \<Rightarrow> string" where
  "upper_char c =
     (let n = code_point c in
      if n = 223 then ''SS''
      else if (97 \<le> n \<and> n \<le> 122) \<or> (224 \<le> n \<and> n \<le> 254 \<and> n \<noteq> 247) then [char_of (n - 32)] else [c])"

definition py_upper :: "string \<Rightarrow> string" where
  "py_upper s = concat (map upper_char s)"

text \<open>\<open>s.replace(a, b)\<close> for one-character \<open>a\<close> and \<open>b\<close>.\<close>

definition replace_char :: "char \<Rightarrow> char \<Rightarrow> string \<Rightarrow> string" where
  "replace_char a b s = map (\<lambda>c. if c = a then b else c) s"

text \<open>\<open>s.split(c)\<close> for a one-character separator.\<close>

fun py_split :: "char \<Rightarrow> string \<Rightarrow> string list" where
  "py_split c [] = [[]]"
| "py_split c (x # xs) =
     (if x = c then [] # py_split c xs
      else (case py_split c xs of [] \<Rightarrow> [[x]] | y # ys \<Rightarrow> (x # y) # ys))"

definition py_startswith :: "string \<Rightarrow> string \<Rightarrow> bool" where
  "py_startswith s p = (take (length p) s = p)"

text \<open>\<open>a in s\<close> on strings.\<close>

fun is_substring :: "string \<Rightarrow> string \<Rightarrow> bool" where
  "is_substring a [] = (a = [])"
| "is_substring a (x # xs) = (py_startswith (x # xs) a \<or> is_substring a xs)"

lemma blank_iff: "blank s \<longleftrightarrow> (\<forall>c \<in> set s. py_isspace c)"
proof -
  have "blank s \<longleftrightarrow> (\<forall>c \<in> set (dropWhile py_isspace s). py_isspace c)"
    by (simp add: blank_def py_strip_def py_lstrip_def)
  moreover have "(\<forall>c \<in> set (dropWhile py_isspace s). py_isspace c) \<longleftrightarrow> (\<forall>c \<in> set s. py_isspace c)"
  proof (induction s)
    case Nil
    then show ?case by simp
  next
    case (Cons c s)
    then show ?case by (cases "py_isspace c") auto
  qed
  ultimately show ?thesis by simp
qed

lemma blank_Nil [simp]: "blank []"
  by (simp add: blank_iff)

lemma not_blank_not_Nil: "\<not> blank s \<Longrightarrow> s \<noteq> []"
  by auto

lemma py_split_not_Nil [simp]: "py_split c s \<noteq> []"
  by (cases s) (auto split: list.splits)

text \<open>
  The first segment of a split: a string splits into one segment when the separator does not
  occur, and otherwise starts with its first segment followed by the separator.
\<close>

lemma py_split_hd:
  "py_split c s = seg # rest \<Longrightarrow>
     (rest = [] \<and> s = seg) \<or> (rest \<noteq> [] \<and> py_startswith s (seg @ [c]))"
proof (induction s arbitrary: seg rest)
  case Nil
  then show ?case by simp
next
  case (Cons x xs)
  obtain y ys where split: "py_split c xs = y # ys"
    by (cases "py_split c xs") auto
  show ?case
  proof (cases "x = c")
    case True
    with Cons.prems show ?thesis
      by (auto simp: py_startswith_def)
  next
    case False
    with Cons.prems split have "seg = x # y" "rest = ys" by auto
    with Cons.IH [OF split] show ?thesis
      by (auto simp: py_startswith_def)
  qed
qed

section \<open>The patterns of the contracts\<close>

text \<open>
  \<open>[A-Za-z0-9][A-Za-z0-9._:-]{0,n}\<close>, matched against the whole string. The trailing
  \<open>$\<close> of the patterns adds nothing under \<open>fullmatch\<close>.
\<close>

definition identifier_char :: "char \<Rightarrow> bool" where
  "identifier_char c = (is_ascii_alnum c \<or> c \<in> set ''._:-'')"

definition match_identifier :: "nat \<Rightarrow> string \<Rightarrow> bool" where
  "match_identifier n s =
     (case s of [] \<Rightarrow> False
      | c # cs \<Rightarrow> is_ascii_alnum c \<and> length cs \<le> n \<and> list_all identifier_char cs)"

text \<open>\<open>[0-9a-f]{64}\<close> and \<open>sha256:[0-9a-f]{64}\<close>.\<close>

definition match_hex64 :: "string \<Rightarrow> bool" where
  "match_hex64 s = (length s = 64 \<and> list_all is_lower_hex s)"

definition match_sha256 :: "string \<Rightarrow> bool" where
  "match_sha256 s = (py_startswith s ''sha256:'' \<and> match_hex64 (drop 7 s))"

lemma match_identifier_bounds:
  "match_identifier n s \<Longrightarrow> s \<noteq> [] \<and> length s \<le> Suc n"
  by (auto simp: match_identifier_def split: list.splits)

lemma is_lower_hex_alnum: "is_lower_hex c \<Longrightarrow> is_ascii_alnum c"
  unfolding is_lower_hex_def
  by (auto simp: is_ascii_alnum_def is_ascii_digit_def is_ascii_lower_def code_point_def)

lemma match_hex64_identifier:
  assumes "match_hex64 s" and "63 \<le> n"
  shows "match_identifier n s"
proof (cases s)
  case Nil
  with assms show ?thesis by (simp add: match_hex64_def)
next
  case (Cons c cs)
  with assms have "list_all is_lower_hex (c # cs)" "length cs \<le> n"
    by (auto simp: match_hex64_def)
  then show ?thesis
    by (auto simp: match_identifier_def Cons identifier_char_def list_all_iff
        intro: is_lower_hex_alnum)
qed

lemma match_sha256_append: "match_hex64 h \<Longrightarrow> match_sha256 (''sha256:'' @ h)"
  by (simp add: match_sha256_def py_startswith_def)

lemma alnum_not_space: "is_ascii_alnum c \<Longrightarrow> \<not> py_isspace c"
  by (auto simp: is_ascii_alnum_def is_ascii_digit_def is_ascii_upper_def is_ascii_lower_def
      py_isspace_def Let_def)

lemma match_identifier_not_blank: "match_identifier n s \<Longrightarrow> \<not> blank s"
  by (auto simp: match_identifier_def blank_iff alnum_not_space split: list.splits)

section \<open>Decimal numerals\<close>

definition digit_char :: "nat \<Rightarrow> char" where
  "digit_char d = char_of (48 + d)"

fun nat_digits :: "nat \<Rightarrow> string" where
  "nat_digits n = (if n < 10 then [digit_char n] else nat_digits (n div 10) @ [digit_char (n mod 10)])"

declare nat_digits.simps [simp del]

text \<open>\<open>str(i)\<close> on an integer.\<close>

definition py_str_int :: "int \<Rightarrow> string" where
  "py_str_int i = (if i < 0 then ''-'' @ nat_digits (nat (- i)) else nat_digits (nat i))"

definition digit_val :: "char \<Rightarrow> nat" where
  "digit_val c = code_point c - 48"

text \<open>The value of a list of decimal digits, most significant first.\<close>

definition digits_val :: "string \<Rightarrow> nat" where
  "digits_val s = foldl (\<lambda>n c. 10 * n + digit_val c) 0 s"

text \<open>
  The digits of \<open>int(s)\<close>: at least one digit, with single underscores allowed between digits.
\<close>

fun int_digits :: "string \<Rightarrow> string option" where
  "int_digits [] = None"
| "int_digits [c] = (if is_ascii_digit c then Some [c] else None)"
| "int_digits (c # d # s) =
     (if \<not> is_ascii_digit c then None
      else if d = CHR ''_'' then map_option ((#) c) (int_digits s)
      else map_option ((#) c) (int_digits (d # s)))"

text \<open>\<open>int(s)\<close> on a string: surrounding white space and one sign are accepted.\<close>

definition py_int :: "string \<Rightarrow> int option" where
  "py_int s =
     (case py_strip s of [] \<Rightarrow> None
      | c # cs \<Rightarrow>
          if c = CHR ''-'' then map_option (\<lambda>ds. - int (digits_val ds)) (int_digits cs)
          else if c = CHR ''+'' then map_option (\<lambda>ds. int (digits_val ds)) (int_digits cs)
          else map_option (\<lambda>ds. int (digits_val ds)) (int_digits (c # cs)))"

lemma digits_val_snoc: "digits_val (s @ [c]) = 10 * digits_val s + digit_val c"
  by (simp add: digits_val_def)

lemma code_point_digit_char: "d < 10 \<Longrightarrow> code_point (digit_char d) = 48 + d"
  by (simp add: code_point_def digit_char_def)

lemma digit_val_digit_char [simp]: "d < 10 \<Longrightarrow> digit_val (digit_char d) = d"
  by (simp add: digit_val_def code_point_digit_char)

lemma is_ascii_digit_digit_char [simp]: "d < 10 \<Longrightarrow> is_ascii_digit (digit_char d)"
  by (simp add: is_ascii_digit_def code_point_digit_char)

lemma digits_val_nat_digits [simp]: "digits_val (nat_digits n) = n"
proof (induction n rule: nat_digits.induct)
  case (1 n)
  show ?case
  proof (cases "n < 10")
    case True
    then show ?thesis by (subst nat_digits.simps) (simp add: digits_val_def)
  next
    case False
    with 1 show ?thesis by (subst nat_digits.simps) (simp add: digits_val_snoc)
  qed
qed

lemma nat_digits_all_digits: "list_all is_ascii_digit (nat_digits n)"
proof (induction n rule: nat_digits.induct)
  case (1 n)
  show ?case
  proof (cases "n < 10")
    case True
    then show ?thesis by (subst nat_digits.simps) simp
  next
    case False
    with 1 show ?thesis by (subst nat_digits.simps) simp
  qed
qed

lemma nat_digits_not_Nil [simp]: "nat_digits n \<noteq> []"
  by (subst nat_digits.simps) simp

lemma int_digits_all_digits:
  "s \<noteq> [] \<Longrightarrow> list_all is_ascii_digit s \<Longrightarrow> int_digits s = Some s"
proof (induction s rule: int_digits.induct)
  case (3 c d s)
  then have "is_ascii_digit d" by simp
  then have "d \<noteq> CHR ''_''"
    by (auto simp: is_ascii_digit_def code_point_def)
  with 3 show ?case by simp
qed auto

lemma digit_not_space: "is_ascii_digit c \<Longrightarrow> \<not> py_isspace c"
  by (simp add: alnum_not_space is_ascii_alnum_def)

lemma py_strip_digits: "s \<noteq> [] \<Longrightarrow> list_all is_ascii_digit s \<Longrightarrow> py_strip s = s"
proof -
  assume s: "s \<noteq> []" "list_all is_ascii_digit s"
  then obtain c cs where c: "s = c # cs" "\<not> py_isspace c"
    by (cases s) (auto simp: digit_not_space)
  from s obtain d ds where d: "rev s = d # ds" "\<not> py_isspace d"
    by (cases "rev s") (auto simp: digit_not_space list_all_iff)
  from c have "py_lstrip s = s" by (simp add: py_lstrip_def)
  moreover from d have "py_lstrip (rev s) = rev s" by (simp add: py_lstrip_def)
  ultimately show ?thesis by (simp add: py_strip_def)
qed

text \<open>Reading back a printed natural number gives the number.\<close>

lemma py_int_nat_digits: "py_int (nat_digits n) = Some (int n)"
proof -
  have all: "list_all is_ascii_digit (nat_digits n)" by (rule nat_digits_all_digits)
  obtain c cs where c: "nat_digits n = c # cs"
    by (cases "nat_digits n") simp_all
  with all have "is_ascii_digit c" by simp
  then have "c \<noteq> CHR ''-''" "c \<noteq> CHR ''+''"
    by (auto simp: is_ascii_digit_def code_point_def)
  moreover have "py_strip (nat_digits n) = c # cs"
    using all by (simp add: py_strip_digits c [symmetric])
  moreover have "int_digits (c # cs) = Some (c # cs)"
    using all by (simp add: int_digits_all_digits c [symmetric])
  moreover have "digits_val (c # cs) = n"
    using digits_val_nat_digits [of n] by (simp only: c)
  ultimately show ?thesis
    by (simp add: py_int_def)
qed

lemma py_int_str_int: "py_int (py_str_int i) = Some i"
proof (cases "i < 0")
  case False
  then show ?thesis by (simp add: py_str_int_def py_int_nat_digits)
next
  case True
  define ds where "ds = nat_digits (nat (- i))"
  have ds: "ds \<noteq> []" "list_all is_ascii_digit ds"
    by (simp_all add: ds_def nat_digits_all_digits)
  then obtain d r where d: "rev ds = d # r" "\<not> py_isspace d"
    by (cases "rev ds") (auto simp: digit_not_space list_all_iff)
  have "\<not> py_isspace CHR ''-''" by (simp add: py_isspace_def code_point_def)
  then have "py_strip (CHR ''-'' # ds) = CHR ''-'' # ds"
    using d by (simp add: py_strip_def py_lstrip_def rev_swap)
  moreover have "int (digits_val ds) = - i"
    using True by (simp add: ds_def)
  ultimately show ?thesis
    using True ds by (simp add: py_str_int_def py_int_def ds_def [symmetric] int_digits_all_digits)
qed

end
