(* ===== verification/Py_Sha256.thy ===== *)
theory Py_Sha256
  imports Py_Strings "HOL-Library.Word"
begin

unbundle bit_operations_syntax

text \<open>
  \<open>hashlib.sha256(s.encode("utf-8")).hexdigest()\<close>. Every fingerprint, contract digest and
  deterministic event identity of the control plane is such a digest. The function is written
  out (FIPS 180-4) over 32-bit words, so that the digests of the model are the digests of the
  program; what the proofs use of it is its shape, 64 lower-case hexadecimal digits.
\<close>

type_synonym word32 = "32 word"

section \<open>Constants\<close>

definition sha_k :: "word32 list" where
  "sha_k =
    [0x428A2F98, 0x71374491, 0xB5C0FBCF, 0xE9B5DBA5, 0x3956C25B, 0x59F111F1,
     0x923F82A4, 0xAB1C5ED5, 0xD807AA98, 0x12835B01, 0x243185BE, 0x550C7DC3,
     0x72BE5D74, 0x80DEB1FE, 0x9BDC06A7, 0xC19BF174, 0xE49B69C1, 0xEFBE4786,
     0x0FC19DC6, 0x240CA1CC, 0x2DE92C6F, 0x4A7484AA, 0x5CB0A9DC, 0x76F988DA,
     0x983E5152, 0xA831C66D, 0xB00327C8, 0xBF597FC7, 0xC6E00BF3, 0xD5A79147,
     0x06CA6351, 0x14292967, 0x27B70A85, 0x2E1B2138, 0x4D2C6DFC, 0x53380D13,
     0x650A7354, 0x766A0ABB, 0x81C2C92E, 0x92722C85, 0xA2BFE8A1, 0xA81A664B,
     0xC24B8B70, 0xC76C51A3, 0xD192E819, 0xD6990624, 0xF40E3585, 0x106AA070,
     0x19A4C116, 0x1E376C08, 0x2748774C, 0x34B0BCB5, 0x391C0CB3, 0x4ED8AA4A,
     0x5B9CCA4F, 0x682E6FF3, 0x748F82EE, 0x78A5636F, 0x84C87814, 0x8CC70208,
     0x90BEFFFA, 0xA4506CEB, 0xBEF9A3F7, 0xC67178F2]"

definition sha_h0 :: "word32 list" where
  "sha_h0 = [0x6A09E667, 0xBB67AE85, 0x3C6EF372, 0xA54FF53A, 0x510E527F, 0x9B05688C, 0x1F83D9AB, 0x5BE0CD19]"

section \<open>Message schedule and compression\<close>

definition ch :: "word32 \<Rightarrow> word32 \<Rightarrow> word32 \<Rightarrow> word32" where
  "ch x y z = (x AND y) XOR (NOT x AND z)"

definition maj :: "word32 \<Rightarrow> word32 \<Rightarrow> word32 \<Rightarrow> word32" where
  "maj x y z = (x AND y) XOR (x AND z) XOR (y AND z)"

definition big_sigma0 :: "word32 \<Rightarrow> word32" where
  "big_sigma0 x = word_rotr 2 x XOR word_rotr 13 x XOR word_rotr 22 x"

definition big_sigma1 :: "word32 \<Rightarrow> word32" where
  "big_sigma1 x = word_rotr 6 x XOR word_rotr 11 x XOR word_rotr 25 x"

definition small_sigma0 :: "word32 \<Rightarrow> word32" where
  "small_sigma0 x = word_rotr 7 x XOR word_rotr 18 x XOR drop_bit 3 x"

definition small_sigma1 :: "word32 \<Rightarrow> word32" where
  "small_sigma1 x = word_rotr 17 x XOR word_rotr 19 x XOR drop_bit 10 x"

text \<open>The schedule, newest word first: each step looks 2, 7, 15 and 16 words back.\<close>

fun schedule_rev :: "nat \<Rightarrow> word32 list \<Rightarrow> word32 list" where
  "schedule_rev 0 ws = ws"
| "schedule_rev (Suc n) ws =
     schedule_rev n
       ((small_sigma1 (ws ! 1) + ws ! 6 + small_sigma0 (ws ! 14) + ws ! 15) # ws)"

definition schedule :: "word32 list \<Rightarrow> word32 list" where
  "schedule block = rev (schedule_rev 48 (rev block))"

fun sha_round :: "word32 list \<Rightarrow> word32 \<times> word32 \<Rightarrow> word32 list" where
  "sha_round [a, b, c, d, e, f, g, h] (k, w) =
     (let t1 = h + big_sigma1 e + ch e f g + k + w;
          t2 = big_sigma0 a + maj a b c
      in [t1 + t2, a, b, c, d + t1, e, f, g])"
| "sha_round st _ = st"

definition compress :: "word32 list \<Rightarrow> word32 list \<Rightarrow> word32 list" where
  "compress st block = map2 (+) st (foldl sha_round st (zip sha_k (schedule block)))"

section \<open>Padding and encoding\<close>

text \<open>\<open>str.encode("utf-8")\<close> on code points below 256.\<close>

definition utf8_char :: "char \<Rightarrow> int list" where
  "utf8_char c =
     (let n = int (code_point c) in if n < 128 then [n] else [192 + n div 64, 128 + n mod 64])"

definition utf8 :: "string \<Rightarrow> int list" where
  "utf8 s = concat (map utf8_char s)"

text \<open>The big-endian bytes of a number.\<close>

definition be_bytes :: "nat \<Rightarrow> int \<Rightarrow> int list" where
  "be_bytes w n = map (\<lambda>i. n div 256 ^ (w - 1 - i) mod 256) [0..<w]"

definition sha_pad :: "int list \<Rightarrow> int list" where
  "sha_pad bs =
     bs @ [128] @ replicate ((119 - length bs mod 64) mod 64) 0 @ be_bytes 8 (8 * int (length bs))"

fun words_of_bytes :: "int list \<Rightarrow> word32 list" where
  "words_of_bytes (a # b # c # d # bs) =
     word_of_int (((a * 256 + b) * 256 + c) * 256 + d) # words_of_bytes bs"
| "words_of_bytes _ = []"

function sha_blocks :: "word32 list \<Rightarrow> word32 list list" where
  "sha_blocks ws = (if length ws < 16 then [] else take 16 ws # sha_blocks (drop 16 ws))"
  by pat_completeness auto
termination
  by (relation "measure length") auto

declare sha_blocks.simps [simp del]

definition sha256_words :: "int list \<Rightarrow> word32 list" where
  "sha256_words bs = foldl compress sha_h0 (sha_blocks (words_of_bytes (sha_pad bs)))"

definition hex_digit :: "int \<Rightarrow> char" where
  "hex_digit n = ''0123456789abcdef'' ! nat (n mod 16)"

definition word_hex :: "word32 \<Rightarrow> string" where
  "word_hex w = map (\<lambda>i. hex_digit (uint w div 16 ^ (7 - i))) [0..<8]"

definition sha256_hex :: "string \<Rightarrow> string" where
  "sha256_hex s = concat (map word_hex (sha256_words (utf8 s)))"

section \<open>The shape of a digest\<close>

lemma length_sha_round [simp]: "length (sha_round st p) = length st"
  by (cases "(st, p)" rule: sha_round.cases) (simp_all add: Let_def)

lemma length_foldl_sha_round [simp]: "length (foldl sha_round st ps) = length st"
  by (induction ps arbitrary: st) simp_all

lemma length_compress [simp]: "length (compress st block) = length st"
  by (simp add: compress_def)

lemma length_foldl_compress [simp]: "length (foldl compress st bs) = length st"
  by (induction bs arbitrary: st) simp_all

lemma length_sha256_words [simp]: "length (sha256_words bs) = 8"
  by (simp add: sha256_words_def sha_h0_def)

lemma is_lower_hex_hex_digit [simp]: "is_lower_hex (hex_digit n)"
proof -
  have "''0123456789abcdef'' ! nat (n mod 16) \<in> set ''0123456789abcdef''"
    by (rule nth_mem) (simp add: nat_less_iff)
  then show ?thesis unfolding is_lower_hex_def hex_digit_def .
qed

lemma length_word_hex [simp]: "length (word_hex w) = 8"
  by (simp add: word_hex_def)

lemma length_concat_word_hex: "length (concat (map word_hex ws)) = 8 * length ws"
  by (induction ws) simp_all

lemma match_hex64_sha256 [simp]: "match_hex64 (sha256_hex s)"
  by (simp add: match_hex64_def sha256_hex_def length_concat_word_hex list_all_iff word_hex_def)

lemma sha256_hex_not_Nil [simp]: "sha256_hex s \<noteq> []"
  using match_hex64_sha256 [of s] by (auto simp: match_hex64_def)

end
