(* ===== verification/Py_Values.thy ===== *)
theory Py_Values
  imports Py_Strings Complex_Main
begin

text \<open>
  The values that travel through policies, evidence, event attributes and job inputs: what
  \<open>json\<close> can carry. A float is a finite rational, which is exact for comparison and
  equality of finite doubles; infinities and NaN are outside the model. A dictionary is an
  association list with string keys. The theory gives Python's \<open>==\<close>, its ordering
  (\<open>None\<close> where the operator raises \<open>TypeError\<close>), membership, and
  \<open>json.dumps(value, sort_keys=True, separators=(",", ":"))\<close>.
\<close>

datatype pyval =
    PNone
  | PBool bool
  | PInt int
  | PFloat rat
  | PStr string
  | PList "pyval list"
  | PDict "(string \<times> pyval) list"

section \<open>Equality\<close>

text \<open>Booleans are integers in Python: \<open>True == 1\<close>.\<close>

fun num_of :: "pyval \<Rightarrow> rat option" where
  "num_of (PBool b) = Some (if b then 1 else 0)"
| "num_of (PInt i) = Some (of_int i)"
| "num_of (PFloat r) = Some r"
| "num_of _ = None"

fun py_eq :: "pyval \<Rightarrow> pyval \<Rightarrow> bool"
  and py_eq_list :: "pyval list \<Rightarrow> pyval list \<Rightarrow> bool"
  and py_eq_dict :: "(string \<times> pyval) list \<Rightarrow> (string \<times> pyval) list \<Rightarrow> bool" where
  "py_eq PNone w = (w = PNone)"
| "py_eq (PBool b) w = (num_of w = num_of (PBool b))"
| "py_eq (PInt i) w = (num_of w = num_of (PInt i))"
| "py_eq (PFloat r) w = (num_of w = num_of (PFloat r))"
| "py_eq (PStr s) w = (w = PStr s)"
| "py_eq (PList xs) w = (case w of PList ys \<Rightarrow> py_eq_list xs ys | _ \<Rightarrow> False)"
| "py_eq (PDict d) w = (case w of PDict e \<Rightarrow> length d = length e \<and> py_eq_dict d e | _ \<Rightarrow> False)"
| "py_eq_list [] ys = (ys = [])"
| "py_eq_list (x # xs) ys = (case ys of [] \<Rightarrow> False | y # zs \<Rightarrow> py_eq x y \<and> py_eq_list xs zs)"
| "py_eq_dict [] e = True"
| "py_eq_dict ((k, v) # d) e =
     (case map_of e k of None \<Rightarrow> False | Some w \<Rightarrow> py_eq v w \<and> py_eq_dict d e)"

text \<open>The dictionaries of a value have distinct keys, at every depth.\<close>

fun pyval_ok :: "pyval \<Rightarrow> bool"
  and pyval_ok_list :: "pyval list \<Rightarrow> bool"
  and pyval_ok_dict :: "(string \<times> pyval) list \<Rightarrow> bool" where
  "pyval_ok (PList xs) = pyval_ok_list xs"
| "pyval_ok (PDict d) = (distinct (map fst d) \<and> pyval_ok_dict d)"
| "pyval_ok v = True"
| "pyval_ok_list [] = True"
| "pyval_ok_list (x # xs) = (pyval_ok x \<and> pyval_ok_list xs)"
| "pyval_ok_dict [] = True"
| "pyval_ok_dict ((k, v) # d) = (pyval_ok v \<and> pyval_ok_dict d)"

lemma py_eq_refl_aux:
  "pyval_ok v \<Longrightarrow> py_eq v v"
  "pyval_ok_list xs \<Longrightarrow> py_eq_list xs xs"
  "pyval_ok_dict d \<Longrightarrow> \<forall>e. (\<forall>k w. (k, w) \<in> set d \<longrightarrow> map_of e k = Some w) \<longrightarrow> py_eq_dict d e"
proof (induction v and xs and d rule: pyval_ok_pyval_ok_list_pyval_ok_dict.induct)
  case (2 d)
  then show ?case by (simp add: map_of_is_SomeI)
qed auto

lemma py_eq_refl [simp]: "pyval_ok v \<Longrightarrow> py_eq v v"
  by (rule py_eq_refl_aux)

lemma py_eq_PStr [simp]: "py_eq v (PStr s) \<longleftrightarrow> v = PStr s"
  by (cases v) auto

section \<open>Ordering\<close>

datatype cmp_op = CmpGt | CmpGe | CmpLt | CmpLe

definition cmp_by :: "cmp_op \<Rightarrow> 'a::linorder \<Rightarrow> 'a \<Rightarrow> bool" where
  "cmp_by op a b =
     (case op of CmpGt \<Rightarrow> a > b | CmpGe \<Rightarrow> a \<ge> b | CmpLt \<Rightarrow> a < b | CmpLe \<Rightarrow> a \<le> b)"

text \<open>
  Numbers compare by value, strings by code point, lists at their first difference; every
  other pair of operands raises \<open>TypeError\<close>.
\<close>

fun py_cmp :: "cmp_op \<Rightarrow> pyval \<Rightarrow> pyval \<Rightarrow> bool option"
  and py_cmp_list :: "cmp_op \<Rightarrow> pyval list \<Rightarrow> pyval list \<Rightarrow> bool option" where
  "py_cmp op (PStr s) w = (case w of PStr t \<Rightarrow> Some (cmp_by op s t) | _ \<Rightarrow> None)"
| "py_cmp op (PList xs) w = (case w of PList ys \<Rightarrow> py_cmp_list op xs ys | _ \<Rightarrow> None)"
| "py_cmp op v w =
     (case (num_of v, num_of w) of (Some a, Some b) \<Rightarrow> Some (cmp_by op a b) | _ \<Rightarrow> None)"
| "py_cmp_list op [] ys = Some (cmp_by op 0 (length ys))"
| "py_cmp_list op (x # xs) ys =
     (case ys of [] \<Rightarrow> Some (cmp_by op (1::nat) 0)
      | y # zs \<Rightarrow> if py_eq x y then py_cmp_list op xs zs else py_cmp op x y)"

section \<open>Membership\<close>

text \<open>\<open>v in c\<close>; \<open>None\<close> where it raises \<open>TypeError\<close>.\<close>

fun py_in :: "pyval \<Rightarrow> pyval \<Rightarrow> bool option" where
  "py_in v (PList ys) = Some (\<exists>y \<in> set ys. py_eq y v)"
| "py_in v (PStr t) = (case v of PStr s \<Rightarrow> Some (is_substring s t) | _ \<Rightarrow> None)"
| "py_in v (PDict d) =
     (case v of PStr s \<Rightarrow> Some (s \<in> fst ` set d) | PList _ \<Rightarrow> None | PDict _ \<Rightarrow> None
      | _ \<Rightarrow> Some False)"
| "py_in v _ = None"

section \<open>Access\<close>

fun as_str :: "pyval \<Rightarrow> string option" where
  "as_str (PStr s) = Some s"
| "as_str _ = None"

fun as_dict :: "pyval \<Rightarrow> (string \<times> pyval) list option" where
  "as_dict (PDict d) = Some d"
| "as_dict _ = None"

fun as_list :: "pyval \<Rightarrow> pyval list option" where
  "as_list (PList xs) = Some xs"
| "as_list _ = None"

text \<open>An optional string as a value, and \<open>d.get(k)\<close> with \<open>None\<close> for an absent key.\<close>

definition of_opt_str :: "string option \<Rightarrow> pyval" where
  "of_opt_str x = (case x of None \<Rightarrow> PNone | Some s \<Rightarrow> PStr s)"

definition pget :: "(string \<times> pyval) list \<Rightarrow> string \<Rightarrow> pyval" where
  "pget d k = opt_or (map_of d k) PNone"

lemma of_opt_str_simps [simp]:
  "of_opt_str None = PNone" "of_opt_str (Some s) = PStr s"
  by (simp_all add: of_opt_str_def)

section \<open>Canonical JSON\<close>

text \<open>
  \<open>repr\<close> of a float is a parameter: it is the shortest decimal that reads back as the same
  double, an algorithm of the interpreter.
\<close>

definition hex4 :: "nat \<Rightarrow> string" where
  "hex4 n = map (\<lambda>i. ''0123456789abcdef'' ! (n div 16 ^ (3 - i) mod 16)) [0..<4]"

definition json_char :: "char \<Rightarrow> string" where
  "json_char c =
     (let n = code_point c in
      if n = 34 then [char_of (92::nat), char_of (34::nat)]
      else if n = 92 then [char_of (92::nat), char_of (92::nat)]
      else if n = 10 then [char_of (92::nat), CHR ''n'']
      else if n = 13 then [char_of (92::nat), CHR ''r'']
      else if n = 9 then [char_of (92::nat), CHR ''t'']
      else if n = 12 then [char_of (92::nat), CHR ''f'']
      else if n = 8 then [char_of (92::nat), CHR ''b'']
      else if n < 32 \<or> 126 < n then [char_of (92::nat), CHR ''u''] @ hex4 n
      else [c])"

definition json_str :: "string \<Rightarrow> string" where
  "json_str s = [char_of (34::nat)] @ concat (map json_char s) @ [char_of (34::nat)]"

fun join_with :: "string \<Rightarrow> string list \<Rightarrow> string" where
  "join_with sep [] = []"
| "join_with sep [x] = x"
| "join_with sep (x # y # ys) = x @ sep @ join_with sep (y # ys)"

fun json_dumps :: "(rat \<Rightarrow> string) \<Rightarrow> pyval \<Rightarrow> string"
  and json_elems :: "(rat \<Rightarrow> string) \<Rightarrow> pyval list \<Rightarrow> string list"
  and json_items :: "(rat \<Rightarrow> string) \<Rightarrow> (string \<times> pyval) list \<Rightarrow> (string \<times> string) list" where
  "json_dumps fr PNone = ''null''"
| "json_dumps fr (PBool b) = (if b then ''true'' else ''false'')"
| "json_dumps fr (PInt i) = py_str_int i"
| "json_dumps fr (PFloat r) = fr r"
| "json_dumps fr (PStr s) = json_str s"
| "json_dumps fr (PList xs) = ''['' @ join_with '','' (json_elems fr xs) @ '']''"
| "json_dumps fr (PDict d) =
     ''{'' @ join_with '','' (map (\<lambda>(k, t). json_str k @ '':'' @ t)
                               (sort_key fst (json_items fr d))) @ ''}''"
| "json_elems fr [] = []"
| "json_elems fr (x # xs) = json_dumps fr x # json_elems fr xs"
| "json_items fr [] = []"
| "json_items fr ((k, v) # d) = (k, json_dumps fr v) # json_items fr d"

section \<open>Printing\<close>

text \<open>\<open>repr\<close> of a string: double quotes only when it holds a single quote and no double one.\<close>

definition repr_char :: "char \<Rightarrow> char \<Rightarrow> string" where
  "repr_char q c =
     (let n = code_point c in
      if n = 92 then [c, c]
      else if c = q then [char_of (92::nat), c]
      else if n = 10 then [char_of (92::nat), CHR ''n'']
      else if n = 13 then [char_of (92::nat), CHR ''r'']
      else if n = 9 then [char_of (92::nat), CHR ''t'']
      else if n < 32 \<or> (127 \<le> n \<and> n \<le> 160) \<or> n = 173
      then [char_of (92::nat), CHR ''x''] @ drop 2 (hex4 n)
      else [c])"

definition repr_str :: "string \<Rightarrow> string" where
  "repr_str s =
     (let q = (if CHR 0x27 \<in> set s \<and> CHR 0x22 \<notin> set s then CHR 0x22 else CHR 0x27)
      in q # concat (map (repr_char q) s) @ [q])"

fun py_repr :: "(rat \<Rightarrow> string) \<Rightarrow> pyval \<Rightarrow> string"
  and repr_elems :: "(rat \<Rightarrow> string) \<Rightarrow> pyval list \<Rightarrow> string list"
  and repr_items :: "(rat \<Rightarrow> string) \<Rightarrow> (string \<times> pyval) list \<Rightarrow> string list" where
  "py_repr fr PNone = ''None''"
| "py_repr fr (PBool b) = (if b then ''True'' else ''False'')"
| "py_repr fr (PInt i) = py_str_int i"
| "py_repr fr (PFloat r) = fr r"
| "py_repr fr (PStr s) = repr_str s"
| "py_repr fr (PList xs) = ''['' @ join_with '', '' (repr_elems fr xs) @ '']''"
| "py_repr fr (PDict d) = ''{'' @ join_with '', '' (repr_items fr d) @ ''}''"
| "repr_elems fr [] = []"
| "repr_elems fr (x # xs) = py_repr fr x # repr_elems fr xs"
| "repr_items fr [] = []"
| "repr_items fr ((k, v) # d) = (repr_str k @ '': '' @ py_repr fr v) # repr_items fr d"

text \<open>\<open>str(v)\<close>.\<close>

definition py_str :: "(rat \<Rightarrow> string) \<Rightarrow> pyval \<Rightarrow> string" where
  "py_str fr v = (case v of PStr s \<Rightarrow> s | _ \<Rightarrow> py_repr fr v)"

lemma py_str_PStr [simp]: "py_str fr (PStr s) = s"
  by (simp add: py_str_def)

text \<open>\<open>str(d[key])\<close>; \<open>None\<close> is the \<open>KeyError\<close>.\<close>

definition str_item :: "(rat \<Rightarrow> string) \<Rightarrow> (string \<times> pyval) list \<Rightarrow> string \<Rightarrow> string option" where
  "str_item fr d k = map_option (py_str fr) (map_of d k)"

end
