(* ===== verification/Py_Time.thy ===== *)
theory Py_Time
  imports Py_Strings
begin

text \<open>
  \<open>datetime\<close> as the control plane uses it. A value is a number of microseconds since
  1970-01-01 and a flag that says whether it carries a time zone. Aware values are kept as their
  instant, so two aware values are equal exactly when Python's \<open>==\<close> says so, and
  \<open>isoformat\<close> prints them in UTC, which is what \<open>datetime.now(UTC)\<close> produces.
  Comparing a naive value with an aware one raises \<open>TypeError\<close>.

  \<open>isoformat\<close> and the extended formats of \<open>fromisoformat\<close> are written out over
  the proleptic Gregorian calendar, with the round trip as the main lemma; the compact and
  week-date formats of \<open>fromisoformat\<close> are outside the model.
\<close>

record datetime =
  micros :: int
  tz_aware :: bool

section \<open>Comparison\<close>

text \<open>\<open>a <= b\<close> and \<open>a < b\<close>; \<open>None\<close> is the \<open>TypeError\<close> of a mixed pair.\<close>

definition dt_le :: "datetime \<Rightarrow> datetime \<Rightarrow> bool option" where
  "dt_le a b = (if tz_aware a = tz_aware b then Some (micros a \<le> micros b) else None)"

definition dt_less :: "datetime \<Rightarrow> datetime \<Rightarrow> bool option" where
  "dt_less a b = (if tz_aware a = tz_aware b then Some (micros a < micros b) else None)"

text \<open>\<open>a + timedelta(seconds=s)\<close>.\<close>

definition dt_add_seconds :: "datetime \<Rightarrow> int \<Rightarrow> datetime" where
  "dt_add_seconds a s = a\<lparr>micros := micros a + s * 1000000\<rparr>"

lemma dt_add_seconds_simps [simp]:
  "micros (dt_add_seconds a s) = micros a + s * 1000000"
  "tz_aware (dt_add_seconds a s) = tz_aware a"
  by (simp_all add: dt_add_seconds_def)

section \<open>The Gregorian calendar\<close>

text \<open>
  Years start in March, so that the leap day is the last day of the year; 400 of them are an
  era of 146097 days.
\<close>

definition year_of_era :: "int \<Rightarrow> int" where
  "year_of_era doe =
     (let c = min 3 (doe div 36524); doc = doe - 36524 * c;
          q = doc div 1461; doq = doc - 1461 * q
      in 100 * c + 4 * q + min 3 (doq div 365))"

definition days_before_year :: "int \<Rightarrow> int" where
  "days_before_year yoe = 365 * yoe + yoe div 4 - yoe div 100"

definition civil_from_days :: "int \<Rightarrow> int \<times> int \<times> int" where
  "civil_from_days days =
     (let z = days + 719468; era = z div 146097; doe = z mod 146097;
          yoe = year_of_era doe; doy = doe - days_before_year yoe;
          mp = (5 * doy + 2) div 153; d = doy - (153 * mp + 2) div 5 + 1;
          m = (if mp < 10 then mp + 3 else mp - 9)
      in (yoe + 400 * era + (if m \<le> 2 then 1 else 0), m, d))"

definition days_from_civil :: "int \<Rightarrow> int \<Rightarrow> int \<Rightarrow> int" where
  "days_from_civil y m d =
     (let y' = (if m \<le> 2 then y - 1 else y); era = y' div 400; yoe = y' mod 400;
          mp = (if 2 < m then m - 3 else m + 9);
          doe = days_before_year yoe + (153 * mp + 2) div 5 + d - 1
      in era * 146097 + doe - 719468)"

lemma year_of_era_range:
  assumes "0 \<le> doe" "doe < 146097"
  shows "0 \<le> year_of_era doe" "year_of_era doe \<le> 399"
    and "0 \<le> doe - days_before_year (year_of_era doe)"
    and "doe - days_before_year (year_of_era doe) \<le> 365"
proof -
  define c where "c = min 3 (doe div 36524)"
  define doc where "doc = doe - 36524 * c"
  define q where "q = doc div 1461"
  define doq where "doq = doc - 1461 * q"
  define r where "r = min 3 (doq div 365)"
  have c: "0 \<le> c" "c \<le> 3" "0 \<le> doc" "doc \<le> 36524"
    using assms unfolding c_def doc_def min_def by auto
  have q: "0 \<le> q" "q \<le> 24" "0 \<le> doq" "doq \<le> 1460"
    using c unfolding q_def doq_def by auto
  have r: "0 \<le> r" "r \<le> 3" "0 \<le> doq - 365 * r" "doq - 365 * r \<le> 365"
    using q unfolding r_def min_def by auto
  have y: "year_of_era doe = 100 * c + 4 * q + r"
    by (simp add: year_of_era_def Let_def c_def doc_def q_def doq_def r_def)
  have div4: "(100 * c + 4 * q + r) div 4 = 25 * c + q"
    and div100: "(100 * c + 4 * q + r) div 100 = c"
    using c q r by auto
  have "doe - days_before_year (year_of_era doe) = doq - 365 * r"
    by (simp add: y days_before_year_def div4 div100 doq_def doc_def)
  then show "0 \<le> doe - days_before_year (year_of_era doe)"
    "doe - days_before_year (year_of_era doe) \<le> 365"
    using r by simp_all
  show "0 \<le> year_of_era doe" "year_of_era doe \<le> 399"
    using c q r by (simp_all add: y)
qed

lemma month_of_day:
  fixes doy :: int
  assumes "0 \<le> doy" "doy \<le> 365" "mp = (5 * doy + 2) div 153"
  shows "0 \<le> mp" "mp \<le> 11" "1 \<le> doy - (153 * mp + 2) div 5 + 1" "doy - (153 * mp + 2) div 5 + 1 \<le> 31"
  using assms by auto

lemma civil_from_days_fields:
  assumes "civil_from_days days = (y, m, d)"
  shows "1 \<le> m" "m \<le> 12" "1 \<le> d" "d \<le> 31" "days_from_civil y m d = days"
proof -
  define z where "z = days + 719468"
  define yoe where "yoe = year_of_era (z mod 146097)"
  define doy where "doy = z mod 146097 - days_before_year yoe"
  define mp where "mp = (5 * doy + 2) div 153"
  have yoe: "0 \<le> yoe" "yoe \<le> 399" and doy: "0 \<le> doy" "doy \<le> 365"
    unfolding doy_def yoe_def by (simp_all add: year_of_era_range del: diff_ge_0_iff_ge)
  note mp = month_of_day [OF doy mp_def]
  have m: "m = (if mp < 10 then mp + 3 else mp - 9)"
    and d: "d = doy - (153 * mp + 2) div 5 + 1"
    and y: "y = yoe + 400 * (z div 146097) + (if m \<le> 2 then 1 else 0)"
    using assms unfolding civil_from_days_def Let_def z_def [symmetric] yoe_def [symmetric]
      doy_def [symmetric] mp_def [symmetric] by auto
  show "1 \<le> m" "m \<le> 12" "1 \<le> d" "d \<le> 31"
    using mp m d by auto
  have y': "(if m \<le> 2 then y - 1 else y) = yoe + 400 * (z div 146097)"
    by (simp add: y)
  have mp': "(if 2 < m then m - 3 else m + 9) = mp"
    using mp by (simp add: m)
  have "(yoe + 400 * (z div 146097)) div 400 = z div 146097"
    "(yoe + 400 * (z div 146097)) mod 400 = yoe"
    using yoe by simp_all
  then show "days_from_civil y m d = days"
    by (simp add: days_from_civil_def Let_def y' mp' d doy_def z_def minus_mod_eq_mult_div)
qed

section \<open>ISO 8601\<close>

text \<open>A number printed with leading zeros in a fixed number of digits.\<close>

fun fixed_digits :: "nat \<Rightarrow> nat \<Rightarrow> string" where
  "fixed_digits 0 n = []"
| "fixed_digits (Suc k) n = fixed_digits k (n div 10) @ [digit_char (n mod 10)]"

definition day_micros :: int where
  "day_micros = 86400000000"

definition isoformat :: "datetime \<Rightarrow> string" where
  "isoformat t =
     (let (y, m, d) = civil_from_days (micros t div day_micros);
          us = micros t mod day_micros; secs = us div 1000000; frac = us mod 1000000
      in fixed_digits 4 (nat y) @ ''-'' @ fixed_digits 2 (nat m) @ ''-'' @ fixed_digits 2 (nat d)
         @ ''T'' @ fixed_digits 2 (nat (secs div 3600)) @ '':''
         @ fixed_digits 2 (nat (secs div 60 mod 60)) @ '':'' @ fixed_digits 2 (nat (secs mod 60))
         @ (if frac = 0 then [] else ''.'' @ fixed_digits 6 (nat frac))
         @ (if tz_aware t then ''+00:00'' else []))"

text \<open>\<open>datetime.min.year\<close> is 1 and \<open>datetime.max.year\<close> is 9999.\<close>

definition datetime_ok :: "datetime \<Rightarrow> bool" where
  "datetime_ok t =
     (let y = fst (civil_from_days (micros t div day_micros)) in 1 \<le> y \<and> y \<le> 9999)"

text \<open>The sum of a time and a duration in microseconds, which leaves the range of years with an error.\<close>

definition dt_plus :: "datetime \<Rightarrow> int \<Rightarrow> exc + datetime" where
  "dt_plus t d =
     (let u = t\<lparr>micros := micros t + d\<rparr>
      in checked [(\<not> datetime_ok u, Exc OverflowError ''date value out of range'')] u)"

lemma dt_plus_Inr: "dt_plus t d = Inr u \<Longrightarrow> u = t\<lparr>micros := micros t + d\<rparr> \<and> datetime_ok u"
  by (auto simp: dt_plus_def Let_def split: if_splits)

text \<open>Exactly \<open>k\<close> digits at the front of a string, and what follows them.\<close>

definition read_digits :: "nat \<Rightarrow> string \<Rightarrow> (int \<times> string) option" where
  "read_digits k s =
     (if length (take k s) = k \<and> list_all is_ascii_digit (take k s)
      then Some (int (digits_val (take k s)), drop k s) else None)"

definition read_char :: "char \<Rightarrow> string \<Rightarrow> string option" where
  "read_char c s = (case s of [] \<Rightarrow> None | x # xs \<Rightarrow> if x = c then Some xs else None)"

text \<open>A date is valid when it is the civil date of its own day number.\<close>

definition read_date :: "string \<Rightarrow> (int \<times> string) option" where
  "read_date s =
     Option.bind (read_digits 4 s) (\<lambda>(y, s).
     Option.bind (read_char CHR ''-'' s) (\<lambda>s.
     Option.bind (read_digits 2 s) (\<lambda>(m, s).
     Option.bind (read_char CHR ''-'' s) (\<lambda>s.
     Option.bind (read_digits 2 s) (\<lambda>(d, s).
       let n = days_from_civil y m d in
       if 1 \<le> y \<and> 1 \<le> m \<and> m \<le> 12 \<and> 1 \<le> d \<and> d \<le> 31 \<and> civil_from_days n = (y, m, d)
       then Some (n, s) else None)))))"

definition scan_digits :: "string \<Rightarrow> string" where
  "scan_digits s = takeWhile is_ascii_digit s"

text \<open>A fraction of a second is truncated to microseconds.\<close>

definition read_fraction :: "string \<Rightarrow> (int \<times> string) option" where
  "read_fraction s =
     (case s of [] \<Rightarrow> Some (0, [])
      | c # cs \<Rightarrow>
          if c = CHR ''.'' \<or> c = CHR '','' then
            (let ds = scan_digits cs in
             if ds = [] then None
             else Some (int (digits_val (take 6 (ds @ ''000000''))), drop (length ds) cs))
          else Some (0, s))"

text \<open>The seconds and the microseconds of \<open>HH[:MM[:SS[.f]]]\<close>.\<close>

definition read_time :: "string \<Rightarrow> (int \<times> string) option" where
  "read_time s =
     Option.bind (read_digits 2 s) (\<lambda>(h, s).
     if 24 \<le> h then None else
     case read_char CHR '':'' s of None \<Rightarrow> Some (h * 3600000000, s)
     | Some s \<Rightarrow>
        Option.bind (read_digits 2 s) (\<lambda>(mi, s).
        if 60 \<le> mi then None else
        case read_char CHR '':'' s of None \<Rightarrow> Some (h * 3600000000 + mi * 60000000, s)
        | Some s \<Rightarrow>
           Option.bind (read_digits 2 s) (\<lambda>(sec, s).
           if 60 \<le> sec then None else
           Option.bind (read_fraction s) (\<lambda>(f, s).
             Some (h * 3600000000 + mi * 60000000 + sec * 1000000 + f, s)))))"

text \<open>The offset from UTC: absent, \<open>Z\<close>, or a sign with a time of day.\<close>

definition read_offset :: "string \<Rightarrow> int option option" where
  "read_offset s =
     (case s of [] \<Rightarrow> Some None
      | c # cs \<Rightarrow>
          if c = CHR ''Z'' then (if cs = [] then Some (Some 0) else None)
          else if c = CHR ''+'' \<or> c = CHR ''-'' then
            (case read_time cs of Some (off, []) \<Rightarrow> Some (Some (if c = CHR ''-'' then - off else off))
             | _ \<Rightarrow> None)
          else None)"

text \<open>\<open>datetime.fromisoformat\<close>; \<open>None\<close> is its \<open>ValueError\<close>.\<close>

definition fromisoformat :: "string \<Rightarrow> datetime option" where
  "fromisoformat s =
     Option.bind (read_date s) (\<lambda>(n, rest).
       case rest of [] \<Rightarrow> Some \<lparr>micros = n * day_micros, tz_aware = False\<rparr>
       | _ # t \<Rightarrow>
           Option.bind (read_time t) (\<lambda>(us, z).
           Option.bind (read_offset z) (\<lambda>off.
             Some \<lparr>micros = n * day_micros + us - opt_or off 0, tz_aware = (off \<noteq> None)\<rparr>)))"

lemma length_fixed_digits [simp]: "length (fixed_digits k n) = k"
  by (induction k arbitrary: n) simp_all

lemma list_all_fixed_digits [simp]: "list_all is_ascii_digit (fixed_digits k n)"
  by (induction k arbitrary: n) simp_all

lemma digits_val_fixed_digits [simp]: "n < 10 ^ k \<Longrightarrow> digits_val (fixed_digits k n) = n"
proof (induction k arbitrary: n)
  case 0
  then show ?case by (simp add: digits_val_def)
next
  case (Suc k)
  then have "n div 10 < 10 ^ k" by (simp add: less_mult_imp_div_less mult.commute)
  with Suc.IH show ?case by (simp add: digits_val_snoc)
qed

lemma read_digits_fixed [simp]:
  "n < 10 ^ k \<Longrightarrow> read_digits k (fixed_digits k n @ s) = Some (int n, s)"
  by (simp add: read_digits_def)

lemma read_char_same [simp]: "read_char c (c # s) = Some s"
  by (simp add: read_char_def)

lemma scan_digits_fixed:
  "s = [] \<or> \<not> is_ascii_digit (hd s) \<Longrightarrow> scan_digits (fixed_digits k n @ s) = fixed_digits k n"
  using list_all_fixed_digits [of k n]
  by (cases s) (auto simp: scan_digits_def list_all_iff takeWhile_append2 takeWhile_eq_all_conv)

lemma read_fraction_fixed:
  assumes "n < 1000000" "s = [] \<or> \<not> is_ascii_digit (hd s)"
  shows "read_fraction (CHR ''.'' # fixed_digits 6 n @ s) = Some (int n, s)"
proof -
  have "fixed_digits 6 n \<noteq> []" using length_fixed_digits [of 6 n] by (metis list.size(3) zero_neq_numeral)
  then show ?thesis
    using assms by (simp add: read_fraction_def scan_digits_fixed Let_def)
qed

lemma read_offset_utc: "read_offset ''+00:00'' = Some (Some 0)"
  by code_simp

lemma read_date_isoformat:
  assumes "civil_from_days n = (y, m, d)" "1 \<le> y" "y \<le> 9999"
  shows "read_date (fixed_digits 4 (nat y) @ CHR ''-'' # fixed_digits 2 (nat m)
           @ CHR ''-'' # fixed_digits 2 (nat d) @ s) = Some (n, s)"
proof -
  note f = civil_from_days_fields [OF assms(1)]
  have "nat y < 10 ^ 4" "nat m < 10 ^ 2" "nat d < 10 ^ 2"
    using assms f by simp_all
  then show ?thesis
    using assms f unfolding read_date_def by simp
qed

lemma read_time_isoformat:
  assumes "0 \<le> us" "us < day_micros"
    and "tail = [] \<or> tail = ''+00:00''"
  shows "read_time (fixed_digits 2 (nat (us div 1000000 div 3600)) @ CHR '':''
           # fixed_digits 2 (nat (us div 1000000 div 60 mod 60)) @ CHR '':''
           # fixed_digits 2 (nat (us div 1000000 mod 60))
           @ (if us mod 1000000 = 0 then [] else ''.'' @ fixed_digits 6 (nat (us mod 1000000))) @ tail)
         = Some (us, tail)"
proof -
  define h where "h = us div 1000000 div 3600"
  define mi where "mi = us div 1000000 div 60 mod 60"
  define sec where "sec = us div 1000000 mod 60"
  define f where "f = us mod 1000000"
  have ranges: "0 \<le> h" "h < 24" "0 \<le> mi" "mi < 60" "0 \<le> sec" "sec < 60" "0 \<le> f" "f < 1000000"
    using assms unfolding h_def mi_def sec_def f_def day_micros_def by simp_all
  have sum: "h * 3600000000 + mi * 60000000 + sec * 1000000 + f = us"
  proof -
    define t where "t = us div 1000000"
    have "us = t * 1000000 + f" by (simp add: t_def f_def)
    moreover have "h = t div 60 div 60"
      unfolding h_def t_def [symmetric] by (simp add: zdiv_zmult2_eq [symmetric])
    then have "t div 60 = h * 60 + mi" by (simp add: mi_def t_def)
    then have "t = (h * 60 + mi) * 60 + sec"
      using div_mult_mod_eq [of t 60] by (simp add: sec_def t_def)
    ultimately show ?thesis by simp
  qed
  have small: "nat h < 10 ^ 2" "nat mi < 10 ^ 2" "nat sec < 10 ^ 2" "nat f < 1000000"
    using ranges by simp_all
  have tail: "tail = [] \<or> \<not> is_ascii_digit (hd tail)" "read_fraction tail = Some (0, tail)"
    using assms(3) by (auto simp: is_ascii_digit_def code_point_def read_fraction_def)
  have "read_fraction ((if f = 0 then [] else ''.'' @ fixed_digits 6 (nat f)) @ tail) = Some (f, tail)"
    using ranges tail small read_fraction_fixed [of "nat f" tail] by simp
  then show ?thesis
    using ranges small unfolding h_def [symmetric] mi_def [symmetric] sec_def [symmetric] f_def [symmetric]
    by (simp add: read_time_def sum)
qed

text \<open>Every datetime reads back from its own ISO format.\<close>

lemma fromisoformat_isoformat [simp]:
  assumes "datetime_ok t"
  shows "fromisoformat (isoformat t) = Some t"
proof -
  obtain y m d where civ: "civil_from_days (micros t div day_micros) = (y, m, d)"
    by (cases "civil_from_days (micros t div day_micros)")
  with assms have y: "1 \<le> y" "y \<le> 9999" by (simp_all add: datetime_ok_def)
  define us where "us = micros t mod day_micros"
  define tail where "tail = (if tz_aware t then ''+00:00'' else [])"
  have us: "0 \<le> us" "us < day_micros"
    by (simp_all add: us_def day_micros_def)
  have tail: "tail = [] \<or> tail = ''+00:00''" by (simp add: tail_def)
  have off: "read_offset tail = Some (if tz_aware t then Some 0 else None)"
    by (simp add: tail_def read_offset_utc) (simp add: read_offset_def)
  have total: "micros t div day_micros * day_micros + us = micros t"
    by (simp add: us_def)
  show ?thesis
    unfolding isoformat_def civ Let_def us_def [symmetric] tail_def [symmetric] fromisoformat_def
    using read_date_isoformat [OF civ y] read_time_isoformat [OF us tail] off total
    by simp
qed

end
