(* ===== verification/Contracts.thy ===== *)
theory Contracts
  imports Py_Sha256 Py_Values Py_Time
begin

text \<open>
  \<open>runtime_authorization/contracts.py\<close>: the request to authorize one protected operation, the
  decision bound to it, and the digests that bind them. A dataclass is a record with the checks of
  its \<open>__post_init__\<close> as a list of guards, and its constructor returns the record or the
  first exception. Fields are typed, so the \<open>isinstance\<close> tests on them hold and are left out.
  The parameter \<open>fr\<close> is \<open>repr\<close> of a float inside \<open>json.dumps\<close>.
\<close>

section \<open>Field checks\<close>

definition require_identifier :: "string \<Rightarrow> string \<Rightarrow> bool \<times> exc" where
  "require_identifier name v =
     (\<not> match_identifier 127 v,
      Exc ValueError (name @ '' must be a bounded identifier containing only letters, numbers, '.', '_', ':', or '-'.''))"

definition require_non_blank :: "string \<Rightarrow> string \<Rightarrow> bool \<times> exc" where
  "require_non_blank name v = (blank v, Exc ValueError (name @ '' must not be blank.''))"

definition require_digest :: "string \<Rightarrow> string \<Rightarrow> bool \<times> exc" where
  "require_digest name v = (\<not> match_sha256 v, Exc ValueError (name @ '' must be a sha256 digest.''))"

text \<open>A check that runs only when the field is not \<open>None\<close>.\<close>

definition when_given :: "string option \<Rightarrow> (string \<Rightarrow> bool \<times> exc) \<Rightarrow> (bool \<times> exc) list" where
  "when_given x chk = (case x of None \<Rightarrow> [] | Some v \<Rightarrow> [chk v])"

lemma fst_require_simps [simp]:
  "fst (require_identifier n v) = (\<not> match_identifier 127 v)"
  "fst (require_non_blank n v) = blank v"
  "fst (require_digest n v) = (\<not> match_sha256 v)"
  by (simp_all add: require_identifier_def require_non_blank_def require_digest_def)

lemma checked_require [simp]:
  "checked (require_identifier n v # gs) x
     = (if match_identifier 127 v then checked gs x else Inl (snd (require_identifier n v)))"
  "checked (require_non_blank n v # gs) x
     = (if blank v then Inl (snd (require_non_blank n v)) else checked gs x)"
  "checked (require_digest n v # gs) x
     = (if match_sha256 v then checked gs x else Inl (snd (require_digest n v)))"
  by (simp_all add: require_identifier_def require_non_blank_def require_digest_def)

lemma when_given_simps [simp]:
  "when_given None chk = []" "when_given (Some v) chk = [chk v]"
  by (simp_all add: when_given_def)

lemma when_given_passes [guard_simps]:
  "all_pass (when_given x chk) \<longleftrightarrow> (\<forall>v. x = Some v \<longrightarrow> \<not> fst (chk v))"
  by (cases x) simp_all

section \<open>Resources\<close>

record runtime_action_resource =
  rs_resource_type :: string
  rs_resource_reference :: string

definition resource_checks :: "runtime_action_resource \<Rightarrow> (bool \<times> exc) list" where
  "resource_checks r =
     [require_identifier ''resource_type'' (rs_resource_type r),
      require_non_blank ''resource_reference'' (rs_resource_reference r),
      (512 < length (rs_resource_reference r),
       Exc ValueError ''resource_reference must not exceed 512 characters.'')]"

definition new_resource :: "string \<Rightarrow> string \<Rightarrow> exc + runtime_action_resource" where
  "new_resource rtype ref =
     (let r = \<lparr>rs_resource_type = rtype, rs_resource_reference = ref\<rparr> in checked (resource_checks r) r)"

definition resource_ok :: "runtime_action_resource \<Rightarrow> bool" where
  "resource_ok r = all_pass (resource_checks r)"

lemma resource_ok_iff:
  "resource_ok r \<longleftrightarrow> match_identifier 127 (rs_resource_type r)
     \<and> \<not> blank (rs_resource_reference r) \<and> length (rs_resource_reference r) \<le> 512"
  by (auto simp: resource_ok_def resource_checks_def)

section \<open>Context facts\<close>

definition sensitive_context_keys :: "string list" where
  "sensitive_context_keys =
     [''prompt'', ''system_prompt'', ''response'', ''messages'', ''conversation'', ''reasoning'',
      ''chain_of_thought'', ''credentials'', ''password'', ''secret'', ''token'']"

text \<open>\<open>[A-Za-z][A-Za-z0-9_]{0,63}\<close>.\<close>

definition match_context_key :: "string \<Rightarrow> bool" where
  "match_context_key s =
     (case s of [] \<Rightarrow> False
      | c # cs \<Rightarrow> (is_ascii_upper c \<or> is_ascii_lower c) \<and> length cs \<le> 63
          \<and> list_all (\<lambda>x. is_ascii_alnum x \<or> x = CHR ''_'') cs)"

definition normalize_key :: "string \<Rightarrow> string" where
  "normalize_key k = replace_char CHR '' '' CHR ''_'' (replace_char CHR ''-'' CHR ''_'' (py_lower k))"

definition context_fact_checks :: "string \<Rightarrow> pyval \<Rightarrow> (bool \<times> exc) list" where
  "context_fact_checks key value =
     [(\<not> match_context_key key,
       Exc ValueError ''context fact keys must be bounded alphanumeric identifiers.''),
      (normalize_key key \<in> set sensitive_context_keys,
       Exc ValueError ''context must not contain prompts, credentials, or reasoning.''),
      (case value of PStr s \<Rightarrow> blank s \<or> 256 < length s | _ \<Rightarrow> False,
       Exc ValueError ''context string facts must be non-blank and no longer than 256 characters.''),
      (case value of PNone \<Rightarrow> True | PList _ \<Rightarrow> True | PDict _ \<Rightarrow> True | _ \<Rightarrow> False,
       Exc TypeError ''context facts must be scalar strings, numbers, or booleans.'')]"

definition validated_context_checks :: "(string \<times> pyval) list \<Rightarrow> (bool \<times> exc) list" where
  "validated_context_checks values =
     (32 < length values, Exc ValueError ''context must not contain more than 32 facts.'')
       # concat (map (\<lambda>(k, v). context_fact_checks k v) values)"

definition validated_context :: "(string \<times> pyval) list \<Rightarrow> exc + (string \<times> pyval) list" where
  "validated_context values = checked (validated_context_checks values) values"

section \<open>Digests\<close>

definition stable_digest :: "(rat \<Rightarrow> string) \<Rightarrow> pyval \<Rightarrow> string" where
  "stable_digest fr v = sha256_hex (json_dumps fr v)"

definition canonical_tool_arguments_digest :: "(rat \<Rightarrow> string) \<Rightarrow> (string \<times> pyval) list \<Rightarrow> string" where
  "canonical_tool_arguments_digest fr arguments = ''sha256:'' @ sha256_hex (json_dumps fr (PDict arguments))"

lemma match_hex64_stable_digest [simp]: "match_hex64 (stable_digest fr v)"
  by (simp add: stable_digest_def)

lemma identifier_stable_digest [simp]: "match_identifier 127 (stable_digest fr v)"
  by (rule match_hex64_identifier) simp_all

section \<open>Requests\<close>

definition authorization_schema_version :: string where
  "authorization_schema_version = ''runtime-action-authorization/v2''"

record authorization_request =
  rq_execution_id :: string
  rq_action_id :: string
  rq_resource :: runtime_action_resource
  rq_idempotency_key :: string
  rq_delegation_id :: "string option"
  rq_delegation_version :: "string option"
  rq_delegation_digest :: "string option"
  rq_tool_arguments_digest :: "string option"
  rq_context :: "(string \<times> pyval) list"
  rq_correlation_id :: "string option"
  rq_policy_id :: "string option"
  rq_expected_policy_version :: "string option"
  rq_schema_version :: string

text \<open>Some of the three delegation bindings are given and some are not.\<close>

definition partial_binding :: "string option \<Rightarrow> string option \<Rightarrow> string option \<Rightarrow> bool" where
  "partial_binding a b c =
     ((a \<noteq> None \<or> b \<noteq> None \<or> c \<noteq> None) \<and> (a = None \<or> b = None \<or> c = None))"

definition request_checks :: "authorization_request \<Rightarrow> (bool \<times> exc) list" where
  "request_checks r =
     [(rq_schema_version r \<noteq> authorization_schema_version,
       Exc ValueError ''Unsupported runtime action authorization schema version.''),
      require_identifier ''execution_id'' (rq_execution_id r),
      require_identifier ''action_id'' (rq_action_id r),
      require_identifier ''idempotency_key'' (rq_idempotency_key r)]
     @ when_given (rq_correlation_id r) (require_identifier ''correlation_id'')
     @ when_given (rq_delegation_id r) (require_identifier ''delegation_id'')
     @ when_given (rq_delegation_version r) (require_identifier ''delegation_version'')
     @ [(partial_binding (rq_delegation_id r) (rq_delegation_version r) (rq_delegation_digest r),
         Exc ValueError ''delegation_id, delegation_version, and delegation_digest are required together.'')]
     @ when_given (rq_delegation_digest r) (require_digest ''delegation_digest'')
     @ [(rq_tool_arguments_digest r = None,
         Exc ValueError ''tool_arguments_digest is required for protected operations.'')]
     @ when_given (rq_tool_arguments_digest r) (require_digest ''tool_arguments_digest'')
     @ when_given (rq_policy_id r) (require_identifier ''policy_id'')
     @ when_given (rq_expected_policy_version r) (require_identifier ''expected_policy_version'')
     @ [(rq_expected_policy_version r \<noteq> None \<and> rq_policy_id r = None,
         Exc ValueError ''expected_policy_version requires policy_id.'')]
     @ validated_context_checks (rq_context r)"

definition new_request :: "authorization_request \<Rightarrow> exc + authorization_request" where
  "new_request r = checked (request_checks r) r"

definition request_ok :: "authorization_request \<Rightarrow> bool" where
  "request_ok r = all_pass (request_checks r)"

definition request_payload :: "authorization_request \<Rightarrow> pyval" where
  "request_payload r = PDict
     [(''schema_version'', PStr (rq_schema_version r)),
      (''execution_id'', PStr (rq_execution_id r)),
      (''action_id'', PStr (rq_action_id r)),
      (''resource_type'', PStr (rs_resource_type (rq_resource r))),
      (''resource_reference'', PStr (rs_resource_reference (rq_resource r))),
      (''idempotency_key'', PStr (rq_idempotency_key r)),
      (''delegation_id'', of_opt_str (rq_delegation_id r)),
      (''delegation_version'', of_opt_str (rq_delegation_version r)),
      (''delegation_digest'', of_opt_str (rq_delegation_digest r)),
      (''tool_arguments_digest'', of_opt_str (rq_tool_arguments_digest r)),
      (''context'', PDict (rq_context r)),
      (''correlation_id'', of_opt_str (rq_correlation_id r)),
      (''policy_id'', of_opt_str (rq_policy_id r)),
      (''expected_policy_version'', of_opt_str (rq_expected_policy_version r))]"

definition fingerprint :: "(rat \<Rightarrow> string) \<Rightarrow> authorization_request \<Rightarrow> string" where
  "fingerprint fr r = stable_digest fr (request_payload r)"

definition context_digest :: "(rat \<Rightarrow> string) \<Rightarrow> authorization_request \<Rightarrow> string" where
  "context_digest fr r = stable_digest fr (PDict (rq_context r))"

lemma identifier_fingerprint [simp]: "match_identifier 127 (fingerprint fr r)"
  by (simp add: fingerprint_def)

lemma match_hex64_fingerprint [simp]: "match_hex64 (fingerprint fr r)"
  by (simp add: fingerprint_def)

lemma new_request_Inr_iff: "new_request r = Inr q \<longleftrightarrow> q = r \<and> request_ok r"
  by (auto simp: new_request_def request_ok_def checked_Inr_iff)

text \<open>What a request that passed construction guarantees, clause by clause.\<close>

lemma request_okD:
  assumes "request_ok r"
  shows "match_identifier 127 (rq_execution_id r)"
    and "match_identifier 127 (rq_action_id r)"
    and "match_identifier 127 (rq_idempotency_key r)"
    and "rq_correlation_id r = Some c \<Longrightarrow> match_identifier 127 c"
    and "\<exists>d. rq_tool_arguments_digest r = Some d \<and> match_sha256 d"
    and "rq_delegation_id r = Some x \<Longrightarrow>
           match_identifier 127 x \<and>
           (\<exists>v d. rq_delegation_version r = Some v \<and> rq_delegation_digest r = Some d
              \<and> match_identifier 127 v \<and> match_sha256 d)"
    and "length (rq_context r) \<le> 32"
    and "(k, v) \<in> set (rq_context r) \<Longrightarrow> all_pass (context_fact_checks k v)"
proof -
  have all: "all_pass (request_checks r)"
    using assms by (simp add: request_ok_def)
  show "match_identifier 127 (rq_execution_id r)"
    "match_identifier 127 (rq_action_id r)" "match_identifier 127 (rq_idempotency_key r)"
    using all by (simp_all add: request_checks_def)
  show "match_identifier 127 c" if "rq_correlation_id r = Some c"
    using all that by (simp add: request_checks_def)
  show "\<exists>d. rq_tool_arguments_digest r = Some d \<and> match_sha256 d"
    using all by (cases "rq_tool_arguments_digest r") (simp_all add: request_checks_def)
  show "match_identifier 127 x \<and> (\<exists>v d. rq_delegation_version r = Some v
      \<and> rq_delegation_digest r = Some d \<and> match_identifier 127 v \<and> match_sha256 d)"
    if "rq_delegation_id r = Some x"
    using all that
    by (cases "rq_delegation_version r"; cases "rq_delegation_digest r")
      (simp_all add: request_checks_def partial_binding_def)
  have ctx: "all_pass (validated_context_checks (rq_context r))"
    using all by (simp add: request_checks_def)
  then show "length (rq_context r) \<le> 32"
    by (simp add: validated_context_checks_def)
  show "all_pass (context_fact_checks k v)" if "(k, v) \<in> set (rq_context r)"
    using ctx that by (auto simp: validated_context_checks_def all_pass_concat_map)
qed

section \<open>Decisions\<close>

datatype authorization_outcome = ALLOW | DENY

fun outcome_value :: "authorization_outcome \<Rightarrow> string" where
  "outcome_value ALLOW = ''ALLOW''"
| "outcome_value DENY = ''DENY''"

definition outcome_of_value :: "string \<Rightarrow> authorization_outcome option" where
  "outcome_of_value s = (if s = ''ALLOW'' then Some ALLOW else if s = ''DENY'' then Some DENY else None)"

lemma outcome_of_value_value [simp]: "outcome_of_value (outcome_value o') = Some o'"
  by (cases o') (simp_all add: outcome_of_value_def)

record authorization_decision =
  dc_decision_id :: string
  dc_outcome :: authorization_outcome
  dc_reason_code :: string
  dc_execution_id :: string
  dc_correlation_id :: "string option"
  dc_action_id :: string
  dc_resource :: runtime_action_resource
  dc_actor_id :: string
  dc_idempotency_key :: string
  dc_request_fingerprint :: string
  dc_decided_at :: datetime
  dc_expires_at :: datetime
  dc_delegation_id :: "string option"
  dc_delegation_version :: "string option"
  dc_delegation_digest :: "string option"
  dc_tool_arguments_digest :: "string option"
  dc_evaluated_policies :: "(string \<times> string) list"
  dc_policy_id :: "string option"
  dc_policy_version :: "string option"
  dc_schema_version :: string

definition decision_checks :: "authorization_decision \<Rightarrow> (bool \<times> exc) list" where
  "decision_checks d =
     [(dc_schema_version d \<noteq> authorization_schema_version,
       Exc ValueError ''Unsupported runtime action authorization schema version.''),
      require_identifier ''decision_id'' (dc_decision_id d),
      require_identifier ''reason_code'' (dc_reason_code d),
      require_identifier ''execution_id'' (dc_execution_id d),
      require_identifier ''action_id'' (dc_action_id d),
      require_identifier ''actor_id'' (dc_actor_id d),
      require_identifier ''idempotency_key'' (dc_idempotency_key d),
      require_identifier ''request_fingerprint'' (dc_request_fingerprint d)]
     @ when_given (dc_correlation_id d) (require_identifier ''correlation_id'')
     @ when_given (dc_policy_id d) (require_identifier ''policy_id'')
     @ when_given (dc_policy_version d) (require_identifier ''policy_version'')
     @ when_given (dc_delegation_id d) (require_identifier ''delegation_id'')
     @ when_given (dc_delegation_version d) (require_identifier ''delegation_version'')
     @ [(partial_binding (dc_delegation_id d) (dc_delegation_version d) (dc_delegation_digest d),
         Exc ValueError ''Decision delegation bindings are incomplete.'')]
     @ when_given (dc_delegation_digest d) (require_digest ''delegation_digest'')
     @ when_given (dc_tool_arguments_digest d) (require_digest ''tool_arguments_digest'')
     @ concat (map (\<lambda>(p, v). [require_identifier ''evaluated policy_id'' p,
                               require_identifier ''evaluated policy_version'' v])
                 (dc_evaluated_policies d))
     @ [(\<not> tz_aware (dc_decided_at d) \<or> \<not> tz_aware (dc_expires_at d),
         Exc ValueError ''decision timestamps must be timezone-aware.''),
        (micros (dc_expires_at d) \<le> micros (dc_decided_at d),
         Exc ValueError ''expires_at must be later than decided_at.'')]"

text \<open>
  The constructor coerces its \<open>outcome\<close> argument, an enum member or its string value, after
  every other check.
\<close>

definition new_decision :: "string \<Rightarrow> authorization_decision \<Rightarrow> exc + authorization_decision" where
  "new_decision outcome d =
     res_bind (checked (decision_checks d) ()) (\<lambda>_.
       case outcome_of_value outcome of
         None \<Rightarrow> Inl (Exc ValueError ''not a valid RuntimeActionAuthorizationOutcome'')
       | Some v \<Rightarrow> Inr (d\<lparr>dc_outcome := v\<rparr>))"

definition decision_ok :: "authorization_decision \<Rightarrow> bool" where
  "decision_ok d = all_pass (decision_checks d)"

definition matches_request ::
  "(rat \<Rightarrow> string) \<Rightarrow> authorization_decision \<Rightarrow> authorization_request \<Rightarrow> string \<Rightarrow> bool" where
  "matches_request fr d r actor_id =
     (dc_execution_id d = rq_execution_id r
      \<and> dc_action_id d = rq_action_id r
      \<and> dc_resource d = rq_resource r
      \<and> dc_actor_id d = actor_id
      \<and> dc_idempotency_key d = rq_idempotency_key r
      \<and> dc_request_fingerprint d = fingerprint fr r)"

text \<open>The comparison of \<open>expires_at\<close> with a naive clock raises \<open>TypeError\<close>.\<close>

definition is_valid_for ::
  "(rat \<Rightarrow> string) \<Rightarrow> authorization_decision \<Rightarrow> authorization_request \<Rightarrow> string \<Rightarrow> datetime \<Rightarrow> exc + bool" where
  "is_valid_for fr d r actor_id now =
     (if dc_outcome d \<noteq> ALLOW then Inr False
      else case dt_less now (dc_expires_at d) of
        None \<Rightarrow> Inl (Exc TypeError ''can't compare offset-naive and offset-aware datetimes'')
      | Some later \<Rightarrow> Inr (later \<and> matches_request fr d r actor_id))"

lemma dc_outcome_update_checks [simp]: "decision_checks (d\<lparr>dc_outcome := v\<rparr>) = decision_checks d"
  by (simp add: decision_checks_def)

lemma new_decision_Inr_iff:
  "new_decision s d = Inr e \<longleftrightarrow>
     (\<exists>v. outcome_of_value s = Some v \<and> e = d\<lparr>dc_outcome := v\<rparr> \<and> decision_ok d)"
  by (auto simp: new_decision_def res_bind_Inr_iff checked_Inr_iff decision_ok_def split: option.splits)

lemma decision_eta:
  "\<lparr>dc_decision_id = dc_decision_id d, dc_outcome = v, dc_reason_code = dc_reason_code d,
    dc_execution_id = dc_execution_id d, dc_correlation_id = dc_correlation_id d,
    dc_action_id = dc_action_id d, dc_resource = dc_resource d, dc_actor_id = dc_actor_id d,
    dc_idempotency_key = dc_idempotency_key d, dc_request_fingerprint = dc_request_fingerprint d,
    dc_decided_at = dc_decided_at d, dc_expires_at = dc_expires_at d,
    dc_delegation_id = dc_delegation_id d, dc_delegation_version = dc_delegation_version d,
    dc_delegation_digest = dc_delegation_digest d, dc_tool_arguments_digest = dc_tool_arguments_digest d,
    dc_evaluated_policies = dc_evaluated_policies d, dc_policy_id = dc_policy_id d,
    dc_policy_version = dc_policy_version d, dc_schema_version = dc_schema_version d\<rparr> = d\<lparr>dc_outcome := v\<rparr>"
  by simp

lemma decision_ok_outcome [simp]: "decision_ok (d\<lparr>dc_outcome := v\<rparr>) = decision_ok d"
  by (simp add: decision_ok_def)

lemma decision_okD:
  assumes "decision_ok d"
  shows "tz_aware (dc_decided_at d)" "tz_aware (dc_expires_at d)"
    "micros (dc_decided_at d) < micros (dc_expires_at d)"
    "dc_schema_version d = authorization_schema_version"
  using assms by (simp_all add: decision_ok_def decision_checks_def)

end
