(* ===== verification/Interfaces.thy ===== *)
theory Interfaces
  imports Gov_Prelude
begin

text \<open>
  The contracts between the components, as locales. An operation of a repository or a service is an
  action on the state it keeps: it returns a value or raises, and leaves a state behind in both
  cases. \<open>evolving_store\<close> is what a client may assume of a repository over time,
  \<open>status_machine\<close> what a lifecycle promises about its status, and
  \<open>idempotent_command\<close> what a caller that retries may assume of a command. Each component
  interprets the locales on its own operations.
\<close>

section \<open>Actions\<close>

type_synonym ('s, 'a) action = "'s \<Rightarrow> (exc + 'a) \<times> 's"

definition act_return :: "'a \<Rightarrow> ('s, 'a) action" where
  "act_return x s = (Inr x, s)"

definition act_raise :: "exc \<Rightarrow> ('s, 'a) action" where
  "act_raise e s = (Inl e, s)"

text \<open>A computation that does not touch the state.\<close>

definition act_lift :: "exc + 'a \<Rightarrow> ('s, 'a) action" where
  "act_lift r s = (r, s)"

definition act_bind :: "('s, 'a) action \<Rightarrow> ('a \<Rightarrow> ('s, 'b) action) \<Rightarrow> ('s, 'b) action" where
  "act_bind m f s = (case m s of (Inl e, s') \<Rightarrow> (Inl e, s') | (Inr x, s') \<Rightarrow> f x s')"

text \<open>A computation that only reads the state.\<close>

definition act_read :: "('s \<Rightarrow> exc + 'a) \<Rightarrow> ('s, 'a) action" where
  "act_read f s = (f s, s)"

text \<open>An action on a component of the state, as an action on the whole.\<close>

definition act_on :: "('s \<Rightarrow> 't) \<Rightarrow> ('t \<Rightarrow> 's \<Rightarrow> 's) \<Rightarrow> ('t, 'a) action \<Rightarrow> ('s, 'a) action" where
  "act_on sel upd m s = (let (r, t) = m (sel s) in (r, upd t s))"

text \<open>\<open>try: ... except ... as error: raise f(error) from error\<close>.\<close>

definition act_reraise :: "(exc \<Rightarrow> exc) \<Rightarrow> ('s, 'a) action \<Rightarrow> ('s, 'a) action" where
  "act_reraise f m s = (case m s of (Inl e, s') \<Rightarrow> (Inl (f e), s') | (Inr x, s') \<Rightarrow> (Inr x, s'))"

text \<open>\<open>try: x = m except Exception as e: return h(e)\<close>, followed by the rest of the block.\<close>

definition act_try :: "('s, 'a) action \<Rightarrow> (exc \<Rightarrow> ('s, 'b) action) \<Rightarrow> ('a \<Rightarrow> ('s, 'b) action) \<Rightarrow> ('s, 'b) action" where
  "act_try m h f s = (case m s of (Inl e, s') \<Rightarrow> h e s' | (Inr x, s') \<Rightarrow> f x s')"

lemma act_simps [simp]:
  "act_return x s = (Inr x, s)"
  "act_raise e s = (Inl e, s)"
  "act_lift r s = (r, s)"
  by (simp_all add: act_return_def act_raise_def act_lift_def)

lemma act_bind_simps [simp]:
  "m s = (Inl e, s') \<Longrightarrow> act_bind m f s = (Inl e, s')"
  "m s = (Inr x, s') \<Longrightarrow> act_bind m f s = f x s'"
  by (simp_all add: act_bind_def)

lemma act_bind_lift [simp]:
  "act_bind (act_lift r) f s = (case r of Inl e \<Rightarrow> (Inl e, s) | Inr x \<Rightarrow> f x s)"
  by (cases r) (simp_all add: act_bind_def)

lemma act_on_apply: "act_on sel upd m s = (fst (m (sel s)), upd (snd (m (sel s))) s)"
  by (simp add: act_on_def split_beta Let_def)

lemma act_bind_InrE:
  assumes "act_bind m f s = (Inr y, s'')"
  obtains x s' where "m s = (Inr x, s')" "f x s' = (Inr y, s'')"
  using assms by (auto simp: act_bind_def split: prod.splits sum.splits)

text \<open>
  Whatever the action returns or raises, it moves the state only along \<open>R\<close>. Safety of a
  handler is proved statement by statement with the rules below.
\<close>

definition act_within :: "('s \<Rightarrow> 's \<Rightarrow> bool) \<Rightarrow> ('s, 'a) action \<Rightarrow> 's \<Rightarrow> bool" where
  "act_within R m s = (\<forall>r s'. m s = (r, s') \<longrightarrow> R\<^sup>*\<^sup>* s s')"

named_theorems within_intros

lemma act_within_return [within_intros]: "act_within R (act_return x) s"
  by (simp add: act_within_def)

lemma act_within_raise [within_intros]: "act_within R (act_raise e) s"
  by (simp add: act_within_def)

lemma act_within_lift [within_intros]: "act_within R (act_lift r) s"
  by (simp add: act_within_def)

lemma act_within_bind:
  assumes "act_within R m s" "\<And>x s'. m s = (Inr x, s') \<Longrightarrow> act_within R (f x) s'"
  shows "act_within R (act_bind m f) s"
  using assms unfolding act_within_def act_bind_def
  by (fastforce split: prod.splits sum.splits intro: rtranclp_trans)

lemma act_within_bind_lift:
  assumes "\<And>x. r = Inr x \<Longrightarrow> act_within R (f x) s"
  shows "act_within R (act_bind (act_lift r) f) s"
  by (rule act_within_bind) (use assms in \<open>auto intro: within_intros\<close>)

lemma act_within_reraise:
  "act_within R m s \<Longrightarrow> act_within R (act_reraise f m) s"
  unfolding act_within_def act_reraise_def by (auto split: prod.splits sum.splits)

lemma act_reraise_Inr_iff [simp]: "act_reraise f m s = (Inr x, t) \<longleftrightarrow> m s = (Inr x, t)"
  by (auto simp: act_reraise_def split: prod.splits sum.splits)

lemma act_within_try:
  assumes "act_within R m s" "\<And>x s'. m s = (Inr x, s') \<Longrightarrow> act_within R (f x) s'"
    "\<And>e s'. m s = (Inl e, s') \<Longrightarrow> act_within R (h e) s'"
  shows "act_within R (act_try m h f) s"
  using assms unfolding act_within_def act_try_def
  by (fastforce split: prod.splits sum.splits intro: rtranclp_trans)

lemma act_within_read [within_intros]: "act_within R (act_read f) s"
  by (simp add: act_within_def act_read_def)

lemma act_bind_read [simp]: "act_bind (act_read f) g s = (case f s of Inl e \<Rightarrow> (Inl e, s) | Inr x \<Rightarrow> g x s)"
  by (simp add: act_bind_def act_read_def)

lemma act_within_eq: "m s = n s \<Longrightarrow> act_within R n s \<Longrightarrow> act_within R m s"
  by (simp add: act_within_def)

lemma act_within_if:
  "(c \<Longrightarrow> act_within R m s) \<Longrightarrow> (\<not> c \<Longrightarrow> act_within R n s) \<Longrightarrow> act_within R (if c then m else n) s"
  by simp

lemma act_within_step: "(\<And>r s'. m s = (r, s') \<Longrightarrow> R s s' \<or> s' = s) \<Longrightarrow> act_within R m s"
  unfolding act_within_def by blast

lemma act_withinD: "act_within R m s \<Longrightarrow> m s = (r, s') \<Longrightarrow> R\<^sup>*\<^sup>* s s'"
  unfolding act_within_def by blast

section \<open>Status machines\<close>

text \<open>
  Every step either keeps the status or takes an edge of the transition graph.
\<close>

locale status_machine =
  fixes step :: "'s \<Rightarrow> 's \<Rightarrow> bool"
    and status :: "'s \<Rightarrow> 'st"
    and allowed :: "'st \<Rightarrow> 'st \<Rightarrow> bool"
  assumes step_allowed: "step s s' \<Longrightarrow> status s' = status s \<or> allowed (status s) (status s')"
begin

lemma run_allowed: "step\<^sup>*\<^sup>* s s' \<Longrightarrow> allowed\<^sup>*\<^sup>* (status s) (status s')"
proof (induction rule: rtranclp_induct)
  case base
  show ?case by simp
next
  case (step t u)
  from step_allowed [OF step(2)] step(3) show ?case
    by (metis rtranclp.rtrancl_into_rtrancl)
qed

lemma run_final:
  assumes "step\<^sup>*\<^sup>* s s'" "\<And>b. \<not> allowed (status s) b"
  shows "status s' = status s"
  using run_allowed [OF assms(1)] assms(2) by (metis converse_rtranclpE)

lemma run_rank:
  fixes rank :: "'st \<Rightarrow> nat"
  assumes "step\<^sup>*\<^sup>* s s'" "\<And>a b. allowed a b \<Longrightarrow> rank a < rank b"
  shows "status s' = status s \<or> rank (status s) < rank (status s')"
proof -
  have "b = a \<or> rank a < rank b" if "allowed\<^sup>*\<^sup>* a b" for a b
    using that by (induction rule: rtranclp_induct) (auto dest: assms(2))
  with run_allowed [OF assms(1)] show ?thesis by simp
qed

end

section \<open>Stores that only evolve\<close>

text \<open>
  An entry once written is never lost, and each step preserves the relation \<open>keeps\<close> between
  what was stored and what is stored now (equality, for an append-only store).
\<close>

locale evolving_store =
  fixes step :: "'s \<Rightarrow> 's \<Rightarrow> bool"
    and lookup :: "'s \<Rightarrow> 'k \<Rightarrow> 'v option"
    and keeps :: "'v \<Rightarrow> 'v \<Rightarrow> bool"
    and inv :: "'s \<Rightarrow> bool"
  assumes keeps_refl: "keeps v v"
    and keeps_trans: "keeps u v \<Longrightarrow> keeps v w \<Longrightarrow> keeps u w"
    and inv_step: "inv s \<Longrightarrow> step s s' \<Longrightarrow> inv s'"
    and lookup_step: "inv s \<Longrightarrow> step s s' \<Longrightarrow> lookup s k = Some v \<Longrightarrow>
      \<exists>v'. lookup s' k = Some v' \<and> keeps v v'"
begin

lemma inv_run: "step\<^sup>*\<^sup>* s s' \<Longrightarrow> inv s \<Longrightarrow> inv s'"
  by (induction rule: rtranclp_induct) (auto intro: inv_step)

lemma lookup_run:
  assumes "step\<^sup>*\<^sup>* s s'" "inv s" "lookup s k = Some v"
  shows "\<exists>v'. lookup s' k = Some v' \<and> keeps v v'"
  using assms
proof (induction rule: rtranclp_induct)
  case base
  then show ?case by (auto intro: keeps_refl)
next
  case (step t u)
  then obtain w where w: "lookup t k = Some w" "keeps v w" by auto
  have "inv t" using step inv_run by blast
  then obtain w' where "lookup u k = Some w'" "keeps w w'"
    using lookup_step step(2) w(1) by blast
  with w(2) show ?case by (auto intro: keeps_trans)
qed

end

section \<open>Commands that can be retried\<close>

text \<open>
  \<open>run e s\<close> is the command under an environment \<open>e\<close> (the clock, fresh identifiers),
  which \<open>env_ok\<close> may require to be fresh in \<open>s\<close>.
  Once it has returned a value, running it again returns the same value and changes nothing,
  whatever the environment is by then.
\<close>

locale idempotent_command =
  fixes run :: "'e \<Rightarrow> ('s, 'a) action"
    and inv :: "'s \<Rightarrow> bool"
    and env_ok :: "'s \<Rightarrow> 'e \<Rightarrow> bool"
  assumes replay: "inv s \<Longrightarrow> env_ok s e \<Longrightarrow> run e s = (Inr x, s') \<Longrightarrow> run e' s' = (Inr x, s')"
begin

fun retries :: "'e list \<Rightarrow> ('s, 'a list) action" where
  "retries [] s = (Inr [], s)"
| "retries (e # es) s =
     (case run e s of (Inl x, s') \<Rightarrow> (Inl x, s')
      | (Inr v, s') \<Rightarrow> (case retries es s' of (Inl x, s'') \<Rightarrow> (Inl x, s'') | (Inr vs, s'') \<Rightarrow> (Inr (v # vs), s'')))"

lemma retries_settled:
  assumes "\<And>e. run e s = (Inr x, s)"
  shows "retries es s = (Inr (replicate (length es) x), s)"
  by (induction es) (simp_all add: assms)

lemma retries_same:
  assumes "inv s" "env_ok s e" "run e s = (Inr x, s')"
  shows "retries es s' = (Inr (replicate (length es) x), s')"
  by (rule retries_settled) (rule replay [OF assms])

end

end
