(* ===== verification/Agent_Execution.thy ===== *)
theory Agent_Execution
  imports Contracts Interfaces
begin

text \<open>
  \<open>domain/agent_execution\<close>: the aggregate of one externally executed agent run with its
  lifecycle, and the append-only event with the typed evidence it may carry and the privacy check on
  its attributes.
\<close>

section \<open>Executions\<close>

datatype execution_status = EX_RECEIVED | EX_RUNNING | EX_SUCCEEDED | EX_FAILED | EX_CANCELLED

fun execution_status_value :: "execution_status \<Rightarrow> string" where
  "execution_status_value EX_RECEIVED = ''RECEIVED''"
| "execution_status_value EX_RUNNING = ''RUNNING''"
| "execution_status_value EX_SUCCEEDED = ''SUCCEEDED''"
| "execution_status_value EX_FAILED = ''FAILED''"
| "execution_status_value EX_CANCELLED = ''CANCELLED''"

definition terminal_states :: "execution_status set" where
  "terminal_states = {EX_SUCCEEDED, EX_FAILED, EX_CANCELLED}"

record agent_execution =
  ex_execution_id :: string
  ex_organization_id :: string
  ex_project_id :: "string option"
  ex_agent_id :: string
  ex_agent_name :: string
  ex_agent_version :: string
  ex_external_execution_id :: string
  ex_runtime_provider :: string
  ex_status :: execution_status
  ex_started_at :: datetime
  ex_completed_at :: "datetime option"
  ex_correlation_id :: "string option"
  ex_parent_execution_id :: "string option"
  ex_created_at :: datetime
  ex_updated_at :: datetime
  ex_metadata :: "(string \<times> pyval) list"
  ex_version :: int

definition require_filled :: "string \<Rightarrow> string \<Rightarrow> bool \<times> exc" where
  "require_filled name v = (blank v, Exc ValueError (name @ '' must not be empty.''))"

text \<open>\<open>if a < b: raise e\<close>, with the \<open>TypeError\<close> of an undefined comparison.\<close>

definition raise_if_before :: "datetime \<Rightarrow> datetime \<Rightarrow> exc \<Rightarrow> (bool \<times> exc) list" where
  "raise_if_before a b e =
     [(dt_less a b = None, Exc TypeError ''can't compare offset-naive and offset-aware datetimes''),
      (dt_less a b = Some True, e)]"

definition execution_checks :: "agent_execution \<Rightarrow> (bool \<times> exc) list" where
  "execution_checks x =
     [require_filled ''execution_id'' (ex_execution_id x),
      require_filled ''organization_id'' (ex_organization_id x),
      require_filled ''agent_id'' (ex_agent_id x),
      require_filled ''agent_name'' (ex_agent_name x),
      require_filled ''agent_version'' (ex_agent_version x),
      require_filled ''external_execution_id'' (ex_external_execution_id x),
      require_filled ''runtime_provider'' (ex_runtime_provider x)]
     @ when_given (ex_project_id x) (\<lambda>p. (blank p, Exc ValueError ''project_id must not be blank.''))
     @ (case ex_completed_at x of None \<Rightarrow> []
        | Some t \<Rightarrow> raise_if_before t (ex_started_at x)
            (Exc ValueError ''completed_at must not precede started_at.''))
     @ raise_if_before (ex_updated_at x) (ex_created_at x)
         (Exc ValueError ''updated_at must not precede created_at.'')
     @ [(ex_version x < 0, Exc ValueError ''version must be non-negative.'')]"

definition new_execution :: "agent_execution \<Rightarrow> exc + agent_execution" where
  "new_execution x = checked (execution_checks x) x"

definition execution_ok :: "agent_execution \<Rightarrow> bool" where
  "execution_ok x = all_pass (execution_checks x)"

definition ex_is_terminal :: "agent_execution \<Rightarrow> bool" where
  "ex_is_terminal x = (ex_status x \<in> terminal_states)"

definition mark_running :: "agent_execution \<Rightarrow> datetime \<Rightarrow> exc + agent_execution" where
  "mark_running x now =
     (if ex_status x \<noteq> EX_RECEIVED
      then Inl (Exc ValueError (''Cannot transition to RUNNING from ''
                  @ execution_status_value (ex_status x) @ '' state.''))
      else new_execution (x\<lparr>ex_status := EX_RUNNING, ex_updated_at := now\<rparr>))"

definition mark_terminal :: "agent_execution \<Rightarrow> execution_status \<Rightarrow> datetime \<Rightarrow> exc + agent_execution" where
  "mark_terminal x status now =
     (if status \<notin> terminal_states
      then Inl (Exc ValueError (execution_status_value status @ '' is not a terminal state.''))
      else if ex_status x \<in> terminal_states
      then Inl (Exc ValueError (''Execution is already terminal ('' @ execution_status_value (ex_status x)
                  @ ''); terminal states are immutable.''))
      else if ex_completed_at x \<noteq> None
      then Inl (Exc ValueError ''completed_at is already set; execution is terminal.'')
      else new_execution (x\<lparr>ex_status := status, ex_completed_at := Some now, ex_updated_at := now\<rparr>))"

definition bump_version :: "agent_execution \<Rightarrow> datetime \<Rightarrow> exc + agent_execution" where
  "bump_version x now = new_execution (x\<lparr>ex_version := ex_version x + 1, ex_updated_at := now\<rparr>)"

text \<open>The duration in microseconds; the code reports seconds.\<close>

definition duration_micros :: "agent_execution \<Rightarrow> int option" where
  "duration_micros x = map_option (\<lambda>t. micros t - micros (ex_started_at x)) (ex_completed_at x)"

lemma new_execution_Inr_iff: "new_execution x = Inr y \<longleftrightarrow> y = x \<and> execution_ok x"
  by (auto simp: new_execution_def execution_ok_def checked_Inr_iff)

text \<open>The lifecycle of the aggregate as a status machine.\<close>

inductive execution_step :: "agent_execution \<Rightarrow> agent_execution \<Rightarrow> bool" where
  "mark_running x now = Inr y \<Longrightarrow> execution_step x y"
| "mark_terminal x status now = Inr y \<Longrightarrow> execution_step x y"
| "bump_version x now = Inr y \<Longrightarrow> execution_step x y"

definition execution_edge :: "execution_status \<Rightarrow> execution_status \<Rightarrow> bool" where
  "execution_edge a b =
     ((a = EX_RECEIVED \<and> b = EX_RUNNING) \<or> (a \<notin> terminal_states \<and> b \<in> terminal_states))"

lemma execution_step_edge:
  "execution_step x y \<Longrightarrow> ex_status y = ex_status x \<or> execution_edge (ex_status x) (ex_status y)"
  by (induction rule: execution_step.induct)
    (auto simp: mark_running_def mark_terminal_def bump_version_def new_execution_Inr_iff
      execution_edge_def split: if_splits)

interpretation execution_lifecycle: status_machine execution_step ex_status execution_edge
  by unfold_locales (rule execution_step_edge)

section \<open>Event evidence\<close>

datatype event_type =
    EXECUTION_STARTED | MODEL_CALL | TOOL_CALL | RUNTIME_ACTION_AUTHORIZATION
  | RUNTIME_ACTION_EXECUTION_RECEIPT | WORKFLOW_STEP | EV_GOVERNANCE_DECISION | EVALUATION | EV_ERROR
  | EXECUTION_COMPLETED

datatype actor_type = AGENT | MODEL | TOOL | GOVERNANCE | EVALUATOR | SYSTEM

datatype step_lifecycle = STEP_STARTED | STEP_COMPLETED | STEP_FAILED

record workflow_step =
  ws_step_id :: string
  ws_step_name :: string
  ws_lifecycle :: step_lifecycle
  ws_parent_step_id :: "string option"
  ws_source_kind :: "string option"

text \<open>\<open>[a-z][a-z0-9_-]*(?:\.[a-z][a-z0-9_-]*)+\<close>.\<close>

definition source_kind_segment :: "string \<Rightarrow> bool" where
  "source_kind_segment s =
     (case s of [] \<Rightarrow> False
      | c # cs \<Rightarrow> is_ascii_lower c
          \<and> list_all (\<lambda>x. is_ascii_lower x \<or> is_ascii_digit x \<or> x = CHR ''_'' \<or> x = CHR ''-'') cs)"

definition match_source_kind :: "string \<Rightarrow> bool" where
  "match_source_kind s =
     (let segments = py_split CHR ''.'' s in 2 \<le> length segments \<and> list_all source_kind_segment segments)"

definition bounded_field :: "string \<Rightarrow> string \<Rightarrow> string \<Rightarrow> (bool \<times> exc) list" where
  "bounded_field name problem v =
     [(blank v, Exc ValueError (name @ problem)),
      (256 < length v, Exc ValueError (name @ '' must not exceed 256 characters.''))]"

definition workflow_step_checks :: "workflow_step \<Rightarrow> (bool \<times> exc) list" where
  "workflow_step_checks w =
     bounded_field ''step_id'' '' must not be empty.'' (ws_step_id w)
     @ bounded_field ''step_name'' '' must not be empty.'' (ws_step_name w)
     @ (case ws_parent_step_id w of None \<Rightarrow> []
        | Some p \<Rightarrow> bounded_field ''parent_step_id'' '' must not be blank.'' p
            @ [(p = ws_step_id w, Exc ValueError ''parent_step_id must not equal step_id.'')])
     @ when_given (ws_source_kind w) (\<lambda>k. (256 < length k \<or> \<not> match_source_kind k,
         Exc ValueError ''source_kind must be a bounded lowercase namespaced identifier, for example 'langgraph.node'.''))"

definition new_workflow_step :: "workflow_step \<Rightarrow> exc + workflow_step" where
  "new_workflow_step w = checked (workflow_step_checks w) w"

record tool_call_context =
  tc_schema_version :: string
  tc_runtime_tool_call_id :: string
  tc_tool_call_group_id :: string
  tc_depends_on_tool_call_ids :: "string list"

definition tool_call_context_checks :: "tool_call_context \<Rightarrow> (bool \<times> exc) list" where
  "tool_call_context_checks t =
     [(tc_schema_version t \<noteq> ''1'',
       Exc ValueError (''Unsupported tool-call context schema version '' @ quoted (tc_schema_version t)
         @ ''; supported versions: ['' @ quoted ''1'' @ ''].''))]
     @ bounded_field ''runtime_tool_call_id'' '' must not be blank.'' (tc_runtime_tool_call_id t)
     @ bounded_field ''tool_call_group_id'' '' must not be blank.'' (tc_tool_call_group_id t)
     @ [(64 < length (tc_depends_on_tool_call_ids t),
         Exc ValueError ''depends_on_tool_call_ids must not contain more than 64 items.''),
        (\<not> distinct (tc_depends_on_tool_call_ids t),
         Exc ValueError ''depends_on_tool_call_ids must be unique.'')]
     @ concat (map (\<lambda>dep.
         [(blank dep, Exc ValueError ''depends_on_tool_call_ids must not contain blank values.''),
          (256 < length dep,
           Exc ValueError ''depends_on_tool_call_ids values must not exceed 256 characters.''),
          (dep = tc_runtime_tool_call_id t,
           Exc ValueError ''runtime_tool_call_id must not depend on itself.'')])
         (tc_depends_on_tool_call_ids t))"

definition new_tool_call_context :: "tool_call_context \<Rightarrow> exc + tool_call_context" where
  "new_tool_call_context t = checked (tool_call_context_checks t) t"

section \<open>Prohibited attribute keys\<close>

definition prohibited_keys :: "string list" where
  "prohibited_keys =
     [''prompt'', ''system_prompt'', ''response'', ''messages'', ''conversation'', ''chain_of_thought'',
      ''chain_of_thoughts'', ''reasoning'', ''credentials'', ''authorization'', ''authorization_header'',
      ''authorization_headers'', ''api_key'', ''apikey'', ''token'', ''password'', ''secret'',
      ''tool_payload'', ''tool_output'', ''tool_arguments'', ''tool_result'', ''external_tool_call_id'']"

definition prohibited :: "string \<Rightarrow> bool" where
  "prohibited k = (normalize_key k \<in> set prohibited_keys)"

text \<open>The dotted path of the first prohibited key inside a value.\<close>

fun find_prohibited_key :: "pyval \<Rightarrow> string \<Rightarrow> string option"
  and find_prohibited_in_dict :: "(string \<times> pyval) list \<Rightarrow> string \<Rightarrow> string option"
  and find_prohibited_in_list :: "pyval list \<Rightarrow> nat \<Rightarrow> string \<Rightarrow> string option" where
  "find_prohibited_key (PDict d) path = find_prohibited_in_dict d path"
| "find_prohibited_key (PList xs) path = find_prohibited_in_list xs 0 path"
| "find_prohibited_key _ path = None"
| "find_prohibited_in_dict [] path = None"
| "find_prohibited_in_dict ((k, v) # d) path =
     (let current = (if path = [] then k else path @ ''.'' @ k) in
      if prohibited k then Some current
      else case find_prohibited_key v current of Some r \<Rightarrow> Some r | None \<Rightarrow> find_prohibited_in_dict d path)"
| "find_prohibited_in_list [] i path = None"
| "find_prohibited_in_list (x # xs) i path =
     (case find_prohibited_key x (path @ ''['' @ nat_digits i @ '']'') of
        Some r \<Rightarrow> Some r | None \<Rightarrow> find_prohibited_in_list xs (Suc i) path)"

text \<open>A key occurs in a value, at any depth.\<close>

inductive key_occurs :: "string \<Rightarrow> pyval \<Rightarrow> bool" where
  here: "(k, v) \<in> set d \<Longrightarrow> key_occurs k (PDict d)"
| below: "(k', v) \<in> set d \<Longrightarrow> key_occurs k v \<Longrightarrow> key_occurs k (PDict d)"
| item: "v \<in> set xs \<Longrightarrow> key_occurs k v \<Longrightarrow> key_occurs k (PList xs)"

inductive_cases key_occurs_DictE: "key_occurs k (PDict d)"
inductive_cases key_occurs_ListE: "key_occurs k (PList xs)"
inductive_simps key_occurs_atoms [simp]:
  "key_occurs k PNone" "key_occurs k (PBool b)" "key_occurs k (PInt i)" "key_occurs k (PFloat r)"
  "key_occurs k (PStr s)"

lemma key_occurs_Dict_Cons:
  "key_occurs j (PDict ((k, v) # d)) \<longleftrightarrow> j = k \<or> key_occurs j v \<or> key_occurs j (PDict d)"
proof
  assume "key_occurs j (PDict ((k, v) # d))"
  then show "j = k \<or> key_occurs j v \<or> key_occurs j (PDict d)"
    by (cases rule: key_occurs_DictE) (auto intro: key_occurs.here key_occurs.below)
next
  have "key_occurs k (PDict ((k, v) # d))" by (rule key_occurs.here [of k v]) simp
  moreover have "key_occurs j (PDict ((k, v) # d))" if "key_occurs j v"
    using that by (intro key_occurs.below [of k v]) simp_all
  moreover have "key_occurs j (PDict ((k, v) # d))" if "key_occurs j (PDict d)"
    using that by (cases rule: key_occurs_DictE) (auto intro: key_occurs.here key_occurs.below)
  ultimately show "j = k \<or> key_occurs j v \<or> key_occurs j (PDict d) \<Longrightarrow>
      key_occurs j (PDict ((k, v) # d))" by blast
qed

lemma key_occurs_List_Cons:
  "key_occurs j (PList (x # xs)) \<longleftrightarrow> key_occurs j x \<or> key_occurs j (PList xs)"
proof
  show "key_occurs j (PList (x # xs)) \<Longrightarrow> key_occurs j x \<or> key_occurs j (PList xs)"
    by (cases rule: key_occurs_ListE) (auto intro: key_occurs.item)
  have "key_occurs j (PList (x # xs))" if "key_occurs j x"
    using that by (intro key_occurs.item [of x]) simp_all
  moreover have "key_occurs j (PList (x # xs))" if "key_occurs j (PList xs)"
    using that by (cases rule: key_occurs_ListE) (auto intro: key_occurs.item)
  ultimately show "key_occurs j x \<or> key_occurs j (PList xs) \<Longrightarrow> key_occurs j (PList (x # xs))" by blast
qed

lemma key_occurs_Nil [simp]: "\<not> key_occurs j (PDict [])" "\<not> key_occurs j (PList [])"
  by (auto elim: key_occurs_DictE key_occurs_ListE)

lemma find_prohibited_complete:
  "(\<forall>k. key_occurs k v \<longrightarrow> \<not> prohibited k) \<longleftrightarrow> find_prohibited_key v path = None"
  "(\<forall>k. key_occurs k (PDict d) \<longrightarrow> \<not> prohibited k) \<longleftrightarrow> find_prohibited_in_dict d path = None"
  "(\<forall>k. key_occurs k (PList xs) \<longrightarrow> \<not> prohibited k) \<longleftrightarrow> find_prohibited_in_list xs i path = None"
proof (induction v path and d path and xs i path
    rule: find_prohibited_key_find_prohibited_in_dict_find_prohibited_in_list.induct)
  case (5 k v d path)
  then show ?case
    by (cases "prohibited k"; cases "path = []")
      (auto simp: Let_def key_occurs_Dict_Cons split: option.splits)
next
  case (7 x xs i path)
  then show ?case by (auto simp: key_occurs_List_Cons split: option.splits)
qed simp_all

section \<open>Events\<close>

record execution_event =
  ev_event_id :: string
  ev_execution_id :: string
  ev_organization_id :: string
  ev_project_id :: "string option"
  ev_event_type :: event_type
  ev_sequence_number :: int
  ev_occurred_at :: datetime
  ev_received_at :: datetime
  ev_correlation_id :: "string option"
  ev_causation_id :: "string option"
  ev_actor_id :: "string option"
  ev_actor_type :: "actor_type option"
  ev_workflow_step :: "workflow_step option"
  ev_tool_call_context :: "tool_call_context option"
  ev_late_for_runtime_findings :: bool
  ev_finalization_cutoff_at :: "datetime option"
  ev_lateness_policy_hours :: "int option"
  ev_resource_references :: "string list"
  ev_evidence_references :: "string list"
  ev_attributes :: "(string \<times> pyval) list"
  ev_schema_version :: string

definition prohibited_key_error :: "string \<Rightarrow> exc" where
  "prohibited_key_error key = Exc ValueError (''Event attributes must not contain prohibited key ''
     @ quoted key @ ''; raw prompts, responses, credentials, and reasoning traces are not persisted.'')"

definition attribute_checks :: "(string \<times> pyval) list \<Rightarrow> (bool \<times> exc) list" where
  "attribute_checks attrs =
     concat (map (\<lambda>(key, value).
       [(prohibited key, prohibited_key_error key),
        (find_prohibited_key value [] \<noteq> None,
         prohibited_key_error (opt_or (find_prohibited_key value []) []))]) attrs)"

definition event_checks :: "execution_event \<Rightarrow> (bool \<times> exc) list" where
  "event_checks e =
     [require_filled ''event_id'' (ev_event_id e),
      require_filled ''execution_id'' (ev_execution_id e),
      require_filled ''organization_id'' (ev_organization_id e)]
     @ when_given (ev_project_id e) (\<lambda>p. (blank p, Exc ValueError ''project_id must not be blank.''))
     @ [(ev_sequence_number e < 0, Exc ValueError ''sequence_number must be non-negative.''),
        (ev_schema_version e \<noteq> ''1'',
         Exc ValueError (''Unsupported event schema version '' @ quoted (ev_schema_version e)
           @ ''; Phase 1 supports: ['' @ quoted ''1'' @ ''].''))]
     @ raise_if_before (ev_received_at e) (ev_occurred_at e)
         (Exc ValueError ''received_at must not precede occurred_at.'')
     @ [(ev_event_type e = WORKFLOW_STEP \<and> ev_workflow_step e = None,
         Exc ValueError ''WORKFLOW_STEP events require typed workflow_step evidence.''),
        (ev_event_type e \<noteq> WORKFLOW_STEP \<and> ev_workflow_step e \<noteq> None,
         Exc ValueError ''workflow_step evidence is valid only for WORKFLOW_STEP events.''),
        (ev_event_type e \<noteq> TOOL_CALL \<and> ev_tool_call_context e \<noteq> None,
         Exc ValueError ''tool_call_context is valid only for TOOL_CALL events.'')]
     @ map (\<lambda>ref. (blank ref, Exc ValueError ''resource_references must not contain empty strings.''))
         (ev_resource_references e)
     @ map (\<lambda>ref. (blank ref, Exc ValueError ''evidence_references must not contain empty strings.''))
         (ev_evidence_references e)
     @ attribute_checks (ev_attributes e)"

definition new_event :: "execution_event \<Rightarrow> exc + execution_event" where
  "new_event e = checked (event_checks e) e"

definition event_ok :: "execution_event \<Rightarrow> bool" where
  "event_ok e = all_pass (event_checks e)"

definition with_sequence :: "execution_event \<Rightarrow> int \<Rightarrow> exc + execution_event" where
  "with_sequence e n = new_event (e\<lparr>ev_sequence_number := n\<rparr>)"

definition ev_is_terminal :: "execution_event \<Rightarrow> bool" where
  "ev_is_terminal e = (ev_event_type e \<in> {EXECUTION_STARTED, EXECUTION_COMPLETED})"

definition ev_is_error :: "execution_event \<Rightarrow> bool" where
  "ev_is_error e = (ev_event_type e = EV_ERROR)"

lemma new_event_Inr_iff: "new_event e = Inr f \<longleftrightarrow> f = e \<and> event_ok e"
  by (auto simp: new_event_def event_ok_def checked_Inr_iff)

lemma event_ok_attributes:
  assumes "event_ok e" "key_occurs k (PDict (ev_attributes e))"
  shows "\<not> prohibited k"
proof -
  have attrs: "all_pass (attribute_checks (ev_attributes e))"
    using assms(1) by (simp add: event_ok_def event_checks_def)
  from assms(2) obtain k' v where kv: "(k', v) \<in> set (ev_attributes e)" "k = k' \<or> key_occurs k v"
    by (auto elim: key_occurs_DictE)
  with attrs have "\<not> prohibited k'" "find_prohibited_key v [] = None"
    by (auto simp: attribute_checks_def all_pass_concat_map)
  with kv(2) show ?thesis using find_prohibited_complete(1) [of v "[]"] by blast
qed

text \<open>
  C39. An event that passes construction carries no prohibited key, spelled in any mixture of case,
  dashes and spaces, at any depth of its attributes.
\<close>

theorem event_attributes_private:
  assumes "new_event e = Inr f" "key_occurs k (PDict (ev_attributes f))"
  shows "normalize_key k \<notin> set prohibited_keys"
  using assms event_ok_attributes by (auto simp: new_event_Inr_iff prohibited_def)

text \<open>
  The lifecycle of an execution only moves forward: after any sequence of domain transitions its
  status is reachable along the declared edges, and a terminal execution keeps its status.
\<close>

theorem execution_lifecycle_monotone:
  assumes "execution_step\<^sup>*\<^sup>* x y"
  shows "execution_edge\<^sup>*\<^sup>* (ex_status x) (ex_status y)
    \<and> (ex_is_terminal x \<longrightarrow> ex_status y = ex_status x)"
proof
  show "execution_edge\<^sup>*\<^sup>* (ex_status x) (ex_status y)"
    using execution_lifecycle.run_allowed [OF assms] .
  show "ex_is_terminal x \<longrightarrow> ex_status y = ex_status x"
    using execution_lifecycle.run_final [OF assms]
    by (auto simp: ex_is_terminal_def execution_edge_def terminal_states_def)
qed

end
