(* ===== verification/Execution_Ledger.thy ===== *)
theory Execution_Ledger
  imports Agent_Execution
begin

text \<open>
  \<open>repositories/in_memory/in_memory_agent_execution_repository.py\<close>: the store of execution
  aggregates and the append-only store of their events. Limits and offsets are not negative.
\<close>

section \<open>Tenancy\<close>

text \<open>\<open>TenantContext\<close> of \<open>tenancy/domain.py\<close>: the validated scope and actor of a call.\<close>

record tenant_context =
  cx_organization_id :: string
  cx_project_id :: "string option"
  cx_actor_id :: string
  cx_request_id :: string
  cx_correlation_id :: "string option"

section \<open>Executions\<close>

record execution_repo =
  xr_by_id :: "(string, agent_execution) dict"
  xr_by_external :: "(string \<times> string, string) dict"

definition save_execution :: "agent_execution \<Rightarrow> (execution_repo, agent_execution) action" where
  "save_execution x s =
     (Inr x, s\<lparr>xr_by_id := dict_put (ex_execution_id x) x (xr_by_id s),
               xr_by_external := dict_put (ex_external_execution_id x, ex_runtime_provider x)
                 (ex_execution_id x) (xr_by_external s)\<rparr>)"

text \<open>The tenant scope of a read: a project of \<open>None\<close> admits every project.\<close>

definition in_scope :: "string \<Rightarrow> string option \<Rightarrow> string \<Rightarrow> string option \<Rightarrow> bool" where
  "in_scope organization_id project_id owner_organization owner_project =
     (owner_organization = organization_id \<and> (project_id = None \<or> owner_project = project_id))"

definition get_execution :: "execution_repo \<Rightarrow> string \<Rightarrow> string \<Rightarrow> string option \<Rightarrow> agent_execution option" where
  "get_execution s execution_id organization_id project_id =
     (case dict_get (xr_by_id s) execution_id of
        None \<Rightarrow> None
      | Some x \<Rightarrow> if in_scope organization_id project_id (ex_organization_id x) (ex_project_id x)
                  then Some x else None)"

definition get_by_external_id ::
  "execution_repo \<Rightarrow> string \<Rightarrow> string \<Rightarrow> string \<Rightarrow> string option \<Rightarrow> agent_execution option" where
  "get_by_external_id s external_execution_id runtime_provider organization_id project_id =
     (case dict_get (xr_by_external s) (external_execution_id, runtime_provider) of
        None \<Rightarrow> None
      | Some execution_id \<Rightarrow> get_execution s execution_id organization_id project_id)"

record execution_filters =
  xf_agent_id :: "string option"
  xf_status :: "execution_status option"
  xf_runtime_provider :: "string option"
  xf_created_after :: "datetime option"
  xf_created_before :: "datetime option"
  xf_limit :: nat

definition naive_aware_error :: exc where
  "naive_aware_error = Exc TypeError ''can't compare offset-naive and offset-aware datetimes''"

text \<open>\<open>a < b\<close> and its exception.\<close>

definition dt_before :: "datetime \<Rightarrow> datetime \<Rightarrow> exc + bool" where
  "dt_before a b = (case dt_less a b of None \<Rightarrow> Inl naive_aware_error | Some r \<Rightarrow> Inr r)"

definition execution_listed ::
  "execution_filters \<Rightarrow> string \<Rightarrow> string option \<Rightarrow> agent_execution \<Rightarrow> exc + bool" where
  "execution_listed f organization_id project_id x =
     (if \<not> in_scope organization_id project_id (ex_organization_id x) (ex_project_id x) then Inr False
      else if xf_agent_id f \<notin> {None, Some (ex_agent_id x)} then Inr False
      else if xf_status f \<notin> {None, Some (ex_status x)} then Inr False
      else if xf_runtime_provider f \<notin> {None, Some (ex_runtime_provider x)} then Inr False
      else res_bind (case xf_created_after f of None \<Rightarrow> Inr False | Some t \<Rightarrow> dt_before (ex_created_at x) t) (\<lambda>early.
           if early then Inr False
           else res_bind (case xf_created_before f of None \<Rightarrow> Inr False | Some t \<Rightarrow> dt_before t (ex_created_at x)) (\<lambda>late.
             Inr (\<not> late))))"

fun filter_res :: "('a \<Rightarrow> 'e + bool) \<Rightarrow> 'a list \<Rightarrow> 'e + 'a list" where
  "filter_res p [] = Inr []"
| "filter_res p (x # xs) =
     res_bind (p x) (\<lambda>keep. res_bind (filter_res p xs) (\<lambda>ys. Inr (if keep then x # ys else ys)))"

definition repo_list_executions ::
  "execution_repo \<Rightarrow> execution_filters \<Rightarrow> string \<Rightarrow> string option \<Rightarrow> exc + agent_execution list" where
  "repo_list_executions s f organization_id project_id =
     res_bind (filter_res (execution_listed f organization_id project_id) (dict_values (xr_by_id s)))
       (\<lambda>results. Inr (take (xf_limit f)
          (sort_key (\<lambda>x. (micros (ex_created_at x), ex_execution_id x)) results)))"

record agent_summary =
  as_execution_count :: nat
  as_succeeded_count :: nat
  as_failed_count :: nat
  as_running_count :: nat
  as_last_started_at :: datetime

text \<open>One execution counted into the aggregate of its agent; start times come from the aware clock.\<close>

definition count_execution :: "agent_execution \<Rightarrow> agent_summary \<Rightarrow> agent_summary" where
  "count_execution x a =
     a\<lparr>as_execution_count := as_execution_count a + 1,
       as_succeeded_count := as_succeeded_count a + (if ex_status x = EX_SUCCEEDED then 1 else 0),
       as_failed_count := as_failed_count a + (if ex_status x = EX_FAILED then 1 else 0),
       as_running_count := as_running_count a + (if ex_status x = EX_RUNNING then 1 else 0),
       as_last_started_at := (if micros (as_last_started_at a) < micros (ex_started_at x)
                              then ex_started_at x else as_last_started_at a)\<rparr>"

definition add_execution ::
  "agent_execution \<Rightarrow> (string \<times> string \<times> string, agent_summary) dict
     \<Rightarrow> (string \<times> string \<times> string, agent_summary) dict" where
  "add_execution x aggregates =
     (let key = (ex_agent_id x, ex_agent_name x, ex_runtime_provider x);
          start = \<lparr>as_execution_count = 0, as_succeeded_count = 0, as_failed_count = 0,
                   as_running_count = 0, as_last_started_at = ex_started_at x\<rparr>
      in dict_put key (count_execution x (opt_or (dict_get aggregates key) start)) aggregates)"

definition repo_list_agents ::
  "execution_repo \<Rightarrow> nat \<Rightarrow> nat \<Rightarrow> string \<Rightarrow> string option
     \<Rightarrow> ((string \<times> string \<times> string) \<times> agent_summary) list" where
  "repo_list_agents s limit offset organization_id project_id =
     (let mine = filter (\<lambda>x. in_scope organization_id project_id (ex_organization_id x) (ex_project_id x))
                   (dict_values (xr_by_id s));
          items = fold add_execution mine []
      in take limit (drop offset
           (sort_key (\<lambda>((agent_id, _, provider), a). (- micros (as_last_started_at a), agent_id, provider)) items)))"

definition update_status ::
  "string \<Rightarrow> string \<Rightarrow> string option \<Rightarrow> execution_status \<Rightarrow> datetime option \<Rightarrow> int
     \<Rightarrow> (execution_repo, agent_execution) action" where
  "update_status execution_id organization_id project_id new_status completed_at expected_version s =
     (case dict_get (xr_by_id s) execution_id of
        None \<Rightarrow> (Inl (Exc ValueError (''Execution '' @ quoted execution_id @ '' not found.'')), s)
      | Some x \<Rightarrow>
          if ex_organization_id x \<noteq> organization_id
          then (Inl (Exc ValueError ''Organization mismatch.''), s)
          else if project_id \<noteq> None \<and> ex_project_id x \<noteq> project_id
          then (Inl (Exc ValueError ''Project mismatch.''), s)
          else if ex_version x \<noteq> expected_version
          then (Inl (Exc AgentExecutionConcurrencyConflict (''Version mismatch: expected ''
                  @ py_str_int expected_version @ '', got '' @ py_str_int (ex_version x) @ ''.'')), s)
          else (case new_execution (x\<lparr>ex_status := new_status, ex_completed_at := completed_at,
                       ex_version := ex_version x + 1\<rparr>) of
                  Inl e \<Rightarrow> (Inl e, s)
                | Inr updated \<Rightarrow> (Inr updated, s\<lparr>xr_by_id := dict_put execution_id updated (xr_by_id s)\<rparr>)))"

section \<open>Events\<close>

record event_repo =
  er_by_id :: "(string, execution_event) dict"
  er_by_execution :: "(string, execution_event list) dict"
  er_by_idempotency :: "(string \<times> string, execution_event) dict"
  er_by_tool_call :: "(string \<times> string, execution_event) dict"

definition empty_event_repo :: event_repo where
  "empty_event_repo = \<lparr>er_by_id = [], er_by_execution = [], er_by_idempotency = [], er_by_tool_call = []\<rparr>"

text \<open>Equality of two events: their attributes compare as Python mappings.\<close>

definition event_eq :: "execution_event \<Rightarrow> execution_event \<Rightarrow> bool" where
  "event_eq e f =
     (e\<lparr>ev_attributes := []\<rparr> = f\<lparr>ev_attributes := []\<rparr>
      \<and> py_eq (PDict (ev_attributes e)) (PDict (ev_attributes f)))"

definition same_payload :: "execution_event \<Rightarrow> execution_event \<Rightarrow> bool" where
  "same_payload e f =
     (ev_event_type e = ev_event_type f
      \<and> py_eq (PDict (ev_attributes e)) (PDict (ev_attributes f))
      \<and> ev_workflow_step e = ev_workflow_step f
      \<and> ev_tool_call_context e = ev_tool_call_context f)"

definition tool_call_key :: "execution_event \<Rightarrow> (string \<times> string) option" where
  "tool_call_key e =
     map_option (\<lambda>c. (ev_execution_id e, tc_runtime_tool_call_id c)) (ev_tool_call_context e)"

definition insert_event :: "execution_event \<Rightarrow> execution_event list \<Rightarrow> execution_event list" where
  "insert_event e es =
     (if list_ex (\<lambda>x. ev_event_id x = ev_event_id e) es then es
      else sort_key ev_sequence_number (es @ [e]))"

definition append_event :: "execution_event \<Rightarrow> string option \<Rightarrow> event_repo \<Rightarrow> event_repo" where
  "append_event e idempotency_key s =
     s\<lparr>er_by_id := dict_put (ev_event_id e) e (er_by_id s),
       er_by_execution := dict_put (ev_execution_id e)
         (insert_event e (opt_or (dict_get (er_by_execution s) (ev_execution_id e)) [])) (er_by_execution s),
       er_by_tool_call := (case tool_call_key e of None \<Rightarrow> er_by_tool_call s
         | Some k \<Rightarrow> dict_put k e (er_by_tool_call s)),
       er_by_idempotency := (case idempotency_key of None \<Rightarrow> er_by_idempotency s
         | Some k \<Rightarrow> dict_put (k, ev_execution_id e) e (er_by_idempotency s))\<rparr>"

definition save_event :: "execution_event \<Rightarrow> string option \<Rightarrow> (event_repo, execution_event) action" where
  "save_event e idempotency_key s =
     (case dict_get (er_by_id s) (ev_event_id e) of
        Some existing \<Rightarrow>
          if event_eq existing e then (Inr existing, s)
          else (Inl (Exc AgentExecutionIdempotencyConflict
                  (''Event ID conflict for execution '' @ quoted (ev_execution_id e) @ ''.'')), s)
      | None \<Rightarrow>
          (case (case idempotency_key of None \<Rightarrow> None
                 | Some k \<Rightarrow> dict_get (er_by_idempotency s) (k, ev_execution_id e)) of
             Some existing \<Rightarrow>
               if same_payload existing e then (Inr existing, s)
               else (Inl (Exc AgentExecutionIdempotencyConflict
                       (''Idempotency key '' @ quoted (opt_or idempotency_key [])
                        @ '' reused with different payload for execution ''
                        @ quoted (ev_execution_id e) @ ''.'')), s)
           | None \<Rightarrow>
               (case Option.bind (tool_call_key e) (dict_get (er_by_tool_call s)) of
                  Some other \<Rightarrow>
                    if ev_event_id other \<noteq> ev_event_id e
                    then (Inl (Exc AgentExecutionRuntimeToolCallConflict
                            (''Runtime tool-call ID conflict for execution ''
                             @ quoted (ev_execution_id e) @ ''.'')), s)
                    else (Inr e, append_event e idempotency_key s)
                | None \<Rightarrow> (Inr e, append_event e idempotency_key s))))"

definition get_event_by_id ::
  "event_repo \<Rightarrow> string \<Rightarrow> string \<Rightarrow> string \<Rightarrow> string option \<Rightarrow> execution_event option" where
  "get_event_by_id s event_id execution_id organization_id project_id =
     (case dict_get (er_by_id s) event_id of
        None \<Rightarrow> None
      | Some e \<Rightarrow> if ev_execution_id e = execution_id
                     \<and> in_scope organization_id project_id (ev_organization_id e) (ev_project_id e)
                  then Some e else None)"

record event_filters =
  ef_event_type :: "event_type option"
  ef_actor_id :: "string option"
  ef_occurred_after :: "datetime option"
  ef_occurred_before :: "datetime option"
  ef_limit :: nat

definition default_event_filters :: event_filters where
  "default_event_filters = \<lparr>ef_event_type = None, ef_actor_id = None, ef_occurred_after = None,
     ef_occurred_before = None, ef_limit = 200\<rparr>"

definition event_listed ::
  "event_filters \<Rightarrow> string \<Rightarrow> string option \<Rightarrow> execution_event \<Rightarrow> exc + bool" where
  "event_listed f organization_id project_id e =
     (if \<not> in_scope organization_id project_id (ev_organization_id e) (ev_project_id e) then Inr False
      else if ef_event_type f \<notin> {None, Some (ev_event_type e)} then Inr False
      else if ef_actor_id f \<noteq> None \<and> ef_actor_id f \<noteq> ev_actor_id e then Inr False
      else res_bind (case ef_occurred_after f of None \<Rightarrow> Inr False | Some t \<Rightarrow> dt_before (ev_occurred_at e) t) (\<lambda>early.
           if early then Inr False
           else res_bind (case ef_occurred_before f of None \<Rightarrow> Inr False | Some t \<Rightarrow> dt_before t (ev_occurred_at e)) (\<lambda>late.
             Inr (\<not> late))))"

definition list_by_execution_filtered ::
  "event_repo \<Rightarrow> string \<Rightarrow> string \<Rightarrow> string option \<Rightarrow> event_filters \<Rightarrow> exc + execution_event list" where
  "list_by_execution_filtered s execution_id organization_id project_id f =
     res_bind (filter_res (event_listed f organization_id project_id)
                 (opt_or (dict_get (er_by_execution s) execution_id) []))
       (\<lambda>results. Inr (take (ef_limit f) results))"

text \<open>Without filters: every event of the scope, up to the default limit of 200.\<close>

definition list_by_execution ::
  "event_repo \<Rightarrow> string \<Rightarrow> string \<Rightarrow> string option \<Rightarrow> execution_event list" where
  "list_by_execution s execution_id organization_id project_id =
     take 200 (filter (\<lambda>e. in_scope organization_id project_id (ev_organization_id e) (ev_project_id e))
                 (opt_or (dict_get (er_by_execution s) execution_id) []))"

definition find_event_by_idempotency_key ::
  "event_repo \<Rightarrow> string \<Rightarrow> string \<Rightarrow> string \<Rightarrow> string option \<Rightarrow> execution_event option" where
  "find_event_by_idempotency_key s idempotency_key execution_id organization_id project_id =
     (case dict_get (er_by_idempotency s) (idempotency_key, execution_id) of
        None \<Rightarrow> None
      | Some e \<Rightarrow> if in_scope organization_id project_id (ev_organization_id e) (ev_project_id e)
                  then Some e else None)"

definition max_sequence_number :: "event_repo \<Rightarrow> string \<Rightarrow> string \<Rightarrow> string option \<Rightarrow> int" where
  "max_sequence_number s execution_id organization_id project_id =
     fold (\<lambda>e m. if in_scope organization_id project_id (ev_organization_id e) (ev_project_id e)
                 then max m (ev_sequence_number e) else m)
       (opt_or (dict_get (er_by_execution s) execution_id) []) 0"

lemma list_by_execution_default:
  "list_by_execution_filtered s x org proj default_event_filters = Inr (list_by_execution s x org proj)"
proof -
  have "filter_res (event_listed default_event_filters org proj) es =
      Inr (filter (\<lambda>e. in_scope org proj (ev_organization_id e) (ev_project_id e)) es)" for es
    by (induction es) (auto simp: event_listed_def default_event_filters_def)
  then show ?thesis
    by (simp add: list_by_execution_filtered_def list_by_execution_def default_event_filters_def)
qed

section \<open>The event store only grows\<close>

definition events_of :: "event_repo \<Rightarrow> string \<Rightarrow> execution_event list" where
  "events_of s x = opt_or (dict_get (er_by_execution s) x) []"

definition event_repo_inv :: "event_repo \<Rightarrow> bool" where
  "event_repo_inv s =
     ((\<forall>k e. dict_get (er_by_id s) k = Some e \<longrightarrow>
          k = ev_event_id e \<and> e \<in> set (events_of s (ev_execution_id e)) \<and> event_ok e
          \<and> (\<forall>t. tool_call_key e = Some t \<longrightarrow> dict_get (er_by_tool_call s) t = Some e))
      \<and> (\<forall>x. sorted (map ev_sequence_number (events_of s x)) \<and> distinct (map ev_event_id (events_of s x)))
      \<and> (\<forall>x. \<forall>e \<in> set (events_of s x).
          ev_execution_id e = x \<and> dict_get (er_by_id s) (ev_event_id e) = Some e)
      \<and> (\<forall>k x e. dict_get (er_by_idempotency s) (k, x) = Some e \<longrightarrow>
          ev_execution_id e = x \<and> dict_get (er_by_id s) (ev_event_id e) = Some e)
      \<and> (\<forall>t e. dict_get (er_by_tool_call s) t = Some e \<longrightarrow>
          tool_call_key e = Some t \<and> dict_get (er_by_id s) (ev_event_id e) = Some e))"

inductive event_repo_step :: "event_repo \<Rightarrow> event_repo \<Rightarrow> bool" where
  append: "event_ok e \<Longrightarrow> save_event e key s = (r, s') \<Longrightarrow> event_repo_step s s'"

lemma empty_event_repo_inv [simp]: "event_repo_inv empty_event_repo"
  by (simp add: event_repo_inv_def empty_event_repo_def events_of_def)

lemma event_repo_invD:
  assumes "event_repo_inv s" "dict_get (er_by_id s) k = Some e"
  shows "k = ev_event_id e" "e \<in> set (events_of s (ev_execution_id e))" "event_ok e"
    "tool_call_key e = Some t \<Longrightarrow> dict_get (er_by_tool_call s) t = Some e"
  using assms unfolding event_repo_inv_def by blast+

lemma event_repo_inv_listD:
  assumes "event_repo_inv s"
  shows "sorted (map ev_sequence_number (events_of s x))" "distinct (map ev_event_id (events_of s x))"
    "e \<in> set (events_of s x) \<Longrightarrow> ev_execution_id e = x"
    "e \<in> set (events_of s x) \<Longrightarrow> dict_get (er_by_id s) (ev_event_id e) = Some e"
  using assms unfolding event_repo_inv_def by blast+

lemma event_repo_inv_indexD:
  assumes "event_repo_inv s"
  shows "dict_get (er_by_idempotency s) (k, x) = Some e \<Longrightarrow> ev_execution_id e = x"
    "dict_get (er_by_idempotency s) (k, x) = Some e \<Longrightarrow> dict_get (er_by_id s) (ev_event_id e) = Some e"
    "dict_get (er_by_tool_call s) t = Some e \<Longrightarrow> tool_call_key e = Some t"
    "dict_get (er_by_tool_call s) t = Some e \<Longrightarrow> dict_get (er_by_id s) (ev_event_id e) = Some e"
  using assms unfolding event_repo_inv_def by blast+

text \<open>The only change a save can make is the addition of an event with fresh keys.\<close>

lemma save_event_cases:
  assumes "event_repo_inv s" "save_event e key s = (r, s')"
  obtains (kept) "s' = s"
  | (added) "s' = append_event e key s" "r = Inr e" "dict_get (er_by_id s) (ev_event_id e) = None"
      "\<And>k. key = Some k \<Longrightarrow> dict_get (er_by_idempotency s) (k, ev_execution_id e) = None"
      "\<And>t. tool_call_key e = Some t \<Longrightarrow> dict_get (er_by_tool_call s) t = None"
proof -
  have "s' = s \<or> (s' = append_event e key s \<and> r = Inr e \<and> dict_get (er_by_id s) (ev_event_id e) = None
      \<and> (\<forall>k. key = Some k \<longrightarrow> dict_get (er_by_idempotency s) (k, ev_execution_id e) = None)
      \<and> (\<forall>t. tool_call_key e = Some t \<longrightarrow> dict_get (er_by_tool_call s) t = None))"
  proof (cases "dict_get (er_by_id s) (ev_event_id e)")
    case (Some f)
    with assms(2) show ?thesis by (auto simp: save_event_def split: if_splits)
  next
    case None
    have tool: "ev_event_id f \<noteq> ev_event_id e" if "dict_get (er_by_tool_call s) t = Some f" for f t
      using event_repo_inv_indexD(4) [OF assms(1) that] None by auto
    show ?thesis
      using assms(2) None tool
      by (auto simp: save_event_def split: if_splits option.splits)
  qed
  then show ?thesis
  proof
    assume "s' = s"
    then show ?thesis by (rule kept)
  next
    assume "s' = append_event e key s \<and> r = Inr e \<and> dict_get (er_by_id s) (ev_event_id e) = None
      \<and> (\<forall>k. key = Some k \<longrightarrow> dict_get (er_by_idempotency s) (k, ev_execution_id e) = None)
      \<and> (\<forall>t. tool_call_key e = Some t \<longrightarrow> dict_get (er_by_tool_call s) t = None)"
    then show ?thesis by (intro added) blast+
  qed
qed

lemma events_of_append:
  "events_of (append_event e key s) x =
     (if x = ev_execution_id e then insert_event e (events_of s x) else events_of s x)"
  by (simp add: events_of_def append_event_def dict_get_put)

lemma append_event_lookups [simp]:
  "dict_get (er_by_id (append_event e key s)) k =
     (if k = ev_event_id e then Some e else dict_get (er_by_id s) k)"
  "dict_get (er_by_idempotency (append_event e key s)) (j, x) =
     (if key = Some j \<and> x = ev_execution_id e then Some e else dict_get (er_by_idempotency s) (j, x))"
  "dict_get (er_by_tool_call (append_event e key s)) t =
     (if tool_call_key e = Some t then Some e else dict_get (er_by_tool_call s) t)"
  by (auto simp: append_event_def dict_get_put split: option.splits)

lemma insert_event_fresh:
  assumes "ev_event_id e \<notin> ev_event_id ` set es"
  shows "insert_event e es = sort_key ev_sequence_number (es @ [e])"
proof -
  have "\<not> list_ex (\<lambda>x. ev_event_id x = ev_event_id e) es"
    unfolding list_ex_iff using assms by (metis imageI)
  then show ?thesis by (simp add: insert_event_def)
qed

lemma append_event_inv:
  assumes inv: "event_repo_inv s" and ok: "event_ok e"
    and fresh: "dict_get (er_by_id s) (ev_event_id e) = None"
    and idem: "\<And>k. key = Some k \<Longrightarrow> dict_get (er_by_idempotency s) (k, ev_execution_id e) = None"
    and tool: "\<And>t. tool_call_key e = Some t \<Longrightarrow> dict_get (er_by_tool_call s) t = None"
  shows "event_repo_inv (append_event e key s)"
proof -
  let ?s = "append_event e key s"
  note old = event_repo_invD [OF inv] event_repo_inv_listD [OF inv] event_repo_inv_indexD [OF inv]
  have notin: "ev_event_id e \<notin> ev_event_id ` set (events_of s x)" for x
    using event_repo_inv_listD(4) [OF inv] fresh by force
  then have ins: "insert_event e (events_of s x) = sort_key ev_sequence_number (events_of s x @ [e])" for x
    by (rule insert_event_fresh)
  have set_of: "set (events_of ?s x) = (if x = ev_execution_id e then insert e (set (events_of s x)) else set (events_of s x))" for x
    by (simp add: events_of_append ins)
  have other: "ev_event_id f \<noteq> ev_event_id e" if "dict_get (er_by_id s) (ev_event_id f) = Some f" for f
    using that fresh by auto
  show ?thesis
    unfolding event_repo_inv_def
  proof (intro conjI allI impI ballI)
    fix k f assume f: "dict_get (er_by_id ?s) k = Some f"
    have both: "k = ev_event_id f \<and> f \<in> set (events_of ?s (ev_execution_id f)) \<and> event_ok f
        \<and> (\<forall>t. tool_call_key f = Some t \<longrightarrow> dict_get (er_by_tool_call ?s) t = Some f)"
    proof (cases "k = ev_event_id e")
      case True
      with f have "f = e" by simp
      with True ok set_of [of "ev_execution_id e"] show ?thesis by simp
    next
      case False
      with f have "dict_get (er_by_id s) k = Some f" by simp
      note f' = event_repo_invD [OF inv this]
      have "\<not> (tool_call_key e = Some t \<and> tool_call_key f = Some t)" for t
        using f'(4) [of t] tool [of t] by auto
      with f' show ?thesis by (auto simp: set_of)
    qed
    then show "k = ev_event_id f" "f \<in> set (events_of ?s (ev_execution_id f))" "event_ok f" by simp_all
    fix t assume "tool_call_key f = Some t"
    with both show "dict_get (er_by_tool_call ?s) t = Some f" by blast
  next
    fix x
    show "sorted (map ev_sequence_number (events_of ?s x))"
      using old(5) by (simp add: events_of_append ins)
    have "distinct (map ev_event_id (events_of s x @ [e]))"
      using old(6) notin by auto
    then have "distinct (map ev_event_id (sort_key ev_sequence_number (events_of s x @ [e])))"
      by (simp only: distinct_map distinct_sort set_sort)
    then show "distinct (map ev_event_id (events_of ?s x))"
      using old(6) by (auto simp: events_of_append ins)
  next
    fix x f assume f: "f \<in> set (events_of ?s x)"
    show "ev_execution_id f = x"
      using f old(7) by (auto simp: set_of split: if_splits)
    show "dict_get (er_by_id ?s) (ev_event_id f) = Some f"
      using f old(8) other by (auto simp: set_of split: if_splits)
  next
    fix k x f assume f: "dict_get (er_by_idempotency ?s) (k, x) = Some f"
    show "ev_execution_id f = x"
      using f old(9) by (auto split: if_splits)
    show "dict_get (er_by_id ?s) (ev_event_id f) = Some f"
      using f old(10) other by (auto split: if_splits)
  next
    fix t f assume f: "dict_get (er_by_tool_call ?s) t = Some f"
    show "tool_call_key f = Some t"
      using f old(11) by (auto split: if_splits)
    show "dict_get (er_by_id ?s) (ev_event_id f) = Some f"
      using f old(12) other by (auto split: if_splits)
  qed
qed

lemma event_repo_step_inv:
  assumes "event_repo_step s s'" "event_repo_inv s"
  shows "event_repo_inv s'"
  using assms(1)
proof cases
  case (append e key r)
  show ?thesis
    using assms(2) append(2)
    by (cases rule: save_event_cases) (use assms(2) append(1) in \<open>simp_all add: append_event_inv\<close>)
qed

lemma event_repo_step_keeps:
  assumes "event_repo_step s s'" "event_repo_inv s"
  shows "dict_get (er_by_id s) k = Some e \<Longrightarrow> dict_get (er_by_id s') k = Some e"
    and "dict_get (er_by_idempotency s) (j, x) = Some f \<Longrightarrow> dict_get (er_by_idempotency s') (j, x) = Some f"
proof -
  from assms(1) obtain d key r where "save_event d key s = (r, s')" by cases
  note cases = save_event_cases [OF assms(2) this]
  show "dict_get (er_by_id s') k = Some e" if "dict_get (er_by_id s) k = Some e"
    by (rule cases) (use that in auto)
  show "dict_get (er_by_idempotency s') (j, x) = Some f" if "dict_get (er_by_idempotency s) (j, x) = Some f"
    by (rule cases) (use that in auto)
qed

text \<open>The store keeps every event under its identifier, and under its idempotency key, as it is.\<close>

interpretation events: evolving_store event_repo_step "\<lambda>s. dict_get (er_by_id s)" "(=)" event_repo_inv
  by unfold_locales (auto intro: event_repo_step_inv dest: event_repo_step_keeps(1))

interpretation keyed_events: evolving_store
  event_repo_step "\<lambda>s. dict_get (er_by_idempotency s)" "(=)" event_repo_inv
  by unfold_locales (auto intro: event_repo_step_inv dest: event_repo_step_keeps(2))

lemma max_sequence_fold:
  fixes z :: int
  shows "e \<in> set es \<Longrightarrow> P e \<Longrightarrow> f e \<le> fold (\<lambda>e m. if P e then max m (f e) else m) es z"
    and "z \<le> fold (\<lambda>e m. if P e then max m (f e) else m) es z"
proof -
  show low: "z \<le> fold (\<lambda>e m. if P e then max m (f e) else m) es z" for es and z :: int
  proof (induction es arbitrary: z)
    case (Cons a es)
    have "z \<le> (if P a then max z (f a) else z)" by simp
    also have "\<dots> \<le> fold (\<lambda>e m. if P e then max m (f e) else m) es (if P a then max z (f a) else z)"
      by (rule Cons)
    finally show ?case by simp
  qed simp
  show "e \<in> set es \<Longrightarrow> P e \<Longrightarrow> f e \<le> fold (\<lambda>e m. if P e then max m (f e) else m) es z"
  proof (induction es arbitrary: z)
    case (Cons a es)
    show ?case
    proof (cases "e \<in> set es")
      case True
      with Cons show ?thesis by simp
    next
      case False
      with Cons.prems have "e = a" by simp
      moreover have "f a \<le> max z (f a)" by simp
      ultimately show ?thesis
        using Cons.prems(2) low [of "max z (f a)" es] by simp
    qed
  qed simp
qed

lemma max_sequence_number_bound:
  "e \<in> set (events_of s x) \<Longrightarrow> in_scope org proj (ev_organization_id e) (ev_project_id e) \<Longrightarrow>
     ev_sequence_number e \<le> max_sequence_number s x org proj"
  unfolding max_sequence_number_def events_of_def [symmetric] by (rule max_sequence_fold)

lemma max_sequence_number_nonneg: "0 \<le> max_sequence_number s x org proj"
  unfolding max_sequence_number_def by (rule max_sequence_fold)

section \<open>Properties\<close>

text \<open>
  The event store is append-only. Along every sequence of saves, with every outcome, an event
  that was stored once stays stored as it is under its identifier and under its idempotency key, and
  the timeline of an execution stays sorted by sequence number with one entry per event.
\<close>

theorem event_store_append_only:
  assumes "event_repo_inv s" "event_repo_step\<^sup>*\<^sup>* s s'"
  shows "(dict_get (er_by_id s) k = Some e \<longrightarrow> dict_get (er_by_id s') k = Some e)
    \<and> (dict_get (er_by_idempotency s) (j, x) = Some f \<longrightarrow> dict_get (er_by_idempotency s') (j, x) = Some f)
    \<and> sorted (map ev_sequence_number (events_of s' x)) \<and> distinct (map ev_event_id (events_of s' x))"
  using events.lookup_run [OF assms(2,1)] keyed_events.lookup_run [OF assms(2,1)]
    event_repo_inv_listD [OF events.inv_run [OF assms(2,1)]]
  by auto

text \<open>
  Within one execution a runtime tool-call identifier names one event: in every reachable store
  two stored tool-call events of an execution with the same identifier are the same event.
\<close>

theorem runtime_tool_call_unique:
  assumes "event_repo_step\<^sup>*\<^sup>* empty_event_repo s"
    and "dict_get (er_by_id s) i = Some e" "dict_get (er_by_id s) j = Some f"
    and "tool_call_key e = Some t" "tool_call_key f = Some t"
  shows "e = f"
proof -
  have "event_repo_inv s" using events.inv_run [OF assms(1)] by simp
  from event_repo_invD(4) [OF this assms(2,4)] event_repo_invD(4) [OF this assms(3,5)]
  show ?thesis by simp
qed

end
