(* ===== verification/Receipts.thy ===== *)
theory Receipts
  imports Contracts
begin

text \<open>
  \<open>runtime_authorization/receipts.py\<close>: the attestation of a runtime about one authorized
  attempt, and its persisted payload. The module has its own identifier pattern, which is longer than
  the one of the contracts.
\<close>

datatype receipt_status = NOT_EXECUTED | RC_SUCCEEDED | RC_FAILED | UNKNOWN

fun receipt_status_value :: "receipt_status \<Rightarrow> string" where
  "receipt_status_value NOT_EXECUTED = ''NOT_EXECUTED''"
| "receipt_status_value RC_SUCCEEDED = ''SUCCEEDED''"
| "receipt_status_value RC_FAILED = ''FAILED''"
| "receipt_status_value UNKNOWN = ''UNKNOWN''"

definition receipt_status_of :: "string \<Rightarrow> receipt_status option" where
  "receipt_status_of s =
     (if s = ''NOT_EXECUTED'' then Some NOT_EXECUTED else if s = ''SUCCEEDED'' then Some RC_SUCCEEDED
      else if s = ''FAILED'' then Some RC_FAILED else if s = ''UNKNOWN'' then Some UNKNOWN else None)"

lemma receipt_status_of_value [simp]: "receipt_status_of (receipt_status_value st) = Some st"
  by (cases st) (simp_all add: receipt_status_of_def)

record execution_receipt =
  rc_receipt_id :: string
  rc_decision_id :: string
  rc_request_fingerprint :: string
  rc_action_id :: string
  rc_runtime_tool_call_id :: string
  rc_tool_arguments_digest :: string
  rc_status :: receipt_status
  rc_reason_code :: string
  rc_attested_by :: string
  rc_attested_at :: datetime
  rc_result_reference :: "string option"
  rc_result_digest :: "string option"
  rc_supersedes_receipt_id :: "string option"
  rc_schema_version :: string

definition receipt_schema_version :: string where
  "receipt_schema_version = ''runtime-action-execution-receipt/v1''"

definition require_receipt_identifier :: "string \<Rightarrow> string \<Rightarrow> bool \<times> exc" where
  "require_receipt_identifier name v =
     (\<not> match_identifier 255 v, Exc ValueError (name @ '' must be a bounded identifier.''))"

lemma fst_require_receipt_identifier [simp]:
  "fst (require_receipt_identifier n v) = (\<not> match_identifier 255 v)"
  by (simp add: require_receipt_identifier_def)

definition receipt_checks :: "execution_receipt \<Rightarrow> (bool \<times> exc) list" where
  "receipt_checks r =
     [(rc_schema_version r \<noteq> receipt_schema_version,
       Exc ValueError ''Unsupported runtime action execution receipt schema version.''),
      require_receipt_identifier ''receipt_id'' (rc_receipt_id r),
      require_receipt_identifier ''decision_id'' (rc_decision_id r),
      require_receipt_identifier ''action_id'' (rc_action_id r),
      require_receipt_identifier ''runtime_tool_call_id'' (rc_runtime_tool_call_id r),
      require_receipt_identifier ''reason_code'' (rc_reason_code r),
      require_receipt_identifier ''attested_by'' (rc_attested_by r),
      (\<not> match_hex64 (rc_request_fingerprint r),
       Exc ValueError ''request_fingerprint must be a lowercase SHA-256 hex digest.''),
      require_digest ''tool_arguments_digest'' (rc_tool_arguments_digest r)]
     @ when_given (rc_result_reference r) (\<lambda>ref. (blank ref \<or> 512 < length ref,
         Exc ValueError ''result_reference must be non-blank and bounded.''))
     @ when_given (rc_result_digest r) (require_digest ''result_digest'')
     @ [((rc_result_reference r = None) \<noteq> (rc_result_digest r = None),
         Exc ValueError ''result_reference and result_digest are required together.'')]
     @ when_given (rc_supersedes_receipt_id r) (require_receipt_identifier ''supersedes_receipt_id'')
     @ [(\<not> tz_aware (rc_attested_at r), Exc ValueError ''attested_at must be timezone-aware.'')]"

text \<open>The checks that follow the coercion of the status.\<close>

definition receipt_status_checks :: "execution_receipt \<Rightarrow> (bool \<times> exc) list" where
  "receipt_status_checks r =
     [(rc_status r = RC_SUCCEEDED \<and> (rc_result_reference r = None \<or> rc_result_digest r = None),
       Exc ValueError ''SUCCEEDED receipts require a result reference and digest.''),
      (rc_status r \<in> {NOT_EXECUTED, UNKNOWN} \<and> rc_result_reference r \<noteq> None,
       Exc ValueError (receipt_status_value (rc_status r) @ '' receipts must not contain a result.'')),
      (rc_status r = UNKNOWN \<and> truthy (rc_supersedes_receipt_id r),
       Exc ValueError ''UNKNOWN receipts cannot supersede a prior receipt.'')]"

definition new_receipt :: "string \<Rightarrow> execution_receipt \<Rightarrow> exc + execution_receipt" where
  "new_receipt status r =
     res_bind (checked (receipt_checks r) ()) (\<lambda>_.
       case receipt_status_of status of
         None \<Rightarrow> Inl (Exc ValueError (quoted status @ '' is not a valid RuntimeActionExecutionReceiptStatus''))
       | Some st \<Rightarrow> checked (receipt_status_checks (r\<lparr>rc_status := st\<rparr>)) (r\<lparr>rc_status := st\<rparr>))"

definition receipt_ok :: "execution_receipt \<Rightarrow> bool" where
  "receipt_ok r = (all_pass (receipt_checks r) \<and> all_pass (receipt_status_checks r))"

definition receipt_to_payload :: "execution_receipt \<Rightarrow> (string \<times> pyval) list" where
  "receipt_to_payload r =
     [(''schema_version'', PStr (rc_schema_version r)),
      (''receipt_id'', PStr (rc_receipt_id r)),
      (''decision_id'', PStr (rc_decision_id r)),
      (''request_fingerprint'', PStr (rc_request_fingerprint r)),
      (''action_id'', PStr (rc_action_id r)),
      (''runtime_tool_call_id'', PStr (rc_runtime_tool_call_id r)),
      (''tool_arguments_digest'', PStr (rc_tool_arguments_digest r)),
      (''status'', PStr (receipt_status_value (rc_status r))),
      (''reason_code'', PStr (rc_reason_code r)),
      (''attested_by'', PStr (rc_attested_by r)),
      (''attested_at'', PStr (isoformat (rc_attested_at r))),
      (''result_reference'', of_opt_str (rc_result_reference r)),
      (''result_digest'', of_opt_str (rc_result_digest r)),
      (''supersedes_receipt_id'', of_opt_str (rc_supersedes_receipt_id r))]"

definition optional_string :: "pyval \<Rightarrow> string option" where
  "optional_string v = as_str v"

definition malformed_receipt :: exc where
  "malformed_receipt = Exc ValueError ''Stored runtime action execution receipt is malformed.''"

definition receipt_of_payload :: "(rat \<Rightarrow> string) \<Rightarrow> (string \<times> pyval) list \<Rightarrow> (string \<times> execution_receipt) option" where
  "receipt_of_payload fr d =
     Option.bind (str_item fr d ''receipt_id'') (\<lambda>receipt_id.
     Option.bind (str_item fr d ''decision_id'') (\<lambda>decision_id.
     Option.bind (str_item fr d ''request_fingerprint'') (\<lambda>request_fingerprint.
     Option.bind (str_item fr d ''action_id'') (\<lambda>action_id.
     Option.bind (str_item fr d ''runtime_tool_call_id'') (\<lambda>runtime_tool_call_id.
     Option.bind (str_item fr d ''tool_arguments_digest'') (\<lambda>tool_arguments_digest.
     Option.bind (str_item fr d ''status'') (\<lambda>status.
     Option.bind (str_item fr d ''reason_code'') (\<lambda>reason_code.
     Option.bind (str_item fr d ''attested_by'') (\<lambda>attested_by.
     Option.bind (Option.bind (str_item fr d ''attested_at'') fromisoformat) (\<lambda>attested_at.
     Option.bind (str_item fr d ''schema_version'') (\<lambda>schema_version.
       Some (status,
         \<lparr>rc_receipt_id = receipt_id, rc_decision_id = decision_id,
          rc_request_fingerprint = request_fingerprint, rc_action_id = action_id,
          rc_runtime_tool_call_id = runtime_tool_call_id,
          rc_tool_arguments_digest = tool_arguments_digest, rc_status = UNKNOWN,
          rc_reason_code = reason_code, rc_attested_by = attested_by, rc_attested_at = attested_at,
          rc_result_reference = optional_string (pget d ''result_reference''),
          rc_result_digest = optional_string (pget d ''result_digest''),
          rc_supersedes_receipt_id = optional_string (pget d ''supersedes_receipt_id''),
          rc_schema_version = schema_version\<rparr>))))))))))))"

definition receipt_from_payload :: "(rat \<Rightarrow> string) \<Rightarrow> pyval \<Rightarrow> exc + execution_receipt" where
  "receipt_from_payload fr payload =
     (case payload of
        PDict d \<Rightarrow>
          (case receipt_of_payload fr d of
             None \<Rightarrow> Inl malformed_receipt
           | Some (status, r) \<Rightarrow>
               (case new_receipt status r of Inl _ \<Rightarrow> Inl malformed_receipt | Inr r' \<Rightarrow> Inr r'))
      | _ \<Rightarrow> Inl (Exc TypeError ''Execution receipt payload must be a mapping.''))"

lemma receipt_checks_status [simp]: "receipt_checks (r\<lparr>rc_status := st\<rparr>) = receipt_checks r"
  by (simp add: receipt_checks_def)

lemma new_receipt_Inr_iff:
  "new_receipt s r = Inr x \<longleftrightarrow>
     (\<exists>st. receipt_status_of s = Some st \<and> x = r\<lparr>rc_status := st\<rparr> \<and> receipt_ok x)"
  by (auto simp: new_receipt_def res_bind_Inr_iff checked_Inr_iff receipt_ok_def split: option.splits)

lemma optional_string_of_opt_str [simp]: "optional_string (of_opt_str x) = x"
  by (cases x) (simp_all add: optional_string_def)

lemma receipt_of_to_payload:
  assumes "datetime_ok (rc_attested_at r)"
  shows "receipt_of_payload fr (receipt_to_payload r) =
    Some (receipt_status_value (rc_status r), r\<lparr>rc_status := UNKNOWN\<rparr>)"
  using assms by (simp add: receipt_of_payload_def receipt_to_payload_def str_item_def pget_def)

text \<open>
  C40. A receipt reads back from the payload it was persisted as: \<open>from_payload(to_payload(r))\<close> is
  \<open>r\<close> for every receipt that passed construction.
\<close>

theorem receipt_payload_roundtrip:
  assumes "receipt_ok r" "datetime_ok (rc_attested_at r)"
  shows "receipt_from_payload fr (PDict (receipt_to_payload r)) = Inr r"
proof -
  have "new_receipt (receipt_status_value (rc_status r)) (r\<lparr>rc_status := UNKNOWN\<rparr>) = Inr r"
    using assms(1) by (simp add: new_receipt_Inr_iff)
  then show ?thesis
    by (simp add: receipt_from_payload_def receipt_of_to_payload [OF assms(2)])
qed

text \<open>
  What a receipt that passed construction promises: a SUCCEEDED one names its result and the
  digest of it, a NOT_EXECUTED or UNKNOWN one names none, and an UNKNOWN one supersedes nothing.
\<close>

theorem receipt_status_evidence:
  assumes "new_receipt s r = Inr x"
  shows "(rc_status x = RC_SUCCEEDED \<longrightarrow>
      (\<exists>ref d. rc_result_reference x = Some ref \<and> \<not> blank ref \<and> rc_result_digest x = Some d \<and> match_sha256 d))
    \<and> (rc_status x \<in> {NOT_EXECUTED, UNKNOWN} \<longrightarrow> rc_result_reference x = None \<and> rc_result_digest x = None)
    \<and> (rc_status x = UNKNOWN \<longrightarrow> rc_supersedes_receipt_id x = None)"
proof -
  have ok: "all_pass (receipt_checks x)" "all_pass (receipt_status_checks x)"
    using assms by (auto simp: new_receipt_Inr_iff receipt_ok_def)
  have "rc_supersedes_receipt_id x \<noteq> Some []"
    using ok(1) by (auto simp: receipt_checks_def match_identifier_def)
  with ok show ?thesis
    by (auto simp: receipt_checks_def receipt_status_checks_def truthy_def)
qed

end
