(* ===== verification/Execution_Service.thy ===== *)
theory Execution_Service
  imports Execution_Ledger Receipts
begin

text \<open>
  \<open>services/agent_execution_service.py\<close>: ingestion of executions, events and receipts, and
  the reads. The clock and the fresh identifiers are arguments of each call. The authorization
  enforcer, the settings service and the runtime-finding repository are parameters: whether the actor
  holds a permission, how many hours of lateness are allowed, and the finalized windows that cover a
  time. No projection trigger is registered.
\<close>

section \<open>State and environment\<close>

record trace_store =
  ts_executions :: execution_repo
  ts_events :: event_repo

abbreviation on_executions :: "(execution_repo, 'a) action \<Rightarrow> (trace_store, 'a) action" where
  "on_executions \<equiv> act_on ts_executions (\<lambda>t s. s\<lparr>ts_executions := t\<rparr>)"

abbreviation on_events :: "(event_repo, 'a) action \<Rightarrow> (trace_store, 'a) action" where
  "on_events \<equiv> act_on ts_events (\<lambda>t s. s\<lparr>ts_events := t\<rparr>)"

datatype permission = AGENT_EXECUTION_INGEST | AGENT_EXECUTION_READ

record finalized_window =
  fw_finalization_cutoff_at :: "datetime option"
  fw_lateness_policy_hours :: "int option"

record service_env =
  se_allowed :: "tenant_context \<Rightarrow> permission \<Rightarrow> bool"
  se_windows :: "datetime \<Rightarrow> tenant_context \<Rightarrow> finalized_window list"
  se_lateness_hours :: "tenant_context \<Rightarrow> int"

definition authorize_call :: "service_env \<Rightarrow> tenant_context \<Rightarrow> permission \<Rightarrow> exc + unit" where
  "authorize_call env cx perm =
     (if se_allowed env cx perm then Inr ()
      else Inl (Exc AuthorizationDenied ''Actor is not authorized for this operation''))"

abbreviation cx_get_execution :: "trace_store \<Rightarrow> string \<Rightarrow> tenant_context \<Rightarrow> agent_execution option" where
  "cx_get_execution s x cx \<equiv> get_execution (ts_executions s) x (cx_organization_id cx) (cx_project_id cx)"

abbreviation cx_get_event :: "trace_store \<Rightarrow> string \<Rightarrow> string \<Rightarrow> tenant_context \<Rightarrow> execution_event option" where
  "cx_get_event s i x cx \<equiv> get_event_by_id (ts_events s) i x (cx_organization_id cx) (cx_project_id cx)"

abbreviation next_sequence :: "trace_store \<Rightarrow> string \<Rightarrow> tenant_context \<Rightarrow> int" where
  "next_sequence s x cx \<equiv>
     max_sequence_number (ts_events s) x (cx_organization_id cx) (cx_project_id cx) + 1"

section \<open>Identifiers and deadlines\<close>

definition idempotency_key_for_start :: "string \<Rightarrow> string \<Rightarrow> tenant_context \<Rightarrow> string" where
  "idempotency_key_for_start external_execution_id runtime_provider cx =
     ''start:'' @ take 32 (sha256_hex (cx_organization_id cx @ '':'' @ opt_or (cx_project_id cx) [] @ '':''
       @ runtime_provider @ '':'' @ external_execution_id))"

definition receipt_event_id :: "string \<Rightarrow> string \<Rightarrow> string option \<Rightarrow> string" where
  "receipt_event_id decision_id runtime_tool_call_id supersedes_receipt_id =
     ''receipt:'' @ sha256_hex (join_with '':''
       [''runtime-action-receipt'', decision_id, runtime_tool_call_id,
        opt_or (str_or supersedes_receipt_id (Some ''initial'')) []])"

definition encode_cursor :: "string \<Rightarrow> string \<Rightarrow> string" where
  "encode_cursor timestamp execution_id = take 32 (sha256_hex (timestamp @ '':'' @ execution_id))"

text \<open>\<open>int\<close> of a timestamp truncates towards zero.\<close>

definition whole_seconds :: "datetime \<Rightarrow> int" where
  "whole_seconds t = (if 0 \<le> micros t then micros t div 1000000 else - ((- micros t) div 1000000))"

definition runtime_findings_cutoff :: "datetime \<Rightarrow> int \<Rightarrow> datetime" where
  "runtime_findings_cutoff occurred_at lateness_hours =
     (let boundary = (whole_seconds occurred_at div 172800 + 1) * 172800
      in \<lparr>micros = (boundary + lateness_hours * 3600) * 1000000, tz_aware = True\<rparr>)"

text \<open>\<open>min\<close> with a key returns the first least element; a window without cutoff counts as \<open>datetime.min\<close>.\<close>

definition window_key :: "finalized_window \<Rightarrow> int" where
  "window_key w = (case fw_finalization_cutoff_at w of None \<Rightarrow> - 62135596800000000 | Some t \<Rightarrow> micros t)"

definition finalization_contract_for ::
  "service_env \<Rightarrow> datetime \<Rightarrow> tenant_context \<Rightarrow> finalized_window option" where
  "finalization_contract_for env occurred_at cx =
     (case se_windows env occurred_at cx of [] \<Rightarrow> None
      | w # ws \<Rightarrow> Some (foldl (\<lambda>m v. if window_key v < window_key m then v else m) w ws))"

section \<open>Starting an execution\<close>

record start_submission =
  ss_agent_id :: string
  ss_agent_name :: string
  ss_agent_version :: string
  ss_external_execution_id :: string
  ss_runtime_provider :: string
  ss_correlation_id :: "string option"
  ss_parent_execution_id :: "string option"
  ss_metadata :: "(string \<times> pyval) list"

definition started_execution :: "start_submission \<Rightarrow> tenant_context \<Rightarrow> datetime \<Rightarrow> string \<Rightarrow> agent_execution" where
  "started_execution sub cx now execution_id =
     \<lparr>ex_execution_id = execution_id, ex_organization_id = cx_organization_id cx,
      ex_project_id = cx_project_id cx, ex_agent_id = ss_agent_id sub,
      ex_agent_name = ss_agent_name sub, ex_agent_version = ss_agent_version sub,
      ex_external_execution_id = ss_external_execution_id sub,
      ex_runtime_provider = ss_runtime_provider sub, ex_status = EX_RECEIVED, ex_started_at = now,
      ex_completed_at = None, ex_correlation_id = ss_correlation_id sub,
      ex_parent_execution_id = ss_parent_execution_id sub, ex_created_at = now, ex_updated_at = now,
      ex_metadata = ss_metadata sub, ex_version = 0\<rparr>"

text \<open>An event of the platform itself: no typed evidence and no lateness contract.\<close>

definition platform_event ::
  "string \<Rightarrow> string \<Rightarrow> tenant_context \<Rightarrow> event_type \<Rightarrow> int \<Rightarrow> datetime \<Rightarrow> string option \<Rightarrow> string option
     \<Rightarrow> string option \<Rightarrow> actor_type \<Rightarrow> (string \<times> pyval) list \<Rightarrow> execution_event" where
  "platform_event event_id execution_id cx event_type seq now correlation_id causation_id actor_id actor attrs =
     \<lparr>ev_event_id = event_id, ev_execution_id = execution_id,
      ev_organization_id = cx_organization_id cx, ev_project_id = cx_project_id cx,
      ev_event_type = event_type, ev_sequence_number = seq, ev_occurred_at = now, ev_received_at = now,
      ev_correlation_id = correlation_id, ev_causation_id = causation_id, ev_actor_id = actor_id,
      ev_actor_type = Some actor, ev_workflow_step = None, ev_tool_call_context = None,
      ev_late_for_runtime_findings = False, ev_finalization_cutoff_at = None,
      ev_lateness_policy_hours = None, ev_resource_references = [], ev_evidence_references = [],
      ev_attributes = attrs, ev_schema_version = ''1''\<rparr>"

definition start_event ::
  "datetime \<Rightarrow> string \<Rightarrow> string \<Rightarrow> start_submission \<Rightarrow> tenant_context \<Rightarrow> execution_event" where
  "start_event now execution_id event_id sub cx =
     platform_event event_id execution_id cx EXECUTION_STARTED 0 now
       (ss_correlation_id sub) None (Some (ss_agent_id sub)) AGENT
       [(''agent_name'', PStr (ss_agent_name sub)),
        (''agent_version'', PStr (ss_agent_version sub)),
        (''runtime_provider'', PStr (ss_runtime_provider sub)),
        (''external_execution_id'', PStr (ss_external_execution_id sub))]"

definition start_new_execution ::
  "datetime \<Rightarrow> string \<Rightarrow> string \<Rightarrow> start_submission \<Rightarrow> tenant_context
     \<Rightarrow> (trace_store, agent_execution) action" where
  "start_new_execution now execution_id event_id sub cx =
     act_bind (act_lift (new_execution (started_execution sub cx now execution_id))) (\<lambda>execution.
     act_bind (on_executions (save_execution execution)) (\<lambda>_.
     act_bind (act_lift (new_event (start_event now execution_id event_id sub cx))) (\<lambda>event.
     act_bind (on_events (save_event event
         (Some (idempotency_key_for_start (ss_external_execution_id sub) (ss_runtime_provider sub) cx)))) (\<lambda>_.
     on_executions (update_status execution_id (cx_organization_id cx) (cx_project_id cx)
       EX_RUNNING None 0)))))"

definition ingest_start ::
  "service_env \<Rightarrow> datetime \<Rightarrow> string \<Rightarrow> string \<Rightarrow> start_submission \<Rightarrow> tenant_context
     \<Rightarrow> (trace_store, agent_execution) action" where
  "ingest_start env now execution_id event_id sub cx s =
     act_bind (act_lift (authorize_call env cx AGENT_EXECUTION_INGEST)) (\<lambda>_.
     case get_by_external_id (ts_executions s) (ss_external_execution_id sub) (ss_runtime_provider sub)
            (cx_organization_id cx) (cx_project_id cx) of
       Some existing \<Rightarrow>
         if ex_is_terminal existing then act_return existing
         else if ex_status existing = EX_RECEIVED
         then on_executions (update_status (ex_execution_id existing) (cx_organization_id cx)
                (cx_project_id cx) EX_RUNNING None (ex_version existing))
         else act_return existing
     | None \<Rightarrow> start_new_execution now execution_id event_id sub cx) s"

section \<open>Events\<close>

record event_submission =
  es_event_type :: event_type
  es_attributes :: "(string \<times> pyval) list"
  es_idempotency_key :: "string option"
  es_correlation_id :: "string option"
  es_causation_id :: "string option"
  es_actor_id :: "string option"
  es_actor_type :: "actor_type option"
  es_workflow_step :: "workflow_step option"
  es_tool_call_context :: "tool_call_context option"
  es_resource_references :: "string list"
  es_evidence_references :: "string list"
  es_occurred_at :: "datetime option"

definition prior_steps :: "trace_store \<Rightarrow> string \<Rightarrow> tenant_context \<Rightarrow> workflow_step list" where
  "prior_steps s execution_id cx =
     List.map_filter (\<lambda>e. if ev_event_type e = WORKFLOW_STEP then ev_workflow_step e else None)
       (list_by_execution (ts_events s) execution_id (cx_organization_id cx) (cx_project_id cx))"

definition invalid_transition :: "string \<Rightarrow> exc" where
  "invalid_transition msg = Exc AgentExecutionInvalidTransition msg"

definition validate_workflow_step_transition ::
  "trace_store \<Rightarrow> string \<Rightarrow> event_type \<Rightarrow> workflow_step option \<Rightarrow> tenant_context \<Rightarrow> exc + unit" where
  "validate_workflow_step_transition s execution_id event_type workflow_step cx =
     (if event_type \<noteq> WORKFLOW_STEP
      then checked [(workflow_step \<noteq> None,
             Exc ValueError ''workflow_step evidence is valid only for WORKFLOW_STEP events.'')] ()
      else case workflow_step of
        None \<Rightarrow> Inl (Exc TypeError ''WORKFLOW_STEP events require typed workflow_step evidence.'')
      | Some step \<Rightarrow>
          (let prior = prior_steps s execution_id cx;
               same = filter (\<lambda>w. ws_step_id w = ws_step_id step) prior;
               started = filter (\<lambda>w. ws_lifecycle w = STEP_STARTED) same;
               terminal = filter (\<lambda>w. ws_lifecycle w \<in> {STEP_COMPLETED, STEP_FAILED}) same
           in res_bind (checked
                [(case ws_parent_step_id step of None \<Rightarrow> False | Some p \<Rightarrow> p \<notin> ws_step_id ` set prior,
                  invalid_transition ''parent_step_id must reference a workflow step in the same execution.'')] ())
              (\<lambda>_. if ws_lifecycle step = STEP_STARTED
                   then checked [(same \<noteq> [], invalid_transition
                          (''Workflow step '' @ quoted (ws_step_id step) @ '' has already started.''))] ()
                   else checked
                     [(started = [], invalid_transition
                        (''Workflow step '' @ quoted (ws_step_id step) @ '' must start before it terminates.'')),
                      (terminal \<noteq> [], invalid_transition
                        (''Workflow step '' @ quoted (ws_step_id step) @ '' is already terminal.''))] ())))"

text \<open>The lateness of an event: the verdict, the cutoff and the policy recorded on it.\<close>

definition lateness ::
  "service_env \<Rightarrow> datetime \<Rightarrow> datetime \<Rightarrow> tenant_context \<Rightarrow> exc + (bool \<times> datetime option \<times> int option)" where
  "lateness env now occurred_at cx =
     (case finalization_contract_for env occurred_at cx of
        Some w \<Rightarrow>
          (case fw_finalization_cutoff_at w of
             None \<Rightarrow> Inr (True, None, fw_lateness_policy_hours w)
           | Some cutoff \<Rightarrow> res_bind (dt_before cutoff now) (\<lambda>late.
               Inr (late, Some cutoff, fw_lateness_policy_hours w)))
      | None \<Rightarrow>
          (let hours = se_lateness_hours env cx; cutoff = runtime_findings_cutoff occurred_at hours
           in res_bind (dt_before cutoff now) (\<lambda>late. Inr (late, Some cutoff, Some hours))))"

definition submitted_event ::
  "event_submission \<Rightarrow> string \<Rightarrow> string \<Rightarrow> tenant_context \<Rightarrow> int \<Rightarrow> datetime \<Rightarrow> datetime
     \<Rightarrow> bool \<times> datetime option \<times> int option \<Rightarrow> string option \<Rightarrow> execution_event" where
  "submitted_event sub event_id execution_id cx seq occurred_at now lt execution_correlation =
     (case lt of (late, cutoff, hours) \<Rightarrow>
     \<lparr>ev_event_id = event_id, ev_execution_id = execution_id,
      ev_organization_id = cx_organization_id cx, ev_project_id = cx_project_id cx,
      ev_event_type = es_event_type sub, ev_sequence_number = seq, ev_occurred_at = occurred_at,
      ev_received_at = now,
      ev_correlation_id = str_or (es_correlation_id sub) execution_correlation,
      ev_causation_id = es_causation_id sub, ev_actor_id = es_actor_id sub,
      ev_actor_type = es_actor_type sub, ev_workflow_step = es_workflow_step sub,
      ev_tool_call_context = es_tool_call_context sub, ev_late_for_runtime_findings = late,
      ev_finalization_cutoff_at = cutoff, ev_lateness_policy_hours = hours,
      ev_resource_references = es_resource_references sub,
      ev_evidence_references = es_evidence_references sub,
      ev_attributes = es_attributes sub, ev_schema_version = ''1''\<rparr>)"

definition matches_submission :: "execution_event \<Rightarrow> event_submission \<Rightarrow> bool" where
  "matches_submission e sub =
     (ev_event_type e = es_event_type sub
      \<and> py_eq (PDict (ev_attributes e)) (PDict (es_attributes sub))
      \<and> ev_workflow_step e = es_workflow_step sub
      \<and> ev_tool_call_context e = es_tool_call_context sub)"

definition ingest_event ::
  "service_env \<Rightarrow> datetime \<Rightarrow> string \<Rightarrow> string \<Rightarrow> event_submission \<Rightarrow> tenant_context
     \<Rightarrow> (trace_store, execution_event) action" where
  "ingest_event env now event_id execution_id sub cx s =
     act_bind (act_lift (authorize_call env cx AGENT_EXECUTION_INGEST)) (\<lambda>_.
     if es_event_type sub = RUNTIME_ACTION_EXECUTION_RECEIPT
     then act_raise (Exc ValueError
       ''Runtime action execution receipts must use the dedicated receipt ingestion contract.'')
     else case cx_get_execution s execution_id cx of
       None \<Rightarrow> act_raise (Exc AgentExecutionNotFound
         (''Execution '' @ quoted execution_id @ '' not found in tenant scope.''))
     | Some execution \<Rightarrow>
         if ex_is_terminal execution
         then act_raise (invalid_transition
           (''Cannot ingest events for terminal execution '' @ quoted execution_id @ ''.''))
         else case (case es_idempotency_key sub of None \<Rightarrow> None
                    | Some k \<Rightarrow> find_event_by_idempotency_key (ts_events s) k execution_id
                        (cx_organization_id cx) (cx_project_id cx)) of
           Some existing \<Rightarrow>
             if matches_submission existing sub then act_return existing
             else act_raise (Exc AgentExecutionIdempotencyConflict
               (''Idempotency key conflict for execution '' @ quoted execution_id @ ''.''))
         | None \<Rightarrow>
             act_bind (act_lift (validate_workflow_step_transition s execution_id (es_event_type sub)
                (es_workflow_step sub) cx)) (\<lambda>_.
             let occurred_at = opt_or (es_occurred_at sub) now in
             act_bind (act_lift (lateness env now occurred_at cx)) (\<lambda>lt.
             act_bind (act_lift (new_event (submitted_event sub event_id execution_id cx
                (next_sequence s execution_id cx) occurred_at now lt (ex_correlation_id execution)))) (\<lambda>event.
             on_events (save_event event (es_idempotency_key sub)))))) s"

section \<open>Receipts\<close>

record receipt_submission =
  sb_decision_id :: string
  sb_request_fingerprint :: string
  sb_action_id :: string
  sb_runtime_tool_call_id :: string
  sb_tool_arguments_digest :: string
  sb_receipt_status :: string
  sb_reason_code :: string
  sb_idempotency_key :: string
  sb_result_reference :: "string option"
  sb_result_digest :: "string option"
  sb_supersedes_receipt_id :: "string option"

definition receipt_from_event :: "(rat \<Rightarrow> string) \<Rightarrow> execution_event \<Rightarrow> exc + execution_receipt" where
  "receipt_from_event fr e =
     (case receipt_from_payload fr (pget (ev_attributes e) ''runtime_action_execution_receipt'') of
        Inl _ \<Rightarrow> Inl (invalid_transition ''Stored runtime action execution receipt is malformed.'')
      | Inr r \<Rightarrow>
          if rc_receipt_id r \<noteq> ev_event_id e
          then Inl (invalid_transition
            ''Stored runtime action execution receipt identity does not match its event.'')
          else Inr r)"

text \<open>The status of the submission is coerced only when every binding before it agrees.\<close>

definition match_existing_receipt_submission ::
  "(rat \<Rightarrow> string) \<Rightarrow> execution_event \<Rightarrow> receipt_submission \<Rightarrow> tenant_context \<Rightarrow> exc + execution_event" where
  "match_existing_receipt_submission fr e sub cx =
     (if ev_event_type e \<noteq> RUNTIME_ACTION_EXECUTION_RECEIPT
      then Inl (Exc AgentExecutionIdempotencyConflict
        ''Receipt identity conflicts with a different execution event.'')
      else res_bind (receipt_from_event fr e) (\<lambda>r.
        let conflict = Exc AgentExecutionIdempotencyConflict
              ''Conflicting runtime action execution receipt submission.'' in
        if rc_attested_by r \<noteq> cx_actor_id cx
        then Inl (invalid_transition
          ''Authenticated runtime identity does not match the existing receipt.'')
        else if rc_decision_id r \<noteq> sb_decision_id sub
          \<or> rc_request_fingerprint r \<noteq> sb_request_fingerprint sub
          \<or> rc_action_id r \<noteq> sb_action_id sub
          \<or> rc_runtime_tool_call_id r \<noteq> sb_runtime_tool_call_id sub
          \<or> rc_tool_arguments_digest r \<noteq> sb_tool_arguments_digest sub
        then Inl conflict
        else case receipt_status_of (sb_receipt_status sub) of
          None \<Rightarrow> Inl (Exc ValueError (quoted (sb_receipt_status sub)
                    @ '' is not a valid RuntimeActionExecutionReceiptStatus''))
        | Some st \<Rightarrow>
            if rc_status r \<noteq> st
              \<or> rc_reason_code r \<noteq> sb_reason_code sub
              \<or> rc_result_reference r \<noteq> sb_result_reference sub
              \<or> rc_result_digest r \<noteq> sb_result_digest sub
              \<or> rc_supersedes_receipt_id r \<noteq> sb_supersedes_receipt_id sub
            then Inl conflict
            else Inr e))"

definition attr_is :: "execution_event \<Rightarrow> string \<Rightarrow> string \<Rightarrow> bool" where
  "attr_is e key v = py_eq (pget (ev_attributes e) key) (PStr v)"

definition validate_receipt_decision_link ::
  "execution_event option \<Rightarrow> receipt_submission \<Rightarrow> tenant_context \<Rightarrow> exc + unit" where
  "validate_receipt_decision_link decision_event sub cx =
     (case decision_event of
        None \<Rightarrow> Inl (invalid_transition
          ''Receipt must reference an authorization decision in the same execution scope.'')
      | Some e \<Rightarrow> checked
          [(ev_event_type e \<noteq> RUNTIME_ACTION_AUTHORIZATION, invalid_transition
             ''Receipt must reference an authorization decision in the same execution scope.''),
           (\<not> attr_is e ''authorization_outcome'' ''ALLOW'', invalid_transition
             ''Receipt must reference an authorization decision with outcome ALLOW.''),
           (\<not> attr_is e ''request_fingerprint'' (sb_request_fingerprint sub)
              \<or> \<not> attr_is e ''action_id'' (sb_action_id sub)
              \<or> \<not> attr_is e ''tool_arguments_digest'' (sb_tool_arguments_digest sub), invalid_transition
             ''Receipt does not match the authorization decision bindings.''),
           (\<not> attr_is e ''actor_id'' (cx_actor_id cx), invalid_transition
             ''Authenticated runtime identity does not match the authorization decision.'')] ())"

text \<open>The scan for an earlier successor of the superseded receipt.\<close>

fun already_superseded ::
  "(rat \<Rightarrow> string) \<Rightarrow> string \<Rightarrow> execution_event list \<Rightarrow> exc + unit" where
  "already_superseded fr target [] = Inr ()"
| "already_superseded fr target (e # es) =
     (if ev_event_type e \<noteq> RUNTIME_ACTION_EXECUTION_RECEIPT then already_superseded fr target es
      else res_bind (receipt_from_event fr e) (\<lambda>r.
        if rc_supersedes_receipt_id r = Some target
        then Inl (Exc AgentExecutionIdempotencyConflict ''An UNKNOWN receipt may be superseded only once.'')
        else already_superseded fr target es))"

definition validate_receipt_supersession ::
  "(rat \<Rightarrow> string) \<Rightarrow> trace_store \<Rightarrow> string \<Rightarrow> string \<Rightarrow> string \<Rightarrow> receipt_submission \<Rightarrow> receipt_status
     \<Rightarrow> tenant_context \<Rightarrow> exc + unit" where
  "validate_receipt_supersession fr s execution_id receipt_id target sub status cx =
     (if status = UNKNOWN
      then Inl (invalid_transition ''An UNKNOWN receipt cannot supersede a prior receipt.'')
      else case cx_get_event s target execution_id cx of
        None \<Rightarrow> Inl (invalid_transition ''Superseded receipt was not found in the current execution scope.'')
      | Some predecessor_event \<Rightarrow>
          res_bind (receipt_from_event fr predecessor_event) (\<lambda>p.
          res_bind (checked
            [(rc_status p \<noteq> UNKNOWN, invalid_transition ''Only an UNKNOWN receipt may be reconciled.''),
             (rc_attested_by p \<noteq> cx_actor_id cx
                \<or> rc_decision_id p \<noteq> sb_decision_id sub
                \<or> rc_request_fingerprint p \<noteq> sb_request_fingerprint sub
                \<or> rc_action_id p \<noteq> sb_action_id sub
                \<or> rc_runtime_tool_call_id p \<noteq> sb_runtime_tool_call_id sub
                \<or> rc_tool_arguments_digest p \<noteq> sb_tool_arguments_digest sub, invalid_transition
               ''Superseding receipt does not match the uncertain receipt bindings.'')] ()) (\<lambda>_.
          res_bind (already_superseded fr target
            (list_by_execution (ts_events s) execution_id (cx_organization_id cx) (cx_project_id cx))) (\<lambda>_.
          checked [(receipt_id = target, invalid_transition ''A receipt cannot supersede itself.'')] ()))))"

definition submitted_receipt :: "receipt_submission \<Rightarrow> string \<Rightarrow> tenant_context \<Rightarrow> datetime \<Rightarrow> execution_receipt" where
  "submitted_receipt sub receipt_id cx now =
     \<lparr>rc_receipt_id = receipt_id, rc_decision_id = sb_decision_id sub,
      rc_request_fingerprint = sb_request_fingerprint sub, rc_action_id = sb_action_id sub,
      rc_runtime_tool_call_id = sb_runtime_tool_call_id sub,
      rc_tool_arguments_digest = sb_tool_arguments_digest sub, rc_status = UNKNOWN,
      rc_reason_code = sb_reason_code sub, rc_attested_by = cx_actor_id cx, rc_attested_at = now,
      rc_result_reference = sb_result_reference sub, rc_result_digest = sb_result_digest sub,
      rc_supersedes_receipt_id = sb_supersedes_receipt_id sub,
      rc_schema_version = receipt_schema_version\<rparr>"

definition receipt_event ::
  "string \<Rightarrow> string \<Rightarrow> tenant_context \<Rightarrow> int \<Rightarrow> datetime \<Rightarrow> string option \<Rightarrow> receipt_submission
     \<Rightarrow> execution_receipt \<Rightarrow> execution_event" where
  "receipt_event receipt_id execution_id cx seq now correlation_id sub r =
     (platform_event receipt_id execution_id cx RUNTIME_ACTION_EXECUTION_RECEIPT seq now correlation_id
        (Some (sb_decision_id sub)) (Some (cx_actor_id cx)) AGENT
        [(''runtime_action_execution_receipt'', PDict (receipt_to_payload r)),
         (''receipt_submission_idempotency_key'', PStr (sb_idempotency_key sub))])
     \<lparr>ev_evidence_references := (case sb_result_reference sub of
         Some ref \<Rightarrow> if ref = [] then [] else [ref] | None \<Rightarrow> [])\<rparr>"

text \<open>The part of the ingestion that runs when no event has the identity of the receipt yet.\<close>

definition ingest_new_receipt ::
  "(rat \<Rightarrow> string) \<Rightarrow> datetime \<Rightarrow> string \<Rightarrow> string \<Rightarrow> receipt_submission \<Rightarrow> tenant_context
     \<Rightarrow> (trace_store, execution_event) action" where
  "ingest_new_receipt fr now receipt_id execution_id sub cx s =
     (let decision_event = cx_get_event s (sb_decision_id sub) execution_id cx in
     act_bind (act_lift (validate_receipt_decision_link decision_event sub cx)) (\<lambda>_.
     act_bind (act_lift (case receipt_status_of (sb_receipt_status sub) of
         None \<Rightarrow> Inl (Exc ValueError (quoted (sb_receipt_status sub)
                   @ '' is not a valid RuntimeActionExecutionReceiptStatus''))
       | Some st \<Rightarrow> Inr st)) (\<lambda>status.
     act_bind (act_lift (case sb_supersedes_receipt_id sub of None \<Rightarrow> Inr ()
       | Some target \<Rightarrow> validate_receipt_supersession fr s execution_id receipt_id target sub status cx)) (\<lambda>_.
     act_bind (act_lift (new_receipt (receipt_status_value status)
         (submitted_receipt sub receipt_id cx now))) (\<lambda>receipt.
     act_bind (act_lift (new_event (receipt_event receipt_id execution_id cx
         (next_sequence s execution_id cx) now
         (Option.bind decision_event ev_correlation_id) sub receipt))) (\<lambda>event.
     (\<lambda>s. case on_events (save_event event None) s of
        (Inr saved, s') \<Rightarrow> (Inr saved, s')
      | (Inl e, s') \<Rightarrow>
          (case cx_get_event s' receipt_id execution_id cx of
             Some existing \<Rightarrow> (match_existing_receipt_submission fr existing sub cx, s')
           | None \<Rightarrow> (Inl e, s')))))))) s)"

definition ingest_receipt ::
  "(rat \<Rightarrow> string) \<Rightarrow> service_env \<Rightarrow> datetime \<Rightarrow> string \<Rightarrow> receipt_submission \<Rightarrow> tenant_context
     \<Rightarrow> (trace_store, execution_event) action" where
  "ingest_receipt fr env now execution_id sub cx s =
     act_bind (act_lift (authorize_call env cx AGENT_EXECUTION_INGEST)) (\<lambda>_.
     if blank (sb_idempotency_key sub)
     then act_raise (Exc ValueError ''Receipt idempotency_key is required.'')
     else if cx_get_execution s execution_id cx = None
     then act_raise (Exc AgentExecutionNotFound
       (''Execution '' @ quoted execution_id @ '' not found in tenant scope.''))
     else
     let receipt_id = receipt_event_id (sb_decision_id sub) (sb_runtime_tool_call_id sub)
           (sb_supersedes_receipt_id sub) in
     case cx_get_event s receipt_id execution_id cx of
       Some existing \<Rightarrow> act_lift (match_existing_receipt_submission fr existing sub cx)
     | None \<Rightarrow> ingest_new_receipt fr now receipt_id execution_id sub cx) s"

section \<open>Completion\<close>

definition completed_event ::
  "string \<Rightarrow> string \<Rightarrow> agent_execution \<Rightarrow> tenant_context \<Rightarrow> int \<Rightarrow> datetime \<Rightarrow> execution_status \<Rightarrow> execution_event" where
  "completed_event event_id execution_id execution cx seq now status =
     platform_event event_id execution_id cx EXECUTION_COMPLETED seq now
       (ex_correlation_id execution) None (Some (ex_agent_id execution)) SYSTEM
       [(''final_status'', PStr (execution_status_value status)),
        (''duration_seconds'', (case duration_micros execution of None \<Rightarrow> PNone
            | Some d \<Rightarrow> PFloat (of_int d / 1000000)))]"

definition mark_completed ::
  "service_env \<Rightarrow> datetime \<Rightarrow> string \<Rightarrow> string \<Rightarrow> execution_status \<Rightarrow> tenant_context
     \<Rightarrow> (trace_store, agent_execution) action" where
  "mark_completed env now event_id execution_id status cx s =
     act_bind (act_lift (authorize_call env cx AGENT_EXECUTION_INGEST)) (\<lambda>_.
     case cx_get_execution s execution_id cx of
       None \<Rightarrow> act_raise (Exc AgentExecutionNotFound (''Execution '' @ quoted execution_id @ '' not found.''))
     | Some execution \<Rightarrow>
         if ex_is_terminal execution then act_return execution
         else
         act_bind (on_executions (update_status execution_id (cx_organization_id cx) (cx_project_id cx)
             status (Some now) (ex_version execution))) (\<lambda>updated.
         act_bind (\<lambda>s. act_lift (new_event (completed_event event_id execution_id execution cx
             (next_sequence s execution_id cx) now status)) s) (\<lambda>event.
         act_bind (on_events (save_event event None)) (\<lambda>_.
         act_return updated)))) s"

section \<open>Reads\<close>

definition service_get_execution ::
  "service_env \<Rightarrow> trace_store \<Rightarrow> string \<Rightarrow> tenant_context \<Rightarrow> exc + agent_execution option" where
  "service_get_execution env s execution_id cx =
     res_bind (authorize_call env cx AGENT_EXECUTION_READ) (\<lambda>_. Inr (cx_get_execution s execution_id cx))"

definition count_event :: "execution_event \<Rightarrow> (event_type, nat) dict \<Rightarrow> (event_type, nat) dict" where
  "count_event e counts =
     dict_put (ev_event_type e) (opt_or (dict_get counts (ev_event_type e)) 0 + 1) counts"

record execution_detail =
  ed_execution :: agent_execution
  ed_events :: "execution_event list"
  ed_event_counts :: "(event_type, nat) dict"

definition get_execution_detail ::
  "service_env \<Rightarrow> trace_store \<Rightarrow> string \<Rightarrow> tenant_context \<Rightarrow> exc + execution_detail option" where
  "get_execution_detail env s execution_id cx =
     res_bind (authorize_call env cx AGENT_EXECUTION_READ) (\<lambda>_.
     res_bind (service_get_execution env s execution_id cx) (\<lambda>found.
       case found of None \<Rightarrow> Inr None
       | Some execution \<Rightarrow>
           (let events = list_by_execution (ts_events s) execution_id (cx_organization_id cx) (cx_project_id cx)
            in Inr (Some \<lparr>ed_execution = execution, ed_events = events,
                         ed_event_counts = fold count_event events []\<rparr>))))"

record execution_page =
  ep_items :: "(agent_execution \<times> int) list"
  ep_next_cursor :: "string option"

text \<open>The \<open>cursor\<close> argument is accepted and not used.\<close>

definition list_executions ::
  "service_env \<Rightarrow> trace_store \<Rightarrow> execution_filters \<Rightarrow> string option \<Rightarrow> nat \<Rightarrow> tenant_context
     \<Rightarrow> exc + execution_page" where
  "list_executions env s filters cursor limit cx =
     res_bind (authorize_call env cx AGENT_EXECUTION_READ) (\<lambda>_.
     res_bind (repo_list_executions (ts_executions s) (filters\<lparr>xf_limit := limit + 1\<rparr>)
         (cx_organization_id cx) (cx_project_id cx)) (\<lambda>executions.
       let has_more = limit < length executions;
           shown = (if has_more then take limit executions else executions);
           items = map (\<lambda>x. (x, next_sequence s (ex_execution_id x) cx)) shown
       in Inr \<lparr>ep_items = items,
               ep_next_cursor = (if has_more \<and> items \<noteq> []
                 then Some (encode_cursor (isoformat (ex_started_at (fst (last items))))
                             (ex_execution_id (fst (last items))))
                 else None)\<rparr>))"

definition list_agents ::
  "service_env \<Rightarrow> trace_store \<Rightarrow> nat \<Rightarrow> nat \<Rightarrow> tenant_context
     \<Rightarrow> exc + ((string \<times> string \<times> string) \<times> agent_summary) list \<times> nat option" where
  "list_agents env s offset limit cx =
     res_bind (authorize_call env cx AGENT_EXECUTION_READ) (\<lambda>_.
       let items = repo_list_agents (ts_executions s) (limit + 1) offset
                     (cx_organization_id cx) (cx_project_id cx);
           has_more = limit < length items
       in Inr (if has_more then take limit items else items,
               if has_more then Some (offset + limit) else None))"

definition list_events ::
  "service_env \<Rightarrow> trace_store \<Rightarrow> string \<Rightarrow> tenant_context \<Rightarrow> event_type option \<Rightarrow> nat
     \<Rightarrow> exc + execution_event list" where
  "list_events env s execution_id cx event_type limit =
     res_bind (authorize_call env cx AGENT_EXECUTION_READ) (\<lambda>_.
       if cx_get_execution s execution_id cx = None
       then Inl (Exc AgentExecutionNotFound (''Execution '' @ quoted execution_id @ '' not found.''))
       else list_by_execution_filtered (ts_events s) execution_id (cx_organization_id cx) (cx_project_id cx)
              \<lparr>ef_event_type = event_type, ef_actor_id = None, ef_occurred_after = None,
               ef_occurred_before = None, ef_limit = limit\<rparr>)"

section \<open>What the service does to the store\<close>

text \<open>A stored receipt is named by its content and continues the uncertain receipt it supersedes.\<close>

definition receipt_link_ok :: "(rat \<Rightarrow> string) \<Rightarrow> event_repo \<Rightarrow> execution_event \<Rightarrow> bool" where
  "receipt_link_ok fr er e =
     (\<exists>r. receipt_from_event fr e = Inr r
        \<and> ev_event_id e = receipt_event_id (rc_decision_id r) (rc_runtime_tool_call_id r) (rc_supersedes_receipt_id r)
        \<and> (\<forall>t. rc_supersedes_receipt_id r = Some t \<longrightarrow>
             (\<exists>pe p. dict_get (er_by_id er) t = Some pe \<and> receipt_from_event fr pe = Inr p
                \<and> rc_status p = UNKNOWN \<and> rc_decision_id p = rc_decision_id r
                \<and> rc_runtime_tool_call_id p = rc_runtime_tool_call_id r)))"

text \<open>
  The writes of the services. A fresh execution gets an identifier that is not in use, an update
  never touches a terminal execution, and a receipt event is well linked.
\<close>

inductive trace_step :: "(rat \<Rightarrow> string) \<Rightarrow> trace_store \<Rightarrow> trace_store \<Rightarrow> bool" for fr where
  write_event:
    "event_ok e \<Longrightarrow> (ev_event_type e = RUNTIME_ACTION_EXECUTION_RECEIPT \<Longrightarrow> receipt_link_ok fr (ts_events s) e) \<Longrightarrow>
     save_event e key (ts_events s) = (r, t) \<Longrightarrow> trace_step fr s (s\<lparr>ts_events := t\<rparr>)"
| create_execution:
    "execution_ok x \<Longrightarrow> dict_get (xr_by_id (ts_executions s)) (ex_execution_id x) = None \<Longrightarrow>
     save_execution x (ts_executions s) = (r, t) \<Longrightarrow> trace_step fr s (s\<lparr>ts_executions := t\<rparr>)"
| change_status:
    "dict_get (xr_by_id (ts_executions s)) k = Some x \<Longrightarrow> \<not> ex_is_terminal x \<Longrightarrow>
     update_status k og pj st done v (ts_executions s) = (r, t) \<Longrightarrow> trace_step fr s (s\<lparr>ts_executions := t\<rparr>)"

definition execution_repo_inv :: "execution_repo \<Rightarrow> bool" where
  "execution_repo_inv s =
     (\<forall>k x. dict_get (xr_by_id s) k = Some x \<longrightarrow> k = ex_execution_id x \<and> execution_ok x)"

definition trace_inv :: "(rat \<Rightarrow> string) \<Rightarrow> trace_store \<Rightarrow> bool" where
  "trace_inv fr s =
     (event_repo_inv (ts_events s) \<and> execution_repo_inv (ts_executions s)
      \<and> (\<forall>k e. dict_get (er_by_id (ts_events s)) k = Some e \<longrightarrow>
           ev_event_type e = RUNTIME_ACTION_EXECUTION_RECEIPT \<longrightarrow> receipt_link_ok fr (ts_events s) e))"

definition empty_trace_store :: trace_store where
  "empty_trace_store =
     \<lparr>ts_executions = \<lparr>xr_by_id = [], xr_by_external = []\<rparr>, ts_events = empty_event_repo\<rparr>"

text \<open>An execution keeps its identity, and everything once it is terminal.\<close>

definition execution_evolves :: "agent_execution \<Rightarrow> agent_execution \<Rightarrow> bool" where
  "execution_evolves x y =
     (ex_execution_id y = ex_execution_id x \<and> ex_organization_id y = ex_organization_id x
      \<and> ex_project_id y = ex_project_id x \<and> ex_agent_id y = ex_agent_id x
      \<and> ex_started_at y = ex_started_at x \<and> ex_correlation_id y = ex_correlation_id x
      \<and> ex_version x \<le> ex_version y
      \<and> (ex_is_terminal x \<longrightarrow> y = x))"

lemma empty_trace_inv [simp]: "trace_inv fr empty_trace_store"
  by (simp add: trace_inv_def empty_trace_store_def execution_repo_inv_def)
    (simp add: empty_event_repo_def)

lemma receipt_link_ok_grows:
  assumes "receipt_link_ok fr er e" "\<And>k f. dict_get (er_by_id er) k = Some f \<Longrightarrow> dict_get (er_by_id er') k = Some f"
  shows "receipt_link_ok fr er' e"
  using assms unfolding receipt_link_ok_def by meson

lemma update_status_cases:
  assumes "update_status k og pj st done v s = (r, s')"
  obtains (kept) e where "s' = s" "r = Inl e"
  | (updated) x y where "dict_get (xr_by_id s) k = Some x" "ex_organization_id x = og" "ex_version x = v"
      "y = x\<lparr>ex_status := st, ex_completed_at := done, ex_version := ex_version x + 1\<rparr>"
      "execution_ok y" "r = Inr y" "s' = s\<lparr>xr_by_id := dict_put k y (xr_by_id s)\<rparr>"
proof (cases "dict_get (xr_by_id s) k")
  case None
  with assms show ?thesis by (intro kept) (auto simp: update_status_def)
next
  case (Some x)
  let ?y = "x\<lparr>ex_status := st, ex_completed_at := done, ex_version := ex_version x + 1\<rparr>"
  show ?thesis
  proof (cases "ex_organization_id x = og \<and> (pj = None \<or> ex_project_id x = pj) \<and> ex_version x = v")
    case False
    with Some assms kept show ?thesis by (auto simp: update_status_def split: if_splits)
  next
    case True
    then have run: "(r, s') = (case new_execution ?y of Inl e \<Rightarrow> (Inl e, s)
        | Inr y \<Rightarrow> (Inr y, s\<lparr>xr_by_id := dict_put k y (xr_by_id s)\<rparr>))"
      unfolding assms [symmetric] using Some by (auto simp: update_status_def)
    show ?thesis
    proof (cases "new_execution ?y")
      case (Inl e)
      then have "s' = s \<and> r = Inl e" using run by simp
      with kept show ?thesis by blast
    next
      case (Inr y)
      then have y: "y = ?y" "execution_ok y" by (simp_all add: new_execution_Inr_iff)
      have "r = Inr y \<and> s' = s\<lparr>xr_by_id := dict_put k y (xr_by_id s)\<rparr>"
        using run Inr by simp
      with updated [OF Some _ _ y] True show ?thesis by blast
    qed
  qed
qed

lemma trace_step_inv:
  assumes "trace_step fr s s'" "trace_inv fr s"
  shows "trace_inv fr s'"
  using assms(1)
proof cases
  case (write_event e key r t)
  have inv: "event_repo_inv (ts_events s)" using assms(2) by (simp add: trace_inv_def)
  have step: "event_repo_step (ts_events s) t"
    using write_event by (blast intro: event_repo_step.intros)
  note inv' = event_repo_step_inv [OF step inv]
  note grows = event_repo_step_keeps(1) [OF step inv]
  have "receipt_link_ok fr t f"
    if f: "dict_get (er_by_id t) k = Some f" "ev_event_type f = RUNTIME_ACTION_EXECUTION_RECEIPT" for k f
  proof (cases "dict_get (er_by_id (ts_events s)) k = Some f")
    case True
    with f assms(2) have "receipt_link_ok fr (ts_events s) f" unfolding trace_inv_def by blast
    then show ?thesis by (rule receipt_link_ok_grows) (rule grows)
  next
    case False
    have "f = e"
      using inv write_event(4) by (cases rule: save_event_cases) (use f False in \<open>auto split: if_splits\<close>)
    with f write_event(3) have "receipt_link_ok fr (ts_events s) f" by simp
    then show ?thesis by (rule receipt_link_ok_grows) (rule grows)
  qed
  then show ?thesis
    using write_event(1) inv' assms(2) by (simp add: trace_inv_def)
next
  case (create_execution x r t)
  then show ?thesis
    using assms(2) by (auto simp: trace_inv_def execution_repo_inv_def save_execution_def dict_get_put split: if_splits)
next
  case (change_status k x og pj st "done" v r t)
  from change_status(4) have "execution_repo_inv t"
    by (cases rule: update_status_cases)
      (use assms(2) in \<open>auto simp: trace_inv_def execution_repo_inv_def dict_get_put split: if_splits\<close>)
  then show ?thesis using change_status(1) assms(2) by (simp add: trace_inv_def)
qed

lemma trace_step_events:
  assumes "trace_step fr s s'"
  shows "event_repo_step (ts_events s) (ts_events s') \<or> ts_events s' = ts_events s"
  using assms by cases (auto intro: event_repo_step.intros)

lemma trace_step_executions:
  assumes "trace_step fr s s'" "dict_get (xr_by_id (ts_executions s)) k = Some x"
  shows "\<exists>y. dict_get (xr_by_id (ts_executions s')) k = Some y \<and> execution_evolves x y"
  using assms(1)
proof cases
  case (write_event e key r t)
  with assms(2) show ?thesis by (auto simp: execution_evolves_def)
next
  case (create_execution y r t)
  with assms(2) show ?thesis by (auto simp: save_execution_def dict_get_put execution_evolves_def)
next
  case (change_status j y og pj st "done" v r t)
  from change_status(4) show ?thesis
  proof (cases rule: update_status_cases)
    case (kept e)
    with change_status(1) assms(2) show ?thesis by (auto simp: execution_evolves_def)
  next
    case (updated u w)
    with change_status assms(2) show ?thesis
      by (auto simp: dict_get_put execution_evolves_def)
  qed
qed

lemma execution_evolves_refl: "execution_evolves x x"
  by (simp add: execution_evolves_def)

lemma execution_evolves_trans: "execution_evolves x y \<Longrightarrow> execution_evolves y z \<Longrightarrow> execution_evolves x z"
  by (auto simp: execution_evolves_def)

interpretation trace_executions: evolving_store
  "trace_step fr" "\<lambda>s. dict_get (xr_by_id (ts_executions s))" execution_evolves "trace_inv fr" for fr
  by unfold_locales
    (auto intro: execution_evolves_refl execution_evolves_trans trace_step_inv trace_step_executions)

lemma trace_step_event_kept:
  assumes "trace_step fr s s'" "trace_inv fr s" "dict_get (er_by_id (ts_events s)) k = Some e"
  shows "dict_get (er_by_id (ts_events s')) k = Some e"
  using trace_step_events [OF assms(1)] event_repo_step_keeps(1) [of "ts_events s" "ts_events s'"] assms(2,3)
  by (auto simp: trace_inv_def)

interpretation trace_events: evolving_store
  "trace_step fr" "\<lambda>s. dict_get (er_by_id (ts_events s))" "(=)" "trace_inv fr" for fr
  by unfold_locales (auto intro: trace_step_inv dest: trace_step_event_kept)

lemma trace_step_key_kept:
  assumes "trace_step fr s s'" "trace_inv fr s" "dict_get (er_by_idempotency (ts_events s)) k = Some e"
  shows "dict_get (er_by_idempotency (ts_events s')) k = Some e"
  using trace_step_events [OF assms(1)] event_repo_step_keeps(2) [of "ts_events s" "ts_events s'"] assms(2,3)
  by (cases k) (auto simp: trace_inv_def)

interpretation trace_keys: evolving_store
  "trace_step fr" "\<lambda>s. dict_get (er_by_idempotency (ts_events s))" "(=)" "trace_inv fr" for fr
  by unfold_locales (auto intro: trace_step_inv dest: trace_step_key_kept)

section \<open>Every command stays within these writes\<close>

lemma save_event_within:
  assumes "event_ok e"
    "ev_event_type e = RUNTIME_ACTION_EXECUTION_RECEIPT \<Longrightarrow> receipt_link_ok fr (ts_events s) e"
  shows "act_within (trace_step fr) (on_events (save_event e key)) s"
  by (rule act_within_step)
    (use assms in \<open>auto simp: act_on_apply prod_eq_iff intro!: trace_step.write_event\<close>)

lemma update_status_within:
  assumes "dict_get (xr_by_id (ts_executions s)) k = Some x" "\<not> ex_is_terminal x"
  shows "act_within (trace_step fr) (on_executions (update_status k og pj st done v)) s"
  by (rule act_within_step)
    (use assms in \<open>auto simp: act_on_apply prod_eq_iff intro!: trace_step.change_status\<close>)

lemma save_execution_within:
  assumes "execution_ok x" "dict_get (xr_by_id (ts_executions s)) (ex_execution_id x) = None"
  shows "act_within (trace_step fr) (on_executions (save_execution x)) s"
  by (rule act_within_step)
    (use assms in \<open>auto simp: act_on_apply prod_eq_iff intro!: trace_step.create_execution\<close>)

lemma get_execution_Some:
  "get_execution s k og pj = Some x \<longleftrightarrow>
     dict_get (xr_by_id s) k = Some x \<and> in_scope og pj (ex_organization_id x) (ex_project_id x)"
  by (auto simp: get_execution_def split: option.splits if_splits)

lemma get_event_by_id_Some:
  "get_event_by_id s k x og pj = Some e \<longleftrightarrow>
     dict_get (er_by_id s) k = Some e \<and> ev_execution_id e = x
     \<and> in_scope og pj (ev_organization_id e) (ev_project_id e)"
  by (auto simp: get_event_by_id_def split: option.splits if_splits)

lemma get_by_external_id_Some:
  "get_by_external_id s ext rp og pj = Some x \<Longrightarrow> \<exists>k. dict_get (xr_by_id s) k = Some x"
  by (auto simp: get_by_external_id_def get_execution_Some split: option.splits)

lemma mark_completed_within:
  "act_within (trace_step fr) (mark_completed env now event_id k status cx) s"
  unfolding act_within_def mark_completed_def
proof (fold act_within_def, rule act_within_bind_lift)
  fix u :: unit
  show "act_within (trace_step fr) (case cx_get_execution s k cx of
       None \<Rightarrow> act_raise (Exc AgentExecutionNotFound (''Execution '' @ quoted k @ '' not found.''))
     | Some execution \<Rightarrow>
         if ex_is_terminal execution then act_return execution
         else
         act_bind (on_executions (update_status k (cx_organization_id cx) (cx_project_id cx)
             status (Some now) (ex_version execution))) (\<lambda>updated.
         act_bind (\<lambda>s. act_lift (new_event (completed_event event_id k execution cx
             (next_sequence s k cx) now status)) s) (\<lambda>event.
         act_bind (on_events (save_event event None)) (\<lambda>_. act_return updated)))) s"
  proof (cases "cx_get_execution s k cx")
    case None
    then show ?thesis by (simp add: within_intros)
  next
    case (Some x)
    then have x: "dict_get (xr_by_id (ts_executions s)) k = Some x" by (simp add: get_execution_Some)
    have "act_within (trace_step fr) (act_bind (\<lambda>s. act_lift (new_event (completed_event event_id k x cx
             (next_sequence s k cx) now status)) s) (\<lambda>event.
         act_bind (on_events (save_event event None)) (\<lambda>_. act_return y))) s'" for y s'
    proof (rule act_within_bind)
      show "act_within (trace_step fr) (\<lambda>s. act_lift (new_event (completed_event event_id k x cx
             (next_sequence s k cx) now status)) s) s'"
        by (simp add: act_within_def)
      fix e s'' assume "act_lift (new_event (completed_event event_id k x cx
             (next_sequence s' k cx) now status)) s' = (Inr e, s'')"
      then have "event_ok e" "ev_event_type e \<noteq> RUNTIME_ACTION_EXECUTION_RECEIPT"
        by (auto simp: new_event_Inr_iff completed_event_def platform_event_def)
      then show "act_within (trace_step fr) (act_bind (on_events (save_event e None)) (\<lambda>_. act_return y)) s''"
        by (intro act_within_bind [OF save_event_within]) (auto intro: within_intros)
    qed
    then have "act_within (trace_step fr) (act_bind (on_executions (update_status k (cx_organization_id cx)
           (cx_project_id cx) status (Some now) (ex_version x))) (\<lambda>updated.
         act_bind (\<lambda>s. act_lift (new_event (completed_event event_id k x cx
             (next_sequence s k cx) now status)) s) (\<lambda>event.
         act_bind (on_events (save_event event None)) (\<lambda>_. act_return updated)))) s" if "\<not> ex_is_terminal x"
      by (intro act_within_bind [OF update_status_within [OF x that]])
    then show ?thesis by (simp add: Some within_intros)
  qed
qed

lemma ingest_event_cases:
  assumes "ingest_event env now i k sub cx s = (r, s')"
  obtains (failed) err where "r = Inl err" "s' = s"
  | (replayed) e key where "r = Inr e" "s' = s" "es_idempotency_key sub = Some key"
      "find_event_by_idempotency_key (ts_events s) key k (cx_organization_id cx) (cx_project_id cx) = Some e"
      "matches_submission e sub"
  | (fresh) x lt e where "cx_get_execution s k cx = Some x" "\<not> ex_is_terminal x"
      "es_event_type sub \<noteq> RUNTIME_ACTION_EXECUTION_RECEIPT"
      "validate_workflow_step_transition s k (es_event_type sub) (es_workflow_step sub) cx = Inr ()"
      "lateness env now (opt_or (es_occurred_at sub) now) cx = Inr lt"
      "e = submitted_event sub i k cx (next_sequence s k cx) (opt_or (es_occurred_at sub) now) now lt
             (ex_correlation_id x)" "event_ok e"
      "on_events (save_event e (es_idempotency_key sub)) s = (r, s')"
proof (cases "cx_get_execution s k cx")
  case None
  with assms failed show ?thesis by (auto simp: ingest_event_def split: sum.splits if_splits)
next
  case (Some x)
  show ?thesis
  proof (cases "authorize_call env cx AGENT_EXECUTION_INGEST = Inr () \<and> \<not> ex_is_terminal x
      \<and> es_event_type sub \<noteq> RUNTIME_ACTION_EXECUTION_RECEIPT")
    case False
    with assms Some failed show ?thesis
      by (cases "authorize_call env cx AGENT_EXECUTION_INGEST") (auto simp: ingest_event_def split: if_splits)
  next
    case True
    let ?found = "case es_idempotency_key sub of None \<Rightarrow> None
       | Some key \<Rightarrow> find_event_by_idempotency_key (ts_events s) key k (cx_organization_id cx) (cx_project_id cx)"
    show ?thesis
    proof (cases ?found)
      case (Some e)
      with assms True \<open>cx_get_execution s k cx = Some x\<close> failed replayed show ?thesis
        by (auto simp: ingest_event_def split: if_splits option.splits)
    next
      case None
      let ?e = "\<lambda>lt. submitted_event sub i k cx (next_sequence s k cx) (opt_or (es_occurred_at sub) now) now lt
             (ex_correlation_id x)"
      have run: "(r, s') = act_bind (act_lift (validate_workflow_step_transition s k (es_event_type sub)
                (es_workflow_step sub) cx)) (\<lambda>_.
             act_bind (act_lift (lateness env now (opt_or (es_occurred_at sub) now) cx)) (\<lambda>lt.
             act_bind (act_lift (new_event (?e lt))) (\<lambda>event.
             on_events (save_event event (es_idempotency_key sub))))) s"
        using assms True \<open>cx_get_execution s k cx = Some x\<close> None
        by (simp add: ingest_event_def Let_def)
      show ?thesis
      proof (cases "validate_workflow_step_transition s k (es_event_type sub) (es_workflow_step sub) cx")
        case (Inl err)
        with run failed show ?thesis by simp
      next
        case (Inr u)
        note val = this
        show ?thesis
        proof (cases "lateness env now (opt_or (es_occurred_at sub) now) cx")
          case (Inl err)
          with run val failed show ?thesis by simp
        next
          case (Inr lt)
          show ?thesis
          proof (cases "new_event (?e lt)")
            case (Inl err)
            with run val Inr failed show ?thesis by simp
          next
            case (Inr e)
            then have "e = ?e lt" "event_ok e" by (simp_all add: new_event_Inr_iff)
            moreover have "on_events (save_event e (es_idempotency_key sub)) s = (r, s')"
              using run val \<open>lateness env now _ cx = Inr lt\<close> Inr by simp
            ultimately show ?thesis
              using \<open>cx_get_execution s k cx = Some x\<close> True val \<open>lateness env now _ cx = Inr lt\<close>
              by (intro fresh) simp_all
          qed
        qed
      qed
    qed
  qed
qed

lemma ingest_event_within:
  "act_within (trace_step fr) (ingest_event env now i k sub cx) s"
  unfolding act_within_def
proof (intro allI impI)
  fix r s' assume "ingest_event env now i k sub cx s = (r, s')"
  then show "(trace_step fr)\<^sup>*\<^sup>* s s'"
  proof (cases rule: ingest_event_cases)
    case (fresh x lt e)
    have "ev_event_type e \<noteq> RUNTIME_ACTION_EXECUTION_RECEIPT"
      using fresh(3) by (simp add: fresh(6) submitted_event_def split_beta)
    then have "act_within (trace_step fr) (on_events (save_event e (es_idempotency_key sub))) s"
      by (intro save_event_within [OF fresh(7)]) simp
    then show ?thesis using fresh(8) by (rule act_withinD)
  qed simp_all
qed

lemma save_event_Inl: "save_event e key s = (Inl err, s') \<Longrightarrow> s' = s"
  by (auto simp: save_event_def split: option.splits if_splits)

lemma match_existing_Inr_iff:
  "match_existing_receipt_submission fr e sub cx = Inr f \<longleftrightarrow>
     f = e \<and> ev_event_type e = RUNTIME_ACTION_EXECUTION_RECEIPT
     \<and> (\<exists>r. receipt_from_event fr e = Inr r \<and> rc_attested_by r = cx_actor_id cx
         \<and> rc_decision_id r = sb_decision_id sub \<and> rc_request_fingerprint r = sb_request_fingerprint sub
         \<and> rc_action_id r = sb_action_id sub \<and> rc_runtime_tool_call_id r = sb_runtime_tool_call_id sub
         \<and> rc_tool_arguments_digest r = sb_tool_arguments_digest sub
         \<and> receipt_status_of (sb_receipt_status sub) = Some (rc_status r)
         \<and> rc_reason_code r = sb_reason_code sub \<and> rc_result_reference r = sb_result_reference sub
         \<and> rc_result_digest r = sb_result_digest sub
         \<and> rc_supersedes_receipt_id r = sb_supersedes_receipt_id sub)"
  unfolding match_existing_receipt_submission_def Let_def guard_Inr_iff res_bind_Inr_iff
  by (cases "receipt_from_event fr e"; cases "receipt_status_of (sb_receipt_status sub)")
    (simp_all add: guard_Inr_iff, blast)

text \<open>The three ways in which a receipt submission ends.\<close>

lemma ingest_receipt_cases:
  assumes "ingest_receipt fr env now k sub cx s = (r, s')"
  obtains (failed) err where "r = Inl err" "s' = s"
  | (replayed) e where "r = Inr e" "s' = s"
      "cx_get_event s (receipt_event_id (sb_decision_id sub) (sb_runtime_tool_call_id sub)
         (sb_supersedes_receipt_id sub)) k cx = Some e"
      "match_existing_receipt_submission fr e sub cx = Inr e"
  | (fresh) rid where
      "rid = receipt_event_id (sb_decision_id sub) (sb_runtime_tool_call_id sub) (sb_supersedes_receipt_id sub)"
      "cx_get_event s rid k cx = None" "cx_get_execution s k cx \<noteq> None"
      "authorize_call env cx AGENT_EXECUTION_INGEST = Inr ()" "\<not> blank (sb_idempotency_key sub)"
      "ingest_new_receipt fr now rid k sub cx s = (r, s')"
proof (cases "authorize_call env cx AGENT_EXECUTION_INGEST = Inr () \<and> \<not> blank (sb_idempotency_key sub)
      \<and> cx_get_execution s k cx \<noteq> None")
  case False
  with assms failed show ?thesis
    by (cases "authorize_call env cx AGENT_EXECUTION_INGEST") (auto simp: ingest_receipt_def split: if_splits)
next
  case True
  define rid where "rid = receipt_event_id (sb_decision_id sub) (sb_runtime_tool_call_id sub)
    (sb_supersedes_receipt_id sub)"
  have run: "(case cx_get_event s rid k cx of
       Some existing \<Rightarrow> act_lift (match_existing_receipt_submission fr existing sub cx)
     | None \<Rightarrow> ingest_new_receipt fr now rid k sub cx) s = (r, s')"
    using assms True by (simp add: ingest_receipt_def rid_def [symmetric] Let_def)
  show ?thesis
  proof (cases "cx_get_event s rid k cx")
    case None
    with run True fresh show ?thesis by (simp add: rid_def)
  next
    case (Some e)
    with run have m: "match_existing_receipt_submission fr e sub cx = r" "s' = s" by simp_all
    show ?thesis
    proof (cases r)
      case (Inl err)
      with m failed show ?thesis by blast
    next
      case (Inr f)
      with m have "f = e" by (simp add: match_existing_Inr_iff)
      with m Inr Some replayed show ?thesis by (simp add: rid_def)
    qed
  qed
qed

text \<open>What a new receipt has passed when it is stored; every failure leaves the store as it was.\<close>

lemma ingest_new_receipt_cases:
  assumes run: "ingest_new_receipt fr now rid k sub cx s = (r, s')" and none: "cx_get_event s rid k cx = None"
  obtains (failed) err where "r = Inl err" "s' = s"
  | (stored) st rc e saved de t where
      "cx_get_event s (sb_decision_id sub) k cx = Some de"
      "validate_receipt_decision_link (Some de) sub cx = Inr ()"
      "receipt_status_of (sb_receipt_status sub) = Some st"
      "\<And>t. sb_supersedes_receipt_id sub = Some t \<Longrightarrow>
         validate_receipt_supersession fr s k rid t sub st cx = Inr ()"
      "rc = (submitted_receipt sub rid cx now)\<lparr>rc_status := st\<rparr>" "receipt_ok rc"
      "e = receipt_event rid k cx (next_sequence s k cx) now (ev_correlation_id de) sub rc" "event_ok e"
      "r = Inr saved" "save_event e None (ts_events s) = (Inr saved, t)" "s' = s\<lparr>ts_events := t\<rparr>"
proof (cases "\<exists>err. r = Inl err \<and> s' = s")
  case True
  with failed show ?thesis by blast
next
  case False
  note run = run [unfolded ingest_new_receipt_def Let_def]
  obtain de where de: "cx_get_event s (sb_decision_id sub) k cx = Some de"
    and link: "validate_receipt_decision_link (Some de) sub cx = Inr ()"
    using run False
    by (cases "cx_get_event s (sb_decision_id sub) k cx")
      (auto simp: validate_receipt_decision_link_def split: sum.splits)
  obtain st where st: "receipt_status_of (sb_receipt_status sub) = Some st"
    using run False de link by (cases "receipt_status_of (sb_receipt_status sub)") auto
  have sup: "(case sb_supersedes_receipt_id sub of None \<Rightarrow> Inr ()
     | Some target \<Rightarrow> validate_receipt_supersession fr s k rid target sub st cx) = Inr ()"
    using run False de link st by (auto split: option.splits sum.splits)
  obtain rc where rc: "new_receipt (receipt_status_value st) (submitted_receipt sub rid cx now) = Inr rc"
    using run False de link st sup by (auto split: sum.splits)
  define e where "e = receipt_event rid k cx (next_sequence s k cx) now (ev_correlation_id de) sub rc"
  have new: "new_event e = Inr e"
  proof (cases "new_event e")
    case (Inl err)
    then have "r = Inl err \<and> s' = s" using run by (simp add: de link st sup rc e_def)
    with False show ?thesis by blast
  qed (simp add: new_event_Inr_iff)
  obtain w t where save: "save_event e None (ts_events s) = (w, t)" by force
  have run': "(r, s') = (case w of Inr saved \<Rightarrow> (Inr saved, s\<lparr>ts_events := t\<rparr>)
     | Inl err \<Rightarrow> (case cx_get_event (s\<lparr>ts_events := t\<rparr>) rid k cx of
         Some existing \<Rightarrow> (match_existing_receipt_submission fr existing sub cx, s\<lparr>ts_events := t\<rparr>)
       | None \<Rightarrow> (Inl err, s\<lparr>ts_events := t\<rparr>)))"
  proof -
    have "on_events (save_event e None) s = (w, s\<lparr>ts_events := t\<rparr>)" by (simp add: act_on_def save)
    then show ?thesis using run new by (cases w) (auto simp: de link st sup rc e_def [symmetric])
  qed
  obtain saved where "w = Inr saved"
    using run' False none save by (cases w) (auto dest: save_event_Inl)
  then have "r = Inr saved" "save_event e None (ts_events s) = (Inr saved, t)" "s' = s\<lparr>ts_events := t\<rparr>"
    using run' save by simp_all
  moreover have "validate_receipt_supersession fr s k rid t sub st cx = Inr ()"
    if "sb_supersedes_receipt_id sub = Some t" for t
    using sup that by simp
  moreover have "rc = (submitted_receipt sub rid cx now)\<lparr>rc_status := st\<rparr>" "receipt_ok rc"
    using rc by (auto simp: new_receipt_Inr_iff)
  moreover have "event_ok e" using new by (simp add: new_event_Inr_iff)
  ultimately show ?thesis
    by (intro stored [OF de link st _ _ _ e_def])
qed

lemma receipt_event_fields [simp]:
  "ev_event_id (receipt_event rid k cx n now c sub rc) = rid"
  "ev_execution_id (receipt_event rid k cx n now c sub rc) = k"
  "ev_organization_id (receipt_event rid k cx n now c sub rc) = cx_organization_id cx"
  "ev_project_id (receipt_event rid k cx n now c sub rc) = cx_project_id cx"
  "ev_event_type (receipt_event rid k cx n now c sub rc) = RUNTIME_ACTION_EXECUTION_RECEIPT"
  "ev_tool_call_context (receipt_event rid k cx n now c sub rc) = None"
  "pget (ev_attributes (receipt_event rid k cx n now c sub rc)) ''runtime_action_execution_receipt''
     = PDict (receipt_to_payload rc)"
  by (simp_all add: receipt_event_def platform_event_def pget_def)

lemma submitted_receipt_fields [simp]:
  "rc_receipt_id (submitted_receipt sub rid cx now) = rid"
  "rc_decision_id (submitted_receipt sub rid cx now) = sb_decision_id sub"
  "rc_request_fingerprint (submitted_receipt sub rid cx now) = sb_request_fingerprint sub"
  "rc_action_id (submitted_receipt sub rid cx now) = sb_action_id sub"
  "rc_runtime_tool_call_id (submitted_receipt sub rid cx now) = sb_runtime_tool_call_id sub"
  "rc_tool_arguments_digest (submitted_receipt sub rid cx now) = sb_tool_arguments_digest sub"
  "rc_reason_code (submitted_receipt sub rid cx now) = sb_reason_code sub"
  "rc_attested_by (submitted_receipt sub rid cx now) = cx_actor_id cx"
  "rc_attested_at (submitted_receipt sub rid cx now) = now"
  "rc_result_reference (submitted_receipt sub rid cx now) = sb_result_reference sub"
  "rc_result_digest (submitted_receipt sub rid cx now) = sb_result_digest sub"
  "rc_supersedes_receipt_id (submitted_receipt sub rid cx now) = sb_supersedes_receipt_id sub"
  by (simp_all add: submitted_receipt_def)

lemma payload_read_back:
  assumes "receipt_ok r" "datetime_ok (rc_attested_at r)"
  shows "receipt_from_payload fr (PDict (receipt_to_payload r)) = Inr r"
proof -
  have "new_receipt (receipt_status_value (rc_status r)) (r\<lparr>rc_status := UNKNOWN\<rparr>) = Inr r"
    using assms(1) by (simp add: new_receipt_Inr_iff)
  then show ?thesis
    by (simp add: receipt_from_payload_def receipt_of_to_payload [OF assms(2)])
qed

lemma receipt_from_receipt_event:
  assumes "receipt_ok rc" "datetime_ok (rc_attested_at rc)" "rc_receipt_id rc = rid"
  shows "receipt_from_event fr (receipt_event rid k cx n now c sub rc) = Inr rc"
  using assms by (simp add: receipt_from_event_def payload_read_back)

text \<open>A supersession that passed refers to a stored UNKNOWN receipt with the same bindings.\<close>

lemma validate_receipt_supersession_InrD:
  assumes "validate_receipt_supersession fr s k rid t sub st cx = Inr ()"
  shows "\<exists>pe p. cx_get_event s t k cx = Some pe \<and> receipt_from_event fr pe = Inr p
    \<and> rc_status p = UNKNOWN \<and> rc_attested_by p = cx_actor_id cx
    \<and> rc_decision_id p = sb_decision_id sub \<and> rc_runtime_tool_call_id p = sb_runtime_tool_call_id sub"
  using assms
  by (auto simp: validate_receipt_supersession_def res_bind_Inr_iff guard_simps split: option.splits if_splits)

lemma ingest_receipt_within:
  assumes now: "datetime_ok now"
  shows "act_within (trace_step fr) (ingest_receipt fr env now k sub cx) s"
  unfolding act_within_def
proof (intro allI impI)
  fix r s' assume "ingest_receipt fr env now k sub cx s = (r, s')"
  then show "(trace_step fr)\<^sup>*\<^sup>* s s'"
  proof (cases rule: ingest_receipt_cases)
    case (fresh rid)
    from fresh(6,2) show ?thesis
    proof (cases rule: ingest_new_receipt_cases)
      case (stored st rc e saved de t)
      have "receipt_from_event fr e = Inr rc"
        unfolding stored(7) by (rule receipt_from_receipt_event) (use stored(5,6) now in simp_all)
      then have "receipt_link_ok fr (ts_events s) e"
        using validate_receipt_supersession_InrD [OF stored(4)] fresh(1)
        unfolding receipt_link_ok_def
        by (auto simp: stored(5,7) get_event_by_id_Some intro!: exI [of _ rc])
      from trace_step.write_event [OF stored(8) this stored(10)] show ?thesis
        by (simp add: stored(11))
    qed simp
  qed simp_all
qed

lemma start_new_execution_within:
  assumes fresh: "dict_get (xr_by_id (ts_executions s)) k = None"
  shows "act_within (trace_step fr) (start_new_execution now k event_id sub cx) s"
  unfolding start_new_execution_def
proof (rule act_within_bind_lift, rule act_within_bind)
  fix x assume "new_execution (started_execution sub cx now k) = Inr x"
  then have x: "x = started_execution sub cx now k" "execution_ok x" by (simp_all add: new_execution_Inr_iff)
  show "act_within (trace_step fr) (on_executions (save_execution x)) s"
    by (rule save_execution_within [OF x(2)]) (simp add: x(1) started_execution_def fresh)
  fix y s1 assume "on_executions (save_execution x) s = (Inr y, s1)"
  then have s1: "dict_get (xr_by_id (ts_executions s1)) k = Some x"
    by (auto simp: act_on_apply save_execution_def x(1) started_execution_def dict_get_put)
  let ?key = "idempotency_key_for_start (ss_external_execution_id sub) (ss_runtime_provider sub) cx"
  show "act_within (trace_step fr) (act_bind (act_lift (new_event (start_event now k event_id sub cx))) (\<lambda>event.
     act_bind (on_events (save_event event (Some ?key))) (\<lambda>_.
     on_executions (update_status k (cx_organization_id cx) (cx_project_id cx) EX_RUNNING None 0)))) s1"
  proof (rule act_within_bind_lift, rule act_within_bind)
    fix e assume e: "new_event (start_event now k event_id sub cx) = Inr e"
    then show "act_within (trace_step fr) (on_events (save_event e (Some ?key))) s1"
      by (intro save_event_within) (auto simp: new_event_Inr_iff start_event_def platform_event_def)
    fix z s2 assume "on_events (save_event e (Some ?key)) s1 = (Inr z, s2)"
    then have "dict_get (xr_by_id (ts_executions s2)) k = Some x"
      using s1 by (auto simp: act_on_apply)
    then show "act_within (trace_step fr)
        (on_executions (update_status k (cx_organization_id cx) (cx_project_id cx) EX_RUNNING None 0)) s2"
      by (rule update_status_within)
        (simp add: x(1) started_execution_def ex_is_terminal_def terminal_states_def)
  qed
qed

lemma ingest_start_within:
  assumes inv: "trace_inv fr s" and fresh: "dict_get (xr_by_id (ts_executions s)) k = None"
  shows "act_within (trace_step fr) (ingest_start env now k event_id sub cx) s"
  unfolding act_within_def ingest_start_def
proof (fold act_within_def, rule act_within_bind_lift)
  fix u :: unit
  let ?ext = "get_by_external_id (ts_executions s) (ss_external_execution_id sub) (ss_runtime_provider sub)
            (cx_organization_id cx) (cx_project_id cx)"
  show "act_within (trace_step fr) (case ?ext of
       Some existing \<Rightarrow>
         if ex_is_terminal existing then act_return existing
         else if ex_status existing = EX_RECEIVED
         then on_executions (update_status (ex_execution_id existing) (cx_organization_id cx)
                (cx_project_id cx) EX_RUNNING None (ex_version existing))
         else act_return existing
     | None \<Rightarrow> start_new_execution now k event_id sub cx) s"
  proof (cases ?ext)
    case None
    then show ?thesis by (simp add: start_new_execution_within [OF fresh])
  next
    case (Some x)
    from get_by_external_id_Some [OF Some] obtain j
      where j: "dict_get (xr_by_id (ts_executions s)) j = Some x" ..
    moreover have "j = ex_execution_id x"
      using inv j unfolding trace_inv_def execution_repo_inv_def by blast
    ultimately have "act_within (trace_step fr) (on_executions (update_status (ex_execution_id x) og pj st d v)) s"
      if "\<not> ex_is_terminal x" for og pj st d v
      using update_status_within that by blast
    then show ?thesis by (simp add: Some within_intros)
  qed
qed

lemmas trace_commands_within =
  ingest_start_within ingest_event_within ingest_receipt_within mark_completed_within

section \<open>Receipts can be retried\<close>

lemma in_scope_self: "in_scope og pj og pj"
  by (simp add: in_scope_def)

lemma stored_receipt_event:
  assumes inv: "trace_inv fr s" and none: "cx_get_event s rid k cx = None"
    and e: "e = receipt_event rid k cx n now c sub rc"
    and save: "save_event e None (ts_events s) = (Inr saved, t)"
  shows "saved = e" "dict_get (er_by_id t) rid = Some e"
proof -
  have id: "ev_event_id e = rid" by (simp add: e)
  have "dict_get (er_by_id (ts_events s)) rid = None"
  proof (rule ccontr)
    assume "dict_get (er_by_id (ts_events s)) rid \<noteq> None"
    then obtain f where f: "dict_get (er_by_id (ts_events s)) rid = Some f" by auto
    with save have "event_eq f e" by (auto simp: save_event_def id split: if_splits)
    then have "f\<lparr>ev_attributes := []\<rparr> = e\<lparr>ev_attributes := []\<rparr>" by (simp add: event_eq_def)
    then have "ev_execution_id f = k" "ev_organization_id f = cx_organization_id cx"
      "ev_project_id f = cx_project_id cx"
      by (auto simp: e dest: arg_cong [of _ _ ev_execution_id] arg_cong [of _ _ ev_organization_id]
          arg_cong [of _ _ ev_project_id])
    with f none show False by (simp add: get_event_by_id_def in_scope_self)
  qed
  moreover have "tool_call_key e = None" by (simp add: tool_call_key_def e)
  ultimately have "saved = e" "t = append_event e None (ts_events s)"
    using save by (auto simp: save_event_def id)
  then show "saved = e" "dict_get (er_by_id t) rid = Some e" by (simp_all add: id)
qed

lemma ingest_receipt_replay:
  assumes inv: "trace_inv fr s" and now: "datetime_ok now"
    and run: "ingest_receipt fr env now k sub cx s = (Inr x, s')"
  shows "ingest_receipt fr env now' k sub cx s' = (Inr x, s')"
  using run
proof (cases rule: ingest_receipt_cases)
  case (replayed e)
  have "ingest_receipt fr env now' k sub cx s = ingest_receipt fr env now k sub cx s"
    using replayed(3)
    by (cases "authorize_call env cx AGENT_EXECUTION_INGEST") (simp_all add: ingest_receipt_def)
  with run replayed show ?thesis by simp
next
  case (fresh rid)
  from fresh(6,2) show ?thesis
  proof (cases rule: ingest_new_receipt_cases)
    case (stored st rc e saved de t)
    note st = stored_receipt_event [OF inv fresh(2) stored(7,10)]
    have x: "x = e" using stored(9) st(1) by simp
    have found: "cx_get_event s' rid k cx = Some e"
      by (simp add: stored(11) get_event_by_id_Some st(2)) (simp add: stored(7) in_scope_self)
    have "receipt_from_event fr e = Inr rc"
      unfolding stored(7) by (rule receipt_from_receipt_event) (use stored(5,6) now in simp_all)
    then have "match_existing_receipt_submission fr e sub cx = Inr e"
      using stored(3) by (simp add: match_existing_Inr_iff stored(5)) (simp add: stored(7))
    then show ?thesis
      using fresh found by (simp add: ingest_receipt_def Let_def stored(11) x)
  qed simp
qed simp

text \<open>An answer from the store is still the answer after any further commands.\<close>

lemma ingest_receipt_later:
  assumes inv: "trace_inv fr s" and steps: "(trace_step fr)\<^sup>*\<^sup>* s s'"
    and run: "ingest_receipt fr env now k sub cx s = (Inr e, s)"
  shows "ingest_receipt fr env later k sub cx s' = (Inr e, s')"
proof -
  define rid where "rid = receipt_event_id (sb_decision_id sub) (sb_runtime_tool_call_id sub)
    (sb_supersedes_receipt_id sub)"
  have auth: "authorize_call env cx AGENT_EXECUTION_INGEST = Inr ()"
    using run by (cases "authorize_call env cx AGENT_EXECUTION_INGEST") (simp_all add: ingest_receipt_def)
  then obtain x where x: "cx_get_execution s k cx = Some x" and key: "\<not> blank (sb_idempotency_key sub)"
    using run by (auto simp: ingest_receipt_def split: if_splits)
  have found: "cx_get_event s rid k cx = Some e \<and> match_existing_receipt_submission fr e sub cx = Inr e"
    using run
  proof (cases rule: ingest_receipt_cases)
    case (fresh r)
    from fresh(6,2) show ?thesis
    proof (cases rule: ingest_new_receipt_cases)
      case (stored st rc d saved de t)
      have "ts_events s = t" using arg_cong [OF stored(11), of ts_events] by simp
      with stored_receipt_event(2) [OF inv fresh(2) stored(7,10)]
      have "dict_get (er_by_id (ts_events s)) r = Some d" by simp
      with stored(7) fresh(2) show ?thesis by (simp add: get_event_by_id_def in_scope_self)
    qed simp
  qed (simp_all add: rid_def)
  have "cx_get_event s' rid k cx = Some e"
    using found trace_events.lookup_run [OF steps inv] by (auto simp: get_event_by_id_Some)
  moreover have "\<exists>y. cx_get_execution s' k cx = Some y"
    using x trace_executions.lookup_run [OF steps inv]
    by (fastforce simp: get_execution_Some execution_evolves_def)
  ultimately show ?thesis
    using auth key found by (auto simp: ingest_receipt_def rid_def [symmetric] Let_def)
qed

interpretation receipt_ingestion: idempotent_command
  "\<lambda>now. ingest_receipt fr env now k sub cx" "trace_inv fr" "\<lambda>_. datetime_ok" for fr env k sub cx
  by unfold_locales (rule ingest_receipt_replay)

section \<open>Properties\<close>

text \<open>
  C10. A receipt enters the trace only for an operation that was authorized: a submission that stores
  a new event refers to an authorization event of the same execution and scope whose outcome is ALLOW
  and whose fingerprint, action, argument digest and actor are those of the submission.
\<close>

theorem receipt_requires_allow:
  assumes "ingest_receipt fr env now k sub cx s = (Inr e, s')" "s' \<noteq> s"
  shows "\<exists>de. cx_get_event s (sb_decision_id sub) k cx = Some de
    \<and> ev_event_type de = RUNTIME_ACTION_AUTHORIZATION
    \<and> pget (ev_attributes de) ''authorization_outcome'' = PStr ''ALLOW''
    \<and> pget (ev_attributes de) ''request_fingerprint'' = PStr (sb_request_fingerprint sub)
    \<and> pget (ev_attributes de) ''action_id'' = PStr (sb_action_id sub)
    \<and> pget (ev_attributes de) ''tool_arguments_digest'' = PStr (sb_tool_arguments_digest sub)
    \<and> pget (ev_attributes de) ''actor_id'' = PStr (cx_actor_id cx)"
  using assms(1)
proof (cases rule: ingest_receipt_cases)
  case (fresh rid)
  from fresh(6,2) show ?thesis
  proof (cases rule: ingest_new_receipt_cases)
    case (stored st rc e saved de t)
    from stored(1,2) show ?thesis
      by (auto simp: validate_receipt_decision_link_def attr_is_def guard_simps split: if_splits)
  qed simp
qed (use assms(2) in simp_all)

text \<open>
  A newly ingested event is placed after every event of its execution that its scope can see: its
  sequence number is greater than theirs.
\<close>

theorem ingested_event_sequence:
  assumes "ingest_event env now i k sub cx s = (Inr e, s')" "s' \<noteq> s"
    and "f \<in> set (events_of (ts_events s) k)"
    and "in_scope (cx_organization_id cx) (cx_project_id cx) (ev_organization_id f) (ev_project_id f)"
  shows "ev_sequence_number f < ev_sequence_number e"
  using assms(1)
proof (cases rule: ingest_event_cases)
  case (fresh x lt d)
  have "e = d"
    using fresh(8) assms(2)
    by (auto simp: act_on_apply save_event_def split: option.splits if_splits)
  then have "ev_sequence_number e = next_sequence s k cx"
    by (simp add: fresh(6) submitted_event_def split_beta)
  with max_sequence_number_bound [OF assms(3,4)] show ?thesis by simp
qed (use assms(2) in simp_all)

text \<open>
  The validation of workflow steps reads the first 200 events of the execution only. A step whose
  STARTED event comes after them cannot be completed: the service answers that it must start before
  it terminates, although its start is stored.
\<close>

theorem workflow_step_window_gap:
  assumes "events_of (ts_events s) k = early @ started # late"
    and "\<forall>e \<in> set early. in_scope (cx_organization_id cx) (cx_project_id cx) (ev_organization_id e) (ev_project_id e)"
    and "length early = 200"
    and "\<forall>e \<in> set early. \<forall>w. ev_workflow_step e = Some w \<longrightarrow> ws_step_id w \<noteq> ws_step_id step"
    and "ev_event_type started = WORKFLOW_STEP"
    and "ev_workflow_step started = Some (step\<lparr>ws_lifecycle := STEP_STARTED\<rparr>)"
    and "ws_lifecycle step = STEP_COMPLETED" "ws_parent_step_id step = None"
  shows "validate_workflow_step_transition s k WORKFLOW_STEP (Some step) cx =
    Inl (invalid_transition (''Workflow step '' @ quoted (ws_step_id step) @ '' must start before it terminates.''))"
proof -
  let ?scope = "\<lambda>e. in_scope (cx_organization_id cx) (cx_project_id cx) (ev_organization_id e) (ev_project_id e)"
  have "filter ?scope early = early" using assms(2) by (simp add: filter_id_conv)
  then have window: "list_by_execution (ts_events s) k (cx_organization_id cx) (cx_project_id cx) = early"
    using assms(1,3) by (simp add: list_by_execution_def events_of_def [symmetric])
  have "ws_step_id w \<noteq> ws_step_id step" if "w \<in> set (prior_steps s k cx)" for w
    using that assms(4) by (auto simp: prior_steps_def window map_filter_def split: if_splits)
  then show ?thesis
    using assms(7,8) by (auto simp: validate_workflow_step_transition_def Let_def filter_empty_conv)
qed

text \<open>
  The event that announces the completion of an execution never carries its duration: it is
  computed from the record before the completion time is set, so the attribute is \<open>None\<close> while
  the stored execution does have a duration.
\<close>

theorem completed_event_without_duration:
  assumes "mark_completed env now i k status cx s = (Inr y, s')"
    and "cx_get_execution s k cx = Some x" "\<not> ex_is_terminal x" "ex_completed_at x = None"
    and "dict_get (er_by_id (ts_events s)) i = None"
  shows "duration_micros y = Some (micros now - micros (ex_started_at x))
    \<and> (\<exists>e. dict_get (er_by_id (ts_events s')) i = Some e \<and> ev_event_type e = EXECUTION_COMPLETED
         \<and> pget (ev_attributes e) ''duration_seconds'' = PNone)"
proof -
  have "authorize_call env cx AGENT_EXECUTION_INGEST = Inr ()"
    using assms(1) by (cases "authorize_call env cx AGENT_EXECUTION_INGEST") (simp_all add: mark_completed_def)
  with assms(1-3) have run: "act_bind (on_executions (update_status k (cx_organization_id cx) (cx_project_id cx)
             status (Some now) (ex_version x))) (\<lambda>updated.
         act_bind (\<lambda>s. act_lift (new_event (completed_event i k x cx
             (next_sequence s k cx) now status)) s) (\<lambda>event.
         act_bind (on_events (save_event event None)) (\<lambda>_. act_return updated))) s = (Inr y, s')"
    by (simp add: mark_completed_def)
  then obtain u s1 e s2 z s3 where
    upd: "on_executions (update_status k (cx_organization_id cx) (cx_project_id cx) status (Some now) (ex_version x)) s = (Inr u, s1)"
    and ev: "act_lift (new_event (completed_event i k x cx (next_sequence s1 k cx) now status)) s1 = (Inr e, s2)"
    and save: "on_events (save_event e None) s2 = (Inr z, s3)" and y: "u = y" "s3 = s'"
    by (elim act_bind_InrE) auto
  from upd obtain t where t: "update_status k (cx_organization_id cx) (cx_project_id cx) status (Some now)
      (ex_version x) (ts_executions s) = (Inr u, t)" and s1: "ts_events s1 = ts_events s"
    by (auto simp: act_on_apply prod_eq_iff)
  from t have "duration_micros y = Some (micros now - micros (ex_started_at x))"
    by (cases rule: update_status_cases)
      (use assms(2) in \<open>auto simp: duration_micros_def get_execution_Some y(1) [symmetric]\<close>)
  moreover from ev have e: "e = completed_event i k x cx (next_sequence s1 k cx) now status" "s2 = s1"
    by (auto simp: new_event_Inr_iff)
  have "ev_event_id e = i" "tool_call_key e = None"
    by (simp_all add: e(1) completed_event_def platform_event_def tool_call_key_def)
  with save assms(5) have "dict_get (er_by_id (ts_events s')) i = Some e"
    by (auto simp: act_on_apply save_event_def e(2) s1 y(2) [symmetric])
  moreover have "pget (ev_attributes e) ''duration_seconds'' = PNone" "ev_event_type e = EXECUTION_COMPLETED"
    using assms(4) by (simp_all add: e(1) completed_event_def platform_event_def pget_def duration_micros_def)
  ultimately show ?thesis by blast
qed

text \<open>
  The in-memory index of external identifiers has no tenant in its key. After another organization
  has started an execution under the same external identifier and runtime provider, a repeated start
  of the first organization is not recognized as a repetition: it creates a second execution.
\<close>

theorem external_id_shadowed_by_other_tenant:
  assumes "save_execution y (ts_executions s) = (Inr z, t)"
    and "ex_external_execution_id y = ss_external_execution_id sub"
    and "ex_runtime_provider y = ss_runtime_provider sub"
    and "ex_organization_id y \<noteq> cx_organization_id cx"
    and "se_allowed env cx AGENT_EXECUTION_INGEST"
  shows "ingest_start env now k i sub cx (s\<lparr>ts_executions := t\<rparr>)
    = start_new_execution now k i sub cx (s\<lparr>ts_executions := t\<rparr>)"
proof -
  have "get_by_external_id t (ss_external_execution_id sub) (ss_runtime_provider sub)
      (cx_organization_id cx) (cx_project_id cx) = None"
    using assms(1-4)
    by (auto simp: save_execution_def get_by_external_id_def get_execution_def dict_get_put in_scope_def)
  with assms(5) show ?thesis by (simp add: ingest_start_def authorize_call_def)
qed

end
