(* ===== verification/Delegation.thy ===== *)
theory Delegation
  imports Contracts Interfaces
begin

text \<open>
  \<open>runtime_authorization/delegation.py\<close> and the in-memory delegation repository: an
  issuer-authorized grant whose content is bound by a digest, and a store in which the only change
  an entry can undergo is its revocation.
\<close>

section \<open>Permissions\<close>

record delegation_permission =
  pm_action_id :: string
  pm_resource_type :: string
  pm_resource_references :: "string list"

definition permission_checks :: "delegation_permission \<Rightarrow> (bool \<times> exc) list" where
  "permission_checks p =
     [require_identifier ''action_id'' (pm_action_id p),
      require_identifier ''resource_type'' (pm_resource_type p),
      (pm_resource_references p = [],
       Exc ValueError ''resource_references must contain an explicit resource scope.''),
      (card (set (pm_resource_references p)) \<noteq> length (pm_resource_references p),
       Exc ValueError ''resource_references must be unique.'')]
     @ concat (map (\<lambda>ref. [require_non_blank ''resource_reference'' ref,
                            (512 < length ref,
                             Exc ValueError ''resource_reference must not exceed 512 characters.'')])
                 (pm_resource_references p))"

definition new_permission :: "delegation_permission \<Rightarrow> exc + delegation_permission" where
  "new_permission p = checked (permission_checks p) p"

section \<open>Delegations\<close>

datatype delegation_status = DG_ACTIVE | DG_REVOKED

record delegation =
  dg_delegation_id :: string
  dg_version :: string
  dg_organization_id :: string
  dg_project_id :: string
  dg_execution_id :: string
  dg_issuer_id :: string
  dg_runtime_actor_id :: string
  dg_permissions :: "delegation_permission list"
  dg_issued_at :: datetime
  dg_expires_at :: datetime
  dg_contract_digest :: string
  dg_idempotency_key :: string
  dg_status :: delegation_status
  dg_revoked_at :: "datetime option"
  dg_revoked_by :: "string option"
  dg_revocation_reference :: "string option"
  dg_schema_version :: string

definition delegation_schema_version :: string where
  "delegation_schema_version = ''runtime-action-delegation/v1''"

definition permission_payload :: "delegation_permission \<Rightarrow> pyval" where
  "permission_payload p = PDict
     [(''action_id'', PStr (pm_action_id p)),
      (''resource_type'', PStr (pm_resource_type p)),
      (''resource_references'', PList (map PStr (pm_resource_references p)))]"

definition contract_payload :: "delegation \<Rightarrow> pyval" where
  "contract_payload d = PDict
     [(''schema_version'', PStr (dg_schema_version d)),
      (''delegation_id'', PStr (dg_delegation_id d)),
      (''version'', PStr (dg_version d)),
      (''organization_id'', PStr (dg_organization_id d)),
      (''project_id'', PStr (dg_project_id d)),
      (''execution_id'', PStr (dg_execution_id d)),
      (''issuer_id'', PStr (dg_issuer_id d)),
      (''runtime_actor_id'', PStr (dg_runtime_actor_id d)),
      (''permissions'', PList (map permission_payload (dg_permissions d))),
      (''issued_at'', PStr (isoformat (dg_issued_at d))),
      (''expires_at'', PStr (isoformat (dg_expires_at d))),
      (''idempotency_key'', PStr (dg_idempotency_key d))]"

text \<open>The payload holds no float, so their representation plays no part.\<close>

definition compute_contract_digest :: "delegation \<Rightarrow> string" where
  "compute_contract_digest d = ''sha256:'' @ sha256_hex (json_dumps (\<lambda>_. []) (contract_payload d))"

definition delegation_checks :: "delegation \<Rightarrow> (bool \<times> exc) list" where
  "delegation_checks d =
     [(dg_schema_version d \<noteq> delegation_schema_version,
       Exc ValueError ''Unsupported runtime action delegation schema version.''),
      require_identifier ''delegation_id'' (dg_delegation_id d),
      require_identifier ''version'' (dg_version d),
      require_identifier ''organization_id'' (dg_organization_id d),
      require_identifier ''project_id'' (dg_project_id d),
      require_identifier ''execution_id'' (dg_execution_id d),
      require_identifier ''issuer_id'' (dg_issuer_id d),
      require_identifier ''runtime_actor_id'' (dg_runtime_actor_id d),
      require_identifier ''idempotency_key'' (dg_idempotency_key d),
      (dg_permissions d = [], Exc ValueError ''permissions must not be empty.''),
      (\<not> tz_aware (dg_issued_at d) \<or> \<not> tz_aware (dg_expires_at d),
       Exc ValueError ''delegation timestamps must be timezone-aware.''),
      (micros (dg_expires_at d) \<le> micros (dg_issued_at d),
       Exc ValueError ''expires_at must be later than issued_at.''),
      require_digest ''contract_digest'' (dg_contract_digest d),
      (dg_contract_digest d \<noteq> compute_contract_digest d,
       Exc ValueError ''contract_digest does not match immutable delegation content.'')]
     @ (case dg_status d of
          DG_REVOKED \<Rightarrow>
            [(dg_revoked_at d = None \<or> dg_revoked_by d = None,
              Exc ValueError ''revoked delegations require revocation evidence.'')]
            @ when_given (dg_revoked_by d) (require_identifier ''revoked_by'')
            @ [(case dg_revoked_at d of None \<Rightarrow> False | Some t \<Rightarrow> \<not> tz_aware t,
                Exc ValueError ''revoked_at must be timezone-aware.'')]
            @ when_given (dg_revocation_reference d) (require_non_blank ''revocation_reference'')
            @ when_given (dg_revocation_reference d) (\<lambda>ref. (256 < length ref,
                Exc ValueError ''revocation_reference must not exceed 256 characters.''))
        | DG_ACTIVE \<Rightarrow>
            [(dg_revoked_at d \<noteq> None \<or> dg_revoked_by d \<noteq> None \<or> dg_revocation_reference d \<noteq> None,
              Exc ValueError ''active delegations cannot carry revocation evidence.'')])"

definition new_delegation :: "delegation \<Rightarrow> exc + delegation" where
  "new_delegation d = checked (delegation_checks d) d"

definition delegation_ok :: "delegation \<Rightarrow> bool" where
  "delegation_ok d = all_pass (delegation_checks d)"

definition permission_covers :: "delegation_permission \<Rightarrow> string \<Rightarrow> string \<Rightarrow> string \<Rightarrow> bool" where
  "permission_covers p action_id resource_type resource_reference =
     (pm_action_id p = action_id \<and> pm_resource_type p = resource_type
      \<and> resource_reference \<in> set (pm_resource_references p))"

definition permits ::
  "delegation \<Rightarrow> string \<Rightarrow> string \<Rightarrow> string \<Rightarrow> string \<Rightarrow> string \<Rightarrow> datetime \<Rightarrow> exc + bool" where
  "permits d actor_id execution_id action_id resource_type resource_reference now =
     (if dg_status d \<noteq> DG_ACTIVE then Inr False
      else case dt_le (dg_expires_at d) now of
        None \<Rightarrow> Inl (Exc TypeError ''can't compare offset-naive and offset-aware datetimes'')
      | Some expired \<Rightarrow>
          if expired \<or> dg_runtime_actor_id d \<noteq> actor_id \<or> dg_execution_id d \<noteq> execution_id
          then Inr False
          else Inr (list_ex (\<lambda>p. permission_covers p action_id resource_type resource_reference)
                     (dg_permissions d)))"

text \<open>
  \<open>create_runtime_action_delegation\<close> computes the digest of the content it is given and
  constructs the delegation with it.
\<close>

definition create_runtime_action_delegation ::
  "string \<Rightarrow> string \<Rightarrow> string \<Rightarrow> string \<Rightarrow> string \<Rightarrow> string \<Rightarrow> delegation_permission list
     \<Rightarrow> datetime \<Rightarrow> datetime \<Rightarrow> string \<Rightarrow> string \<Rightarrow> exc + delegation" where
  "create_runtime_action_delegation delegation_id organization_id project_id execution_id issuer_id
       runtime_actor_id permissions issued_at expires_at idempotency_key version =
     (let d = \<lparr>dg_delegation_id = delegation_id, dg_version = version,
               dg_organization_id = organization_id, dg_project_id = project_id,
               dg_execution_id = execution_id, dg_issuer_id = issuer_id,
               dg_runtime_actor_id = runtime_actor_id, dg_permissions = permissions,
               dg_issued_at = issued_at, dg_expires_at = expires_at, dg_contract_digest = [],
               dg_idempotency_key = idempotency_key, dg_status = DG_ACTIVE, dg_revoked_at = None,
               dg_revoked_by = None, dg_revocation_reference = None,
               dg_schema_version = delegation_schema_version\<rparr>
      in new_delegation (d\<lparr>dg_contract_digest := compute_contract_digest d\<rparr>))"

lemma new_delegation_Inr_iff: "new_delegation d = Inr e \<longleftrightarrow> e = d \<and> delegation_ok d"
  by (auto simp: new_delegation_def delegation_ok_def checked_Inr_iff)

lemma contract_payload_updates [simp]:
  "contract_payload (d\<lparr>dg_contract_digest := x\<rparr>) = contract_payload d"
  "contract_payload (d\<lparr>dg_status := st\<rparr>) = contract_payload d"
  "contract_payload (d\<lparr>dg_revoked_at := a\<rparr>) = contract_payload d"
  "contract_payload (d\<lparr>dg_revoked_by := b\<rparr>) = contract_payload d"
  "contract_payload (d\<lparr>dg_revocation_reference := c\<rparr>) = contract_payload d"
  by (simp_all add: contract_payload_def)

lemma compute_contract_digest_updates [simp]:
  "compute_contract_digest (d\<lparr>dg_contract_digest := x\<rparr>) = compute_contract_digest d"
  "compute_contract_digest (d\<lparr>dg_status := st\<rparr>) = compute_contract_digest d"
  "compute_contract_digest (d\<lparr>dg_revoked_at := a\<rparr>) = compute_contract_digest d"
  "compute_contract_digest (d\<lparr>dg_revoked_by := b\<rparr>) = compute_contract_digest d"
  "compute_contract_digest (d\<lparr>dg_revocation_reference := c\<rparr>) = compute_contract_digest d"
  by (simp_all add: compute_contract_digest_def)

lemma match_sha256_contract_digest [simp]: "match_sha256 (compute_contract_digest d)"
  unfolding compute_contract_digest_def by (rule match_sha256_append) simp

lemma delegation_okD:
  assumes "delegation_ok d"
  shows "dg_contract_digest d = compute_contract_digest d"
    and "tz_aware (dg_expires_at d)" "micros (dg_issued_at d) < micros (dg_expires_at d)"
    and "match_identifier 127 (dg_project_id d)" "dg_permissions d \<noteq> []"
    and "match_identifier 127 (dg_delegation_id d)" "match_identifier 127 (dg_version d)"
    and "match_sha256 (dg_contract_digest d)"
    and "dg_status d = DG_REVOKED \<Longrightarrow> dg_revoked_at d \<noteq> None \<and> dg_revoked_by d \<noteq> None"
    and "dg_status d = DG_ACTIVE \<Longrightarrow> dg_revoked_at d = None \<and> dg_revoked_by d = None"
  using assms by (simp_all add: delegation_ok_def delegation_checks_def)

lemma permits_True_iff:
  "permits d a x act rt rr now = Inr True \<longleftrightarrow>
     dg_status d = DG_ACTIVE \<and> tz_aware (dg_expires_at d) = tz_aware now
     \<and> micros now < micros (dg_expires_at d) \<and> dg_runtime_actor_id d = a \<and> dg_execution_id d = x
     \<and> (\<exists>p \<in> set (dg_permissions d). permission_covers p act rt rr)"
  by (auto simp: permits_def dt_le_def list_ex_iff split: if_splits)

section \<open>The repository\<close>

type_synonym tenant_key = "string \<times> string \<times> string"

record delegation_repo =
  dr_items :: "(tenant_key, delegation) dict"
  dr_by_idempotency :: "(tenant_key, delegation) dict"

definition empty_delegation_repo :: delegation_repo where
  "empty_delegation_repo = \<lparr>dr_items = [], dr_by_idempotency = []\<rparr>"

definition dg_identity :: "delegation \<Rightarrow> tenant_key" where
  "dg_identity d = (dg_organization_id d, dg_project_id d, dg_delegation_id d)"

definition dg_idempotency :: "delegation \<Rightarrow> tenant_key" where
  "dg_idempotency d = (dg_organization_id d, dg_project_id d, dg_idempotency_key d)"

text \<open>\<open>project_id or ""\<close>.\<close>

definition project_or_empty :: "string option \<Rightarrow> string" where
  "project_or_empty p = opt_or p []"

definition repo_conflict :: exc where
  "repo_conflict = Exc RuntimeActionDelegationRepositoryConflictError
     ''Delegation identity or idempotency key was reused with different content.''"

definition save_delegation :: "delegation \<Rightarrow> (delegation_repo, delegation) action" where
  "save_delegation d s =
     (case (case dict_get (dr_items s) (dg_identity d) of
              Some e \<Rightarrow> Some e | None \<Rightarrow> dict_get (dr_by_idempotency s) (dg_idempotency d)) of
        Some existing \<Rightarrow> if existing = d then (Inr existing, s) else (Inl repo_conflict, s)
      | None \<Rightarrow>
          (Inr d, s\<lparr>dr_items := dict_put (dg_identity d) d (dr_items s),
                   dr_by_idempotency := dict_put (dg_idempotency d) d (dr_by_idempotency s)\<rparr>))"

definition get_delegation :: "delegation_repo \<Rightarrow> string \<Rightarrow> string \<Rightarrow> string option \<Rightarrow> delegation option" where
  "get_delegation s delegation_id organization_id project_id =
     dict_get (dr_items s) (organization_id, project_or_empty project_id, delegation_id)"

definition find_delegation_by_idempotency_key ::
  "delegation_repo \<Rightarrow> string \<Rightarrow> string \<Rightarrow> string option \<Rightarrow> delegation option" where
  "find_delegation_by_idempotency_key s idempotency_key organization_id project_id =
     dict_get (dr_by_idempotency s) (organization_id, project_or_empty project_id, idempotency_key)"

definition revoke_delegation ::
  "string \<Rightarrow> string \<Rightarrow> string option \<Rightarrow> datetime \<Rightarrow> string \<Rightarrow> string option
     \<Rightarrow> (delegation_repo, delegation) action" where
  "revoke_delegation delegation_id organization_id project_id revoked_at revoked_by reference s =
     (let identity = (organization_id, project_or_empty project_id, delegation_id) in
      case dict_get (dr_items s) identity of
        None \<Rightarrow> (Inl (Exc KeyError ''Delegation does not exist in the resolved tenant scope.''), s)
      | Some existing \<Rightarrow>
          if dg_status existing = DG_REVOKED then (Inr existing, s)
          else case new_delegation (existing\<lparr>dg_status := DG_REVOKED, dg_revoked_at := Some revoked_at,
                      dg_revoked_by := Some revoked_by, dg_revocation_reference := reference\<rparr>) of
            Inl e \<Rightarrow> (Inl e, s)
          | Inr revoked \<Rightarrow>
              (Inr revoked,
               s\<lparr>dr_items := dict_put identity revoked (dr_items s),
                 dr_by_idempotency :=
                   dict_put (organization_id, project_or_empty project_id, dg_idempotency_key existing)
                     revoked (dr_by_idempotency s)\<rparr>))"

text \<open>The two indexes are views of the same delegations, each stored under its own keys.\<close>

definition delegation_repo_inv :: "delegation_repo \<Rightarrow> bool" where
  "delegation_repo_inv s =
     ((\<forall>k d. dict_get (dr_items s) k = Some d \<longrightarrow>
         k = dg_identity d \<and> delegation_ok d
         \<and> dict_get (dr_by_idempotency s) (dg_idempotency d) = Some d)
      \<and> (\<forall>k d. dict_get (dr_by_idempotency s) k = Some d \<longrightarrow>
         k = dg_idempotency d \<and> dict_get (dr_items s) (dg_identity d) = Some d))"

inductive delegation_repo_step :: "delegation_repo \<Rightarrow> delegation_repo \<Rightarrow> bool" where
  step_save: "delegation_ok d \<Longrightarrow> save_delegation d s = (r, s') \<Longrightarrow> delegation_repo_step s s'"
| step_revoke: "revoke_delegation i og pr ta by ref s = (r, s') \<Longrightarrow> delegation_repo_step s s'"

text \<open>
  What the life of a stored delegation keeps: everything but its revocation fields, and those once
  it is revoked.
\<close>

definition grant_content :: "delegation \<Rightarrow> delegation" where
  "grant_content d = d\<lparr>dg_status := DG_ACTIVE, dg_revoked_at := None, dg_revoked_by := None,
     dg_revocation_reference := None\<rparr>"

definition only_revoked :: "delegation \<Rightarrow> delegation \<Rightarrow> bool" where
  "only_revoked d d' =
     (grant_content d' = grant_content d \<and> (dg_status d = DG_REVOKED \<longrightarrow> d' = d))"

lemma empty_delegation_repo_inv [simp]: "delegation_repo_inv empty_delegation_repo"
  by (simp add: delegation_repo_inv_def empty_delegation_repo_def)

lemma delegation_repo_invD:
  assumes "delegation_repo_inv s" "dict_get (dr_items s) k = Some d"
  shows "k = dg_identity d" "delegation_ok d"
    "dict_get (dr_by_idempotency s) (dg_idempotency d) = Some d"
  using assms unfolding delegation_repo_inv_def by blast+

lemma delegation_repo_inv_idemD:
  assumes "delegation_repo_inv s" "dict_get (dr_by_idempotency s) k = Some d"
  shows "k = dg_idempotency d" "dict_get (dr_items s) (dg_identity d) = Some d"
  using assms unfolding delegation_repo_inv_def by blast+

lemma save_delegation_cases:
  assumes "save_delegation d s = (r, s')"
  obtains (kept) "s' = s" "r = Inr d \<or> r = Inl repo_conflict"
  | (added) "dict_get (dr_items s) (dg_identity d) = None"
      "dict_get (dr_by_idempotency s) (dg_idempotency d) = None" "r = Inr d"
      "s' = s\<lparr>dr_items := dict_put (dg_identity d) d (dr_items s),
              dr_by_idempotency := dict_put (dg_idempotency d) d (dr_by_idempotency s)\<rparr>"
  using assms unfolding save_delegation_def by (auto split: option.splits if_splits)

lemma revoke_delegation_cases:
  assumes "revoke_delegation i og pr ta by ref s = (r, s')"
  obtains (kept) "s' = s"
      "\<And>d. r = Inr d \<Longrightarrow> dict_get (dr_items s) (og, project_or_empty pr, i) = Some d \<and> dg_status d = DG_REVOKED"
  | (revoked) d d' where "dict_get (dr_items s) (og, project_or_empty pr, i) = Some d"
      "dg_status d = DG_ACTIVE" "r = Inr d'" "delegation_ok d'"
      "d' = d\<lparr>dg_status := DG_REVOKED, dg_revoked_at := Some ta, dg_revoked_by := Some by,
             dg_revocation_reference := ref\<rparr>"
      "s' = s\<lparr>dr_items := dict_put (og, project_or_empty pr, i) d' (dr_items s),
              dr_by_idempotency := dict_put (og, project_or_empty pr, dg_idempotency_key d) d'
                (dr_by_idempotency s)\<rparr>"
proof (cases "dict_get (dr_items s) (og, project_or_empty pr, i)")
  case None
  with assms kept show ?thesis by (auto simp: revoke_delegation_def Let_def)
next
  case (Some d)
  show ?thesis
  proof (cases "dg_status d")
    case DG_REVOKED
    with assms Some kept show ?thesis by (auto simp: revoke_delegation_def Let_def)
  next
    case DG_ACTIVE
    define d' where "d' = d\<lparr>dg_status := DG_REVOKED, dg_revoked_at := Some ta,
      dg_revoked_by := Some by, dg_revocation_reference := ref\<rparr>"
    show ?thesis
    proof (cases "new_delegation d'")
      case (Inl e)
      with assms Some DG_ACTIVE have "s' = s" "r = Inl e"
        by (simp_all add: revoke_delegation_def d'_def)
      then show ?thesis by (intro kept) simp_all
    next
      case (Inr e)
      then have "e = d'" "delegation_ok d'" by (simp_all add: new_delegation_Inr_iff)
      with assms Some DG_ACTIVE Inr show ?thesis
        by (intro revoked [of d d']) (simp_all add: revoke_delegation_def d'_def [symmetric])
    qed
  qed
qed

lemma save_delegation_inv:
  assumes "delegation_repo_inv s" "delegation_ok d" "save_delegation d s = (r, s')"
  shows "delegation_repo_inv s'"
  using assms(3)
proof (cases rule: save_delegation_cases)
  case kept
  with assms(1) show ?thesis by simp
next
  case added
  from added(1,2) assms(1,2) show ?thesis
    unfolding added(4) delegation_repo_inv_def
    by (simp add: dict_get_put) (metis option.distinct(1))
qed

lemma revoke_delegation_inv:
  assumes "delegation_repo_inv s" "revoke_delegation i og pr ta by ref s = (r, s')"
  shows "delegation_repo_inv s'"
  using assms(2)
proof (cases rule: revoke_delegation_cases)
  case kept
  with assms(1) show ?thesis by simp
next
  case (revoked d d')
  note d = delegation_repo_invD [OF assms(1) revoked(1)]
  have same: "dg_identity d' = dg_identity d" "dg_idempotency d' = dg_idempotency d"
    by (simp_all add: revoked(5) dg_identity_def dg_idempotency_def)
  have keys: "(og, project_or_empty pr, i) = dg_identity d"
    "(og, project_or_empty pr, dg_idempotency_key d) = dg_idempotency d"
    using d(1) by (simp_all add: dg_identity_def dg_idempotency_def)
  have items: "dr_items s' = dict_put (dg_identity d) d' (dr_items s)"
    and idem: "dr_by_idempotency s' = dict_put (dg_idempotency d) d' (dr_by_idempotency s)"
    by (simp_all only: revoked(6) keys) simp_all
  show ?thesis
    unfolding delegation_repo_inv_def
  proof (intro conjI allI impI)
    fix k e assume e: "dict_get (dr_items s') k = Some e"
    show "k = dg_identity e" "delegation_ok e"
      using e same revoked(4) delegation_repo_invD [OF assms(1)]
      by (auto simp: items dict_get_put split: if_splits)
    show "dict_get (dr_by_idempotency s') (dg_idempotency e) = Some e"
    proof (cases "k = dg_identity d")
      case True
      with e same show ?thesis by (simp add: items idem dict_get_put)
    next
      case False
      with e have "dict_get (dr_items s) k = Some e" by (simp add: items dict_get_put)
      note e' = delegation_repo_invD [OF assms(1) this]
      have "dg_idempotency e \<noteq> dg_idempotency d"
        using False e' d(1,3) by (metis option.inject)
      with e' show ?thesis by (simp add: idem dict_get_put)
    qed
  next
    fix k e assume e: "dict_get (dr_by_idempotency s') k = Some e"
    show "k = dg_idempotency e"
      using e same delegation_repo_inv_idemD(1) [OF assms(1)]
      by (auto simp: idem dict_get_put split: if_splits)
    show "dict_get (dr_items s') (dg_identity e) = Some e"
    proof (cases "k = dg_idempotency d")
      case True
      with e same show ?thesis by (simp add: items idem dict_get_put)
    next
      case False
      with e have "dict_get (dr_by_idempotency s) k = Some e" by (simp add: idem dict_get_put)
      note e' = delegation_repo_inv_idemD [OF assms(1) this]
      have "dg_identity e \<noteq> dg_identity d"
        using False e' revoked(1) keys(1) by (metis option.inject)
      with e' show ?thesis by (simp add: items dict_get_put)
    qed
  qed
qed

lemma only_revoked_refl: "only_revoked d d"
  by (simp add: only_revoked_def)

lemma only_revoked_trans: "only_revoked a b \<Longrightarrow> only_revoked b c \<Longrightarrow> only_revoked a c"
  by (auto simp: only_revoked_def)

lemma delegation_repo_step_inv:
  "delegation_repo_step s s' \<Longrightarrow> delegation_repo_inv s \<Longrightarrow> delegation_repo_inv s'"
  by (induction rule: delegation_repo_step.induct)
    (auto intro: save_delegation_inv revoke_delegation_inv)

lemma delegation_repo_step_keeps:
  assumes "delegation_repo_step s s'" "delegation_repo_inv s" "dict_get (dr_items s) k = Some d"
  shows "\<exists>d'. dict_get (dr_items s') k = Some d' \<and> only_revoked d d'"
  using assms(1)
proof cases
  case (step_save e r)
  from step_save(2) show ?thesis
    by (cases rule: save_delegation_cases)
      (use assms(3) in \<open>auto simp: dict_get_put only_revoked_refl\<close>)
next
  case (step_revoke i og pr ta "by" ref r)
  from this show ?thesis
    by (cases rule: revoke_delegation_cases)
      (use assms(3) in \<open>auto simp: dict_get_put only_revoked_refl only_revoked_def grant_content_def\<close>)
qed

interpretation delegations: evolving_store
  delegation_repo_step "\<lambda>s. dict_get (dr_items s)" only_revoked delegation_repo_inv
  by unfold_locales
    (auto intro: only_revoked_refl only_revoked_trans delegation_repo_step_inv
      delegation_repo_step_keeps)

end
