(* ===== verification/Policy.thy ===== *)
theory Policy
  imports Py_Values Py_Time
begin

text \<open>
  \<open>decisions/policies.py\<close> with the enums and validators it uses, and the definition and
  version records of \<open>decisions/policy_administration.py\<close>: structured rules over evidence,
  and the deterministic evaluator with and without a trace.
\<close>

section \<open>Enums\<close>

datatype policy_status = PS_DRAFT | PS_ACTIVE | PS_DEPRECATED | PS_ARCHIVED

datatype policy_category =
    CAT_SECURITY | CAT_COMPLIANCE | CAT_DATA_QUALITY | CAT_MODEL_RISK | CAT_PROMPT_SAFETY | CAT_COST
  | CAT_OPERATIONAL_RELIABILITY | CAT_CUSTOM

fun category_value :: "policy_category \<Rightarrow> string" where
  "category_value CAT_SECURITY = ''SECURITY''"
| "category_value CAT_COMPLIANCE = ''COMPLIANCE''"
| "category_value CAT_DATA_QUALITY = ''DATA_QUALITY''"
| "category_value CAT_MODEL_RISK = ''MODEL_RISK''"
| "category_value CAT_PROMPT_SAFETY = ''PROMPT_SAFETY''"
| "category_value CAT_COST = ''COST''"
| "category_value CAT_OPERATIONAL_RELIABILITY = ''OPERATIONAL_RELIABILITY''"
| "category_value CAT_CUSTOM = ''CUSTOM''"

datatype policy_effect = APPROVE | REJECT | BLOCK | RECOMMEND | INVESTIGATE | NO_DECISION

fun effect_value :: "policy_effect \<Rightarrow> string" where
  "effect_value APPROVE = ''APPROVE''"
| "effect_value REJECT = ''REJECT''"
| "effect_value BLOCK = ''BLOCK''"
| "effect_value RECOMMEND = ''RECOMMEND''"
| "effect_value INVESTIGATE = ''INVESTIGATE''"
| "effect_value NO_DECISION = ''NO_DECISION''"

datatype condition_operator =
    GREATER_THAN | GREATER_THAN_OR_EQUAL | LESS_THAN | LESS_THAN_OR_EQUAL | EQUALS | NOT_EQUALS
  | IN_OP | NOT_IN_OP | EXISTS | MISSING

datatype decision_target_type =
    CANDIDATE | EXPERIMENT | PROMPT_VERSION | MODEL_VERSION | DATASET_VERSION | EVALUATION_RUN
  | EVALUATION_RESULT | TARGET_JOB | AGENT_EXECUTION | GOVERNANCE_DECISION

section \<open>Validators\<close>

definition require_non_empty :: "string \<Rightarrow> string \<Rightarrow> bool \<times> exc" where
  "require_non_empty field_name v =
     (blank v, Exc DecisionValidationError (''Decision '' @ field_name @ '' must not be empty.''))"

definition require_timezone_aware :: "string \<Rightarrow> datetime \<Rightarrow> bool \<times> exc" where
  "require_timezone_aware field_name t =
     (\<not> tz_aware t, Exc DecisionValidationError (''Decision '' @ field_name @ '' must be timezone-aware.''))"

definition require_optional_timezone :: "string \<Rightarrow> datetime option \<Rightarrow> bool \<times> exc" where
  "require_optional_timezone field_name t =
     (case t of None \<Rightarrow> False | Some u \<Rightarrow> \<not> tz_aware u,
      Exc DecisionValidationError (''Decision '' @ field_name @ '' must be timezone-aware.''))"

definition require_non_negative :: "string \<Rightarrow> int \<Rightarrow> bool \<times> exc" where
  "require_non_negative field_name v =
     (v < 0, Exc DecisionValidationError (''Decision '' @ field_name @ '' must be greater than or equal to zero.''))"

definition require_condition_expected_value :: "condition_operator \<Rightarrow> pyval \<Rightarrow> bool \<times> exc" where
  "require_condition_expected_value op v =
     (v = PNone \<and> op \<notin> {EXISTS, MISSING},
      Exc DecisionValidationError
        ''Decision policy condition expected_value may be None only for EXISTS and MISSING operators.'')"

lemma fst_validators [simp]:
  "fst (require_non_empty n v) = blank v"
  "fst (require_timezone_aware n t) = (\<not> tz_aware t)"
  "fst (require_optional_timezone n u) = (case u of None \<Rightarrow> False | Some u \<Rightarrow> \<not> tz_aware u)"
  "fst (require_non_negative n i) = (i < 0)"
  by (simp_all add: require_non_empty_def require_timezone_aware_def require_optional_timezone_def
      require_non_negative_def)

section \<open>Conditions, rules and policies\<close>

record policy_condition =
  pc_field_path :: string
  pc_operator :: condition_operator
  pc_expected_value :: pyval
  pc_metadata :: "(string \<times> pyval) list"

definition condition_checks :: "policy_condition \<Rightarrow> (bool \<times> exc) list" where
  "condition_checks c =
     [require_non_empty ''policy condition field_path'' (pc_field_path c),
      require_condition_expected_value (pc_operator c) (pc_expected_value c)]"

definition new_condition :: "policy_condition \<Rightarrow> exc + policy_condition" where
  "new_condition c = checked (condition_checks c) c"

record policy_rule =
  pr_rule_id :: string
  pr_name :: string
  pr_conditions :: "policy_condition list"
  pr_effect :: policy_effect
  pr_reason_template :: string
  pr_priority :: int
  pr_metadata :: "(string \<times> pyval) list"

definition rule_checks :: "policy_rule \<Rightarrow> (bool \<times> exc) list" where
  "rule_checks r =
     [require_non_empty ''policy rule rule_id'' (pr_rule_id r),
      require_non_empty ''policy rule name'' (pr_name r),
      require_non_empty ''policy rule reason_template'' (pr_reason_template r),
      require_non_negative ''policy rule priority'' (pr_priority r),
      (pr_conditions r = [],
       Exc DecisionValidationError ''Decision policy rule conditions must not be empty.'')]"

definition new_rule :: "policy_rule \<Rightarrow> exc + policy_rule" where
  "new_rule r = checked (rule_checks r) r"

record governance_policy =
  gp_policy_id :: string
  gp_version :: string
  gp_name :: string
  gp_description :: "string option"
  gp_status :: policy_status
  gp_target_types :: "decision_target_type list"
  gp_rules :: "policy_rule list"
  gp_created_by :: string
  gp_created_at :: datetime
  gp_metadata :: "(string \<times> pyval) list"

definition policy_checks :: "governance_policy \<Rightarrow> (bool \<times> exc) list" where
  "policy_checks p =
     [require_non_empty ''policy_id'' (gp_policy_id p),
      require_non_empty ''policy version'' (gp_version p),
      require_non_empty ''policy name'' (gp_name p),
      require_non_empty ''policy created_by'' (gp_created_by p),
      require_timezone_aware ''policy created_at'' (gp_created_at p),
      (gp_target_types p = [],
       Exc DecisionValidationError ''Decision policy target_types must not be empty.''),
      (gp_rules p = [], Exc DecisionValidationError ''Decision policy rules must not be empty.'')]"

definition new_governance_policy :: "governance_policy \<Rightarrow> exc + governance_policy" where
  "new_governance_policy p = checked (policy_checks p) p"

record evaluation_context =
  ec_target_type :: decision_target_type
  ec_target_id :: string
  ec_evidence :: "(string \<times> pyval) list"

definition new_evaluation_context :: "evaluation_context \<Rightarrow> exc + evaluation_context" where
  "new_evaluation_context c = checked [require_non_empty ''policy evaluation target_id'' (ec_target_id c)] c"

record evaluation_outcome =
  eo_policy_id :: string
  eo_policy_version :: string
  eo_matched_rule_id :: "string option"
  eo_effect :: policy_effect
  eo_reason :: string
  eo_matched :: bool
  eo_rule_priority :: "int option"

definition new_outcome :: "evaluation_outcome \<Rightarrow> exc + evaluation_outcome" where
  "new_outcome v = checked
     [require_non_empty ''policy outcome policy_id'' (eo_policy_id v),
      require_non_empty ''policy outcome policy_version'' (eo_policy_version v),
      require_non_empty ''policy outcome reason'' (eo_reason v)] v"

record trace_item =
  ti_rule_id :: string
  ti_rule_name :: string
  ti_field_path :: string
  ti_operator :: condition_operator
  ti_expected_value :: pyval
  ti_actual_value :: pyval
  ti_matched :: bool
  ti_reason :: "string option"

definition new_trace_item :: "trace_item \<Rightarrow> exc + trace_item" where
  "new_trace_item t = checked
     [require_non_empty ''policy trace rule_id'' (ti_rule_id t),
      require_non_empty ''policy trace rule_name'' (ti_rule_name t),
      require_non_empty ''policy trace condition_field_path'' (ti_field_path t)] t"

record trace_outcome =
  to_outcome :: evaluation_outcome
  to_matched_conditions :: "policy_condition list"
  to_unmatched_conditions :: "policy_condition list"
  to_evaluation_trace :: "trace_item list"

section \<open>The evaluator\<close>

text \<open>\<open>None\<close> is the sentinel \<open>_MISSING\<close>.\<close>

fun resolve_segments :: "pyval \<Rightarrow> string list \<Rightarrow> pyval option" where
  "resolve_segments v [] = Some v"
| "resolve_segments v (seg # segs) =
     (case v of PDict d \<Rightarrow> (case map_of d seg of None \<Rightarrow> None | Some w \<Rightarrow> resolve_segments w segs)
      | _ \<Rightarrow> None)"

definition resolve_field_path :: "(string \<times> pyval) list \<Rightarrow> string \<Rightarrow> pyval option" where
  "resolve_field_path evidence field_path = resolve_segments (PDict evidence) (py_split CHR ''.'' field_path)"

text \<open>A comparison or membership test that raises \<open>TypeError\<close> answers \<open>False\<close>.\<close>

definition compare_values :: "cmp_op \<Rightarrow> pyval \<Rightarrow> pyval \<Rightarrow> bool" where
  "compare_values op actual expected = opt_or (py_cmp op actual expected) False"

definition contains_value :: "pyval \<Rightarrow> pyval \<Rightarrow> bool" where
  "contains_value expected actual = opt_or (py_in actual expected) False"

definition condition_matches :: "policy_condition \<Rightarrow> (string \<times> pyval) list \<Rightarrow> bool" where
  "condition_matches c evidence =
     (let actual = resolve_field_path evidence (pc_field_path c); expected = pc_expected_value c in
      case pc_operator c of
        EXISTS \<Rightarrow> actual \<noteq> None
      | MISSING \<Rightarrow> actual = None
      | op \<Rightarrow>
          (case actual of None \<Rightarrow> False
           | Some v \<Rightarrow>
               (case op of
                  GREATER_THAN \<Rightarrow> compare_values CmpGt v expected
                | GREATER_THAN_OR_EQUAL \<Rightarrow> compare_values CmpGe v expected
                | LESS_THAN \<Rightarrow> compare_values CmpLt v expected
                | LESS_THAN_OR_EQUAL \<Rightarrow> compare_values CmpLe v expected
                | EQUALS \<Rightarrow> py_eq v expected
                | NOT_EQUALS \<Rightarrow> \<not> py_eq v expected
                | IN_OP \<Rightarrow> contains_value expected v
                | NOT_IN_OP \<Rightarrow> \<not> contains_value expected v
                | _ \<Rightarrow> False)))"

definition rule_matches :: "policy_rule \<Rightarrow> (string \<times> pyval) list \<Rightarrow> bool" where
  "rule_matches r evidence = list_all (\<lambda>c. condition_matches c evidence) (pr_conditions r)"

definition no_decision :: "governance_policy \<Rightarrow> string \<Rightarrow> exc + evaluation_outcome" where
  "no_decision p reason = new_outcome
     \<lparr>eo_policy_id = gp_policy_id p, eo_policy_version = gp_version p, eo_matched_rule_id = None,
      eo_effect = NO_DECISION, eo_reason = reason, eo_matched = False, eo_rule_priority = None\<rparr>"

definition rule_outcome :: "governance_policy \<Rightarrow> policy_rule \<Rightarrow> exc + evaluation_outcome" where
  "rule_outcome p r = new_outcome
     \<lparr>eo_policy_id = gp_policy_id p, eo_policy_version = gp_version p,
      eo_matched_rule_id = Some (pr_rule_id r), eo_effect = pr_effect r, eo_reason = pr_reason_template r,
      eo_matched = True, eo_rule_priority = Some (pr_priority r)\<rparr>"

definition rules_by_priority :: "governance_policy \<Rightarrow> policy_rule list" where
  "rules_by_priority p = sort_key pr_priority (gp_rules p)"

definition evaluate :: "governance_policy \<Rightarrow> evaluation_context \<Rightarrow> exc + evaluation_outcome" where
  "evaluate p ctx =
     (if ec_target_type ctx \<notin> set (gp_target_types p)
      then no_decision p ''Policy does not target this entity type.''
      else case List.find (\<lambda>r. rule_matches r (ec_evidence ctx)) (rules_by_priority p) of
        Some r \<Rightarrow> rule_outcome p r
      | None \<Rightarrow> no_decision p ''No policy rule matched.'')"

definition trace_condition ::
  "policy_rule \<Rightarrow> policy_condition \<Rightarrow> (string \<times> pyval) list \<Rightarrow> exc + trace_item" where
  "trace_condition r c evidence =
     (let matched = condition_matches c evidence in
      new_trace_item
        \<lparr>ti_rule_id = pr_rule_id r, ti_rule_name = pr_name r, ti_field_path = pc_field_path c,
         ti_operator = pc_operator c, ti_expected_value = pc_expected_value c,
         ti_actual_value = opt_or (resolve_field_path evidence (pc_field_path c)) PNone,
         ti_matched = matched,
         ti_reason = (if matched then None else Some ''Condition did not match.'')\<rparr>)"

text \<open>The loop over the sorted rules, with the trace collected so far.\<close>

fun trace_rules ::
  "governance_policy \<Rightarrow> (string \<times> pyval) list \<Rightarrow> trace_item list \<Rightarrow> policy_rule list \<Rightarrow> exc + trace_outcome" where
  "trace_rules p evidence trace [] =
     res_bind (no_decision p ''No policy rule matched.'') (\<lambda>v.
       Inr \<lparr>to_outcome = v, to_matched_conditions = [],
            to_unmatched_conditions = concat (map pr_conditions (rules_by_priority p)),
            to_evaluation_trace = trace\<rparr>)"
| "trace_rules p evidence trace (r # rs) =
     res_bind (map_res (\<lambda>c. trace_condition r c evidence) (pr_conditions r)) (\<lambda>rule_trace.
       if list_all ti_matched rule_trace
       then res_bind (rule_outcome p r) (\<lambda>v.
              Inr \<lparr>to_outcome = v, to_matched_conditions = pr_conditions r,
                   to_unmatched_conditions = [], to_evaluation_trace = trace @ rule_trace\<rparr>)
       else trace_rules p evidence (trace @ rule_trace) rs)"

definition evaluate_with_trace :: "governance_policy \<Rightarrow> evaluation_context \<Rightarrow> exc + trace_outcome" where
  "evaluate_with_trace p ctx =
     (if ec_target_type ctx \<notin> set (gp_target_types p)
      then res_bind (no_decision p ''Policy does not target this entity type.'') (\<lambda>v.
             Inr \<lparr>to_outcome = v, to_matched_conditions = [], to_unmatched_conditions = [],
                  to_evaluation_trace = []\<rparr>)
      else trace_rules p (ec_evidence ctx) [] (rules_by_priority p))"

section \<open>Definitions and versions\<close>

record policy_definition =
  pd_policy_id :: string
  pd_organization_id :: string
  pd_project_id :: string
  pd_name :: string
  pd_description :: "string option"
  pd_category :: policy_category
  pd_owner :: string
  pd_created_by :: string
  pd_created_at :: datetime
  pd_updated_at :: datetime
  pd_metadata :: "(string \<times> pyval) list"

definition definition_checks :: "policy_definition \<Rightarrow> (bool \<times> exc) list" where
  "definition_checks d =
     [require_non_empty ''policy_id'' (pd_policy_id d),
      require_non_empty ''policy organization_id'' (pd_organization_id d),
      require_non_empty ''policy project_id'' (pd_project_id d),
      require_non_empty ''policy name'' (pd_name d),
      require_non_empty ''policy owner'' (pd_owner d),
      require_non_empty ''policy created_by'' (pd_created_by d),
      require_timezone_aware ''policy created_at'' (pd_created_at d),
      require_timezone_aware ''policy updated_at'' (pd_updated_at d)]"

definition new_definition :: "policy_definition \<Rightarrow> exc + policy_definition" where
  "new_definition d = checked (definition_checks d) d"

definition definition_ok :: "policy_definition \<Rightarrow> bool" where
  "definition_ok d = all_pass (definition_checks d)"

record policy_version =
  pv_policy_id :: string
  pv_version :: string
  pv_status :: policy_status
  pv_target_types :: "decision_target_type list"
  pv_rules :: "policy_rule list"
  pv_created_by :: string
  pv_created_at :: datetime
  pv_activated_at :: "datetime option"
  pv_deprecated_at :: "datetime option"
  pv_archived_at :: "datetime option"
  pv_metadata :: "(string \<times> pyval) list"

definition version_checks :: "policy_version \<Rightarrow> (bool \<times> exc) list" where
  "version_checks v =
     [require_non_empty ''policy version policy_id'' (pv_policy_id v),
      require_non_empty ''policy version'' (pv_version v),
      require_non_empty ''policy version created_by'' (pv_created_by v),
      require_timezone_aware ''policy version created_at'' (pv_created_at v),
      require_optional_timezone ''policy activated_at'' (pv_activated_at v),
      require_optional_timezone ''policy deprecated_at'' (pv_deprecated_at v),
      require_optional_timezone ''policy archived_at'' (pv_archived_at v),
      (pv_target_types v = [],
       Exc DecisionValidationError ''Decision policy target_types must not be empty.''),
      (pv_rules v = [], Exc DecisionValidationError ''Decision policy rules must not be empty.''),
      (\<not> distinct (map pr_rule_id (pv_rules v)),
       Exc DecisionValidationError ''Decision policy rule IDs must be unique within a version.'')]"

definition new_version :: "policy_version \<Rightarrow> exc + policy_version" where
  "new_version v = checked (version_checks v) v"

text \<open>A version whose rules and conditions passed their own constructors.\<close>

definition version_ok :: "policy_version \<Rightarrow> bool" where
  "version_ok v =
     (all_pass (version_checks v)
      \<and> (\<forall>r \<in> set (pv_rules v). all_pass (rule_checks r)
           \<and> (\<forall>c \<in> set (pr_conditions r). all_pass (condition_checks c))))"

definition to_governance_policy :: "policy_version \<Rightarrow> policy_definition \<Rightarrow> exc + governance_policy" where
  "to_governance_policy v d = new_governance_policy
     \<lparr>gp_policy_id = pv_policy_id v, gp_version = pv_version v, gp_name = pd_name d,
      gp_description = pd_description d, gp_status = pv_status v, gp_target_types = pv_target_types v,
      gp_rules = pv_rules v, gp_created_by = pv_created_by v, gp_created_at = pv_created_at v,
      gp_metadata = dict_merge (dict_merge (pd_metadata d) (pv_metadata v))
        [(''category'', PStr (category_value (pd_category d))), (''owner'', PStr (pd_owner d)),
         (''project_id'', PStr (pd_project_id d)), (''organization_id'', PStr (pd_organization_id d))]\<rparr>"

section \<open>Facts about evaluation\<close>

lemma map_res_Inr:
  assumes "\<And>x. x \<in> set xs \<Longrightarrow> f x = Inr (g x)"
  shows "map_res f xs = Inr (map g xs)"
  using assms by (induction xs) simp_all

definition trace_item_of :: "(string \<times> pyval) list \<Rightarrow> policy_rule \<Rightarrow> policy_condition \<Rightarrow> trace_item" where
  "trace_item_of evidence r c =
     (let matched = condition_matches c evidence in
      \<lparr>ti_rule_id = pr_rule_id r, ti_rule_name = pr_name r, ti_field_path = pc_field_path c,
       ti_operator = pc_operator c, ti_expected_value = pc_expected_value c,
       ti_actual_value = opt_or (resolve_field_path evidence (pc_field_path c)) PNone,
       ti_matched = matched,
       ti_reason = (if matched then None else Some ''Condition did not match.'')\<rparr>)"

definition rule_ok :: "policy_rule \<Rightarrow> bool" where
  "rule_ok r = (all_pass (rule_checks r) \<and> (\<forall>c \<in> set (pr_conditions r). all_pass (condition_checks c)))"

lemma version_ok_rules: "version_ok v \<Longrightarrow> r \<in> set (pv_rules v) \<Longrightarrow> rule_ok r"
  by (simp add: version_ok_def rule_ok_def)

lemma ti_matched_trace_item_of [simp]: "ti_matched (trace_item_of ev r c) = condition_matches c ev"
  by (simp add: trace_item_of_def Let_def)

lemma trace_condition_ok:
  assumes "rule_ok r" "c \<in> set (pr_conditions r)"
  shows "trace_condition r c ev = Inr (trace_item_of ev r c)"
  using assms
  by (auto simp: rule_ok_def rule_checks_def condition_checks_def trace_condition_def new_trace_item_def
      trace_item_of_def Let_def checked_Inr_iff)

lemma trace_rule_ok:
  "rule_ok r \<Longrightarrow>
     map_res (\<lambda>c. trace_condition r c ev) (pr_conditions r)
       = Inr (map (trace_item_of ev r) (pr_conditions r))"
  by (rule map_res_Inr) (rule trace_condition_ok)

lemma list_all_trace [simp]:
  "list_all ti_matched (map (trace_item_of ev r) (pr_conditions r)) = rule_matches r ev"
  by (simp add: rule_matches_def list_all_iff)

text \<open>
  What the traced loop computes: the outcome of the first rule that matches, and the items of every
  condition of the rules up to it.
\<close>

lemma trace_rules_eq:
  assumes "\<forall>r \<in> set rs. rule_ok r"
  shows "trace_rules p ev tr rs =
    (case List.find (\<lambda>r. rule_matches r ev) rs of
       None \<Rightarrow> res_bind (no_decision p ''No policy rule matched.'') (\<lambda>v.
         Inr \<lparr>to_outcome = v, to_matched_conditions = [],
              to_unmatched_conditions = concat (map pr_conditions (rules_by_priority p)),
              to_evaluation_trace =
                tr @ concat (map (\<lambda>r. map (trace_item_of ev r) (pr_conditions r)) rs)\<rparr>)
     | Some r \<Rightarrow> res_bind (rule_outcome p r) (\<lambda>v.
         Inr \<lparr>to_outcome = v, to_matched_conditions = pr_conditions r, to_unmatched_conditions = [],
              to_evaluation_trace =
                tr @ concat (map (\<lambda>r. map (trace_item_of ev r) (pr_conditions r))
                       (takeWhile (\<lambda>r. \<not> rule_matches r ev) rs @ [r]))\<rparr>))"
  using assms
proof (induction rs arbitrary: tr)
  case Nil
  then show ?case by simp
next
  case (Cons r rs)
  then have r: "rule_ok r" by simp
  show ?case
  proof (cases "rule_matches r ev")
    case True
    then show ?thesis by (simp add: trace_rule_ok [OF r])
  next
    case False
    then show ?thesis
      using Cons by (simp add: trace_rule_ok [OF r] split: option.splits)
  qed
qed

lemma set_rules_by_priority [simp]: "set (rules_by_priority p) = set (gp_rules p)"
  by (simp add: rules_by_priority_def)

lemma rule_outcome_ok:
  assumes "rule_ok r" "\<not> blank (gp_policy_id p)" "\<not> blank (gp_version p)"
  shows "\<exists>v. rule_outcome p r = Inr v \<and> eo_matched v \<and> eo_effect v = pr_effect r
    \<and> eo_matched_rule_id v = Some (pr_rule_id r) \<and> eo_rule_priority v = Some (pr_priority r)"
  using assms
  by (auto simp: rule_outcome_def new_outcome_def rule_ok_def rule_checks_def require_non_empty_def)

lemma rule_outcome_Inr:
  "rule_outcome p r = Inr v \<Longrightarrow> eo_matched v \<and> eo_effect v = pr_effect r
     \<and> eo_matched_rule_id v = Some (pr_rule_id r) \<and> eo_rule_priority v = Some (pr_priority r)"
  by (auto simp: rule_outcome_def new_outcome_def checked_Inr_iff)

lemma no_decision_Inr:
  "no_decision p reason = Inr v \<Longrightarrow> \<not> eo_matched v \<and> eo_effect v = NO_DECISION"
  by (auto simp: no_decision_def new_outcome_def checked_Inr_iff)

text \<open>In a list sorted by priority, the first match has the least priority of all matches.\<close>

lemma find_sorted_least:
  assumes "sorted (map f xs)" "List.find P xs = Some x" "y \<in> set xs" "P y"
  shows "f x \<le> f y"
  using assms
proof (induction xs)
  case Nil
  then show ?case by simp
next
  case (Cons a xs)
  then show ?case by (cases "P a") auto
qed

text \<open>A match of the evaluator is an applicable rule that no better one precedes.\<close>

lemma evaluate_matched:
  assumes "evaluate p ctx = Inr v" "eo_matched v"
  obtains r where "r \<in> set (gp_rules p)" "rule_matches r (ec_evidence ctx)"
    "eo_effect v = pr_effect r" "eo_matched_rule_id v = Some (pr_rule_id r)"
    "eo_rule_priority v = Some (pr_priority r)" "ec_target_type ctx \<in> set (gp_target_types p)"
    "\<And>r'. r' \<in> set (gp_rules p) \<Longrightarrow> rule_matches r' (ec_evidence ctx) \<Longrightarrow> pr_priority r \<le> pr_priority r'"
proof -
  define m where "m = List.find (\<lambda>r. rule_matches r (ec_evidence ctx)) (rules_by_priority p)"
  have tt: "ec_target_type ctx \<in> set (gp_target_types p)"
    using assms by (auto simp: evaluate_def dest: no_decision_Inr split: if_splits)
  with assms obtain r where r: "m = Some r" "rule_outcome p r = Inr v"
    by (cases m) (auto simp: evaluate_def m_def dest: no_decision_Inr)
  have "sorted (map pr_priority (rules_by_priority p))"
    by (simp add: rules_by_priority_def)
  note least = find_sorted_least [OF this r(1) [unfolded m_def]]
  show ?thesis
    using that [of r] rule_outcome_Inr [OF r(2)] find_Some_set [OF r(1) [unfolded m_def]] tt least
    by simp
qed

text \<open>Evidence that resolves the same at the paths of a rule's conditions decides it the same way.\<close>

lemma condition_matches_cong:
  "resolve_field_path e1 (pc_field_path c) = resolve_field_path e2 (pc_field_path c) \<Longrightarrow>
     condition_matches c e1 = condition_matches c e2"
  by (simp add: condition_matches_def)

lemma rule_matches_cong:
  assumes "\<And>c. c \<in> set (pr_conditions r) \<Longrightarrow>
     resolve_field_path e1 (pc_field_path c) = resolve_field_path e2 (pc_field_path c)"
  shows "rule_matches r e1 = rule_matches r e2"
  using assms by (auto simp: rule_matches_def list_all_iff cong: condition_matches_cong)

text \<open>A path below another key does not see the value stored under this one.\<close>

lemma resolve_field_path_other:
  assumes "\<not> py_startswith path (key @ ''.'')" "path \<noteq> key"
    and "\<And>k. k \<noteq> key \<Longrightarrow> map_of e1 k = map_of e2 k"
  shows "resolve_field_path e1 path = resolve_field_path e2 path"
proof -
  obtain seg rest where sp: "py_split CHR ''.'' path = seg # rest"
    by (cases "py_split CHR ''.'' path") simp_all
  with py_split_hd [OF sp] assms(1,2) have "seg \<noteq> key" by auto
  with assms(3) sp show ?thesis by (simp add: resolve_field_path_def)
qed

lemma missing_only_matches_absent:
  assumes "resolve_field_path ev (pc_field_path c) = None" "condition_matches c ev"
  shows "pc_operator c = MISSING"
  using assms by (cases "pc_operator c") (simp_all add: condition_matches_def)

text \<open>The rules the evaluation looks at: those before the first that matches, and that one.\<close>

definition examined_rules :: "governance_policy \<Rightarrow> evaluation_context \<Rightarrow> policy_rule list" where
  "examined_rules p ctx =
     (if ec_target_type ctx \<notin> set (gp_target_types p) then []
      else takeWhile (\<lambda>r. \<not> rule_matches r (ec_evidence ctx)) (rules_by_priority p)
        @ (case List.find (\<lambda>r. rule_matches r (ec_evidence ctx)) (rules_by_priority p) of None \<Rightarrow> [] | Some r \<Rightarrow> [r]))"

text \<open>
  C36. For a policy whose rules and conditions passed construction the traced evaluator answers what the
  plain evaluator answers, for every context: it raises when that one raises, and otherwise returns the
  same outcome. Its trace holds, in priority order, one item per condition of every rule up to and
  including the first that matches (of every rule when none does), with the rule, the field, the operator
  and whether the condition holds; for a context whose type the policy does not target the trace is
  empty. The matched conditions are those of the matching rule, the unmatched ones those of all rules of a
  targeting policy without a matching rule.
\<close>

theorem evaluate_with_trace_refines:
  assumes "\<forall>r \<in> set (gp_rules p). rule_ok r"
  shows "case evaluate p ctx of
      Inl e \<Rightarrow> evaluate_with_trace p ctx = Inl e
    | Inr v \<Rightarrow> \<exists>t. evaluate_with_trace p ctx = Inr t \<and> to_outcome t = v
        \<and> map (\<lambda>i. (ti_rule_id i, ti_field_path i, ti_operator i, ti_matched i)) (to_evaluation_trace t)
          = concat (map (\<lambda>r. map (\<lambda>c. (pr_rule_id r, pc_field_path c, pc_operator c, condition_matches c (ec_evidence ctx)))
              (pr_conditions r)) (examined_rules p ctx))
        \<and> to_matched_conditions t = concat (map pr_conditions (filter (\<lambda>r. rule_matches r (ec_evidence ctx)) (examined_rules p ctx)))
        \<and> to_unmatched_conditions t
          = (if list_ex (\<lambda>r. rule_matches r (ec_evidence ctx)) (examined_rules p ctx) then []
             else concat (map pr_conditions (examined_rules p ctx)))"
proof (cases "ec_target_type ctx \<in> set (gp_target_types p)")
  case False
  then show ?thesis by (auto simp: evaluate_def evaluate_with_trace_def examined_rules_def split: sum.splits)
next
  case target: True
  let ?ev = "ec_evidence ctx" and ?rs = "rules_by_priority p"
  have ok: "\<forall>r \<in> set ?rs. rule_ok r" using assms by simp
  have items: "map (\<lambda>i. (ti_rule_id i, ti_field_path i, ti_operator i, ti_matched i))
      (concat (map (\<lambda>r. map (trace_item_of ?ev r) (pr_conditions r)) rs))
    = concat (map (\<lambda>r. map (\<lambda>c. (pr_rule_id r, pc_field_path c, pc_operator c, condition_matches c ?ev)) (pr_conditions r)) rs)" for rs
    by (induction rs) (simp_all add: trace_item_of_def Let_def comp_def)
  have none: "filter (\<lambda>r. rule_matches r ?ev) (takeWhile (\<lambda>r. \<not> rule_matches r ?ev) rs) = []" for rs
    by (auto simp: filter_empty_conv dest: set_takeWhileD)
  show ?thesis
  proof (cases "List.find (\<lambda>r. rule_matches r ?ev) ?rs")
    case None
    then have all: "takeWhile (\<lambda>r. \<not> rule_matches r ?ev) ?rs = ?rs" by (simp add: find_None_iff_all takeWhile_eq_all_conv)
    then have "examined_rules p ctx = ?rs" using target None by (simp add: examined_rules_def)
    moreover have "filter (\<lambda>r. rule_matches r ?ev) ?rs = []" using none [of ?rs] all by simp
    ultimately show ?thesis
      using None target
      by (auto simp: evaluate_with_trace_def evaluate_def trace_rules_eq [OF ok] items list_ex_iff filter_empty_conv split: sum.splits)
  next
    case (Some r)
    then have r: "rule_matches r ?ev" by (auto simp: find_Some_iff)
    have ex: "examined_rules p ctx = takeWhile (\<lambda>r. \<not> rule_matches r ?ev) ?rs @ [r]" using target Some by (simp add: examined_rules_def)
    show ?thesis
      using Some target r none [of ?rs] items [of "takeWhile (\<lambda>r. \<not> rule_matches r ?ev) ?rs @ [r]"]
      by (auto simp: evaluate_with_trace_def evaluate_def trace_rules_eq [OF ok] ex split: sum.splits
          simp del: concat_append map_append)
  qed
qed

end
