(* ===== verification/Policy_Admin.thy ===== *)
theory Policy_Admin
  imports Policy Interfaces
begin

text \<open>
  The in-memory policy administration repository
  (\<open>repositories/in_memory_policy_administration_repository.py\<close>) and the service over it
  (\<open>services/policies/policy_administration_service.py\<close>). Enum arguments are members
  already. Each reading of the service's clock is an argument. The ontology publisher is not
  configured, so no event leaves the service.
\<close>

section \<open>The repository\<close>

record policy_repo =
  pa_definitions :: "(string, policy_definition) dict"
  pa_versions :: "(string \<times> string, policy_version) dict"

definition empty_policy_repo :: policy_repo where
  "empty_policy_repo = \<lparr>pa_definitions = [], pa_versions = []\<rparr>"

definition save_definition :: "policy_definition \<Rightarrow> (policy_repo, unit) action" where
  "save_definition d s =
     (if list_ex (\<lambda>item. pd_policy_id item \<noteq> pd_policy_id d \<and> pd_project_id item = pd_project_id d
                    \<and> pd_name item = pd_name d) (dict_values (pa_definitions s))
      then (Inl (Exc PolicyAdministrationConflictError ''Policy name must be unique within a project.''), s)
      else (Inr (), s\<lparr>pa_definitions := dict_put (pd_policy_id d) d (pa_definitions s)\<rparr>))"

definition get_definition :: "policy_repo \<Rightarrow> string \<Rightarrow> policy_definition option" where
  "get_definition s policy_id = dict_get (pa_definitions s) policy_id"

text \<open>\<open>f"{n:020d}"\<close>: the sign counts towards the width.\<close>

definition zero_padded :: "int \<Rightarrow> string" where
  "zero_padded n =
     (let ds = nat_digits (nat \<bar>n\<bar>); w = (if n < 0 then 19 else 20)
      in (if n < 0 then ''-'' else []) @ replicate (w - length ds) CHR ''0'' @ ds)"

definition version_sort_key :: "string \<Rightarrow> nat \<times> string" where
  "version_sort_key version = (case py_int version of Some n \<Rightarrow> (0, zero_padded n) | None \<Rightarrow> (1, version))"

definition list_versions :: "policy_repo \<Rightarrow> string \<Rightarrow> policy_version list" where
  "list_versions s policy_id =
     sort_key (\<lambda>v. version_sort_key (pv_version v))
       (map snd (filter (\<lambda>((stored_policy_id, _), _). stored_policy_id = policy_id) (pa_versions s)))"

definition get_active_version :: "policy_repo \<Rightarrow> string \<Rightarrow> policy_version option" where
  "get_active_version s policy_id = List.find (\<lambda>v. pv_status v = PS_ACTIVE) (list_versions s policy_id)"

definition get_version :: "policy_repo \<Rightarrow> string \<Rightarrow> string \<Rightarrow> policy_version option" where
  "get_version s policy_id version = dict_get (pa_versions s) (policy_id, version)"

definition put_version :: "policy_version \<Rightarrow> policy_repo \<Rightarrow> policy_repo" where
  "put_version v s = s\<lparr>pa_versions := dict_put (pv_policy_id v, pv_version v) v (pa_versions s)\<rparr>"

text \<open>
  \<open>created_at\<close> is never \<open>None\<close>, so the last alternative of the deprecation time is
  not reached.
\<close>

definition save_version :: "policy_version \<Rightarrow> (policy_repo, unit) action" where
  "save_version v s =
     (case (if pv_status v = PS_ACTIVE then get_active_version s (pv_policy_id v) else None) of
        None \<Rightarrow> (Inr (), put_version v s)
      | Some active \<Rightarrow>
          if pv_version active = pv_version v then (Inr (), put_version v s)
          else case new_version (active\<lparr>pv_status := PS_DEPRECATED,
                      pv_deprecated_at := Some (opt_or (pv_activated_at v) (pv_created_at v))\<rparr>) of
            Inl e \<Rightarrow> (Inl e, s)
          | Inr deprecated \<Rightarrow> (Inr (), put_version v (put_version deprecated s)))"

definition matches_version_filters ::
  "policy_repo \<Rightarrow> string \<Rightarrow> policy_status option \<Rightarrow> decision_target_type option
     \<Rightarrow> policy_effect option \<Rightarrow> bool" where
  "matches_version_filters s policy_id status target_type effect =
     (if status = None \<and> target_type = None \<and> effect = None then True
      else list_ex (\<lambda>v.
             (status = None \<or> status = Some (pv_status v))
             \<and> (case target_type of None \<Rightarrow> True | Some t \<Rightarrow> t \<in> set (pv_target_types v))
             \<and> (case effect of None \<Rightarrow> True | Some e \<Rightarrow> list_ex (\<lambda>r. pr_effect r = e) (pv_rules v)))
           (list_versions s policy_id))"

definition matches_search :: "policy_definition \<Rightarrow> string option \<Rightarrow> bool" where
  "matches_search d search =
     (case search of None \<Rightarrow> True
      | Some needle \<Rightarrow>
          list_ex (\<lambda>item. is_substring needle (py_lower item))
            [pd_policy_id d, pd_name d, opt_or (pd_description d) [], pd_owner d, pd_project_id d])"

text \<open>\<open>limit\<close> and \<open>offset\<close> are not negative.\<close>

record definition_query =
  dq_organization_id :: "string option"
  dq_project_id :: "string option"
  dq_search :: "string option"
  dq_owner :: "string option"
  dq_category :: "policy_category option"
  dq_status :: "policy_status option"
  dq_target_type :: "decision_target_type option"
  dq_effect :: "policy_effect option"
  dq_limit :: "nat option"
  dq_offset :: nat

definition matches_query :: "policy_repo \<Rightarrow> definition_query \<Rightarrow> policy_definition \<Rightarrow> bool" where
  "matches_query s q d =
     (dq_organization_id q \<in> {None, Some (pd_organization_id d)}
      \<and> dq_project_id q \<in> {None, Some (pd_project_id d)}
      \<and> dq_owner q \<in> {None, Some (pd_owner d)}
      \<and> dq_category q \<in> {None, Some (pd_category d)}
      \<and> matches_search d
           (if truthy (dq_search q) then map_option (\<lambda>x. py_lower (py_strip x)) (dq_search q) else None)
      \<and> matches_version_filters s (pd_policy_id d) (dq_status q) (dq_target_type q) (dq_effect q))"

definition list_definitions :: "policy_repo \<Rightarrow> definition_query \<Rightarrow> policy_definition list" where
  "list_definitions s q =
     (let definitions = sort_key_reverse (\<lambda>d. micros (pd_created_at d))
                          (filter (matches_query s q) (dict_values (pa_definitions s)));
          tail = drop (dq_offset q) definitions
      in case dq_limit q of None \<Rightarrow> tail | Some n \<Rightarrow> take n tail)"

text \<open>The query of the authorization services: the active policies of one tenant scope.\<close>

definition active_query :: "string \<Rightarrow> string option \<Rightarrow> definition_query" where
  "active_query organization_id project_id =
     \<lparr>dq_organization_id = Some organization_id, dq_project_id = project_id, dq_search = None,
      dq_owner = None, dq_category = None, dq_status = Some PS_ACTIVE, dq_target_type = None,
      dq_effect = None, dq_limit = None, dq_offset = 0\<rparr>"

section \<open>The policy schema\<close>

record schema_field =
  sf_field_path :: string
  sf_label :: string
  sf_value_type :: string
  sf_supported_operators :: "condition_operator list"
  sf_allowed_values :: "string list option"

definition comparison_operators :: "condition_operator list" where
  "comparison_operators =
     [GREATER_THAN, GREATER_THAN_OR_EQUAL, LESS_THAN, LESS_THAN_OR_EQUAL, EQUALS, NOT_EQUALS, EXISTS,
      MISSING]"

definition string_operators :: "condition_operator list" where
  "string_operators = [EQUALS, NOT_EQUALS, IN_OP, NOT_IN_OP, EXISTS, MISSING]"

definition string_field :: "string \<Rightarrow> string \<Rightarrow> schema_field" where
  "string_field path label =
     \<lparr>sf_field_path = path, sf_label = label, sf_value_type = ''string'',
      sf_supported_operators = string_operators, sf_allowed_values = None\<rparr>"

definition number_field :: "string \<Rightarrow> string \<Rightarrow> schema_field" where
  "number_field path label =
     \<lparr>sf_field_path = path, sf_label = label, sf_value_type = ''number'',
      sf_supported_operators = comparison_operators, sf_allowed_values = None\<rparr>"

text \<open>The display descriptions of the target types and fields are left out.\<close>

definition policy_schema :: "(decision_target_type \<times> string \<times> schema_field list) list" where
  "policy_schema =
     [(AGENT_EXECUTION, ''Agent execution'',
       [string_field ''action.id'' ''Registered action'',
        string_field ''resource.type'' ''Resource type'',
        string_field ''resource.reference'' ''Resource reference'',
        string_field ''actor.id'' ''Authenticated actor'',
        string_field ''issuer.id'' ''Delegation issuer (issuance)'',
        string_field ''runtime_actor.id'' ''Delegated runtime actor (issuance)'',
        string_field ''delegation.id'' ''Trusted delegation ID'',
        string_field ''delegation.issuer_id'' ''Trusted delegation issuer'']),
      (CANDIDATE, ''Candidate'',
       [number_field ''metrics.groundedness.score'' ''Groundedness score'',
        number_field ''metrics.answer_relevance.score'' ''Answer relevance score'',
        number_field ''cost.estimated_usd'' ''Estimated cost'',
        (string_field ''drift.severity'' ''Drift severity'')
          \<lparr>sf_allowed_values := Some [''LOW'', ''MEDIUM'', ''HIGH'', ''CRITICAL'']\<rparr>]),
      (PROMPT_VERSION, ''Prompt version'',
       [string_field ''prompt.status'' ''Prompt status'',
        number_field ''prompt.variables.count'' ''Prompt variable count'']),
      (MODEL_VERSION, ''Model version'',
       [string_field ''model.provider'' ''Provider'',
        string_field ''model.risk_tier'' ''Risk tier''])]"

definition schema_field_map :: "(string \<times> schema_field) list" where
  "schema_field_map =
     concat (map (\<lambda>(_, _, fields). map (\<lambda>f. (sf_field_path f, f)) fields) policy_schema)"

definition unsupported_operator :: "policy_condition \<Rightarrow> bool" where
  "unsupported_operator c =
     (case map_of schema_field_map (pc_field_path c) of None \<Rightarrow> False
      | Some f \<Rightarrow> pc_operator c \<notin> set (sf_supported_operators f))"

definition validate_version :: "policy_version \<Rightarrow> exc + unit" where
  "validate_version v = checked
     (map (\<lambda>c. (unsupported_operator c,
                Exc PolicyValidationFailedError
                  (''Operator is not supported for policy field '' @ quoted (pc_field_path c) @ ''.'')))
        (concat (map pr_conditions (pv_rules v)))) ()"

section \<open>The service\<close>

record policy_detail =
  pl_definition :: policy_definition
  pl_active_version :: "policy_version option"
  pl_draft_version :: "policy_version option"
  pl_versions :: "policy_version list"

definition service_get_definition :: "policy_repo \<Rightarrow> string \<Rightarrow> exc + policy_definition" where
  "service_get_definition s policy_id =
     (case get_definition s policy_id of
        None \<Rightarrow> Inl (Exc PolicyAdminNotFoundError (''Policy '' @ quoted policy_id @ '' does not exist.''))
      | Some d \<Rightarrow> Inr d)"

definition service_get_version :: "policy_repo \<Rightarrow> string \<Rightarrow> string \<Rightarrow> exc + policy_version" where
  "service_get_version s policy_id version =
     (case get_version s policy_id version of
        None \<Rightarrow> Inl (Exc PolicyVersionNotFoundError
                  (''Policy '' @ quoted policy_id @ '' version '' @ quoted version @ '' does not exist.''))
      | Some v \<Rightarrow> Inr v)"

definition get_policy_detail :: "string \<Rightarrow> (policy_repo, policy_detail) action" where
  "get_policy_detail policy_id s =
     (case service_get_definition s policy_id of Inl e \<Rightarrow> (Inl e, s)
      | Inr d \<Rightarrow>
          (let versions = list_versions s policy_id in
           (Inr \<lparr>pl_definition = d,
                 pl_active_version = List.find (\<lambda>v. pv_status v = PS_ACTIVE) versions,
                 pl_draft_version = List.find (\<lambda>v. pv_status v = PS_DRAFT) (rev versions),
                 pl_versions = versions\<rparr>, s)))"

text \<open>The row of a policy in the list view.\<close>

record policy_list_item =
  li_definition :: policy_definition
  li_status :: policy_status
  li_active_version :: "string option"
  li_draft_version :: "string option"
  li_target_types :: "decision_target_type list"
  li_highest_priority :: "int option"
  li_primary_effect :: "policy_effect option"

definition list_item :: "policy_repo \<Rightarrow> policy_definition \<Rightarrow> policy_list_item" where
  "list_item s d =
     (let versions = list_versions s (pd_policy_id d);
          active = List.find (\<lambda>v. pv_status v = PS_ACTIVE) versions;
          draft = List.find (\<lambda>v. pv_status v = PS_DRAFT) (rev versions);
          visible = (case active of Some v \<Rightarrow> Some v
                     | None \<Rightarrow> (case draft of Some v \<Rightarrow> Some v
                               | None \<Rightarrow> if versions = [] then None else Some (last versions)));
          rules = (case visible of None \<Rightarrow> [] | Some v \<Rightarrow> pv_rules v)
      in \<lparr>li_definition = d,
          li_status = (case visible of None \<Rightarrow> PS_DRAFT | Some v \<Rightarrow> pv_status v),
          li_active_version = map_option pv_version active,
          li_draft_version = map_option pv_version draft,
          li_target_types = (case visible of None \<Rightarrow> [] | Some v \<Rightarrow> pv_target_types v),
          li_highest_priority = (if rules = [] then None else Some (Min (set (map pr_priority rules)))),
          li_primary_effect = (case rules of [] \<Rightarrow> None | r # _ \<Rightarrow> Some (pr_effect r))\<rparr>)"

definition list_policies :: "policy_repo \<Rightarrow> definition_query \<Rightarrow> policy_list_item list" where
  "list_policies s q = map (list_item s) (list_definitions s q)"

definition next_version :: "policy_repo \<Rightarrow> string \<Rightarrow> string" where
  "next_version s policy_id =
     (let numeric_versions = List.map_filter (\<lambda>v. py_int (pv_version v)) (list_versions s policy_id)
      in py_str_int ((if numeric_versions = [] then 0 else Max (set numeric_versions)) + 1))"

definition touch_definition :: "policy_definition \<Rightarrow> datetime \<Rightarrow> (policy_repo, unit) action" where
  "touch_definition d now s =
     (case new_definition (d\<lparr>pd_updated_at := now\<rparr>) of Inl e \<Rightarrow> (Inl e, s)
      | Inr d' \<Rightarrow> save_definition d' s)"

text \<open>The translation of the repository's conflict into the service's.\<close>

definition as_policy_conflict :: "(policy_repo, 'a) action \<Rightarrow> (policy_repo, 'a) action" where
  "as_policy_conflict m s =
     (case m s of
        (Inl e, s') \<Rightarrow>
          (Inl (if exc_kind e = PolicyAdministrationConflictError
                then Exc PolicyConflictError (exc_message e) else e), s')
      | (Inr x, s') \<Rightarrow> (Inr x, s'))"

definition create_policy ::
  "datetime \<Rightarrow> string \<Rightarrow> policy_definition \<Rightarrow> decision_target_type list \<Rightarrow> policy_rule list
     \<Rightarrow> (policy_repo, policy_detail) action" where
  "create_policy now policy_id given target_types rules s =
     (case service_get_definition s policy_id of
        Inr _ \<Rightarrow> (Inl (Exc PolicyConflictError (''Policy ID '' @ quoted policy_id @ '' already exists.'')), s)
      | Inl _ \<Rightarrow>
          act_bind (act_lift (new_definition
              (given\<lparr>pd_policy_id := policy_id, pd_created_at := now, pd_updated_at := now\<rparr>))) (\<lambda>definition.
          act_bind (act_lift (new_version
              \<lparr>pv_policy_id = policy_id, pv_version = ''1'', pv_status = PS_DRAFT,
               pv_target_types = target_types, pv_rules = rules, pv_created_by = pd_created_by given,
               pv_created_at = now, pv_activated_at = None, pv_deprecated_at = None,
               pv_archived_at = None, pv_metadata = []\<rparr>)) (\<lambda>version.
          act_bind (act_lift (validate_version version)) (\<lambda>_.
          act_bind (as_policy_conflict
              (act_bind (save_definition definition) (\<lambda>_. save_version version))) (\<lambda>_.
          get_policy_detail policy_id)))) s)"

definition create_policy_version ::
  "datetime \<Rightarrow> datetime \<Rightarrow> string \<Rightarrow> string option \<Rightarrow> decision_target_type list \<Rightarrow> policy_rule list
     \<Rightarrow> string \<Rightarrow> (string \<times> pyval) list \<Rightarrow> (policy_repo, policy_detail) action" where
  "create_policy_version now now2 policy_id base_version target_types rules created_by metadata s =
     act_bind (act_lift (service_get_definition s policy_id)) (\<lambda>definition.
     act_bind (act_lift (case base_version of None \<Rightarrow> Inr ()
                         | Some b \<Rightarrow> res_bind (service_get_version s policy_id b) (\<lambda>_. Inr ()))) (\<lambda>_.
     act_bind (act_lift (new_version
         \<lparr>pv_policy_id = policy_id, pv_version = next_version s policy_id, pv_status = PS_DRAFT,
          pv_target_types = target_types, pv_rules = rules, pv_created_by = created_by,
          pv_created_at = now, pv_activated_at = None, pv_deprecated_at = None,
          pv_archived_at = None, pv_metadata = metadata\<rparr>)) (\<lambda>version.
     act_bind (act_lift (validate_version version)) (\<lambda>_.
     act_bind (save_version version) (\<lambda>_.
     act_bind (touch_definition definition now2) (\<lambda>_.
     get_policy_detail policy_id)))))) s"

definition update_draft_version ::
  "datetime \<Rightarrow> string \<Rightarrow> string \<Rightarrow> decision_target_type list \<Rightarrow> policy_rule list \<Rightarrow> string
     \<Rightarrow> (string \<times> pyval) list \<Rightarrow> (policy_repo, policy_detail) action" where
  "update_draft_version now policy_id version target_types rules updated_by metadata s =
     act_bind (act_lift (service_get_version s policy_id version)) (\<lambda>existing.
     if pv_status existing \<noteq> PS_DRAFT
     then act_raise (Exc InvalidPolicyRequestError ''Only draft policy versions can be updated.'')
     else
     act_bind (act_lift (new_version
         (existing\<lparr>pv_target_types := target_types, pv_rules := rules,
            pv_metadata := dict_merge (dict_merge (pv_metadata existing) metadata)
              [(''updated_by'', PStr updated_by)]\<rparr>))) (\<lambda>updated.
     act_bind (act_lift (validate_version updated)) (\<lambda>_.
     act_bind (save_version updated) (\<lambda>_.
     act_bind (\<lambda>s. act_lift (service_get_definition s policy_id) s) (\<lambda>definition.
     act_bind (touch_definition definition now) (\<lambda>_.
     get_policy_detail policy_id)))))) s"

text \<open>An approving rule of a runtime authorization policy that reads agent-controlled context.\<close>

definition agent_controlled_path :: "string \<Rightarrow> bool" where
  "agent_controlled_path path = (py_startswith path ''context.'' \<or> py_startswith path ''agent_context.'')"

definition approves_from_agent_context :: "policy_rule \<Rightarrow> bool" where
  "approves_from_agent_context r =
     (pr_effect r = APPROVE \<and> list_ex (\<lambda>c. agent_controlled_path (pc_field_path c)) (pr_conditions r))"

text \<open>\<open>metadata.get(key)\<close> is a mapping with the given purpose.\<close>

definition purpose_registration :: "policy_definition \<Rightarrow> string \<Rightarrow> string \<Rightarrow> (string \<times> pyval) list option" where
  "purpose_registration d key purpose =
     (case pget (pd_metadata d) key of
        PDict raw \<Rightarrow> if py_eq (pget raw ''purpose'') (PStr purpose) then Some raw else None
      | _ \<Rightarrow> None)"

definition validate_runtime_authorization_activation ::
  "policy_definition \<Rightarrow> policy_version \<Rightarrow> exc + unit" where
  "validate_runtime_authorization_activation d v =
     (if purpose_registration d ''runtime_action_authorization'' ''runtime_action_authorization'' = None
      then Inr ()
      else checked (map (\<lambda>r. (approves_from_agent_context r,
             Exc PolicyActivationFailedError
               ''Runtime authorization ALLOW rules cannot depend on agent-controlled context.''))
             (pv_rules v)) ())"

text \<open>The deprecation of the active version that precedes an activation.\<close>

definition deprecate_active :: "policy_repo \<Rightarrow> string \<Rightarrow> datetime \<Rightarrow> (policy_repo, unit) action" where
  "deprecate_active s0 p now =
     (case get_active_version s0 p of None \<Rightarrow> act_return ()
      | Some active \<Rightarrow>
          act_bind (act_lift (new_version
              (active\<lparr>pv_status := PS_DEPRECATED, pv_deprecated_at := Some now\<rparr>))) save_version)"

definition activate_version ::
  "datetime \<Rightarrow> datetime \<Rightarrow> string \<Rightarrow> string \<Rightarrow> string \<Rightarrow> (policy_repo, policy_detail) action" where
  "activate_version now now2 policy_id version activated_by s =
     act_bind (act_lift (service_get_version s policy_id version)) (\<lambda>selected.
     if pv_status selected = PS_ARCHIVED
     then act_raise (Exc PolicyActivationFailedError ''Archived policy versions cannot be activated.'')
     else if pv_status selected \<noteq> PS_DRAFT
     then act_raise (Exc PolicyActivationFailedError ''Only draft policy versions can be activated.'')
     else
     act_bind (act_lift (service_get_definition s policy_id)) (\<lambda>definition.
     act_bind (act_lift (validate_runtime_authorization_activation definition selected)) (\<lambda>_.
     act_bind (deprecate_active s policy_id now) (\<lambda>_.
     act_bind (act_lift (new_version
         (selected\<lparr>pv_status := PS_ACTIVE, pv_activated_at := Some now,
            pv_metadata := dict_merge (pv_metadata selected) [(''activated_by'', PStr activated_by)]\<rparr>)))
       (\<lambda>activated.
     act_bind (save_version activated) (\<lambda>_.
     act_bind (touch_definition definition now2) (\<lambda>_.
     get_policy_detail policy_id))))))) s"

definition archive_version ::
  "datetime \<Rightarrow> datetime \<Rightarrow> string \<Rightarrow> string \<Rightarrow> string \<Rightarrow> (policy_repo, policy_detail) action" where
  "archive_version now now2 policy_id version archived_by s =
     act_bind (act_lift (service_get_version s policy_id version)) (\<lambda>selected.
     if pv_status selected = PS_ARCHIVED then get_policy_detail policy_id
     else
     act_bind (act_lift (new_version
         (selected\<lparr>pv_status := PS_ARCHIVED, pv_archived_at := Some now,
            pv_metadata := dict_merge (pv_metadata selected) [(''archived_by'', PStr archived_by)]\<rparr>)))
       (\<lambda>archived.
     act_bind (save_version archived) (\<lambda>_.
     act_bind (\<lambda>s. act_lift (service_get_definition s policy_id) s) (\<lambda>definition.
     act_bind (touch_definition definition now2) (\<lambda>_.
     get_policy_detail policy_id))))) s"

definition materialize_governance_policy :: "policy_repo \<Rightarrow> string \<Rightarrow> string \<Rightarrow> exc + governance_policy" where
  "materialize_governance_policy s policy_id version =
     res_bind (service_get_definition s policy_id) (\<lambda>definition.
     res_bind (service_get_version s policy_id version) (\<lambda>policy_version.
       to_governance_policy policy_version definition))"

definition simulate_version ::
  "policy_repo \<Rightarrow> string \<Rightarrow> string \<Rightarrow> evaluation_context \<Rightarrow> exc + trace_outcome" where
  "simulate_version s policy_id version ctx =
     res_bind (materialize_governance_policy s policy_id version) (\<lambda>policy.
     res_bind (new_evaluation_context ctx) (evaluate_with_trace policy))"

section \<open>The invariant\<close>

definition versions_inv :: "policy_repo \<Rightarrow> bool" where
  "versions_inv s =
     (\<forall>k v. dict_get (pa_versions s) k = Some v \<longrightarrow>
        k = (pv_policy_id v, pv_version v) \<and> version_ok v
        \<and> dict_get (pa_definitions s) (pv_policy_id v) \<noteq> None)"

definition definitions_inv :: "policy_repo \<Rightarrow> bool" where
  "definitions_inv s =
     ((\<forall>k d. dict_get (pa_definitions s) k = Some d \<longrightarrow> k = pd_policy_id d \<and> definition_ok d)
      \<and> (\<forall>k k' d d'. dict_get (pa_definitions s) k = Some d \<longrightarrow> dict_get (pa_definitions s) k' = Some d'
           \<longrightarrow> pd_project_id d = pd_project_id d' \<longrightarrow> pd_name d = pd_name d' \<longrightarrow> k = k'))"

definition one_active :: "policy_repo \<Rightarrow> bool" where
  "one_active s =
     (\<forall>p a b v w. dict_get (pa_versions s) (p, a) = Some v \<longrightarrow> dict_get (pa_versions s) (p, b) = Some w
        \<longrightarrow> pv_status v = PS_ACTIVE \<longrightarrow> pv_status w = PS_ACTIVE \<longrightarrow> a = b)"

definition policy_repo_inv :: "policy_repo \<Rightarrow> bool" where
  "policy_repo_inv s =
     (dict_ok (pa_versions s) \<and> dict_ok (pa_definitions s) \<and> versions_inv s \<and> definitions_inv s
      \<and> one_active s)"

text \<open>
  How a stored version may change: its identity and origin stay, its status only moves forward, and
  its rules and target types are frozen once it has left the draft state.
\<close>

fun status_rank :: "policy_status \<Rightarrow> nat" where
  "status_rank PS_DRAFT = 0"
| "status_rank PS_ACTIVE = 1"
| "status_rank PS_DEPRECATED = 2"
| "status_rank PS_ARCHIVED = 3"

definition version_evolves :: "policy_version \<Rightarrow> policy_version \<Rightarrow> bool" where
  "version_evolves v w =
     (pv_policy_id w = pv_policy_id v \<and> pv_version w = pv_version v
      \<and> pv_created_by w = pv_created_by v \<and> pv_created_at w = pv_created_at v
      \<and> status_rank (pv_status v) \<le> status_rank (pv_status w)
      \<and> (pv_status v \<noteq> PS_DRAFT \<longrightarrow> pv_rules w = pv_rules v \<and> pv_target_types w = pv_target_types v))"

lemma version_evolves_refl: "version_evolves v v"
  by (simp add: version_evolves_def)

lemma version_evolves_trans: "version_evolves u v \<Longrightarrow> version_evolves v w \<Longrightarrow> version_evolves u w"
  unfolding version_evolves_def by (cases "pv_status u"; cases "pv_status v") auto

text \<open>The two writes of the repository, with what the service guarantees about their argument.\<close>

inductive policy_repo_step :: "policy_repo \<Rightarrow> policy_repo \<Rightarrow> bool" where
  write_definition:
    "definition_ok d \<Longrightarrow> save_definition d s = (r, s') \<Longrightarrow> policy_repo_step s s'"
| write_version:
    "version_ok v \<Longrightarrow> get_definition s (pv_policy_id v) \<noteq> None \<Longrightarrow>
     (case get_version s (pv_policy_id v) (pv_version v) of
        None \<Rightarrow> pv_status v = PS_DRAFT | Some w \<Rightarrow> version_evolves w v) \<Longrightarrow>
     save_version v s = (r, s') \<Longrightarrow> policy_repo_step s s'"

lemma empty_policy_repo_inv [simp]: "policy_repo_inv empty_policy_repo"
  by (simp add: policy_repo_inv_def empty_policy_repo_def versions_inv_def definitions_inv_def one_active_def)

lemma set_list_versions:
  "dict_ok (pa_versions s) \<Longrightarrow>
     v \<in> set (list_versions s p) \<longleftrightarrow> (\<exists>a. dict_get (pa_versions s) (p, a) = Some v)"
  by (force simp: list_versions_def dict_ok_def)

lemma get_active_version_Some:
  assumes "policy_repo_inv s" "get_active_version s p = Some v"
  shows "dict_get (pa_versions s) (p, pv_version v) = Some v" "pv_status v = PS_ACTIVE"
    "pv_policy_id v = p" "version_ok v"
proof -
  have ok: "dict_ok (pa_versions s)" and vi: "versions_inv s"
    using assms(1) by (simp_all add: policy_repo_inv_def)
  from find_Some_set [OF assms(2) [unfolded get_active_version_def]] ok
  obtain a where a: "dict_get (pa_versions s) (p, a) = Some v" and st: "pv_status v = PS_ACTIVE"
    by (auto simp: set_list_versions)
  from vi a have "(p, a) = (pv_policy_id v, pv_version v)" "version_ok v"
    unfolding versions_inv_def by blast+
  with a st show "dict_get (pa_versions s) (p, pv_version v) = Some v" "pv_status v = PS_ACTIVE"
    "pv_policy_id v = p" "version_ok v" by simp_all
qed

lemma get_active_version_None:
  assumes "policy_repo_inv s" "get_active_version s p = None"
    "dict_get (pa_versions s) (p, a) = Some v"
  shows "pv_status v \<noteq> PS_ACTIVE"
  using assms
  by (auto simp: get_active_version_def find_None_iff_all set_list_versions policy_repo_inv_def)

lemma get_active_version_iff:
  assumes "policy_repo_inv s"
  shows "get_active_version s p = Some v \<longleftrightarrow>
    dict_get (pa_versions s) (p, pv_version v) = Some v \<and> pv_status v = PS_ACTIVE"
proof (cases "get_active_version s p")
  case None
  with get_active_version_None [OF assms None] show ?thesis by auto
next
  case (Some w)
  note w = get_active_version_Some [OF assms Some]
  have "one_active s" using assms by (simp add: policy_repo_inv_def)
  then have "pv_version v = pv_version w"
    if "dict_get (pa_versions s) (p, pv_version v) = Some v" "pv_status v = PS_ACTIVE"
    using w that unfolding one_active_def by blast
  with w Some show ?thesis by auto
qed

lemma version_ok_deprecated:
  assumes "version_ok v" "tz_aware t"
  shows "version_ok (v\<lparr>pv_status := PS_DEPRECATED, pv_deprecated_at := Some t\<rparr>)"
  using assms by (simp add: version_ok_def version_checks_def)

lemma version_okD:
  assumes "version_ok v"
  shows "tz_aware (pv_created_at v)" "pv_activated_at v = Some t \<Longrightarrow> tz_aware t"
    "\<not> blank (pv_policy_id v)" "\<not> blank (pv_version v)"
    "pv_rules v \<noteq> []" "pv_target_types v \<noteq> []"
  using assms by (simp_all add: version_ok_def version_checks_def)

lemma new_version_ok:
  "new_version v = Inr w \<longleftrightarrow> w = v \<and> all_pass (version_checks v)"
  by (auto simp: new_version_def checked_Inr_iff)

lemma new_definition_ok: "new_definition d = Inr e \<longleftrightarrow> e = d \<and> definition_ok d"
  by (auto simp: new_definition_def definition_ok_def checked_Inr_iff)

definition version_after ::
  "policy_version \<Rightarrow> policy_repo \<Rightarrow> string \<times> string \<Rightarrow> policy_version option" where
  "version_after v s k =
       (if k = (pv_policy_id v, pv_version v) then Some v
        else case dict_get (pa_versions s) k of None \<Rightarrow> None
             | Some w \<Rightarrow> if pv_status v = PS_ACTIVE \<and> pv_status w = PS_ACTIVE \<and> fst k = pv_policy_id v
                         then Some (w\<lparr>pv_status := PS_DEPRECATED,
                                pv_deprecated_at := Some (opt_or (pv_activated_at v) (pv_created_at v))\<rparr>)
                         else Some w)"

lemma version_after_active:
  "version_after v s (p, a) = Some x \<Longrightarrow> pv_status x = PS_ACTIVE \<Longrightarrow>
     (p = pv_policy_id v \<and> a = pv_version v \<and> x = v)
     \<or> (dict_get (pa_versions s) (p, a) = Some x \<and> \<not> (pv_status v = PS_ACTIVE \<and> p = pv_policy_id v))"
  by (auto simp: version_after_def split: if_splits option.splits)

text \<open>What a write of a version does: it never fails, and it deprecates the other active version.\<close>

lemma save_version_effect:
  assumes inv: "policy_repo_inv s" and ok: "version_ok v"
  obtains s' where "save_version v s = (Inr (), s')" "pa_definitions s' = pa_definitions s"
    "dict_ok (pa_versions s')"
    "\<And>k. dict_get (pa_versions s') k = version_after v s k"
proof -
  define t where "t = opt_or (pv_activated_at v) (pv_created_at v)"
  have t: "tz_aware t" unfolding t_def
    using version_okD [OF ok] by (cases "pv_activated_at v") simp_all
  have dict: "dict_ok (pa_versions s)" using inv by (simp add: policy_repo_inv_def)
  let ?active = "if pv_status v = PS_ACTIVE then get_active_version s (pv_policy_id v) else None"
  show ?thesis
  proof (cases ?active)
    case None
    have eq: "save_version v s = (Inr (), put_version v s)"
      by (simp add: save_version_def None)
    have other: "pv_status w \<noteq> PS_ACTIVE"
      if "pv_status v = PS_ACTIVE" "dict_get (pa_versions s) k = Some w" "fst k = pv_policy_id v" for k w
      using get_active_version_None [OF inv, of "pv_policy_id v" "snd k" w] None that
      by (cases k) simp
    show ?thesis
      by (rule that [OF eq])
        (use dict other in \<open>auto simp: version_after_def put_version_def dict_get_put split: option.splits\<close>)
  next
    case (Some a)
    then have act: "pv_status v = PS_ACTIVE" and ga: "get_active_version s (pv_policy_id v) = Some a"
      by (simp_all split: if_splits)
    note a = get_active_version_Some [OF inv ga]
    have uniq: "snd k = pv_version a"
      if "dict_get (pa_versions s) k = Some w" "fst k = pv_policy_id v" "pv_status w = PS_ACTIVE" for k w
      using inv a that unfolding policy_repo_inv_def one_active_def by (metis prod.collapse)
    define d where "d = a\<lparr>pv_status := PS_DEPRECATED, pv_deprecated_at := Some t\<rparr>"
    have d: "new_version d = Inr d"
      using version_ok_deprecated [OF a(4) t] by (simp add: new_version_ok version_ok_def d_def)
    show ?thesis
    proof (cases "pv_version a = pv_version v")
      case True
      have eq: "save_version v s = (Inr (), put_version v s)"
        by (simp add: save_version_def act ga True)
      show ?thesis
        by (rule that [OF eq])
          (use dict uniq True in \<open>force simp: version_after_def put_version_def dict_get_put split: option.splits\<close>)+
    next
      case False
      have eq: "save_version v s = (Inr (), put_version v (put_version d s))"
        by (simp add: save_version_def act ga False d [unfolded d_def t_def] d_def t_def)
      have key: "(pv_policy_id d, pv_version d) = (pv_policy_id v, pv_version a)"
        using a by (simp add: d_def)
      show ?thesis
      proof (rule that [OF eq])
        fix k
        show "dict_get (pa_versions (put_version v (put_version d s))) k = version_after v s k"
          (is "?new = ?spec")
        proof (cases "k = (pv_policy_id v, pv_version a)")
          case True
          with False have "?new = Some d" by (simp add: put_version_def dict_get_put key)
          moreover from True False a act have "?spec = Some d" by (simp add: version_after_def d_def t_def)
          ultimately show ?thesis by simp
        next
          case k: False
          then have "\<not> (fst k = pv_policy_id v \<and> pv_status w = PS_ACTIVE)"
            if "dict_get (pa_versions s) k = Some w" for w
            using uniq [OF that] by (cases k) auto
          with k show ?thesis by (auto simp: version_after_def put_version_def dict_get_put key split: option.splits)
        qed
      qed (use dict in \<open>simp_all add: put_version_def\<close>)
    qed
  qed
qed

lemma policy_repo_inv_version:
  assumes "policy_repo_inv s" "dict_get (pa_versions s) k = Some v"
  shows "k = (pv_policy_id v, pv_version v)" "version_ok v"
    "dict_get (pa_definitions s) (pv_policy_id v) \<noteq> None"
  using assms unfolding policy_repo_inv_def versions_inv_def by blast+

lemma policy_repo_inv_definition:
  assumes "policy_repo_inv s" "dict_get (pa_definitions s) k = Some d"
  shows "k = pd_policy_id d" "definition_ok d"
  using assms unfolding policy_repo_inv_def definitions_inv_def by blast+

lemma save_definition_inv:
  assumes "policy_repo_inv s" "definition_ok d" "save_definition d s = (r, s')"
  shows "policy_repo_inv s'"
proof (cases "s' = s")
  case True
  with assms(1) show ?thesis by simp
next
  case False
  then have fresh: "\<And>e. e \<in> set (dict_values (pa_definitions s)) \<Longrightarrow> pd_policy_id e \<noteq> pd_policy_id d
      \<Longrightarrow> pd_project_id e = pd_project_id d \<Longrightarrow> pd_name e \<noteq> pd_name d"
    and s': "s' = s\<lparr>pa_definitions := dict_put (pd_policy_id d) d (pa_definitions s)\<rparr>"
    using assms(3) by (auto simp: save_definition_def list_ex_iff split: if_splits)
  note defs = policy_repo_inv_definition [OF assms(1)]
  have uniq: "k = k'" if "dict_get (pa_definitions s) k = Some e" "dict_get (pa_definitions s) k' = Some e'"
    "pd_project_id e = pd_project_id e'" "pd_name e = pd_name e'" for k k' e e'
    using assms(1) that unfolding policy_repo_inv_def definitions_inv_def by blast
  have new: "pd_name e \<noteq> pd_name d"
    if "dict_get (pa_definitions s) k = Some e" "k \<noteq> pd_policy_id d" "pd_project_id e = pd_project_id d" for k e
    using fresh [OF dict_get_Some_values [OF that(1)]] defs(1) [OF that(1)] that by simp
  have "definitions_inv s'"
    unfolding definitions_inv_def
  proof (intro conjI allI impI)
    fix k e assume "dict_get (pa_definitions s') k = Some e"
    then show "k = pd_policy_id e" "definition_ok e"
      using defs assms(2) by (auto simp: s' dict_get_put split: if_splits)
  next
    fix k k' e e'
    assume "dict_get (pa_definitions s') k = Some e" "dict_get (pa_definitions s') k' = Some e'"
      "pd_project_id e = pd_project_id e'" "pd_name e = pd_name e'"
    then show "k = k'"
      using uniq [of k e k' e'] new [of k e] new [of k' e']
      by (auto simp: s' dict_get_put split: if_splits)
  qed
  then show ?thesis
    using assms(1) unfolding policy_repo_inv_def s' versions_inv_def one_active_def
    by (auto simp: dict_get_put)
qed

lemma save_version_inv:
  assumes "policy_repo_inv s" "version_ok v" "get_definition s (pv_policy_id v) \<noteq> None"
    "save_version v s = (r, s')"
  shows "policy_repo_inv s'"
proof -
  obtain s'' where s'': "save_version v s = (Inr (), s'')" and defs: "pa_definitions s'' = pa_definitions s"
    and dict: "dict_ok (pa_versions s'')" and look: "\<And>k. dict_get (pa_versions s'') k = version_after v s k"
    using save_version_effect [OF assms(1,2)] by metis
  have t: "tz_aware (opt_or (pv_activated_at v) (pv_created_at v))"
    using version_okD [OF assms(2)] by (cases "pv_activated_at v") simp_all
  note old = policy_repo_inv_version [OF assms(1)]
  have "versions_inv s''"
    unfolding versions_inv_def
  proof (intro allI impI)
    fix k w assume w: "dict_get (pa_versions s'') k = Some w"
    show "k = (pv_policy_id w, pv_version w) \<and> version_ok w
        \<and> dict_get (pa_definitions s'') (pv_policy_id w) \<noteq> None"
    proof (cases "k = (pv_policy_id v, pv_version v)")
      case True
      with w assms(2,3) defs show ?thesis by (simp add: look version_after_def get_definition_def)
    next
      case False
      with w obtain u where u: "dict_get (pa_versions s) k = Some u"
        and wu: "w = u \<or> w = u\<lparr>pv_status := PS_DEPRECATED,
            pv_deprecated_at := Some (opt_or (pv_activated_at v) (pv_created_at v))\<rparr>"
        by (auto simp: look version_after_def split: option.splits if_splits)
      from wu show ?thesis
        using old [OF u] version_ok_deprecated [OF old(2) [OF u] t] by (auto simp: defs)
    qed
  qed
  moreover have "one_active s''"
  proof -
    have one: "a = b" if "dict_get (pa_versions s) (p, a) = Some x" "dict_get (pa_versions s) (p, b) = Some y"
      "pv_status x = PS_ACTIVE" "pv_status y = PS_ACTIVE" for p a b x y
      using assms(1) that unfolding policy_repo_inv_def one_active_def by blast
    show ?thesis
      unfolding one_active_def look
    proof (intro allI impI)
      fix p a b x y
      assume x: "version_after v s (p, a) = Some x" "pv_status x = PS_ACTIVE"
        and y: "version_after v s (p, b) = Some y" "pv_status y = PS_ACTIVE"
      from version_after_active [OF x] version_after_active [OF y] show "a = b"
        using one [of p a x b y] x(2) y(2) by metis
    qed
  qed
  moreover have "definitions_inv s'' = definitions_inv s"
    by (simp only: definitions_inv_def defs)
  ultimately show ?thesis
    using s'' assms(1,4) dict defs by (simp add: policy_repo_inv_def)
qed

lemma policy_repo_step_inv: "policy_repo_step s s' \<Longrightarrow> policy_repo_inv s \<Longrightarrow> policy_repo_inv s'"
  by (induction rule: policy_repo_step.induct) (auto intro: save_definition_inv save_version_inv)

lemma policy_repo_step_keeps:
  assumes "policy_repo_step s s'" "policy_repo_inv s" "dict_get (pa_versions s) k = Some v"
  shows "\<exists>w. dict_get (pa_versions s') k = Some w \<and> version_evolves v w"
  using assms(1)
proof cases
  case (write_definition d r)
  then have "pa_versions s' = pa_versions s"
    by (auto simp: save_definition_def split: if_splits)
  with assms(3) show ?thesis by (auto intro: version_evolves_refl)
next
  case (write_version u r)
  note old = policy_repo_inv_version [OF assms(2,3)]
  show ?thesis
  proof (rule save_version_effect [OF assms(2) write_version(1)])
    fix s'' assume s'': "save_version u s = (Inr (), s'')"
      and look: "\<And>k. dict_get (pa_versions s'') k = version_after u s k"
    have "s'' = s'" using s'' write_version(4) by simp
    then show ?thesis
      using look [of k] assms(3) write_version(3) version_evolves_refl [of v]
      by (auto simp: version_after_def get_version_def version_evolves_def)
  qed
qed

interpretation policy_versions: evolving_store
  policy_repo_step "\<lambda>s. dict_get (pa_versions s)" version_evolves policy_repo_inv
  by unfold_locales
    (auto intro: version_evolves_refl version_evolves_trans policy_repo_step_inv policy_repo_step_keeps)

section \<open>Safety of the service\<close>

text \<open>Every public command of the service, with every outcome; rules arrive constructed.\<close>

inductive policy_service_step :: "policy_repo \<Rightarrow> policy_repo \<Rightarrow> bool" where
  "\<forall>r \<in> set rules. rule_ok r \<Longrightarrow> create_policy now p given tts rules s = (r, s') \<Longrightarrow>
     policy_service_step s s'"
| "\<forall>r \<in> set rules. rule_ok r \<Longrightarrow> create_policy_version now now2 p base tts rules by md s = (r, s') \<Longrightarrow>
     policy_service_step s s'"
| "\<forall>r \<in> set rules. rule_ok r \<Longrightarrow> update_draft_version now p ver tts rules by md s = (r, s') \<Longrightarrow>
     policy_service_step s s'"
| "activate_version now now2 p ver by s = (r, s') \<Longrightarrow> policy_service_step s s'"
| "archive_version now now2 p ver by s = (r, s') \<Longrightarrow> policy_service_step s s'"

lemma get_policy_detail_within [within_intros]: "act_within R (get_policy_detail p) s"
  by (rule act_within_step) (auto simp: get_policy_detail_def Let_def split: sum.splits)

lemma touch_definition_within [within_intros]: "act_within policy_repo_step (touch_definition d now) s"
  by (rule act_within_step)
    (auto simp: touch_definition_def new_definition_ok split: sum.splits intro: policy_repo_step.intros)

lemma save_definition_within: "definition_ok d \<Longrightarrow> act_within policy_repo_step (save_definition d) s"
  by (rule act_within_step) (auto intro: policy_repo_step.intros)

lemma save_version_within:
  assumes "version_ok v" "get_definition s (pv_policy_id v) \<noteq> None"
    "case get_version s (pv_policy_id v) (pv_version v) of
        None \<Rightarrow> pv_status v = PS_DRAFT | Some w \<Rightarrow> version_evolves w v"
  shows "act_within policy_repo_step (save_version v) s"
  by (rule act_within_step) (use assms in \<open>auto intro: policy_repo_step.write_version\<close>)

text \<open>The tail of every command that has written a version.\<close>

lemma finish_within:
  "act_within policy_repo_step (act_bind (touch_definition d now) (\<lambda>_. get_policy_detail p)) s"
  by (rule act_within_bind) (rule within_intros)+

lemma finish_with_definition_within:
  "act_within policy_repo_step
     (act_bind (\<lambda>s. act_lift (service_get_definition s p) s)
       (\<lambda>definition. act_bind (touch_definition definition now) (\<lambda>_. get_policy_detail p))) s"
  by (rule act_within_bind) (simp add: act_within_def, rule finish_within)

lemma service_get_version_Inr:
  "service_get_version s p ver = Inr v \<longleftrightarrow> dict_get (pa_versions s) (p, ver) = Some v"
  by (auto simp: service_get_version_def get_version_def split: option.splits)

lemma service_get_definition_Inr:
  "service_get_definition s p = Inr d \<longleftrightarrow> dict_get (pa_definitions s) p = Some d"
  by (auto simp: service_get_definition_def get_definition_def split: option.splits)

lemma save_definition_effect:
  "save_definition d s = (Inr u, s') \<Longrightarrow>
     pa_versions s' = pa_versions s \<and> get_definition s' (pd_policy_id d) = Some d"
  by (auto simp: save_definition_def get_definition_def dict_get_put split: if_splits)

lemma as_policy_conflict_within:
  "act_within R m s \<Longrightarrow> act_within R (as_policy_conflict m) s"
  by (auto simp: act_within_def as_policy_conflict_def split: prod.splits sum.splits)

lemma version_okI:
  assumes "new_version v = Inr w" "\<forall>r \<in> set (pv_rules v). rule_ok r"
  shows "version_ok w"
  using assms by (auto simp: new_version_ok version_ok_def rule_ok_def)

lemma create_policy_within:
  assumes inv: "policy_repo_inv s" and rules: "\<forall>r \<in> set rules. rule_ok r"
  shows "act_within policy_repo_step (create_policy now p given tts rules) s"
proof (cases "service_get_definition s p")
  case (Inr d)
  then show ?thesis by (simp add: create_policy_def act_within_def)
next
  case (Inl e)
  then have fresh: "dict_get (pa_definitions s) p = None"
    by (cases "dict_get (pa_definitions s) p") (simp_all add: service_get_definition_def get_definition_def)
  then have no_version: "get_version s p ver = None" for ver
    using policy_repo_inv_version [OF inv, of "(p, ver)"] unfolding get_version_def
    by (cases "dict_get (pa_versions s) (p, ver)") auto
  have "act_within policy_repo_step
     (act_bind (act_lift (new_definition
          (given\<lparr>pd_policy_id := p, pd_created_at := now, pd_updated_at := now\<rparr>))) (\<lambda>definition.
      act_bind (act_lift (new_version
          \<lparr>pv_policy_id = p, pv_version = ''1'', pv_status = PS_DRAFT,
           pv_target_types = tts, pv_rules = rules, pv_created_by = pd_created_by given,
           pv_created_at = now, pv_activated_at = None, pv_deprecated_at = None,
           pv_archived_at = None, pv_metadata = []\<rparr>)) (\<lambda>version.
      act_bind (act_lift (validate_version version)) (\<lambda>_.
      act_bind (as_policy_conflict
          (act_bind (save_definition definition) (\<lambda>_. save_version version))) (\<lambda>_.
      get_policy_detail p))))) s"
  proof (intro act_within_bind_lift)
    fix d v u
    assume d: "new_definition (given\<lparr>pd_policy_id := p, pd_created_at := now, pd_updated_at := now\<rparr>) = Inr d"
      and v: "new_version \<lparr>pv_policy_id = p, pv_version = ''1'', pv_status = PS_DRAFT,
           pv_target_types = tts, pv_rules = rules, pv_created_by = pd_created_by given,
           pv_created_at = now, pv_activated_at = None, pv_deprecated_at = None,
           pv_archived_at = None, pv_metadata = []\<rparr> = Inr v"
    have dok: "definition_ok d" "pd_policy_id d = p" using d by (auto simp: new_definition_ok)
    have vok: "version_ok v" using version_okI [OF v] rules by simp
    have v': "pv_policy_id v = p" "pv_version v = ''1''" "pv_status v = PS_DRAFT"
      using v by (auto simp: new_version_ok)
    have "act_within policy_repo_step (save_version v) s'"
      if "save_definition d s = (Inr x, s')" for x s'
      using save_definition_effect [OF that] dok no_version [of "''1''"]
      by (intro save_version_within [OF vok]) (simp_all add: v' get_version_def)
    then have "act_within policy_repo_step (act_bind (save_definition d) (\<lambda>_. save_version v)) s"
      by (intro act_within_bind save_definition_within dok) auto
    then show "act_within policy_repo_step
        (act_bind (as_policy_conflict (act_bind (save_definition d) (\<lambda>_. save_version v)))
          (\<lambda>_. get_policy_detail p)) s"
      by (rule act_within_bind [OF as_policy_conflict_within]) (rule within_intros)
  qed
  then show ?thesis
    by (simp add: act_within_def create_policy_def Inl)
qed

text \<open>The number given to a new version is not in use.\<close>

lemma next_version_fresh:
  assumes "policy_repo_inv s"
  shows "get_version s p (next_version s p) = None"
proof (rule ccontr)
  define nums where "nums = List.map_filter (\<lambda>v. py_int (pv_version v)) (list_versions s p)"
  define n where "n = (if nums = [] then 0 else Max (set nums)) + 1"
  have nv: "next_version s p = py_str_int n"
    by (simp add: next_version_def nums_def n_def Let_def)
  assume "get_version s p (next_version s p) \<noteq> None"
  then obtain v where v: "dict_get (pa_versions s) (p, py_str_int n) = Some v"
    by (auto simp: get_version_def nv)
  have "dict_ok (pa_versions s)" using assms by (simp add: policy_repo_inv_def)
  with v have "v \<in> set (list_versions s p)" by (auto simp: set_list_versions)
  moreover have "pv_version v = py_str_int n"
    using policy_repo_inv_version(1) [OF assms v] by simp
  ultimately have mem: "n \<in> set nums"
    unfolding nums_def by (force simp: map_filter_def py_int_str_int)
  then have "n \<le> Max (set nums)" "nums \<noteq> []" by auto
  then show False by (simp add: n_def)
qed

lemma create_policy_version_within:
  assumes inv: "policy_repo_inv s" and rules: "\<forall>r \<in> set rules. rule_ok r"
  shows "act_within policy_repo_step (create_policy_version now now2 p base tts rules by md) s"
  unfolding act_within_def create_policy_version_def
proof (fold act_within_def, intro act_within_bind_lift)
  fix d u v w
  let ?v = "\<lparr>pv_policy_id = p, pv_version = next_version s p, pv_status = PS_DRAFT,
          pv_target_types = tts, pv_rules = rules, pv_created_by = by,
          pv_created_at = now, pv_activated_at = None, pv_deprecated_at = None,
          pv_archived_at = None, pv_metadata = md\<rparr>"
  assume d: "service_get_definition s p = Inr d" and v: "new_version ?v = Inr v"
  have vok: "version_ok v" using version_okI [OF v] rules by simp
  have v': "v = ?v" using v by (simp add: new_version_ok)
  have "act_within policy_repo_step (save_version v) s"
    by (rule save_version_within [OF vok])
      (use d in \<open>simp_all add: v' next_version_fresh [OF inv] service_get_definition_Inr get_definition_def\<close>)
  then show "act_within policy_repo_step
      (act_bind (save_version v) (\<lambda>_. act_bind (touch_definition d now2) (\<lambda>_. get_policy_detail p))) s"
    by (rule act_within_bind) (rule finish_within)
qed

lemma update_draft_version_within:
  assumes inv: "policy_repo_inv s" and rules: "\<forall>r \<in> set rules. rule_ok r"
  shows "act_within policy_repo_step (update_draft_version now p ver tts rules by md) s"
  unfolding act_within_def update_draft_version_def
proof (fold act_within_def, rule act_within_bind_lift)
  fix x assume x: "service_get_version s p ver = Inr x"
  note old = policy_repo_inv_version [OF inv x [unfolded service_get_version_Inr]]
  let ?u = "x\<lparr>pv_target_types := tts, pv_rules := rules,
            pv_metadata := dict_merge (dict_merge (pv_metadata x) md) [(''updated_by'', PStr by)]\<rparr>"
  show "act_within policy_repo_step (if pv_status x \<noteq> PS_DRAFT
     then act_raise (Exc InvalidPolicyRequestError ''Only draft policy versions can be updated.'')
     else act_bind (act_lift (new_version ?u)) (\<lambda>updated.
       act_bind (act_lift (validate_version updated)) (\<lambda>_.
       act_bind (save_version updated) (\<lambda>_.
       act_bind (\<lambda>s. act_lift (service_get_definition s p) s) (\<lambda>definition.
       act_bind (touch_definition definition now) (\<lambda>_. get_policy_detail p)))))) s"
  proof (cases "pv_status x = PS_DRAFT")
    case False
    then show ?thesis by (simp add: within_intros)
  next
    case True
    show ?thesis
      unfolding True
    proof (simp only: simp_thms if_False, intro act_within_bind_lift)
      fix u w assume u: "new_version ?u = Inr u"
      have uok: "version_ok u" using version_okI [OF u] rules by simp
      have u': "u = ?u" using u by (simp add: new_version_ok)
      have ev: "version_evolves x u" by (simp add: u' version_evolves_def True)
      have "act_within policy_repo_step (save_version u) s"
        by (rule save_version_within [OF uok])
          (use x old ev in \<open>simp_all add: u' service_get_version_Inr get_version_def get_definition_def\<close>)
      then show "act_within policy_repo_step (act_bind (save_version u) (\<lambda>_.
          act_bind (\<lambda>s. act_lift (service_get_definition s p) s) (\<lambda>definition.
          act_bind (touch_definition definition now) (\<lambda>_. get_policy_detail p)))) s"
        by (rule act_within_bind) (rule finish_with_definition_within)
    qed
  qed
qed

lemma archive_version_within:
  assumes inv: "policy_repo_inv s"
  shows "act_within policy_repo_step (archive_version now now2 p ver by) s"
  unfolding act_within_def archive_version_def
proof (fold act_within_def, rule act_within_bind_lift)
  fix x assume x: "service_get_version s p ver = Inr x"
  note old = policy_repo_inv_version [OF inv x [unfolded service_get_version_Inr]]
  let ?u = "x\<lparr>pv_status := PS_ARCHIVED, pv_archived_at := Some now,
            pv_metadata := dict_merge (pv_metadata x) [(''archived_by'', PStr by)]\<rparr>"
  have "act_within policy_repo_step (act_bind (act_lift (new_version ?u)) (\<lambda>archived.
       act_bind (save_version archived) (\<lambda>_.
       act_bind (\<lambda>s. act_lift (service_get_definition s p) s) (\<lambda>definition.
       act_bind (touch_definition definition now2) (\<lambda>_. get_policy_detail p))))) s"
  proof (rule act_within_bind_lift)
    fix u assume u: "new_version ?u = Inr u"
    have uok: "version_ok u"
      by (rule version_okI [OF u]) (use version_ok_rules [OF old(2)] in simp)
    have u': "u = ?u" using u by (simp add: new_version_ok)
    have ev: "version_evolves x u"
      by (cases "pv_status x") (simp_all add: u' version_evolves_def)
    have "act_within policy_repo_step (save_version u) s"
      by (rule save_version_within [OF uok])
        (use x old ev in \<open>simp_all add: u' service_get_version_Inr get_version_def get_definition_def\<close>)
    then show "act_within policy_repo_step (act_bind (save_version u) (\<lambda>_.
        act_bind (\<lambda>s. act_lift (service_get_definition s p) s) (\<lambda>definition.
        act_bind (touch_definition definition now2) (\<lambda>_. get_policy_detail p)))) s"
      by (rule act_within_bind) (rule finish_with_definition_within)
  qed
  then show "act_within policy_repo_step (if pv_status x = PS_ARCHIVED then get_policy_detail p
     else act_bind (act_lift (new_version ?u)) (\<lambda>archived.
       act_bind (save_version archived) (\<lambda>_.
       act_bind (\<lambda>s. act_lift (service_get_definition s p) s) (\<lambda>definition.
       act_bind (touch_definition definition now2) (\<lambda>_. get_policy_detail p))))) s"
    by (simp add: within_intros)
qed

lemma deprecate_active_within:
  assumes "policy_repo_inv s"
  shows "act_within policy_repo_step (deprecate_active s p now) s"
proof (cases "get_active_version s p")
  case None
  then show ?thesis by (simp add: deprecate_active_def within_intros)
next
  case (Some a)
  note a = get_active_version_Some [OF assms Some]
  let ?d = "a\<lparr>pv_status := PS_DEPRECATED, pv_deprecated_at := Some now\<rparr>"
  have "act_within policy_repo_step (act_bind (act_lift (new_version ?d)) save_version) s"
  proof (rule act_within_bind_lift)
    fix d assume d: "new_version ?d = Inr d"
    have dok: "version_ok d" by (rule version_okI [OF d]) (use version_ok_rules [OF a(4)] in simp)
    have d': "d = ?d" using d by (simp add: new_version_ok)
    have "version_evolves a d" by (simp add: d' version_evolves_def a)
    then show "act_within policy_repo_step (save_version d) s"
      by (intro save_version_within [OF dok])
        (use a policy_repo_inv_version(3) [OF assms a(1)] in
          \<open>simp_all add: d' get_version_def get_definition_def\<close>)
  qed
  then show ?thesis by (simp add: deprecate_active_def Some)
qed

lemma deprecate_active_effect:
  assumes inv: "policy_repo_inv s" and run: "deprecate_active s p now s = (Inr u, s')"
  shows "policy_repo_inv s'" "pa_definitions s' = pa_definitions s"
    and "\<And>k v. dict_get (pa_versions s) k = Some v \<Longrightarrow> pv_status v \<noteq> PS_ACTIVE \<Longrightarrow>
           dict_get (pa_versions s') k = Some v"
    and "get_active_version s' p = None"
proof -
  show inv': "policy_repo_inv s'"
    using policy_versions.inv_run [OF act_withinD [OF deprecate_active_within [OF inv] run] inv] .
  have "pa_definitions s' = pa_definitions s \<and>
      (\<forall>k v. dict_get (pa_versions s) k = Some v \<longrightarrow> pv_status v \<noteq> PS_ACTIVE \<longrightarrow>
           dict_get (pa_versions s') k = Some v) \<and> get_active_version s' p = None"
  proof (cases "get_active_version s p")
    case None
    with run show ?thesis by (simp add: deprecate_active_def)
  next
    case (Some a)
    note a = get_active_version_Some [OF inv Some]
    define d where "d = a\<lparr>pv_status := PS_DEPRECATED, pv_deprecated_at := Some now\<rparr>"
    have d: "pv_status d \<noteq> PS_ACTIVE" "(pv_policy_id d, pv_version d) = (p, pv_version a)"
      using a by (simp_all add: d_def)
    have "s' = put_version d s"
      using run by (auto simp: deprecate_active_def Some d_def [symmetric] new_version_ok save_version_def d
          split: sum.splits)
    then have look: "\<And>k. dict_get (pa_versions s') k = (if k = (p, pv_version a) then Some d else dict_get (pa_versions s) k)"
      and defs: "pa_definitions s' = pa_definitions s"
      using d by (simp_all add: put_version_def dict_get_put)
    have "get_active_version s' p \<noteq> Some v" for v
      using d a inv unfolding get_active_version_iff [OF inv'] look policy_repo_inv_def one_active_def
      by (auto split: if_splits)
    then show ?thesis using look defs a by auto
  qed
  then show "pa_definitions s' = pa_definitions s" "get_active_version s' p = None"
    "\<And>k v. dict_get (pa_versions s) k = Some v \<Longrightarrow> pv_status v \<noteq> PS_ACTIVE \<Longrightarrow>
       dict_get (pa_versions s') k = Some v" by blast+
qed

lemma activate_version_within:
  assumes inv: "policy_repo_inv s"
  shows "act_within policy_repo_step (activate_version now now2 p ver by) s"
  unfolding act_within_def activate_version_def
proof (fold act_within_def, rule act_within_bind_lift)
  fix x assume x: "service_get_version s p ver = Inr x"
  note look = x [unfolded service_get_version_Inr]
  note old = policy_repo_inv_version [OF inv look]
  let ?u = "x\<lparr>pv_status := PS_ACTIVE, pv_activated_at := Some now,
            pv_metadata := dict_merge (pv_metadata x) [(''activated_by'', PStr by)]\<rparr>"
  have "act_within policy_repo_step
      (act_bind (act_lift (service_get_definition s p)) (\<lambda>definition.
       act_bind (act_lift (validate_runtime_authorization_activation definition x)) (\<lambda>_.
       act_bind (deprecate_active s p now) (\<lambda>_.
       act_bind (act_lift (new_version ?u)) (\<lambda>activated.
       act_bind (save_version activated) (\<lambda>_.
       act_bind (touch_definition definition now2) (\<lambda>_. get_policy_detail p))))))) s"
    if draft: "pv_status x = PS_DRAFT"
  proof (intro act_within_bind_lift, rule act_within_bind [OF deprecate_active_within [OF inv]],
      rule act_within_bind_lift)
    fix d w z s' u
    assume run: "deprecate_active s p now s = (Inr z, s')" and u: "new_version ?u = Inr u"
    note eff = deprecate_active_effect [OF inv run]
    have uok: "version_ok u" by (rule version_okI [OF u]) (use version_ok_rules [OF old(2)] in simp)
    have u': "u = ?u" using u by (simp add: new_version_ok)
    have "dict_get (pa_versions s') (p, ver) = Some x" using eff(3) [OF look] draft by simp
    moreover have "version_evolves x u" by (simp add: u' version_evolves_def draft)
    ultimately have "act_within policy_repo_step (save_version u) s'"
      by (intro save_version_within [OF uok])
        (use old(1,3) in \<open>simp_all add: u' get_version_def get_definition_def eff(2)\<close>)
    then show "act_within policy_repo_step (act_bind (save_version u) (\<lambda>_.
        act_bind (touch_definition d now2) (\<lambda>_. get_policy_detail p))) s'"
      by (rule act_within_bind) (rule finish_within)
  qed
  then show "act_within policy_repo_step
     (if pv_status x = PS_ARCHIVED
      then act_raise (Exc PolicyActivationFailedError ''Archived policy versions cannot be activated.'')
      else if pv_status x \<noteq> PS_DRAFT
      then act_raise (Exc PolicyActivationFailedError ''Only draft policy versions can be activated.'')
      else act_bind (act_lift (service_get_definition s p)) (\<lambda>definition.
       act_bind (act_lift (validate_runtime_authorization_activation definition x)) (\<lambda>_.
       act_bind (deprecate_active s p now) (\<lambda>_.
       act_bind (act_lift (new_version ?u)) (\<lambda>activated.
       act_bind (save_version activated) (\<lambda>_.
       act_bind (touch_definition definition now2) (\<lambda>_. get_policy_detail p))))))) s"
    by (simp add: within_intros)
qed

lemmas policy_commands_within =
  create_policy_within create_policy_version_within update_draft_version_within
  activate_version_within archive_version_within

lemma policy_service_step_within:
  "policy_service_step s s' \<Longrightarrow> policy_repo_inv s \<Longrightarrow> policy_repo_step\<^sup>*\<^sup>* s s'"
  by (induction rule: policy_service_step.induct) (blast intro: act_withinD policy_commands_within)+

lemma policy_service_run_within:
  "policy_service_step\<^sup>*\<^sup>* s s' \<Longrightarrow> policy_repo_inv s \<Longrightarrow> policy_repo_step\<^sup>*\<^sup>* s s'"
proof (induction rule: rtranclp_induct)
  case base
  then show ?case by simp
next
  case (step t u)
  then have "policy_repo_inv t" using policy_versions.inv_run by blast
  with step policy_service_step_within show ?case by (meson rtranclp_trans)
qed

text \<open>A successful touch writes only the definition.\<close>

lemma touch_definition_Inr:
  "touch_definition d now s = (Inr u, s') \<Longrightarrow> pa_versions s' = pa_versions s"
  by (auto simp: touch_definition_def save_definition_def split: sum.splits if_splits)

lemma get_policy_detail_Inr:
  "get_policy_detail p s = (Inr dt, s') \<Longrightarrow> s' = s \<and> pl_active_version dt = get_active_version s p"
  by (auto simp: get_policy_detail_def get_active_version_def Let_def split: sum.splits)

lemma list_versions_cong: "pa_versions s' = pa_versions s \<Longrightarrow> list_versions s' p = list_versions s p"
  by (simp add: list_versions_def)

lemma activate_version_InrE:
  assumes inv: "policy_repo_inv s" and run: "activate_version now now2 p ver by s = (Inr dt, s')"
  obtains x u d where "dict_get (pa_versions s) (p, ver) = Some x" "pv_status x = PS_DRAFT"
    "dict_get (pa_definitions s) p = Some d" "validate_runtime_authorization_activation d x = Inr ()"
    "u = x\<lparr>pv_status := PS_ACTIVE, pv_activated_at := Some now,
            pv_metadata := dict_merge (pv_metadata x) [(''activated_by'', PStr by)]\<rparr>"
    "dict_get (pa_versions s') (p, ver) = Some u" "pl_active_version dt = get_active_version s' p"
proof -
  from run obtain x where x: "service_get_version s p ver = Inr x"
    by (auto simp: activate_version_def split: sum.splits)
  note look = x [unfolded service_get_version_Inr]
  note old = policy_repo_inv_version [OF inv look]
  have draft: "pv_status x = PS_DRAFT"
    using run x by (auto simp: activate_version_def split: if_splits)
  obtain d where d: "service_get_definition s p = Inr d"
    using run x draft by (auto simp: activate_version_def split: sum.splits)
  have val: "validate_runtime_authorization_activation d x = Inr ()"
    using run x draft d by (auto simp: activate_version_def split: sum.splits)
  define u where "u = x\<lparr>pv_status := PS_ACTIVE, pv_activated_at := Some now,
            pv_metadata := dict_merge (pv_metadata x) [(''activated_by'', PStr by)]\<rparr>"
  have run': "act_bind (deprecate_active s p now) (\<lambda>_. act_bind (act_lift (new_version u)) (\<lambda>activated.
       act_bind (save_version activated) (\<lambda>_.
       act_bind (touch_definition d now2) (\<lambda>_. get_policy_detail p)))) s = (Inr dt, s')"
    using run by (simp add: activate_version_def x draft d val u_def)
  then obtain z s1 y s1' z2 s2 z3 s3 where s1: "deprecate_active s p now s = (Inr z, s1)"
    and y: "act_lift (new_version u) s1 = (Inr y, s1')" and s2: "save_version y s1' = (Inr z2, s2)"
    and s3: "touch_definition d now2 s2 = (Inr z3, s3)" and s4: "get_policy_detail p s3 = (Inr dt, s')"
    by (elim act_bind_InrE) blast
  from y have nu: "new_version u = Inr u" and s2: "save_version u s1 = (Inr z2, s2)"
    using s2 by (auto simp: new_version_ok)
  have uok: "version_ok u"
    by (rule version_okI [OF nu]) (use version_ok_rules [OF old(2)] in \<open>simp add: u_def\<close>)
  have key: "(pv_policy_id u, pv_version u) = (p, ver)" using old(1) by (simp add: u_def)
  have "dict_get (pa_versions s2) (p, ver) = Some u"
    using save_version_effect [OF deprecate_active_effect(1) [OF inv s1] uok] s2
    by (metis version_after_def key prod.inject)
  then have "dict_get (pa_versions s') (p, ver) = Some u"
    using touch_definition_Inr [OF s3] get_policy_detail_Inr [OF s4] by simp
  with that [of x d u] look draft d val show ?thesis
    using get_policy_detail_Inr [OF s4] by (simp add: u_def service_get_definition_Inr)
qed

section \<open>Properties\<close>

text \<open>
  C37. Whatever sequence of policy commands runs from the empty repository, and whatever each of them
  answers: versions and definitions are stored under their own keys and passed construction, every
  version belongs to a stored definition, policy names are unique in their project, and a policy has
  at most one ACTIVE version.
\<close>

theorem policy_service_invariant:
  assumes "policy_service_step\<^sup>*\<^sup>* empty_policy_repo s"
  shows "policy_repo_inv s"
  using policy_versions.inv_run [OF policy_service_run_within [OF assms]] by simp

text \<open>
  A policy version that has left the draft state is immutable: under every later sequence of
  commands it stays stored under its key with the same rules and target types, and its status only
  moves forward along DRAFT, ACTIVE, DEPRECATED, ARCHIVED.
\<close>

theorem released_version_frozen:
  assumes "policy_repo_inv s" "policy_service_step\<^sup>*\<^sup>* s s'"
    and "get_version s p ver = Some v" "pv_status v \<noteq> PS_DRAFT"
  shows "\<exists>w. get_version s' p ver = Some w \<and> pv_rules w = pv_rules v
    \<and> pv_target_types w = pv_target_types v \<and> status_rank (pv_status v) \<le> status_rank (pv_status w)"
  using policy_versions.lookup_run [OF policy_service_run_within [OF assms(2,1)] assms(1)
      assms(3) [unfolded get_version_def]] assms(4)
  unfolding get_version_def version_evolves_def by blast


end
