(* ===== verification/Delegation_Service.thy ===== *)
theory Delegation_Service
  imports Delegation Policy_Admin Execution_Ledger
begin

text \<open>
  \<open>services/runtime_action_delegation_service.py\<close>: an issuer registers a grant for a
  runtime actor after server-side policy checks, and revokes it. The clock and the fresh identifier
  are arguments; the execution and policy repositories are read only.
\<close>

record delegation_registration =
  rg_execution_id :: string
  rg_runtime_actor_id :: string
  rg_permissions :: "delegation_permission list"
  rg_expires_at :: datetime
  rg_idempotency_key :: string

section \<open>The policy check\<close>

definition issuance_candidates ::
  "policy_repo \<Rightarrow> tenant_context \<Rightarrow> (policy_definition \<times> policy_version) list" where
  "issuance_candidates pr cx =
     List.map_filter (\<lambda>d.
       if purpose_registration d ''runtime_action_delegation_issuance'' ''runtime_action_delegation_issuance'' = None
       then None
       else case get_active_version pr (pd_policy_id d) of
         None \<Rightarrow> None
       | Some v \<Rightarrow> if AGENT_EXECUTION \<in> set (pv_target_types v) then Some (d, v) else None)
       (list_definitions pr (active_query (cx_organization_id cx) (cx_project_id cx)))"

definition issuance_evidence :: "tenant_context \<Rightarrow> string \<Rightarrow> delegation_permission \<Rightarrow> string \<Rightarrow> (string \<times> pyval) list" where
  "issuance_evidence cx runtime_actor_id p reference =
     [(''issuer'', PDict [(''id'', PStr (cx_actor_id cx))]),
      (''runtime_actor'', PDict [(''id'', PStr runtime_actor_id)]),
      (''action'', PDict [(''id'', PStr (pm_action_id p))]),
      (''resource'', PDict [(''type'', PStr (pm_resource_type p)), (''reference'', PStr reference)])]"

definition issuance_context :: "(string \<times> pyval) list \<Rightarrow> evaluation_context" where
  "issuance_context evidence =
     \<lparr>ec_target_type = AGENT_EXECUTION, ec_target_id = ''runtime-action-delegation-issuance'',
      ec_evidence = evidence\<rparr>"

text \<open>The loop over the candidate policies for one resource reference.\<close>

fun candidates_allow ::
  "(string \<times> pyval) list \<Rightarrow> (policy_definition \<times> policy_version) list \<Rightarrow> bool \<Rightarrow> exc + bool" where
  "candidates_allow evidence [] matched_allow = Inr matched_allow"
| "candidates_allow evidence ((d, v) # cs) matched_allow =
     res_bind (to_governance_policy v d) (\<lambda>p.
     res_bind (new_evaluation_context (issuance_context evidence)) (\<lambda>ctx.
     res_bind (evaluate_with_trace p ctx) (\<lambda>t.
       if \<not> eo_matched (to_outcome t) then candidates_allow evidence cs matched_allow
       else if eo_effect (to_outcome t) \<in> {REJECT, BLOCK} then Inr False
       else if eo_effect (to_outcome t) = APPROVE then candidates_allow evidence cs True
       else Inr False)))"

fun all_res :: "('a \<Rightarrow> exc + bool) \<Rightarrow> 'a list \<Rightarrow> exc + bool" where
  "all_res f [] = Inr True"
| "all_res f (x # xs) = res_bind (f x) (\<lambda>b. if b then all_res f xs else Inr False)"

definition issuer_permitted ::
  "policy_repo \<Rightarrow> delegation_permission \<Rightarrow> string \<Rightarrow> tenant_context \<Rightarrow> exc + bool" where
  "issuer_permitted pr p runtime_actor_id cx =
     all_res (\<lambda>reference. candidates_allow (issuance_evidence cx runtime_actor_id p reference)
                 (issuance_candidates pr cx) False)
       (pm_resource_references p)"

section \<open>Registration and revocation\<close>

definition matches_registration :: "delegation \<Rightarrow> delegation_registration \<Rightarrow> tenant_context \<Rightarrow> bool" where
  "matches_registration d rg cx =
     (dg_execution_id d = rg_execution_id rg \<and> dg_issuer_id d = cx_actor_id cx
      \<and> dg_runtime_actor_id d = rg_runtime_actor_id rg \<and> dg_permissions d = rg_permissions rg
      \<and> dg_expires_at d = rg_expires_at rg)"

definition not_in_scope_error :: exc where
  "not_in_scope_error = Exc RuntimeActionDelegationNotFoundError
     ''Execution does not exist in the resolved tenant scope.''"

text \<open>
  The checks of a new registration. A naive clock makes the comparison raise \<open>TypeError\<close>. A
  context without project fails the identifier check of the delegation, as the empty string does.
\<close>

definition registered_delegation ::
  "policy_repo \<Rightarrow> datetime \<Rightarrow> string \<Rightarrow> delegation_registration \<Rightarrow> tenant_context \<Rightarrow> exc + delegation" where
  "registered_delegation pr now new_id rg cx =
     res_bind (if \<not> tz_aware (rg_expires_at rg) then Inr True
               else case dt_le (rg_expires_at rg) now of
                 None \<Rightarrow> Inl (Exc TypeError ''can't compare offset-naive and offset-aware datetimes'')
               | Some b \<Rightarrow> Inr b) (\<lambda>expired.
     res_bind (checked
       [(expired, Exc RuntimeActionDelegationDeniedError ''Delegation expiry must be in the future.''),
        (rg_permissions rg = [],
         Exc RuntimeActionDelegationDeniedError ''Delegation must include an explicit permission.'')] ()) (\<lambda>_.
     res_bind (all_res (\<lambda>p. issuer_permitted pr p (rg_runtime_actor_id rg) cx) (rg_permissions rg)) (\<lambda>permitted.
     if \<not> permitted
     then Inl (Exc RuntimeActionDelegationDeniedError
       ''Issuer is not permitted to grant the requested runtime action scope.'')
     else create_runtime_action_delegation new_id (cx_organization_id cx) (opt_or (cx_project_id cx) [])
            (rg_execution_id rg) (cx_actor_id cx) (rg_runtime_actor_id rg) (rg_permissions rg) now
            (rg_expires_at rg) (rg_idempotency_key rg) ''1'')))"

definition register_delegation ::
  "execution_repo \<Rightarrow> policy_repo \<Rightarrow> datetime \<times> string \<Rightarrow> delegation_registration \<Rightarrow> tenant_context
     \<Rightarrow> (delegation_repo, delegation) action" where
  "register_delegation xr pr fresh rg cx s =
     (case get_execution xr (rg_execution_id rg) (cx_organization_id cx) (cx_project_id cx) of
        None \<Rightarrow> (Inl not_in_scope_error, s)
      | Some _ \<Rightarrow>
          (case find_delegation_by_idempotency_key s (rg_idempotency_key rg) (cx_organization_id cx)
                  (cx_project_id cx) of
             Some existing \<Rightarrow>
               if matches_registration existing rg cx then (Inr existing, s)
               else (Inl (Exc RuntimeActionDelegationConflictError
                       ''Delegation idempotency key was reused with different content.''), s)
           | None \<Rightarrow>
               (case registered_delegation pr (fst fresh) (snd fresh) rg cx of
                  Inl e \<Rightarrow> (Inl e, s)
                | Inr d \<Rightarrow>
                    (case save_delegation d s of
                       (Inr saved, s') \<Rightarrow> (Inr saved, s')
                     | (Inl e, s') \<Rightarrow>
                         (Inl (if exc_kind e = RuntimeActionDelegationRepositoryConflictError
                               then Exc RuntimeActionDelegationConflictError (exc_message e) else e), s')))))"

text \<open>\<open>str\<close> of a \<open>KeyError\<close> is the quoted message.\<close>

definition service_revoke_delegation ::
  "datetime \<Rightarrow> string \<Rightarrow> string option \<Rightarrow> tenant_context \<Rightarrow> (delegation_repo, delegation) action" where
  "service_revoke_delegation now delegation_id revocation_reference cx s =
     (case revoke_delegation delegation_id (cx_organization_id cx) (cx_project_id cx) now
             (cx_actor_id cx) revocation_reference s of
        (Inr d, s') \<Rightarrow> (Inr d, s')
      | (Inl e, s') \<Rightarrow>
          (Inl (if exc_kind e = KeyError
                then Exc RuntimeActionDelegationNotFoundError (quoted (exc_message e)) else e), s'))"

section \<open>Facts\<close>

lemma all_res_True_iff: "all_res f xs = Inr True \<longleftrightarrow> (\<forall>x \<in> set xs. f x = Inr True)"
  by (induction xs) (auto simp: res_bind_Inr_iff split: if_splits)

text \<open>A policy of the candidates approves, and none of them objects.\<close>

definition candidate_effect ::
  "(string \<times> pyval) list \<Rightarrow> policy_definition \<times> policy_version \<Rightarrow> policy_effect option" where
  "candidate_effect evidence c =
     (case to_governance_policy (snd c) (fst c) of
        Inl _ \<Rightarrow> None
      | Inr p \<Rightarrow> (case evaluate_with_trace p (issuance_context evidence) of
          Inl _ \<Rightarrow> None
        | Inr t \<Rightarrow> if eo_matched (to_outcome t) then Some (eo_effect (to_outcome t)) else None))"

lemma candidates_allow_True:
  assumes "candidates_allow ev cs m = Inr True"
  shows "(m \<or> (\<exists>c \<in> set cs. candidate_effect ev c = Some APPROVE))
    \<and> (\<forall>c \<in> set cs. candidate_effect ev c \<in> {None, Some APPROVE})"
  using assms
proof (induction ev cs m rule: candidates_allow.induct)
  case (2 ev d v cs m)
  from "2.prems" obtain p t where p: "to_governance_policy v d = Inr p"
    and c: "new_evaluation_context (issuance_context ev) = Inr (issuance_context ev)"
    and t: "evaluate_with_trace p (issuance_context ev) = Inr t"
    by (auto simp: res_bind_Inr_iff new_evaluation_context_def checked_Inr_iff)
  have eff: "candidate_effect ev (d, v) =
      (if eo_matched (to_outcome t) then Some (eo_effect (to_outcome t)) else None)"
    by (simp add: candidate_effect_def p t)
  show ?case
    using "2.IH" "2.prems" eff by (auto simp: p c t split: if_splits)
qed simp

lemma create_delegation_Inr:
  assumes "create_runtime_action_delegation i og pj x iss act pms ta te idem v = Inr d"
  shows "delegation_ok d" "dg_delegation_id d = i" "dg_organization_id d = og" "dg_project_id d = pj"
    "dg_execution_id d = x" "dg_issuer_id d = iss" "dg_runtime_actor_id d = act" "dg_permissions d = pms"
    "dg_issued_at d = ta" "dg_expires_at d = te" "dg_idempotency_key d = idem" "dg_status d = DG_ACTIVE"
  using assms
  by (auto simp: create_runtime_action_delegation_def Let_def new_delegation_Inr_iff)

lemma registered_delegation_Inr:
  assumes "registered_delegation pr now i rg cx = Inr d"
  shows "create_runtime_action_delegation i (cx_organization_id cx) (opt_or (cx_project_id cx) [])
            (rg_execution_id rg) (cx_actor_id cx) (rg_runtime_actor_id rg) (rg_permissions rg) now
            (rg_expires_at rg) (rg_idempotency_key rg) ''1'' = Inr d"
    and "\<forall>p \<in> set (rg_permissions rg). issuer_permitted pr p (rg_runtime_actor_id rg) cx = Inr True"
    and "micros now < micros (rg_expires_at rg)"
  using assms
  by (auto simp: registered_delegation_def res_bind_Inr_iff guard_simps all_res_True_iff dt_le_def
      split: if_splits)

lemma register_delegation_cases:
  assumes "register_delegation xr pr fresh rg cx s = (Inr d, s')"
  obtains (existing) "s' = s" "matches_registration d rg cx"
      "find_delegation_by_idempotency_key s (rg_idempotency_key rg) (cx_organization_id cx) (cx_project_id cx) = Some d"
  | (registered) e where "registered_delegation pr (fst fresh) (snd fresh) rg cx = Inr e"
      "save_delegation e s = (Inr d, s')"
      "find_delegation_by_idempotency_key s (rg_idempotency_key rg) (cx_organization_id cx) (cx_project_id cx) = None"
  using assms
  by (auto simp: register_delegation_def split: option.splits if_splits sum.splits prod.splits)

lemma opt_or_empty: "opt_or p [] = project_or_empty p"
  by (simp add: project_or_empty_def)

lemma register_delegation_found:
  assumes "delegation_repo_inv s" "register_delegation xr pr fresh rg cx s = (Inr d, s')"
  shows "find_delegation_by_idempotency_key s' (rg_idempotency_key rg) (cx_organization_id cx) (cx_project_id cx) = Some d"
    and "matches_registration d rg cx"
  using assms(2)
proof (atomize (full), cases rule: register_delegation_cases)
  case (registered e)
  note e = create_delegation_Inr [OF registered_delegation_Inr(1) [OF registered(1)]]
  have key: "dg_idempotency e = (cx_organization_id cx, project_or_empty (cx_project_id cx), rg_idempotency_key rg)"
    by (simp add: dg_idempotency_def e opt_or_empty)
  have "find_delegation_by_idempotency_key s' (rg_idempotency_key rg)
      (cx_organization_id cx) (cx_project_id cx) = Some e \<and> d = e"
  proof (cases "dict_get (dr_items s) (dg_identity e)")
    case None
    with registered(2,3) key show ?thesis
      by (auto simp: save_delegation_def find_delegation_by_idempotency_key_def dict_get_put)
  next
    case (Some f)
    with registered(2) have "f = e" by (simp add: save_delegation_def split: if_splits)
    with delegation_repo_invD(3) [OF assms(1) Some] registered(3) key show ?thesis
      by (auto simp: find_delegation_by_idempotency_key_def)
  qed
  with e show "find_delegation_by_idempotency_key s' (rg_idempotency_key rg)
      (cx_organization_id cx) (cx_project_id cx) = Some d \<and> matches_registration d rg cx"
    by (simp add: matches_registration_def)
qed simp

lemma register_delegation_replay:
  assumes "delegation_repo_inv s" "register_delegation xr pr fresh rg cx s = (Inr d, s')"
  shows "register_delegation xr pr fresh' rg cx s' = (Inr d, s')"
proof -
  obtain x where "get_execution xr (rg_execution_id rg) (cx_organization_id cx) (cx_project_id cx) = Some x"
    using assms(2) by (auto simp: register_delegation_def split: option.splits)
  with register_delegation_found [OF assms] show ?thesis
    by (simp add: register_delegation_def)
qed

interpretation delegation_registration: idempotent_command
  "\<lambda>fresh. register_delegation xr pr fresh rg cx" delegation_repo_inv "\<lambda>_ _. True" for xr pr rg cx
  by unfold_locales (rule register_delegation_replay)

lemma register_delegation_within: "act_within delegation_repo_step (register_delegation xr pr fresh rg cx) s"
proof (rule act_within_step)
  fix r s' assume "register_delegation xr pr fresh rg cx s = (r, s')"
  then consider "s' = s"
    | d q where "registered_delegation pr (fst fresh) (snd fresh) rg cx = Inr d" "save_delegation d s = (q, s')"
    by (auto simp: register_delegation_def split: option.splits if_splits sum.splits prod.splits)
  then show "delegation_repo_step s s' \<or> s' = s"
    by cases (auto intro: step_save create_delegation_Inr(1) registered_delegation_Inr(1))
qed

lemma service_revoke_delegation_step:
  assumes "service_revoke_delegation now i ref cx s = (r, s')"
  shows "delegation_repo_step s s'"
  using assms by (auto simp: service_revoke_delegation_def intro: step_revoke split: prod.splits sum.splits)

lemma revoked_stays_revoked:
  assumes "delegation_repo_inv s" "service_revoke_delegation now i ref cx s = (Inr d, s1)"
    and "delegation_repo_step\<^sup>*\<^sup>* s1 s2"
  shows "get_delegation s2 i (cx_organization_id cx) (cx_project_id cx) = Some d" "dg_status d = DG_REVOKED"
proof -
  have run: "revoke_delegation i (cx_organization_id cx) (cx_project_id cx) now (cx_actor_id cx) ref s = (Inr d, s1)"
    using assms(2) by (auto simp: service_revoke_delegation_def split: prod.splits sum.splits)
  then have d: "get_delegation s1 i (cx_organization_id cx) (cx_project_id cx) = Some d \<and> dg_status d = DG_REVOKED"
    by (cases rule: revoke_delegation_cases) (auto simp: get_delegation_def dict_get_put)
  then show "dg_status d = DG_REVOKED" by simp
  from d show "get_delegation s2 i (cx_organization_id cx) (cx_project_id cx) = Some d"
    using delegations.lookup_run [OF assms(3) revoke_delegation_inv [OF assms(1) run]]
    by (fastforce simp: get_delegation_def only_revoked_def)
qed

section \<open>Properties\<close>

text \<open>
  C13. A grant is recorded only with authority. When a registration adds a delegation, the execution
  exists in the caller's tenant scope, the delegation is well formed, active, not yet expired and
  bound to the caller as issuer, and for each requested permission and each of its resource
  references some active issuance policy of the scope approves and none objects.
\<close>

theorem registration_authorized:
  assumes "register_delegation xr pr (now, i) rg cx s = (Inr d, s')" "s' \<noteq> s"
  shows "get_execution xr (dg_execution_id d) (cx_organization_id cx) (cx_project_id cx) \<noteq> None
    \<and> delegation_ok d \<and> dg_status d = DG_ACTIVE \<and> dg_delegation_id d = i
    \<and> dg_issuer_id d = cx_actor_id cx \<and> dg_organization_id d = cx_organization_id cx
    \<and> micros now < micros (dg_expires_at d)
    \<and> (\<forall>p \<in> set (dg_permissions d). \<forall>reference \<in> set (pm_resource_references p).
         let effects = candidate_effect (issuance_evidence cx (dg_runtime_actor_id d) p reference)
                         ` set (issuance_candidates pr cx)
         in Some APPROVE \<in> effects \<and> effects \<subseteq> {None, Some APPROVE})"
  using assms(1)
proof (cases rule: register_delegation_cases)
  case (registered e)
  have d: "d = e" using registered(2) by (cases rule: save_delegation_cases) auto
  note created = create_delegation_Inr [OF registered_delegation_Inr(1) [OF registered(1)]]
  have "get_execution xr (rg_execution_id rg) (cx_organization_id cx) (cx_project_id cx) \<noteq> None"
    using assms(1) by (auto simp: register_delegation_def split: option.splits)
  moreover have "let effects = candidate_effect (issuance_evidence cx (rg_runtime_actor_id rg) p reference)
                         ` set (issuance_candidates pr cx)
         in Some APPROVE \<in> effects \<and> effects \<subseteq> {None, Some APPROVE}"
    if "p \<in> set (rg_permissions rg)" "reference \<in> set (pm_resource_references p)" for p reference
  proof -
    have "candidates_allow (issuance_evidence cx (rg_runtime_actor_id rg) p reference)
        (issuance_candidates pr cx) False = Inr True"
      using registered_delegation_Inr(2) [OF registered(1)] that
      by (auto simp: issuer_permitted_def all_res_True_iff)
    from candidates_allow_True [OF this] show ?thesis by (force simp: Let_def)
  qed
  ultimately show ?thesis
    using created registered_delegation_Inr(3) [OF registered(1)] unfolding d by simp
qed (use assms(2) in simp)

text \<open>
  Registration can be retried: after a registration has returned a delegation, every repetition with
  the same content returns that delegation and leaves the repository as it is, although each of them
  reads another clock and draws another identifier.
\<close>

theorem registration_retries_idempotent:
  assumes "delegation_repo_inv s" "register_delegation xr pr fresh rg cx s = (Inr d, s')"
  shows "delegation_registration.retries xr pr rg cx attempts s' = (Inr (replicate (length attempts) d), s')"
  by (rule delegation_registration.retries_same [OF assms(1) TrueI assms(2)])

text \<open>
  Revocation is final: whatever is registered and revoked afterwards, the revoked delegation stays
  stored as it was revoked, and it permits no action at any time.
\<close>

theorem revocation_final:
  assumes "delegation_repo_inv s" "service_revoke_delegation now i ref cx s = (Inr d, s1)"
    and "delegation_repo_step\<^sup>*\<^sup>* s1 s2"
  shows "get_delegation s2 i (cx_organization_id cx) (cx_project_id cx) = Some d
    \<and> permits d actor execution action rtype reference when = Inr False"
  using revoked_stays_revoked [OF assms] by (simp add: permits_def)

text \<open>
  The content of a stored delegation is fixed: whatever is registered and revoked afterwards, what is
  stored under its identity differs in the revocation fields at most and still carries the digest of
  the contract it was registered with.
\<close>

theorem delegation_content_fixed:
  assumes "delegation_repo_inv s" "get_delegation s i og pj = Some d" "delegation_repo_step\<^sup>*\<^sup>* s s'"
  shows "\<exists>d'. get_delegation s' i og pj = Some d' \<and> grant_content d' = grant_content d
    \<and> dg_contract_digest d' = compute_contract_digest d"
proof -
  obtain d' where d': "get_delegation s' i og pj = Some d'" "grant_content d' = grant_content d"
    using delegations.lookup_run [OF assms(3,1)] assms(2)
    by (force simp: get_delegation_def only_revoked_def)
  moreover have "dg_contract_digest d' = dg_contract_digest (grant_content d')" for d'
    by (simp add: grant_content_def)
  moreover have "dg_contract_digest d = compute_contract_digest d"
    using delegation_repo_invD(2) [OF assms(1)] assms(2) by (auto simp: get_delegation_def delegation_okD(1))
  ultimately show ?thesis by metis
qed

end
