(* ===== verification/Authorization_Service.thy ===== *)
theory Authorization_Service
  imports Execution_Service Delegation_Service
begin

text \<open>
  \<open>services/runtime_action_authorization_service.py\<close>: the decision on one protected operation
  of a runtime, and its evidence in the event store. The repositories of policies and delegations are
  read only; the clock and the fresh decision identifier are arguments. The repositories modelled do
  not raise on a read, so the handlers for such faults are left out; a policy that fails to evaluate
  is a branch of the model.
\<close>

section \<open>Policy selection\<close>

definition string_tuple :: "pyval \<Rightarrow> string list" where
  "string_tuple value =
     (case value of
        PList xs \<Rightarrow>
          (let items = List.map_filter (\<lambda>x. case x of PStr s \<Rightarrow> if blank s then None else Some s | _ \<Rightarrow> None) xs
           in if length items = length xs \<and> distinct items then items else [])
      | _ \<Rightarrow> [])"

text \<open>The registered actions and resource types.\<close>

definition registration :: "policy_definition \<Rightarrow> (string list \<times> string list) option" where
  "registration d =
     (case purpose_registration d ''runtime_action_authorization'' ''runtime_action_authorization'' of
        None \<Rightarrow> None
      | Some raw \<Rightarrow>
          (let actions = string_tuple (pget raw ''registered_actions'');
               resource_types = string_tuple (pget raw ''registered_resource_types'')
           in if actions = [] \<or> resource_types = [] then None else Some (actions, resource_types)))"

definition candidate_definitions :: "policy_repo \<Rightarrow> tenant_context \<Rightarrow> (policy_definition \<times> policy_version) list" where
  "candidate_definitions pr cx =
     List.map_filter (\<lambda>d. map_option (Pair d) (get_active_version pr (pd_policy_id d)))
       (list_definitions pr (active_query (cx_organization_id cx) (cx_project_id cx)))"

text \<open>The loop over the candidates: the selection and the two flags.\<close>

fun select_loop ::
  "authorization_request \<Rightarrow> (policy_definition \<times> policy_version) list
     \<Rightarrow> (policy_definition \<times> policy_version) list \<times> bool \<times> bool
     \<Rightarrow> (policy_definition \<times> policy_version) list \<times> bool \<times> bool" where
  "select_loop rq [] acc = acc"
| "select_loop rq ((d, v) # cs) (selected, action_registered, resource_registered) =
     (case registration d of
        None \<Rightarrow> select_loop rq cs (selected, action_registered, resource_registered)
      | Some (actions, resource_types) \<Rightarrow>
          (let a = rq_action_id rq \<in> set actions;
               t = rs_resource_type (rq_resource rq) \<in> set resource_types
           in select_loop rq cs
                (if a \<and> t \<and> AGENT_EXECUTION \<in> set (pv_target_types v) then selected @ [(d, v)] else selected,
                 action_registered \<or> a, resource_registered \<or> t)))"

text \<open>\<open>Inl\<close> is the reason code of a selection that found no policy.\<close>

definition select_policies ::
  "policy_repo \<Rightarrow> authorization_request \<Rightarrow> tenant_context
     \<Rightarrow> string + (policy_definition \<times> policy_version) list" where
  "select_policies pr rq cx =
     (case select_loop rq (candidate_definitions pr cx) ([], False, False) of
        (selected, action_registered, resource_registered) \<Rightarrow>
          if selected \<noteq> [] then Inr selected
          else if \<not> action_registered then Inl ''UNSUPPORTED_ACTION''
          else if \<not> resource_registered then Inl ''UNSUPPORTED_RESOURCE''
          else Inl ''NO_APPLICABLE_POLICY'')"

section \<open>The delegation\<close>

text \<open>
  \<open>Inl\<close> is the reason code of a request without a usable delegation. The comparison of the
  expiry with a naive clock raises.
\<close>

definition resolve_delegation ::
  "delegation_repo option \<Rightarrow> authorization_request \<Rightarrow> tenant_context \<Rightarrow> datetime \<Rightarrow> exc + (string + delegation)" where
  "resolve_delegation dr rq cx now =
     (case dr of None \<Rightarrow> Inr (Inl ''DELEGATION_RESOLUTION_UNAVAILABLE'')
      | Some repo \<Rightarrow>
        (case rq_delegation_id rq of None \<Rightarrow> Inr (Inl ''MISSING_DELEGATION'')
         | Some i \<Rightarrow>
           (case get_delegation repo i (cx_organization_id cx) (cx_project_id cx) of
              None \<Rightarrow> Inr (Inl ''DELEGATION_NOT_FOUND'')
            | Some d \<Rightarrow>
                if Some (dg_version d) \<noteq> rq_delegation_version rq
                   \<or> Some (dg_contract_digest d) \<noteq> rq_delegation_digest rq
                then Inr (Inl ''DELEGATION_BINDING_MISMATCH'')
                else if dg_status d = DG_REVOKED then Inr (Inl ''DELEGATION_REVOKED'')
                else case dt_le (dg_expires_at d) now of
                  None \<Rightarrow> Inl (Exc TypeError ''can't compare offset-naive and offset-aware datetimes'')
                | Some expired \<Rightarrow>
                    if expired then Inr (Inl ''DELEGATION_EXPIRED'')
                    else res_bind (permits d (cx_actor_id cx) (rq_execution_id rq) (rq_action_id rq)
                           (rs_resource_type (rq_resource rq)) (rs_resource_reference (rq_resource rq)) now)
                         (\<lambda>ok. Inr (if ok then Inr d else Inl ''DELEGATION_SCOPE_DENIED'')))))"

section \<open>Evaluation\<close>

definition authorization_evidence ::
  "authorization_request \<Rightarrow> tenant_context \<Rightarrow> delegation \<Rightarrow> (string \<times> pyval) list" where
  "authorization_evidence rq cx d =
     [(''action'', PDict [(''id'', PStr (rq_action_id rq))]),
      (''resource'', PDict [(''type'', PStr (rs_resource_type (rq_resource rq))),
         (''reference'', PStr (rs_resource_reference (rq_resource rq)))]),
      (''actor'', PDict [(''id'', PStr (cx_actor_id cx))]),
      (''delegation'', PDict [(''id'', PStr (dg_delegation_id d)), (''version'', PStr (dg_version d)),
         (''digest'', PStr (dg_contract_digest d)), (''issuer_id'', PStr (dg_issuer_id d)),
         (''runtime_actor_id'', PStr (dg_runtime_actor_id d))]),
      (''agent_context'', PDict (rq_context rq))]"

definition authorization_context ::
  "authorization_request \<Rightarrow> tenant_context \<Rightarrow> delegation \<Rightarrow> evaluation_context" where
  "authorization_context rq cx d =
     \<lparr>ec_target_type = AGENT_EXECUTION, ec_target_id = rq_execution_id rq,
      ec_evidence = authorization_evidence rq cx d\<rparr>"

definition uses_agent_controlled_context :: "policy_version \<Rightarrow> bool" where
  "uses_agent_controlled_context v = list_ex approves_from_agent_context (pv_rules v)"

record policy_match =
  pm_priority :: int
  pm_policy_id :: string
  pm_definition :: policy_definition
  pm_version :: policy_version
  pm_effect :: policy_effect

text \<open>
  The loop over the selected policies, with the matches and the last unsupported policy so far;
  \<open>None\<close> when an evaluation raised.
\<close>

fun evaluate_policies ::
  "evaluation_context \<Rightarrow> (policy_definition \<times> policy_version) list
     \<Rightarrow> policy_match list \<Rightarrow> (policy_definition \<times> policy_version) option
     \<Rightarrow> (policy_match list \<times> (policy_definition \<times> policy_version) option) option" where
  "evaluate_policies ctx [] matched unsupported = Some (matched, unsupported)"
| "evaluate_policies ctx ((d, v) # cs) matched unsupported =
     (case res_bind (to_governance_policy v d) (\<lambda>p.
           res_bind (new_evaluation_context ctx) (evaluate_with_trace p)) of
        Inl _ \<Rightarrow> None
      | Inr t \<Rightarrow>
          (let outcome = to_outcome t in
           if \<not> eo_matched outcome then evaluate_policies ctx cs matched unsupported
           else if eo_effect outcome \<notin> {APPROVE, REJECT, BLOCK}
           then evaluate_policies ctx cs matched (Some (d, v))
           else if eo_effect outcome = APPROVE \<and> uses_agent_controlled_context v
           then evaluate_policies ctx cs matched (Some (d, v))
           else evaluate_policies ctx cs
                  (matched @ [\<lparr>pm_priority = opt_or (eo_rule_priority outcome) 0,
                               pm_policy_id = pd_policy_id d, pm_definition = d, pm_version = v,
                               pm_effect = eo_effect outcome\<rparr>]) unsupported))"

text \<open>What the decision says beside its bindings.\<close>

record verdict =
  vd_outcome :: authorization_outcome
  vd_reason_code :: string
  vd_policy_id :: "string option"
  vd_policy_version :: "string option"
  vd_delegation :: "delegation option"
  vd_evaluated_policies :: "(string \<times> string) list"

definition deny :: "string \<Rightarrow> delegation option \<Rightarrow> (string \<times> string) list \<Rightarrow> verdict" where
  "deny reason_code delegation evaluated =
     \<lparr>vd_outcome = DENY, vd_reason_code = reason_code, vd_policy_id = None, vd_policy_version = None,
      vd_delegation = delegation, vd_evaluated_policies = evaluated\<rparr>"

definition is_deny_match :: "policy_match \<Rightarrow> bool" where
  "is_deny_match m = (pm_effect m \<in> {REJECT, BLOCK})"

text \<open>Deny overrides: the best deny decides, and the best match when there is none.\<close>

definition combine_matches :: "delegation \<Rightarrow> (string \<times> string) list \<Rightarrow> policy_match list \<Rightarrow> verdict" where
  "combine_matches delegation evaluated matched0 =
     (let matched = sort_key (\<lambda>m. (pm_priority m, pm_policy_id m)) matched0;
          denies = filter is_deny_match matched;
          selected_match = hd (if denies \<noteq> [] then denies else matched)
      in \<lparr>vd_outcome = (if denies \<noteq> [] then DENY else ALLOW),
          vd_reason_code =
            (if denies \<noteq> [] \<and> 1 < length matched then ''DENY_OVERRIDES''
             else if denies \<noteq> [] then ''DENY_POLICY_MATCHED'' else ''ALLOW_POLICY_MATCHED''),
          vd_policy_id = Some (pd_policy_id (pm_definition selected_match)),
          vd_policy_version = Some (pv_version (pm_version selected_match)),
          vd_delegation = Some delegation, vd_evaluated_policies = evaluated\<rparr>)"

definition judge_policies ::
  "authorization_request \<Rightarrow> tenant_context \<Rightarrow> delegation
     \<Rightarrow> (policy_definition \<times> policy_version) list \<Rightarrow> verdict" where
  "judge_policies rq cx delegation selected =
     (let evaluated = map (\<lambda>(d, v). (pd_policy_id d, pv_version v)) selected in
      case evaluate_policies (authorization_context rq cx delegation) selected [] None of
        None \<Rightarrow> deny ''POLICY_EVALUATION_FAILED'' (Some delegation) evaluated
      | Some (matched, Some (d, v)) \<Rightarrow>
          (deny ''UNSUPPORTED_AUTHORIZATION_POLICY_EFFECT'' (Some delegation) evaluated)
            \<lparr>vd_policy_id := Some (pd_policy_id d), vd_policy_version := Some (pv_version v)\<rparr>
      | Some (matched, None) \<Rightarrow>
          if matched = [] then deny ''NO_APPLICABLE_POLICY'' (Some delegation) evaluated
          else combine_matches delegation evaluated matched)"

definition evaluate_request ::
  "policy_repo \<Rightarrow> delegation_repo option \<Rightarrow> authorization_request \<Rightarrow> tenant_context \<Rightarrow> datetime
     \<Rightarrow> exc + verdict" where
  "evaluate_request pr dr rq cx now =
     (if rq_policy_id rq \<noteq> None \<or> rq_expected_policy_version rq \<noteq> None
      then Inr (deny ''POLICY_SELECTION_NOT_ALLOWED'' None [])
      else res_bind (resolve_delegation dr rq cx now) (\<lambda>resolved.
        case resolved of
          Inl reason \<Rightarrow> Inr (deny reason None [])
        | Inr delegation \<Rightarrow>
            (case select_policies pr rq cx of
               Inl reason \<Rightarrow> Inr (deny reason (Some delegation) [])
             | Inr selected \<Rightarrow> Inr (judge_policies rq cx delegation selected))))"

section \<open>The decision and its evidence\<close>

definition authorization_decision_of ::
  "int \<Rightarrow> string \<Rightarrow> authorization_request \<Rightarrow> tenant_context \<Rightarrow> string option \<Rightarrow> datetime \<Rightarrow> string
     \<Rightarrow> verdict \<Rightarrow> exc + authorization_decision" where
  "authorization_decision_of ttl new_id rq cx correlation_id now request_fingerprint v =
     res_bind (dt_plus now ttl) (\<lambda>expires_at.
     new_decision (outcome_value (vd_outcome v))
       \<lparr>dc_decision_id = new_id, dc_outcome = DENY, dc_reason_code = vd_reason_code v,
        dc_execution_id = rq_execution_id rq, dc_correlation_id = correlation_id,
        dc_action_id = rq_action_id rq, dc_resource = rq_resource rq, dc_actor_id = cx_actor_id cx,
        dc_idempotency_key = rq_idempotency_key rq, dc_request_fingerprint = request_fingerprint,
        dc_decided_at = now, dc_expires_at = expires_at,
        dc_delegation_id = map_option dg_delegation_id (vd_delegation v),
        dc_delegation_version = map_option dg_version (vd_delegation v),
        dc_delegation_digest = map_option dg_contract_digest (vd_delegation v),
        dc_tool_arguments_digest = rq_tool_arguments_digest rq,
        dc_evaluated_policies = vd_evaluated_policies v,
        dc_policy_id = vd_policy_id v, dc_policy_version = vd_policy_version v,
        dc_schema_version = authorization_schema_version\<rparr>)"

definition decision_attributes ::
  "(rat \<Rightarrow> string) \<Rightarrow> authorization_decision \<Rightarrow> authorization_request \<Rightarrow> string \<Rightarrow> (string \<times> pyval) list" where
  "decision_attributes fr d rq request_fingerprint =
     [(''authorization_schema_version'', PStr (dc_schema_version d)),
      (''authorization_outcome'', PStr (outcome_value (dc_outcome d))),
      (''reason_code'', PStr (dc_reason_code d)),
      (''action_id'', PStr (dc_action_id d)),
      (''resource_type'', PStr (rs_resource_type (dc_resource d))),
      (''resource_reference'', PStr (rs_resource_reference (dc_resource d))),
      (''actor_id'', PStr (dc_actor_id d)),
      (''policy_id'', of_opt_str (dc_policy_id d)),
      (''policy_version'', of_opt_str (dc_policy_version d)),
      (''evaluated_policies'', PList (map (\<lambda>(p, v). PDict [(''policy_id'', PStr p), (''version'', PStr v)])
         (dc_evaluated_policies d))),
      (''delegation_id'', of_opt_str (dc_delegation_id d)),
      (''delegation_version'', of_opt_str (dc_delegation_version d)),
      (''delegation_digest'', of_opt_str (dc_delegation_digest d)),
      (''tool_arguments_digest'', of_opt_str (dc_tool_arguments_digest d)),
      (''expires_at'', PStr (isoformat (dc_expires_at d))),
      (''idempotency_key'', PStr (dc_idempotency_key d)),
      (''request_fingerprint'', PStr request_fingerprint),
      (''context_digest'', PStr (context_digest fr rq))]"

definition decision_event ::
  "(rat \<Rightarrow> string) \<Rightarrow> trace_store \<Rightarrow> authorization_decision \<Rightarrow> authorization_request \<Rightarrow> tenant_context
     \<Rightarrow> string \<Rightarrow> execution_event" where
  "decision_event fr s d rq cx request_fingerprint =
     (platform_event (dc_decision_id d) (dc_execution_id d) cx RUNTIME_ACTION_AUTHORIZATION
        (next_sequence s (dc_execution_id d) cx) (dc_decided_at d) (dc_correlation_id d) None
        (Some (cx_actor_id cx)) GOVERNANCE (decision_attributes fr d rq request_fingerprint))
     \<lparr>ev_resource_references :=
        [rs_resource_type (dc_resource d) @ '':'' @ rs_resource_reference (dc_resource d)]\<rparr>"

section \<open>Reading a decision back\<close>

definition non_empty_string :: "pyval \<Rightarrow> string option" where
  "non_empty_string v = (case v of PStr s \<Rightarrow> if s = [] then None else Some s | _ \<Rightarrow> None)"

fun policy_bindings :: "pyval list \<Rightarrow> (string \<times> string) list option" where
  "policy_bindings [] = Some []"
| "policy_bindings (x # xs) =
     (case x of
        PDict item \<Rightarrow>
          Option.bind (non_empty_string (pget item ''policy_id'')) (\<lambda>p.
          Option.bind (non_empty_string (pget item ''version'')) (\<lambda>v.
          Option.bind (policy_bindings xs) (\<lambda>bs. Some ((p, v) # bs))))
      | _ \<Rightarrow> None)"

text \<open>\<open>None\<close> is the \<open>TypeError\<close> or \<open>ValueError\<close> of a malformed binding.\<close>

definition evaluated_policies_of :: "pyval \<Rightarrow> (string \<times> string) list option" where
  "evaluated_policies_of value = (case value of PList xs \<Rightarrow> policy_bindings xs | _ \<Rightarrow> Some [])"

text \<open>
  The decision read from an event. Every exception of the block is one of those it catches, so
  \<open>None\<close> stands for any of them.
\<close>

definition stored_decision :: "(rat \<Rightarrow> string) \<Rightarrow> execution_event \<Rightarrow> authorization_decision option" where
  "stored_decision fr e =
     (let a = ev_attributes e in
     Option.bind (str_item fr a ''authorization_outcome'') (\<lambda>outcome.
     Option.bind (str_item fr a ''reason_code'') (\<lambda>reason_code.
     Option.bind (str_item fr a ''action_id'') (\<lambda>action_id.
     Option.bind (str_item fr a ''resource_type'') (\<lambda>resource_type.
     Option.bind (str_item fr a ''resource_reference'') (\<lambda>resource_reference.
     case new_resource resource_type resource_reference of Inl _ \<Rightarrow> None | Inr resource \<Rightarrow>
     Option.bind (str_item fr a ''actor_id'') (\<lambda>actor_id.
     Option.bind (str_item fr a ''idempotency_key'') (\<lambda>idempotency_key.
     Option.bind (str_item fr a ''request_fingerprint'') (\<lambda>request_fingerprint.
     Option.bind (Option.bind (str_item fr a ''expires_at'') fromisoformat) (\<lambda>expires_at.
     Option.bind (evaluated_policies_of (pget a ''evaluated_policies'')) (\<lambda>evaluated.
     Option.bind (str_item fr a ''authorization_schema_version'') (\<lambda>schema_version.
     case new_decision outcome
       \<lparr>dc_decision_id = ev_event_id e, dc_outcome = DENY, dc_reason_code = reason_code,
        dc_execution_id = ev_execution_id e, dc_correlation_id = ev_correlation_id e,
        dc_action_id = action_id, dc_resource = resource, dc_actor_id = actor_id,
        dc_idempotency_key = idempotency_key, dc_request_fingerprint = request_fingerprint,
        dc_decided_at = ev_occurred_at e, dc_expires_at = expires_at,
        dc_delegation_id = non_empty_string (pget a ''delegation_id''),
        dc_delegation_version = non_empty_string (pget a ''delegation_version''),
        dc_delegation_digest = non_empty_string (pget a ''delegation_digest''),
        dc_tool_arguments_digest = non_empty_string (pget a ''tool_arguments_digest''),
        dc_evaluated_policies = evaluated,
        dc_policy_id = non_empty_string (pget a ''policy_id''),
        dc_policy_version = non_empty_string (pget a ''policy_version''),
        dc_schema_version = schema_version\<rparr> of
       Inl _ \<Rightarrow> None | Inr d \<Rightarrow> Some d))))))))))))"

definition key_reused :: exc where
  "key_reused = Exc RuntimeActionAuthorizationConflictError
     ''Authorization idempotency key was reused with different input.''"

definition existing_decision ::
  "(rat \<Rightarrow> string) \<Rightarrow> execution_event \<Rightarrow> authorization_request \<Rightarrow> string \<Rightarrow> string \<Rightarrow> exc + authorization_decision" where
  "existing_decision fr e rq actor_id request_fingerprint =
     (if ev_event_type e \<noteq> RUNTIME_ACTION_AUTHORIZATION
         \<or> \<not> attr_is e ''request_fingerprint'' request_fingerprint
      then Inl key_reused
      else case stored_decision fr e of
        None \<Rightarrow> Inl (Exc RuntimeActionAuthorizationPersistenceError
                  ''Stored authorization evidence is malformed.'')
      | Some d \<Rightarrow> if matches_request fr d rq actor_id then Inr d else Inl key_reused)"

section \<open>Authorizing\<close>

definition resolve_correlation_id ::
  "authorization_request \<Rightarrow> tenant_context \<Rightarrow> agent_execution \<Rightarrow> exc + string option" where
  "resolve_correlation_id rq cx execution =
     (let authoritative = str_or (ex_correlation_id execution) (cx_correlation_id cx) in
      checked [(rq_correlation_id rq \<noteq> None \<and> authoritative \<noteq> None \<and> rq_correlation_id rq \<noteq> authoritative,
                Exc RuntimeActionAuthorizationConflictError
                  ''Request correlation does not match the authoritative execution.'')]
        (str_or authoritative (rq_correlation_id rq)))"

definition event_idempotency_key :: "string \<Rightarrow> string" where
  "event_idempotency_key idempotency_key = ''runtime-action-authorization:'' @ idempotency_key"

abbreviation find_decision_event ::
  "trace_store \<Rightarrow> authorization_request \<Rightarrow> tenant_context \<Rightarrow> execution_event option" where
  "find_decision_event s rq cx \<equiv>
     find_event_by_idempotency_key (ts_events s) (event_idempotency_key (rq_idempotency_key rq))
       (rq_execution_id rq) (cx_organization_id cx) (cx_project_id cx)"

text \<open>The decision of a request that has none yet, and the attempt to record it.\<close>

definition authorize_new ::
  "(rat \<Rightarrow> string) \<Rightarrow> int \<Rightarrow> delegation_repo option \<Rightarrow> policy_repo \<Rightarrow> datetime \<Rightarrow> string \<Rightarrow> string option
     \<Rightarrow> authorization_request \<Rightarrow> tenant_context \<Rightarrow> (trace_store, authorization_decision) action" where
  "authorize_new fr ttl dr pr now new_id correlation_id rq cx s =
     act_bind (act_lift (evaluate_request pr dr rq cx now)) (\<lambda>v.
     act_bind (act_lift (authorization_decision_of ttl new_id rq cx correlation_id now (fingerprint fr rq) v)) (\<lambda>d.
     act_bind (act_lift (new_event (decision_event fr s d rq cx (fingerprint fr rq)))) (\<lambda>event.
     (\<lambda>s. case on_events (save_event event
              (Some (event_idempotency_key (rq_idempotency_key rq)))) s of
        (Inr saved, s') \<Rightarrow>
          (if ev_event_id saved \<noteq> ev_event_id event
           then existing_decision fr saved rq (cx_actor_id cx) (fingerprint fr rq) else Inr d, s')
      | (Inl e, s') \<Rightarrow>
          (if exc_kind e = AgentExecutionIdempotencyConflict
           then case find_decision_event s' rq cx of
                  Some existing \<Rightarrow> existing_decision fr existing rq (cx_actor_id cx) (fingerprint fr rq)
                | None \<Rightarrow> Inl key_reused
           else Inl (Exc RuntimeActionAuthorizationPersistenceError
                  ''Authorization decision could not be persisted.''), s'))))) s"

definition authorize ::
  "(rat \<Rightarrow> string) \<Rightarrow> int \<Rightarrow> delegation_repo option \<Rightarrow> policy_repo \<Rightarrow> datetime \<times> string
     \<Rightarrow> authorization_request \<Rightarrow> tenant_context \<Rightarrow> (trace_store, authorization_decision) action" where
  "authorize fr ttl dr pr fresh rq cx s =
     (case cx_get_execution s (rq_execution_id rq) cx of
        None \<Rightarrow> act_raise (Exc RuntimeActionAuthorizationNotFoundError
                  ''Execution does not exist in the resolved tenant scope.'')
      | Some execution \<Rightarrow>
          act_bind (act_lift (resolve_correlation_id rq cx execution)) (\<lambda>correlation_id.
          case find_decision_event s rq cx of
            Some existing \<Rightarrow> act_lift (existing_decision fr existing rq (cx_actor_id cx) (fingerprint fr rq))
          | None \<Rightarrow> authorize_new fr ttl dr pr (fst fresh) (snd fresh) correlation_id rq cx)) s"

section \<open>The specification\<close>

text \<open>
  What an ALLOW means, without the order of the checks: the request selects no policy itself, it names
  a delegation of its tenant scope, in the version and with the digest that is stored, which permits
  the operation now, and of the policies that apply to the operation at least one approves and every
  other abstains.
\<close>

definition policy_applies :: "authorization_request \<Rightarrow> policy_definition \<times> policy_version \<Rightarrow> bool" where
  "policy_applies rq c =
     (AGENT_EXECUTION \<in> set (pv_target_types (snd c))
      \<and> (\<exists>actions types. registration (fst c) = Some (actions, types)
           \<and> rq_action_id rq \<in> set actions \<and> rs_resource_type (rq_resource rq) \<in> set types))"

definition policy_result ::
  "evaluation_context \<Rightarrow> policy_definition \<times> policy_version \<Rightarrow> exc + evaluation_outcome" where
  "policy_result ctx c =
     res_bind (to_governance_policy (snd c) (fst c)) (\<lambda>p.
     res_bind (new_evaluation_context ctx) (\<lambda>cx.
     res_bind (evaluate_with_trace p cx) (\<lambda>t. Inr (to_outcome t))))"

definition policy_approves :: "evaluation_context \<Rightarrow> policy_definition \<times> policy_version \<Rightarrow> bool" where
  "policy_approves ctx c =
     (\<exists>v. policy_result ctx c = Inr v \<and> eo_matched v \<and> eo_effect v = APPROVE
        \<and> \<not> uses_agent_controlled_context (snd c))"

definition policy_abstains :: "evaluation_context \<Rightarrow> policy_definition \<times> policy_version \<Rightarrow> bool" where
  "policy_abstains ctx c = (\<exists>v. policy_result ctx c = Inr v \<and> \<not> eo_matched v)"

definition usable_delegation ::
  "delegation_repo option \<Rightarrow> authorization_request \<Rightarrow> tenant_context \<Rightarrow> datetime \<Rightarrow> delegation \<Rightarrow> bool" where
  "usable_delegation dr rq cx now g =
     (\<exists>repo i. dr = Some repo \<and> rq_delegation_id rq = Some i
        \<and> get_delegation repo i (cx_organization_id cx) (cx_project_id cx) = Some g
        \<and> rq_delegation_version rq = Some (dg_version g)
        \<and> rq_delegation_digest rq = Some (dg_contract_digest g)
        \<and> permits g (cx_actor_id cx) (rq_execution_id rq) (rq_action_id rq)
            (rs_resource_type (rq_resource rq)) (rs_resource_reference (rq_resource rq)) now = Inr True)"

definition operation_allowed ::
  "policy_repo \<Rightarrow> delegation_repo option \<Rightarrow> authorization_request \<Rightarrow> tenant_context \<Rightarrow> datetime \<Rightarrow> bool" where
  "operation_allowed pr dr rq cx now =
     (rq_policy_id rq = None \<and> rq_expected_policy_version rq = None
      \<and> (\<exists>g. usable_delegation dr rq cx now g
           \<and> (\<exists>c \<in> set (candidate_definitions pr cx).
                policy_applies rq c \<and> policy_approves (authorization_context rq cx g) c)
           \<and> (\<forall>c \<in> set (candidate_definitions pr cx). policy_applies rq c \<longrightarrow>
                policy_approves (authorization_context rq cx g) c
                \<or> policy_abstains (authorization_context rq cx g) c)))"

lemma fst_select_loop: "fst (select_loop rq cs (sel, a, t)) = sel @ filter (policy_applies rq) cs"
proof (induction cs arbitrary: sel a t)
  case (Cons c cs)
  obtain d v where "c = (d, v)" by (cases c)
  with Cons show ?case
    by (cases "registration d") (auto simp: policy_applies_def Let_def split: prod.splits)
qed simp

lemma select_policies_Inr_iff:
  "select_policies pr rq cx = Inr cs \<longleftrightarrow>
     cs = filter (policy_applies rq) (candidate_definitions pr cx) \<and> cs \<noteq> []"
proof -
  obtain sel a r where sel: "select_loop rq (candidate_definitions pr cx) ([], False, False) = (sel, a, r)"
    by (cases "select_loop rq (candidate_definitions pr cx) ([], False, False)") simp
  with fst_select_loop [of rq "candidate_definitions pr cx" "[]" False False]
  have "sel = filter (policy_applies rq) (candidate_definitions pr cx)" by simp
  then show ?thesis by (auto simp: select_policies_def sel)
qed

lemma resolve_delegation_Inr_iff:
  "resolve_delegation dr rq cx now = Inr (Inr g) \<longleftrightarrow> usable_delegation dr rq cx now g"
  unfolding resolve_delegation_def usable_delegation_def
  by (auto simp: permits_True_iff dt_le_def res_bind_Inr_iff split: option.splits if_splits)

text \<open>The loop ends with matches, none of them a deny, and no unsupported policy.\<close>

definition only_approvals ::
  "(policy_match list \<times> (policy_definition \<times> policy_version) option) option \<Rightarrow> bool" where
  "only_approvals res =
     (\<exists>ms. res = Some (ms, None) \<and> ms \<noteq> [] \<and> (\<forall>x \<in> set ms. \<not> is_deny_match x))"

lemma evaluate_policies_Cons:
  "evaluate_policies ctx (c # cs) m u =
     (case policy_result ctx c of Inl _ \<Rightarrow> None
      | Inr outcome \<Rightarrow>
           if \<not> eo_matched outcome then evaluate_policies ctx cs m u
           else if eo_effect outcome \<notin> {APPROVE, REJECT, BLOCK}
             \<or> (eo_effect outcome = APPROVE \<and> uses_agent_controlled_context (snd c))
           then evaluate_policies ctx cs m (Some c)
           else evaluate_policies ctx cs
                  (m @ [\<lparr>pm_priority = opt_or (eo_rule_priority outcome) 0,
                         pm_policy_id = pd_policy_id (fst c), pm_definition = fst c, pm_version = snd c,
                         pm_effect = eo_effect outcome\<rparr>]) u)"
proof -
  obtain d v where c: "c = (d, v)" by (cases c)
  show ?thesis
    unfolding c
    by (cases "to_governance_policy v d"; cases "new_evaluation_context ctx";
        cases "res_bind (to_governance_policy v d) (\<lambda>p. res_bind (new_evaluation_context ctx) (evaluate_with_trace p))")
      (simp_all add: policy_result_def Let_def)
qed

lemma evaluate_policies_allow:
  "only_approvals (evaluate_policies ctx cs m u) \<longleftrightarrow>
     u = None \<and> (\<forall>x \<in> set m. \<not> is_deny_match x)
     \<and> (\<forall>c \<in> set cs. policy_approves ctx c \<or> policy_abstains ctx c)
     \<and> (m \<noteq> [] \<or> (\<exists>c \<in> set cs. policy_approves ctx c))"
proof (induction cs arbitrary: m u)
  case Nil
  then show ?case by (auto simp: only_approvals_def)
next
  case (Cons c cs)
  show ?case
  proof (cases "policy_result ctx c")
    case (Inl e)
    then show ?thesis
      by (auto simp: evaluate_policies_Cons only_approvals_def policy_approves_def policy_abstains_def simp del: evaluate_policies.simps)
  next
    case (Inr v)
    then have "policy_approves ctx c \<longleftrightarrow> eo_matched v \<and> eo_effect v = APPROVE \<and> \<not> uses_agent_controlled_context (snd c)"
      "policy_abstains ctx c \<longleftrightarrow> \<not> eo_matched v"
      by (simp_all add: policy_approves_def policy_abstains_def)
    then show ?thesis
      by (cases "eo_effect v")
        (auto simp: Inr evaluate_policies_Cons Cons.IH is_deny_match_def simp del: evaluate_policies.simps)
  qed
qed

lemma judge_policies_ALLOW_iff:
  "vd_outcome (judge_policies rq cx g cs) = ALLOW \<longleftrightarrow>
     only_approvals (evaluate_policies (authorization_context rq cx g) cs [] None)"
proof (cases "evaluate_policies (authorization_context rq cx g) cs [] None")
  case None
  then show ?thesis by (simp add: judge_policies_def deny_def only_approvals_def)
next
  case (Some r)
  obtain m u where r: "r = (m, u)" by (cases r)
  have "filter is_deny_match (sort_key k m) = [] \<longleftrightarrow> (\<forall>x \<in> set m. \<not> is_deny_match x)" for k :: "policy_match \<Rightarrow> int \<times> string"
    by (simp add: filter_empty_conv)
  with Some r show ?thesis
    by (cases u) (auto simp: judge_policies_def deny_def only_approvals_def combine_matches_def Let_def)
qed

lemma evaluate_request_ALLOW_iff:
  assumes "evaluate_request pr dr rq cx now = Inr v"
  shows "vd_outcome v = ALLOW \<longleftrightarrow> operation_allowed pr dr rq cx now"
proof (cases "rq_policy_id rq = None \<and> rq_expected_policy_version rq = None")
  case False
  with assms show ?thesis by (auto simp: evaluate_request_def operation_allowed_def deny_def)
next
  case True
  with assms obtain res where res: "resolve_delegation dr rq cx now = Inr res"
    by (auto simp: evaluate_request_def res_bind_Inr_iff)
  have unique: "res = Inr g" if "usable_delegation dr rq cx now g" for g
    using that res by (simp add: resolve_delegation_Inr_iff [symmetric])
  show ?thesis
  proof (cases res)
    case (Inl reason)
    with unique have "\<not> usable_delegation dr rq cx now g" for g by auto
    with True res Inl assms show ?thesis
      by (auto simp: evaluate_request_def operation_allowed_def deny_def)
  next
    case (Inr g)
    with res have g: "usable_delegation dr rq cx now g" by (simp add: resolve_delegation_Inr_iff)
    have only: "usable_delegation dr rq cx now h \<longleftrightarrow> h = g" for h
      using unique [of h] Inr g by blast
    define cs where "cs = filter (policy_applies rq) (candidate_definitions pr cx)"
    have "vd_outcome v = ALLOW \<longleftrightarrow> cs \<noteq> [] \<and> vd_outcome (judge_policies rq cx g cs) = ALLOW"
    proof (cases "select_policies pr rq cx")
      case (Inl reason)
      then have "cs = []" using select_policies_Inr_iff [of pr rq cx cs] by (auto simp: cs_def)
      with Inl True res Inr assms show ?thesis
        by (auto simp: evaluate_request_def deny_def)
    next
      case sel: (Inr cs')
      then have "cs' = cs" "cs \<noteq> []" by (auto simp: select_policies_Inr_iff cs_def)
      with sel True res Inr assms show ?thesis by (auto simp: evaluate_request_def)
    qed
    moreover have "operation_allowed pr dr rq cx now \<longleftrightarrow>
        (\<exists>c \<in> set cs. policy_approves (authorization_context rq cx g) c)
        \<and> (\<forall>c \<in> set cs. policy_approves (authorization_context rq cx g) c
             \<or> policy_abstains (authorization_context rq cx g) c)"
      unfolding operation_allowed_def only cs_def set_filter using True by blast
    moreover have "cs \<noteq> []" if "\<exists>c \<in> set cs. policy_approves (authorization_context rq cx g) c"
      using that by auto
    ultimately show ?thesis
      unfolding judge_policies_ALLOW_iff evaluate_policies_allow by auto
  qed
qed

section \<open>The decision event\<close>

lemma decision_of_Inr:
  assumes "authorization_decision_of ttl i rq cx c now fp v = Inr d"
  shows "decision_ok d" "dc_outcome d = vd_outcome v" "dc_decision_id d = i"
    "dc_execution_id d = rq_execution_id rq" "dc_action_id d = rq_action_id rq"
    "dc_resource d = rq_resource rq" "dc_actor_id d = cx_actor_id cx"
    "dc_idempotency_key d = rq_idempotency_key rq" "dc_request_fingerprint d = fp"
    "dc_tool_arguments_digest d = rq_tool_arguments_digest rq" "datetime_ok (dc_expires_at d)"
    "dc_decided_at d = now" "micros (dc_expires_at d) = micros now + ttl"
proof -
  from assms obtain t e where t: "dt_plus now ttl = Inr t" and e: "new_decision (outcome_value (vd_outcome v)) e = Inr d"
    "dc_decision_id e = i" "dc_execution_id e = rq_execution_id rq" "dc_action_id e = rq_action_id rq"
    "dc_resource e = rq_resource rq" "dc_actor_id e = cx_actor_id cx"
    "dc_idempotency_key e = rq_idempotency_key rq" "dc_request_fingerprint e = fp"
    "dc_tool_arguments_digest e = rq_tool_arguments_digest rq" "dc_expires_at e = t" "dc_decided_at e = now"
    unfolding authorization_decision_of_def by (auto elim: res_bind_InrE)
  from e(1) have d: "d = e\<lparr>dc_outcome := vd_outcome v\<rparr>" "decision_ok e"
    by (simp_all add: new_decision_Inr_iff)
  show "decision_ok d" "dc_outcome d = vd_outcome v" "dc_decision_id d = i"
    "dc_execution_id d = rq_execution_id rq" "dc_action_id d = rq_action_id rq"
    "dc_resource d = rq_resource rq" "dc_actor_id d = cx_actor_id cx"
    "dc_idempotency_key d = rq_idempotency_key rq" "dc_request_fingerprint d = fp"
    "dc_tool_arguments_digest d = rq_tool_arguments_digest rq" "datetime_ok (dc_expires_at d)"
    "dc_decided_at d = now" "micros (dc_expires_at d) = micros now + ttl"
    using d e(2-) dt_plus_Inr [OF t] by auto
qed

lemma decision_of_matches:
  "authorization_decision_of ttl i rq cx c now (fingerprint fr rq) v = Inr d \<Longrightarrow>
     matches_request fr d rq (cx_actor_id cx)"
  by (simp add: matches_request_def decision_of_Inr)

lemma match_sha256_non_empty: "match_sha256 s \<Longrightarrow> s \<noteq> []"
  by (auto simp: match_sha256_def py_startswith_def)

lemma match_identifier_non_empty: "match_identifier n s \<Longrightarrow> s \<noteq> []"
  by (auto simp: match_identifier_def)

lemma non_empty_string_of_opt_str: "(\<And>s. x = Some s \<Longrightarrow> s \<noteq> []) \<Longrightarrow> non_empty_string (of_opt_str x) = x"
  by (cases x) (simp_all add: non_empty_string_def)

lemma policy_bindings_map:
  assumes "\<And>p v. (p, v) \<in> set ps \<Longrightarrow> p \<noteq> [] \<and> v \<noteq> []"
  shows "policy_bindings (map (\<lambda>(p, v). PDict [(''policy_id'', PStr p), (''version'', PStr v)]) ps) = Some ps"
  using assms
proof (induction ps)
  case (Cons x ps)
  obtain p v where "x = (p, v)" by (cases x)
  moreover from this Cons(2) [of p v] have "p \<noteq> []" "v \<noteq> []" by simp_all
  moreover have "policy_bindings (map (\<lambda>(p, v). PDict [(''policy_id'', PStr p), (''version'', PStr v)]) ps) = Some ps"
    by (rule Cons.IH, rule Cons.prems) simp
  ultimately show ?case by (simp add: non_empty_string_def pget_def)
qed simp

lemma decision_ok_non_empty:
  assumes "decision_ok d"
  shows "dc_policy_id d = Some x \<Longrightarrow> x \<noteq> []" "dc_policy_version d = Some x \<Longrightarrow> x \<noteq> []"
    "dc_delegation_id d = Some x \<Longrightarrow> x \<noteq> []" "dc_delegation_version d = Some x \<Longrightarrow> x \<noteq> []"
    "dc_delegation_digest d = Some x \<Longrightarrow> x \<noteq> []" "dc_tool_arguments_digest d = Some x \<Longrightarrow> x \<noteq> []"
    "(p, v) \<in> set (dc_evaluated_policies d) \<Longrightarrow> p \<noteq> [] \<and> v \<noteq> []"
proof -
  have all: "all_pass (decision_checks d)" using assms by (simp add: decision_ok_def)
  show "dc_policy_id d = Some x \<Longrightarrow> x \<noteq> []" "dc_policy_version d = Some x \<Longrightarrow> x \<noteq> []"
    "dc_delegation_id d = Some x \<Longrightarrow> x \<noteq> []" "dc_delegation_version d = Some x \<Longrightarrow> x \<noteq> []"
    "dc_delegation_digest d = Some x \<Longrightarrow> x \<noteq> []" "dc_tool_arguments_digest d = Some x \<Longrightarrow> x \<noteq> []"
    using all by (auto simp: decision_checks_def dest: match_identifier_non_empty match_sha256_non_empty)
  have "all_pass (concat (map (\<lambda>(p, v). [require_identifier ''evaluated policy_id'' p,
      require_identifier ''evaluated policy_version'' v]) (dc_evaluated_policies d)))"
    using all by (simp add: decision_checks_def)
  then have "match_identifier 127 p \<and> match_identifier 127 v" if "(p, v) \<in> set (dc_evaluated_policies d)"
    using that by (force simp: all_pass_concat_map)
  then show "(p, v) \<in> set (dc_evaluated_policies d) \<Longrightarrow> p \<noteq> [] \<and> v \<noteq> []"
    using match_identifier_non_empty by blast
qed

text \<open>The evidence of a decision never trips over the privacy check of the event store.\<close>

lemma decision_keys_allowed:
  "\<not> prohibited ''authorization_schema_version''" "\<not> prohibited ''authorization_outcome''"
  "\<not> prohibited ''reason_code''" "\<not> prohibited ''action_id''" "\<not> prohibited ''resource_type''"
  "\<not> prohibited ''resource_reference''" "\<not> prohibited ''actor_id''" "\<not> prohibited ''policy_id''"
  "\<not> prohibited ''policy_version''" "\<not> prohibited ''evaluated_policies''" "\<not> prohibited ''delegation_id''"
  "\<not> prohibited ''delegation_version''" "\<not> prohibited ''delegation_digest''"
  "\<not> prohibited ''tool_arguments_digest''" "\<not> prohibited ''expires_at''" "\<not> prohibited ''idempotency_key''"
  "\<not> prohibited ''request_fingerprint''" "\<not> prohibited ''context_digest''" "\<not> prohibited ''version''"
  by code_simp+

lemma decision_attributes_allowed: "all_pass (attribute_checks (decision_attributes fr d rq fp))"
proof -
  have "find_prohibited_key (of_opt_str x) [] = None" for x by (cases x) simp_all
  moreover have "find_prohibited_in_list (map (\<lambda>(p, v). PDict [(''policy_id'', PStr p), (''version'', PStr v)]) ps) n path = None"
    for ps n path
    by (induction ps arbitrary: n) (auto simp: decision_keys_allowed)
  ultimately show ?thesis
    by (simp add: attribute_checks_def decision_attributes_def decision_keys_allowed)
qed

text \<open>An event with the attributes of a decision and its bindings reads back as the decision.\<close>

lemma stored_decision_attributes:
  assumes "decision_ok d" "resource_ok (dc_resource d)" "datetime_ok (dc_expires_at d)"
    and "ev_attributes e = decision_attributes fr d rq (dc_request_fingerprint d)"
    and "ev_event_id e = dc_decision_id d" "ev_execution_id e = dc_execution_id d"
    and "ev_correlation_id e = dc_correlation_id d" "ev_occurred_at e = dc_decided_at d"
  shows "stored_decision fr e = Some d"
proof -
  have res: "new_resource (rs_resource_type (dc_resource d)) (rs_resource_reference (dc_resource d))
      = Inr (dc_resource d)"
    using assms(2) by (cases "dc_resource d") (simp add: new_resource_def resource_ok_def Let_def checked_Inr_iff)
  note opt = non_empty_string_of_opt_str [OF decision_ok_non_empty(1) [OF assms(1)]]
    non_empty_string_of_opt_str [OF decision_ok_non_empty(2) [OF assms(1)]]
    non_empty_string_of_opt_str [OF decision_ok_non_empty(3) [OF assms(1)]]
    non_empty_string_of_opt_str [OF decision_ok_non_empty(4) [OF assms(1)]]
    non_empty_string_of_opt_str [OF decision_ok_non_empty(5) [OF assms(1)]]
    non_empty_string_of_opt_str [OF decision_ok_non_empty(6) [OF assms(1)]]
  note attr = str_item_def pget_def decision_attributes_def
  have pol: "evaluated_policies_of (PList (map (\<lambda>(p, v). PDict [(''policy_id'', PStr p), (''version'', PStr v)])
      (dc_evaluated_policies d))) = Some (dc_evaluated_policies d)"
    by (simp add: evaluated_policies_of_def)
      (rule policy_bindings_map, erule decision_ok_non_empty(7) [OF assms(1)])
  have "new_decision (outcome_value (dc_outcome d)) (d\<lparr>dc_outcome := DENY\<rparr>) = Inr d"
    using assms(1) by (simp add: new_decision_Inr_iff)
  then show ?thesis
    unfolding stored_decision_def assms(4-8) Let_def
    by (simp add: attr res pol opt assms(3) decision_eta)
qed

section \<open>Runs of the service\<close>

text \<open>
  A successful call either answers from an event that the store already holds, or records the fresh
  decision under its identifier.
\<close>

lemma existing_decision_Inr:
  assumes "existing_decision fr e rq a fp = Inr d"
  shows "stored_decision fr e = Some d" "matches_request fr d rq a" "ev_event_type e = RUNTIME_ACTION_AUTHORIZATION"
  using assms by (auto simp: existing_decision_def split: if_splits option.splits)

lemma case_sum_Some_iff:
  "(case r of Inl _ \<Rightarrow> None | Inr x \<Rightarrow> f x) = Some y \<longleftrightarrow> (\<exists>x. r = Inr x \<and> f x = Some y)"
  by (cases r) simp_all

lemma event_eq_id: "event_eq e f \<Longrightarrow> ev_event_id e = ev_event_id f"
  unfolding event_eq_def by (drule conjunct1, drule arg_cong [of _ _ ev_event_id]) simp

lemma stored_decision_ok:
  assumes "stored_decision fr e = Some d"
  shows "decision_ok d" "dc_decision_id d = ev_event_id e" "dc_execution_id d = ev_execution_id e"
proof -
  from assms obtain o' d' where d: "new_decision o' d' = Inr d" "dc_decision_id d' = ev_event_id e"
    "dc_execution_id d' = ev_execution_id e"
    unfolding stored_decision_def Let_def by (auto simp: bind_eq_Some_conv case_sum_Some_iff)
  then show "decision_ok d" "dc_decision_id d = ev_event_id e" "dc_execution_id d = ev_execution_id e"
    by (auto simp: new_decision_Inr_iff)
qed

lemma authorize_cases:
  assumes inv: "event_repo_inv (ts_events s)" and run: "authorize fr ttl dr pr (now, i) rq cx s = (Inr d, s')"
  obtains (known) e where "s' = s" "existing_decision fr e rq (cx_actor_id cx) (fingerprint fr rq) = Inr d"
      "find_decision_event s rq cx = Some e"
  | (repeated) f where "s' = s" "existing_decision fr f rq (cx_actor_id cx) (fingerprint fr rq) = Inr d"
      "find_decision_event s rq cx = None"
      "dict_get (er_by_idempotency (ts_events s)) (event_idempotency_key (rq_idempotency_key rq), rq_execution_id rq) = Some f"
  | (decided) x c v e where "cx_get_execution s (rq_execution_id rq) cx = Some x"
      "resolve_correlation_id rq cx x = Inr c" "find_decision_event s rq cx = None"
      "evaluate_request pr dr rq cx now = Inr v"
      "authorization_decision_of ttl i rq cx c now (fingerprint fr rq) v = Inr d"
      "e = decision_event fr s d rq cx (fingerprint fr rq)" "event_ok e"
      "ts_events s' = (if dict_get (er_by_id (ts_events s)) i = None
         then append_event e (Some (event_idempotency_key (rq_idempotency_key rq))) (ts_events s) else ts_events s)"
      "s' = s\<lparr>ts_events := ts_events s'\<rparr>"
proof -
  let ?key = "event_idempotency_key (rq_idempotency_key rq)"
  let ?existing = "\<lambda>e. existing_decision fr e rq (cx_actor_id cx) (fingerprint fr rq)"
  obtain x c where x: "cx_get_execution s (rq_execution_id rq) cx = Some x"
    and c: "resolve_correlation_id rq cx x = Inr c"
    using run by (auto simp: authorize_def split: option.splits sum.splits)
  show ?thesis
  proof (cases "find_decision_event s rq cx")
    case (Some e)
    with run x c show ?thesis by (intro known [of e]) (auto simp: authorize_def)
  next
    case None
    with run x c have new: "authorize_new fr ttl dr pr now i c rq cx s = (Inr d, s')"
      by (simp add: authorize_def)
    then obtain v dec where v: "evaluate_request pr dr rq cx now = Inr v"
      and dec: "authorization_decision_of ttl i rq cx c now (fingerprint fr rq) v = Inr dec"
      and ok: "event_ok (decision_event fr s dec rq cx (fingerprint fr rq))"
      by (auto simp: authorize_new_def new_event_Inr_iff split: sum.splits)
    define e where "e = decision_event fr s dec rq cx (fingerprint fr rq)"
    have e: "ev_event_id e = i" "ev_execution_id e = rq_execution_id rq" "tool_call_key e = None"
      using decision_of_Inr(3,4) [OF dec]
      by (simp_all add: e_def decision_event_def platform_event_def tool_call_key_def)
    obtain r t where save: "save_event e (Some ?key) (ts_events s) = (r, t)"
      by (cases "save_event e (Some ?key) (ts_events s)")
    have s': "s' = s\<lparr>ts_events := t\<rparr>" and res: "case r of Inr saved \<Rightarrow>
          (if ev_event_id saved \<noteq> i then ?existing saved else Inr dec) = Inr d
        | Inl x \<Rightarrow> exc_kind x = AgentExecutionIdempotencyConflict \<and>
            (\<exists>f. find_decision_event s' rq cx = Some f)"
      using new v dec ok save
      by (auto simp: authorize_new_def new_event_Inr_iff e_def [symmetric] act_on_apply e(1)
          split: sum.splits if_splits option.splits)
    show ?thesis
    proof (cases "dict_get (er_by_id (ts_events s)) i")
      case (Some f)
      have t: "t = ts_events s" and "\<And>saved. r = Inr saved \<Longrightarrow> saved = f \<and> ev_event_id f = i"
        using save Some e(1) by (auto simp: save_event_def dest: event_eq_id split: if_splits)
      with res s' None have d: "dec = d"
        by (cases r) auto
      show ?thesis
        by (rule decided [OF x c None v])
          (use dec ok Some t s' in \<open>simp_all add: d e_def [symmetric]\<close>)
    next
      case fresh: None
      show ?thesis
      proof (cases "dict_get (er_by_idempotency (ts_events s)) (?key, rq_execution_id rq)")
        case (Some f)
        then have "ev_event_id f \<noteq> i"
          using event_repo_inv_indexD(2) [OF inv] fresh by fastforce
        moreover have "t = ts_events s" "\<And>saved. r = Inr saved \<Longrightarrow> saved = f"
          using save Some e fresh by (auto simp: save_event_def split: if_splits)
        ultimately show ?thesis
          using res s' None Some by (intro repeated [of f]) (cases r; simp)+
      next
        case key: None
        then have "r = Inr e" "t = append_event e (Some ?key) (ts_events s)"
          using save e fresh by (simp_all add: save_event_def)
        with res s' e(1) have d: "dec = d" by simp
        show ?thesis
          by (rule decided [OF x c None v])
            (use dec ok fresh s' \<open>t = _\<close> in \<open>simp_all add: d e_def\<close>)
      qed
    qed
  qed
qed

lemma authorize_within:
  assumes "event_repo_inv (ts_events s)"
  shows "act_within (trace_step fr) (authorize fl ttl dr pr fresh rq cx) s"
proof -
  have new: "act_within (trace_step fr) (authorize_new fl ttl dr pr now i c rq cx) s" for now i c
  proof (rule act_within_step)
    fix r s' assume "authorize_new fl ttl dr pr now i c rq cx s = (r, s')"
    then consider "s' = s"
      | d q where "event_ok (decision_event fl s d rq cx (fingerprint fl rq))"
        "on_events (save_event (decision_event fl s d rq cx (fingerprint fl rq))
           (Some (event_idempotency_key (rq_idempotency_key rq)))) s = (q, s')"
      by (auto simp: authorize_new_def new_event_Inr_iff split: sum.splits prod.splits)
    then show "trace_step fr s s' \<or> s' = s"
    proof cases
      case (2 d q)
      have "ev_event_type (decision_event fl s d rq cx (fingerprint fl rq)) = RUNTIME_ACTION_AUTHORIZATION"
        by (simp add: decision_event_def platform_event_def)
      with 2 show ?thesis by (auto simp: act_on_apply prod_eq_iff intro!: trace_step.write_event)
    qed simp
  qed
  have eq: "authorize fl ttl dr pr fresh rq cx s = (case cx_get_execution s (rq_execution_id rq) cx of
        None \<Rightarrow> (Inl (Exc RuntimeActionAuthorizationNotFoundError
                  ''Execution does not exist in the resolved tenant scope.''), s)
      | Some execution \<Rightarrow> (case resolve_correlation_id rq cx execution of Inl e \<Rightarrow> (Inl e, s)
          | Inr c \<Rightarrow> (case find_decision_event s rq cx of
             Some existing \<Rightarrow> (existing_decision fl existing rq (cx_actor_id cx) (fingerprint fl rq), s)
           | None \<Rightarrow> authorize_new fl ttl dr pr (fst fresh) (snd fresh) c rq cx s)))"
    by (simp add: authorize_def split: option.split sum.split)
  show ?thesis
    unfolding act_within_def eq
    by (auto split: option.splits sum.splits dest: act_withinD [OF new])
qed

lemma recorded_outcome:
  assumes "event_repo_inv (ts_events s)"
    and "authorize fr ttl dr pr (now, i) rq cx s = (Inr d, s')" "s' \<noteq> s"
  shows "dc_outcome d = ALLOW \<longleftrightarrow> operation_allowed pr dr rq cx now"
  using assms(1,2)
proof (cases rule: authorize_cases)
  case (decided x c v e)
  with evaluate_request_ALLOW_iff [OF decided(4)] decision_of_Inr(2) [OF decided(5)] show ?thesis by simp
qed (use assms(3) in simp_all)

section \<open>Decisions can be asked for again\<close>

text \<open>
  The states in which a repetition is recognized: no event outside the caller's scope holds the key
  of the request. A caller that omits its project sees the events of every project, one that names a
  project does not see those recorded without one.
\<close>

definition authorization_inv :: "authorization_request \<Rightarrow> tenant_context \<Rightarrow> trace_store \<Rightarrow> bool" where
  "authorization_inv rq cx s =
     (event_repo_inv (ts_events s) \<and> resource_ok (rq_resource rq)
      \<and> (\<forall>e. dict_get (er_by_idempotency (ts_events s)) (event_idempotency_key (rq_idempotency_key rq), rq_execution_id rq)
             = Some e \<longrightarrow>
           in_scope (cx_organization_id cx) (cx_project_id cx) (ev_organization_id e) (ev_project_id e)))"

definition fresh_decision_id :: "trace_store \<Rightarrow> datetime \<times> string \<Rightarrow> bool" where
  "fresh_decision_id s fresh = (dict_get (er_by_id (ts_events s)) (snd fresh) = None)"

lemma decision_event_fields [simp]:
  "ev_event_id (decision_event fr s d rq cx fp) = dc_decision_id d"
  "ev_execution_id (decision_event fr s d rq cx fp) = dc_execution_id d"
  "ev_correlation_id (decision_event fr s d rq cx fp) = dc_correlation_id d"
  "ev_occurred_at (decision_event fr s d rq cx fp) = dc_decided_at d"
  "ev_event_type (decision_event fr s d rq cx fp) = RUNTIME_ACTION_AUTHORIZATION"
  "ev_organization_id (decision_event fr s d rq cx fp) = cx_organization_id cx"
  "ev_project_id (decision_event fr s d rq cx fp) = cx_project_id cx"
  "ev_attributes (decision_event fr s d rq cx fp) = decision_attributes fr d rq fp"
  by (simp_all add: decision_event_def platform_event_def)

lemma attr_is_fingerprint:
  "ev_attributes e = decision_attributes fr d rq fp \<Longrightarrow> attr_is e ''request_fingerprint'' fp"
  by (simp add: attr_is_def decision_attributes_def pget_def)

lemma existing_decision_recorded:
  assumes "decision_ok d" "resource_ok (dc_resource d)" "datetime_ok (dc_expires_at d)"
    and "dc_request_fingerprint d = fp" "matches_request fr d rq a"
    and "ev_attributes e = decision_attributes fr d rq' fp" "ev_event_type e = RUNTIME_ACTION_AUTHORIZATION"
    and "ev_event_id e = dc_decision_id d" "ev_execution_id e = dc_execution_id d"
    and "ev_correlation_id e = dc_correlation_id d" "ev_occurred_at e = dc_decided_at d"
  shows "existing_decision fr e rq a fp = Inr d"
  using assms stored_decision_attributes [OF assms(1-3), of e fr rq'] attr_is_fingerprint [OF assms(6)]
  by (simp add: existing_decision_def)

lemma authorize_known:
  assumes "cx_get_execution s (rq_execution_id rq) cx = Some x" "resolve_correlation_id rq cx x = Inr c"
    and "find_decision_event s rq cx = Some e"
    and "existing_decision fr e rq (cx_actor_id cx) (fingerprint fr rq) = Inr d"
  shows "authorize fr ttl dr pr fresh rq cx s = (Inr d, s)"
  using assms by (simp add: authorize_def)

text \<open>What a successful call leaves behind is what a repetition needs.\<close>

lemma authorize_settles:
  assumes inv: "authorization_inv rq cx s" and fresh: "fresh_decision_id s f"
    and run: "authorize fr ttl dr pr f rq cx s = (Inr d, s')"
  shows "\<exists>x c e. cx_get_execution s' (rq_execution_id rq) cx = Some x \<and> resolve_correlation_id rq cx x = Inr c
    \<and> find_decision_event s' rq cx = Some e
    \<and> existing_decision fr e rq (cx_actor_id cx) (fingerprint fr rq) = Inr d"
proof -
  obtain now i where f: "f = (now, i)" by (cases f)
  have er: "event_repo_inv (ts_events s)" using inv by (simp add: authorization_inv_def)
  obtain x c where x: "cx_get_execution s (rq_execution_id rq) cx = Some x"
    and c: "resolve_correlation_id rq cx x = Inr c"
    using run by (auto simp: authorize_def split: option.splits sum.splits)
  from er run [unfolded f] show ?thesis
  proof (cases rule: authorize_cases)
    case (known e)
    with x c show ?thesis by simp
  next
    case (repeated g)
    with inv show ?thesis
      by (auto simp: authorization_inv_def find_event_by_idempotency_key_def)
  next
    case (decided x c v e)
    note d = decision_of_Inr [OF decided(5)]
    have "existing_decision fr e rq (cx_actor_id cx) (fingerprint fr rq) = Inr d"
      by (rule existing_decision_recorded [where rq' = rq])
        (use d inv decision_of_matches [OF decided(5)] in \<open>simp_all add: decided(6) authorization_inv_def\<close>)
    moreover have "ts_events s' = append_event e (Some (event_idempotency_key (rq_idempotency_key rq))) (ts_events s)"
      using decided(8) fresh by (simp add: fresh_decision_id_def f)
    then have "find_decision_event s' rq cx = Some e"
      by (simp add: find_event_by_idempotency_key_def append_event_def decided(6) d(4) in_scope_self dict_get_put)
    moreover have "cx_get_execution s' (rq_execution_id rq) cx = Some x"
      using decided(1) by (subst decided(9)) simp
    ultimately show ?thesis using decided(2) by blast
  qed
qed

lemma authorize_replay:
  assumes "authorization_inv rq cx s" "fresh_decision_id s f" "authorize fr ttl dr pr f rq cx s = (Inr d, s')"
  shows "authorize fr ttl dr pr f' rq cx s' = (Inr d, s')"
  using authorize_settles [OF assms] by (auto intro: authorize_known)

lemma authorize_later:
  assumes "authorization_inv rq cx s" "fresh_decision_id s f" "authorize fr ttl dr pr f rq cx s = (Inr d, s')"
    and inv: "trace_inv fx s'" and run: "(trace_step fx)\<^sup>*\<^sup>* s' s''"
  shows "authorize fr ttl' dr' pr' f' rq cx s'' = (Inr d, s'')"
proof -
  obtain x c e where x: "cx_get_execution s' (rq_execution_id rq) cx = Some x"
    and c: "resolve_correlation_id rq cx x = Inr c" and e: "find_decision_event s' rq cx = Some e"
    and d: "existing_decision fr e rq (cx_actor_id cx) (fingerprint fr rq) = Inr d"
    using authorize_settles [OF assms(1-3)] by blast
  have "\<exists>y. cx_get_execution s'' (rq_execution_id rq) cx = Some y \<and> ex_correlation_id y = ex_correlation_id x"
    using x trace_executions.lookup_run [OF run inv]
    by (fastforce simp: get_execution_Some execution_evolves_def)
  then obtain y where y: "cx_get_execution s'' (rq_execution_id rq) cx = Some y"
    "ex_correlation_id y = ex_correlation_id x" by blast
  have "find_decision_event s'' rq cx = Some e"
    using e trace_keys.lookup_run [OF run inv]
    by (fastforce simp: find_event_by_idempotency_key_def split: option.splits if_splits)
  moreover have "resolve_correlation_id rq cx y = Inr c"
    using c y(2) by (simp add: resolve_correlation_id_def)
  ultimately show ?thesis using y(1) d by (intro authorize_known)
qed

interpretation authorization: idempotent_command
  "\<lambda>fresh. authorize fr ttl dr pr fresh rq cx" "authorization_inv rq cx" fresh_decision_id
  for fr ttl dr pr rq cx
  by unfold_locales (rule authorize_replay)

section \<open>Approvals and agent facts\<close>

lemma map_res_InrD:
  assumes "map_res f xs = Inr ys" "\<And>x y. f x = Inr y \<Longrightarrow> y = g x"
  shows "ys = map g xs"
  using assms(1)
proof (induction xs arbitrary: ys)
  case (Cons x xs)
  from Cons(2) obtain y zs where "f x = Inr y" "map_res f xs = Inr zs" "ys = y # zs"
    by (auto elim!: res_bind_InrE)
  with Cons(1) assms(2) show ?case by simp
qed simp

lemma trace_condition_InrD: "trace_condition r c ev = Inr t \<Longrightarrow> t = trace_item_of ev r c"
  by (auto simp: trace_condition_def new_trace_item_def trace_item_of_def Let_def checked_Inr_iff
      simp del: checked_Cons)

lemma trace_rules_matched:
  assumes "trace_rules p ev tr rs = Inr t" "eo_matched (to_outcome t)"
  shows "\<exists>r \<in> set rs. rule_matches r ev \<and> eo_effect (to_outcome t) = pr_effect r"
  using assms
proof (induction rs arbitrary: tr)
  case Nil
  then show ?case by (auto elim!: res_bind_InrE dest: no_decision_Inr)
next
  case (Cons r rs)
  then obtain items where items: "map_res (\<lambda>c. trace_condition r c ev) (pr_conditions r) = Inr items"
    by (auto elim!: res_bind_InrE)
  have "list_all ti_matched items = rule_matches r ev"
    by (simp add: map_res_InrD [OF items trace_condition_InrD])
  with Cons items show ?case
    by (cases "rule_matches r ev") (auto elim!: res_bind_InrE dest: rule_outcome_Inr)
qed

lemma policy_approves_rule:
  assumes "policy_approves ctx c"
  obtains r where "r \<in> set (pv_rules (snd c))" "pr_effect r = APPROVE" "rule_matches r (ec_evidence ctx)"
    "\<not> approves_from_agent_context r"
proof -
  from assms obtain p cx' t where p: "to_governance_policy (snd c) (fst c) = Inr p"
    and cx': "new_evaluation_context ctx = Inr cx'" and t: "evaluate_with_trace p cx' = Inr t"
    and m: "eo_matched (to_outcome t)" "eo_effect (to_outcome t) = APPROVE"
    and ua: "\<not> uses_agent_controlled_context (snd c)"
    by (auto simp: policy_approves_def policy_result_def elim!: res_bind_InrE)
  have rules: "gp_rules p = pv_rules (snd c)"
    using p by (auto simp: to_governance_policy_def new_governance_policy_def checked_Inr_iff simp del: checked_Cons)
  have ctx: "cx' = ctx" using cx' by (simp add: new_evaluation_context_def checked_Inr_iff del: checked_Cons)
  have "trace_rules p (ec_evidence ctx) [] (rules_by_priority p) = Inr t"
    using t m(1) by (auto simp: evaluate_with_trace_def ctx elim!: res_bind_InrE dest: no_decision_Inr split: if_splits)
  from trace_rules_matched [OF this m(1)] m(2) ua that show ?thesis
    by (auto simp: rules uses_agent_controlled_context_def list_ex_iff)
qed

lemma approval_ignores_agent_facts:
  assumes "\<not> approves_from_agent_context r" "pr_effect r = APPROVE"
    and "\<forall>q \<in> set (pr_conditions r). pc_field_path q \<noteq> ''agent_context''"
    and "rule_matches r (authorization_evidence rq cx g)"
  shows "rule_matches r (authorization_evidence (rq\<lparr>rq_context := facts\<rparr>) cx g)"
proof -
  have "resolve_field_path (authorization_evidence rq cx g) (pc_field_path q)
      = resolve_field_path (authorization_evidence (rq\<lparr>rq_context := facts\<rparr>) cx g) (pc_field_path q)"
    if "q \<in> set (pr_conditions r)" for q
    by (rule resolve_field_path_other [where key = "''agent_context''"])
      (use that assms(1-3) in \<open>auto simp: approves_from_agent_context_def agent_controlled_path_def
        list_ex_iff authorization_evidence_def\<close>)
  with assms(4) rule_matches_cong show ?thesis by metis
qed

section \<open>Properties\<close>

text \<open>
  C1. Every decision the service records is the specified one: the outcome is ALLOW exactly when the
  request does not pick its policy, names an unrevoked, unexpired delegation of its tenant scope in the
  stored version and digest whose scope covers actor, execution, action and resource, and the active
  policies registered for the operation approve it, at least one of them approving and none rejecting,
  blocking, failing or having an effect that does not authorize.
\<close>

theorem authorize_implements_specification:
  assumes "event_repo_inv (ts_events s)"
    and "authorize fr ttl dr pr (now, i) rq cx s = (Inr d, s')" "s' \<noteq> s"
  shows "dc_outcome d = ALLOW \<longleftrightarrow> operation_allowed pr dr rq cx now"
  by (rule recorded_outcome [OF assms])

lemma authorize_bound:
  assumes "event_repo_inv (ts_events s)" "authorize fr ttl dr pr (now, i) rq cx s = (Inr d, s')"
  shows "decision_ok d \<and> matches_request fr d rq (cx_actor_id cx)"
  using assms
proof (cases rule: authorize_cases)
  case (known e)
  with existing_decision_Inr [OF known(2)] show ?thesis by (auto dest: stored_decision_ok(1))
next
  case (repeated f)
  with existing_decision_Inr [OF repeated(2)] show ?thesis by (auto dest: stored_decision_ok(1))
next
  case (decided x c v e)
  then show ?thesis by (auto intro: decision_of_Inr(1) decision_of_matches)
qed

text \<open>
  Every decision the service returns, recorded now or read back, is well formed and bound to the
  request and the caller: the same execution, action, resource, actor, idempotency key and fingerprint.
\<close>

theorem authorize_binds_request:
  assumes "event_repo_inv (ts_events s)" "authorize fr ttl dr pr (now, i) rq cx s = (Inr d, s')"
  shows "decision_ok d \<and> matches_request fr d rq (cx_actor_id cx)"
  using assms by (rule authorize_bound)

text \<open>
  C6. Authority never comes from facts the agent supplies. Behind every recorded ALLOW there is an
  approving rule of an active policy that matches the evidence whatever facts the request carried,
  provided no condition of the policies reads the whole \<open>agent_context\<close> mapping itself.
\<close>

theorem allow_independent_of_agent_facts:
  assumes "event_repo_inv (ts_events s)"
    and "authorize fr ttl dr pr (now, i) rq cx s = (Inr d, s')" "s' \<noteq> s" "dc_outcome d = ALLOW"
    and "\<forall>c \<in> set (candidate_definitions pr cx). \<forall>r \<in> set (pv_rules (snd c)). \<forall>q \<in> set (pr_conditions r).
      pc_field_path q \<noteq> ''agent_context''"
  shows "\<exists>g c r. usable_delegation dr rq cx now g \<and> c \<in> set (candidate_definitions pr cx)
    \<and> r \<in> set (pv_rules (snd c)) \<and> pr_effect r = APPROVE
    \<and> (\<forall>facts. rule_matches r (authorization_evidence (rq\<lparr>rq_context := facts\<rparr>) cx g))"
  using assms(1,2)
proof (cases rule: authorize_cases)
  case (decided x k v e)
  with assms(4) evaluate_request_ALLOW_iff [OF decided(4)] decision_of_Inr(2) [OF decided(5)]
  obtain g c where g: "usable_delegation dr rq cx now g" and c: "c \<in> set (candidate_definitions pr cx)"
    and app: "policy_approves (authorization_context rq cx g) c"
    by (auto simp: operation_allowed_def)
  from policy_approves_rule [OF app] obtain r where r: "r \<in> set (pv_rules (snd c))" "pr_effect r = APPROVE"
    "rule_matches r (authorization_evidence rq cx g)" "\<not> approves_from_agent_context r"
    by (auto simp: authorization_context_def)
  have "rule_matches r (authorization_evidence (rq\<lparr>rq_context := facts\<rparr>) cx g)" for facts
    using approval_ignores_agent_facts [OF r(4,2)] assms(5) c r(1,3) by blast
  with g c r(1,2) show ?thesis by blast
qed (use assms(3) in simp_all)

text \<open>
  The check that keeps agent facts out of approvals looks at dotted paths only. A rule that compares
  the whole \<open>agent_context\<close> mapping with an expected value passes it, at activation and at
  decision time, and then approves for exactly the facts the agent chose to send.
\<close>

theorem whole_agent_context_escapes_check:
  assumes "pr_effect r = APPROVE" "pr_conditions r = [q]" "pc_field_path q = ''agent_context''"
    and "pc_operator q = EQUALS" "pc_expected_value q = PDict facts"
  shows "\<not> approves_from_agent_context r
    \<and> (rule_matches r (authorization_evidence rq cx g) \<longleftrightarrow> py_eq (PDict (rq_context rq)) (PDict facts))"
proof -
  have "py_split CHR ''.'' ''agent_context'' = [''agent_context'']" by code_simp
  moreover have "\<not> py_startswith ''agent_context'' ''context.''" "\<not> py_startswith ''agent_context'' ''agent_context.''"
    by (simp_all add: py_startswith_def)
  ultimately show ?thesis
    using assms
    by (simp add: approves_from_agent_context_def agent_controlled_path_def rule_matches_def condition_matches_def
        resolve_field_path_def authorization_evidence_def Let_def)
qed

text \<open>
  C5. Recorded evidence can be forged by the runtime it constrains. Event ingestion accepts an event of
  type RUNTIME_ACTION_AUTHORIZATION from a runtime, under the idempotency key that the authorization
  service will look up. If its attributes spell an ALLOW decision for the caller's own request, the
  service then answers that request with it, without any delegation and for every policy repository.
\<close>

theorem forged_authorization_accepted:
  assumes "ingest_event env now (dc_decision_id d) (rq_execution_id rq) sub cx s = (Inr e, s')" "s' \<noteq> s"
    and "trace_inv fr s" "cx_get_execution s (rq_execution_id rq) cx = Some x"
    and "resolve_correlation_id rq cx x = Inr c"
    and "es_event_type sub = RUNTIME_ACTION_AUTHORIZATION"
    and "es_idempotency_key sub = Some (event_idempotency_key (rq_idempotency_key rq))"
    and "es_attributes sub = decision_attributes fr d rq (fingerprint fr rq)"
    and "dc_correlation_id d = str_or (es_correlation_id sub) (ex_correlation_id x)"
    and "dc_decided_at d = opt_or (es_occurred_at sub) now"
    and "decision_ok d" "resource_ok (dc_resource d)" "datetime_ok (dc_expires_at d)"
    and "dc_outcome d = ALLOW" "matches_request fr d rq (cx_actor_id cx)"
  shows "authorize fr ttl None pr fresh rq cx s' = (Inr d, s')"
  using assms(1)
proof (cases rule: ingest_event_cases)
  case (fresh y lt f)
  have y: "y = x" using fresh(1) assms(4) by simp
  have m: "dc_execution_id d = rq_execution_id rq" "dc_request_fingerprint d = fingerprint fr rq"
    using assms(15) by (simp_all add: matches_request_def)
  have f: "ev_attributes f = decision_attributes fr d rq (fingerprint fr rq)"
    "ev_event_type f = RUNTIME_ACTION_AUTHORIZATION" "ev_event_id f = dc_decision_id d"
    "ev_execution_id f = dc_execution_id d" "ev_correlation_id f = dc_correlation_id d"
    "ev_occurred_at f = dc_decided_at d" "ev_organization_id f = cx_organization_id cx"
    "ev_project_id f = cx_project_id cx"
    using assms(6,8,9,10) m y by (simp_all add: fresh(6) submitted_event_def split_beta)
  from fresh(8) obtain q t where save: "save_event f (es_idempotency_key sub) (ts_events s) = (q, t)"
    and s': "s' = s\<lparr>ts_events := t\<rparr>"
    by (auto simp: act_on_apply prod_eq_iff)
  have "event_repo_inv (ts_events s)" using assms(3) by (simp add: trace_inv_def)
  then have "t = append_event f (es_idempotency_key sub) (ts_events s)"
    using save by (cases rule: save_event_cases) (use s' assms(2) in auto)
  then have "find_decision_event s' rq cx = Some f"
    by (simp add: s' find_event_by_idempotency_key_def append_event_def assms(7) f m(1) in_scope_self dict_get_put)
  moreover have "existing_decision fr f rq (cx_actor_id cx) (fingerprint fr rq) = Inr d"
    by (rule existing_decision_recorded [where rq' = rq]) (use assms(11-13,15) f m in simp_all)
  ultimately show ?thesis
    using assms(4,5) by (intro authorize_known) (simp_all add: s')
qed (use assms(2) in simp_all)

end
