(* ===== verification/Enforcement.thy ===== *)
theory Enforcement
  imports Contracts
begin

text \<open>
  \<open>runtime_authorization/enforcement.py\<close>: the fail-closed boundary in front of a protected
  tool. The client is a parameter: what its \<open>authorize\<close> answers to a request is an exception
  or a value, which may fail to be a decision (\<open>None\<close>).
\<close>

type_synonym authorization_client = "authorization_request \<Rightarrow> exc + authorization_decision option"

definition blocked :: "string \<Rightarrow> exc" where
  "blocked reason_code =
     Exc ProtectedOperationBlocked (''Protected operation blocked: '' @ reason_code @ ''.'')"

definition require_allow ::
  "(rat \<Rightarrow> string) \<Rightarrow> authorization_client \<Rightarrow> string \<Rightarrow> datetime \<Rightarrow> authorization_request \<Rightarrow> string
     \<Rightarrow> exc + authorization_decision" where
  "require_allow fr client actor_id now request actual_tool_arguments_digest =
     (case client request of
        Inl _ \<Rightarrow> Inl (blocked ''AUTHORIZATION_UNAVAILABLE'')
      | Inr None \<Rightarrow> Inl (blocked ''MALFORMED_AUTHORIZATION_RESPONSE'')
      | Inr (Some decision) \<Rightarrow>
          res_bind (is_valid_for fr decision request actor_id now) (\<lambda>valid.
            checked
              [(\<not> valid, blocked (if dc_outcome decision = DENY then dc_reason_code decision
                                 else ''INVALID_AUTHORIZATION_DECISION'')),
               (rq_tool_arguments_digest request \<noteq> Some actual_tool_arguments_digest
                  \<or> dc_tool_arguments_digest decision \<noteq> Some actual_tool_arguments_digest,
                blocked ''TOOL_ARGUMENTS_MISMATCH'')]
              decision))"

lemma is_valid_for_True_iff:
  "is_valid_for fr d r a now = Inr True \<longleftrightarrow>
     dc_outcome d = ALLOW \<and> tz_aware now = tz_aware (dc_expires_at d)
     \<and> micros now < micros (dc_expires_at d) \<and> matches_request fr d r a"
  by (auto simp: is_valid_for_def dt_less_def split: if_splits)

lemma require_allow_Inr_iff:
  "require_allow fr client a now r g = Inr d \<longleftrightarrow>
     client r = Inr (Some d) \<and> is_valid_for fr d r a now = Inr True
     \<and> rq_tool_arguments_digest r = Some g \<and> dc_tool_arguments_digest d = Some g"
  by (auto simp: require_allow_def res_bind_Inr_iff split: sum.splits option.splits if_splits)

text \<open>
  C4. The boundary fails closed. It lets an operation through exactly when the client answered with an
  ALLOW decision that has not expired, names the execution, the action, the resource and the idempotency
  key of this request, this actor and the fingerprint of this request, and both the request and the
  decision carry the digest of the arguments the tool is about to run with. In every other case it
  raises that the operation is blocked, but for one: an ALLOW whose expiry cannot be compared with the
  clock, one of them without a time zone, raises the error of the comparison.
\<close>

theorem require_allow_fail_closed:
  "(require_allow fr client actor now request actual = Inr d \<longleftrightarrow>
      client request = Inr (Some d) \<and> dc_outcome d = ALLOW
      \<and> tz_aware now = tz_aware (dc_expires_at d) \<and> micros now < micros (dc_expires_at d)
      \<and> dc_execution_id d = rq_execution_id request \<and> dc_action_id d = rq_action_id request
      \<and> dc_resource d = rq_resource request \<and> dc_idempotency_key d = rq_idempotency_key request
      \<and> dc_actor_id d = actor \<and> dc_request_fingerprint d = fingerprint fr request
      \<and> rq_tool_arguments_digest request = Some actual \<and> dc_tool_arguments_digest d = Some actual)
   \<and> (case require_allow fr client actor now request actual of
        Inr x \<Rightarrow> client request = Inr (Some x)
      | Inl e \<Rightarrow>
          if \<exists>x. client request = Inr (Some x) \<and> dc_outcome x = ALLOW \<and> tz_aware now \<noteq> tz_aware (dc_expires_at x)
          then exc_kind e = TypeError else exc_kind e = ProtectedOperationBlocked)"
proof
  show "require_allow fr client actor now request actual = Inr d \<longleftrightarrow>
      client request = Inr (Some d) \<and> dc_outcome d = ALLOW
      \<and> tz_aware now = tz_aware (dc_expires_at d) \<and> micros now < micros (dc_expires_at d)
      \<and> dc_execution_id d = rq_execution_id request \<and> dc_action_id d = rq_action_id request
      \<and> dc_resource d = rq_resource request \<and> dc_idempotency_key d = rq_idempotency_key request
      \<and> dc_actor_id d = actor \<and> dc_request_fingerprint d = fingerprint fr request
      \<and> rq_tool_arguments_digest request = Some actual \<and> dc_tool_arguments_digest d = Some actual"
    by (auto simp: require_allow_Inr_iff is_valid_for_True_iff matches_request_def)
  show "case require_allow fr client actor now request actual of
        Inr x \<Rightarrow> client request = Inr (Some x)
      | Inl e \<Rightarrow>
          if \<exists>x. client request = Inr (Some x) \<and> dc_outcome x = ALLOW \<and> tz_aware now \<noteq> tz_aware (dc_expires_at x)
          then exc_kind e = TypeError else exc_kind e = ProtectedOperationBlocked"
    by (auto simp: require_allow_def blocked_def is_valid_for_def dt_less_def split: sum.splits option.splits if_splits)
qed

end
