(* ===== verification/Governance_System.thy ===== *)
theory Governance_System
  imports Authorization_Service Enforcement
begin

text \<open>
  The services together, on one state: the trace of executions and events, the delegations and the
  policies. A step of the system is one command of one service, with any arguments and any outcome.
  The properties of this theory hold under every interleaving of the commands.
\<close>

record system =
  sy_trace :: trace_store
  sy_delegations :: delegation_repo
  sy_policies :: policy_repo

definition empty_system :: system where
  "empty_system = \<lparr>sy_trace = empty_trace_store, sy_delegations = empty_delegation_repo,
     sy_policies = empty_policy_repo\<rparr>"

text \<open>
  Identifiers of new executions are fresh, clocks stay in the range of \<open>datetime\<close>, and policy
  rules were constructed.
\<close>

inductive system_step :: "(rat \<Rightarrow> string) \<Rightarrow> system \<Rightarrow> system \<Rightarrow> bool" for fr where
  start: "dict_get (xr_by_id (ts_executions (sy_trace s))) k = None \<Longrightarrow>
     ingest_start env now k i sub cx (sy_trace s) = (r1, t) \<Longrightarrow> system_step fr s (s\<lparr>sy_trace := t\<rparr>)"
| event: "ingest_event env now i k esub cx (sy_trace s) = (r2, t) \<Longrightarrow> system_step fr s (s\<lparr>sy_trace := t\<rparr>)"
| receipt: "datetime_ok now \<Longrightarrow> ingest_receipt fr env now k rsub cx (sy_trace s) = (r3, t) \<Longrightarrow>
     system_step fr s (s\<lparr>sy_trace := t\<rparr>)"
| complete: "mark_completed env now i k status cx (sy_trace s) = (r4, t) \<Longrightarrow>
     system_step fr s (s\<lparr>sy_trace := t\<rparr>)"
| authorize: "authorize fr ttl (Some (sy_delegations s)) (sy_policies s) fresh rq cx (sy_trace s) = (r5, t) \<Longrightarrow>
     system_step fr s (s\<lparr>sy_trace := t\<rparr>)"
| register: "register_delegation (ts_executions (sy_trace s)) (sy_policies s) fresh rg cx (sy_delegations s) = (r6, d) \<Longrightarrow>
     system_step fr s (s\<lparr>sy_delegations := d\<rparr>)"
| revoke: "service_revoke_delegation now i ref cx (sy_delegations s) = (r7, d) \<Longrightarrow>
     system_step fr s (s\<lparr>sy_delegations := d\<rparr>)"
| policy: "policy_service_step (sy_policies s) p \<Longrightarrow> system_step fr s (s\<lparr>sy_policies := p\<rparr>)"

definition system_inv :: "(rat \<Rightarrow> string) \<Rightarrow> system \<Rightarrow> bool" where
  "system_inv fr s =
     (trace_inv fr (sy_trace s) \<and> delegation_repo_inv (sy_delegations s) \<and> policy_repo_inv (sy_policies s))"

lemma empty_system_inv [simp]: "system_inv fr empty_system"
  by (simp add: system_inv_def empty_system_def)

text \<open>A step moves each store along its own writes only.\<close>

definition system_moves :: "(rat \<Rightarrow> string) \<Rightarrow> system \<Rightarrow> system \<Rightarrow> bool" where
  "system_moves fr s s' =
     ((trace_step fr)\<^sup>*\<^sup>* (sy_trace s) (sy_trace s')
      \<and> delegation_repo_step\<^sup>*\<^sup>* (sy_delegations s) (sy_delegations s')
      \<and> policy_repo_step\<^sup>*\<^sup>* (sy_policies s) (sy_policies s'))"

lemma system_step_moves:
  assumes "system_step fr s s'" "system_inv fr s"
  shows "system_moves fr s s'"
proof -
  have trace: "trace_inv fr (sy_trace s)" "event_repo_inv (ts_events (sy_trace s))"
    and pol: "policy_repo_inv (sy_policies s)"
    using assms(2) by (simp_all add: system_inv_def trace_inv_def)
  from assms(1) show ?thesis
  proof cases
    case start
    with trace show ?thesis
      by (simp add: system_moves_def act_withinD [OF ingest_start_within])
  next
    case event
    then show ?thesis by (simp add: system_moves_def act_withinD [OF ingest_event_within])
  next
    case receipt
    then show ?thesis by (simp add: system_moves_def act_withinD [OF ingest_receipt_within])
  next
    case complete
    with trace show ?thesis by (simp add: system_moves_def act_withinD [OF mark_completed_within])
  next
    case authorize
    with trace show ?thesis by (simp add: system_moves_def act_withinD [OF authorize_within])
  next
    case register
    then show ?thesis by (simp add: system_moves_def act_withinD [OF register_delegation_within])
  next
    case (revoke now i ref cx r d)
    then have "delegation_repo_step (sy_delegations s) d" by (intro service_revoke_delegation_step)
    with revoke show ?thesis by (auto simp: system_moves_def)
  next
    case (policy p)
    with pol policy_service_step_within show ?thesis by (simp add: system_moves_def)
  qed
qed

lemma system_moves_inv: "system_moves fr s s' \<Longrightarrow> system_inv fr s \<Longrightarrow> system_inv fr s'"
  unfolding system_moves_def system_inv_def
  using trace_events.inv_run delegations.inv_run policy_versions.inv_run by metis

lemma system_run:
  "(system_step fr)\<^sup>*\<^sup>* s s' \<Longrightarrow> system_inv fr s \<Longrightarrow> system_moves fr s s' \<and> system_inv fr s'"
proof (induction rule: rtranclp_induct)
  case base
  then show ?case by (simp add: system_moves_def)
next
  case (step t u)
  then have "system_moves fr s t" "system_inv fr t" by simp_all
  moreover from this step(2) have "system_moves fr t u" by (blast intro: system_step_moves)
  ultimately show ?case
    unfolding system_moves_def by (meson rtranclp_trans system_moves_def system_moves_inv)
qed

section \<open>Properties\<close>

text \<open>
  C11. Every state that the commands of the services can reach from the empty system is consistent:
  events, executions, delegations and policies are stored under their own keys and passed
  construction, the indexes agree, and receipts are linked to what they supersede.
\<close>

theorem system_invariant:
  assumes "(system_step fr)\<^sup>*\<^sup>* empty_system s"
  shows "system_inv fr s"
  using system_run [OF assms] by simp

text \<open>
  C12. A terminal execution is immutable: whatever commands run afterwards, the record stored under its
  identifier is the same one.
\<close>

theorem terminal_execution_immutable:
  assumes "system_inv fr s" "(system_step fr)\<^sup>*\<^sup>* s s'"
    and "dict_get (xr_by_id (ts_executions (sy_trace s))) k = Some x" "ex_is_terminal x"
  shows "dict_get (xr_by_id (ts_executions (sy_trace s'))) k = Some x"
proof -
  have "(trace_step fr)\<^sup>*\<^sup>* (sy_trace s) (sy_trace s')" "trace_inv fr (sy_trace s)"
    using system_run [OF assms(2,1)] assms(1) by (simp_all add: system_moves_def system_inv_def)
  from trace_executions.lookup_run [OF this assms(3)] assms(4) show ?thesis
    by (auto simp: execution_evolves_def)
qed

text \<open>
  Retrying a receipt submission is harmless: once it has been answered with an event, and after
  any further commands, any number of repetitions at any times answer with that event and leave the
  trace as it is.
\<close>

theorem receipt_retries_idempotent:
  assumes "system_inv fr s" "datetime_ok now"
    and "ingest_receipt fr env now k sub cx (sy_trace s) = (Inr e, t)"
    and "(system_step fr)\<^sup>*\<^sup>* (s\<lparr>sy_trace := t\<rparr>) s''"
  shows "receipt_ingestion.retries fr env k sub cx attempts (sy_trace s'')
    = (Inr (replicate (length attempts) e), sy_trace s'')"
proof (rule receipt_ingestion.retries_settled)
  fix later
  have inv: "trace_inv fr (sy_trace s)" using assms(1) by (simp add: system_inv_def)
  have inv': "trace_inv fr t"
    using trace_events.inv_run [OF act_withinD [OF ingest_receipt_within [OF assms(2)] assms(3)] inv] .
  have "system_inv fr (s\<lparr>sy_trace := t\<rparr>)" using assms(1) inv' by (simp add: system_inv_def)
  then have "(trace_step fr)\<^sup>*\<^sup>* t (sy_trace s'')"
    using system_run [OF assms(4)] by (simp add: system_moves_def)
  then show "ingest_receipt fr env later k sub cx (sy_trace s'') = (Inr e, sy_trace s'')"
    by (rule ingest_receipt_later [OF inv' _ ingest_receipt_replay [OF inv assms(2,3)]])
qed

text \<open>
  C8. An uncertain receipt is reconciled at most once: in every state that satisfies the invariant of the
  system, as every reachable one does, two receipt events that supersede the same receipt are the same
  event. This does not depend on the length of the trace.
\<close>

theorem receipt_superseded_once:
  assumes "system_inv fr s"
    and "dict_get (er_by_id (ts_events (sy_trace s))) i = Some e" "ev_event_type e = RUNTIME_ACTION_EXECUTION_RECEIPT"
    and "dict_get (er_by_id (ts_events (sy_trace s))) j = Some f" "ev_event_type f = RUNTIME_ACTION_EXECUTION_RECEIPT"
    and "receipt_from_event fr e = Inr r" "rc_supersedes_receipt_id r = Some t"
    and "receipt_from_event fr f = Inr q" "rc_supersedes_receipt_id q = Some t"
  shows "e = f"
proof -
  have inv: "trace_inv fr (sy_trace s)"
    using assms(1) by (simp add: system_inv_def)
  have e: "receipt_link_ok fr (ts_events (sy_trace s)) e" and f: "receipt_link_ok fr (ts_events (sy_trace s)) f"
    using inv assms(2-5) unfolding trace_inv_def by blast+
  have "ev_event_id e = ev_event_id f"
    using e f assms(6-9) unfolding receipt_link_ok_def by auto
  moreover have "event_repo_inv (ts_events (sy_trace s))" using inv by (simp add: trace_inv_def)
  ultimately show ?thesis
    using event_repo_invD(1) [OF _ assms(2)] event_repo_invD(1) [OF _ assms(4)] assms(2,4) by simp
qed

text \<open>
  C7. A decision is final for its request, provided its identifier is new and no event that the caller
  cannot see, of another project of the same execution, holds the key of the request: once the service
  has answered, every repetition of the request by that caller is answered with the same decision and
  records nothing, after any further commands of any service, whatever the delegations and policies
  have become and whatever the clock says.
\<close>

theorem authorization_retries_idempotent:
  assumes "system_inv fr s" "authorization_inv rq cx (sy_trace s)" "fresh_decision_id (sy_trace s) f"
    and "authorize fr ttl dr pr f rq cx (sy_trace s) = (Inr d, t)"
    and "(system_step fr)\<^sup>*\<^sup>* (s\<lparr>sy_trace := t\<rparr>) s''"
  shows "authorization.retries fr ttl (Some (sy_delegations s'')) (sy_policies s'') rq cx attempts (sy_trace s'')
    = (Inr (replicate (length attempts) d), sy_trace s'')"
proof (rule authorization.retries_settled)
  fix g
  have er: "event_repo_inv (ts_events (sy_trace s))" and inv: "trace_inv fr (sy_trace s)"
    using assms(1) by (simp_all add: system_inv_def trace_inv_def)
  have inv': "trace_inv fr t"
    using trace_events.inv_run [OF act_withinD [OF authorize_within [OF er] assms(4)] inv] .
  have "system_inv fr (s\<lparr>sy_trace := t\<rparr>)" using assms(1) inv' by (simp add: system_inv_def)
  then have "(trace_step fr)\<^sup>*\<^sup>* t (sy_trace s'')"
    using system_run [OF assms(5)] by (simp add: system_moves_def)
  then show "authorize fr ttl (Some (sy_delegations s'')) (sy_policies s'') g rq cx (sy_trace s'') = (Inr d, sy_trace s'')"
    by (rule authorize_later [OF assms(2-4) inv'])
qed

text \<open>
  C3. Revocation takes effect: once a delegation is revoked, and whatever commands run afterwards, no
  decision recorded for a request that names it in its tenant scope is an ALLOW.
\<close>

theorem revoked_delegation_never_authorizes:
  assumes "system_inv fr s" "service_revoke_delegation now i ref cx (sy_delegations s) = (Inr g, d1)"
    and "(system_step fr)\<^sup>*\<^sup>* (s\<lparr>sy_delegations := d1\<rparr>) s2"
    and "rq_delegation_id rq = Some i" "cx_organization_id cy = cx_organization_id cx"
    and "cx_project_id cy = cx_project_id cx"
    and "authorize fr ttl (Some (sy_delegations s2)) (sy_policies s2) (later, j) rq cy (sy_trace s2) = (Inr d, t)"
    and "t \<noteq> sy_trace s2"
  shows "dc_outcome d = DENY"
proof -
  have "delegation_repo_inv d1"
    using delegation_repo_step_inv [OF service_revoke_delegation_step [OF assms(2)]] assms(1)
    by (simp add: system_inv_def)
  moreover from this have "system_inv fr (s\<lparr>sy_delegations := d1\<rparr>)" using assms(1) by (simp add: system_inv_def)
  note run = system_run [OF assms(3) this]
  ultimately have "get_delegation (sy_delegations s2) i (cx_organization_id cx) (cx_project_id cx) = Some g"
    "dg_status g = DG_REVOKED"
    using revoked_stays_revoked [OF _ assms(2)] run assms(1) by (auto simp: system_moves_def system_inv_def)
  then have "\<not> operation_allowed (sy_policies s2) (Some (sy_delegations s2)) rq cy later"
    using assms(4-6) by (auto simp: operation_allowed_def usable_delegation_def permits_True_iff)
  moreover have "event_repo_inv (ts_events (sy_trace s2))"
    using run by (simp add: system_inv_def trace_inv_def)
  ultimately have "dc_outcome d \<noteq> ALLOW" using recorded_outcome [OF _ assms(7,8)] by blast
  then show ?thesis by (cases "dc_outcome d") simp_all
qed

section \<open>The enforcement boundary on top of the service\<close>

definition service_client ::
  "(rat \<Rightarrow> string) \<Rightarrow> int \<Rightarrow> delegation_repo option \<Rightarrow> policy_repo \<Rightarrow> datetime \<times> string \<Rightarrow> tenant_context
     \<Rightarrow> trace_store \<Rightarrow> authorization_client" where
  "service_client fr ttl dr pr fresh cx s rq =
     res_bind (fst (authorize fr ttl dr pr fresh rq cx s)) (\<lambda>d. Inr (Some d))"

text \<open>
  C2. A protected operation runs only when it is allowed. If the boundary lets an operation through on
  a decision that the service recorded for it, then the specification allows the operation at the
  time of the decision, the decision has not outlived its lifetime, the tool runs with the arguments
  that were authorized, and the trace holds the evidence of it.
\<close>

theorem protected_operation_allowed:
  assumes "event_repo_inv (ts_events s)"
    and "require_allow fr (service_client fr ttl dr pr (now, i) cx s) (cx_actor_id cx) later rq actual = Inr d"
    and "s' = snd (authorize fr ttl dr pr (now, i) rq cx s)" "s' \<noteq> s"
  shows "operation_allowed pr dr rq cx now \<and> micros later < micros now + ttl
    \<and> rq_tool_arguments_digest rq = Some actual
    \<and> (\<exists>e. dict_get (er_by_id (ts_events s')) (dc_decision_id d) = Some e
         \<and> ev_event_type e = RUNTIME_ACTION_AUTHORIZATION \<and> ev_execution_id e = rq_execution_id rq
         \<and> pget (ev_attributes e) ''authorization_outcome'' = PStr ''ALLOW''
         \<and> pget (ev_attributes e) ''tool_arguments_digest'' = PStr actual)"
proof -
  from assms(2) have run: "authorize fr ttl dr pr (now, i) rq cx s = (Inr d, s')"
    and valid: "is_valid_for fr d rq (cx_actor_id cx) later = Inr True"
    and args: "rq_tool_arguments_digest rq = Some actual" "dc_tool_arguments_digest d = Some actual"
    by (auto simp: require_allow_Inr_iff service_client_def res_bind_Inr_iff assms(3) prod_eq_iff)
  have allow: "dc_outcome d = ALLOW" "micros later < micros (dc_expires_at d)"
    using valid by (simp_all add: is_valid_for_True_iff)
  from assms(1) run show ?thesis
  proof (cases rule: authorize_cases)
    case (decided x c v e)
    note d = decision_of_Inr [OF decided(5)]
    have "ts_events s' = append_event e (Some (event_idempotency_key (rq_idempotency_key rq))) (ts_events s)"
      using decided(8,9) assms(4) by (metis (full_types) trace_store.surjective trace_store.update_convs(2))
    then have "dict_get (er_by_id (ts_events s')) (dc_decision_id d) = Some e"
      by (simp add: append_event_def dict_get_put decided(6))
    moreover have "pget (ev_attributes e) ''authorization_outcome'' = PStr ''ALLOW''"
      "pget (ev_attributes e) ''tool_arguments_digest'' = PStr actual"
      by (simp_all add: decided(6) decision_attributes_def pget_def allow(1) args(2))
    moreover have "ev_event_type e = RUNTIME_ACTION_AUTHORIZATION" "ev_execution_id e = rq_execution_id rq"
      by (simp_all add: decided(6) d(4))
    moreover have "operation_allowed pr dr rq cx now"
      using recorded_outcome [OF assms(1) run assms(4)] allow(1) by simp
    ultimately show ?thesis using allow(2) d(13) args(1) by auto
  qed (use assms(4) in simp_all)
qed

end
