(* ===== verification/Http_Transport.thy ===== *)
theory Http_Transport
  imports Governance_System
begin

text \<open>
  The authorization contract over HTTP: \<open>runtime_authorization/http_client.py\<close> on the side of the
  runtime, and the transport models, the mapper and the route of
  \<open>runtime_action_authorization\<close> under \<open>api/\<close> on the side of the control plane. The JSON
  codec and the parser of the model framework are outside the program: reading the body is the parameter
  \<open>decode\<close>, the text of a time in a response is the parameter \<open>wire\<close>. What the program
  declares about the fields is \<open>body_valid\<close>.
\<close>

section \<open>The client\<close>

definition allowed_scope_headers :: "string list" where
  "allowed_scope_headers =
     [''X-AI-Governance-Organization-Id'', ''X-AI-Governance-Project-Id'', ''X-AI-Governance-Actor-Id'',
      ''X-Correlation-Id'', ''X-Request-Id'']"

definition transport_error :: "string \<Rightarrow> exc" where
  "transport_error m = Exc RuntimeActionAuthorizationTransportError m"

definition malformed_response :: exc where
  "malformed_response = transport_error ''Runtime authorization service returned a malformed response.''"

definition validated_scope_headers ::
  "(string, string) dict option \<Rightarrow> exc + (string, string) dict" where
  "validated_scope_headers headers =
     (case headers of None \<Rightarrow> Inr []
      | Some hs \<Rightarrow>
          checked ((\<not> list_all (\<lambda>(name, _). name \<in> set allowed_scope_headers) hs,
                    Exc ValueError ''scope_headers may contain only established AIGP scope headers.'')
                   # map (\<lambda>(name, v). (blank v, Exc ValueError (''scope header '' @ repr_str name
                           @ '' must be a non-blank string.''))) hs) hs)"

record http_client =
  hc_url :: string
  hc_bearer_token :: "string option"
  hc_scope_headers :: "(string, string) dict"
  hc_timeout_seconds :: rat

definition rstrip_slash :: "string \<Rightarrow> string" where
  "rstrip_slash s = rev (dropWhile (\<lambda>c. c = CHR ''/'') (rev s))"

definition new_http_client ::
  "string \<Rightarrow> string option \<Rightarrow> (string, string) dict option \<Rightarrow> rat \<Rightarrow> exc + http_client" where
  "new_http_client base_url bearer_token scope_headers timeout_seconds =
     (let normalized = rstrip_slash base_url in
      res_bind (checked
        [(\<not> py_startswith normalized ''https://'' \<and> \<not> py_startswith normalized ''http://'',
          Exc ValueError ''base_url must be an HTTP(S) URL.''),
         (timeout_seconds \<le> 0, Exc ValueError ''timeout_seconds must be positive.'')] ()) (\<lambda>_.
      res_bind (validated_scope_headers scope_headers) (\<lambda>hs.
        Inr \<lparr>hc_url = normalized @ ''/api/v1/runtime-action-authorizations/authorize'',
             hc_bearer_token = bearer_token, hc_scope_headers = hs, hc_timeout_seconds = timeout_seconds\<rparr>)))"

definition request_headers :: "http_client \<Rightarrow> (string, string) dict" where
  "request_headers c =
     (let headers = dict_merge (hc_scope_headers c)
            [(''Content-Type'', ''application/json''), (''Accept'', ''application/json'')]
      in case hc_bearer_token c of None \<Rightarrow> headers
         | Some token \<Rightarrow> dict_put ''Authorization'' (''Bearer '' @ token) headers)"

definition http_request_payload :: "authorization_request \<Rightarrow> (string \<times> pyval) list" where
  "http_request_payload rq =
     [(''schema_version'', PStr (rq_schema_version rq)),
      (''execution_id'', PStr (rq_execution_id rq)),
      (''correlation_id'', of_opt_str (rq_correlation_id rq)),
      (''action_id'', PStr (rq_action_id rq)),
      (''resource'', PDict [(''resource_type'', PStr (rs_resource_type (rq_resource rq))),
                            (''resource_reference'', PStr (rs_resource_reference (rq_resource rq)))]),
      (''delegation_id'', of_opt_str (rq_delegation_id rq)),
      (''delegation_version'', of_opt_str (rq_delegation_version rq)),
      (''delegation_digest'', of_opt_str (rq_delegation_digest rq)),
      (''tool_arguments_digest'', of_opt_str (rq_tool_arguments_digest rq)),
      (''context'', PDict (rq_context rq)),
      (''idempotency_key'', PStr (rq_idempotency_key rq)),
      (''policy_id'', of_opt_str (rq_policy_id rq)),
      (''expected_policy_version'', of_opt_str (rq_expected_policy_version rq))]"

text \<open>\<open>None\<close> is a \<open>KeyError\<close>, \<open>TypeError\<close> or \<open>ValueError\<close> of the block.\<close>

definition decision_of_response :: "(rat \<Rightarrow> string) \<Rightarrow> (string \<times> pyval) list \<Rightarrow> authorization_decision option" where
  "decision_of_response fr v =
     Option.bind (map_of v ''resource'') (\<lambda>res.
     Option.bind (case res of PDict r \<Rightarrow> Some r | _ \<Rightarrow> None) (\<lambda>resource.
     Option.bind (str_item fr v ''schema_version'') (\<lambda>schema_version.
     Option.bind (str_item fr v ''decision_id'') (\<lambda>decision_id.
     Option.bind (str_item fr v ''outcome'') (\<lambda>outcome.
     Option.bind (str_item fr v ''reason_code'') (\<lambda>reason_code.
     Option.bind (Option.bind (str_item fr v ''decision_at'') fromisoformat) (\<lambda>decided_at.
     Option.bind (Option.bind (str_item fr v ''expires_at'') fromisoformat) (\<lambda>expires_at.
     Option.bind (str_item fr v ''execution_id'') (\<lambda>execution_id.
     Option.bind (str_item fr v ''action_id'') (\<lambda>action_id.
     Option.bind (str_item fr resource ''resource_type'') (\<lambda>resource_type.
     Option.bind (str_item fr resource ''resource_reference'') (\<lambda>resource_reference.
     case new_resource resource_type resource_reference of Inl _ \<Rightarrow> None | Inr rs \<Rightarrow>
     Option.bind (str_item fr v ''actor_id'') (\<lambda>actor_id.
     Option.bind (str_item fr v ''idempotency_key'') (\<lambda>idempotency_key.
     Option.bind (str_item fr v ''request_fingerprint'') (\<lambda>request_fingerprint.
     Option.bind (evaluated_policies_of (pget v ''evaluated_policies'')) (\<lambda>evaluated.
     case new_decision outcome
       \<lparr>dc_decision_id = decision_id, dc_outcome = DENY, dc_reason_code = reason_code,
        dc_execution_id = execution_id, dc_correlation_id = non_empty_string (pget v ''correlation_id''),
        dc_action_id = action_id, dc_resource = rs, dc_actor_id = actor_id,
        dc_idempotency_key = idempotency_key, dc_request_fingerprint = request_fingerprint,
        dc_decided_at = decided_at, dc_expires_at = expires_at,
        dc_delegation_id = non_empty_string (pget v ''delegation_id''),
        dc_delegation_version = non_empty_string (pget v ''delegation_version''),
        dc_delegation_digest = non_empty_string (pget v ''delegation_digest''),
        dc_tool_arguments_digest = non_empty_string (pget v ''tool_arguments_digest''),
        dc_evaluated_policies = evaluated,
        dc_policy_id = non_empty_string (pget v ''policy_id''),
        dc_policy_version = non_empty_string (pget v ''policy_version''),
        dc_schema_version = schema_version\<rparr> of
       Inl _ \<Rightarrow> None | Inr d \<Rightarrow> Some d))))))))))))))))"

definition decision_from_payload :: "(rat \<Rightarrow> string) \<Rightarrow> pyval \<Rightarrow> exc + authorization_decision" where
  "decision_from_payload fr value =
     (case value of
        PDict v \<Rightarrow> (case decision_of_response fr v of None \<Rightarrow> Inl malformed_response | Some d \<Rightarrow> Inr d)
      | _ \<Rightarrow> Inl malformed_response)"

text \<open>
  One exchange over the network: the decoded body of a successful answer, or a failure (an HTTP error
  status, no connection, a timeout, a body that is not JSON).
\<close>

type_synonym exchange = "(string \<times> pyval) list \<Rightarrow> pyval option"

definition http_authorize :: "(rat \<Rightarrow> string) \<Rightarrow> exchange \<Rightarrow> authorization_client" where
  "http_authorize fr exchange rq =
     (case exchange (http_request_payload rq) of
        None \<Rightarrow> Inl (transport_error
          ''Runtime authorization service is unavailable or returned an invalid response.'')
      | Some body \<Rightarrow> res_bind (decision_from_payload fr body) (\<lambda>d. Inr (Some d)))"

section \<open>The endpoint\<close>

record request_body =
  bd_schema_version :: string
  bd_execution_id :: string
  bd_correlation_id :: "string option"
  bd_action_id :: string
  bd_resource_type :: string
  bd_resource_reference :: string
  bd_delegation_id :: "string option"
  bd_delegation_version :: "string option"
  bd_delegation_digest :: "string option"
  bd_tool_arguments_digest :: string
  bd_context :: "(string \<times> pyval) list"
  bd_idempotency_key :: string
  bd_policy_id :: "string option"
  bd_expected_policy_version :: "string option"

text \<open>
  What the model declares about the fields a body may carry: their names, their types, which have a
  default, and that no other name is accepted. \<open>reads_declared_fields\<close> is what the program relies
  on: the model framework reads every declared field under its name.
\<close>

definition declared_fields :: "string list" where
  "declared_fields =
     [''schema_version'', ''execution_id'', ''correlation_id'', ''action_id'', ''resource'', ''delegation_id'',
      ''delegation_version'', ''delegation_digest'', ''tool_arguments_digest'', ''context'', ''idempotency_key'',
      ''policy_id'', ''expected_policy_version'']"

definition carries_opt :: "(string \<times> pyval) list \<Rightarrow> string \<Rightarrow> string option \<Rightarrow> bool" where
  "carries_opt v name x =
     (case map_of v name of None \<Rightarrow> x = None | Some PNone \<Rightarrow> x = None | Some (PStr t) \<Rightarrow> x = Some t | _ \<Rightarrow> False)"

definition carries_resource :: "(string \<times> pyval) list \<Rightarrow> request_body \<Rightarrow> bool" where
  "carries_resource r b =
     (distinct (map fst r) \<and> set (map fst r) \<subseteq> {''resource_type'', ''resource_reference''}
      \<and> map_of r ''resource_type'' = Some (PStr (bd_resource_type b))
      \<and> map_of r ''resource_reference'' = Some (PStr (bd_resource_reference b)))"

definition scalar_fact :: "pyval \<Rightarrow> bool" where
  "scalar_fact v = (case v of PStr _ \<Rightarrow> True | PInt _ \<Rightarrow> True | PFloat _ \<Rightarrow> True | PBool _ \<Rightarrow> True | _ \<Rightarrow> False)"

definition body_carries :: "(string \<times> pyval) list \<Rightarrow> request_body \<Rightarrow> bool" where
  "body_carries v b =
     (distinct (map fst v) \<and> set (map fst v) \<subseteq> set declared_fields
      \<and> opt_or (map_of v ''schema_version'') (PStr authorization_schema_version) = PStr (bd_schema_version b)
      \<and> map_of v ''execution_id'' = Some (PStr (bd_execution_id b))
      \<and> carries_opt v ''correlation_id'' (bd_correlation_id b)
      \<and> map_of v ''action_id'' = Some (PStr (bd_action_id b))
      \<and> (case map_of v ''resource'' of Some (PDict r) \<Rightarrow> carries_resource r b | _ \<Rightarrow> False)
      \<and> carries_opt v ''delegation_id'' (bd_delegation_id b)
      \<and> carries_opt v ''delegation_version'' (bd_delegation_version b)
      \<and> carries_opt v ''delegation_digest'' (bd_delegation_digest b)
      \<and> map_of v ''tool_arguments_digest'' = Some (PStr (bd_tool_arguments_digest b))
      \<and> opt_or (map_of v ''context'') (PDict []) = PDict (bd_context b) \<and> list_all (\<lambda>(_, x). scalar_fact x) (bd_context b)
      \<and> map_of v ''idempotency_key'' = Some (PStr (bd_idempotency_key b))
      \<and> carries_opt v ''policy_id'' (bd_policy_id b)
      \<and> carries_opt v ''expected_policy_version'' (bd_expected_policy_version b))"

definition reads_declared_fields :: "((string \<times> pyval) list \<Rightarrow> request_body option) \<Rightarrow> bool" where
  "reads_declared_fields decode = (\<forall>v b. body_carries v b \<longrightarrow> decode v = Some b)"

definition field_length :: "nat \<Rightarrow> string \<Rightarrow> bool" where
  "field_length n v = (1 \<le> length v \<and> length v \<le> n)"

definition body_identifier :: "string \<Rightarrow> bool" where
  "body_identifier v = (field_length 128 v \<and> match_identifier 127 v)"

definition body_fact :: "string \<times> pyval \<Rightarrow> bool" where
  "body_fact = (\<lambda>(key, fact).
     normalize_key key \<notin> set sensitive_context_keys \<and> match_context_key key
     \<and> (case fact of PStr s \<Rightarrow> \<not> blank s \<and> length s \<le> 256
         | PInt _ \<Rightarrow> True | PFloat _ \<Rightarrow> True | PBool _ \<Rightarrow> True | _ \<Rightarrow> False))"

definition opt_holds :: "('a \<Rightarrow> bool) \<Rightarrow> 'a option \<Rightarrow> bool" where
  "opt_holds P v = (case v of None \<Rightarrow> True | Some x \<Rightarrow> P x)"

text \<open>The declared constraints, the field validators and the model validator.\<close>

definition body_valid :: "request_body \<Rightarrow> bool" where
  "body_valid b =
     (bd_schema_version b = authorization_schema_version
      \<and> body_identifier (bd_execution_id b) \<and> opt_holds body_identifier (bd_correlation_id b)
      \<and> body_identifier (bd_action_id b)
      \<and> body_identifier (bd_resource_type b)
      \<and> field_length 512 (bd_resource_reference b)
      \<and> opt_holds body_identifier (bd_delegation_id b) \<and> opt_holds body_identifier (bd_delegation_version b)
      \<and> opt_holds match_sha256 (bd_delegation_digest b) \<and> match_sha256 (bd_tool_arguments_digest b)
      \<and> length (bd_context b) \<le> 32 \<and> list_all body_fact (bd_context b)
      \<and> body_identifier (bd_idempotency_key b)
      \<and> opt_holds body_identifier (bd_policy_id b) \<and> opt_holds body_identifier (bd_expected_policy_version b)
      \<and> \<not> (bd_expected_policy_version b \<noteq> None \<and> bd_policy_id b = None)
      \<and> \<not> partial_binding (bd_delegation_id b) (bd_delegation_version b) (bd_delegation_digest b))"

definition to_domain :: "request_body \<Rightarrow> exc + authorization_request" where
  "to_domain b =
     res_bind (new_resource (bd_resource_type b) (bd_resource_reference b)) (\<lambda>resource.
       new_request
         \<lparr>rq_execution_id = bd_execution_id b, rq_action_id = bd_action_id b, rq_resource = resource,
          rq_idempotency_key = bd_idempotency_key b,
          rq_delegation_id = bd_delegation_id b, rq_delegation_version = bd_delegation_version b,
          rq_delegation_digest = bd_delegation_digest b,
          rq_tool_arguments_digest = Some (bd_tool_arguments_digest b), rq_context = bd_context b,
          rq_correlation_id = bd_correlation_id b, rq_policy_id = bd_policy_id b, rq_expected_policy_version = bd_expected_policy_version b,
          rq_schema_version = bd_schema_version b\<rparr>)"

definition response_payload :: "(datetime \<Rightarrow> string) \<Rightarrow> authorization_decision \<Rightarrow> (string \<times> pyval) list" where
  "response_payload wire d =
     [(''schema_version'', PStr (dc_schema_version d)),
      (''decision_id'', PStr (dc_decision_id d)),
      (''outcome'', PStr (outcome_value (dc_outcome d))),
      (''reason_code'', PStr (dc_reason_code d)),
      (''policy_id'', of_opt_str (dc_policy_id d)),
      (''policy_version'', of_opt_str (dc_policy_version d)),
      (''decision_at'', PStr (wire (dc_decided_at d))),
      (''expires_at'', PStr (wire (dc_expires_at d))),
      (''execution_id'', PStr (dc_execution_id d)),
      (''correlation_id'', of_opt_str (dc_correlation_id d)),
      (''action_id'', PStr (dc_action_id d)),
      (''resource'', PDict [(''resource_type'', PStr (rs_resource_type (dc_resource d))),
                            (''resource_reference'', PStr (rs_resource_reference (dc_resource d)))]),
      (''actor_id'', PStr (dc_actor_id d)),
      (''idempotency_key'', PStr (dc_idempotency_key d)),
      (''request_fingerprint'', PStr (dc_request_fingerprint d)),
      (''delegation_id'', of_opt_str (dc_delegation_id d)),
      (''delegation_version'', of_opt_str (dc_delegation_version d)),
      (''delegation_digest'', of_opt_str (dc_delegation_digest d)),
      (''tool_arguments_digest'', of_opt_str (dc_tool_arguments_digest d)),
      (''evaluated_policies'', PList (map (\<lambda>(p, v). PDict [(''policy_id'', PStr p), (''version'', PStr v)])
         (dc_evaluated_policies d)))]"

datatype http_response = Http_OK pyval | Http_Error int string string

text \<open>Other exceptions leave the route.\<close>

definition route_error :: "exc \<Rightarrow> exc + http_response" where
  "route_error e =
     (case exc_kind e of
        RuntimeActionAuthorizationNotFoundError \<Rightarrow>
          Inr (Http_Error 404 ''RUNTIME_ACTION_EXECUTION_NOT_FOUND'' (exc_message e))
      | RuntimeActionAuthorizationConflictError \<Rightarrow>
          Inr (Http_Error 409 ''RUNTIME_ACTION_AUTHORIZATION_CONFLICT'' (exc_message e))
      | RuntimeActionAuthorizationPersistenceError \<Rightarrow>
          Inr (Http_Error 503 ''RUNTIME_ACTION_AUTHORIZATION_UNAVAILABLE'' (exc_message e))
      | _ \<Rightarrow> Inl e)"

definition authorize_runtime_action ::
  "(rat \<Rightarrow> string) \<Rightarrow> (datetime \<Rightarrow> string) \<Rightarrow> int \<Rightarrow> delegation_repo option \<Rightarrow> policy_repo
     \<Rightarrow> datetime \<times> string \<Rightarrow> tenant_context \<Rightarrow> request_body \<Rightarrow> (trace_store, http_response) action" where
  "authorize_runtime_action fr wire ttl dr pr fresh cx b s =
     (case to_domain b of
        Inl e \<Rightarrow> (route_error e, s)
      | Inr rq \<Rightarrow>
          (case authorize fr ttl dr pr fresh rq cx s of
             (Inl e, s') \<Rightarrow> (route_error e, s')
           | (Inr d, s') \<Rightarrow> (Inr (Http_OK (PDict (response_payload wire d))), s')))"

text \<open>The exchange that reaches the endpoint: a body that cannot be read or is not valid is refused.\<close>

definition endpoint_exchange ::
  "((string \<times> pyval) list \<Rightarrow> request_body option) \<Rightarrow> (rat \<Rightarrow> string) \<Rightarrow> (datetime \<Rightarrow> string) \<Rightarrow> int
     \<Rightarrow> delegation_repo option \<Rightarrow> policy_repo \<Rightarrow> datetime \<times> string \<Rightarrow> tenant_context \<Rightarrow> trace_store \<Rightarrow> exchange" where
  "endpoint_exchange decode fr wire ttl dr pr fresh cx s payload =
     (case decode payload of None \<Rightarrow> None
      | Some b \<Rightarrow>
          if \<not> body_valid b then None
          else case fst (authorize_runtime_action fr wire ttl dr pr fresh cx b s) of
            Inr (Http_OK v) \<Rightarrow> Some v | _ \<Rightarrow> None)"

section \<open>Round trips\<close>

text \<open>The times of a response read back.\<close>

definition wire_reads_back :: "(datetime \<Rightarrow> string) \<Rightarrow> bool" where
  "wire_reads_back wire = (\<forall>t. tz_aware t \<longrightarrow> datetime_ok t \<longrightarrow> fromisoformat (wire t) = Some t)"

lemma decision_ok_correlation: "decision_ok d \<Longrightarrow> dc_correlation_id d = Some x \<Longrightarrow> x \<noteq> []"
  by (auto simp: decision_ok_def decision_checks_def dest: match_identifier_non_empty)

lemma decision_ok_aware: "decision_ok d \<Longrightarrow> tz_aware (dc_decided_at d) \<and> tz_aware (dc_expires_at d)"
  by (simp add: decision_ok_def decision_checks_def)

lemma decision_response_roundtrip:
  assumes "decision_ok d" "resource_ok (dc_resource d)" "wire_reads_back wire"
    and "datetime_ok (dc_decided_at d)" "datetime_ok (dc_expires_at d)"
  shows "decision_from_payload fr (PDict (response_payload wire d)) = Inr d"
proof -
  have res: "new_resource (rs_resource_type (dc_resource d)) (rs_resource_reference (dc_resource d))
      = Inr (dc_resource d)"
    using assms(2) by (cases "dc_resource d") (simp add: new_resource_def resource_ok_def Let_def checked_Inr_iff)
  have times: "fromisoformat (wire (dc_decided_at d)) = Some (dc_decided_at d)"
    "fromisoformat (wire (dc_expires_at d)) = Some (dc_expires_at d)"
    using assms(3-5) decision_ok_aware [OF assms(1)] by (simp_all add: wire_reads_back_def)
  note opt = decision_ok_non_empty(1-6) [OF assms(1), THEN non_empty_string_of_opt_str]
    non_empty_string_of_opt_str [OF decision_ok_correlation [OF assms(1)]]
  have pol: "evaluated_policies_of (PList (map (\<lambda>(p, v). PDict [(''policy_id'', PStr p), (''version'', PStr v)])
      (dc_evaluated_policies d))) = Some (dc_evaluated_policies d)"
    by (simp add: evaluated_policies_of_def)
      (rule policy_bindings_map, erule decision_ok_non_empty(7) [OF assms(1)])
  have "decision_of_response fr (response_payload wire d)
    = (case new_decision (outcome_value (dc_outcome d)) (d\<lparr>dc_outcome := DENY\<rparr>) of Inl _ \<Rightarrow> None | Inr d \<Rightarrow> Some d)"
    by (simp add: decision_of_response_def response_payload_def str_item_def pget_def res times opt pol decision_eta)
  also have "new_decision (outcome_value (dc_outcome d)) (d\<lparr>dc_outcome := DENY\<rparr>) = Inr d"
    using assms(1) by (simp add: new_decision_Inr_iff)
  finally show ?thesis by (simp add: decision_from_payload_def)
qed

text \<open>The body that carries a request.\<close>

definition body_of_request :: "authorization_request \<Rightarrow> request_body" where
  "body_of_request rq =
     \<lparr>bd_schema_version = rq_schema_version rq, bd_execution_id = rq_execution_id rq,
      bd_correlation_id = rq_correlation_id rq, bd_action_id = rq_action_id rq,
      bd_resource_type = rs_resource_type (rq_resource rq),
      bd_resource_reference = rs_resource_reference (rq_resource rq),
      bd_delegation_id = rq_delegation_id rq, bd_delegation_version = rq_delegation_version rq,
      bd_delegation_digest = rq_delegation_digest rq,
      bd_tool_arguments_digest = the (rq_tool_arguments_digest rq), bd_context = rq_context rq,
      bd_idempotency_key = rq_idempotency_key rq, bd_policy_id = rq_policy_id rq,
      bd_expected_policy_version = rq_expected_policy_version rq\<rparr>"

lemma body_identifier_eq: "body_identifier = match_identifier 127"
  by (auto simp: fun_eq_iff body_identifier_def field_length_def match_identifier_def split: list.splits)

lemma opt_holds_when_given:
  "all_pass (when_given v (require_identifier name)) \<longleftrightarrow> opt_holds (match_identifier 127) v"
  "all_pass (when_given v (require_digest name)) \<longleftrightarrow> opt_holds match_sha256 v"
  by (simp_all add: opt_holds_def when_given_def require_identifier_def require_digest_def split: option.splits)

lemma body_fact_iff: "body_fact (k, v) \<longleftrightarrow> all_pass (context_fact_checks k v)"
  by (auto simp: body_fact_def context_fact_checks_def split: pyval.splits)

lemma body_context_iff:
  "all_pass (validated_context_checks c) \<longleftrightarrow> length c \<le> 32 \<and> list_all body_fact c"
proof -
  have "list_all body_fact c \<longleftrightarrow> (\<forall>x \<in> set c. all_pass (case x of (k, v) \<Rightarrow> context_fact_checks k v))"
    by (induction c) (auto simp: body_fact_iff)
  then show ?thesis by (simp add: validated_context_checks_def all_pass_concat_map not_less)
qed

text \<open>
  The two validations of a request agree, except that the transport model accepts a reference of
  blanks, which the domain refuses.
\<close>

lemma body_valid_to_domain:
  "body_valid b \<and> \<not> blank (bd_resource_reference b) \<longleftrightarrow> (\<exists>rq. to_domain b = Inr rq)"
proof -
  have "(\<exists>rq. to_domain b = Inr rq) \<longleftrightarrow>
      resource_ok \<lparr>rs_resource_type = bd_resource_type b, rs_resource_reference = bd_resource_reference b\<rparr>
      \<and> request_ok \<lparr>rq_execution_id = bd_execution_id b, rq_action_id = bd_action_id b,
          rq_resource = \<lparr>rs_resource_type = bd_resource_type b, rs_resource_reference = bd_resource_reference b\<rparr>,
          rq_idempotency_key = bd_idempotency_key b, rq_delegation_id = bd_delegation_id b,
          rq_delegation_version = bd_delegation_version b, rq_delegation_digest = bd_delegation_digest b,
          rq_tool_arguments_digest = Some (bd_tool_arguments_digest b), rq_context = bd_context b,
          rq_correlation_id = bd_correlation_id b, rq_policy_id = bd_policy_id b,
          rq_expected_policy_version = bd_expected_policy_version b, rq_schema_version = bd_schema_version b\<rparr>"
    by (auto simp: to_domain_def new_resource_def resource_ok_def Let_def res_bind_Inr_iff checked_Inr_iff new_request_Inr_iff)
  also have "\<dots> \<longleftrightarrow> body_valid b \<and> \<not> blank (bd_resource_reference b)"
    by (auto simp: body_valid_def request_ok_def request_checks_def resource_ok_iff field_length_def Suc_le_eq
        opt_holds_when_given body_context_iff body_identifier_eq dest: not_blank_not_Nil)
  finally show ?thesis by simp
qed

lemma body_of_request:
  assumes "request_ok rq" "resource_ok (rq_resource rq)"
  shows "to_domain (body_of_request rq) = Inr rq" "body_valid (body_of_request rq)"
proof -
  have digest: "Some (the (rq_tool_arguments_digest rq)) = rq_tool_arguments_digest rq"
    using assms(1) by (auto simp: request_ok_def request_checks_def)
  have "new_resource (rs_resource_type (rq_resource rq)) (rs_resource_reference (rq_resource rq)) = Inr (rq_resource rq)"
    using assms(2) by (cases "rq_resource rq") (simp add: new_resource_def resource_ok_def Let_def checked_Inr_iff)
  with assms(1) digest show "to_domain (body_of_request rq) = Inr rq"
    by (cases rq) (simp add: to_domain_def body_of_request_def new_request_Inr_iff)
  then show "body_valid (body_of_request rq)" using body_valid_to_domain by blast
qed

lemma carries_opt_of_opt_str: "map_of v name = Some (of_opt_str x) \<Longrightarrow> carries_opt v name x"
  by (cases x) (simp_all add: carries_opt_def of_opt_str_def)

text \<open>The payload of the client carries the request under the declared names.\<close>

lemma payload_carries_request:
  assumes "request_ok rq"
  shows "body_carries (http_request_payload rq) (body_of_request rq)"
proof -
  obtain g where g: "rq_tool_arguments_digest rq = Some g" using assms by (auto simp: request_ok_def request_checks_def)
  have "list_all body_fact (rq_context rq)"
    using assms by (simp add: request_ok_def request_checks_def body_context_iff)
  then have facts: "list_all (\<lambda>(_, x). scalar_fact x) (rq_context rq)"
    unfolding list_all_iff by (fastforce simp: body_fact_def scalar_fact_def split: pyval.splits)
  have "carries_resource [(''resource_type'', PStr (rs_resource_type (rq_resource rq))),
      (''resource_reference'', PStr (rs_resource_reference (rq_resource rq)))] (body_of_request rq)"
    by (simp add: carries_resource_def body_of_request_def)
  with facts g show ?thesis
    unfolding body_carries_def
    by (simp add: http_request_payload_def body_of_request_def declared_fields_def carries_opt_of_opt_str opt_or_def of_opt_str_def)
qed

lemma route_error_no_answer: "(case route_error e of Inr (Http_OK v) \<Rightarrow> Some v | _ \<Rightarrow> None) = None"
  by (simp add: route_error_def split: exc_class.splits)

section \<open>The remote boundary\<close>


text \<open>
  What the transport model accepts and the domain refuses: a validated body becomes a request
  exactly when its resource reference is not blank. For a blank one the construction raises
  a \<open>ValueError\<close> that the route does not handle.
\<close>

theorem blank_reference_escapes_validation:
  assumes "body_valid b"
  shows "((\<exists>rq. to_domain b = Inr rq) \<longleftrightarrow> \<not> blank (bd_resource_reference b))
    \<and> (blank (bd_resource_reference b) \<longrightarrow> authorize_runtime_action fr wire ttl dr pr fresh cx b s
          = (Inl (Exc ValueError ''resource_reference must not be blank.''), s))"
proof (intro conjI impI)
  show "(\<exists>rq. to_domain b = Inr rq) \<longleftrightarrow> \<not> blank (bd_resource_reference b)"
    using body_valid_to_domain assms by blast
  assume "blank (bd_resource_reference b)"
  moreover have "match_identifier 127 (bd_resource_type b)"
    using assms by (simp add: body_valid_def body_identifier_eq)
  ultimately have "to_domain b = Inl (Exc ValueError ''resource_reference must not be blank.'')"
    by (simp add: to_domain_def new_resource_def resource_checks_def Let_def require_identifier_def require_non_blank_def)
  then show "authorize_runtime_action fr wire ttl dr pr fresh cx b s
      = (Inl (Exc ValueError ''resource_reference must not be blank.''), s)"
    by (simp add: authorize_runtime_action_def route_error_def)
qed

end
