(* ===== verification/Replay_Manifest.thy ===== *)
theory Replay_Manifest
  imports Contracts
begin

text \<open>
  \<open>domain/replay/manifest.py\<close>: the evidence that decides whether an execution may be replayed,
  bound to its content by a hash. A manifest is constructed from its fields, or read from the mapping
  it was persisted as; both run the same checks. Counts are integers, so the tests for booleans hold.
\<close>

definition manifest_schema_version :: string where
  "manifest_schema_version = ''replay-manifest/v1''"

datatype manifest_eligibility = ELIGIBLE | INELIGIBLE

fun eligibility_value :: "manifest_eligibility \<Rightarrow> string" where
  "eligibility_value ELIGIBLE = ''ELIGIBLE''"
| "eligibility_value INELIGIBLE = ''INELIGIBLE''"

datatype manifest_reason_code =
  EXECUTION_NOT_TERMINAL | MISSING_REPLAY_CAPABILITY | INVALID_REPLAY_CAPABILITY
  | MISSING_ISOLATION_GUARANTEE | TOOL_CALL_IDENTITY_MISSING | EVIDENCE_REFERENCE_MISSING
  | TOOL_CALL_GRAPH_INVALID | TENANT_SCOPE_MISMATCH

fun reason_code_value :: "manifest_reason_code \<Rightarrow> string" where
  "reason_code_value EXECUTION_NOT_TERMINAL = ''EXECUTION_NOT_TERMINAL''"
| "reason_code_value MISSING_REPLAY_CAPABILITY = ''MISSING_REPLAY_CAPABILITY''"
| "reason_code_value INVALID_REPLAY_CAPABILITY = ''INVALID_REPLAY_CAPABILITY''"
| "reason_code_value MISSING_ISOLATION_GUARANTEE = ''MISSING_ISOLATION_GUARANTEE''"
| "reason_code_value TOOL_CALL_IDENTITY_MISSING = ''TOOL_CALL_IDENTITY_MISSING''"
| "reason_code_value EVIDENCE_REFERENCE_MISSING = ''EVIDENCE_REFERENCE_MISSING''"
| "reason_code_value TOOL_CALL_GRAPH_INVALID = ''TOOL_CALL_GRAPH_INVALID''"
| "reason_code_value TENANT_SCOPE_MISMATCH = ''TENANT_SCOPE_MISMATCH''"

text \<open>The member of an enumeration with a value, as \<open>E(value)\<close> finds it.\<close>

definition enum_of :: "string \<Rightarrow> 'e list \<Rightarrow> ('e \<Rightarrow> string) \<Rightarrow> string \<Rightarrow> exc + 'e" where
  "enum_of name members val s =
     (case List.find (\<lambda>e. val e = s) members of
        None \<Rightarrow> Inl (Exc ValueError (quoted s @ '' is not a valid '' @ name))
      | Some e \<Rightarrow> Inr e)"

definition eligibility_of :: "string \<Rightarrow> exc + manifest_eligibility" where
  "eligibility_of = enum_of ''ReplayManifestEligibility'' [ELIGIBLE, INELIGIBLE] eligibility_value"

definition reason_code_of :: "string \<Rightarrow> exc + manifest_reason_code" where
  "reason_code_of = enum_of ''ReplayManifestReasonCode''
     [EXECUTION_NOT_TERMINAL, MISSING_REPLAY_CAPABILITY, INVALID_REPLAY_CAPABILITY,
      MISSING_ISOLATION_GUARANTEE, TOOL_CALL_IDENTITY_MISSING, EVIDENCE_REFERENCE_MISSING,
      TOOL_CALL_GRAPH_INVALID, TENANT_SCOPE_MISMATCH] reason_code_value"

record manifest_reason =
  mr_code :: manifest_reason_code
  mr_message :: string

definition reason_checks :: "string \<Rightarrow> (bool \<times> exc) list" where
  "reason_checks message =
     [(blank message \<or> 512 < length message,
       Exc ValueError ''Replay manifest reason must be bounded and non-blank.'')]"

definition new_reason :: "string \<Rightarrow> string \<Rightarrow> exc + manifest_reason" where
  "new_reason code message =
     res_bind (reason_code_of code) (\<lambda>c.
       checked (reason_checks message) \<lparr>mr_code = c, mr_message = message\<rparr>)"

definition reason_to_dict :: "manifest_reason \<Rightarrow> pyval" where
  "reason_to_dict r = PDict [(''code'', PStr (reason_code_value (mr_code r))), (''message'', PStr (mr_message r))]"

record replay_manifest =
  mf_source_execution_id :: string
  mf_source_execution_status :: string
  mf_eligibility :: manifest_eligibility
  mf_tool_call_count :: int
  mf_evidence_reference_count :: int
  mf_reasons :: "manifest_reason list"
  mf_runtime_type :: "string option"
  mf_adapter_id :: "string option"
  mf_adapter_version :: "string option"
  mf_replay_reference :: "string option"
  mf_isolation_guarantee :: "string option"
  mf_schema_version :: string
  mf_manifest_hash :: string

definition bounded_manifest_field :: "string \<Rightarrow> string \<Rightarrow> bool \<times> exc" where
  "bounded_manifest_field name v =
     (blank v \<or> 256 < length v,
      Exc ValueError (''Replay manifest '' @ name @ '' must be bounded and non-blank.''))"

definition optional_manifest_field :: "string \<Rightarrow> string option \<Rightarrow> (bool \<times> exc) list" where
  "optional_manifest_field name v =
     when_given v (\<lambda>x. (blank x \<or> 512 < length x,
       Exc ValueError (''Replay manifest '' @ name @ '' must be bounded when present.'')))"

definition manifest_checks :: "replay_manifest \<Rightarrow> (bool \<times> exc) list" where
  "manifest_checks m =
     [(mf_eligibility m = ELIGIBLE \<and> mf_reasons m \<noteq> [],
       Exc ValueError ''An eligible replay manifest cannot contain ineligibility reasons.''),
      (mf_eligibility m = INELIGIBLE \<and> mf_reasons m = [],
       Exc ValueError ''An ineligible replay manifest requires an explicit reason.'')]
     @ optional_manifest_field ''runtime_type'' (mf_runtime_type m)
     @ optional_manifest_field ''adapter_id'' (mf_adapter_id m)
     @ optional_manifest_field ''adapter_version'' (mf_adapter_version m)
     @ optional_manifest_field ''replay_reference'' (mf_replay_reference m)
     @ optional_manifest_field ''isolation_guarantee'' (mf_isolation_guarantee m)
     @ [(mf_eligibility m = ELIGIBLE \<and> \<not> list_all truthy
           [mf_runtime_type m, mf_adapter_id m, mf_adapter_version m, mf_replay_reference m,
            mf_isolation_guarantee m],
         Exc ValueError ''An eligible replay manifest requires capability and isolation evidence.'')]"

definition manifest_payload :: "replay_manifest \<Rightarrow> (string \<times> pyval) list" where
  "manifest_payload m =
     [(''schema_version'', PStr (mf_schema_version m)),
      (''source_execution_id'', PStr (mf_source_execution_id m)),
      (''source_execution_status'', PStr (mf_source_execution_status m)),
      (''eligibility'', PStr (eligibility_value (mf_eligibility m))),
      (''tool_call_count'', PInt (mf_tool_call_count m)),
      (''evidence_reference_count'', PInt (mf_evidence_reference_count m)),
      (''reasons'', PList (map reason_to_dict (mf_reasons m))),
      (''runtime_type'', of_opt_str (mf_runtime_type m)),
      (''adapter_id'', of_opt_str (mf_adapter_id m)),
      (''adapter_version'', of_opt_str (mf_adapter_version m)),
      (''replay_reference'', of_opt_str (mf_replay_reference m)),
      (''isolation_guarantee'', of_opt_str (mf_isolation_guarantee m))]"

text \<open>The payload holds no float, so the text of floats does not matter.\<close>

definition manifest_digest :: "replay_manifest \<Rightarrow> string" where
  "manifest_digest m = sha256_hex (json_dumps (\<lambda>_. []) (PDict (manifest_payload m)))"

text \<open>The constructor; the eligibility is given by its value and the field of \<open>m\<close> is ignored.\<close>

definition new_manifest :: "string \<Rightarrow> replay_manifest \<Rightarrow> exc + replay_manifest" where
  "new_manifest eligibility m0 =
     res_bind (checked
       [(mf_schema_version m0 \<noteq> manifest_schema_version,
         Exc ValueError ''Unsupported replay manifest schema version.''),
        bounded_manifest_field ''source_execution_id'' (mf_source_execution_id m0),
        bounded_manifest_field ''source_execution_status'' (mf_source_execution_status m0),
        (mf_tool_call_count m0 < 0 \<or> mf_evidence_reference_count m0 < 0,
         Exc ValueError ''Replay manifest evidence counts must be non-negative.'')] ()) (\<lambda>_.
     res_bind (eligibility_of eligibility) (\<lambda>el.
       let m = m0\<lparr>mf_eligibility := el\<rparr>; digest = manifest_digest m in
       res_bind (checked (manifest_checks m) ()) (\<lambda>_.
       checked [(mf_manifest_hash m0 \<noteq> [] \<and> mf_manifest_hash m0 \<noteq> digest,
                 Exc ValueError ''Replay manifest hash does not match its evidence.'')]
         (m\<lparr>mf_manifest_hash := digest\<rparr>))))"

definition is_eligible :: "replay_manifest \<Rightarrow> bool" where
  "is_eligible m = (mf_eligibility m = ELIGIBLE)"

definition manifest_to_dict :: "replay_manifest \<Rightarrow> (string \<times> pyval) list" where
  "manifest_to_dict m = manifest_payload m @ [(''manifest_hash'', PStr (mf_manifest_hash m))]"

section \<open>Reading a manifest\<close>

definition required_string :: "(string \<times> pyval) list \<Rightarrow> string \<Rightarrow> string option" where
  "required_string d k = (case map_of d k of Some (PStr s) \<Rightarrow> Some s | _ \<Rightarrow> None)"

definition required_int :: "(string \<times> pyval) list \<Rightarrow> string \<Rightarrow> int option" where
  "required_int d k = (case map_of d k of Some (PInt i) \<Rightarrow> Some i | _ \<Rightarrow> None)"

text \<open>The outer \<open>None\<close> is the \<open>TypeError\<close>.\<close>

definition optional_manifest_string :: "pyval \<Rightarrow> string option option" where
  "optional_manifest_string v = (case v of PNone \<Rightarrow> Some None | PStr s \<Rightarrow> Some (Some s) | _ \<Rightarrow> None)"

definition reason_from_mapping :: "pyval \<Rightarrow> manifest_reason option" where
  "reason_from_mapping v =
     (case v of
        PDict d \<Rightarrow>
          Option.bind (required_string d ''code'') (\<lambda>code.
          Option.bind (required_string d ''message'') (\<lambda>message.
          case new_reason code message of Inl _ \<Rightarrow> None | Inr r \<Rightarrow> Some r))
      | _ \<Rightarrow> None)"

fun reasons_from_mappings :: "pyval list \<Rightarrow> manifest_reason list option" where
  "reasons_from_mappings [] = Some []"
| "reasons_from_mappings (v # vs) =
     Option.bind (reason_from_mapping v) (\<lambda>r.
     Option.bind (reasons_from_mappings vs) (\<lambda>rs. Some (r # rs)))"

definition manifest_of_dict :: "(string \<times> pyval) list \<Rightarrow> replay_manifest option" where
  "manifest_of_dict d =
     Option.bind (case map_of d ''reasons'' of None \<Rightarrow> Some [] | Some (PList xs) \<Rightarrow> Some xs | _ \<Rightarrow> None) (\<lambda>raw.
     Option.bind (required_string d ''source_execution_id'') (\<lambda>source_execution_id.
     Option.bind (required_string d ''source_execution_status'') (\<lambda>source_execution_status.
     Option.bind (required_string d ''eligibility'') (\<lambda>eligibility.
     Option.bind (required_int d ''tool_call_count'') (\<lambda>tool_call_count.
     Option.bind (required_int d ''evidence_reference_count'') (\<lambda>evidence_reference_count.
     Option.bind (reasons_from_mappings raw) (\<lambda>reasons.
     Option.bind (optional_manifest_string (pget d ''runtime_type'')) (\<lambda>runtime_type.
     Option.bind (optional_manifest_string (pget d ''adapter_id'')) (\<lambda>adapter_id.
     Option.bind (optional_manifest_string (pget d ''adapter_version'')) (\<lambda>adapter_version.
     Option.bind (optional_manifest_string (pget d ''replay_reference'')) (\<lambda>replay_reference.
     Option.bind (optional_manifest_string (pget d ''isolation_guarantee'')) (\<lambda>isolation_guarantee.
     Option.bind (required_string d ''schema_version'') (\<lambda>schema_version.
     Option.bind (required_string d ''manifest_hash'') (\<lambda>manifest_hash.
     case new_manifest eligibility
       \<lparr>mf_source_execution_id = source_execution_id, mf_source_execution_status = source_execution_status,
        mf_eligibility = INELIGIBLE, mf_tool_call_count = tool_call_count,
        mf_evidence_reference_count = evidence_reference_count, mf_reasons = reasons,
        mf_runtime_type = runtime_type, mf_adapter_id = adapter_id, mf_adapter_version = adapter_version,
        mf_replay_reference = replay_reference, mf_isolation_guarantee = isolation_guarantee,
        mf_schema_version = schema_version, mf_manifest_hash = manifest_hash\<rparr> of
       Inl _ \<Rightarrow> None | Inr m \<Rightarrow> Some m))))))))))))))"

definition manifest_from_dict :: "pyval \<Rightarrow> exc + replay_manifest" where
  "manifest_from_dict v =
     (case v of
        PDict d \<Rightarrow> (case manifest_of_dict d of None \<Rightarrow> Inl (Exc ValueError ''Replay manifest is malformed.'')
                    | Some m \<Rightarrow> Inr m)
      | _ \<Rightarrow> Inl (Exc TypeError ''Replay manifest must be a mapping.''))"

section \<open>Round trip\<close>

lemma eligibility_of_value [simp]: "eligibility_of (eligibility_value e) = Inr e"
  by (cases e) (simp_all add: eligibility_of_def enum_of_def)

lemma reason_code_of_value [simp]: "reason_code_of (reason_code_value c) = Inr c"
  by (cases c) (simp_all add: reason_code_of_def enum_of_def)

definition manifest_ok :: "replay_manifest \<Rightarrow> bool" where
  "manifest_ok m =
     (new_manifest (eligibility_value (mf_eligibility m)) m = Inr m
      \<and> (\<forall>r \<in> set (mf_reasons m). all_pass (reason_checks (mr_message r))))"

lemma reasons_read_back:
  "\<forall>r \<in> set rs. all_pass (reason_checks (mr_message r)) \<Longrightarrow> reasons_from_mappings (map reason_to_dict rs) = Some rs"
  by (induction rs)
    (auto simp: reason_from_mapping_def reason_to_dict_def required_string_def new_reason_def checked_Inr_iff
      reason_checks_def)

lemma new_manifest_ignores_eligibility:
  "new_manifest e (m\<lparr>mf_eligibility := x\<rparr>) = new_manifest e m"
  by (simp add: new_manifest_def)

lemma manifest_eta:
  "\<lparr>mf_source_execution_id = mf_source_execution_id m, mf_source_execution_status = mf_source_execution_status m,
    mf_eligibility = e, mf_tool_call_count = mf_tool_call_count m,
    mf_evidence_reference_count = mf_evidence_reference_count m, mf_reasons = mf_reasons m,
    mf_runtime_type = mf_runtime_type m, mf_adapter_id = mf_adapter_id m,
    mf_adapter_version = mf_adapter_version m, mf_replay_reference = mf_replay_reference m,
    mf_isolation_guarantee = mf_isolation_guarantee m, mf_schema_version = mf_schema_version m,
    mf_manifest_hash = mf_manifest_hash m\<rparr> = m\<lparr>mf_eligibility := e\<rparr>"
  by simp

text \<open>A manifest that passed construction reads back from the mapping it is persisted as.\<close>

lemma manifest_dict_roundtrip:
  assumes "manifest_ok m"
  shows "manifest_from_dict (PDict (manifest_to_dict m)) = Inr m"
proof -
  have opt: "optional_manifest_string (of_opt_str x) = Some x" for x
    by (cases x) (simp_all add: optional_manifest_string_def)
  have "manifest_of_dict (manifest_to_dict m)
    = (case new_manifest (eligibility_value (mf_eligibility m)) (m\<lparr>mf_eligibility := INELIGIBLE\<rparr>) of
         Inl _ \<Rightarrow> None | Inr m \<Rightarrow> Some m)"
    using assms
    by (simp add: manifest_of_dict_def manifest_to_dict_def manifest_payload_def required_string_def
        required_int_def pget_def opt reasons_read_back manifest_ok_def manifest_eta)
  then show ?thesis
    using assms by (simp add: manifest_from_dict_def new_manifest_ignores_eligibility manifest_ok_def)
qed

text \<open>The hash binds the content: what is constructed carries the digest of its own evidence.\<close>

lemma new_manifest_hash:
  assumes "new_manifest e m0 = Inr m"
  shows "mf_manifest_hash m = manifest_digest m"
  using assms
  by (auto simp: new_manifest_def Let_def res_bind_Inr_iff manifest_digest_def manifest_payload_def split: if_splits)

end
