(* ===== verification/Replay.thy ===== *)
theory Replay
  imports Replay_Manifest Execution_Ledger
begin

text \<open>
  \<open>domain/replay/replay.py\<close> and \<open>repositories/in_memory_replay_repository.py\<close>: the replay
  aggregate with its state machine, and its repository with optimistic locking. The members of
  \<open>ReplayMode\<close> and \<open>ReplayConfigurationSource\<close> are single, so the tests on them hold.
\<close>

section \<open>Interventions, configuration and failures\<close>

datatype replay_status =
  RPS_DRAFT | RPS_READY | RPS_QUEUED | RPS_RUNNING | RPS_EXECUTION_COMPLETED | RPS_EVALUATING
  | RPS_COMPARING | RPS_COMPLETED | RPS_FAILED | RPS_CANCELLED | RPS_ARCHIVED

fun replay_status_value :: "replay_status \<Rightarrow> string" where
  "replay_status_value RPS_DRAFT = ''DRAFT''"
| "replay_status_value RPS_READY = ''READY''"
| "replay_status_value RPS_QUEUED = ''QUEUED''"
| "replay_status_value RPS_RUNNING = ''RUNNING''"
| "replay_status_value RPS_EXECUTION_COMPLETED = ''EXECUTION_COMPLETED''"
| "replay_status_value RPS_EVALUATING = ''EVALUATING''"
| "replay_status_value RPS_COMPARING = ''COMPARING''"
| "replay_status_value RPS_COMPLETED = ''COMPLETED''"
| "replay_status_value RPS_FAILED = ''FAILED''"
| "replay_status_value RPS_CANCELLED = ''CANCELLED''"
| "replay_status_value RPS_ARCHIVED = ''ARCHIVED''"

datatype evidence_strategy = NULLIFY | REPLACE | PERTURB

fun strategy_value :: "evidence_strategy \<Rightarrow> string" where
  "strategy_value NULLIFY = ''NULLIFY''"
| "strategy_value REPLACE = ''REPLACE''"
| "strategy_value PERTURB = ''PERTURB''"

record intervention =
  iv_strategy :: evidence_strategy
  iv_strategy_version :: string
  iv_source_evidence_reference :: string
  iv_counterfactual_evidence_reference :: "string option"
  iv_target_event_id :: "string option"
  iv_seed :: "int option"
  iv_configuration :: "(string \<times> pyval) list"
  iv_policy_id :: "string option"
  iv_policy_version :: "int option"
  iv_provider_id :: "string option"
  iv_provider_version :: "string option"
  iv_original_evidence_digest :: "string option"
  iv_counterfactual_evidence_digest :: "string option"
  iv_intervention_digest :: string

definition of_opt_int :: "int option \<Rightarrow> pyval" where
  "of_opt_int v = (case v of None \<Rightarrow> PNone | Some i \<Rightarrow> PInt i)"

definition intervention_digest :: "(rat \<Rightarrow> string) \<Rightarrow> intervention \<Rightarrow> string" where
  "intervention_digest fr v =
     sha256_hex (json_dumps fr (PDict
       [(''strategy'', PStr (strategy_value (iv_strategy v))),
        (''strategy_version'', PStr (iv_strategy_version v)),
        (''source'', PStr (iv_source_evidence_reference v)),
        (''counterfactual'', of_opt_str (iv_counterfactual_evidence_reference v)),
        (''target'', of_opt_str (iv_target_event_id v)),
        (''seed'', of_opt_int (iv_seed v)),
        (''configuration'', PDict (iv_configuration v)),
        (''policy_id'', of_opt_str (iv_policy_id v)),
        (''policy_version'', of_opt_int (iv_policy_version v)),
        (''provider_id'', of_opt_str (iv_provider_id v)),
        (''provider_version'', of_opt_str (iv_provider_version v)),
        (''original_digest'', of_opt_str (iv_original_evidence_digest v)),
        (''counterfactual_digest'', of_opt_str (iv_counterfactual_evidence_digest v))]))"

definition intervention_checks :: "intervention \<Rightarrow> (bool \<times> exc) list" where
  "intervention_checks v =
     (let provenance =
        [iv_policy_id v \<noteq> None, iv_policy_version v \<noteq> None, iv_provider_id v \<noteq> None,
         iv_provider_version v \<noteq> None, iv_original_evidence_digest v \<noteq> None,
         iv_counterfactual_evidence_digest v \<noteq> None]
      in
     [(blank (iv_strategy_version v) \<or> blank (iv_source_evidence_reference v),
       Exc ValueError ''Controlled evidence strategy_version and source evidence reference are required.''),
      (iv_strategy v = REPLACE \<and>
         (case iv_counterfactual_evidence_reference v of None \<Rightarrow> True | Some x \<Rightarrow> blank x),
       Exc ValueError ''REPLACE requires a counterfactual evidence reference.''),
      (case iv_counterfactual_evidence_reference v of None \<Rightarrow> False | Some x \<Rightarrow> blank x,
       Exc ValueError ''Counterfactual evidence reference must not be blank.''),
      (case iv_target_event_id v of None \<Rightarrow> False | Some x \<Rightarrow> blank x,
       Exc ValueError ''Controlled evidence target event ID must not be blank.''),
      (list_ex id provenance \<and> \<not> list_all id provenance,
       Exc ValueError ''Controlled evidence provenance must be complete when present.''),
      (case iv_policy_version v of None \<Rightarrow> False | Some n \<Rightarrow> n < 1,
       Exc ValueError ''Controlled evidence policy version must be positive.'')])"

definition new_intervention :: "(rat \<Rightarrow> string) \<Rightarrow> intervention \<Rightarrow> exc + intervention" where
  "new_intervention fr v =
     (let digest = intervention_digest fr v in
      checked (intervention_checks v
        @ [(iv_intervention_digest v \<noteq> [] \<and> iv_intervention_digest v \<noteq> digest,
            Exc ValueError ''Controlled evidence intervention digest does not match content.'')])
        (v\<lparr>iv_intervention_digest := digest\<rparr>))"

datatype failure_stage =
  FS_SOURCE_RESOLUTION | FS_AUTHORIZATION | FS_VALIDATION | FS_CONFIGURATION_RESOLUTION | FS_PERSISTENCE
  | FS_JOB_SUBMISSION | FS_SOURCE_RELOAD | FS_ADAPTER_RESOLUTION | FS_RECONSTRUCTION | FS_EXECUTION
  | FS_EXECUTION_PERSISTENCE | FS_LINEAGE_PERSISTENCE | FS_CANCELLATION | FS_EVALUATION_SUBMISSION
  | FS_EVALUATION | FS_BASELINE_RESOLUTION | FS_COMPARISON | FS_DRIFT_ANALYSIS | FS_RESULT_PERSISTENCE
  | FS_ONTOLOGY_SYNC

record replay_configuration =
  rf_workflow_id :: string
  rf_workflow_version :: string
  rf_execution_adapter :: string
  rf_input_snapshot_ref :: string
  rf_state_snapshot_ref :: string
  rf_artifact_refs :: "string list"
  rf_prompt_refs :: "string list"
  rf_model_refs :: "string list"
  rf_dataset_refs :: "string list"
  rf_policy_refs :: "string list"
  rf_runtime_parameters :: "(string \<times> pyval) list"
  rf_resolved_at :: "datetime option"
  rf_configuration_hash :: string
  rf_replay_manifest :: "replay_manifest option"

definition new_configuration :: "replay_configuration \<Rightarrow> exc + replay_configuration" where
  "new_configuration c =
     checked (map (\<lambda>(name, v). (blank v, Exc ValueError (''Replay configuration '' @ name @ '' is required.'')))
       [(''workflow_id'', rf_workflow_id c), (''workflow_version'', rf_workflow_version c),
        (''execution_adapter'', rf_execution_adapter c), (''input_snapshot_ref'', rf_input_snapshot_ref c),
        (''state_snapshot_ref'', rf_state_snapshot_ref c), (''configuration_hash'', rf_configuration_hash c)]) c"

record replay_failure =
  ry_code :: string
  ry_message :: string
  ry_stage :: failure_stage
  ry_details :: "(string \<times> pyval) list"
  ry_occurred_at :: datetime

definition new_failure :: "replay_failure \<Rightarrow> exc + replay_failure" where
  "new_failure f =
     checked [(blank (ry_code f) \<or> blank (ry_message f),
               Exc ValueError ''Replay failure code and message are required.'')] f"

section \<open>The aggregate\<close>

record replay =
  rp_replay_id :: string
  rp_source_execution_id :: string
  rp_status :: replay_status
  rp_requested_by :: string
  rp_organization_id :: string
  rp_project_id :: string
  rp_request_id :: string
  rp_idempotency_key :: string
  rp_input_hash :: string
  rp_created_at :: datetime
  rp_updated_at :: datetime
  rp_correlation_id :: "string option"
  rp_configuration :: "replay_configuration option"
  rp_archived_at :: "datetime option"
  rp_failure :: "replay_failure option"
  rp_metadata :: "(string \<times> pyval) list"
  rp_version :: int
  rp_job_id :: "string option"
  rp_replay_execution_id :: "string option"
  rp_queued_at :: "datetime option"
  rp_started_at :: "datetime option"
  rp_execution_completed_at :: "datetime option"
  rp_cancel_requested_at :: "datetime option"
  rp_cancelled_at :: "datetime option"
  rp_attempt_count :: int
  rp_evaluation_job_id :: "string option"
  rp_baseline_evaluation_id :: "string option"
  rp_replay_evaluation_id :: "string option"
  rp_comparison_id :: "string option"
  rp_drift_id :: "string option"
  rp_result_id :: "string option"
  rp_evaluation_started_at :: "datetime option"
  rp_evaluation_completed_at :: "datetime option"
  rp_comparison_started_at :: "datetime option"
  rp_comparison_completed_at :: "datetime option"
  rp_completed_at :: "datetime option"
  rp_intervention :: "intervention option"

record replay_request =
  rr_source_execution_id :: string
  rr_requested_by :: string
  rr_organization_id :: string
  rr_project_id :: string
  rr_request_id :: string
  rr_correlation_id :: "string option"
  rr_idempotency_key :: string
  rr_input_hash :: string
  rr_metadata :: "(string \<times> pyval) list"
  rr_intervention :: "intervention option"

definition create_replay :: "string \<Rightarrow> replay_request \<Rightarrow> datetime \<Rightarrow> exc + replay" where
  "create_replay replay_id q now =
     checked (map (\<lambda>(name, v). (blank v, Exc ValueError (''Replay '' @ name @ '' is required.'')))
       [(''replay_id'', replay_id), (''source_execution_id'', rr_source_execution_id q),
        (''requested_by'', rr_requested_by q), (''organization_id'', rr_organization_id q),
        (''project_id'', rr_project_id q), (''request_id'', rr_request_id q),
        (''idempotency_key'', rr_idempotency_key q), (''input_hash'', rr_input_hash q)])
       \<lparr>rp_replay_id = replay_id, rp_source_execution_id = rr_source_execution_id q, rp_status = RPS_DRAFT,
        rp_requested_by = rr_requested_by q, rp_organization_id = rr_organization_id q,
        rp_project_id = rr_project_id q, rp_request_id = rr_request_id q,
        rp_idempotency_key = rr_idempotency_key q, rp_input_hash = rr_input_hash q, rp_created_at = now,
        rp_updated_at = now, rp_correlation_id = rr_correlation_id q, rp_configuration = None,
        rp_archived_at = None, rp_failure = None, rp_metadata = rr_metadata q, rp_version = 0,
        rp_job_id = None, rp_replay_execution_id = None, rp_queued_at = None, rp_started_at = None,
        rp_execution_completed_at = None, rp_cancel_requested_at = None, rp_cancelled_at = None,
        rp_attempt_count = 0, rp_evaluation_job_id = None, rp_baseline_evaluation_id = None,
        rp_replay_evaluation_id = None, rp_comparison_id = None, rp_drift_id = None, rp_result_id = None,
        rp_evaluation_started_at = None, rp_evaluation_completed_at = None, rp_comparison_started_at = None,
        rp_comparison_completed_at = None, rp_completed_at = None, rp_intervention = rr_intervention q\<rparr>"

definition in_state :: "string \<Rightarrow> replay \<Rightarrow> exc" where
  "in_state operation r =
     Exc ValueError (''Cannot '' @ operation @ '' replay in '' @ replay_status_value (rp_status r) @ '' state.'')"

definition require_replay_status :: "replay_status \<Rightarrow> string \<Rightarrow> replay \<Rightarrow> bool \<times> exc" where
  "require_replay_status expected operation r = (rp_status r \<noteq> expected, in_state operation r)"

definition replay_mark_ready :: "replay_configuration \<Rightarrow> datetime \<Rightarrow> replay \<Rightarrow> exc + replay" where
  "replay_mark_ready configuration now r =
     checked [require_replay_status RPS_DRAFT ''mark ready'' r,
              (rp_failure r \<noteq> None, Exc ValueError ''A failed replay cannot become ready.'')]
       (r\<lparr>rp_status := RPS_READY, rp_configuration := Some configuration, rp_updated_at := now\<rparr>)"

definition replay_mark_failed :: "replay_failure \<Rightarrow> datetime \<Rightarrow> replay \<Rightarrow> exc + replay" where
  "replay_mark_failed failure now r =
     checked [require_replay_status RPS_DRAFT ''mark failed'' r]
       (r\<lparr>rp_status := RPS_FAILED, rp_failure := Some failure, rp_updated_at := now\<rparr>)"

definition replay_archive :: "datetime \<Rightarrow> replay \<Rightarrow> exc + replay" where
  "replay_archive now r =
     checked [(rp_status r \<notin> {RPS_READY, RPS_EXECUTION_COMPLETED, RPS_COMPLETED, RPS_FAILED, RPS_CANCELLED},
               in_state ''archive'' r)]
       (r\<lparr>rp_status := RPS_ARCHIVED, rp_archived_at := Some now, rp_updated_at := now\<rparr>)"

definition replay_mark_queued :: "string \<Rightarrow> datetime \<Rightarrow> replay \<Rightarrow> exc + replay" where
  "replay_mark_queued job_id now r =
     checked [require_replay_status RPS_READY ''queue'' r,
              (blank job_id, Exc ValueError ''Replay job ID is required.''),
              (rp_job_id r \<noteq> None \<and> rp_job_id r \<noteq> Some job_id,
               Exc ValueError ''Replay job ID is immutable once assigned.'')]
       (r\<lparr>rp_status := RPS_QUEUED, rp_job_id := Some job_id, rp_queued_at := Some now, rp_updated_at := now\<rparr>)"

definition replay_mark_running :: "int \<Rightarrow> datetime \<Rightarrow> replay \<Rightarrow> exc + replay" where
  "replay_mark_running attempt_count now r =
     checked [require_replay_status RPS_QUEUED ''start'' r,
              (attempt_count < 1, Exc ValueError ''Replay attempt count must be positive.'')]
       (r\<lparr>rp_status := RPS_RUNNING, rp_started_at := Some now, rp_updated_at := now,
          rp_attempt_count := attempt_count\<rparr>)"

definition reserve_replay_execution_id :: "string \<Rightarrow> datetime \<Rightarrow> replay \<Rightarrow> exc + replay" where
  "reserve_replay_execution_id execution_id now r =
     checked [(rp_status r \<notin> {RPS_QUEUED, RPS_RUNNING},
               Exc ValueError ''Replay execution identity may only be reserved while active.''),
              (blank execution_id \<or> execution_id = rp_source_execution_id r,
               Exc ValueError ''Replay execution ID must differ from source execution ID.''),
              (truthy (rp_replay_execution_id r) \<and> rp_replay_execution_id r \<noteq> Some execution_id,
               Exc ValueError ''Replay execution ID is immutable once assigned.'')]
       (r\<lparr>rp_replay_execution_id := Some execution_id, rp_updated_at := now\<rparr>)"

definition mark_execution_completed :: "datetime \<Rightarrow> replay \<Rightarrow> exc + replay" where
  "mark_execution_completed now r =
     checked [require_replay_status RPS_RUNNING ''complete execution'' r,
              (rp_replay_execution_id r = None,
               Exc ValueError ''Replay execution ID must be reserved before completion.'')]
       (r\<lparr>rp_status := RPS_EXECUTION_COMPLETED, rp_execution_completed_at := Some now, rp_updated_at := now\<rparr>)"

definition replay_active :: "replay_status set" where
  "replay_active = {RPS_QUEUED, RPS_RUNNING, RPS_EXECUTION_COMPLETED, RPS_EVALUATING, RPS_COMPARING}"

definition request_cancellation :: "datetime \<Rightarrow> replay \<Rightarrow> exc + replay" where
  "request_cancellation now r =
     checked [(rp_status r \<notin> insert RPS_READY replay_active, in_state ''cancel'' r)]
       (r\<lparr>rp_cancel_requested_at := Some now, rp_updated_at := now\<rparr>)"

definition mark_cancelled :: "datetime \<Rightarrow> replay \<Rightarrow> exc + replay" where
  "mark_cancelled now r =
     (if rp_status r = RPS_READY
      then Inr (r\<lparr>rp_status := RPS_CANCELLED,
                  rp_cancel_requested_at := Some (opt_or (rp_cancel_requested_at r) now),
                  rp_cancelled_at := Some now, rp_updated_at := now\<rparr>)
      else checked [(rp_status r \<notin> replay_active \<or> rp_cancel_requested_at r = None,
                     Exc ValueError ''Replay cancellation must be requested before completion.'')]
             (r\<lparr>rp_status := RPS_CANCELLED, rp_cancelled_at := Some now, rp_updated_at := now\<rparr>))"

definition mark_execution_failed :: "replay_failure \<Rightarrow> datetime \<Rightarrow> replay \<Rightarrow> exc + replay" where
  "mark_execution_failed failure now r =
     checked [(rp_status r \<notin> insert RPS_READY replay_active, in_state ''fail'' r)]
       (r\<lparr>rp_status := RPS_FAILED, rp_failure := Some failure, rp_updated_at := now\<rparr>)"

definition mark_evaluating :: "string \<Rightarrow> datetime \<Rightarrow> replay \<Rightarrow> exc + replay" where
  "mark_evaluating evaluation_job_id now r =
     checked [require_replay_status RPS_EXECUTION_COMPLETED ''start evaluation'' r,
              (blank evaluation_job_id, Exc ValueError ''Replay evaluation job ID is required.''),
              (truthy (rp_evaluation_job_id r) \<and> rp_evaluation_job_id r \<noteq> Some evaluation_job_id,
               Exc ValueError ''Replay evaluation job ID is immutable once assigned.'')]
       (r\<lparr>rp_status := RPS_EVALUATING, rp_evaluation_job_id := Some evaluation_job_id,
          rp_evaluation_started_at := Some now, rp_updated_at := now\<rparr>)"

definition immutable_checks :: "string \<Rightarrow> string option \<Rightarrow> string \<Rightarrow> (bool \<times> exc) list" where
  "immutable_checks field_name current value =
     [(blank value, Exc ValueError (''Replay '' @ field_name @ '' is required.'')),
      (truthy current \<and> current \<noteq> Some value,
       Exc ValueError (''Replay '' @ field_name @ '' is immutable once assigned.''))]"

definition record_replay_evaluation :: "string \<Rightarrow> datetime \<Rightarrow> replay \<Rightarrow> exc + replay" where
  "record_replay_evaluation evaluation_id now r =
     checked ((rp_status r \<notin> {RPS_EVALUATING, RPS_COMPARING},
               Exc ValueError ''Replay evaluation may only be recorded while evaluating.'')
              # immutable_checks ''replay_evaluation_id'' (rp_replay_evaluation_id r) evaluation_id)
       (r\<lparr>rp_replay_evaluation_id := Some evaluation_id, rp_updated_at := now\<rparr>)"

definition record_baseline_evaluation :: "string \<Rightarrow> datetime \<Rightarrow> replay \<Rightarrow> exc + replay" where
  "record_baseline_evaluation evaluation_id now r =
     checked ((rp_status r \<notin> {RPS_EVALUATING, RPS_COMPARING},
               Exc ValueError ''Replay baseline may only be recorded while evaluating.'')
              # immutable_checks ''baseline_evaluation_id'' (rp_baseline_evaluation_id r) evaluation_id)
       (r\<lparr>rp_baseline_evaluation_id := Some evaluation_id, rp_updated_at := now\<rparr>)"

definition mark_comparing :: "datetime \<Rightarrow> replay \<Rightarrow> exc + replay" where
  "mark_comparing now r =
     checked [require_replay_status RPS_EVALUATING ''start comparison'' r,
              (\<not> truthy (rp_replay_evaluation_id r) \<or> \<not> truthy (rp_baseline_evaluation_id r),
               Exc ValueError ''Replay and baseline evaluations are required for comparison.'')]
       (r\<lparr>rp_status := RPS_COMPARING,
          rp_evaluation_completed_at := Some (opt_or (rp_evaluation_completed_at r) now),
          rp_comparison_started_at := Some now, rp_updated_at := now\<rparr>)"

definition record_comparison :: "string \<Rightarrow> datetime \<Rightarrow> replay \<Rightarrow> exc + replay" where
  "record_comparison comparison_id now r =
     checked (require_replay_status RPS_COMPARING ''record comparison'' r
              # immutable_checks ''comparison_id'' (rp_comparison_id r) comparison_id)
       (r\<lparr>rp_comparison_id := Some comparison_id, rp_updated_at := now\<rparr>)"

definition record_drift :: "string \<Rightarrow> datetime \<Rightarrow> replay \<Rightarrow> exc + replay" where
  "record_drift drift_id now r =
     checked (require_replay_status RPS_COMPARING ''record drift'' r
              # immutable_checks ''drift_id'' (rp_drift_id r) drift_id)
       (r\<lparr>rp_drift_id := Some drift_id, rp_updated_at := now\<rparr>)"

definition replay_mark_completed :: "string \<Rightarrow> datetime \<Rightarrow> replay \<Rightarrow> exc + replay" where
  "replay_mark_completed result_id now r =
     checked ([require_replay_status RPS_COMPARING ''complete'' r,
               (\<not> truthy (rp_comparison_id r) \<or> \<not> truthy (rp_drift_id r),
                Exc ValueError ''Comparison and drift evidence are required for completion.'')]
              @ immutable_checks ''result_id'' (rp_result_id r) result_id)
       (r\<lparr>rp_result_id := Some result_id, rp_status := RPS_COMPLETED, rp_comparison_completed_at := Some now,
          rp_completed_at := Some now, rp_updated_at := now\<rparr>)"

section \<open>The repository\<close>

type_synonym replay_repo = "(string, replay) dict"

record replay_filters =
  pf_status :: "replay_status option"
  pf_source_execution_id :: "string option"
  pf_requested_by :: "string option"
  pf_created_after :: "datetime option"
  pf_created_before :: "datetime option"
  pf_limit :: int

definition find_replay_by_idempotency :: "replay_repo \<Rightarrow> string \<Rightarrow> string \<Rightarrow> string \<Rightarrow> replay option" where
  "find_replay_by_idempotency s idempotency_key organization_id project_id =
     List.find (\<lambda>r. rp_idempotency_key r = idempotency_key \<and> rp_organization_id r = organization_id
                  \<and> rp_project_id r = project_id) (dict_values s)"

definition save_replay :: "replay \<Rightarrow> int option \<Rightarrow> (replay_repo, replay) action" where
  "save_replay r expected_version s =
     (let put = (\<lambda>stored. (Inr stored, dict_put (rp_replay_id stored) stored s)) in
      case dict_get s (rp_replay_id r) of
        None \<Rightarrow>
          if expected_version \<noteq> None
          then (Inl (Exc ReplayConflict ''Replay does not exist for the requested update.''), s)
          else (case find_replay_by_idempotency s (rp_idempotency_key r) (rp_organization_id r) (rp_project_id r) of
                  Some duplicate \<Rightarrow>
                    if rp_replay_id duplicate \<noteq> rp_replay_id r
                    then (Inl (Exc ReplayIdempotencyConflict
                           ''Replay idempotency key is already in use for this project.''), s)
                    else put (r\<lparr>rp_version := 1\<rparr>)
                | None \<Rightarrow> put (r\<lparr>rp_version := 1\<rparr>))
      | Some current \<Rightarrow>
          if expected_version = None \<or> Some (rp_version current) \<noteq> expected_version
          then (Inl (Exc ReplayConflict ''Replay was modified by another request.''), s)
          else if rp_organization_id current \<noteq> rp_organization_id r \<or> rp_project_id current \<noteq> rp_project_id r
            \<or> rp_idempotency_key current \<noteq> rp_idempotency_key r \<or> rp_input_hash current \<noteq> rp_input_hash r
          then (Inl (Exc ReplayConflict ''Immutable replay identity fields cannot change.''), s)
          else put (r\<lparr>rp_version := rp_version current + 1\<rparr>))"

definition get_replay :: "replay_repo \<Rightarrow> string \<Rightarrow> string \<Rightarrow> string \<Rightarrow> replay option" where
  "get_replay s replay_id organization_id project_id =
     (case dict_get s replay_id of None \<Rightarrow> None
      | Some r \<Rightarrow> if rp_organization_id r \<noteq> organization_id \<or> rp_project_id r \<noteq> project_id then None else Some r)"

definition replay_listed :: "replay_filters \<Rightarrow> string \<Rightarrow> string \<Rightarrow> replay \<Rightarrow> exc + bool" where
  "replay_listed f organization_id project_id r =
     (if rp_organization_id r \<noteq> organization_id \<or> rp_project_id r \<noteq> project_id
         \<or> pf_status f \<notin> {None, Some (rp_status r)}
         \<or> pf_source_execution_id f \<notin> {None, Some (rp_source_execution_id r)}
         \<or> pf_requested_by f \<notin> {None, Some (rp_requested_by r)} then Inr False
      else res_bind (case pf_created_after f of None \<Rightarrow> Inr False | Some t \<Rightarrow> dt_before (rp_created_at r) t) (\<lambda>early.
           if early then Inr False
           else res_bind (case pf_created_before f of None \<Rightarrow> Inr False | Some t \<Rightarrow> dt_before t (rp_created_at r)) (\<lambda>late.
             Inr (\<not> late))))"

text \<open>The slice \<open>xs[:n]\<close>, which a negative bound counts from the end.\<close>

definition slice_upto :: "int \<Rightarrow> 'a list \<Rightarrow> 'a list" where
  "slice_upto n xs = take (nat (if n < 0 then int (length xs) + n else n)) xs"

definition list_replays :: "replay_repo \<Rightarrow> replay_filters \<Rightarrow> string \<Rightarrow> string \<Rightarrow> exc + replay list" where
  "list_replays s f organization_id project_id =
     res_bind (filter_res (replay_listed f organization_id project_id) (dict_values s)) (\<lambda>results.
       Inr (slice_upto (pf_limit f) (sort_key_reverse (\<lambda>r. (micros (rp_created_at r), rp_replay_id r)) results)))"

section \<open>The lifecycle\<close>

text \<open>One transition of the aggregate.\<close>

inductive replay_step :: "replay \<Rightarrow> replay \<Rightarrow> bool" where
  ready: "replay_mark_ready c now r = Inr q \<Longrightarrow> replay_step r q"
| failed: "replay_mark_failed f now r = Inr q \<Longrightarrow> replay_step r q"
| archived: "replay_archive now r = Inr q \<Longrightarrow> replay_step r q"
| queued: "replay_mark_queued j now r = Inr q \<Longrightarrow> replay_step r q"
| running: "replay_mark_running n now r = Inr q \<Longrightarrow> replay_step r q"
| reserved: "reserve_replay_execution_id x now r = Inr q \<Longrightarrow> replay_step r q"
| executed: "mark_execution_completed now r = Inr q \<Longrightarrow> replay_step r q"
| cancel_requested: "request_cancellation now r = Inr q \<Longrightarrow> replay_step r q"
| cancelled: "mark_cancelled now r = Inr q \<Longrightarrow> replay_step r q"
| execution_failed: "mark_execution_failed f now r = Inr q \<Longrightarrow> replay_step r q"
| evaluating: "mark_evaluating j now r = Inr q \<Longrightarrow> replay_step r q"
| evaluated: "record_replay_evaluation e now r = Inr q \<Longrightarrow> replay_step r q"
| baseline: "record_baseline_evaluation e now r = Inr q \<Longrightarrow> replay_step r q"
| comparing: "mark_comparing now r = Inr q \<Longrightarrow> replay_step r q"
| compared: "record_comparison e now r = Inr q \<Longrightarrow> replay_step r q"
| drift: "record_drift e now r = Inr q \<Longrightarrow> replay_step r q"
| completed: "replay_mark_completed e now r = Inr q \<Longrightarrow> replay_step r q"

lemmas replay_transitions =
  replay_mark_ready_def replay_mark_failed_def replay_archive_def replay_mark_queued_def replay_mark_running_def
  reserve_replay_execution_id_def mark_execution_completed_def request_cancellation_def mark_cancelled_def
  mark_execution_failed_def mark_evaluating_def record_replay_evaluation_def record_baseline_evaluation_def
  mark_comparing_def record_comparison_def record_drift_def replay_mark_completed_def
  require_replay_status_def immutable_checks_def replay_active_def

text \<open>How far a replay has come; every change of status is a step forward.\<close>

fun replay_rank :: "replay_status \<Rightarrow> nat" where
  "replay_rank RPS_DRAFT = 0"
| "replay_rank RPS_READY = 1"
| "replay_rank RPS_QUEUED = 2"
| "replay_rank RPS_RUNNING = 3"
| "replay_rank RPS_EXECUTION_COMPLETED = 4"
| "replay_rank RPS_EVALUATING = 5"
| "replay_rank RPS_COMPARING = 6"
| "replay_rank RPS_COMPLETED = 7"
| "replay_rank RPS_FAILED = 7"
| "replay_rank RPS_CANCELLED = 7"
| "replay_rank RPS_ARCHIVED = 8"

definition replay_edge :: "replay_status \<Rightarrow> replay_status \<Rightarrow> bool" where
  "replay_edge a b = (replay_rank a < replay_rank b)"

interpretation replay_lifecycle: status_machine replay_step rp_status replay_edge
proof
  show "rp_status q = rp_status r \<or> replay_edge (rp_status r) (rp_status q)" if "replay_step r q" for r q
    using that by (cases rule: replay_step.cases) (auto simp: replay_transitions replay_edge_def split: if_splits)
qed

text \<open>The evidence that belongs to each status.\<close>

definition replay_prepared :: "replay \<Rightarrow> bool" where
  "replay_prepared r =
     ((rp_status r \<in> insert RPS_READY (insert RPS_COMPLETED replay_active) \<longrightarrow> rp_configuration r \<noteq> None)
      \<and> (rp_status r \<in> insert RPS_COMPLETED replay_active \<longrightarrow> rp_job_id r \<noteq> None))"

definition replay_isolated :: "replay \<Rightarrow> bool" where
  "replay_isolated r =
     (rp_replay_execution_id r \<noteq> Some (rp_source_execution_id r)
      \<and> (rp_status r \<in> {RPS_EXECUTION_COMPLETED, RPS_EVALUATING, RPS_COMPARING, RPS_COMPLETED}
            \<longrightarrow> rp_replay_execution_id r \<noteq> None))"

definition replay_evidenced :: "replay \<Rightarrow> bool" where
  "replay_evidenced r =
     ((rp_status r \<in> {RPS_COMPARING, RPS_COMPLETED} \<longrightarrow>
           truthy (rp_replay_evaluation_id r) \<and> truthy (rp_baseline_evaluation_id r))
      \<and> (rp_status r = RPS_COMPLETED \<longrightarrow>
           truthy (rp_comparison_id r) \<and> truthy (rp_drift_id r) \<and> truthy (rp_result_id r)))"

definition replay_explained :: "replay \<Rightarrow> bool" where
  "replay_explained r =
     ((rp_status r = RPS_FAILED \<longrightarrow> rp_failure r \<noteq> None)
      \<and> (rp_status r = RPS_CANCELLED \<longrightarrow> rp_cancel_requested_at r \<noteq> None))"

lemma blank_truthy: "\<not> blank v \<Longrightarrow> truthy (Some v)"
  by (auto simp: truthy_def dest: not_blank_not_Nil)

definition replay_inv :: "replay \<Rightarrow> bool" where
  "replay_inv r = (replay_prepared r \<and> replay_isolated r \<and> replay_evidenced r \<and> replay_explained r)"

lemmas replay_inv_defs =
  replay_inv_def replay_prepared_def replay_isolated_def replay_evidenced_def replay_explained_def

lemma replay_inv_step: "replay_step r q \<Longrightarrow> replay_inv r \<Longrightarrow> replay_inv q"
  by (erule replay_step.cases; hypsubst; simp add: replay_transitions split: if_splits; (elim conjE)?;
      hypsubst;
      simp add: replay_inv_defs replay_active_def blank_truthy)

text \<open>
  What a transition keeps: the request itself, every identifier that has been assigned, and the
  configuration once it is frozen.
\<close>

definition assigned_ids :: "replay \<Rightarrow> string option list" where
  "assigned_ids r =
     [rp_job_id r, rp_replay_execution_id r, rp_evaluation_job_id r, rp_replay_evaluation_id r,
      rp_baseline_evaluation_id r, rp_comparison_id r, rp_drift_id r, rp_result_id r]"

definition replay_content where
  "replay_content r = (rp_replay_id r, rp_source_execution_id r, rp_requested_by r, rp_organization_id r,
     rp_project_id r, rp_request_id r, rp_idempotency_key r, rp_input_hash r, rp_created_at r, rp_intervention r)"

definition replay_keeps :: "replay \<Rightarrow> replay \<Rightarrow> bool" where
  "replay_keeps r q =
     (replay_content q = replay_content r
      \<and> list_all2 (\<lambda>a b. truthy a \<longrightarrow> b = a) (assigned_ids r) (assigned_ids q)
      \<and> (rp_status r \<noteq> RPS_DRAFT \<longrightarrow> rp_status q \<noteq> RPS_DRAFT \<and> rp_configuration q = rp_configuration r))"

lemma replay_keeps_step: "replay_step r q \<Longrightarrow> replay_keeps r q"
  by (erule replay_step.cases; hypsubst; simp add: replay_transitions split: if_splits; (elim conjE)?;
      hypsubst;
      simp add: replay_keeps_def replay_content_def assigned_ids_def truthy_def; auto?)


lemma replay_keeps_refl: "replay_keeps r r"
  by (simp add: replay_keeps_def assigned_ids_def)

lemma replay_keeps_trans: "replay_keeps a b \<Longrightarrow> replay_keeps b c \<Longrightarrow> replay_keeps a c"
  unfolding replay_keeps_def by (elim conjE, intro conjI) (simp, erule (1) list_all2_trans [rotated], simp_all)

lemma replay_run:
  assumes "replay_step\<^sup>*\<^sup>* r q" "replay_inv r"
  shows "replay_inv q \<and> replay_keeps r q"
  using assms
proof (induction rule: rtranclp_induct)
  case base
  then show ?case by (simp add: replay_keeps_refl)
next
  case (step x y)
  then show ?case using replay_inv_step replay_keeps_step replay_keeps_trans by blast
qed

lemma create_replay_fresh:
  assumes "create_replay i req now = Inr r"
  shows "replay_inv r \<and> rp_status r = RPS_DRAFT \<and> rp_replay_id r = i
    \<and> rp_source_execution_id r = rr_source_execution_id req"
  using assms by (simp add: create_replay_def replay_inv_defs replay_active_def split: if_splits) auto

section \<open>The store of replays\<close>

inductive replay_repo_step :: "replay_repo \<Rightarrow> replay_repo \<Rightarrow> bool" where
  save: "save_replay r v s = (x, s') \<Longrightarrow> replay_repo_step s s'"

inductive_simps replay_repo_step_iff: "replay_repo_step s s'"

text \<open>A later version of a stored replay: the version only grows and the identity fields stay.\<close>

definition replay_identity :: "replay \<Rightarrow> string \<times> string \<times> string \<times> string" where
  "replay_identity r = (rp_organization_id r, rp_project_id r, rp_idempotency_key r, rp_input_hash r)"

definition later_version :: "replay \<Rightarrow> replay \<Rightarrow> bool" where
  "later_version a b =
     (rp_version a \<le> rp_version b \<and> (rp_version b = rp_version a \<longrightarrow> b = a)
      \<and> replay_identity b = replay_identity a)"

text \<open>An idempotency key names one replay of a project.\<close>

definition replay_repo_inv :: "replay_repo \<Rightarrow> bool" where
  "replay_repo_inv s =
     (dict_ok s
      \<and> (\<forall>i r. dict_get s i = Some r \<longrightarrow> rp_replay_id r = i \<and> 1 \<le> rp_version r)
      \<and> (\<forall>i j r q. dict_get s i = Some r \<longrightarrow> dict_get s j = Some q
            \<longrightarrow> rp_idempotency_key r = rp_idempotency_key q \<longrightarrow> rp_organization_id r = rp_organization_id q
            \<longrightarrow> rp_project_id r = rp_project_id q \<longrightarrow> i = j))"

lemma save_replay_cases:
  assumes "save_replay r v s = (x, s')"
  obtains (refused) e where "x = Inl e" "s' = s"
  | (inserted) a where "dict_get s (rp_replay_id r) = None" "v = None" "a = r\<lparr>rp_version := 1\<rparr>"
      "x = Inr a" "s' = dict_put (rp_replay_id r) a s"
      "\<And>q. find_replay_by_idempotency s (rp_idempotency_key r) (rp_organization_id r) (rp_project_id r) = Some q
         \<Longrightarrow> rp_replay_id q = rp_replay_id r"
  | (updated) c a where "dict_get s (rp_replay_id r) = Some c" "v = Some (rp_version c)"
      "replay_identity r = replay_identity c" "a = r\<lparr>rp_version := rp_version c + 1\<rparr>"
      "x = Inr a" "s' = dict_put (rp_replay_id r) a s"
proof (cases "dict_get s (rp_replay_id r)")
  case None
  show ?thesis
  proof (cases "v = None \<and> (case find_replay_by_idempotency s (rp_idempotency_key r) (rp_organization_id r)
      (rp_project_id r) of None \<Rightarrow> True | Some q \<Rightarrow> rp_replay_id q = rp_replay_id r)")
    case True
    with None have "save_replay r v s = (Inr (r\<lparr>rp_version := 1\<rparr>), dict_put (rp_replay_id r) (r\<lparr>rp_version := 1\<rparr>) s)"
      by (cases "find_replay_by_idempotency s (rp_idempotency_key r) (rp_organization_id r) (rp_project_id r)")
        (simp_all add: save_replay_def)
    with assms have x: "x = Inr (r\<lparr>rp_version := 1\<rparr>)" and s': "s' = dict_put (rp_replay_id r) (r\<lparr>rp_version := 1\<rparr>) s"
      by simp_all
    show ?thesis
    proof (rule inserted [OF None _ refl x s'])
      show "v = None" using True by simp
      show "rp_replay_id q = rp_replay_id r"
        if "find_replay_by_idempotency s (rp_idempotency_key r) (rp_organization_id r) (rp_project_id r) = Some q" for q
        using True that by simp
    qed
  next
    case False
    with None have "\<exists>e. save_replay r v s = (Inl e, s)"
      by (cases "find_replay_by_idempotency s (rp_idempotency_key r) (rp_organization_id r) (rp_project_id r)")
        (auto simp: save_replay_def)
    with assms refused show ?thesis by auto
  qed
next
  case (Some c)
  show ?thesis
  proof (cases "v = Some (rp_version c) \<and> replay_identity r = replay_identity c")
    case True
    with Some have "save_replay r v s
      = (Inr (r\<lparr>rp_version := rp_version c + 1\<rparr>), dict_put (rp_replay_id r) (r\<lparr>rp_version := rp_version c + 1\<rparr>) s)"
      by (simp add: save_replay_def replay_identity_def)
    with True Some assms updated show ?thesis by simp
  next
    case False
    with Some have "\<exists>e. save_replay r v s = (Inl e, s)" by (auto simp: save_replay_def replay_identity_def)
    with assms refused show ?thesis by auto
  qed
qed

lemma no_replay_with_key:
  assumes "replay_repo_inv s" "dict_get s i = None"
    "\<And>q. find_replay_by_idempotency s k a b = Some q \<Longrightarrow> rp_replay_id q = i"
    "dict_get s j = Some r"
  shows "rp_idempotency_key r \<noteq> k \<or> rp_organization_id r \<noteq> a \<or> rp_project_id r \<noteq> b"
proof (rule ccontr)
  assume m: "\<not> ?thesis"
  have "r \<in> set (dict_values s)" using assms(4) by (rule dict_get_Some_values)
  with m obtain q where q: "find_replay_by_idempotency s k a b = Some q"
    by (cases "find_replay_by_idempotency s k a b") (auto simp: find_replay_by_idempotency_def find_None_iff)
  then have "q \<in> set (dict_values s)"
    by (auto simp: find_replay_by_idempotency_def find_Some_iff)
  then obtain l where "dict_get s l = Some q"
    using assms(1) by (auto simp: replay_repo_inv_def elim: dict_values_get)
  with assms(1-3) q show False by (auto simp: replay_repo_inv_def)
qed

lemma replay_repo_inv_put:
  assumes "replay_repo_inv s" "rp_replay_id a = i" "1 \<le> rp_version a"
    "\<And>j r. dict_get s j = Some r \<Longrightarrow> rp_idempotency_key r = rp_idempotency_key a \<Longrightarrow>
       rp_organization_id r = rp_organization_id a \<Longrightarrow> rp_project_id r = rp_project_id a \<Longrightarrow> j = i"
  shows "replay_repo_inv (dict_put i a s)"
  unfolding replay_repo_inv_def
proof (intro conjI allI impI)
  show "dict_ok (dict_put i a s)" using assms(1) by (simp add: replay_repo_inv_def)
  fix k r assume "dict_get (dict_put i a s) k = Some r"
  then have "k = i \<and> r = a \<or> k \<noteq> i \<and> dict_get s k = Some r" by (auto simp: dict_get_put split: if_splits)
  with assms(1-3) show "rp_replay_id r = k" and "1 \<le> rp_version r" by (auto simp: replay_repo_inv_def)
next
  fix k l r q
  assume "dict_get (dict_put i a s) k = Some r" "dict_get (dict_put i a s) l = Some q"
    and key: "rp_idempotency_key r = rp_idempotency_key q" "rp_organization_id r = rp_organization_id q"
      "rp_project_id r = rp_project_id q"
  then have "(k = i \<and> r = a \<or> k \<noteq> i \<and> dict_get s k = Some r) \<and> (l = i \<and> q = a \<or> l \<noteq> i \<and> dict_get s l = Some q)"
    by (auto simp: dict_get_put split: if_splits)
  with assms(1,4) key show "k = l" unfolding replay_repo_inv_def by metis
qed

lemma replay_repo_inv_save:
  assumes "replay_repo_inv s" "save_replay r v s = (x, s')"
  shows "replay_repo_inv s'"
  using assms(2)
proof (cases rule: save_replay_cases)
  case refused
  then show ?thesis using assms(1) by simp
next
  case (inserted a)
  then show ?thesis
    using assms(1) no_replay_with_key [OF assms(1) inserted(1,6)] by (auto intro!: replay_repo_inv_put)
next
  case (updated c a)
  have "1 \<le> rp_version c" using assms(1) updated(1) by (simp add: replay_repo_inv_def)
  moreover have "j = rp_replay_id r"
    if "dict_get s j = Some q" "rp_idempotency_key q = rp_idempotency_key a"
      "rp_organization_id q = rp_organization_id a" "rp_project_id q = rp_project_id a" for j q
    using that assms(1) updated(1,3,4) unfolding replay_repo_inv_def replay_identity_def by simp
  ultimately show ?thesis
    using assms(1) updated(4,6) by (auto intro!: replay_repo_inv_put)
qed

interpretation replays: evolving_store replay_repo_step dict_get later_version replay_repo_inv
proof
  show "later_version r r" for r by (simp add: later_version_def)
  show "later_version a c" if "later_version a b" "later_version b c" for a b c
    using that by (auto simp: later_version_def)
  show "replay_repo_inv s'" if "replay_repo_inv s" "replay_repo_step s s'" for s s'
    using that replay_repo_inv_save by (auto simp: replay_repo_step_iff)
  show "\<exists>b. dict_get s' i = Some b \<and> later_version a b"
    if "replay_repo_inv s" "replay_repo_step s s'" "dict_get s i = Some a" for s s' i a
  proof -
    from that(2) obtain r v x where "save_replay r v s = (x, s')" by (auto simp: replay_repo_step_iff)
    then show ?thesis
    proof (cases rule: save_replay_cases)
      case refused
      then show ?thesis using that(3) by (simp add: later_version_def)
    next
      case (inserted b)
      then show ?thesis using that(3) by (auto simp: dict_get_put later_version_def)
    next
      case (updated c b)
      then show ?thesis using that(3) by (auto simp: dict_get_put later_version_def replay_identity_def)
    qed
  qed
qed

section \<open>Properties\<close>

lemma replay_edge_rank: "replay_edge a b \<Longrightarrow> replay_rank a < replay_rank b"
  by (simp add: replay_edge_def)

lemma initial_replay_repo: "replay_repo_inv []"
  by (simp add: replay_repo_inv_def dict_ok_def)

text \<open>
  Evidence of a replay: from the moment a replay is created, through any sequence of transitions
  that the aggregate accepts, its request stays as it was made, an identifier once assigned (the job,
  the replayed execution, the evaluations, the comparison, the drift report, the result) is never
  replaced, its configuration is frozen once it is no draft, and its status only advances. It never runs as the execution it replays; it is COMPLETED
  only with a configuration, a job, an execution of its own, both evaluations, the comparison, the
  drift report and the result on record; FAILED only with a recorded failure, and CANCELLED only when
  cancellation was requested.
\<close>

theorem replay_evidence_complete:
  assumes "create_replay i req now = Inr r0" and "replay_step\<^sup>*\<^sup>* r0 a" and "replay_step\<^sup>*\<^sup>* a b"
  shows "replay_content b = replay_content r0
    \<and> list_all2 (\<lambda>x y. truthy x \<longrightarrow> y = x) (assigned_ids a) (assigned_ids b)
    \<and> (rp_status a \<noteq> RPS_DRAFT \<longrightarrow> rp_configuration b = rp_configuration a)
    \<and> (rp_status b = rp_status a \<or> replay_rank (rp_status a) < replay_rank (rp_status b))
    \<and> rp_replay_execution_id b \<noteq> Some (rp_source_execution_id b)
    \<and> (rp_status b = RPS_COMPLETED \<longrightarrow>
          rp_configuration b \<noteq> None \<and> rp_job_id b \<noteq> None \<and> rp_replay_execution_id b \<noteq> None
          \<and> list_all truthy [rp_replay_evaluation_id b, rp_baseline_evaluation_id b, rp_comparison_id b,
               rp_drift_id b, rp_result_id b])
    \<and> (rp_status b = RPS_FAILED \<longrightarrow> rp_failure b \<noteq> None)
    \<and> (rp_status b = RPS_CANCELLED \<longrightarrow> rp_cancel_requested_at b \<noteq> None)"
proof -
  have "replay_inv r0" using create_replay_fresh [OF assms(1)] by simp
  with assms(2,3) have "replay_keeps r0 a" "replay_keeps a b" "replay_inv b" using replay_run by blast+
  moreover have "rp_status b = rp_status a \<or> replay_rank (rp_status a) < replay_rank (rp_status b)"
    using replay_lifecycle.run_rank [OF assms(3)] replay_edge_rank by blast
  ultimately show ?thesis by (simp add: replay_keeps_def replay_inv_defs)
qed

text \<open>
  No lost update of a replay: once a writer has saved a replay against version \<open>v\<close>, every other
  writer that read version \<open>v\<close> of it is refused, whatever was saved in between and whatever it wants
  to write, and the refusal leaves the store as it is; the saved version is the successor of \<open>v\<close>.
\<close>

theorem stale_replay_update_refused:
  assumes "replay_repo_step\<^sup>*\<^sup>* [] s" and "save_replay r (Some v) s = (Inr a, s1)"
    and "replay_repo_step\<^sup>*\<^sup>* s1 s2" and "rp_replay_id q = rp_replay_id r"
  shows "rp_version a = v + 1
    \<and> save_replay q (Some v) s2 = (Inl (Exc ReplayConflict ''Replay was modified by another request.''), s2)"
proof -
  have inv: "replay_repo_inv s1"
    using replays.inv_run [OF assms(1) initial_replay_repo] replay_repo_inv_save [OF _ assms(2)] by blast
  from assms(2) have a: "rp_version a = v + 1" "dict_get s1 (rp_replay_id r) = Some a"
    by (cases rule: save_replay_cases; simp add: dict_get_put)+
  from replays.lookup_run [OF assms(3) inv a(2)] obtain b
    where "dict_get s2 (rp_replay_id r) = Some b" "later_version a b" by blast
  with a(1) assms(4) show ?thesis by (simp add: save_replay_def later_version_def)
qed

end
