(* ===== verification/Replay_Result.thy ===== *)
theory Replay_Result
  imports Replay
begin

text \<open>
  \<open>domain/replay/replay_result.py\<close> and \<open>repositories/in_memory_replay_result_repository.py\<close>:
  the evidence a completed replay leaves behind, and the repository that never replaces it. Floats
  are rationals; two results are equal as Python compares them, mappings in any order.
\<close>

section \<open>Results\<close>

record comparison_summary =
  cs_metric_count :: int
  cs_improved_metric_count :: int
  cs_regressed_metric_count :: int
  cs_unchanged_metric_count :: int
  cs_new_metric_count :: int
  cs_removed_metric_count :: int
  cs_overall_score_delta :: "rat option"

record drift_summary =
  dsm_severity :: string
  dsm_changed_metrics :: "string list"
  dsm_new_metrics :: "string list"
  dsm_removed_metrics :: "string list"
  dsm_analyzer_version :: string
  dsm_threshold_policy :: "(string \<times> pyval) list"

record replay_result =
  rt_result_id :: string
  rt_replay_id :: string
  rt_source_execution_id :: string
  rt_replay_execution_id :: string
  rt_baseline_evaluation_id :: string
  rt_replay_evaluation_id :: string
  rt_comparison_id :: string
  rt_drift_id :: string
  rt_baseline_strategy :: string
  rt_comparison_summary :: comparison_summary
  rt_drift_summary :: drift_summary
  rt_organization_id :: string
  rt_project_id :: string
  rt_created_at :: datetime
  rt_metadata :: "(string \<times> pyval) list"

definition new_result :: "replay_result \<Rightarrow> exc + replay_result" where
  "new_result r =
     checked (map (\<lambda>(name, v). (blank v, Exc ValueError (''Replay result '' @ name @ '' is required.'')))
       [(''result_id'', rt_result_id r), (''replay_id'', rt_replay_id r),
        (''source_execution_id'', rt_source_execution_id r), (''replay_execution_id'', rt_replay_execution_id r),
        (''baseline_evaluation_id'', rt_baseline_evaluation_id r),
        (''replay_evaluation_id'', rt_replay_evaluation_id r), (''comparison_id'', rt_comparison_id r),
        (''drift_id'', rt_drift_id r), (''baseline_strategy'', rt_baseline_strategy r),
        (''organization_id'', rt_organization_id r), (''project_id'', rt_project_id r)]) r"

text \<open>Equality of two results: the mappings compare as dictionaries, everything else by its value.\<close>

definition result_eq :: "replay_result \<Rightarrow> replay_result \<Rightarrow> bool" where
  "result_eq a b =
     (let plain = (\<lambda>r. r\<lparr>rt_metadata := [], rt_drift_summary := (rt_drift_summary r)\<lparr>dsm_threshold_policy := []\<rparr>\<rparr>) in
      plain a = plain b
      \<and> py_eq (PDict (rt_metadata a)) (PDict (rt_metadata b))
      \<and> py_eq (PDict (dsm_threshold_policy (rt_drift_summary a))) (PDict (dsm_threshold_policy (rt_drift_summary b))))"

section \<open>The repository\<close>

type_synonym result_repo = "(string, replay_result) dict"

record result_filters =
  qf_source_execution_id :: "string option"
  qf_replay_execution_id :: "string option"
  qf_drift_severity :: "string option"
  qf_created_after :: "datetime option"
  qf_created_before :: "datetime option"
  qf_limit :: int
  qf_cursor :: "string option"

definition get_result_by_replay :: "result_repo \<Rightarrow> string \<Rightarrow> string \<Rightarrow> string \<Rightarrow> replay_result option" where
  "get_result_by_replay s replay_id organization_id project_id =
     List.find (\<lambda>r. rt_replay_id r = replay_id \<and> rt_organization_id r = organization_id
                  \<and> rt_project_id r = project_id) (dict_values s)"

definition save_result :: "replay_result \<Rightarrow> (result_repo, replay_result) action" where
  "save_result r s =
     (case dict_get s (rt_result_id r) of
        Some existing \<Rightarrow>
          if result_eq existing r then (Inr existing, s)
          else (Inl (Exc ReplayResultConflict ''Replay result ID is already bound to other evidence.''), s)
      | None \<Rightarrow>
          (case get_result_by_replay s (rt_replay_id r) (rt_organization_id r) (rt_project_id r) of
             Some existing \<Rightarrow>
               if result_eq existing r then (Inr existing, s)
               else (Inl (Exc ReplayResultConflict ''A finalized ReplayResult already exists for replay.''), s)
           | None \<Rightarrow> (Inr r, dict_put (rt_result_id r) r s)))"

definition get_result :: "result_repo \<Rightarrow> string \<Rightarrow> string \<Rightarrow> string \<Rightarrow> replay_result option" where
  "get_result s result_id organization_id project_id =
     (case dict_get s result_id of None \<Rightarrow> None
      | Some r \<Rightarrow> if rt_organization_id r = organization_id \<and> rt_project_id r = project_id then Some r else None)"

definition result_listed :: "result_filters \<Rightarrow> string \<Rightarrow> string \<Rightarrow> replay_result \<Rightarrow> exc + bool" where
  "result_listed f organization_id project_id r =
     (if rt_organization_id r \<noteq> organization_id \<or> rt_project_id r \<noteq> project_id
         \<or> qf_source_execution_id f \<notin> {None, Some (rt_source_execution_id r)}
         \<or> qf_replay_execution_id f \<notin> {None, Some (rt_replay_execution_id r)}
         \<or> qf_drift_severity f \<notin> {None, Some (dsm_severity (rt_drift_summary r))} then Inr False
      else res_bind (case qf_created_after f of None \<Rightarrow> Inr False | Some t \<Rightarrow> dt_before (rt_created_at r) t) (\<lambda>early.
           if early then Inr False
           else res_bind (case qf_created_before f of None \<Rightarrow> Inr False | Some t \<Rightarrow> dt_before t (rt_created_at r)) (\<lambda>late.
             Inr (\<not> late))))"

definition list_results :: "result_repo \<Rightarrow> result_filters \<Rightarrow> string \<Rightarrow> string \<Rightarrow> exc + replay_result list" where
  "list_results s f organization_id project_id =
     res_bind (filter_res (result_listed f organization_id project_id) (dict_values s)) (\<lambda>results.
       let sorted = sort_key_reverse (\<lambda>r. (micros (rt_created_at r), rt_result_id r)) results;
           rest = (if truthy (qf_cursor f) then filter (\<lambda>r. rt_result_id r < the (qf_cursor f)) sorted else sorted)
       in Inr (slice_upto (qf_limit f) rest))"

section \<open>Results are final\<close>

inductive result_step :: "result_repo \<Rightarrow> result_repo \<Rightarrow> bool" where
  save: "save_result r s = (x, s') \<Longrightarrow> result_step s s'"

inductive_simps result_step_iff: "result_step s s'"

definition result_tenant_key :: "replay_result \<Rightarrow> string \<times> string \<times> string" where
  "result_tenant_key r = (rt_replay_id r, rt_organization_id r, rt_project_id r)"

text \<open>A replay has at most one result.\<close>

definition result_inv :: "result_repo \<Rightarrow> bool" where
  "result_inv s =
     (dict_ok s \<and> (\<forall>i r. dict_get s i = Some r \<longrightarrow> rt_result_id r = i)
      \<and> (\<forall>i j a b. dict_get s i = Some a \<longrightarrow> dict_get s j = Some b
            \<longrightarrow> result_tenant_key a = result_tenant_key b \<longrightarrow> i = j))"

lemma save_result_cases:
  assumes "save_result r s = (x, s')"
  obtains (unchanged) "s' = s"
  | (added) "dict_get s (rt_result_id r) = None" "x = Inr r" "s' = dict_put (rt_result_id r) r s"
      "get_result_by_replay s (rt_replay_id r) (rt_organization_id r) (rt_project_id r) = None"
  using assms by (auto simp: save_result_def split: option.splits if_splits)

lemma result_inv_save:
  assumes "result_inv s" "save_result r s = (x, s')"
  shows "result_inv s'"
  using assms(2)
proof (cases rule: save_result_cases)
  case unchanged
  then show ?thesis using assms(1) by simp
next
  case added
  have other: "result_tenant_key a \<noteq> result_tenant_key r" if "dict_get s i = Some a" for i a
    using added(4) dict_get_Some_values [OF that]
    by (auto simp: get_result_by_replay_def find_None_iff result_tenant_key_def)
  show ?thesis
    unfolding result_inv_def
  proof (intro conjI allI impI)
    show "dict_ok s'" using assms(1) added(3) by (simp add: result_inv_def)
    show "rt_result_id a = i" if "dict_get s' i = Some a" for i a
      using that assms(1) by (auto simp: added(3) dict_get_put result_inv_def split: if_splits)
    show "i = j" if "dict_get s' i = Some a" "dict_get s' j = Some b" "result_tenant_key a = result_tenant_key b" for i j a b
      using that assms(1) other unfolding added(3) dict_get_put result_inv_def by (metis option.inject)
  qed
qed

interpretation results: evolving_store result_step dict_get "(=)" result_inv
proof
  show "result_inv s'" if "result_inv s" "result_step s s'" for s s'
    using that result_inv_save by (auto simp: result_step_iff)
  show "\<exists>b. dict_get s' i = Some b \<and> a = b"
    if "result_inv s" "result_step s s'" "dict_get s i = Some a" for s s' i and a :: replay_result
  proof -
    from that(2) obtain r x where "save_result r s = (x, s')" by (auto simp: result_step_iff)
    then show ?thesis
      by (cases rule: save_result_cases) (use that(3) in \<open>auto simp: dict_get_put\<close>)
  qed
qed simp_all

lemma result_inv_empty: "result_inv []"
  by (simp add: result_inv_def dict_ok_def)

text \<open>
  What a replay's result is once saved it stays, and no other result is ever stored for that replay.
\<close>

lemma result_eq_key: "result_eq a b \<Longrightarrow> result_tenant_key a = result_tenant_key b"
proof -
  let ?plain = "\<lambda>r. r\<lparr>rt_metadata := [], rt_drift_summary := (rt_drift_summary r)\<lparr>dsm_threshold_policy := []\<rparr>\<rparr>"
  assume "result_eq a b"
  then have "result_tenant_key (?plain a) = result_tenant_key (?plain b)" by (simp add: result_eq_def Let_def)
  then show ?thesis by (simp add: result_tenant_key_def)
qed

lemma get_result_by_replay_stored:
  assumes "result_inv s" "get_result_by_replay s i g p = Some a"
  shows "dict_get s (rt_result_id a) = Some a"
proof -
  have "a \<in> set (dict_values s)" using assms(2) by (auto simp: get_result_by_replay_def find_Some_iff)
  then obtain k where "dict_get s k = Some a"
    using assms(1) by (auto simp: result_inv_def elim: dict_values_get)
  then show ?thesis using assms(1) by (auto simp: result_inv_def)
qed

lemma save_result_stored:
  assumes "result_inv s" "save_result r s = (Inr a, t)"
  shows "dict_get t (rt_result_id a) = Some a \<and> result_tenant_key a = result_tenant_key r"
proof (cases "dict_get s (rt_result_id r)")
  case (Some b)
  then have "a = b" "t = s" "result_eq b r" using assms(2) by (auto simp: save_result_def split: if_splits)
  then show ?thesis using Some assms(1) result_eq_key by (auto simp: result_inv_def)
next
  case None
  show ?thesis
  proof (cases "get_result_by_replay s (rt_replay_id r) (rt_organization_id r) (rt_project_id r)")
    case none: None
    then have "a = r" "t = dict_put (rt_result_id r) r s" using None assms(2) by (auto simp: save_result_def)
    then show ?thesis by (simp add: dict_get_put)
  next
    case (Some b)
    then have "a = b" "t = s" "result_eq b r" using None assms(2) by (auto simp: save_result_def split: if_splits)
    then show ?thesis using get_result_by_replay_stored [OF assms(1) Some] result_eq_key by simp
  qed
qed

lemma saved_result_final:
  assumes "result_inv s" "save_result r s = (Inr a, s1)" "result_step\<^sup>*\<^sup>* s1 s2"
    "result_tenant_key q = result_tenant_key r" "dict_get s2 i = Some q"
  shows "q = a"
proof -
  note a = save_result_stored [OF assms(1,2)]
  have inv: "result_inv s1" using result_inv_save [OF assms(1,2)] .
  then have "result_inv s2" by (rule results.inv_run [OF assms(3)])
  moreover have "dict_get s2 (rt_result_id a) = Some a" using results.lookup_run [OF assms(3) inv] a by blast
  ultimately show ?thesis using assms(4,5) a unfolding result_inv_def by (metis option.inject)
qed

end
