(* ===== verification/Jobs.thy ===== *)
theory Jobs
  imports Py_Sha256 Py_Values Py_Time Interfaces
begin

text \<open>
  \<open>domain/jobs/job.py\<close> and \<open>repositories/in_memory/in_memory_job_repository.py\<close>: governance
  jobs with leases and retries, and the repository that workers claim them from. The clock readings
  of the repository are \<open>datetime.now(UTC)\<close>, so all times of a job are timezone-aware and compare
  by their instant; each operation takes its reading as an argument. The claim lock makes an
  acquisition one step.
\<close>

section \<open>Jobs\<close>

datatype job_type =
  JT_EVALUATION | JT_EXPERIMENT | JT_REPLAY | JT_REPLAY_EXECUTION | JT_REPLAY_EVALUATION
  | JT_CAUSAL_AUDIT | JT_DRIFT_ANALYSIS | JT_EXTENSION

fun job_type_value :: "job_type \<Rightarrow> string" where
  "job_type_value JT_EVALUATION = ''EVALUATION''"
| "job_type_value JT_EXPERIMENT = ''EXPERIMENT''"
| "job_type_value JT_REPLAY = ''REPLAY''"
| "job_type_value JT_REPLAY_EXECUTION = ''REPLAY_EXECUTION''"
| "job_type_value JT_REPLAY_EVALUATION = ''REPLAY_EVALUATION''"
| "job_type_value JT_CAUSAL_AUDIT = ''CAUSAL_AUDIT''"
| "job_type_value JT_DRIFT_ANALYSIS = ''DRIFT_ANALYSIS''"
| "job_type_value JT_EXTENSION = ''EXTENSION''"

datatype job_status = JS_QUEUED | JS_RUNNING | JS_SUCCEEDED | JS_FAILED | JS_CANCELLED

fun job_status_value :: "job_status \<Rightarrow> string" where
  "job_status_value JS_QUEUED = ''QUEUED''"
| "job_status_value JS_RUNNING = ''RUNNING''"
| "job_status_value JS_SUCCEEDED = ''SUCCEEDED''"
| "job_status_value JS_FAILED = ''FAILED''"
| "job_status_value JS_CANCELLED = ''CANCELLED''"

record worker_heartbeat =
  wh_worker_id :: string
  wh_worker_type :: string
  wh_heartbeat_at :: datetime
  wh_status :: string

record job_context =
  jx_organization_id :: string
  jx_project_id :: string
  jx_actor_id :: string
  jx_submitted_request_id :: string
  jx_correlation_id :: "string option"

record job =
  jb_job_id :: string
  jb_job_type :: job_type
  jb_status :: job_status
  jb_input_refs :: "(string \<times> pyval) list"
  jb_input_hash :: string
  jb_idempotency_key :: string
  jb_submitted_by :: string
  jb_attempt_count :: int
  jb_max_attempts :: int
  jb_result_ref :: "string option"
  jb_failure_reason :: "string option"
  jb_leased_by :: "string option"
  jb_lease_expires_at :: "datetime option"
  jb_heartbeat_at :: "datetime option"
  jb_created_at :: datetime
  jb_updated_at :: datetime
  jb_started_at :: "datetime option"
  jb_completed_at :: "datetime option"
  jb_execution_context :: "job_context option"

record job_submission =
  jsb_job_type :: job_type
  jsb_input_refs :: "(string \<times> pyval) list"
  jsb_idempotency_key :: string
  jsb_submitted_by :: string
  jsb_max_attempts :: int
  jsb_execution_context :: "job_context option"

record job_result =
  jrs_job_id :: string
  jrs_status :: job_status
  jrs_result_ref :: "string option"
  jrs_failure_reason :: "string option"

definition require_job_field :: "string \<Rightarrow> string \<Rightarrow> bool \<times> exc" where
  "require_job_field name v = (blank v, Exc ValueError (''Job '' @ name @ '' must not be empty.''))"

definition job_checks :: "job \<Rightarrow> (bool \<times> exc) list" where
  "job_checks j =
     [require_job_field ''job_id'' (jb_job_id j),
      require_job_field ''input_hash'' (jb_input_hash j),
      require_job_field ''idempotency_key'' (jb_idempotency_key j),
      require_job_field ''submitted_by'' (jb_submitted_by j),
      (jb_attempt_count j < 0, Exc ValueError ''Job attempt_count must not be negative.''),
      (jb_max_attempts j \<le> 0, Exc ValueError ''Job max_attempts must be greater than zero.'')]"

definition new_job :: "job \<Rightarrow> exc + job" where
  "new_job j = checked (job_checks j) j"

abbreviation job_ok :: "job \<Rightarrow> bool" where
  "job_ok j \<equiv> all_pass (job_checks j)"

section \<open>The repository\<close>

record job_repo =
  jr_jobs :: "(string, job) dict"
  jr_workers :: "(string, worker_heartbeat) dict"

definition empty_job_repo :: job_repo where
  "empty_job_repo = \<lparr>jr_jobs = [], jr_workers = []\<rparr>"

definition register_worker :: "worker_heartbeat \<Rightarrow> job_repo \<Rightarrow> job_repo" where
  "register_worker w s = s\<lparr>jr_workers := dict_put (wh_worker_id w) w (jr_workers s)\<rparr>"

definition heartbeat_worker :: "string \<Rightarrow> datetime \<Rightarrow> job_repo \<Rightarrow> job_repo" where
  "heartbeat_worker worker_id heartbeat_at s =
     (case dict_get (jr_workers s) worker_id of None \<Rightarrow> s
      | Some current \<Rightarrow>
          s\<lparr>jr_workers := dict_put worker_id (current\<lparr>wh_heartbeat_at := heartbeat_at\<rparr>) (jr_workers s)\<rparr>)"

definition list_worker_heartbeats :: "job_repo \<Rightarrow> worker_heartbeat list" where
  "list_worker_heartbeats s = dict_values (jr_workers s)"

text \<open>A tenant filter that is given must agree with the context of the job.\<close>

definition in_context :: "string option \<Rightarrow> (job_context \<Rightarrow> string) \<Rightarrow> job \<Rightarrow> bool" where
  "in_context given field j =
     (case given of None \<Rightarrow> True
      | Some v \<Rightarrow> (case jb_execution_context j of None \<Rightarrow> False | Some c \<Rightarrow> field c = v))"

definition find_job_by_id :: "job_repo \<Rightarrow> string \<Rightarrow> string option \<Rightarrow> string option \<Rightarrow> job option" where
  "find_job_by_id s job_id organization_id project_id =
     (case dict_get (jr_jobs s) job_id of None \<Rightarrow> None
      | Some j \<Rightarrow>
          if \<not> in_context organization_id jx_organization_id j then None
          else if \<not> in_context project_id jx_project_id j then None
          else Some j)"

definition has_key :: "string \<Rightarrow> string \<Rightarrow> string option \<Rightarrow> string option \<Rightarrow> job \<Rightarrow> bool" where
  "has_key job_type idempotency_key organization_id project_id j =
     (job_type_value (jb_job_type j) = job_type \<and> jb_idempotency_key j = idempotency_key
      \<and> in_context organization_id jx_organization_id j \<and> in_context project_id jx_project_id j)"

definition find_job_by_idempotency_key ::
  "job_repo \<Rightarrow> string \<Rightarrow> string \<Rightarrow> string option \<Rightarrow> string option \<Rightarrow> job option" where
  "find_job_by_idempotency_key s job_type idempotency_key organization_id project_id =
     List.find (has_key job_type idempotency_key organization_id project_id) (dict_values (jr_jobs s))"

definition save_job :: "job \<Rightarrow> (job_repo, unit) action" where
  "save_job j s =
     (let context = jb_execution_context j;
          put = (Inr (), s\<lparr>jr_jobs := dict_put (jb_job_id j) j (jr_jobs s)\<rparr>)
      in case find_job_by_idempotency_key s (job_type_value (jb_job_type j)) (jb_idempotency_key j)
             (map_option jx_organization_id context) (map_option jx_project_id context) of
           None \<Rightarrow> put
         | Some existing \<Rightarrow>
             if jb_job_id existing \<noteq> jb_job_id j \<or> jb_input_hash existing \<noteq> jb_input_hash j
             then (Inl (Exc IdempotencyConflictError ''Idempotency key was reused with different input.''), s)
             else put)"

text \<open>\<open>self.save(replace(job, ...))\<close>: \<open>replace\<close> constructs the job again.\<close>

definition resave :: "job \<Rightarrow> (job_repo, unit) action" where
  "resave j = act_bind (act_lift (new_job j)) save_job"

text \<open>\<open>xs[:n]\<close>; a negative \<open>n\<close> counts from the end.\<close>

definition py_prefix :: "int \<Rightarrow> 'a list \<Rightarrow> 'a list" where
  "py_prefix n xs = (if 0 \<le> n then take (nat n) xs else take (length xs - nat (- n)) xs)"

definition listed_in :: "string option \<Rightarrow> (job_context \<Rightarrow> string) \<Rightarrow> string \<Rightarrow> job \<Rightarrow> bool" where
  "listed_in given field fallback j =
     (case given of None \<Rightarrow> True
      | Some v \<Rightarrow> (case jb_execution_context j of None \<Rightarrow> v = fallback | Some c \<Rightarrow> field c = v))"

definition repo_list_jobs ::
  "job_repo \<Rightarrow> job_status option \<Rightarrow> job_type option \<Rightarrow> int \<Rightarrow> string option \<Rightarrow> string option \<Rightarrow> job list" where
  "repo_list_jobs s status job_type limit organization_id project_id =
     py_prefix limit
       (filter (\<lambda>j. (status = None \<or> status = Some (jb_status j))
                  \<and> (job_type = None \<or> job_type = Some (jb_job_type j))
                  \<and> listed_in organization_id jx_organization_id ''org_default'' j
                  \<and> listed_in project_id jx_project_id ''project_default'' j)
         (sort_key (\<lambda>j. (micros (jb_created_at j), jb_job_id j)) (dict_values (jr_jobs s))))"

definition list_by_status :: "job_repo \<Rightarrow> job_status \<Rightarrow> int \<Rightarrow> job list" where
  "list_by_status s status limit = repo_list_jobs s (Some status) None limit None None"

section \<open>Claiming, finishing and releasing\<close>

text \<open>
  The default limit of \<open>list_by_status\<close> is 100. An empty list of types or operations is no
  filter.
\<close>

definition claimable_jobs ::
  "(rat \<Rightarrow> string) \<Rightarrow> job_type list \<Rightarrow> (job_type, string list) dict \<Rightarrow> job_repo \<Rightarrow> job list" where
  "claimable_jobs fr job_types job_operations s =
     (let queued0 = list_by_status s JS_QUEUED 100;
          queued1 = (if job_types = [] then queued0 else filter (\<lambda>j. jb_job_type j \<in> set job_types) queued0)
      in if job_operations = [] then queued1
         else filter (\<lambda>j. case dict_get job_operations (jb_job_type j) of None \<Rightarrow> True
                        | Some ops \<Rightarrow>
                            py_str fr (opt_or (dict_get (jb_input_refs j) ''operation'') (PStr [])) \<in> set ops)
                queued1)"

definition acquired_job :: "datetime \<Rightarrow> string \<Rightarrow> datetime \<Rightarrow> job \<Rightarrow> job" where
  "acquired_job now worker_id expires_at j =
     j\<lparr>jb_status := JS_RUNNING, jb_attempt_count := jb_attempt_count j + 1, jb_leased_by := Some worker_id,
       jb_lease_expires_at := Some expires_at, jb_heartbeat_at := Some now,
       jb_started_at := Some (opt_or (jb_started_at j) now), jb_updated_at := now\<rparr>"

definition acquire_next_queued_job ::
  "(rat \<Rightarrow> string) \<Rightarrow> datetime \<Rightarrow> string \<Rightarrow> int \<Rightarrow> job_type list \<Rightarrow> (job_type, string list) dict
     \<Rightarrow> (job_repo, job option) action" where
  "acquire_next_queued_job fr now worker_id lease_seconds job_types job_operations s =
     (case claimable_jobs fr job_types job_operations s of
        [] \<Rightarrow> (Inr None, s)
      | j # _ \<Rightarrow>
          act_bind (act_lift (dt_plus now (lease_seconds * 1000000))) (\<lambda>expires_at.
          act_bind (act_lift (new_job (acquired_job now worker_id expires_at j))) (\<lambda>acquired.
          act_bind (save_job acquired) (\<lambda>_.
          act_return (Some acquired)))) s)"

definition heartbeat_job :: "datetime \<Rightarrow> string \<Rightarrow> string \<Rightarrow> int \<Rightarrow> (job_repo, unit) action" where
  "heartbeat_job now job_id worker_id lease_seconds s =
     (case find_job_by_id s job_id None None of None \<Rightarrow> (Inr (), s)
      | Some j \<Rightarrow>
          if jb_status j \<noteq> JS_RUNNING \<or> jb_leased_by j \<noteq> Some worker_id then (Inr (), s)
          else act_bind (act_lift (dt_plus now (lease_seconds * 1000000))) (\<lambda>expires_at.
            resave (j\<lparr>jb_heartbeat_at := Some now, jb_lease_expires_at := Some expires_at,
                      jb_updated_at := now\<rparr>)) s)"

definition succeeded_job :: "datetime \<Rightarrow> string \<Rightarrow> job \<Rightarrow> job" where
  "succeeded_job now result_ref j =
     j\<lparr>jb_status := JS_SUCCEEDED, jb_result_ref := Some result_ref, jb_failure_reason := None,
       jb_leased_by := None, jb_lease_expires_at := None, jb_heartbeat_at := None,
       jb_updated_at := now, jb_completed_at := Some now\<rparr>"

definition failed_job :: "datetime \<Rightarrow> string \<Rightarrow> job \<Rightarrow> job" where
  "failed_job now failure_reason j =
     j\<lparr>jb_status := JS_FAILED, jb_result_ref := None, jb_failure_reason := Some failure_reason,
       jb_leased_by := None, jb_lease_expires_at := None, jb_heartbeat_at := None,
       jb_updated_at := now, jb_completed_at := Some now\<rparr>"

definition cancelled_job :: "datetime \<Rightarrow> job \<Rightarrow> job" where
  "cancelled_job now j =
     j\<lparr>jb_status := JS_CANCELLED, jb_leased_by := None, jb_lease_expires_at := None,
       jb_heartbeat_at := None, jb_updated_at := now, jb_completed_at := Some now\<rparr>"

definition mark_succeeded :: "datetime \<Rightarrow> string \<Rightarrow> string \<Rightarrow> (job_repo, unit) action" where
  "mark_succeeded now job_id result_ref s =
     (case find_job_by_id s job_id None None of None \<Rightarrow> (Inr (), s)
      | Some j \<Rightarrow> if jb_status j = JS_CANCELLED then (Inr (), s) else resave (succeeded_job now result_ref j) s)"

definition mark_failed :: "datetime \<Rightarrow> string \<Rightarrow> string \<Rightarrow> (job_repo, unit) action" where
  "mark_failed now job_id failure_reason s =
     (case find_job_by_id s job_id None None of None \<Rightarrow> (Inr (), s)
      | Some j \<Rightarrow> if jb_status j = JS_CANCELLED then (Inr (), s) else resave (failed_job now failure_reason j) s)"

definition repo_cancel_job :: "datetime \<Rightarrow> string \<Rightarrow> (job_repo, unit) action" where
  "repo_cancel_job now job_id s =
     (case find_job_by_id s job_id None None of None \<Rightarrow> (Inr (), s)
      | Some j \<Rightarrow> resave (cancelled_job now j) s)"

definition lease_expired :: "datetime \<Rightarrow> job \<Rightarrow> bool" where
  "lease_expired now j =
     (jb_status j = JS_RUNNING \<and>
      (case jb_lease_expires_at j of None \<Rightarrow> False | Some t \<Rightarrow> micros t \<le> micros now))"

definition released_job :: "datetime \<Rightarrow> job \<Rightarrow> job" where
  "released_job now j =
     (if jb_attempt_count j < jb_max_attempts j
      then j\<lparr>jb_status := JS_QUEUED, jb_leased_by := None, jb_lease_expires_at := None,
             jb_heartbeat_at := None, jb_updated_at := now\<rparr>
      else j\<lparr>jb_status := JS_FAILED, jb_failure_reason := Some ''Job lease expired after max attempts.'',
             jb_leased_by := None, jb_lease_expires_at := None, jb_heartbeat_at := None,
             jb_updated_at := now, jb_completed_at := Some now\<rparr>)"

text \<open>The loop over a copy of the values.\<close>

fun release_jobs :: "datetime \<Rightarrow> job list \<Rightarrow> int \<Rightarrow> (job_repo, int) action" where
  "release_jobs now [] released = act_return released"
| "release_jobs now (j # js) released =
     (if \<not> lease_expired now j then release_jobs now js released
      else act_bind (resave (released_job now j)) (\<lambda>_. release_jobs now js (released + 1)))"

definition release_expired_leases :: "datetime \<Rightarrow> (job_repo, int) action" where
  "release_expired_leases now s = release_jobs now (dict_values (jr_jobs s)) 0 s"

section \<open>How jobs move\<close>

text \<open>What identifies a job and never changes.\<close>

definition job_content where
  "job_content j = (jb_job_id j, jb_job_type j, jb_input_refs j, jb_input_hash j, jb_idempotency_key j,
     jb_submitted_by j, jb_max_attempts j, jb_created_at j, jb_execution_context j)"

text \<open>\<open>JobApiService.retry\<close> queues a failed job again.\<close>

definition retried_job :: "datetime \<Rightarrow> job \<Rightarrow> job" where
  "retried_job now j =
     j\<lparr>jb_status := JS_QUEUED, jb_result_ref := None, jb_failure_reason := None, jb_leased_by := None,
       jb_lease_expires_at := None, jb_heartbeat_at := None, jb_updated_at := now, jb_completed_at := None\<rparr>"

inductive job_move :: "job \<Rightarrow> job \<Rightarrow> bool" where
  claim: "jb_status j = JS_QUEUED \<Longrightarrow> job_move j (acquired_job now w t j)"
| heartbeat: "jb_status j = JS_RUNNING \<Longrightarrow> jb_leased_by j = Some w \<Longrightarrow>
    job_move j (j\<lparr>jb_heartbeat_at := Some now, jb_lease_expires_at := Some t, jb_updated_at := now\<rparr>)"
| succeed: "jb_status j \<noteq> JS_CANCELLED \<Longrightarrow> job_move j (succeeded_job now r j)"
| fail: "jb_status j \<noteq> JS_CANCELLED \<Longrightarrow> job_move j (failed_job now r j)"
| cancel: "job_move j (cancelled_job now j)"
| release: "jb_status j = JS_RUNNING \<Longrightarrow> job_move j (released_job now j)"
| retry: "jb_status j = JS_FAILED \<Longrightarrow> jb_attempt_count j < jb_max_attempts j \<Longrightarrow> job_move j (retried_job now j)"

lemmas job_transitions =
  acquired_job_def succeeded_job_def failed_job_def cancelled_job_def released_job_def retried_job_def

lemma job_move_content: "job_move j k \<Longrightarrow> job_content k = job_content j"
  by (induction rule: job_move.induct) (simp_all add: job_transitions job_content_def)

lemma job_content_fields:
  assumes "job_content k = job_content j"
  shows "jb_job_id k = jb_job_id j" "jb_job_type k = jb_job_type j" "jb_input_hash k = jb_input_hash j"
    "jb_idempotency_key k = jb_idempotency_key j" "jb_max_attempts k = jb_max_attempts j"
    "jb_execution_context k = jb_execution_context j" "jb_submitted_by k = jb_submitted_by j"
    "jb_created_at k = jb_created_at j" "jb_input_refs k = jb_input_refs j"
  using assms by (simp_all add: job_content_def)

text \<open>
  What holds of every stored job: a queued one has an attempt left, no job has run more often than it
  may, and exactly the running ones are leased.
\<close>

definition job_entry_ok :: "job \<Rightarrow> bool" where
  "job_entry_ok j =
     (job_ok j \<and> jb_attempt_count j \<le> jb_max_attempts j \<and> jb_max_attempts j \<le> 10
      \<and> (jb_status j = JS_QUEUED \<longrightarrow> jb_attempt_count j < jb_max_attempts j)
      \<and> (jb_status j = JS_RUNNING \<longleftrightarrow> jb_leased_by j \<noteq> None)
      \<and> (jb_status j = JS_RUNNING \<longleftrightarrow> jb_lease_expires_at j \<noteq> None))"

lemma job_move_job_ok: "job_move j k \<Longrightarrow> job_ok j \<Longrightarrow> job_ok k"
  by (induction rule: job_move.induct) (auto simp: job_transitions job_checks_def)

lemma job_move_entry_ok: "job_move j k \<Longrightarrow> job_entry_ok j \<Longrightarrow> job_entry_ok k"
proof (induction rule: job_move.induct)
  case (release j now)
  then show ?case by (auto simp: job_entry_ok_def released_job_def job_checks_def)
qed (auto simp: job_entry_ok_def job_transitions job_checks_def)

section \<open>Invariant of the repository\<close>

text \<open>The job that the repository finds under the key of \<open>j\<close>.\<close>

definition own_key :: "job_repo \<Rightarrow> job \<Rightarrow> job option" where
  "own_key s j = find_job_by_idempotency_key s (job_type_value (jb_job_type j)) (jb_idempotency_key j)
     (map_option jx_organization_id (jb_execution_context j)) (map_option jx_project_id (jb_execution_context j))"

definition job_repo_inv :: "job_repo \<Rightarrow> bool" where
  "job_repo_inv s =
     (dict_ok (jr_jobs s) \<and>
      (\<forall>i j. dict_get (jr_jobs s) i = Some j \<longrightarrow> jb_job_id j = i \<and> job_entry_ok j \<and> own_key s j = Some j))"

text \<open>One step of the repository: a new job, a move of a stored one, or a change of the workers.\<close>

inductive job_repo_step :: "job_repo \<Rightarrow> job_repo \<Rightarrow> bool" where
  insert: "dict_get (jr_jobs s) (jb_job_id j) = None \<Longrightarrow> own_key s j = None \<Longrightarrow> job_ok j \<Longrightarrow>
    jb_status j = JS_QUEUED \<Longrightarrow> jb_attempt_count j = 0 \<Longrightarrow> jb_max_attempts j \<le> 10 \<Longrightarrow>
    jb_leased_by j = None \<Longrightarrow> jb_lease_expires_at j = None \<Longrightarrow>
    job_repo_step s (s\<lparr>jr_jobs := dict_put (jb_job_id j) j (jr_jobs s)\<rparr>)"
| change: "dict_get (jr_jobs s) i = Some j \<Longrightarrow> job_move j k \<Longrightarrow>
    job_repo_step s (s\<lparr>jr_jobs := dict_put i k (jr_jobs s)\<rparr>)"
| workers: "job_repo_step s (s\<lparr>jr_workers := w\<rparr>)"

lemma dict_put_in_place:
  assumes "dict_get d i = Some j" "dict_ok d" "\<forall>(k, x) \<in> set d. f x = k"
  shows "dict_values (dict_put i v d) = map (\<lambda>x. if f x = i then v else x) (dict_values d)"
  using assms
proof (induction d)
  case (Cons p d)
  show ?case
  proof (cases "fst p = i")
    case True
    with Cons.prems have "i \<notin> fst ` set d" by (auto simp: dict_ok_def)
    with Cons.prems(3) have "map (\<lambda>x. if f x = i then v else x) (map snd d) = map snd d"
      by (force intro: map_idI)
    with True Cons.prems show ?thesis by (cases p) (auto simp: dict_values_def)
  next
    case False
    with Cons show ?thesis by (cases p) (auto simp: dict_values_def dict_ok_def)
  qed
qed simp

lemma dict_put_at_end:
  "dict_get d i = None \<Longrightarrow> dict_put i v d = d @ [(i, v)]"
  by (induction d) (auto split: if_splits)

lemma find_map_invariant:
  assumes "\<forall>x \<in> set xs. P (f x) = P x"
  shows "List.find P (map f xs) = map_option f (List.find P xs)"
  using assms by (induction xs) auto

lemma find_append: "List.find P (xs @ ys) = (case List.find P xs of None \<Rightarrow> List.find P ys | Some x \<Rightarrow> Some x)"
  by (induction xs) auto

lemma has_key_content:
  assumes "job_content k = job_content j"
  shows "has_key t i og pj k = has_key t i og pj j"
  by (simp add: has_key_def in_context_def job_content_fields [OF assms] split: option.splits)

lemma own_key_content:
  assumes "job_content k = job_content j"
  shows "own_key s k = own_key s j"
  by (simp add: own_key_def job_content_fields [OF assms])

lemma job_repo_invD:
  assumes "job_repo_inv s" "dict_get (jr_jobs s) i = Some j"
  shows "jb_job_id j = i" "job_entry_ok j" "own_key s j = Some j" "job_ok j"
proof -
  from assms show "jb_job_id j = i" "job_entry_ok j" "own_key s j = Some j"
    by (simp_all add: job_repo_inv_def)
  then show "job_ok j" by (simp add: job_entry_ok_def)
qed

lemma job_repo_keys:
  assumes "job_repo_inv s"
  shows "dict_ok (jr_jobs s)" "\<forall>(i, j) \<in> set (jr_jobs s). jb_job_id j = i"
  using assms by (auto simp: job_repo_inv_def dict_ok_def)

lemma own_key_change:
  assumes "job_repo_inv s" "dict_get (jr_jobs s) i = Some j" "job_content k = job_content j"
  shows "own_key (s\<lparr>jr_jobs := dict_put i k (jr_jobs s)\<rparr>) x
    = map_option (\<lambda>x. if jb_job_id x = i then k else x) (own_key s x)"
proof -
  have "has_key t q og pj (if jb_job_id x = i then k else x) = has_key t q og pj x"
    if "x \<in> set (dict_values (jr_jobs s))" for x t q og pj
  proof -
    from dict_values_get [OF job_repo_keys(1) [OF assms(1)] that]
    obtain l where "dict_get (jr_jobs s) l = Some x" .
    with job_repo_invD(1) [OF assms(1)] assms(2) have "jb_job_id x = i \<Longrightarrow> x = j" by fastforce
    with has_key_content [OF assms(3)] show ?thesis by simp
  qed
  then show ?thesis
    unfolding own_key_def find_job_by_idempotency_key_def
    by (simp add: dict_put_in_place [OF assms(2) job_repo_keys [OF assms(1)]] find_map_invariant)
qed

lemma own_key_insert:
  assumes "dict_get (jr_jobs s) (jb_job_id j) = None"
  shows "own_key (s\<lparr>jr_jobs := dict_put (jb_job_id j) j (jr_jobs s)\<rparr>) x =
    (case own_key s x of Some y \<Rightarrow> Some y
     | None \<Rightarrow> List.find (has_key (job_type_value (jb_job_type x)) (jb_idempotency_key x)
         (map_option jx_organization_id (jb_execution_context x))
         (map_option jx_project_id (jb_execution_context x))) [j])"
  by (simp add: own_key_def find_job_by_idempotency_key_def dict_put_at_end [OF assms] dict_values_def
      find_append split: option.splits)

lemma has_own_key: "has_key (job_type_value (jb_job_type j)) (jb_idempotency_key j)
    (map_option jx_organization_id (jb_execution_context j)) (map_option jx_project_id (jb_execution_context j)) j"
  by (simp add: has_key_def in_context_def split: option.splits)

lemma job_repo_inv_step: "job_repo_step s s' \<Longrightarrow> job_repo_inv s \<Longrightarrow> job_repo_inv s'"
proof (induction rule: job_repo_step.induct)
  case (insert s j)
  have entry: "job_entry_ok j" using insert by (simp add: job_entry_ok_def job_checks_def)
  have own: "own_key (s\<lparr>jr_jobs := dict_put (jb_job_id j) j (jr_jobs s)\<rparr>) x = Some x"
    if "x = j \<or> own_key s x = Some x" for x
    using that insert(2) has_own_key [of j] by (auto simp: own_key_insert [OF insert(1)])
  show ?case
    unfolding job_repo_inv_def using job_repo_keys(1) [OF insert(9)] entry own job_repo_invD [OF insert(9)]
    by (auto simp: dict_get_put split: if_splits)
next
  case (change s i j k)
  note inv = change(3) and content = job_move_content [OF change(2)]
  have "job_entry_ok k" "jb_job_id k = i"
    using job_move_entry_ok [OF change(2)] job_repo_invD [OF inv change(1)] content
    by (auto dest: job_content_fields(1))
  moreover have "own_key s k = Some j"
    using job_repo_invD(3) [OF inv change(1)] own_key_content [OF content] by simp
  ultimately show ?case
    unfolding job_repo_inv_def
    using job_repo_keys(1) [OF inv] job_repo_invD [OF inv] change(1)
    by (auto simp: dict_get_put own_key_change [OF inv change(1) content] split: if_splits)
next
  case (workers s w)
  then show ?case by (simp add: job_repo_inv_def own_key_def find_job_by_idempotency_key_def)
qed

lemma job_repo_inv_empty: "job_repo_inv empty_job_repo"
  by (simp add: job_repo_inv_def empty_job_repo_def)

section \<open>Behaviour of the operations\<close>

abbreviation put_job :: "string \<Rightarrow> job \<Rightarrow> job_repo \<Rightarrow> job_repo" where
  "put_job i j s \<equiv> s\<lparr>jr_jobs := dict_put i j (jr_jobs s)\<rparr>"

text \<open>Saving a stored job again, with its content unchanged, is never refused.\<close>

lemma save_job_stored:
  assumes "job_repo_inv s" "dict_get (jr_jobs s) i = Some j" "job_content k = job_content j"
  shows "save_job k s = (Inr (), put_job i k s)"
proof -
  have "own_key s k = Some j"
    using job_repo_invD(3) [OF assms(1,2)] own_key_content [OF assms(3)] by simp
  then show ?thesis
    using job_content_fields [OF assms(3)] job_repo_invD(1) [OF assms(1,2)]
    by (simp add: save_job_def own_key_def Let_def)
qed

lemma resave_move:
  assumes "job_repo_inv s" "dict_get (jr_jobs s) i = Some j" "job_move j k"
  shows "resave k s = (Inr (), put_job i k s)"
proof -
  have "new_job k = Inr k"
    using job_move_job_ok [OF assms(3)] job_repo_invD(4) [OF assms(1,2)]
    by (simp add: new_job_def checked_Inr_iff)
  then show ?thesis
    by (simp add: resave_def save_job_stored [OF assms(1,2) job_move_content [OF assms(3)]])
qed

lemma find_job_by_id_any [simp]: "find_job_by_id s i None None = dict_get (jr_jobs s) i"
  by (simp add: find_job_by_id_def in_context_def split: option.splits)

text \<open>The operation as a partial update of the stored job.\<close>

definition update_job :: "string \<Rightarrow> (job \<Rightarrow> job option) \<Rightarrow> job_repo \<Rightarrow> job_repo" where
  "update_job i f s =
     (case dict_get (jr_jobs s) i of None \<Rightarrow> s
      | Some j \<Rightarrow> (case f j of None \<Rightarrow> s | Some k \<Rightarrow> put_job i k s))"

lemma update_job_step:
  assumes "\<And>j k. f j = Some k \<Longrightarrow> job_move j k"
  shows "job_repo_step\<^sup>*\<^sup>* s (update_job i f s)"
  using assms by (auto simp: update_job_def split: option.splits intro: job_repo_step.change)

lemma mark_succeeded_effect:
  assumes "job_repo_inv s"
  shows "mark_succeeded now i r s =
    (Inr (), update_job i (\<lambda>j. if jb_status j = JS_CANCELLED then None else Some (succeeded_job now r j)) s)"
  using resave_move [OF assms _ job_move.succeed]
  by (auto simp: mark_succeeded_def update_job_def split: option.splits)

lemma mark_failed_effect:
  assumes "job_repo_inv s"
  shows "mark_failed now i r s =
    (Inr (), update_job i (\<lambda>j. if jb_status j = JS_CANCELLED then None else Some (failed_job now r j)) s)"
  using resave_move [OF assms _ job_move.fail]
  by (auto simp: mark_failed_def update_job_def split: option.splits)

lemma repo_cancel_job_effect:
  assumes "job_repo_inv s"
  shows "repo_cancel_job now i s = (Inr (), update_job i (\<lambda>j. Some (cancelled_job now j)) s)"
  using resave_move [OF assms _ job_move.cancel]
  by (auto simp: repo_cancel_job_def update_job_def split: option.splits)

lemma heartbeat_job_cases:
  assumes "job_repo_inv s"
  obtains "heartbeat_job now i w lease s = (Inr (), s)"
  | e where "heartbeat_job now i w lease s = (Inl e, s)"
  | j k where "heartbeat_job now i w lease s = (Inr (), put_job i k s)" "dict_get (jr_jobs s) i = Some j" "job_move j k"
proof (cases "dict_get (jr_jobs s) i")
  case None
  then show ?thesis by (intro that(1)) (simp add: heartbeat_job_def)
next
  case (Some j)
  consider "jb_status j \<noteq> JS_RUNNING \<or> jb_leased_by j \<noteq> Some w"
    | e where "jb_status j = JS_RUNNING" "jb_leased_by j = Some w" "dt_plus now (lease * 1000000) = Inl e"
    | t where "jb_status j = JS_RUNNING" "jb_leased_by j = Some w" "dt_plus now (lease * 1000000) = Inr t"
    by (cases "dt_plus now (lease * 1000000)") auto
  then show ?thesis
  proof cases
    case (3 t)
    note mv = job_move.heartbeat [OF 3(1,2), of now t]
    show ?thesis
      by (rule that(3) [OF _ Some mv]) (simp add: heartbeat_job_def Some 3 resave_move [OF assms Some mv])
  qed (use that Some in \<open>auto simp: heartbeat_job_def\<close>)
qed

text \<open>What can be claimed is stored and queued.\<close>

lemma set_py_prefix: "set (py_prefix n xs) \<subseteq> set xs"
  by (auto simp: py_prefix_def dest: in_set_takeD)

lemma claimable_stored:
  assumes "job_repo_inv s" "j \<in> set (claimable_jobs fr types ops s)"
  shows "dict_get (jr_jobs s) (jb_job_id j) = Some j" "jb_status j = JS_QUEUED"
proof -
  from assms(2) have "j \<in> set (list_by_status s JS_QUEUED 100)"
    by (auto simp: claimable_jobs_def Let_def split: if_splits)
  with set_py_prefix have "j \<in> set (dict_values (jr_jobs s)) \<and> jb_status j = JS_QUEUED"
    by (fastforce simp: list_by_status_def repo_list_jobs_def)
  moreover from this obtain i where i: "dict_get (jr_jobs s) i = Some j"
    using dict_values_get [OF job_repo_keys(1) [OF assms(1)]] by blast
  ultimately show "dict_get (jr_jobs s) (jb_job_id j) = Some j" "jb_status j = JS_QUEUED"
    using job_repo_invD(1) [OF assms(1)] by auto
qed

lemma acquire_cases:
  assumes "job_repo_inv s"
  obtains "claimable_jobs fr types ops s = []" "acquire_next_queued_job fr now w lease types ops s = (Inr None, s)"
  | e where "acquire_next_queued_job fr now w lease types ops s = (Inl e, s)" "dt_plus now (lease * 1000000) = Inl e"
  | j js t k where "claimable_jobs fr types ops s = j # js" "dt_plus now (lease * 1000000) = Inr t"
      "k = acquired_job now w t j" "dict_get (jr_jobs s) (jb_job_id j) = Some j" "jb_status j = JS_QUEUED"
      "acquire_next_queued_job fr now w lease types ops s = (Inr (Some k), put_job (jb_job_id j) k s)"
proof (cases "claimable_jobs fr types ops s")
  case Nil
  then show ?thesis by (intro that(1)) (simp_all add: acquire_next_queued_job_def)
next
  case (Cons j js)
  note st = claimable_stored [OF assms, of j fr types ops, unfolded Cons, simplified]
  show ?thesis
  proof (cases "dt_plus now (lease * 1000000)")
    case (Inl e)
    then show ?thesis by (intro that(2)) (simp_all add: acquire_next_queued_job_def Cons)
  next
    case (Inr t)
    note mv = job_move.claim [OF st(2), of now w t]
    have "new_job (acquired_job now w t j) = Inr (acquired_job now w t j)"
      using job_move_job_ok [OF mv] job_repo_invD(4) [OF assms st(1)] by (simp add: new_job_def checked_Inr_iff)
    with Inr show ?thesis
      by (intro that(3) [OF Cons Inr refl st])
        (simp add: acquire_next_queued_job_def Cons save_job_stored [OF assms st(1) job_move_content [OF mv]])
  qed
qed

text \<open>The loop over expired leases changes exactly the expired jobs of the list and counts them.\<close>

lemma release_jobs_run:
  assumes "job_repo_inv s" "\<forall>j \<in> set js. dict_get (jr_jobs s) (jb_job_id j) = Some j" "distinct (map jb_job_id js)"
  shows "\<exists>s'. release_jobs now js m s = (Inr (m + int (length (filter (lease_expired now) js))), s')
    \<and> job_repo_step\<^sup>*\<^sup>* s s' \<and> jr_workers s' = jr_workers s
    \<and> (\<forall>i. dict_get (jr_jobs s') i = map_option
         (\<lambda>j. if j \<in> set js \<and> lease_expired now j then released_job now j else j) (dict_get (jr_jobs s) i))"
  using assms
proof (induction js arbitrary: s m)
  case Nil
  then show ?case by (simp add: option.map_id0 [unfolded id_def])
next
  case (Cons j js)
  show ?case
  proof (cases "lease_expired now j")
    case False
    from Cons.IH [OF Cons.prems(1), of m] Cons.prems(2,3) obtain s' where s':
      "release_jobs now js m s = (Inr (m + int (length (filter (lease_expired now) js))), s')"
      "job_repo_step\<^sup>*\<^sup>* s s'" "jr_workers s' = jr_workers s"
      "\<forall>i. dict_get (jr_jobs s') i = map_option
         (\<lambda>j. if j \<in> set js \<and> lease_expired now j then released_job now j else j) (dict_get (jr_jobs s) i)"
      by auto
    have "(\<lambda>x. if x \<in> set (j # js) \<and> lease_expired now x then released_job now x else x)
      = (\<lambda>x. if x \<in> set js \<and> lease_expired now x then released_job now x else x)"
      using False by auto
    with s' False show ?thesis by auto
  next
    case True
    let ?k = "released_job now j" and ?s = "put_job (jb_job_id j) (released_job now j) s"
    from Cons.prems(2) have stored: "dict_get (jr_jobs s) (jb_job_id j) = Some j" by simp
    have mv: "job_move j ?k" using True by (simp add: lease_expired_def job_move.release)
    have step: "job_repo_step s ?s" by (rule job_repo_step.change [OF stored mv])
    have js: "\<forall>x \<in> set js. dict_get (jr_jobs ?s) (jb_job_id x) = Some x"
    proof
      fix x assume x: "x \<in> set js"
      with Cons.prems(3) have "jb_job_id x \<noteq> jb_job_id j" by (auto simp: image_iff)
      moreover from x Cons.prems(2) have "dict_get (jr_jobs s) (jb_job_id x) = Some x" by (simp del: map_of_eq_Some_iff)
      ultimately show "dict_get (jr_jobs ?s) (jb_job_id x) = Some x" by (simp add: dict_get_put)
    qed
    from Cons.IH [OF job_repo_inv_step [OF step Cons.prems(1)] js, of "m + 1"] Cons.prems(3)
    obtain s' where s': "release_jobs now js (m + 1) ?s = (Inr (m + 1 + int (length (filter (lease_expired now) js))), s')"
      "job_repo_step\<^sup>*\<^sup>* ?s s'" "jr_workers s' = jr_workers s"
      "\<forall>i. dict_get (jr_jobs s') i = map_option
         (\<lambda>j. if j \<in> set js \<and> lease_expired now j then released_job now j else j) (dict_get (jr_jobs ?s) i)"
      by auto
    have released: "\<not> lease_expired now ?k" by (simp add: lease_expired_def released_job_def)
    have "dict_get (jr_jobs s') i = map_option
         (\<lambda>x. if x \<in> set (j # js) \<and> lease_expired now x then released_job now x else x) (dict_get (jr_jobs s) i)" for i
    proof (cases "i = jb_job_id j")
      case True
      with s'(4) stored released \<open>lease_expired now j\<close> show ?thesis by (simp add: dict_get_put)
    next
      case False
      then have "x \<noteq> j" if "dict_get (jr_jobs s) i = Some x" for x
        using job_repo_invD(1) [OF Cons.prems(1) that] by auto
      with False s'(4) show ?thesis by (cases "dict_get (jr_jobs s) i") (simp_all add: dict_get_put)
    qed
    with s' True step show ?thesis
      by (auto simp: resave_move [OF Cons.prems(1) stored mv] intro: converse_rtranclp_into_rtranclp)
  qed
qed

lemma stored_values:
  assumes "job_repo_inv s"
  shows "\<forall>j \<in> set (dict_values (jr_jobs s)). dict_get (jr_jobs s) (jb_job_id j) = Some j"
    "distinct (map jb_job_id (dict_values (jr_jobs s)))"
proof -
  show "\<forall>j \<in> set (dict_values (jr_jobs s)). dict_get (jr_jobs s) (jb_job_id j) = Some j"
    using dict_values_get [OF job_repo_keys(1) [OF assms]] job_repo_invD(1) [OF assms] by metis
  have "map jb_job_id (dict_values (jr_jobs s)) = map fst (jr_jobs s)"
    using job_repo_keys(2) [OF assms] by (auto simp: dict_values_def)
  then show "distinct (map jb_job_id (dict_values (jr_jobs s)))"
    using job_repo_keys(1) [OF assms] by (simp add: dict_ok_def)
qed

lemma release_expired_leases_effect:
  assumes "job_repo_inv s"
  obtains s' where
    "release_expired_leases now s = (Inr (int (length (filter (lease_expired now) (dict_values (jr_jobs s))))), s')"
    "job_repo_step\<^sup>*\<^sup>* s s'" "jr_workers s' = jr_workers s"
    "\<And>i. dict_get (jr_jobs s') i = map_option
         (\<lambda>j. if lease_expired now j then released_job now j else j) (dict_get (jr_jobs s) i)"
proof -
  have "(if j \<in> set (dict_values (jr_jobs s)) \<and> lease_expired now j then released_job now j else j)
    = (if lease_expired now j then released_job now j else j)" if "dict_get (jr_jobs s) i = Some j" for i j
    using that by (simp add: dict_get_Some_values)
  then have "map_option (\<lambda>j. if j \<in> set (dict_values (jr_jobs s)) \<and> lease_expired now j then released_job now j else j)
      (dict_get (jr_jobs s) i)
    = map_option (\<lambda>j. if lease_expired now j then released_job now j else j) (dict_get (jr_jobs s) i)" for i
    by (cases "dict_get (jr_jobs s) i") auto
  with release_jobs_run [OF assms stored_values [OF assms], of now 0] show ?thesis
    by (auto simp: release_expired_leases_def intro: that)
qed

section \<open>The contracts of the repository\<close>

text \<open>The edges of the lifecycle; a cancelled job has none, a succeeded one may still fail.\<close>

definition job_edge :: "job_status \<Rightarrow> job_status \<Rightarrow> bool" where
  "job_edge a b =
     ((a, b) \<in> {(JS_QUEUED, JS_RUNNING), (JS_RUNNING, JS_QUEUED), (JS_FAILED, JS_QUEUED)}
      \<or> a \<noteq> JS_CANCELLED \<and> b \<in> {JS_SUCCEEDED, JS_FAILED, JS_CANCELLED})"

interpretation job_lifecycle: status_machine job_move jb_status job_edge
proof
  show "jb_status k = jb_status j \<or> job_edge (jb_status j) (jb_status k)" if "job_move j k" for j k
    using that by (induction rule: job_move.induct) (auto simp: job_transitions job_edge_def)
qed

definition job_evolves :: "job \<Rightarrow> job \<Rightarrow> bool" where
  "job_evolves j k =
     (job_content k = job_content j \<and> jb_attempt_count j \<le> jb_attempt_count k
      \<and> (jb_status j = JS_CANCELLED \<longrightarrow> jb_status k = JS_CANCELLED
            \<and> jb_attempt_count k = jb_attempt_count j \<and> jb_result_ref k = jb_result_ref j))"

lemma job_move_evolves: "job_move j k \<Longrightarrow> job_evolves j k"
  unfolding job_evolves_def using job_move_content [of j k]
  by (auto elim!: job_move.cases simp: job_transitions)

interpretation jobs: evolving_store job_repo_step "\<lambda>s. dict_get (jr_jobs s)" job_evolves job_repo_inv
proof
  show "job_repo_inv s'" if "job_repo_inv s" "job_repo_step s s'" for s s'
    using job_repo_inv_step [OF that(2,1)] .
  show "\<exists>k. dict_get (jr_jobs s') i = Some k \<and> job_evolves j k"
    if "job_repo_inv s" "job_repo_step s s'" "dict_get (jr_jobs s) i = Some j" for s s' i j
    using that(2,3)
  proof (induction rule: job_repo_step.induct)
    case (insert s x)
    then show ?case by (auto simp: dict_get_put job_evolves_def)
  next
    case (change s l x k)
    then show ?case
      using job_move_evolves [OF change(2)] by (auto simp: dict_get_put job_evolves_def)
  qed (auto simp: job_evolves_def)
qed (auto simp: job_evolves_def)

text \<open>
  How much work a job can still cause: each claim and each release uses some of it up.
\<close>

definition job_work :: "job \<Rightarrow> nat" where
  "job_work j =
     (case jb_status j of
        JS_QUEUED \<Rightarrow> 2 * nat (jb_max_attempts j - jb_attempt_count j)
      | JS_RUNNING \<Rightarrow> 2 * nat (jb_max_attempts j - jb_attempt_count j) + 1
      | _ \<Rightarrow> 0)"

lemma job_work_claim:
  "job_entry_ok j \<Longrightarrow> jb_status j = JS_QUEUED \<Longrightarrow> job_work (acquired_job now w t j) < job_work j"
  by (auto simp: job_work_def job_entry_ok_def acquired_job_def)

lemma job_work_release:
  "job_entry_ok j \<Longrightarrow> jb_status j = JS_RUNNING \<Longrightarrow> job_work (released_job now j) < job_work j"
  by (simp add: job_work_def job_entry_ok_def released_job_def)

lemma job_work_finish:
  assumes "job_entry_ok j"
  shows "job_work (succeeded_job now r j) = 0" "job_work (failed_job now r j) = 0"
    "job_work (cancelled_job now j) = 0"
  by (simp_all add: job_work_def job_transitions)

end
