(* ===== verification/Job_Service.thy ===== *)
theory Job_Service
  imports Jobs Execution_Ledger
begin

text \<open>
  \<open>services/job_submission_service.py\<close>, \<open>services/job_api_service.py\<close>,
  \<open>services/job_executor.py\<close> and \<open>workers/job_worker.py\<close>: submission with idempotency keys,
  the public operations on jobs, the dispatch to handlers and one round of a worker. The configuration
  service, when there is one, is the record of its answers; handlers are parameters; the publication of
  events to external sinks is left out. A round of a worker is a claim, the run of a handler and a
  finish, so that other commands may run between the claim and the finish.
\<close>

section \<open>Configuration\<close>

record job_config =
  jc_queue_size :: "job_context option \<Rightarrow> int"
  jc_retention :: "tenant_context option \<Rightarrow> string"
  jc_retry_delay :: "tenant_context option \<Rightarrow> string"
  jc_worker_concurrency :: int

text \<open>
  \<open>duration_seconds\<close>, in microseconds: a positive decimal number and a unit.
\<close>

definition duration_factor :: "string \<Rightarrow> int option" where
  "duration_factor u =
     map_of [(''ms'', 1000), (''s'', 1000000), (''m'', 60000000), (''h'', 3600000000),
             (''d'', 86400000000), (''w'', 604800000000)] u"

definition parse_duration :: "string \<Rightarrow> exc + int" where
  "parse_duration value =
     (let v = py_lower (py_strip value);
          digits = takeWhile is_ascii_digit v;
          unit = dropWhile is_ascii_digit v;
          invalid = Inl (Exc ValueError (''Invalid duration: '' @ value))
      in if digits = [] \<or> hd digits = CHR ''0'' then invalid
         else case duration_factor unit of None \<Rightarrow> invalid
           | Some factor \<Rightarrow> Inr (int (digits_val digits) * factor))"

section \<open>Submission\<close>

definition submission_checks :: "job_submission \<Rightarrow> (bool \<times> exc) list" where
  "submission_checks sub =
     [(blank (jsb_idempotency_key sub), Exc JobSubmissionValidationError ''idempotency_key is required.''),
      (blank (jsb_submitted_by sub), Exc JobSubmissionValidationError ''submitted_by is required.''),
      (jsb_input_refs sub = [], Exc JobSubmissionValidationError ''input_refs must not be empty.''),
      (\<not> (1 \<le> jsb_max_attempts sub \<and> jsb_max_attempts sub \<le> 10),
       Exc JobSubmissionValidationError ''max_attempts must be between 1 and 10.'')]"

definition stable_input_hash ::
  "(rat \<Rightarrow> string) \<Rightarrow> (string \<times> pyval) list \<Rightarrow> string option \<Rightarrow> string option \<Rightarrow> string" where
  "stable_input_hash fr input_refs organization_id project_id =
     sha256_hex (json_dumps fr (PDict
       (if organization_id = None \<and> project_id = None then input_refs
        else [(''organization_id'', of_opt_str organization_id), (''project_id'', of_opt_str project_id),
              (''input_refs'', PDict input_refs)])))"

definition submitted_job :: "(rat \<Rightarrow> string) \<Rightarrow> datetime \<Rightarrow> string \<Rightarrow> job_submission \<Rightarrow> job" where
  "submitted_job fr now job_id sub =
     (let context = jsb_execution_context sub in
      \<lparr>jb_job_id = job_id, jb_job_type = jsb_job_type sub, jb_status = JS_QUEUED,
       jb_input_refs = jsb_input_refs sub,
       jb_input_hash = stable_input_hash fr (jsb_input_refs sub) (map_option jx_organization_id context)
         (map_option jx_project_id context),
       jb_idempotency_key = jsb_idempotency_key sub, jb_submitted_by = jsb_submitted_by sub,
       jb_attempt_count = 0, jb_max_attempts = jsb_max_attempts sub, jb_result_ref = None,
       jb_failure_reason = None, jb_leased_by = None, jb_lease_expires_at = None, jb_heartbeat_at = None,
       jb_created_at = now, jb_updated_at = now, jb_started_at = None, jb_completed_at = None,
       jb_execution_context = context\<rparr>)"

definition queue_full :: "job_config option \<Rightarrow> job_submission \<Rightarrow> job_repo \<Rightarrow> (bool \<times> exc) list" where
  "queue_full config sub s =
     (case config of None \<Rightarrow> []
      | Some c \<Rightarrow>
          (let context = jsb_execution_context sub; queue_size = jc_queue_size c context;
               queued = repo_list_jobs s (Some JS_QUEUED) None queue_size
                 (map_option jx_organization_id context) (map_option jx_project_id context)
           in [(queue_size \<le> int (length queued),
                Exc JobSubmissionValidationError
                  (''Job queue capacity of '' @ py_str_int queue_size @ '' has been reached.''))]))"

definition submit_job ::
  "(rat \<Rightarrow> string) \<Rightarrow> job_config option \<Rightarrow> datetime \<times> string \<Rightarrow> job_submission \<Rightarrow> (job_repo, job) action" where
  "submit_job fr config fresh sub s =
     (let (now, job_id) = fresh; context = jsb_execution_context sub; j = submitted_job fr now job_id sub in
      act_bind (act_lift (checked (submission_checks sub) ())) (\<lambda>_.
      case find_job_by_idempotency_key s (job_type_value (jsb_job_type sub)) (jsb_idempotency_key sub)
             (map_option jx_organization_id context) (map_option jx_project_id context) of
        Some existing \<Rightarrow>
          if jb_input_hash existing \<noteq> jb_input_hash j
          then act_raise (Exc IdempotencyConflictError ''Idempotency key was reused with different input.'')
          else act_return existing
      | None \<Rightarrow>
          act_bind (act_lift (checked (queue_full config sub s) ())) (\<lambda>_.
          act_bind (act_lift (new_job j)) (\<lambda>job.
          act_bind (save_job job) (\<lambda>_.
          act_return job)))) s)"

section \<open>The public operations\<close>

abbreviation cx_org :: "tenant_context option \<Rightarrow> string option" where
  "cx_org cx \<equiv> map_option cx_organization_id cx"

definition cx_proj :: "tenant_context option \<Rightarrow> string option" where
  "cx_proj cx = (case cx of None \<Rightarrow> None | Some c \<Rightarrow> cx_project_id c)"

definition api_get_job :: "job_repo \<Rightarrow> string \<Rightarrow> tenant_context option \<Rightarrow> exc + job" where
  "api_get_job s job_id cx =
     (case find_job_by_id s job_id (cx_org cx) (cx_proj cx) of
        None \<Rightarrow> Inl (Exc JobNotFoundError (''Job '' @ quoted job_id @ '' was not found.''))
      | Some j \<Rightarrow> Inr j)"

definition job_terminal :: "job_status \<Rightarrow> bool" where
  "job_terminal st = (st \<in> {JS_SUCCEEDED, JS_FAILED, JS_CANCELLED})"

definition finished_at :: "job \<Rightarrow> datetime" where
  "finished_at j = opt_or (jb_completed_at j) (jb_updated_at j)"

definition api_list_jobs ::
  "job_config option \<Rightarrow> datetime \<Rightarrow> job_status option \<Rightarrow> job_type option \<Rightarrow> int \<Rightarrow> tenant_context option
     \<Rightarrow> job_repo \<Rightarrow> exc + job list" where
  "api_list_jobs config now status job_type limit cx s =
     (if \<not> (1 \<le> limit \<and> limit \<le> 500)
      then Inl (Exc InvalidJobRequestError ''limit must be between 1 and 500.'')
      else
       (let jobs = repo_list_jobs s status job_type limit (cx_org cx) (cx_proj cx) in
        case config of None \<Rightarrow> Inr jobs
        | Some c \<Rightarrow>
            res_bind (parse_duration (jc_retention c cx)) (\<lambda>retention.
              Inr (filter (\<lambda>j. \<not> job_terminal (jb_status j)
                           \<or> micros now - retention \<le> micros (finished_at j)) jobs))))"

definition api_cancel_job :: "datetime \<Rightarrow> string \<Rightarrow> tenant_context option \<Rightarrow> (job_repo, job) action" where
  "api_cancel_job now job_id cx s =
     act_bind (act_lift (api_get_job s job_id cx)) (\<lambda>j.
     if jb_status j \<notin> {JS_QUEUED, JS_RUNNING}
     then act_raise (Exc InvalidJobRequestError
       (''Job '' @ quoted job_id @ '' cannot be cancelled from '' @ job_status_value (jb_status j) @ '' status.''))
     else act_bind (repo_cancel_job now job_id) (\<lambda>_ s'. act_lift (api_get_job s' job_id cx) s')) s"

definition retry_allowed ::
  "job_config option \<Rightarrow> datetime \<Rightarrow> string \<Rightarrow> tenant_context option \<Rightarrow> job \<Rightarrow> exc + unit" where
  "retry_allowed config now job_id cx j =
     (if jb_status j \<noteq> JS_FAILED
      then Inl (Exc InvalidJobRequestError
        (''Job '' @ quoted job_id @ '' can only be retried from FAILED status.''))
      else case config of None \<Rightarrow> Inr ()
        | Some c \<Rightarrow>
            res_bind (parse_duration (jc_retry_delay c cx)) (\<lambda>retry_delay.
              checked [(micros now < micros (finished_at j) + retry_delay,
                Exc InvalidJobRequestError (''Job '' @ quoted job_id
                  @ '' cannot be retried until its configured retry delay has elapsed.''))] ()))"

definition retry_submission :: "string \<Rightarrow> job \<Rightarrow> job_submission" where
  "retry_submission retry_id j =
     \<lparr>jsb_job_type = jb_job_type j, jsb_input_refs = jb_input_refs j,
      jsb_idempotency_key = jb_idempotency_key j @ '':retry:'' @ retry_id,
      jsb_submitted_by = jb_submitted_by j, jsb_max_attempts = jb_max_attempts j,
      jsb_execution_context = jb_execution_context j\<rparr>"

definition api_retry_job ::
  "(rat \<Rightarrow> string) \<Rightarrow> job_config option \<Rightarrow> datetime \<Rightarrow> string \<Rightarrow> datetime \<times> string \<Rightarrow> string
     \<Rightarrow> tenant_context option \<Rightarrow> (job_repo, job) action" where
  "api_retry_job fr config now retry_id fresh job_id cx s =
     act_bind (act_lift (api_get_job s job_id cx)) (\<lambda>j.
     act_bind (act_lift (retry_allowed config now job_id cx j)) (\<lambda>_.
     if jb_attempt_count j < jb_max_attempts j
     then act_bind (act_lift (new_job (retried_job (fst fresh) j))) (\<lambda>retried.
          act_bind (save_job retried) (\<lambda>_. act_return retried))
     else submit_job fr config fresh (retry_submission retry_id j))) s"

section \<open>Handlers and workers\<close>

type_synonym handler = "job \<Rightarrow> exc + job_result"
type_synonym handler_key = "job_type \<times> string option"

text \<open>The operation named in the envelope of an extension job.\<close>

definition extension_operation :: "job \<Rightarrow> string option" where
  "extension_operation j =
     (case pget (jb_input_refs j) ''_ai_governance_extension'' of
        PDict envelope \<Rightarrow>
          (case pget envelope ''operation'' of PStr p \<Rightarrow> if blank p then None else Some p | _ \<Rightarrow> None)
      | _ \<Rightarrow> None)"

definition execute_job ::
  "(job_type, handler) dict \<Rightarrow> (handler_key, handler) dict \<Rightarrow> job \<Rightarrow> exc + job_result" where
  "execute_job handlers extensions j =
     (let operation = (if jb_job_type j = JT_EXTENSION then extension_operation j else None);
          handler = (case dict_get handlers (jb_job_type j) of Some h \<Rightarrow> Some h
                     | None \<Rightarrow> dict_get extensions (jb_job_type j, operation))
      in case handler of
           None \<Rightarrow> Inr \<lparr>jrs_job_id = jb_job_id j, jrs_status = JS_FAILED, jrs_result_ref = None,
             jrs_failure_reason = Some (''No job handler registered for ''
               @ quoted (job_type_value (jb_job_type j)) @ ''.'')\<rparr>
         | Some h \<Rightarrow> h j)"

text \<open>Handlers of a plugin are installed one by one; what is installed before an error stays.\<close>

fun register_extension_handlers ::
  "(handler_key \<times> handler) list \<Rightarrow> ((handler_key, handler) dict, unit) action" where
  "register_extension_handlers [] s = (Inr (), s)"
| "register_extension_handlers (((job_type, operation), h) # ds) s =
     (if job_type = JT_EXTENSION \<and> operation = None
      then (Inl (Exc TypeError ''Extension jobs require a non-empty operation name.''), s)
      else if (case operation of None \<Rightarrow> False | Some p \<Rightarrow> blank p)
      then (Inl (Exc TypeError ''Job handler operation must be a non-empty string.''), s)
      else if dict_get s (job_type, operation) \<noteq> None
      then (Inl (Exc ValueError (''Job handler for ''
              @ quoted (job_type_value job_type @ (if truthy operation then ''/'' @ the operation else []))
              @ '' is already registered.'')), s)
      else register_extension_handlers ds (dict_put (job_type, operation) h s))"

record job_worker =
  jw_worker_id :: string
  jw_lease_seconds :: int
  jw_job_types :: "job_type list"
  jw_job_operations :: "(job_type, string list) dict"

text \<open>The first half of a round: the clock is read for the heartbeat, the release and the claim.\<close>

definition worker_claim ::
  "(rat \<Rightarrow> string) \<Rightarrow> job_config option \<Rightarrow> job_worker \<Rightarrow> datetime \<Rightarrow> datetime \<Rightarrow> datetime
     \<Rightarrow> (job_repo, job option) action" where
  "worker_claim fr config w t1 t2 t3 s =
     act_bind (release_expired_leases t2) (\<lambda>_ s'.
       if (case config of None \<Rightarrow> False
           | Some c \<Rightarrow> jc_worker_concurrency c
               \<le> int (length (repo_list_jobs s' (Some JS_RUNNING) None (jc_worker_concurrency c) None None)))
       then (Inr None, s')
       else acquire_next_queued_job fr t3 (jw_worker_id w) (jw_lease_seconds w) (jw_job_types w)
              (jw_job_operations w) s')
       (heartbeat_worker (jw_worker_id w) t1 s)"

text \<open>The status of the result decides; a success without a result is a failure.\<close>

definition record_result :: "datetime \<Rightarrow> string \<Rightarrow> job_result \<Rightarrow> (job_repo, unit) action" where
  "record_result t4 job_id r =
     (if jrs_status r = JS_SUCCEEDED \<and> truthy (jrs_result_ref r)
      then mark_succeeded t4 job_id (the (jrs_result_ref r))
      else if jrs_status r = JS_CANCELLED then repo_cancel_job t4 job_id
      else mark_failed t4 job_id (the (str_or (jrs_failure_reason r) (Some ''Job execution failed.''))))"

definition fail_and_raise :: "datetime \<Rightarrow> string \<Rightarrow> exc \<Rightarrow> (job_repo, 'a) action" where
  "fail_and_raise t5 job_id e =
     act_bind (mark_failed t5 job_id (exc_message e)) (\<lambda>_. act_raise e)"

definition worker_finish ::
  "datetime \<Rightarrow> datetime \<Rightarrow> string \<Rightarrow> exc + job_result \<Rightarrow> (job_repo, job option) action" where
  "worker_finish t4 t5 job_id answer s =
     (case answer of
        Inl e \<Rightarrow> fail_and_raise t5 job_id e s
      | Inr r \<Rightarrow>
          (case record_result t4 job_id r s of
             (Inl e, s') \<Rightarrow> fail_and_raise t5 job_id e s'
           | (Inr _, s') \<Rightarrow> (Inr (find_job_by_id s' job_id None None), s')))"

record worker_clock =
  wc_heartbeat :: datetime
  wc_release :: datetime
  wc_claim :: datetime
  wc_finish :: datetime
  wc_failure :: datetime

definition run_once ::
  "(rat \<Rightarrow> string) \<Rightarrow> job_config option \<Rightarrow> handler \<Rightarrow> job_worker \<Rightarrow> worker_clock
     \<Rightarrow> (job_repo, job option) action" where
  "run_once fr config execute w t =
     act_bind (worker_claim fr config w (wc_heartbeat t) (wc_release t) (wc_claim t)) (\<lambda>claimed.
       case claimed of None \<Rightarrow> act_return None
       | Some j \<Rightarrow> worker_finish (wc_finish t) (wc_failure t) (jb_job_id j) (execute j))"

text \<open>A worker that runs one round after the other, whatever each of them returns or raises.\<close>

definition worker_rounds ::
  "(rat \<Rightarrow> string) \<Rightarrow> handler \<Rightarrow> job_worker \<Rightarrow> worker_clock list \<Rightarrow> job_repo \<Rightarrow> job_repo" where
  "worker_rounds fr execute w ts s = fold (\<lambda>t s. snd (run_once fr None execute w t s)) ts s"

section \<open>Every command moves jobs along the repository's steps\<close>

text \<open>
  A command of the job control plane with any arguments and any outcome. New jobs have fresh
  identifiers. A finish names any job, so a worker whose lease was lost may still report.
\<close>

inductive job_system_step :: "(rat \<Rightarrow> string) \<Rightarrow> job_repo \<Rightarrow> job_repo \<Rightarrow> bool" for fr where
  submit: "dict_get (jr_jobs s) (snd fresh) = None \<Longrightarrow> submit_job fr config fresh sub s = (r1, t) \<Longrightarrow>
     job_system_step fr s t"
| cancel: "api_cancel_job now i cx s = (r2, t) \<Longrightarrow> job_system_step fr s t"
| retry: "dict_get (jr_jobs s) (snd fresh) = None \<Longrightarrow>
     api_retry_job fr config now rid fresh i cx s = (r3, t) \<Longrightarrow> job_system_step fr s t"
| register: "job_system_step fr s (register_worker w s)"
| beat: "heartbeat_job now i wid lease s = (r4, t) \<Longrightarrow> job_system_step fr s t"
| claim: "worker_claim fr config worker t1 t2 t3 s = (r5, t) \<Longrightarrow> job_system_step fr s t"
| finish: "worker_finish t4 t5 i answer s = (r6, t) \<Longrightarrow> job_system_step fr s t"

lemma submit_job_step:
  assumes "dict_get (jr_jobs s) (snd fresh) = None" "submit_job fr config fresh sub s = (r, t)"
  shows "t = s \<or> job_repo_step s t"
proof -
  obtain now i where fresh: "fresh = (now, i)" by (cases fresh)
  let ?j = "submitted_job fr now i sub"
  have own: "own_key s ?j = find_job_by_idempotency_key s (job_type_value (jsb_job_type sub)) (jsb_idempotency_key sub)
     (map_option jx_organization_id (jsb_execution_context sub)) (map_option jx_project_id (jsb_execution_context sub))"
    by (simp add: own_key_def submitted_job_def Let_def)
  have fields: "jb_job_id ?j = i" "jb_status ?j = JS_QUEUED" "jb_attempt_count ?j = 0" "jb_leased_by ?j = None"
    "jb_lease_expires_at ?j = None" "jb_max_attempts ?j = jsb_max_attempts sub"
    by (simp_all add: submitted_job_def Let_def)
  show ?thesis
  proof (cases "t = s")
    case False
    with assms(2) have "checked (submission_checks sub) () = Inr ()" "own_key s ?j = None"
      "new_job ?j = Inr ?j" "t = put_job i ?j s"
      unfolding submit_job_def fresh own
      by (auto simp: Let_def save_job_def new_job_def checked_Inr_iff own [unfolded own_key_def]
          fields(1) act_bind_def act_lift_def act_raise_def act_return_def
          split: sum.splits option.splits if_splits)
    moreover from this(1) have "jsb_max_attempts sub \<le> 10" by (simp add: submission_checks_def split: if_splits)
    ultimately show ?thesis
      using job_repo_step.insert [of s ?j] assms(1) fresh fields
      by (simp add: new_job_def checked_Inr_iff)
  qed simp
qed

lemma mark_steps:
  assumes "job_repo_inv s"
  shows "mark_succeeded now i r s = (v, t) \<Longrightarrow> job_repo_step\<^sup>*\<^sup>* s t"
    "mark_failed now i r s = (v, t) \<Longrightarrow> job_repo_step\<^sup>*\<^sup>* s t"
    "repo_cancel_job now i s = (v, t) \<Longrightarrow> job_repo_step\<^sup>*\<^sup>* s t"
  by (auto simp: mark_succeeded_effect [OF assms] mark_failed_effect [OF assms] repo_cancel_job_effect [OF assms]
      intro!: update_job_step split: if_splits intro: job_move.intros)

lemma mark_within:
  assumes "job_repo_inv s"
  shows "act_within job_repo_step (mark_succeeded now i r) s"
    "act_within job_repo_step (mark_failed now i r) s"
    "act_within job_repo_step (repo_cancel_job now i) s"
  unfolding act_within_def using mark_steps [OF assms] by blast+

lemma record_result_within: "job_repo_inv s \<Longrightarrow> act_within job_repo_step (record_result t i r) s"
  by (simp add: record_result_def mark_within)

lemma fail_and_raise_within: "job_repo_inv s \<Longrightarrow> act_within job_repo_step (fail_and_raise t i e) s"
  unfolding fail_and_raise_def
  by (rule act_within_bind [OF mark_within(2)]) (auto intro: within_intros)

lemma worker_finish_step:
  assumes "job_repo_inv s" "worker_finish t4 t5 i answer s = (r, t)"
  shows "job_repo_step\<^sup>*\<^sup>* s t"
proof (cases answer)
  case (Inl e)
  with assms(2) have "fail_and_raise t5 i e s = (r, t)" by (simp add: worker_finish_def)
  with act_withinD [OF fail_and_raise_within [OF assms(1)]] show ?thesis by force
next
  case (Inr q)
  obtain v u where q: "record_result t4 i q s = (v, u)" by (cases "record_result t4 i q s")
  with record_result_within [OF assms(1)] have u: "job_repo_step\<^sup>*\<^sup>* s u" by (auto dest: act_withinD)
  with jobs.inv_run assms(1) have "job_repo_inv u" by blast
  note fr = fail_and_raise_within [OF this]
  show ?thesis
  proof (cases v)
    case (Inl e)
    with assms(2) Inr q have "fail_and_raise t5 i e u = (r, t)"
      by (auto simp: worker_finish_def)
    with act_withinD [OF fr] u show ?thesis by force
  qed (use assms(2) Inr q u in \<open>auto simp: worker_finish_def\<close>)
qed

lemma heartbeat_worker_step: "job_repo_step\<^sup>*\<^sup>* s (heartbeat_worker w t s)"
  by (auto simp: heartbeat_worker_def split: option.splits intro: job_repo_step.workers)

lemma acquire_step:
  assumes "job_repo_inv s" "acquire_next_queued_job fr now w lease types ops s = (r, t)"
  shows "job_repo_step\<^sup>*\<^sup>* s t"
  by (rule acquire_cases [OF assms(1), of fr types ops now w lease])
    (use assms(2) in \<open>auto intro: job_repo_step.change job_move.claim\<close>)

text \<open>The first half of a round: the expired leases are released, then a job is acquired if there is room.\<close>

lemma worker_claim_run:
  assumes "job_repo_inv s"
  obtains u where "job_repo_step\<^sup>*\<^sup>* s u" "job_repo_inv u"
    "\<And>i. dict_get (jr_jobs u) i = map_option
        (\<lambda>j. if lease_expired t2 j then released_job t2 j else j) (dict_get (jr_jobs s) i)"
    "worker_claim fr config w t1 t2 t3 s = (Inr None, u) \<and> config \<noteq> None
     \<or> worker_claim fr config w t1 t2 t3 s
       = acquire_next_queued_job fr t3 (jw_worker_id w) (jw_lease_seconds w) (jw_job_types w) (jw_job_operations w) u"
proof -
  let ?s = "heartbeat_worker (jw_worker_id w) t1 s"
  have jobs: "jr_jobs ?s = jr_jobs s" by (simp add: heartbeat_worker_def split: option.splits)
  have inv: "job_repo_inv ?s" using jobs.inv_run [OF heartbeat_worker_step assms] .
  obtain u where u: "release_expired_leases t2 ?s
      = (Inr (int (length (filter (lease_expired t2) (dict_values (jr_jobs ?s))))), u)" "job_repo_step\<^sup>*\<^sup>* ?s u"
    "\<And>i. dict_get (jr_jobs u) i = map_option
        (\<lambda>j. if lease_expired t2 j then released_job t2 j else j) (dict_get (jr_jobs s) i)"
    using release_expired_leases_effect [OF inv, of t2] unfolding jobs by blast
  show ?thesis
  proof (rule that [of u])
    show "job_repo_step\<^sup>*\<^sup>* s u" using heartbeat_worker_step u(2) by (meson rtranclp_trans)
    show "job_repo_inv u" using jobs.inv_run [OF u(2) inv] .
  qed (use u in \<open>auto simp: worker_claim_def split: if_splits option.splits\<close>)
qed

lemma worker_claim_step:
  assumes "job_repo_inv s" "worker_claim fr config w t1 t2 t3 s = (r, t)"
  shows "job_repo_step\<^sup>*\<^sup>* s t"
proof -
  obtain u where "job_repo_step\<^sup>*\<^sup>* s u" "job_repo_inv u" "t = u \<or>
      acquire_next_queued_job fr t3 (jw_worker_id w) (jw_lease_seconds w) (jw_job_types w) (jw_job_operations w) u = (r, t)"
    using worker_claim_run [OF assms(1), of t2 fr config w t1 t3] assms(2) by (metis Pair_inject)
  then show ?thesis using acquire_step by (meson rtranclp_trans)
qed

lemma find_job_by_id_stored: "find_job_by_id s i og pj = Some j \<Longrightarrow> dict_get (jr_jobs s) i = Some j"
  by (auto simp: find_job_by_id_def split: option.splits if_splits)

lemma api_get_job_stored: "api_get_job s i cx = Inr j \<Longrightarrow> dict_get (jr_jobs s) i = Some j"
  by (auto simp: api_get_job_def split: option.splits dest: find_job_by_id_stored)

lemma api_cancel_job_step:
  assumes "job_repo_inv s" "api_cancel_job now i cx s = (r, t)"
  shows "job_repo_step\<^sup>*\<^sup>* s t"
  using assms mark_steps(3) [OF assms(1)]
  by (auto simp: api_cancel_job_def act_bind_def act_lift_def act_raise_def split: sum.splits if_splits prod.splits)

lemma api_retry_job_step:
  assumes "job_repo_inv s" "dict_get (jr_jobs s) (snd fresh) = None"
    and "api_retry_job fr config now rid fresh i cx s = (r, t)"
  shows "job_repo_step\<^sup>*\<^sup>* s t"
proof (cases "api_get_job s i cx")
  case (Inl e)
  with assms(3) show ?thesis by (simp add: api_retry_job_def)
next
  case (Inr j)
  note stored = api_get_job_stored [OF Inr]
  consider e where "retry_allowed config now i cx j = Inl e"
    | "retry_allowed config now i cx j = Inr ()" "\<not> jb_attempt_count j < jb_max_attempts j"
    | "retry_allowed config now i cx j = Inr ()" "jb_attempt_count j < jb_max_attempts j"
    by (cases "retry_allowed config now i cx j") auto
  then show ?thesis
  proof cases
    case 2
    with assms(3) Inr have "submit_job fr config fresh (retry_submission rid j) s = (r, t)"
      by (simp add: api_retry_job_def)
    from submit_job_step [OF assms(2) this] show ?thesis by auto
  next
    case 3
    then have "jb_status j = JS_FAILED" by (simp add: retry_allowed_def split: if_splits)
    note mv = job_move.retry [OF this 3(2), of "fst fresh"]
    from resave_move [OF assms(1) stored mv] have "t = put_job i (retried_job (fst fresh) j) s \<or> t = s"
      using assms(3) Inr 3
      by (auto simp: api_retry_job_def resave_def act_bind_def act_lift_def act_return_def split: sum.splits prod.splits)
    then show ?thesis using job_repo_step.change [OF stored mv] by auto
  qed (use assms(3) Inr in \<open>simp add: api_retry_job_def\<close>)
qed

lemma job_system_step_moves:
  assumes "job_system_step fr s t" "job_repo_inv s"
  shows "job_repo_step\<^sup>*\<^sup>* s t"
  using assms
proof (induction rule: job_system_step.induct)
  case (submit s fresh config sub r1 t)
  with submit_job_step [OF submit(1,2)] show ?case by auto
next
  case (retry s fresh config now rid i cx r3 t)
  with api_retry_job_step show ?case by blast
next
  case (register s w)
  show ?case by (auto simp: register_worker_def intro: job_repo_step.workers)
next
  case (beat now i wid lease s r4 t)
  show ?case
    by (rule heartbeat_job_cases [OF beat(2), of now i wid lease])
      (use beat(1) in \<open>auto intro: job_repo_step.change\<close>)
qed (blast dest: api_cancel_job_step worker_claim_step worker_finish_step)+

lemma job_system_run_moves:
  assumes "(job_system_step fr)\<^sup>*\<^sup>* s t" "job_repo_inv s"
  shows "job_repo_step\<^sup>*\<^sup>* s t \<and> job_repo_inv t"
  using assms
proof (induction rule: rtranclp_induct)
  case (step t u)
  then show ?case using job_system_step_moves [OF step(2)] jobs.inv_run by (meson rtranclp_trans)
qed simp

section \<open>Attempts, cancellation and stale workers\<close>

text \<open>A run of the commands of the system, and how many claims of one job by a worker it counts.\<close>

inductive claimed_run :: "(rat \<Rightarrow> string) \<Rightarrow> string \<Rightarrow> job_repo \<Rightarrow> nat \<Rightarrow> job_repo \<Rightarrow> bool" for fr i s where
  start: "claimed_run fr i s 0 s"
| claim: "claimed_run fr i s n t \<Longrightarrow> worker_claim fr config w t1 t2 t3 t = (Inr (Some j), u) \<Longrightarrow> jb_job_id j = i
    \<Longrightarrow> claimed_run fr i s (Suc n) u"
| command: "claimed_run fr i s n t \<Longrightarrow> job_system_step fr t u \<Longrightarrow> claimed_run fr i s n u"

lemma claim_counts:
  assumes "job_repo_inv s" "worker_claim fr config w t1 t2 t3 s = (Inr (Some j), u)"
  shows "\<exists>k v. job_repo_step\<^sup>*\<^sup>* s v \<and> dict_get (jr_jobs v) (jb_job_id j) = Some k
    \<and> dict_get (jr_jobs u) (jb_job_id j) = Some j \<and> jb_attempt_count j = jb_attempt_count k + 1"
proof -
  obtain v where v: "job_repo_step\<^sup>*\<^sup>* s v" "job_repo_inv v"
    and run: "acquire_next_queued_job fr t3 (jw_worker_id w) (jw_lease_seconds w) (jw_job_types w) (jw_job_operations w) v = (Inr (Some j), u)"
    using worker_claim_run [OF assms(1), of t2 fr config w t1 t3] assms(2) by (metis Pair_inject option.distinct(1) sum.inject(2))
  show ?thesis
  proof (rule acquire_cases [OF v(2), of fr "jw_job_types w" "jw_job_operations w" t3 "jw_worker_id w" "jw_lease_seconds w"])
    fix k ks t x
    assume "x = acquired_job t3 (jw_worker_id w) t k" "dict_get (jr_jobs v) (jb_job_id k) = Some k"
      "acquire_next_queued_job fr t3 (jw_worker_id w) (jw_lease_seconds w) (jw_job_types w) (jw_job_operations w) v
        = (Inr (Some x), put_job (jb_job_id k) x v)"
    then show ?thesis using run v(1) by (auto simp: acquired_job_def dict_get_put)
  qed (use run in simp_all)
qed

lemma claimed_run_counts:
  assumes "claimed_run fr i s n t" "job_repo_inv s"
  shows "job_repo_inv t \<and> (n = 0 \<or> (\<exists>j. dict_get (jr_jobs t) i = Some j \<and> int n \<le> jb_attempt_count j))"
  using assms
proof (induction rule: claimed_run.induct)
  case (claim n t config w t1 t2 t3 j u)
  then have inv: "job_repo_inv t" by blast
  obtain k v where v: "job_repo_step\<^sup>*\<^sup>* t v" "dict_get (jr_jobs v) i = Some k" "dict_get (jr_jobs u) i = Some j"
      "jb_attempt_count j = jb_attempt_count k + 1"
    using claim_counts [OF inv claim(2)] claim(3) by blast
  have "int n \<le> jb_attempt_count k"
  proof (cases "n = 0")
    case True
    have "job_entry_ok k" using job_repo_invD(2) [OF jobs.inv_run [OF v(1) inv] v(2)] .
    then show ?thesis using True by (simp add: job_entry_ok_def job_checks_def)
  next
    case False
    then obtain x where "dict_get (jr_jobs t) i = Some x" "int n \<le> jb_attempt_count x" using claim by blast
    then show ?thesis using jobs.lookup_run [OF v(1) inv] v(2) by (fastforce simp: job_evolves_def)
  qed
  moreover have "job_repo_inv u" using worker_claim_step [OF inv claim(2)] jobs.inv_run inv by blast
  ultimately show ?case using v(3,4) by simp
next
  case (command n t u)
  then have inv: "job_repo_inv t" by blast
  from job_system_step_moves [OF command(2) inv] have run: "job_repo_step\<^sup>*\<^sup>* t u" .
  then show ?case
    using command jobs.inv_run [OF run inv] jobs.lookup_run [OF run inv] by (fastforce simp: job_evolves_def)
qed simp

text \<open>
  C14. Retries are bounded: in every run from the empty repository, whatever commands run and however
  leases expire and jobs are retried, a job is claimed by workers at most as often as its submission
  allows, which is ten times at most; and a queued job always has an attempt left.
\<close>

theorem job_attempts_bounded:
  assumes "claimed_run fr i empty_job_repo n s" "dict_get (jr_jobs s) i = Some j"
  shows "int n \<le> jb_attempt_count j \<and> jb_attempt_count j \<le> jb_max_attempts j \<and> jb_max_attempts j \<le> 10
    \<and> (jb_status j = JS_QUEUED \<longrightarrow> int n < jb_max_attempts j)"
proof -
  from claimed_run_counts [OF assms(1) job_repo_inv_empty] assms(2)
  have inv: "job_repo_inv s" and n: "n = 0 \<or> int n \<le> jb_attempt_count j" by auto
  from job_repo_invD(2) [OF inv assms(2)] n show ?thesis by (auto simp: job_entry_ok_def job_checks_def)
qed

text \<open>
  Cancellation is final: whatever commands run afterwards, results reported by the worker that
  still holds the job included, a cancelled job stays cancelled, is not claimed again and gets no
  result.
\<close>

theorem cancelled_job_final:
  assumes "job_repo_inv s" "api_cancel_job now i cx s = (Inr j, t)" "(job_system_step fr)\<^sup>*\<^sup>* t u"
  shows "\<exists>k. dict_get (jr_jobs u) i = Some k \<and> jb_status k = JS_CANCELLED \<and> job_content k = job_content j
    \<and> jb_attempt_count k = jb_attempt_count j \<and> jb_result_ref k = jb_result_ref j"
proof -
  obtain x where x: "api_get_job s i cx = Inr x"
    using assms(2) by (cases "api_get_job s i cx") (simp_all add: api_cancel_job_def)
  note stored = api_get_job_stored [OF x]
  have "t = put_job i (cancelled_job now x) s" "api_get_job t i cx = Inr j"
    using assms(2) x stored
    by (auto simp: api_cancel_job_def repo_cancel_job_effect [OF assms(1)] update_job_def act_bind_def act_raise_def
        act_lift_def split: if_splits)
  then have "dict_get (jr_jobs t) i = Some j" "jb_status j = JS_CANCELLED"
    by (auto dest!: api_get_job_stored simp: dict_get_put cancelled_job_def)
  moreover have "job_repo_inv t"
    using jobs.inv_run [OF api_cancel_job_step [OF assms(1,2)] assms(1)] .
  ultimately show ?thesis
    using jobs.lookup_run job_system_run_moves [OF assms(3)] by (fastforce simp: job_evolves_def)
qed

lemma worker_claim_Some:
  assumes "job_repo_inv s" "worker_claim fr config w t1 t2 t3 s = (Inr (Some k), t)"
  obtains u x j where "job_repo_inv u"
    "\<And>i. dict_get (jr_jobs u) i = map_option
        (\<lambda>j. if lease_expired t2 j then released_job t2 j else j) (dict_get (jr_jobs s) i)"
    "k = acquired_job t3 (jw_worker_id w) x j" "dict_get (jr_jobs u) (jb_job_id j) = Some j"
    "jb_status j = JS_QUEUED" "t = put_job (jb_job_id j) k u"
proof -
  obtain u where u: "job_repo_inv u" "\<And>i. dict_get (jr_jobs u) i = map_option
        (\<lambda>j. if lease_expired t2 j then released_job t2 j else j) (dict_get (jr_jobs s) i)"
    and acq: "acquire_next_queued_job fr t3 (jw_worker_id w) (jw_lease_seconds w) (jw_job_types w)
        (jw_job_operations w) u = (Inr (Some k), t)"
    by (rule worker_claim_run [OF assms(1), of t2 fr config w t1 t3]) (use assms(2) in auto)
  obtain j x where "k = acquired_job t3 (jw_worker_id w) x j" "dict_get (jr_jobs u) (jb_job_id j) = Some j"
    "jb_status j = JS_QUEUED" "t = put_job (jb_job_id j) k u"
    by (rule acquire_cases [OF u(1), of fr "jw_job_types w" "jw_job_operations w" t3 "jw_worker_id w" "jw_lease_seconds w"])
      (use acq in simp_all)
  with u show ?thesis by (rule that)
qed

lemma worker_claim_leased:
  assumes "job_repo_inv s" "worker_claim fr config w t1 t2 t3 s = (Inr (Some k), t)"
  shows "dict_get (jr_jobs t) (jb_job_id k) = Some k" "jb_status k = JS_RUNNING"
  by (rule worker_claim_Some [OF assms]; simp add: acquired_job_def dict_get_put)+

text \<open>What a report does to the job it names.\<close>

definition reported_job :: "datetime \<Rightarrow> datetime \<Rightarrow> exc + job_result \<Rightarrow> job \<Rightarrow> job" where
  "reported_job t4 t5 answer j =
     (case answer of
        Inl e \<Rightarrow> failed_job t5 (exc_message e) j
      | Inr r \<Rightarrow>
          if jrs_status r = JS_SUCCEEDED \<and> truthy (jrs_result_ref r)
          then succeeded_job t4 (the (jrs_result_ref r)) j
          else if jrs_status r = JS_CANCELLED then cancelled_job t4 j
          else failed_job t4 (the (str_or (jrs_failure_reason r) (Some ''Job execution failed.''))) j)"

lemma worker_finish_effect:
  assumes "job_repo_inv s" "dict_get (jr_jobs s) i = Some j" "jb_status j \<noteq> JS_CANCELLED"
  shows "snd (worker_finish t4 t5 i answer s) = put_job i (reported_job t4 t5 answer j) s"
proof (cases answer)
  case (Inl e)
  have "(fail_and_raise t5 i e :: (job_repo, job option) action) s = (Inl e, put_job i (failed_job t5 (exc_message e) j) s)"
    using assms(2,3) by (simp add: fail_and_raise_def mark_failed_effect [OF assms(1)] act_bind_def update_job_def)
  with Inl show ?thesis by (simp add: worker_finish_def reported_job_def)
next
  case (Inr r)
  have "record_result t4 i r s = (Inr (), put_job i (reported_job t4 t5 answer j) s)"
    using assms(2,3) Inr
    by (auto simp: record_result_def reported_job_def update_job_def mark_succeeded_effect [OF assms(1)]
        mark_failed_effect [OF assms(1)] repo_cancel_job_effect [OF assms(1)])
  with Inr show ?thesis by (simp add: worker_finish_def)
qed

lemma reported_job_terminal: "job_terminal (jb_status (reported_job t4 t5 answer j))"
  by (simp add: reported_job_def job_terminal_def job_transitions split: sum.splits)

text \<open>
  A worker that lost its lease can still overwrite the result. After the lease of a first worker
  has expired, a second one has claimed the same job and succeeded, a late failure of the first turns
  the job into a failed one and erases the result: a report is not checked against the lease.
\<close>

theorem stale_worker_overwrites_result:
  assumes "job_repo_inv s" "worker_claim fr config w a1 a2 a3 s = (Inr (Some j), s1)"
    and "worker_claim fr config w' b1 b2 b3 s1 = (Inr (Some k), s2)" "jb_job_id k = jb_job_id j"
    and "worker_finish c1 c2 (jb_job_id k) (Inr q) s2 = (r, s3)"
    and "jrs_status q = JS_SUCCEEDED" "jrs_result_ref q = Some ref" "ref \<noteq> []"
    and "worker_finish d1 d2 (jb_job_id j) (Inl e) s3 = (r', s4)"
  shows "\<exists>x y. dict_get (jr_jobs s3) (jb_job_id j) = Some x \<and> jb_status x = JS_SUCCEEDED \<and> jb_result_ref x = Some ref
    \<and> dict_get (jr_jobs s4) (jb_job_id j) = Some y \<and> jb_status y = JS_FAILED \<and> jb_result_ref y = None"
proof -
  have inv1: "job_repo_inv s1" using jobs.inv_run [OF worker_claim_step [OF assms(1,2)] assms(1)] .
  have inv2: "job_repo_inv s2" using jobs.inv_run [OF worker_claim_step [OF inv1 assms(3)] inv1] .
  have inv3: "job_repo_inv s3" using jobs.inv_run [OF worker_finish_step [OF inv2 assms(5)] inv2] .
  let ?x = "succeeded_job c1 ref k"
  note k = worker_claim_leased [OF inv1 assms(3)]
  have s3: "dict_get (jr_jobs s3) (jb_job_id j) = Some ?x"
    using worker_finish_effect [OF inv2 k(1), of c1 c2 "Inr q"] k(2) assms(4-8)
    by (simp add: reported_job_def truthy_def dict_get_put)
  have "dict_get (jr_jobs s4) (jb_job_id j) = Some (failed_job d2 (exc_message e) ?x)"
    using worker_finish_effect [OF inv3 s3, of d1 d2 "Inl e"] assms(9)
    by (simp add: reported_job_def dict_get_put succeeded_job_def)
  with s3 show ?thesis by (simp add: succeeded_job_def failed_job_def)
qed

section \<open>Progress\<close>

definition jobs_with :: "job_status \<Rightarrow> job_repo \<Rightarrow> string set" where
  "jobs_with st s = {i. \<exists>j. dict_get (jr_jobs s) i = Some j \<and> jb_status j = st}"

lemma finite_jobs_with: "finite (jobs_with st s)"
proof (rule finite_subset)
  show "jobs_with st s \<subseteq> dom (dict_get (jr_jobs s))" by (auto simp: jobs_with_def)
qed (simp add: finite_dom_map_of)

lemma claimable_unfiltered:
  assumes "claimable_jobs fr [] [] s = []" "job_repo_inv s"
  shows "jobs_with JS_QUEUED s = {}"
proof -
  have "filter (\<lambda>j. jb_status j = JS_QUEUED)
      (sort_key (\<lambda>j. (micros (jb_created_at j), jb_job_id j)) (dict_values (jr_jobs s))) = []"
    using assms(1)
    by (simp add: claimable_jobs_def list_by_status_def repo_list_jobs_def listed_in_def py_prefix_def eq_commute [of JS_QUEUED])
  then show ?thesis
    unfolding jobs_with_def filter_empty_conv using dict_get_Some_values by fastforce
qed

text \<open>
  A round of a worker without filters, when no job is running: either nothing is queued, or one
  queued job becomes terminal and the others stay as they are.
\<close>

lemma run_once_round:
  assumes "job_repo_inv s" "jobs_with JS_RUNNING s = {}" "jw_job_types w = []" "jw_job_operations w = []"
    and "dt_plus (wc_claim t) (jw_lease_seconds w * 1000000) = Inr x"
    and "snd (run_once fr None execute w t s) = s'"
  obtains "jobs_with JS_QUEUED s = {}" "dict_get (jr_jobs s') = dict_get (jr_jobs s)" "job_repo_inv s'"
  | i k where "i \<in> jobs_with JS_QUEUED s" "dict_get (jr_jobs s') = (dict_get (jr_jobs s))(i \<mapsto> k)"
      "job_terminal (jb_status k)" "job_repo_inv s'"
proof -
  let ?claim = "worker_claim fr None w (wc_heartbeat t) (wc_release t) (wc_claim t) s"
  obtain u where u: "job_repo_inv u" "\<And>i. dict_get (jr_jobs u) i = map_option
        (\<lambda>j. if lease_expired (wc_release t) j then released_job (wc_release t) j else j) (dict_get (jr_jobs s) i)"
    and acq: "?claim = acquire_next_queued_job fr (wc_claim t) (jw_worker_id w) (jw_lease_seconds w) [] [] u"
    by (rule worker_claim_run [OF assms(1), of "wc_release t" fr None w "wc_heartbeat t" "wc_claim t"])
      (use assms(3,4) in auto)
  have "\<not> lease_expired n j" if "dict_get (jr_jobs s) i = Some j" for i j n
    using that assms(2) by (auto simp: lease_expired_def jobs_with_def)
  then have "dict_get (jr_jobs u) i = dict_get (jr_jobs s) i" for i
    using u(2) [of i] by (cases "dict_get (jr_jobs s) i") auto
  then have same: "dict_get (jr_jobs u) = dict_get (jr_jobs s)" by blast
  show ?thesis
  proof (rule acquire_cases [OF u(1), of fr "[]" "[]" "wc_claim t" "jw_worker_id w" "jw_lease_seconds w"])
    assume "claimable_jobs fr [] [] u = []"
      and none: "acquire_next_queued_job fr (wc_claim t) (jw_worker_id w) (jw_lease_seconds w) [] [] u = (Inr None, u)"
    then have "jobs_with JS_QUEUED s = {}"
      using claimable_unfiltered [OF _ u(1)] same by (simp add: jobs_with_def)
    moreover have "s' = u" using assms(6) acq none by (simp add: run_once_def act_bind_def)
    ultimately show ?thesis using same u(1) by (intro that(1)) auto
  next
    fix j js y k
    assume k: "k = acquired_job (wc_claim t) (jw_worker_id w) y j" "dict_get (jr_jobs u) (jb_job_id j) = Some j"
      "jb_status j = JS_QUEUED"
      "acquire_next_queued_job fr (wc_claim t) (jw_worker_id w) (jw_lease_seconds w) [] [] u
         = (Inr (Some k), put_job (jb_job_id j) k u)"
    let ?i = "jb_job_id j" and ?v = "put_job (jb_job_id j) k u"
    have step: "job_repo_step u ?v" using job_repo_step.change [OF k(2) job_move.claim [OF k(3)]] k(1) by simp
    have inv: "job_repo_inv ?v" by (rule job_repo_inv_step [OF step u(1)])
    have ids: "jb_job_id k = ?i" "jb_status k = JS_RUNNING" by (simp_all add: k(1) acquired_job_def)
    have s': "s' = snd (worker_finish (wc_finish t) (wc_failure t) ?i (execute k) ?v)"
      using assms(6) acq k(4) ids(1) by (simp add: run_once_def act_bind_def)
    moreover have "dict_get (jr_jobs ?v) ?i = Some k" by (simp add: dict_get_put)
    note fin = worker_finish_effect [OF inv this, of "wc_finish t" "wc_failure t" "execute k"]
    ultimately have "dict_get (jr_jobs s') = (dict_get (jr_jobs s))(?i \<mapsto>
        reported_job (wc_finish t) (wc_failure t) (execute k) k)"
      using ids(2) same by (auto simp: dict_get_put fun_eq_iff)
    moreover have "job_repo_inv s'"
      using jobs.inv_run [OF worker_finish_step [OF inv] inv] s' by (metis surjective_pairing)
    ultimately show ?thesis
      using k(2,3) same reported_job_terminal by (intro that(2) [of ?i]) (auto simp: jobs_with_def)
  qed (use assms(5) in simp)
qed

lemma worker_rounds_drain:
  assumes "job_repo_inv s" "jobs_with JS_RUNNING s = {}" "jw_job_types w = []" "jw_job_operations w = []"
    and "\<forall>t \<in> set ts. \<exists>x. dt_plus (wc_claim t) (jw_lease_seconds w * 1000000) = Inr x"
    and "card (jobs_with JS_QUEUED s) \<le> length ts"
  shows "jobs_with JS_QUEUED (worker_rounds fr execute w ts s) = {}
    \<and> jobs_with JS_RUNNING (worker_rounds fr execute w ts s) = {}
    \<and> dom (dict_get (jr_jobs (worker_rounds fr execute w ts s))) = dom (dict_get (jr_jobs s))"
  using assms
proof (induction ts arbitrary: s)
  case Nil
  then show ?case using finite_jobs_with [of JS_QUEUED s] by (simp add: worker_rounds_def)
next
  case (Cons t ts)
  let ?s = "snd (run_once fr None execute w t s)"
  obtain x where "dt_plus (wc_claim t) (jw_lease_seconds w * 1000000) = Inr x" using Cons.prems(5) by auto
  note round = run_once_round [OF Cons.prems(1-4) this refl, of fr execute]
  have "job_repo_inv ?s \<and> jobs_with JS_RUNNING ?s = {} \<and> card (jobs_with JS_QUEUED ?s) \<le> length ts
    \<and> dom (dict_get (jr_jobs ?s)) = dom (dict_get (jr_jobs s))"
  proof (rule round)
    assume "jobs_with JS_QUEUED s = {}" "dict_get (jr_jobs ?s) = dict_get (jr_jobs s)" "job_repo_inv ?s"
    moreover from this(2) have "jobs_with st ?s = jobs_with st s" for st by (simp add: jobs_with_def)
    ultimately show ?thesis using Cons.prems(2) by simp
  next
    fix i k
    assume i: "i \<in> jobs_with JS_QUEUED s" "dict_get (jr_jobs ?s) = (dict_get (jr_jobs s))(i \<mapsto> k)"
      "job_terminal (jb_status k)" "job_repo_inv ?s"
    then have "jobs_with JS_QUEUED ?s = jobs_with JS_QUEUED s - {i}" "jobs_with JS_RUNNING ?s = {}"
      using Cons.prems(2) by (auto simp: jobs_with_def job_terminal_def)
    with i Cons.prems(6) finite_jobs_with [of JS_QUEUED s] show ?thesis
      by (auto simp: jobs_with_def card_Diff_singleton)
  qed
  with Cons.IH [of ?s] Cons.prems(3-5) show ?case by (simp add: worker_rounds_def)
qed

text \<open>
  C16. A worker drains the queue. When no job is running, as many rounds of a worker without filters as
  there are queued jobs bring every stored job to a terminal status, whatever the handlers answer and
  also when they raise.
\<close>

theorem worker_drains_queue:
  assumes "job_repo_inv s" "jobs_with JS_RUNNING s = {}" "jw_job_types w = []" "jw_job_operations w = []"
    and "\<forall>t \<in> set ts. \<exists>x. dt_plus (wc_claim t) (jw_lease_seconds w * 1000000) = Inr x"
    and "card (jobs_with JS_QUEUED s) \<le> length ts" "dict_get (jr_jobs s) i = Some j"
  shows "\<exists>k. dict_get (jr_jobs (worker_rounds fr execute w ts s)) i = Some k \<and> job_terminal (jb_status k)"
proof -
  let ?s = "worker_rounds fr execute w ts s"
  note drained = worker_rounds_drain [OF assms(1-6), of fr execute]
  with assms(7) have "i \<in> dom (dict_get (jr_jobs ?s))" by auto
  then obtain k where k: "dict_get (jr_jobs ?s) i = Some k" by blast
  with drained have "jb_status k \<noteq> JS_QUEUED" "jb_status k \<noteq> JS_RUNNING" by (auto simp: jobs_with_def)
  then have "job_terminal (jb_status k)" by (cases "jb_status k") (simp_all add: job_terminal_def)
  with k show ?thesis by blast
qed

text \<open>
  The steps that make progress on the work in the repository: a claim that returns a job, a release
  that finds an expired lease, a report on a running job.
\<close>

inductive job_progress :: "(rat \<Rightarrow> string) \<Rightarrow> job_repo \<Rightarrow> job_repo \<Rightarrow> bool" for fr where
  claimed: "job_repo_inv s \<Longrightarrow> worker_claim fr config w t1 t2 t3 s = (Inr (Some j), t) \<Longrightarrow> job_progress fr s t"
| released: "job_repo_inv s \<Longrightarrow> release_expired_leases now s = (Inr n, t) \<Longrightarrow> 0 < n \<Longrightarrow> job_progress fr s t"
| reported: "job_repo_inv s \<Longrightarrow> i \<in> jobs_with JS_RUNNING s \<Longrightarrow> worker_finish t4 t5 i answer s = (r, t) \<Longrightarrow>
    job_progress fr s t"

definition total_work :: "job_repo \<Rightarrow> nat" where
  "total_work s = (\<Sum>i \<in> dom (dict_get (jr_jobs s)). job_work (the (dict_get (jr_jobs s) i)))"

text \<open>Changing jobs in place changes the total as it changes each of them.\<close>

lemma total_work_map:
  assumes "\<And>i. dict_get (jr_jobs t) i = map_option f (dict_get (jr_jobs s) i)"
    and "\<And>i j. dict_get (jr_jobs s) i = Some j \<Longrightarrow> job_work (f j) \<le> job_work j"
  shows "total_work t \<le> total_work s"
    "dict_get (jr_jobs s) i = Some j \<Longrightarrow> job_work (f j) < job_work j \<Longrightarrow> total_work t < total_work s"
proof -
  have d: "dom (dict_get (jr_jobs t)) = dom (dict_get (jr_jobs s))" by (auto simp: dom_def assms(1))
  have le: "job_work (the (dict_get (jr_jobs t) l)) \<le> job_work (the (dict_get (jr_jobs s) l))"
    if "l \<in> dom (dict_get (jr_jobs s))" for l
    using that assms by auto
  show "total_work t \<le> total_work s" unfolding total_work_def d by (rule sum_mono) (rule le)
  show "total_work t < total_work s" if "dict_get (jr_jobs s) i = Some j" "job_work (f j) < job_work j"
    unfolding total_work_def d
  proof (rule sum_strict_mono_ex1 [OF finite_dom_map_of])
    show "\<exists>l \<in> dom (dict_get (jr_jobs s)).
        job_work (the (dict_get (jr_jobs t) l)) < job_work (the (dict_get (jr_jobs s) l))"
      using that by (intro bexI [of _ i]) (auto simp: assms(1))
  qed (use le in blast)
qed

lemma total_work_put:
  assumes "dict_get (jr_jobs s) i = Some j" "job_work k < job_work j"
  shows "total_work (put_job i k s) < total_work s"
proof -
  have d: "dom (dict_get (jr_jobs (put_job i k s))) = dom (dict_get (jr_jobs s))"
    using assms(1) by (auto simp: dict_get_put split: if_splits)
  show ?thesis unfolding total_work_def d
    by (rule sum_strict_mono_ex1 [OF finite_dom_map_of]) (use assms in \<open>auto simp: dict_get_put intro: bexI [of _ i]\<close>)
qed

lemma released_work:
  assumes "job_repo_inv s" "dict_get (jr_jobs s) i = Some j"
  shows "job_work (if lease_expired now j then released_job now j else j) \<le> job_work j"
    "lease_expired now j \<Longrightarrow> job_work (released_job now j) < job_work j"
  using job_work_release [OF job_repo_invD(2) [OF assms], of now] by (auto simp: lease_expired_def)

lemma job_progress_work: "job_progress fr s t \<Longrightarrow> total_work t < total_work s"
proof (induction rule: job_progress.induct)
  case (claimed s config w t1 t2 t3 k t)
  show ?case
  proof (rule worker_claim_Some [OF claimed])
    fix u x j
    assume u: "job_repo_inv u" "\<And>i. dict_get (jr_jobs u) i = map_option
        (\<lambda>j. if lease_expired t2 j then released_job t2 j else j) (dict_get (jr_jobs s) i)"
      and k: "k = acquired_job t3 (jw_worker_id w) x j" "dict_get (jr_jobs u) (jb_job_id j) = Some j"
      "jb_status j = JS_QUEUED" "t = put_job (jb_job_id j) k u"
    have "total_work u \<le> total_work s"
      by (rule total_work_map(1) [OF u(2) released_work(1) [OF claimed(1)]])
    moreover have "total_work t < total_work u"
      unfolding k(4) using job_work_claim [OF job_repo_invD(2) [OF u(1) k(2)] k(3)] k(1)
      by (intro total_work_put [OF k(2)]) simp
    ultimately show ?thesis by simp
  qed
next
  case (released s now n t)
  obtain u where u: "release_expired_leases now s
      = (Inr (int (length (filter (lease_expired now) (dict_values (jr_jobs s))))), u)"
    "\<And>i. dict_get (jr_jobs u) i = map_option
         (\<lambda>j. if lease_expired now j then released_job now j else j) (dict_get (jr_jobs s) i)"
    using release_expired_leases_effect [OF released(1), of now] by blast
  with released(2,3) have "filter (lease_expired now) (dict_values (jr_jobs s)) \<noteq> []" "t = u" by auto
  then obtain j where "j \<in> set (dict_values (jr_jobs s))" "lease_expired now j"
    by (auto simp: filter_empty_conv)
  moreover from this(1) obtain i where "dict_get (jr_jobs s) i = Some j"
    by (rule dict_values_get [OF job_repo_keys(1) [OF released(1)]])
  ultimately show ?case
    using total_work_map(2) [OF u(2) released_work(1) [OF released(1)]] released_work(2) [OF released(1)] \<open>t = u\<close>
    by auto
next
  case (reported s i t4 t5 answer r t)
  then obtain j where j: "dict_get (jr_jobs s) i = Some j" "jb_status j = JS_RUNNING" by (auto simp: jobs_with_def)
  then have t: "t = put_job i (reported_job t4 t5 answer j) s"
    using worker_finish_effect [OF reported(1) j(1), of t4 t5 answer] reported(3) by simp
  have "job_work (reported_job t4 t5 answer j) = 0"
    using reported_job_terminal [of t4 t5 answer j] by (auto simp: job_work_def job_terminal_def)
  moreover have "0 < job_work j" using j(2) by (simp add: job_work_def)
  ultimately show ?case unfolding t by (intro total_work_put [OF j(1)]) simp
qed

text \<open>
  C15. The work terminates: without new submissions and manual retries, claims, expiring leases and
  reports cannot alternate for ever, so workers that crash again and again use a job up after finitely
  many steps.
\<close>

theorem job_progress_terminates: "wfp (\<lambda>t s. job_progress fr s t)"
proof (rule wfp_subset)
  show "wfp (\<lambda>t s. total_work t < total_work s)" by (simp add: wfp_if_convertible_to_nat)
  show "(\<lambda>t s. job_progress fr s t) \<le> (\<lambda>t s. total_work t < total_work s)"
    using job_progress_work by blast
qed

section \<open>Submissions and claims\<close>

lemma submitted_job_key:
  "own_key s (submitted_job fr now i sub)
     = find_job_by_idempotency_key s (job_type_value (jsb_job_type sub)) (jsb_idempotency_key sub)
         (map_option jx_organization_id (jsb_execution_context sub)) (map_option jx_project_id (jsb_execution_context sub))"
  by (simp add: own_key_def submitted_job_def Let_def)

lemma submitted_job_hash:
  "jb_input_hash (submitted_job fr now i sub) = stable_input_hash fr (jsb_input_refs sub)
      (map_option jx_organization_id (jsb_execution_context sub)) (map_option jx_project_id (jsb_execution_context sub))"
  by (simp add: submitted_job_def Let_def)

text \<open>A submission that succeeds finds the job of its key or stores a new one.\<close>

lemma submit_job_InrE:
  assumes "submit_job fr config (now, i) sub s = (Inr x, s')"
  obtains (existing) "own_key s (submitted_job fr now i sub) = Some x" "s' = s"
      "jb_input_hash x = jb_input_hash (submitted_job fr now i sub)"
  | (created) "own_key s (submitted_job fr now i sub) = None" "x = submitted_job fr now i sub" "s' = put_job i x s"
proof (cases "own_key s (submitted_job fr now i sub)")
  case (Some y)
  with assms have "s' = s \<and> x = y \<and> jb_input_hash y = jb_input_hash (submitted_job fr now i sub)"
    by (auto simp: submit_job_def submitted_job_hash submitted_job_key Let_def split: if_splits sum.splits)
  with Some existing show ?thesis by simp
next
  case None
  let ?j = "submitted_job fr now i sub"
  have id: "jb_job_id ?j = i" by (simp add: submitted_job_def Let_def)
  from None assms have "x = ?j \<and> s' = put_job i ?j s"
    unfolding submit_job_def
    by (auto simp: Let_def save_job_def new_job_def checked_Inr_iff submitted_job_key id own_key_def [symmetric]
        act_bind_def act_lift_def act_return_def
        split: sum.splits option.splits if_splits)
  with None created show ?thesis by simp
qed

interpretation submission: idempotent_command
  "\<lambda>fresh. submit_job fr config fresh sub" job_repo_inv "\<lambda>s fresh. dict_get (jr_jobs s) (snd fresh) = None"
proof
  fix s x s' and fresh fresh' :: "datetime \<times> string"
  assume inv: "job_repo_inv s" and new: "dict_get (jr_jobs s) (snd fresh) = None"
    and run: "submit_job fr config fresh sub s = (Inr x, s')"
  obtain now i where fresh: "fresh = (now, i)" by (cases fresh)
  obtain now' i' where fresh': "fresh' = (now', i')" by (cases fresh')
  let ?j = "submitted_job fr now i sub"
  have ok: "checked (submission_checks sub) () = Inr ()"
    using run by (auto simp: submit_job_def fresh Let_def split: sum.splits)
  have settled: "submit_job fr config fresh' sub t = (Inr y, t)"
    if "own_key t ?j = Some y" "jb_input_hash y = jb_input_hash ?j" for t y
    using that ok by (simp add: submit_job_def fresh' submitted_job_hash submitted_job_key Let_def)
  from run [unfolded fresh] show "submit_job fr config fresh' sub s' = (Inr x, s')"
  proof (cases rule: submit_job_InrE)
    case existing
    with settled show ?thesis by simp
  next
    case created
    have "jb_job_id ?j = i" by (simp add: submitted_job_def Let_def)
    then have "own_key s' ?j = Some ?j"
      using created own_key_insert [of s ?j ?j] has_own_key [of ?j] new fresh by simp
    with created settled show ?thesis by simp
  qed
qed

lemma job_type_value_inj: "job_type_value a = job_type_value b \<Longrightarrow> a = b"
  by (cases a; cases b) simp_all

lemma submit_job_returns:
  assumes "job_repo_inv s" "submit_job fr config fresh sub s = (Inr j, t)"
  shows "dict_get (jr_jobs t) (jb_job_id j) = Some j \<and> jb_job_type j = jsb_job_type sub
    \<and> jb_idempotency_key j = jsb_idempotency_key sub"
proof -
  obtain now i where fresh: "fresh = (now, i)" by (cases fresh)
  from assms(2) [unfolded fresh] show ?thesis
  proof (cases rule: submit_job_InrE)
    case existing
    then have "j \<in> set (dict_values (jr_jobs s))" "job_type_value (jb_job_type j) = job_type_value (jsb_job_type sub)"
        "jb_idempotency_key j = jsb_idempotency_key sub"
      by (auto simp: submitted_job_key find_job_by_idempotency_key_def find_Some_iff has_key_def)
    moreover from this(1) obtain k where "dict_get (jr_jobs s) k = Some j"
      using dict_values_get [OF job_repo_keys(1) [OF assms(1)]] by blast
    ultimately show ?thesis using job_repo_invD(1) [OF assms(1)] job_type_value_inj existing(2) by auto
  next
    case created
    then show ?thesis by (simp add: submitted_job_def Let_def dict_get_put)
  qed
qed

text \<open>
  Submitting a job again is harmless: after a submission has returned a job, every repetition
  returns that job and creates no other, although each of them reads another clock and draws another
  identifier.
\<close>

lemma submission_retries_idempotent:
  assumes "job_repo_inv s" "dict_get (jr_jobs s) (snd fresh) = None"
    and "submit_job fr config fresh sub s = (Inr j, t)"
  shows "submission.retries fr config sub attempts t = (Inr (replicate (length attempts) j), t)"
  using assms by (rule submission.retries_same)

text \<open>
  A specialised worker can starve. The claim looks at the 100 oldest queued jobs and filters them
  by type afterwards, so while these are of other types the worker finds nothing to do, although a
  job of its type is queued behind them.
\<close>

theorem claim_window_starves:
  assumes "list_by_status s JS_QUEUED n = early @ j # late" "length early = 100"
    and "\<forall>x \<in> set early. jb_job_type x \<notin> set types" "jb_job_type j \<in> set types"
  shows "acquire_next_queued_job fr now w lease types [] s = (Inr None, s)"
proof -
  obtain xs m where xs: "list_by_status s JS_QUEUED 100 = take 100 xs" "take m xs = early @ j # late"
    using assms(1) unfolding list_by_status_def repo_list_jobs_def py_prefix_def by (auto split: if_splits)
  from xs(2) assms(2) have "100 \<le> m" by (metis length_append length_take min.cobounded2 le_add1 order_trans)
  with xs(2) assms(2) have "take 100 xs = early"
    by (metis append_eq_conv_conj min.absorb1 take_take)
  with xs(1) have "list_by_status s JS_QUEUED 100 = early" by simp
  moreover have "types \<noteq> []" using assms(4) by auto
  ultimately have "claimable_jobs fr types [] s = []"
    using assms(3) by (simp add: claimable_jobs_def filter_empty_conv)
  then show ?thesis by (simp add: acquire_next_queued_job_def)
qed

end
