(* ===== verification/Replay_Service.thy ===== *)
theory Replay_Service
  imports Replay_Result Job_Service
begin

text \<open>
  \<open>services/replay_application_service.py\<close>: the validation that freezes the evidence of a source
  execution, and the commands on replays, over the replay repository, the job control plane and the
  repository of results. The control plane's permission check, the plugins that may narrow an
  operation, the settings and the provider installations are
  parameters of \<open>replay_env\<close>; the publication of lifecycle events to the optional bus is left
  out. Metadata are values of \<open>pyval\<close>, so \<open>json.dumps\<close> never needs its \<open>default\<close>. Each
  reading of the clock and each generated identifier is an argument.
\<close>

section \<open>The source of a replay\<close>

record workflow_execution =
  wx_workflow_id :: string
  wx_execution_id :: string
  wx_workflow_name :: string
  wx_workflow_version :: string
  wx_execution_status :: string
  wx_input :: "(string \<times> pyval) list option"
  wx_final_state :: "(string \<times> pyval) list option"
  wx_events :: "pyval list"
  wx_organization_id :: string
  wx_project_id :: string
  wx_execution_adapter :: string
  wx_input_snapshot_ref :: "string option"
  wx_state_snapshot_ref :: "string option"
  wx_artifact_refs :: "string list option"
  wx_prompt_refs :: "string list option"
  wx_model_refs :: "string list option"
  wx_dataset_refs :: "string list option"
  wx_policy_refs :: "string list option"
  wx_runtime_parameters :: "(string \<times> pyval) list option"
  wx_metadata :: "(string \<times> pyval) list"
  wx_created_at :: "datetime option"

text \<open>
  \<open>InMemoryReplaySourceResolver\<close> of \<open>replay_execution_discovery.py\<close>: the store of source and
  produced executions, by tenant and identifier.
\<close>

type_synonym execution_store = "(string \<times> string \<times> string, workflow_execution) dict"

definition cx_project :: "tenant_context \<Rightarrow> string" where
  "cx_project cx = opt_or (cx_project_id cx) []"

definition source_key :: "tenant_context \<Rightarrow> string \<Rightarrow> string \<times> string \<times> string" where
  "source_key cx execution_id = (cx_organization_id cx, cx_project cx, execution_id)"

definition upsert_execution :: "workflow_execution \<Rightarrow> execution_store \<Rightarrow> execution_store" where
  "upsert_execution x s = dict_put (wx_organization_id x, wx_project_id x, wx_execution_id x) x s"

definition get_source_execution :: "execution_store \<Rightarrow> string \<Rightarrow> tenant_context \<Rightarrow> workflow_execution option" where
  "get_source_execution s execution_id cx = dict_get s (source_key cx execution_id)"

abbreviation list_or :: "'a list option \<Rightarrow> 'a list" where
  "list_or v \<equiv> opt_or v []"

definition hash_value :: "(rat \<Rightarrow> string) \<Rightarrow> pyval \<Rightarrow> string" where
  "hash_value fr v = sha256_hex (json_dumps fr v)"

definition inline_reference :: "(rat \<Rightarrow> string) \<Rightarrow> string \<Rightarrow> pyval \<Rightarrow> string" where
  "inline_reference fr kind v = ''inline:'' @ kind @ '':'' @ hash_value fr v"

definition is_mutable_alias :: "string \<Rightarrow> bool" where
  "is_mutable_alias reference =
     list_ex (\<lambda>token. py_lower token \<in> {''latest'', ''active'', ''current'', ''default''})
       (py_split (CHR '':'') (replace_char (CHR ''/'') (CHR '':'') reference))"

definition not_replayable :: "string \<Rightarrow> exc" where
  "not_replayable message = Exc ReplayNotReplayable message"

definition manifest_from_source_metadata :: "workflow_execution \<Rightarrow> exc + replay_manifest option" where
  "manifest_from_source_metadata x =
     (case pget (wx_metadata x) ''replay_manifest'' of
        PNone \<Rightarrow> Inr None
      | PDict d \<Rightarrow>
          (case manifest_from_dict (PDict d) of
             Inl e \<Rightarrow> Inl (not_replayable ''Source replay manifest is malformed.'')
           | Inr m \<Rightarrow> Inr (Some m))
      | _ \<Rightarrow> Inl (not_replayable ''Source replay manifest is malformed.''))"

text \<open>The execution that the evidence names, when it is a string that is not blank.\<close>

definition source_identity :: "workflow_execution \<Rightarrow> string option" where
  "source_identity x =
     (case map_of (wx_metadata x) ''source_agent_execution_id'' of
        None \<Rightarrow> if blank (wx_execution_id x) then None else Some (wx_execution_id x)
      | Some (PStr i) \<Rightarrow> if blank i then None else Some i
      | _ \<Rightarrow> None)"

definition manifest_binding_checks :: "workflow_execution \<Rightarrow> replay_manifest \<Rightarrow> (bool \<times> exc) list" where
  "manifest_binding_checks x m =
     [(source_identity x = None, not_replayable ''Source replay manifest has an invalid source binding.''),
      (source_identity x \<noteq> Some (mf_source_execution_id m),
       not_replayable ''Source replay manifest belongs to another execution.''),
      (mf_adapter_id m \<noteq> Some (wx_execution_adapter x),
       not_replayable ''Source replay manifest adapter does not match source evidence.''),
      (mf_replay_reference m \<notin> Some ` set (list_or (wx_artifact_refs x)),
       not_replayable ''Source replay manifest reference is absent from frozen source evidence.'')]"

definition source_checks :: "workflow_execution \<Rightarrow> tenant_context \<Rightarrow> (bool \<times> exc) list" where
  "source_checks x cx =
     [(wx_organization_id x \<noteq> cx_organization_id cx \<or> wx_project_id x \<noteq> cx_project cx,
       not_replayable ''Source execution belongs to another project.''),
      (blank (wx_workflow_id x) \<or> blank (wx_workflow_version x),
       not_replayable ''Source execution is missing workflow version evidence.''),
      (wx_input x = None, not_replayable ''Source execution is missing its input snapshot.''),
      (wx_final_state x = None, not_replayable ''Source execution is missing its state snapshot.''),
      (blank (wx_execution_adapter x), not_replayable ''Source execution is missing its execution adapter.'')]"

definition manifest_assessment :: "workflow_execution \<Rightarrow> replay_manifest option \<Rightarrow> (bool \<times> exc) list" where
  "manifest_assessment x manifest =
     (case manifest of None \<Rightarrow> []
      | Some m \<Rightarrow>
          (let reason = hd (mf_reasons m) in
           (\<not> is_eligible m,
            not_replayable (''Source replay manifest is ineligible: '' @ reason_code_value (mr_code reason)
              @ '': '' @ mr_message reason))
           # manifest_binding_checks x m))"

definition of_opt_dict :: "(string \<times> pyval) list option \<Rightarrow> pyval" where
  "of_opt_dict v = (case v of None \<Rightarrow> PNone | Some d \<Rightarrow> PDict d)"

definition frozen_input :: "(rat \<Rightarrow> string) \<Rightarrow> workflow_execution \<Rightarrow> string" where
  "frozen_input fr x = the (str_or (wx_input_snapshot_ref x) (Some (inline_reference fr ''input'' (of_opt_dict (wx_input x)))))"

definition frozen_state :: "(rat \<Rightarrow> string) \<Rightarrow> workflow_execution \<Rightarrow> string" where
  "frozen_state fr x = the (str_or (wx_state_snapshot_ref x) (Some (inline_reference fr ''state'' (of_opt_dict (wx_final_state x)))))"

definition frozen_references :: "(rat \<Rightarrow> string) \<Rightarrow> workflow_execution \<Rightarrow> string list" where
  "frozen_references fr x =
     frozen_input fr x # frozen_state fr x # list_or (wx_artifact_refs x) @ list_or (wx_prompt_refs x)
     @ list_or (wx_model_refs x) @ list_or (wx_dataset_refs x) @ list_or (wx_policy_refs x)"

definition configuration_payload ::
  "(rat \<Rightarrow> string) \<Rightarrow> workflow_execution \<Rightarrow> replay_manifest option \<Rightarrow> pyval" where
  "configuration_payload fr x manifest =
     (let refs = (\<lambda>v. PList (map PStr (list_or v))) in
      PDict
       [(''workflow_id'', PStr (wx_workflow_id x)), (''workflow_version'', PStr (wx_workflow_version x)),
        (''execution_adapter'', PStr (wx_execution_adapter x)),
        (''input_snapshot_ref'', PStr (frozen_input fr x)), (''state_snapshot_ref'', PStr (frozen_state fr x)),
        (''artifact_refs'', refs (wx_artifact_refs x)), (''prompt_refs'', refs (wx_prompt_refs x)),
        (''model_refs'', refs (wx_model_refs x)), (''dataset_refs'', refs (wx_dataset_refs x)),
        (''policy_refs'', refs (wx_policy_refs x)),
        (''runtime_parameters'', PDict (list_or (wx_runtime_parameters x))),
        (''configuration_source'', PStr ''ORIGINAL''),
        (''replay_manifest'', case manifest of None \<Rightarrow> PNone | Some m \<Rightarrow> PDict (manifest_to_dict m))])"

definition validate_source ::
  "(rat \<Rightarrow> string) \<Rightarrow> datetime \<Rightarrow> workflow_execution \<Rightarrow> tenant_context \<Rightarrow> exc + replay_configuration" where
  "validate_source fr now x cx =
     res_bind (checked (source_checks x cx) ()) (\<lambda>_.
     res_bind (manifest_from_source_metadata x) (\<lambda>manifest.
     res_bind (checked (manifest_assessment x manifest
       @ [(list_ex is_mutable_alias (frozen_references fr x),
           not_replayable ''Source execution contains a mutable configuration reference.'')]) ()) (\<lambda>_.
     new_configuration
       \<lparr>rf_workflow_id = wx_workflow_id x, rf_workflow_version = wx_workflow_version x,
        rf_execution_adapter = wx_execution_adapter x, rf_input_snapshot_ref = frozen_input fr x,
        rf_state_snapshot_ref = frozen_state fr x, rf_artifact_refs = list_or (wx_artifact_refs x),
        rf_prompt_refs = list_or (wx_prompt_refs x), rf_model_refs = list_or (wx_model_refs x),
        rf_dataset_refs = list_or (wx_dataset_refs x), rf_policy_refs = list_or (wx_policy_refs x),
        rf_runtime_parameters = list_or (wx_runtime_parameters x), rf_resolved_at = Some now,
        rf_configuration_hash = hash_value fr (configuration_payload fr x manifest),
        rf_replay_manifest = manifest\<rparr>)))"

section \<open>The service and what it relies on\<close>

record resource_facts =
  af_resource_type :: string
  af_resource_id :: string
  af_organization_id :: string
  af_project_id :: "string option"
  af_owner_id :: "string option"
  af_lifecycle_state :: "string option"
  af_environment :: "string option"
  af_classification :: "string option"
  af_version :: "int option"
  af_attributes :: "(string \<times> pyval) list"

record enforcement_request =
  eq_context :: tenant_context
  eq_action :: string
  eq_resource :: resource_facts

record enforcement_decision =
  ed_allowed :: bool
  ed_reason_code :: string
  ed_decision_id :: "string option"

type_synonym enforcer = "enforcement_request \<Rightarrow> exc + enforcement_decision"

record replay_settings =
  rg_max_attempts :: int
  rg_evaluation_max_attempts :: int
  rg_drift_threshold_policy :: "(string \<times> pyval) list"

record replay_env =
  rv_fr :: "rat \<Rightarrow> string"
  rv_require :: "(tenant_context \<Rightarrow> string \<Rightarrow> exc + unit) option"
  rv_enforcers :: "enforcer list"
  rv_job_service :: "job_config option option"
  rv_settings :: "(tenant_context \<Rightarrow> replay_settings) option"
  rv_providers :: "(string \<Rightarrow> tenant_context \<Rightarrow> exc + string) option"

record replay_system =
  rs_replays :: replay_repo
  rs_jobs :: job_repo
  rs_results :: "result_repo option"
  rs_executions :: execution_store

abbreviation on_replays :: "(replay_repo, 'a) action \<Rightarrow> (replay_system, 'a) action" where
  "on_replays \<equiv> act_on rs_replays (\<lambda>t s. s\<lparr>rs_replays := t\<rparr>)"

abbreviation on_jobs :: "(job_repo, 'a) action \<Rightarrow> (replay_system, 'a) action" where
  "on_jobs \<equiv> act_on rs_jobs (\<lambda>t s. s\<lparr>rs_jobs := t\<rparr>)"

definition replay_authorize :: "replay_env \<Rightarrow> tenant_context \<Rightarrow> string \<Rightarrow> exc + unit" where
  "replay_authorize env cx permission =
     (case rv_require env of None \<Rightarrow> Inr ()
      | Some require \<Rightarrow>
          (case require cx permission of
             Inl e \<Rightarrow> Inl (if exc_kind e = AuthorizationDenied then Exc ReplayUnauthorized (exc_message e) else e)
           | Inr _ \<Rightarrow> Inr ()))"

fun enforce_all :: "enforcer list \<Rightarrow> enforcement_request \<Rightarrow> exc + unit" where
  "enforce_all [] q = Inr ()"
| "enforce_all (f # fs) q =
     (case f q of
        Inl e \<Rightarrow> Inl (Exc ReplayUnauthorized ''Fine-grained authorization evaluation failed.'')
      | Inr d \<Rightarrow>
          if \<not> ed_allowed d
          then Inl (Exc ReplayUnauthorized
            (ed_reason_code d
             @ (if truthy (ed_decision_id d) then '' (decision '' @ the (ed_decision_id d) @ '')'' else [])))
          else enforce_all fs q)"

definition enforce_operation :: "replay_env \<Rightarrow> tenant_context \<Rightarrow> string \<Rightarrow> replay \<Rightarrow> exc + unit" where
  "enforce_operation env cx action r =
     enforce_all (rv_enforcers env)
       \<lparr>eq_context = cx, eq_action = action,
        eq_resource =
          \<lparr>af_resource_type = ''Replay'', af_resource_id = rp_replay_id r, af_organization_id = rp_organization_id r,
           af_project_id = (if rp_project_id r = [] then None else Some (rp_project_id r)),
           af_owner_id = Some (rp_requested_by r), af_lifecycle_state = Some (replay_status_value (rp_status r)),
           af_environment = None, af_classification = None, af_version = Some (rp_version r),
           af_attributes = []\<rparr>\<rparr>"

definition replay_max_attempts :: "replay_env \<Rightarrow> tenant_context \<Rightarrow> int" where
  "replay_max_attempts env cx = (case rv_settings env of None \<Rightarrow> 3 | Some f \<Rightarrow> rg_max_attempts (f cx))"

definition evaluation_max_attempts :: "replay_env \<Rightarrow> tenant_context \<Rightarrow> int" where
  "evaluation_max_attempts env cx = (case rv_settings env of None \<Rightarrow> 3 | Some f \<Rightarrow> rg_evaluation_max_attempts (f cx))"

definition drift_threshold_policy :: "replay_env \<Rightarrow> tenant_context \<Rightarrow> (string \<times> pyval) list" where
  "drift_threshold_policy env cx =
     (case rv_settings env of None \<Rightarrow> [(''policy'', PStr ''governance-default-v1'')]
      | Some f \<Rightarrow> rg_drift_threshold_policy (f cx))"

text \<open>Mode and configuration source are read from their values.\<close>

definition replay_mode :: "string \<Rightarrow> exc + unit" where
  "replay_mode v = checked [(v \<noteq> ''FULL'', Exc ReplayInvalidMode ''Only FULL replay mode is supported.'')] ()"

definition configuration_source :: "string \<Rightarrow> exc + unit" where
  "configuration_source v =
     checked [(v \<noteq> ''ORIGINAL'', not_replayable ''Only ORIGINAL replay configuration is supported.'')] ()"

definition resolve_configuration ::
  "replay_env \<Rightarrow> datetime \<Rightarrow> string \<Rightarrow> tenant_context \<Rightarrow> replay_system \<Rightarrow> exc + replay_configuration" where
  "resolve_configuration env now source_execution_id cx s =
     (case get_source_execution (rs_executions s) source_execution_id cx of
        None \<Rightarrow> Inl (Exc ReplaySourceNotFound (''Source execution '' @ quoted source_execution_id @ '' was not found.''))
      | Some x \<Rightarrow> validate_source (rv_fr env) now x cx)"

section \<open>Creation and reading\<close>

definition intervention_payload :: "intervention option \<Rightarrow> pyval" where
  "intervention_payload v =
     (case v of None \<Rightarrow> PNone
      | Some i \<Rightarrow> PDict
         [(''strategy'', PStr (strategy_value (iv_strategy i))), (''strategy_version'', PStr (iv_strategy_version i)),
          (''source_evidence_reference'', PStr (iv_source_evidence_reference i)),
          (''target_event_id'', of_opt_str (iv_target_event_id i)),
          (''counterfactual_evidence_reference'', of_opt_str (iv_counterfactual_evidence_reference i)),
          (''seed'', of_opt_int (iv_seed i)), (''configuration'', PDict (iv_configuration i)),
          (''policy_id'', of_opt_str (iv_policy_id i)), (''policy_version'', of_opt_int (iv_policy_version i)),
          (''provider_id'', of_opt_str (iv_provider_id i)), (''provider_version'', of_opt_str (iv_provider_version i)),
          (''original_evidence_digest'', of_opt_str (iv_original_evidence_digest i)),
          (''counterfactual_evidence_digest'', of_opt_str (iv_counterfactual_evidence_digest i)),
          (''intervention_digest'', PStr (iv_intervention_digest i))])"

record create_request =
  cq_source_execution_id :: string
  cq_idempotency_key :: string
  cq_mode :: string
  cq_configuration_source :: string
  cq_metadata :: "(string \<times> pyval) list"
  cq_intervention :: "intervention option"

text \<open>The identifier a creation generates and the readings of its clock, in their order.\<close>

record create_fresh =
  cf_replay_id :: string
  cf_created :: datetime
  cf_resolved :: datetime
  cf_ready :: datetime
  cf_occurred :: datetime
  cf_failed :: datetime

definition request_hash :: "replay_env \<Rightarrow> create_request \<Rightarrow> tenant_context \<Rightarrow> string" where
  "request_hash env q cx =
     hash_value (rv_fr env) (PDict
       [(''organization_id'', PStr (cx_organization_id cx)), (''project_id'', PStr (cx_project cx)),
        (''source_execution_id'', PStr (cq_source_execution_id q)), (''mode'', PStr (cq_mode q)),
        (''configuration_source'', PStr (cq_configuration_source q)), (''metadata'', PDict (cq_metadata q)),
        (''controlled_evidence_intervention'', intervention_payload (cq_intervention q))])"

definition draft_request :: "replay_env \<Rightarrow> create_request \<Rightarrow> tenant_context \<Rightarrow> replay_request" where
  "draft_request env q cx =
     \<lparr>rr_source_execution_id = cq_source_execution_id q, rr_requested_by = cx_actor_id cx,
      rr_organization_id = cx_organization_id cx, rr_project_id = cx_project cx, rr_request_id = cx_request_id cx,
      rr_correlation_id = cx_correlation_id cx, rr_idempotency_key = cq_idempotency_key q,
      rr_input_hash = request_hash env q cx, rr_metadata = cq_metadata q, rr_intervention = cq_intervention q\<rparr>"

text \<open>The failure recorded for the two classes of errors that a creation handles.\<close>

definition resolution_failure :: "exc \<Rightarrow> string \<Rightarrow> datetime \<Rightarrow> exc + replay_failure" where
  "resolution_failure e source_execution_id now =
     new_failure
       \<lparr>ry_code = class_name (exc_kind e),
        ry_message = exc_message e,
        ry_stage = (if exc_kind e = ReplaySourceNotFound then FS_SOURCE_RESOLUTION else FS_VALIDATION),
        ry_details = [(''source_execution_id'', PStr source_execution_id)], ry_occurred_at = now\<rparr>"

definition freeze_draft ::
  "replay_env \<Rightarrow> create_fresh \<Rightarrow> create_request \<Rightarrow> tenant_context \<Rightarrow> replay \<Rightarrow> (replay_system, replay) action" where
  "freeze_draft env fresh q cx draft s =
     (case resolve_configuration env (cf_resolved fresh) (cq_source_execution_id q) cx s of
        Inr configuration \<Rightarrow>
          act_bind (act_lift (replay_mark_ready configuration (cf_ready fresh) draft)) (\<lambda>ready.
          on_replays (save_replay ready (Some (rp_version draft)))) s
      | Inl e \<Rightarrow>
          if exc_kind e \<in> {ReplaySourceNotFound, ReplayNotReplayable}
          then act_bind (act_lift (resolution_failure e (cq_source_execution_id q) (cf_occurred fresh))) (\<lambda>failure.
               act_bind (act_lift (replay_mark_failed failure (cf_failed fresh) draft)) (\<lambda>failed.
               on_replays (save_replay failed (Some (rp_version draft))))) s
          else act_raise e s)"

definition service_create_replay ::
  "replay_env \<Rightarrow> create_request \<Rightarrow> tenant_context \<Rightarrow> create_fresh \<Rightarrow> (replay_system, replay) action" where
  "service_create_replay env q cx fresh s =
     act_bind (act_lift (replay_authorize env cx ''replay.create'')) (\<lambda>_.
     act_bind (act_lift (replay_mode (cq_mode q))) (\<lambda>_.
     act_bind (act_lift (configuration_source (cq_configuration_source q))) (\<lambda>_.
     case find_replay_by_idempotency (rs_replays s) (cq_idempotency_key q) (cx_organization_id cx) (cx_project cx) of
       Some existing \<Rightarrow>
         if rp_input_hash existing = request_hash env q cx then act_return existing
         else act_raise (Exc ReplayIdempotencyConflict
           ''Idempotency key was already used for a different replay request.'')
     | None \<Rightarrow>
         act_bind (act_lift (create_replay (cf_replay_id fresh) (draft_request env q cx) (cf_created fresh))) (\<lambda>draft0.
         act_bind (on_replays (save_replay draft0 None)) (\<lambda>draft.
         freeze_draft env fresh q cx draft))))) s"

definition dry_run ::
  "replay_env \<Rightarrow> datetime \<Rightarrow> string \<Rightarrow> string \<Rightarrow> string \<Rightarrow> tenant_context \<Rightarrow> replay_system
     \<Rightarrow> exc + replay_configuration" where
  "dry_run env now source_execution_id mode source cx s =
     res_bind (replay_authorize env cx ''replay.create'') (\<lambda>_.
     res_bind (replay_mode mode) (\<lambda>_.
     res_bind (configuration_source source) (\<lambda>_.
     resolve_configuration env now source_execution_id cx s)))"

definition service_get_replay :: "replay_env \<Rightarrow> string \<Rightarrow> tenant_context \<Rightarrow> replay_system \<Rightarrow> exc + replay" where
  "service_get_replay env replay_id cx s =
     res_bind (replay_authorize env cx ''replay.read'') (\<lambda>_.
     case get_replay (rs_replays s) replay_id (cx_organization_id cx) (cx_project cx) of
       None \<Rightarrow> Inl (Exc ReplayNotFound (''Replay '' @ quoted replay_id @ '' was not found.''))
     | Some r \<Rightarrow> Inr r)"

definition default_replay_filters :: replay_filters where
  "default_replay_filters =
     \<lparr>pf_status = None, pf_source_execution_id = None, pf_requested_by = None, pf_created_after = None,
      pf_created_before = None, pf_limit = 100\<rparr>"

definition service_list_replays ::
  "replay_env \<Rightarrow> tenant_context \<Rightarrow> replay_filters option \<Rightarrow> replay_system \<Rightarrow> exc + replay list" where
  "service_list_replays env cx filters s =
     res_bind (replay_authorize env cx ''replay.read'') (\<lambda>_.
     list_replays (rs_replays s) (opt_or filters default_replay_filters) (cx_organization_id cx) (cx_project cx))"

definition list_recent_terminal ::
  "replay_env \<Rightarrow> tenant_context \<Rightarrow> int \<Rightarrow> replay_system \<Rightarrow> exc + replay list" where
  "list_recent_terminal env cx limit s =
     (if \<not> (1 \<le> limit \<and> limit \<le> 20)
      then Inl (Exc ValueError ''Replay history limit must be between 1 and 20.'')
      else
        res_bind (replay_authorize env cx ''replay.read'') (\<lambda>_.
        res_bind (list_replays (rs_replays s) default_replay_filters (cx_organization_id cx) (cx_project cx)) (\<lambda>replays.
        Inr (slice_upto limit (sort_key_reverse (\<lambda>r. micros (opt_or (rp_completed_at r) (rp_updated_at r)))
          (filter (\<lambda>r. rp_status r \<in> {RPS_COMPLETED, RPS_FAILED, RPS_CANCELLED, RPS_ARCHIVED}) replays))))))"

definition service_archive_replay ::
  "replay_env \<Rightarrow> datetime \<Rightarrow> string \<Rightarrow> tenant_context \<Rightarrow> (replay_system, replay) action" where
  "service_archive_replay env now replay_id cx s =
     act_bind (act_lift (replay_authorize env cx ''replay.archive'')) (\<lambda>_.
     act_bind (act_lift (service_get_replay env replay_id cx s)) (\<lambda>r.
     act_bind (act_reraise (\<lambda>e. if is_value_error (exc_kind e) then Exc ReplayInvalidTransition (exc_message e) else e)
       (act_lift (replay_archive now r))) (\<lambda>archived.
     on_replays (save_replay archived (Some (rp_version r)))))) s"

section \<open>Execution and cancellation\<close>

definition scope_refs :: "tenant_context \<Rightarrow> (string \<times> pyval) list" where
  "scope_refs cx =
     [(''organization_id'', PStr (cx_organization_id cx)), (''project_id'', PStr (cx_project cx)),
      (''request_id'', PStr (cx_request_id cx)), (''correlation_id'', of_opt_str (cx_correlation_id cx))]"

definition job_context_of :: "tenant_context \<Rightarrow> job_context" where
  "job_context_of cx =
     \<lparr>jx_organization_id = cx_organization_id cx, jx_project_id = cx_project cx, jx_actor_id = cx_actor_id cx,
      jx_submitted_request_id = cx_request_id cx, jx_correlation_id = cx_correlation_id cx\<rparr>"

definition replay_job_key :: "string \<Rightarrow> string \<Rightarrow> string \<Rightarrow> string \<Rightarrow> string" where
  "replay_job_key kind organization_id project_id replay_id =
     kind @ '':'' @ organization_id @ '':'' @ project_id @ '':'' @ replay_id"

definition execution_submission ::
  "replay_env \<Rightarrow> tenant_context \<Rightarrow> replay \<Rightarrow> replay_configuration \<Rightarrow> job_submission" where
  "execution_submission env cx r configuration =
     \<lparr>jsb_job_type = JT_REPLAY_EXECUTION,
      jsb_input_refs =
        [(''replay_id'', PStr (rp_replay_id r)), (''source_execution_id'', PStr (rp_source_execution_id r)),
         (''configuration_hash'', PStr (rf_configuration_hash configuration)),
         (''execution_adapter'', PStr (rf_execution_adapter configuration))] @ scope_refs cx,
      jsb_idempotency_key =
        replay_job_key ''replay-execution'' (cx_organization_id cx) (cx_project cx) (rp_replay_id r),
      jsb_submitted_by = cx_actor_id cx, jsb_max_attempts = replay_max_attempts env cx,
      jsb_execution_context = Some (job_context_of cx)\<rparr>"

definition not_ready :: "string \<Rightarrow> exc" where
  "not_ready replay_id = Exc ReplayNotReady (''Replay '' @ quoted replay_id @ '' is not ready for execution submission.'')"

text \<open>\<open>fresh\<close> is the clock reading and the identifier of the job, \<open>now\<close> the service's own reading.\<close>

definition submit_replay ::
  "replay_env \<Rightarrow> string \<Rightarrow> tenant_context \<Rightarrow> (datetime \<times> string) \<times> datetime \<Rightarrow> (replay_system, replay) action" where
  "submit_replay env replay_id cx e s =
     (let (fresh, now) = e in
     act_bind (act_lift (replay_authorize env cx ''replay.execute'')) (\<lambda>_.
     act_bind (act_lift (service_get_replay env replay_id cx s)) (\<lambda>r.
     act_bind (act_lift (enforce_operation env cx ''replay.execute'' r)) (\<lambda>_.
     if rp_status r \<in> {RPS_QUEUED, RPS_RUNNING, RPS_EXECUTION_COMPLETED} then act_return r
     else case rp_configuration r of
       None \<Rightarrow> act_raise (not_ready replay_id)
     | Some configuration \<Rightarrow>
       if rp_status r \<noteq> RPS_READY then act_raise (not_ready replay_id)
       else case rv_job_service env of
         None \<Rightarrow> act_raise (Exc ReplayJobSubmissionFailed ''Replay job service is not configured.'')
       | Some config \<Rightarrow>
           act_bind (act_reraise
             (\<lambda>x. Exc ReplayJobSubmissionFailed (''Replay job submission failed: '' @ exc_message x))
             (on_jobs (submit_job (rv_fr env) config fresh (execution_submission env cx r configuration)))) (\<lambda>job.
           act_reraise (\<lambda>x. if is_value_error (exc_kind x) then Exc ReplayNotReady (exc_message x) else x)
             (act_bind (act_lift (replay_mark_queued (jb_job_id job) now r)) (\<lambda>queued.
              on_replays (save_replay queued (Some (rp_version r))))))))) s)"

definition cancellable :: "replay_status set" where
  "cancellable = insert RPS_READY replay_active"

definition linked_job :: "replay \<Rightarrow> string option" where
  "linked_job r = (if rp_status r \<in> {RPS_EVALUATING, RPS_COMPARING} then rp_evaluation_job_id r else rp_job_id r)"

definition not_cancellable :: "string \<Rightarrow> replay \<Rightarrow> exc" where
  "not_cancellable replay_id r = Exc ReplayNotCancellable
     (''Replay '' @ quoted replay_id @ '' cannot be cancelled from '' @ replay_status_value (rp_status r) @ ''.'')"

text \<open>The clock is read for the request, by the job service, and for the transition.\<close>

definition cancel_replay ::
  "replay_env \<Rightarrow> string \<Rightarrow> tenant_context \<Rightarrow> datetime \<times> datetime \<times> datetime \<Rightarrow> (replay_system, replay) action" where
  "cancel_replay env replay_id cx e s =
     (let (t1, t2, t3) = e in
     act_bind (act_lift (replay_authorize env cx ''replay.cancel'')) (\<lambda>_.
     act_bind (act_lift (service_get_replay env replay_id cx s)) (\<lambda>r.
     act_bind (act_lift (enforce_operation env cx ''replay.cancel'' r)) (\<lambda>_.
     if rp_status r \<notin> cancellable then act_raise (not_cancellable replay_id r)
     else
       act_bind (act_lift (request_cancellation t1 r)) (\<lambda>requested.
       if rp_status r = RPS_READY
       then act_bind (act_lift (mark_cancelled t3 requested)) (\<lambda>cancelled.
            on_replays (save_replay cancelled (Some (rp_version r))))
       else case (rv_job_service env, linked_job r) of
         (Some config, Some job_id) \<Rightarrow>
           act_bind (on_replays (save_replay requested (Some (rp_version r)))) (\<lambda>persisted.
           act_bind (act_reraise
             (\<lambda>x. Exc ReplayCancellationFailed (''Replay cancellation failed: '' @ exc_message x))
             (on_jobs (api_cancel_job t2 job_id (Some cx)))) (\<lambda>job.
           if jb_status job = JS_CANCELLED
           then act_bind (act_lift (mark_cancelled t3 persisted)) (\<lambda>cancelled.
                on_replays (save_replay cancelled (Some (rp_version persisted))))
           else act_return persisted))
       | _ \<Rightarrow> act_raise (Exc ReplayCancellationFailed ''Replay job service is not configured.''))))) s)"

definition validate_submission :: "replay_env \<Rightarrow> string \<Rightarrow> tenant_context \<Rightarrow> replay_system \<Rightarrow> exc + replay" where
  "validate_submission env replay_id cx s =
     res_bind (replay_authorize env cx ''replay.execute'') (\<lambda>_.
     res_bind (service_get_replay env replay_id cx s) (\<lambda>r.
     checked [(rp_status r \<noteq> RPS_READY \<or> rp_configuration r = None, not_ready replay_id),
              (rv_job_service env = None,
               Exc ReplayJobSubmissionFailed ''Replay job service is not configured.'')] r))"

definition validate_cancellation :: "replay_env \<Rightarrow> string \<Rightarrow> tenant_context \<Rightarrow> replay_system \<Rightarrow> exc + replay" where
  "validate_cancellation env replay_id cx s =
     res_bind (replay_authorize env cx ''replay.cancel'') (\<lambda>_.
     res_bind (service_get_replay env replay_id cx s) (\<lambda>r.
     checked [(rp_status r \<notin> cancellable, not_cancellable replay_id r),
              (rp_status r \<noteq> RPS_READY \<and> (rv_job_service env = None \<or> linked_job r = None),
               Exc ReplayCancellationFailed ''Replay job service is not configured.'')] r))"

section \<open>Evaluation and results\<close>

record metric_spec =
  ms_name :: string
  ms_description :: "string option"
  ms_threshold :: "rat option"
  ms_weight :: "rat option"
  ms_metadata :: "(string \<times> pyval) list"

record replay_evaluation_request =
  vq_evaluation_provider :: "string option"
  vq_provider_installation_id :: "string option"
  vq_metric_specs :: "metric_spec list"
  vq_drift_threshold_policy :: "(string \<times> rat) list option"
  vq_governance_context :: "(string \<times> pyval) list"
  vq_baseline_strategy :: string
  vq_baseline_evaluation_id :: "string option"

definition of_opt_float :: "rat option \<Rightarrow> pyval" where
  "of_opt_float v = (case v of None \<Rightarrow> PNone | Some x \<Rightarrow> PFloat x)"

definition metric_payload :: "metric_spec \<Rightarrow> pyval" where
  "metric_payload m = PDict
     [(''name'', PStr (ms_name m)), (''description'', of_opt_str (ms_description m)),
      (''threshold'', of_opt_float (ms_threshold m)), (''weight'', of_opt_float (ms_weight m)),
      (''metadata'', PDict (ms_metadata m))]"

definition evaluation_failed :: "string \<Rightarrow> exc" where
  "evaluation_failed message = Exc ReplayEvaluationSubmissionFailed message"

definition evaluation_not_ready :: "string \<Rightarrow> exc" where
  "evaluation_not_ready replay_id =
     Exc ReplayEvaluationNotReady (''Replay '' @ quoted replay_id @ '' is not ready for evaluation.'')"

text \<open>\<open>str(metadata.get("evaluation_provider", ""))\<close>.\<close>

definition metadata_provider :: "(rat \<Rightarrow> string) \<Rightarrow> replay \<Rightarrow> string" where
  "metadata_provider fr r =
     (case map_of (rp_metadata r) ''evaluation_provider'' of None \<Rightarrow> [] | Some v \<Rightarrow> py_str fr v)"

definition select_provider ::
  "replay_env \<Rightarrow> replay_evaluation_request \<Rightarrow> tenant_context \<Rightarrow> replay \<Rightarrow> exc + string" where
  "select_provider env q cx r =
     (let default = the (str_or (vq_evaluation_provider q) (Some (metadata_provider (rv_fr env) r))) in
      if truthy (vq_provider_installation_id q)
      then (case rv_providers env of
              None \<Rightarrow> Inl (evaluation_failed ''Provider installations are unavailable in this runtime.'')
            | Some resolve \<Rightarrow> resolve (the (vq_provider_installation_id q)) cx)
      else Inr default)"

definition baseline_checks :: "replay_evaluation_request \<Rightarrow> (bool \<times> exc) list" where
  "baseline_checks q =
     [(py_upper (vq_baseline_strategy q) = ''EXPLICIT'' \<and> \<not> truthy (vq_baseline_evaluation_id q),
       evaluation_failed ''An explicit baseline evaluation ID is required.'')]"

definition evaluation_submission ::
  "replay_env \<Rightarrow> replay_evaluation_request \<Rightarrow> tenant_context \<Rightarrow> replay \<Rightarrow> string \<Rightarrow> job_submission" where
  "evaluation_submission env q cx r provider =
     \<lparr>jsb_job_type = JT_REPLAY_EVALUATION,
      jsb_input_refs =
        [(''replay_id'', PStr (rp_replay_id r)), (''source_execution_id'', PStr (rp_source_execution_id r)),
         (''replay_execution_id'', of_opt_str (rp_replay_execution_id r)),
         (''evaluation_provider'', PStr provider),
         (''provider_installation_id'', of_opt_str (vq_provider_installation_id q)),
         (''evaluation_configuration_hash'',
          PStr (case rp_configuration r of None \<Rightarrow> [] | Some c \<Rightarrow> rf_configuration_hash c)),
         (''baseline_strategy'', PStr (py_upper (vq_baseline_strategy q))),
         (''explicit_baseline_evaluation_id'', of_opt_str (vq_baseline_evaluation_id q)),
         (''metric_specs'', PList (map metric_payload (vq_metric_specs q))),
         (''drift_threshold_policy'', PDict
            (case vq_drift_threshold_policy q of
               Some policy \<Rightarrow> map (\<lambda>(k, x). (k, PFloat x)) policy | None \<Rightarrow> drift_threshold_policy env cx)),
         (''governance_context'', PDict (vq_governance_context q))] @ scope_refs cx,
      jsb_idempotency_key =
        replay_job_key ''replay-evaluation'' (cx_organization_id cx) (cx_project cx) (rp_replay_id r),
      jsb_submitted_by = cx_actor_id cx, jsb_max_attempts = evaluation_max_attempts env cx,
      jsb_execution_context = Some (job_context_of cx)\<rparr>"

definition evaluate_replay ::
  "replay_env \<Rightarrow> string \<Rightarrow> replay_evaluation_request \<Rightarrow> tenant_context \<Rightarrow> (datetime \<times> string) \<times> datetime
     \<Rightarrow> (replay_system, replay) action" where
  "evaluate_replay env replay_id q cx e s =
     (let (fresh, now) = e in
     act_bind (act_lift (replay_authorize env cx ''replay.evaluate'')) (\<lambda>_.
     act_bind (act_lift (service_get_replay env replay_id cx s)) (\<lambda>r.
     if rp_status r \<in> {RPS_EVALUATING, RPS_COMPARING, RPS_COMPLETED} then act_return r
     else if rp_status r \<noteq> RPS_EXECUTION_COMPLETED \<or> \<not> truthy (rp_replay_execution_id r)
     then act_raise (evaluation_not_ready replay_id)
     else case rv_job_service env of
       None \<Rightarrow> act_raise (evaluation_failed ''Replay job service is not configured.'')
     | Some config \<Rightarrow>
         act_bind (act_lift (select_provider env q cx r)) (\<lambda>provider.
         act_bind (act_lift (checked
           ((provider = [], evaluation_failed ''An evaluation provider must be supplied for this replay.'')
            # baseline_checks q) ())) (\<lambda>_.
         act_reraise (\<lambda>x. evaluation_failed (''Replay evaluation submission failed: '' @ exc_message x))
           (act_bind (on_jobs (submit_job (rv_fr env) config fresh (evaluation_submission env q cx r provider))) (\<lambda>job.
            act_bind (act_lift (mark_evaluating (jb_job_id job) now r)) (\<lambda>evaluating.
            on_replays (save_replay evaluating (Some (rp_version r)))))))))) s)"

text \<open>\<open>bool(v)\<close>.\<close>

fun pv_truthy :: "pyval \<Rightarrow> bool" where
  "pv_truthy PNone = False"
| "pv_truthy (PBool b) = b"
| "pv_truthy (PInt i) = (i \<noteq> 0)"
| "pv_truthy (PFloat x) = (x \<noteq> 0)"
| "pv_truthy (PStr v) = (v \<noteq> [])"
| "pv_truthy (PList xs) = (xs \<noteq> [])"
| "pv_truthy (PDict d) = (d \<noteq> [])"

definition validate_evaluation ::
  "replay_env \<Rightarrow> string \<Rightarrow> replay_evaluation_request \<Rightarrow> tenant_context \<Rightarrow> replay_system \<Rightarrow> exc + replay" where
  "validate_evaluation env replay_id q cx s =
     res_bind (replay_authorize env cx ''replay.evaluate'') (\<lambda>_.
     res_bind (service_get_replay env replay_id cx s) (\<lambda>r.
     res_bind (checked [(rp_status r \<noteq> RPS_EXECUTION_COMPLETED \<or> \<not> truthy (rp_replay_execution_id r),
       evaluation_not_ready replay_id)] ()) (\<lambda>_.
     res_bind (if truthy (vq_provider_installation_id q)
       then (case rv_providers env of
               None \<Rightarrow> Inl (evaluation_failed ''Provider installations are unavailable in this runtime.'')
             | Some resolve \<Rightarrow> res_bind (resolve (the (vq_provider_installation_id q)) cx) (\<lambda>_. Inr ()))
       else checked [(\<not> truthy (vq_evaluation_provider q) \<and> \<not> pv_truthy (pget (rp_metadata r) ''evaluation_provider''),
              evaluation_failed ''An evaluation provider must be supplied for this replay.'')] ()) (\<lambda>_.
     checked (baseline_checks q) r))))"

definition service_get_result ::
  "replay_env \<Rightarrow> string \<Rightarrow> tenant_context \<Rightarrow> replay_system \<Rightarrow> exc + replay_result" where
  "service_get_result env replay_id cx s =
     res_bind (replay_authorize env cx ''replay.result.read'') (\<lambda>_.
     res_bind (service_get_replay env replay_id cx s) (\<lambda>r.
     case (rs_results s, rp_result_id r) of
       (Some results, Some result_id) \<Rightarrow>
         if result_id = []
         then Inl (Exc ReplayResultNotFound (''Replay '' @ quoted replay_id @ '' has no finalized result.''))
         else (case get_result results result_id (cx_organization_id cx) (cx_project cx) of
                 None \<Rightarrow> Inl (Exc ReplayResultNotFound (''Replay result '' @ quoted result_id @ '' was not found.''))
               | Some result \<Rightarrow> Inr result)
     | _ \<Rightarrow> Inl (Exc ReplayResultNotFound (''Replay '' @ quoted replay_id @ '' has no finalized result.''))))"

end
