(* ===== verification/Replay_Contracts.thy ===== *)
theory Replay_Contracts
  imports Replay_Service
begin

text \<open>
  \<open>packages/bhanuj-governance-plugin-api\<close>, \<open>replay.py\<close>: what the host hands to a replay adapter
  and what the adapter hands back. A governed source and the envelope of an intervention are
  references only; both are read from a payload of exactly their fields.
\<close>

section \<open>The source of a governed replay\<close>

definition runtime_source_schema :: string where
  "runtime_source_schema = ''runtime-replay-source/v1''"

record runtime_source =
  rx_source_agent_execution_id :: string
  rx_external_execution_id :: string
  rx_runtime_type :: string
  rx_adapter_id :: string
  rx_adapter_version :: string
  rx_replay_reference :: string
  rx_isolation_guarantee :: string
  rx_manifest_hash :: string
  rx_schema_version :: string

definition runtime_source_checks :: "runtime_source \<Rightarrow> (bool \<times> exc) list" where
  "runtime_source_checks x =
     (rx_schema_version x \<noteq> runtime_source_schema,
      Exc ValueError ''Unsupported runtime replay source schema version.'')
     # map (\<lambda>(name, v, maximum). (blank v \<or> maximum < length v,
         Exc ValueError (''Runtime replay source '' @ name @ '' must be bounded and non-blank.'')))
       [(''source_agent_execution_id'', rx_source_agent_execution_id x, 256),
        (''external_execution_id'', rx_external_execution_id x, 256), (''runtime_type'', rx_runtime_type x, 128),
        (''adapter_id'', rx_adapter_id x, 128), (''adapter_version'', rx_adapter_version x, 128),
        (''replay_reference'', rx_replay_reference x, 512), (''isolation_guarantee'', rx_isolation_guarantee x, 128)]
     @ [(length (rx_manifest_hash x) \<noteq> 64 \<or> list_ex (\<lambda>c. \<not> is_lower_hex c) (rx_manifest_hash x),
         Exc ValueError ''Runtime replay source manifest_hash must be a SHA-256 hex digest.'')]"

definition new_runtime_source :: "runtime_source \<Rightarrow> exc + runtime_source" where
  "new_runtime_source x = checked (runtime_source_checks x) x"

definition runtime_source_to_payload :: "runtime_source \<Rightarrow> (string \<times> pyval) list" where
  "runtime_source_to_payload x =
     [(''schema_version'', PStr (rx_schema_version x)),
      (''source_agent_execution_id'', PStr (rx_source_agent_execution_id x)),
      (''external_execution_id'', PStr (rx_external_execution_id x)), (''runtime_type'', PStr (rx_runtime_type x)),
      (''adapter_id'', PStr (rx_adapter_id x)), (''adapter_version'', PStr (rx_adapter_version x)),
      (''replay_reference'', PStr (rx_replay_reference x)),
      (''isolation_guarantee'', PStr (rx_isolation_guarantee x)), (''manifest_hash'', PStr (rx_manifest_hash x))]"

definition payload_string :: "(string \<times> pyval) list \<Rightarrow> string \<Rightarrow> exc + string" where
  "payload_string d name =
     (let missing = Inl (Exc ValueError (''Replay intervention envelope '' @ name @ '' is required.'')) in
      case pget d name of PStr v \<Rightarrow> if blank v then missing else Inr v | _ \<Rightarrow> missing)"

definition payload_shape :: "string list \<Rightarrow> (string \<times> pyval) list \<Rightarrow> bool" where
  "payload_shape names d = (set (map fst d) = set names)"

definition source_payload_fields :: "string list" where
  "source_payload_fields =
     [''source_agent_execution_id'', ''external_execution_id'', ''runtime_type'', ''adapter_id'', ''adapter_version'',
      ''replay_reference'', ''isolation_guarantee'', ''manifest_hash'', ''schema_version'']"

definition runtime_source_from_payload :: "(string \<times> pyval) list \<Rightarrow> exc + runtime_source" where
  "runtime_source_from_payload d =
     (if \<not> payload_shape source_payload_fields d
      then Inl (Exc ValueError ''Runtime replay source payload has an unsupported shape.'')
      else
       res_bind (payload_string d ''source_agent_execution_id'') (\<lambda>source_agent_execution_id.
       res_bind (payload_string d ''external_execution_id'') (\<lambda>external_execution_id.
       res_bind (payload_string d ''runtime_type'') (\<lambda>runtime_type.
       res_bind (payload_string d ''adapter_id'') (\<lambda>adapter_id.
       res_bind (payload_string d ''adapter_version'') (\<lambda>adapter_version.
       res_bind (payload_string d ''replay_reference'') (\<lambda>replay_reference.
       res_bind (payload_string d ''isolation_guarantee'') (\<lambda>isolation_guarantee.
       res_bind (payload_string d ''manifest_hash'') (\<lambda>manifest_hash.
       res_bind (payload_string d ''schema_version'') (\<lambda>schema_version.
       new_runtime_source
         \<lparr>rx_source_agent_execution_id = source_agent_execution_id, rx_external_execution_id = external_execution_id,
          rx_runtime_type = runtime_type, rx_adapter_id = adapter_id, rx_adapter_version = adapter_version,
          rx_replay_reference = replay_reference, rx_isolation_guarantee = isolation_guarantee,
          rx_manifest_hash = manifest_hash, rx_schema_version = schema_version\<rparr>))))))))))"

section \<open>The envelope of an intervention\<close>

definition envelope_schema :: string where
  "envelope_schema = ''replay-intervention-envelope/v1''"

record intervention_envelope =
  ie_policy_id :: string
  ie_policy_version :: int
  ie_external_execution_id :: string
  ie_runtime_tool_call_id :: string
  ie_intervention_provider :: string
  ie_intervention_provider_version :: string
  ie_strategy :: string
  ie_original_evidence_digest :: string
  ie_counterfactual_reference :: string
  ie_counterfactual_digest :: string
  ie_intervention_digest :: string
  ie_schema_version :: string

definition envelope_checks :: "intervention_envelope \<Rightarrow> (bool \<times> exc) list" where
  "envelope_checks x =
     map (\<lambda>(name, v). (blank v, Exc ValueError (''Replay intervention envelope '' @ name @ '' is required.'')))
       [(''policy_id'', ie_policy_id x), (''external_execution_id'', ie_external_execution_id x),
        (''runtime_tool_call_id'', ie_runtime_tool_call_id x), (''intervention_provider'', ie_intervention_provider x),
        (''intervention_provider_version'', ie_intervention_provider_version x),
        (''original_evidence_digest'', ie_original_evidence_digest x),
        (''counterfactual_reference'', ie_counterfactual_reference x),
        (''counterfactual_digest'', ie_counterfactual_digest x), (''intervention_digest'', ie_intervention_digest x)]
     @ [(ie_policy_version x < 1, Exc ValueError ''Replay intervention envelope policy_version must be positive.''),
        (ie_strategy x \<notin> {''NULLIFY'', ''REPLACE'', ''PERTURB''},
         Exc ValueError ''Replay intervention envelope strategy is unsupported.''),
        (ie_schema_version x \<noteq> envelope_schema,
         Exc ValueError (''Unsupported Replay intervention envelope schema version: '' @ repr_str (ie_schema_version x) @ ''.''))]"

definition new_envelope :: "intervention_envelope \<Rightarrow> exc + intervention_envelope" where
  "new_envelope x = checked (envelope_checks x) x"

definition envelope_to_payload :: "intervention_envelope \<Rightarrow> (string \<times> pyval) list" where
  "envelope_to_payload x =
     [(''schema_version'', PStr (ie_schema_version x)), (''policy_id'', PStr (ie_policy_id x)),
      (''policy_version'', PInt (ie_policy_version x)), (''external_execution_id'', PStr (ie_external_execution_id x)),
      (''runtime_tool_call_id'', PStr (ie_runtime_tool_call_id x)),
      (''intervention_provider'', PStr (ie_intervention_provider x)),
      (''intervention_provider_version'', PStr (ie_intervention_provider_version x)), (''strategy'', PStr (ie_strategy x)),
      (''original_evidence_digest'', PStr (ie_original_evidence_digest x)),
      (''counterfactual_reference'', PStr (ie_counterfactual_reference x)),
      (''counterfactual_digest'', PStr (ie_counterfactual_digest x)),
      (''intervention_digest'', PStr (ie_intervention_digest x))]"

definition payload_version :: "(string \<times> pyval) list \<Rightarrow> exc + int" where
  "payload_version d =
     (let invalid = Inl (Exc ValueError ''Replay intervention envelope policy_version must be positive.'') in
      case pget d ''policy_version'' of PInt v \<Rightarrow> if v < 1 then invalid else Inr v | _ \<Rightarrow> invalid)"

definition envelope_payload_fields :: "string list" where
  "envelope_payload_fields =
     [''policy_id'', ''policy_version'', ''external_execution_id'', ''runtime_tool_call_id'', ''intervention_provider'',
      ''intervention_provider_version'', ''strategy'', ''original_evidence_digest'', ''counterfactual_reference'',
      ''counterfactual_digest'', ''intervention_digest'', ''schema_version'']"

definition envelope_from_payload :: "(string \<times> pyval) list \<Rightarrow> exc + intervention_envelope" where
  "envelope_from_payload d =
     (if \<not> payload_shape envelope_payload_fields d
      then Inl (Exc ValueError ''Replay intervention envelope payload has an unsupported shape.'')
      else
       res_bind (payload_string d ''policy_id'') (\<lambda>policy_id.
       res_bind (payload_version d) (\<lambda>policy_version.
       res_bind (payload_string d ''external_execution_id'') (\<lambda>external_execution_id.
       res_bind (payload_string d ''runtime_tool_call_id'') (\<lambda>runtime_tool_call_id.
       res_bind (payload_string d ''intervention_provider'') (\<lambda>intervention_provider.
       res_bind (payload_string d ''intervention_provider_version'') (\<lambda>intervention_provider_version.
       res_bind (payload_string d ''strategy'') (\<lambda>strategy.
       res_bind (payload_string d ''original_evidence_digest'') (\<lambda>original_evidence_digest.
       res_bind (payload_string d ''counterfactual_reference'') (\<lambda>counterfactual_reference.
       res_bind (payload_string d ''counterfactual_digest'') (\<lambda>counterfactual_digest.
       res_bind (payload_string d ''intervention_digest'') (\<lambda>intervention_digest.
       res_bind (payload_string d ''schema_version'') (\<lambda>schema_version.
       new_envelope
         \<lparr>ie_policy_id = policy_id, ie_policy_version = policy_version,
          ie_external_execution_id = external_execution_id, ie_runtime_tool_call_id = runtime_tool_call_id,
          ie_intervention_provider = intervention_provider,
          ie_intervention_provider_version = intervention_provider_version, ie_strategy = strategy,
          ie_original_evidence_digest = original_evidence_digest,
          ie_counterfactual_reference = counterfactual_reference, ie_counterfactual_digest = counterfactual_digest,
          ie_intervention_digest = intervention_digest, ie_schema_version = schema_version\<rparr>)))))))))))))"

section \<open>What an adapter returns\<close>

record execution_result =
  xr_execution_status :: string
  xr_input :: "(string \<times> pyval) list"
  xr_final_state :: "(string \<times> pyval) list"
  xr_events :: "(string \<times> pyval) list list"
  xr_artifact_refs :: "string list"
  xr_runtime_parameters :: "(string \<times> pyval) list"
  xr_metadata :: "(string \<times> pyval) list"
  xr_created_at :: "datetime option"

definition new_execution_result :: "execution_result \<Rightarrow> exc + execution_result" where
  "new_execution_result r =
     checked [(blank (xr_execution_status r), Exc ValueError ''Replay execution result status is required.'')] r"

section \<open>Round trips\<close>

lemma not_blank_schema: "\<not> blank runtime_source_schema" "\<not> blank envelope_schema"
  by code_simp+

lemma strategies_not_blank: "v \<in> {''NULLIFY'', ''REPLACE'', ''PERTURB''} \<Longrightarrow> \<not> blank v"
  by (auto simp: blank_def py_strip_def py_lstrip_def py_isspace_def code_point_def)

lemma hash64_not_blank: "length v = 64 \<Longrightarrow> \<not> list_ex (\<lambda>c. \<not> is_lower_hex c) v \<Longrightarrow> \<not> blank v"
proof -
  have hex: "\<not> py_isspace c" if "is_lower_hex c" for c
    using that by (auto simp: is_lower_hex_def py_isspace_def code_point_def Let_def)
  assume "length v = 64" "\<not> list_ex (\<lambda>c. \<not> is_lower_hex c) v"
  then have "v \<noteq> []" "\<forall>c \<in> set v. \<not> py_isspace c" by (auto simp: list_ex_iff dest: hex)
  then show ?thesis by (auto simp: blank_def py_strip_def py_lstrip_def dropWhile_eq_Nil_conv)
qed

lemma runtime_source_roundtrip:
  assumes "new_runtime_source x = Inr y"
  shows "runtime_source_from_payload (runtime_source_to_payload x) = Inr x"
proof -
  have ok: "all_pass (runtime_source_checks x)" using assms by (simp add: new_runtime_source_def checked_Inr_iff)
  then have "\<not> blank (rx_manifest_hash x)" "\<not> blank (rx_schema_version x)"
    using hash64_not_blank not_blank_schema by (auto simp: runtime_source_checks_def)
  with ok show ?thesis
    by (auto simp: runtime_source_from_payload_def runtime_source_to_payload_def payload_shape_def
        source_payload_fields_def payload_string_def pget_def new_runtime_source_def checked_Inr_iff
        runtime_source_checks_def)
qed

lemma envelope_roundtrip:
  assumes "new_envelope x = Inr y"
  shows "envelope_from_payload (envelope_to_payload x) = Inr x"
proof -
  have ok: "all_pass (envelope_checks x)" using assms by (simp add: new_envelope_def checked_Inr_iff)
  then have "\<not> blank (ie_strategy x)" "\<not> blank (ie_schema_version x)"
    using strategies_not_blank [of "ie_strategy x"] not_blank_schema by (auto simp: envelope_checks_def)
  with ok show ?thesis
    by (auto simp: envelope_from_payload_def envelope_to_payload_def payload_shape_def envelope_payload_fields_def
        payload_string_def payload_version_def pget_def new_envelope_def checked_Inr_iff envelope_checks_def)
qed

end
