(* ===== verification/Replay_Execution.thy ===== *)
theory Replay_Execution
  imports Replay_Contracts
begin

text \<open>
  \<open>services/replay_execution.py\<close>: the registry of adapters, the built-in adapter, and the handler
  of a replay execution job. An adapter is code of a plugin or of the host: its two methods are
  fields of the record \<open>adapter\<close>. While an adapter runs, other commands may change the state, so
  its run is an action on the whole system. The publication of lifecycle events is left out.
\<close>

section \<open>Adapters\<close>

record execution_context =
  ec_replay_id :: string
  ec_source_execution_id :: string
  ec_new_execution_id :: "string option"
  ec_organization_id :: string
  ec_project_id :: string
  ec_actor_id :: string
  ec_request_id :: string
  ec_correlation_id :: "string option"
  ec_attempt :: int
  ec_is_cancelled :: "replay_system \<Rightarrow> bool"
  ec_metadata :: "(string \<times> pyval) list"
  ec_intervention :: "intervention option"
  ec_envelope :: "intervention_envelope option"
  ec_runtime_source :: "runtime_source option"

datatype adapter_output =
  Workflow workflow_execution | PluginResult execution_result | Unsupported

record adapter =
  ad_name :: string
  ad_validate :: "workflow_execution \<Rightarrow> replay_configuration \<Rightarrow> exc + unit"
  ad_replay :: "workflow_execution \<Rightarrow> replay_configuration \<Rightarrow> execution_context
    \<Rightarrow> (replay_system, adapter_output) action"

type_synonym adapter_registry = "(string, adapter) dict"

definition register_adapter :: "adapter \<Rightarrow> (adapter_registry, unit) action" where
  "register_adapter a s =
     (if dict_get s (ad_name a) \<noteq> None
      then (Inl (Exc ValueError (''Replay adapter '' @ quoted (ad_name a) @ '' is already registered.'')), s)
      else (Inr (), dict_put (ad_name a) a s))"

definition resolve_adapter :: "adapter_registry \<Rightarrow> string \<Rightarrow> exc + adapter" where
  "resolve_adapter s name =
     (case dict_get s name of
        None \<Rightarrow> Inl (Exc ReplayAdapterNotFound (''Replay adapter '' @ quoted name @ '' is unavailable.''))
      | Some a \<Rightarrow> Inr a)"

definition adapter_descriptors :: "adapter_registry \<Rightarrow> (string \<times> string) list list" where
  "adapter_descriptors s = map (\<lambda>name. [(''name'', name)]) (sort (map fst s))"

definition historical_validate :: "workflow_execution \<Rightarrow> replay_configuration \<Rightarrow> exc + unit" where
  "historical_validate x c =
     checked [(wx_workflow_id x \<noteq> rf_workflow_id c,
               Exc ValueError ''Source workflow does not match the frozen configuration.''),
              (wx_workflow_version x \<noteq> rf_workflow_version c,
               Exc ValueError ''Source workflow version does not match frozen evidence.'')] ()"

text \<open>\<open>dict(v)\<close> of a snapshot.\<close>

definition dict_of :: "(string \<times> pyval) list option \<Rightarrow> exc + (string \<times> pyval) list" where
  "dict_of v = (case v of None \<Rightarrow> Inl (Exc TypeError (quoted ''NoneType'' @ '' object is not iterable'')) | Some d \<Rightarrow> Inr d)"

definition historical_replay ::
  "datetime \<Rightarrow> workflow_execution \<Rightarrow> replay_configuration \<Rightarrow> execution_context \<Rightarrow> (replay_system, adapter_output) action" where
  "historical_replay now x c k s =
     (if ec_is_cancelled k s then (Inl (Exc ReplayReconstructionFailed ''Replay cancellation requested.''), s)
      else if ec_intervention k \<noteq> None
      then (Inl (Exc ReplayReconstructionFailed ''The historical replay adapter cannot apply controlled evidence.''), s)
      else act_lift (res_bind (dict_of (wx_input x)) (\<lambda>inputs. res_bind (dict_of (wx_final_state x)) (\<lambda>final.
        Inr (Workflow
         \<lparr>wx_workflow_id = rf_workflow_id c, wx_execution_id = the (ec_new_execution_id k),
          wx_workflow_name = wx_workflow_name x, wx_workflow_version = rf_workflow_version c,
          wx_execution_status = ''COMPLETED'', wx_input = Some inputs, wx_final_state = Some final,
          wx_events = wx_events x @ [PDict [(''type'', PStr ''REPLAY_COMPLETED'')]],
          wx_organization_id = ec_organization_id k, wx_project_id = ec_project_id k,
          wx_execution_adapter = ''historical'', wx_input_snapshot_ref = Some (rf_input_snapshot_ref c),
          wx_state_snapshot_ref = Some (rf_state_snapshot_ref c), wx_artifact_refs = Some (rf_artifact_refs c),
          wx_prompt_refs = Some (rf_prompt_refs c), wx_model_refs = Some (rf_model_refs c),
          wx_dataset_refs = Some (rf_dataset_refs c), wx_policy_refs = Some (rf_policy_refs c),
          wx_runtime_parameters = Some (rf_runtime_parameters c), wx_metadata = ec_metadata k,
          wx_created_at = Some now\<rparr>)))) s)"

definition historical_adapter :: "datetime \<Rightarrow> adapter" where
  "historical_adapter now =
     \<lparr>ad_name = ''historical'', ad_validate = historical_validate, ad_replay = historical_replay now\<rparr>"

section \<open>The evidence a runtime sees\<close>

definition envelope_target :: "workflow_execution \<Rightarrow> intervention \<Rightarrow> (string \<times> pyval) list option" where
  "envelope_target x i =
     first_Some (\<lambda>e. case e of
        PDict d \<Rightarrow> if py_eq (pget d ''event_id'') (of_opt_str (iv_target_event_id i)) then Some d else None
      | _ \<Rightarrow> None) (wx_events x)"

definition solid_string :: "pyval \<Rightarrow> string option" where
  "solid_string v = (case v of PStr s \<Rightarrow> if blank s then None else Some s | _ \<Rightarrow> None)"

definition intervention_envelope_of :: "workflow_execution \<Rightarrow> intervention option \<Rightarrow> exc + intervention_envelope option" where
  "intervention_envelope_of x intervention =
     (case intervention of None \<Rightarrow> Inr None
      | Some i \<Rightarrow>
        if iv_policy_id i = None then Inr None else
        (let tool = (case envelope_target x i of None \<Rightarrow> PNone | Some d \<Rightarrow> pget d ''runtime_tool_call_id'');
             solid = solid_string \<circ> of_opt_str in
         case (solid (iv_policy_id i), solid_string (pget (wx_metadata x) ''external_execution_id''), solid_string tool,
               solid (iv_provider_id i), solid (iv_provider_version i), solid (iv_original_evidence_digest i),
               solid (iv_counterfactual_evidence_reference i), solid (iv_counterfactual_evidence_digest i),
               solid_string (PStr (iv_intervention_digest i)), iv_policy_version i) of
           (Some policy_id, Some external_execution_id, Some tool_call_id, Some provider, Some provider_version,
            Some original, Some reference, Some counterfactual, Some digest, Some version) \<Rightarrow>
             res_bind (new_envelope
               \<lparr>ie_policy_id = policy_id, ie_policy_version = version,
                ie_external_execution_id = external_execution_id, ie_runtime_tool_call_id = tool_call_id,
                ie_intervention_provider = provider, ie_intervention_provider_version = provider_version,
                ie_strategy = strategy_value (iv_strategy i), ie_original_evidence_digest = original,
                ie_counterfactual_reference = reference, ie_counterfactual_digest = counterfactual,
                ie_intervention_digest = digest, ie_schema_version = envelope_schema\<rparr>) (\<lambda>e. Inr (Some e))
         | _ \<Rightarrow> Inr None))"

definition configuration_invalid :: "string \<Rightarrow> exc" where
  "configuration_invalid message = Exc ReplayAdapterConfigurationInvalid message"

definition source_bindings :: "workflow_execution \<Rightarrow> replay_configuration \<Rightarrow> replay_manifest \<Rightarrow> runtime_source \<Rightarrow> bool list" where
  "source_bindings x c m r =
     [pget (wx_metadata x) ''source_agent_execution_id'' = PStr (rx_source_agent_execution_id r),
      pget (wx_metadata x) ''external_execution_id'' = PStr (rx_external_execution_id r),
      rx_adapter_id r = rf_execution_adapter c, Some (rx_adapter_id r) = mf_adapter_id m,
      Some (rx_adapter_version r) = mf_adapter_version m, Some (rx_runtime_type r) = mf_runtime_type m,
      Some (rx_replay_reference r) = mf_replay_reference m,
      Some (rx_isolation_guarantee r) = mf_isolation_guarantee m, rx_manifest_hash r = mf_manifest_hash m,
      (case pget (rf_runtime_parameters c) ''agent_runtime_replay'' of
         PDict d \<Rightarrow> pget d ''adapter_id'' = PStr (rx_adapter_id r) \<and> pget d ''adapter_version'' = PStr (rx_adapter_version r)
           \<and> pget d ''replay_reference'' = PStr (rx_replay_reference r)
       | _ \<Rightarrow> False)]"

definition runtime_replay_source :: "workflow_execution \<Rightarrow> replay_configuration \<Rightarrow> exc + runtime_source option" where
  "runtime_replay_source x c =
     (if pget (wx_metadata x) ''runtime_replay_source_schema_version'' \<noteq> PStr runtime_source_schema then Inr None
      else case pget (rf_runtime_parameters c) ''runtime_replay_source'' of
        PDict d \<Rightarrow>
          (case runtime_source_from_payload d of
             Inl e \<Rightarrow> Inl (configuration_invalid ''Governed runtime replay source is malformed.'')
           | Inr r \<Rightarrow>
               (case rf_replay_manifest c of
                  Some m \<Rightarrow>
                    checked [(\<not> is_eligible m,
                        configuration_invalid ''Governed runtime replay source lacks an eligible frozen manifest.''),
                       (\<not> list_all id (source_bindings x c m r),
                        configuration_invalid ''Governed runtime replay source does not match frozen replay evidence.'')]
                      (Some r)
                | None \<Rightarrow> Inl (configuration_invalid
                    ''Governed runtime replay source lacks an eligible frozen manifest.'')))
      | _ \<Rightarrow> Inl (configuration_invalid ''Governed runtime replay source is missing RuntimeReplaySource/v1.''))"

definition materialise_execution ::
  "execution_result \<Rightarrow> workflow_execution \<Rightarrow> replay_configuration \<Rightarrow> string \<Rightarrow> workflow_execution" where
  "materialise_execution r x c execution_id =
     \<lparr>wx_workflow_id = wx_workflow_id x, wx_execution_id = execution_id, wx_workflow_name = wx_workflow_name x,
      wx_workflow_version = wx_workflow_version x, wx_execution_status = xr_execution_status r,
      wx_input = Some (xr_input r), wx_final_state = Some (xr_final_state r), wx_events = map PDict (xr_events r),
      wx_organization_id = ''org_default'', wx_project_id = ''project_default'',
      wx_execution_adapter = rf_execution_adapter c, wx_input_snapshot_ref = Some (rf_input_snapshot_ref c),
      wx_state_snapshot_ref = Some (rf_state_snapshot_ref c), wx_artifact_refs = Some (xr_artifact_refs r),
      wx_prompt_refs = Some (rf_prompt_refs c), wx_model_refs = Some (rf_model_refs c),
      wx_dataset_refs = Some (rf_dataset_refs c), wx_policy_refs = Some (rf_policy_refs c),
      wx_runtime_parameters = Some (xr_runtime_parameters r), wx_metadata = xr_metadata r,
      wx_created_at = xr_created_at r\<rparr>"

section \<open>The handler of an execution job\<close>

text \<open>The identifier that is generated and the readings of the clock, one per use.\<close>

record handler_fresh =
  hf_execution_id :: string
  hf_running :: datetime
  hf_reserved :: datetime
  hf_completed :: datetime
  hf_cancelled :: datetime
  hf_occurred :: datetime
  hf_failed :: datetime

definition failed_result :: "job \<Rightarrow> string \<Rightarrow> job_result" where
  "failed_result j reason =
     \<lparr>jrs_job_id = jb_job_id j, jrs_status = JS_FAILED, jrs_result_ref = None, jrs_failure_reason = Some reason\<rparr>"

definition cancelled_result :: "job \<Rightarrow> string \<Rightarrow> job_result" where
  "cancelled_result j reason =
     \<lparr>jrs_job_id = jb_job_id j, jrs_status = JS_CANCELLED, jrs_result_ref = None, jrs_failure_reason = Some reason\<rparr>"

definition succeeded_result :: "job \<Rightarrow> string \<Rightarrow> job_result" where
  "succeeded_result j ref =
     \<lparr>jrs_job_id = jb_job_id j, jrs_status = JS_SUCCEEDED, jrs_result_ref = Some ref, jrs_failure_reason = None\<rparr>"

definition result_ref :: "replay \<Rightarrow> string" where
  "result_ref r = ''workflow_execution:'' @ opt_or (rp_replay_execution_id r) ''None''"

definition job_tenant :: "exc \<Rightarrow> job \<Rightarrow> exc + tenant_context" where
  "job_tenant missing j =
     (case jb_execution_context j of None \<Rightarrow> Inl missing
      | Some c \<Rightarrow> Inr \<lparr>cx_organization_id = jx_organization_id c, cx_project_id = Some (jx_project_id c),
          cx_actor_id = jx_actor_id c, cx_request_id = jx_submitted_request_id c,
          cx_correlation_id = jx_correlation_id c\<rparr>)"

definition token_cancelled :: "string \<Rightarrow> tenant_context \<Rightarrow> replay_system \<Rightarrow> bool" where
  "token_cancelled replay_id cx s =
     (case get_replay (rs_replays s) replay_id (cx_organization_id cx) (cx_project cx) of
        None \<Rightarrow> True | Some r \<Rightarrow> rp_status r = RPS_CANCELLED \<or> rp_cancel_requested_at r \<noteq> None)"

definition execution_failure_stage :: "exc \<Rightarrow> failure_stage" where
  "execution_failure_stage e =
     (case exc_kind e of
        ReplayAdapterNotFound \<Rightarrow> FS_ADAPTER_RESOLUTION
      | ReplayAdapterConfigurationInvalid \<Rightarrow> FS_RECONSTRUCTION
      | ReplayExecutionPersistenceFailed \<Rightarrow> FS_EXECUTION_PERSISTENCE
      | ReplayLineagePersistenceFailed \<Rightarrow> FS_LINEAGE_PERSISTENCE
      | _ \<Rightarrow> FS_EXECUTION)"

definition fail_execution :: "handler_fresh \<Rightarrow> job \<Rightarrow> replay \<Rightarrow> exc \<Rightarrow> (replay_system, job_result) action" where
  "fail_execution fresh j r e =
     (if rp_status r \<notin> {RPS_READY, RPS_QUEUED, RPS_RUNNING} then act_return (failed_result j (exc_message e))
      else
        act_bind (act_lift (new_failure
          \<lparr>ry_code = class_name (exc_kind e), ry_message = exc_message e, ry_stage = execution_failure_stage e,
           ry_details = [(''job_id'', PStr (jb_job_id j)), (''retryable'', PBool False)],
           ry_occurred_at = hf_occurred fresh\<rparr>)) (\<lambda>failure.
        act_bind (act_lift (mark_execution_failed failure (hf_failed fresh) r)) (\<lambda>failed.
        act_bind (on_replays (save_replay failed (Some (rp_version r)))) (\<lambda>_.
        act_return (failed_result j (exc_message e))))))"

definition cancel_execution :: "handler_fresh \<Rightarrow> job \<Rightarrow> replay \<Rightarrow> (replay_system, job_result) action" where
  "cancel_execution fresh j r =
     act_bind
       (if rp_status r = RPS_RUNNING \<and> rp_cancel_requested_at r \<noteq> None
        then act_bind (act_lift (mark_cancelled (hf_cancelled fresh) r)) (\<lambda>cancelled.
             on_replays (save_replay cancelled (Some (rp_version r))))
        else act_return r) (\<lambda>_.
     act_return (cancelled_result j ''Replay cancellation requested.''))"

definition start_execution :: "handler_fresh \<Rightarrow> job \<Rightarrow> replay \<Rightarrow> (replay_system, replay) action" where
  "start_execution fresh j r =
     (if rp_status r = RPS_QUEUED
      then act_bind (act_lift (replay_mark_running (max (jb_attempt_count j) 1) (hf_running fresh) r)) (\<lambda>running.
           on_replays (save_replay running (Some (rp_version r))))
      else act_return r)"

definition reserve_execution :: "handler_fresh \<Rightarrow> replay \<Rightarrow> (replay_system, replay) action" where
  "reserve_execution fresh r =
     (if rp_replay_execution_id r = None
      then act_bind (act_lift (reserve_replay_execution_id (hf_execution_id fresh) (hf_reserved fresh) r)) (\<lambda>reserved.
           on_replays (save_replay reserved (Some (rp_version r))))
      else act_return r)"

definition adapter_context ::
  "job \<Rightarrow> tenant_context \<Rightarrow> replay \<Rightarrow> workflow_execution \<Rightarrow> runtime_source option \<Rightarrow> exc + execution_context" where
  "adapter_context j cx r x source =
     res_bind (intervention_envelope_of x (rp_intervention r)) (\<lambda>envelope.
     Inr \<lparr>ec_replay_id = rp_replay_id r, ec_source_execution_id = rp_source_execution_id r,
       ec_new_execution_id = rp_replay_execution_id r, ec_organization_id = cx_organization_id cx,
       ec_project_id = cx_project cx, ec_actor_id = cx_actor_id cx, ec_request_id = cx_request_id cx,
       ec_correlation_id = cx_correlation_id cx, ec_attempt = max (jb_attempt_count j) 1,
       ec_is_cancelled = token_cancelled (rp_replay_id r) cx, ec_metadata = [], ec_intervention = rp_intervention r,
       ec_envelope = envelope, ec_runtime_source = source\<rparr>)"

definition identity_checks :: "replay \<Rightarrow> workflow_execution \<Rightarrow> (bool \<times> exc) list" where
  "identity_checks r x =
     [(Some (wx_execution_id x) \<noteq> rp_replay_execution_id r,
       Exc ReplayExecutionIdentityConflict ''Adapter returned an unexpected execution ID.''),
      (wx_execution_id x = rp_source_execution_id r,
       Exc ReplayExecutionIdentityConflict ''Replay execution ID equals source execution ID.'')]"

definition with_lineage ::
  "job \<Rightarrow> tenant_context \<Rightarrow> replay \<Rightarrow> replay_configuration \<Rightarrow> workflow_execution \<Rightarrow> workflow_execution \<Rightarrow> workflow_execution" where
  "with_lineage j cx r c source x =
     x\<lparr>wx_organization_id := cx_organization_id cx, wx_project_id := cx_project cx,
       wx_metadata := dict_merge (wx_metadata x)
         [(''replay_id'', PStr (rp_replay_id r)), (''source_execution_id'', PStr (rp_source_execution_id r)),
          (''source_workflow_id'', PStr (wx_workflow_id source)),
          (''source_workflow_version'', PStr (wx_workflow_version source)),
          (''configuration_hash'', PStr (rf_configuration_hash c)), (''job_id'', PStr (jb_job_id j)),
          (''job_attempt'', PInt (jb_attempt_count j)),
          (''controlled_evidence_intervention'', intervention_payload (rp_intervention r))]\<rparr>"

definition store_execution :: "workflow_execution \<Rightarrow> (replay_system, unit) action" where
  "store_execution x s = (Inr (), s\<lparr>rs_executions := upsert_execution x (rs_executions s)\<rparr>)"

text \<open>From the output of the adapter to the completed replay.\<close>

definition complete_execution ::
  "handler_fresh \<Rightarrow> job \<Rightarrow> tenant_context \<Rightarrow> replay \<Rightarrow> replay_configuration \<Rightarrow> workflow_execution \<Rightarrow> adapter_output
     \<Rightarrow> (replay_system, job_result) action" where
  "complete_execution fresh j cx r c source output =
     act_bind (act_lift (case output of
         Workflow x \<Rightarrow> Inr x
       | PluginResult q \<Rightarrow> Inr (materialise_execution q source c (the (rp_replay_execution_id r)))
       | Unsupported \<Rightarrow> Inl (Exc ReplayReconstructionFailed
           ''Replay adapter returned an unsupported execution result.''))) (\<lambda>x.
     act_bind (act_lift (checked (identity_checks r x) ())) (\<lambda>_.
     act_bind (store_execution (with_lineage j cx r c source x)) (\<lambda>_.
     act_bind (act_lift (mark_execution_completed (hf_completed fresh) r)) (\<lambda>completed.
     act_bind (on_replays (save_replay completed (Some (rp_version r)))) (\<lambda>stored.
     act_return (succeeded_result j (result_ref stored)))))))"

text \<open>One run of the adapter, between the two checks of the cancellation token.\<close>

definition attempt_adapter ::
  "handler_fresh \<Rightarrow> job \<Rightarrow> tenant_context \<Rightarrow> replay \<Rightarrow> replay_configuration \<Rightarrow> workflow_execution \<Rightarrow> adapter
     \<Rightarrow> runtime_source option \<Rightarrow> (replay_system, job_result) action" where
  "attempt_adapter fresh j cx r c source adapter runtime_source s =
     (if token_cancelled (rp_replay_id r) cx s then cancel_execution fresh j r s
      else act_try (act_bind (act_lift (adapter_context j cx r source runtime_source)) (ad_replay adapter source c))
        (\<lambda>e s'. if token_cancelled (rp_replay_id r) cx s' then cancel_execution fresh j r s' else (Inl e, s'))
        (\<lambda>output s'.
           if token_cancelled (rp_replay_id r) cx s' then cancel_execution fresh j r s'
           else complete_execution fresh j cx r c source output s') s)"

definition run_adapter ::
  "adapter_registry \<Rightarrow> handler_fresh \<Rightarrow> job \<Rightarrow> tenant_context \<Rightarrow> replay \<Rightarrow> (replay_system, job_result) action" where
  "run_adapter registry fresh j cx r s =
     (case get_source_execution (rs_executions s) (rp_source_execution_id r) cx of
        None \<Rightarrow> (Inl (Exc ReplayReconstructionFailed ''Source execution is no longer available.''), s)
      | Some source \<Rightarrow>
        (case rp_configuration r of
           None \<Rightarrow> (Inl (Exc ReplayReconstructionFailed ''Replay configuration is not frozen.''), s)
         | Some c \<Rightarrow>
           act_bind (act_lift (resolve_adapter registry (rf_execution_adapter c))) (\<lambda>adapter.
           act_bind (act_reraise (\<lambda>e. configuration_invalid (exc_message e))
             (act_lift (res_bind (runtime_replay_source source c) (\<lambda>runtime_source.
                res_bind (ad_validate adapter source c) (\<lambda>_. Inr runtime_source)))))
             (attempt_adapter fresh j cx r c source adapter)) s))"

definition handle_execution ::
  "(rat \<Rightarrow> string) \<Rightarrow> adapter_registry \<Rightarrow> handler_fresh \<Rightarrow> job \<Rightarrow> (replay_system, job_result) action" where
  "handle_execution fr registry fresh j s =
     act_bind (act_lift (job_tenant
       (Exc ReplayReconstructionFailed ''Replay job is missing tenant execution context.'') j)) (\<lambda>cx.
     act_bind (act_lift (case str_item fr (jb_input_refs j) ''replay_id'' of
         None \<Rightarrow> Inl (Exc KeyError (quoted ''replay_id'')) | Some i \<Rightarrow> Inr i)) (\<lambda>replay_id.
     case get_replay (rs_replays s) replay_id (cx_organization_id cx) (cx_project cx) of
       None \<Rightarrow> act_return (failed_result j ''Replay job linkage is invalid.'')
     | Some r \<Rightarrow>
       if rp_job_id r \<noteq> Some (jb_job_id j) then act_return (failed_result j ''Replay job linkage is invalid.'')
       else if rp_status r \<in> {RPS_EXECUTION_COMPLETED, RPS_EVALUATING, RPS_COMPARING, RPS_COMPLETED}
         \<and> truthy (rp_replay_execution_id r) then act_return (succeeded_result j (result_ref r))
       else if rp_status r \<in> {RPS_CANCELLED, RPS_ARCHIVED}
       then act_return (cancelled_result j ''Replay is cancelled or archived.'')
       else
         act_try (start_execution fresh j r) (fail_execution fresh j r) (\<lambda>r1.
         act_try (reserve_execution fresh r1) (fail_execution fresh j r1) (\<lambda>r2.
         act_try (run_adapter registry fresh j cx r2) (fail_execution fresh j r2) act_return)))) s"

end
