(* ===== verification/Replay_System.thy ===== *)
theory Replay_System
  imports Replay_Execution
begin

text \<open>
  The replay service, the job control plane and the workers on one state. Every command, whatever it
  returns or raises, moves the state along \<open>replay_move A\<close>: a new draft, transitions of a stored
  replay, steps of the job repository, an execution, or a result that \<open>A\<close> admits. What holds of
  every replay along all
  interleavings of these moves is the invariant \<open>replay_system_inv\<close>.
\<close>

section \<open>What a save stores\<close>

lemma save_replay_Inr:
  assumes "save_replay r v s = (Inr a, t)"
  shows "t = dict_put (rp_replay_id r) a s \<and> (\<exists>n. a = r\<lparr>rp_version := n\<rparr>)"
  using assms by (cases rule: save_replay_cases) auto

lemma replay_inv_version [simp]: "replay_inv (r\<lparr>rp_version := n\<rparr>) = replay_inv r"
  by (simp add: replay_inv_defs)

lemma find_replay_stored:
  assumes "replay_repo_inv s" "dict_get s i = Some r"
  shows "find_replay_by_idempotency s (rp_idempotency_key r) (rp_organization_id r) (rp_project_id r) = Some r"
proof (cases "find_replay_by_idempotency s (rp_idempotency_key r) (rp_organization_id r) (rp_project_id r)")
  case None
  then show ?thesis
    using dict_get_Some_values [OF assms(2)] by (auto simp: find_replay_by_idempotency_def find_None_iff)
next
  case (Some q)
  then have q: "rp_idempotency_key q = rp_idempotency_key r" "rp_organization_id q = rp_organization_id r"
      "rp_project_id q = rp_project_id r" "q \<in> set (dict_values s)"
    by (auto simp: find_replay_by_idempotency_def find_Some_iff)
  moreover obtain j where "dict_get s j = Some q"
    using q(4) assms(1) by (auto simp: replay_repo_inv_def elim: dict_values_get)
  ultimately have "j = i" using assms unfolding replay_repo_inv_def by metis
  then show ?thesis using Some \<open>dict_get s j = Some q\<close> assms(2) by simp
qed

section \<open>Creating a replay again\<close>

lemma on_replays_Inr:
  "on_replays m s = (x, s') \<longleftrightarrow> m (rs_replays s) = (x, rs_replays s') \<and> s' = s\<lparr>rs_replays := rs_replays s'\<rparr>"
  by (cases "m (rs_replays s)") (auto simp: act_on_apply)

lemma freeze_draft_InrE:
  assumes "freeze_draft env e q cx d s = (Inr r, s')"
  obtains x where "replay_step d x"
    "save_replay x (Some (rp_version d)) (rs_replays s) = (Inr r, rs_replays s')" "s' = s\<lparr>rs_replays := rs_replays s'\<rparr>"
proof (cases "resolve_configuration env (cf_resolved e) (cq_source_execution_id q) cx s")
  case (Inr c)
  show ?thesis
  proof (cases "replay_mark_ready c (cf_ready e) d")
    case ready: (Inr x)
    show ?thesis
      by (rule that [OF replay_step.ready [OF ready]]) (use Inr ready assms in \<open>auto simp: freeze_draft_def on_replays_Inr\<close>)
  qed (use Inr assms in \<open>simp add: freeze_draft_def\<close>)
next
  case (Inl y)
  show ?thesis
  proof (cases "resolution_failure y (cq_source_execution_id q) (cf_occurred e)")
    case failure: (Inr f)
    show ?thesis
    proof (cases "replay_mark_failed f (cf_failed e) d")
      case failed: (Inr x)
      show ?thesis
        by (rule that [OF replay_step.failed [OF failed]])
          (use Inl failure failed assms in \<open>auto simp: freeze_draft_def on_replays_Inr split: if_splits\<close>)
    qed (use Inl failure assms in \<open>auto simp: freeze_draft_def split: if_splits\<close>)
  qed (use Inl assms in \<open>auto simp: freeze_draft_def split: if_splits\<close>)
qed

lemma replay_step_identity: "replay_step r q \<Longrightarrow> replay_identity q = replay_identity r \<and> rp_replay_id q = rp_replay_id r"
  using replay_keeps_step by (fastforce simp: replay_keeps_def replay_content_def replay_identity_def)

text \<open>A creation that succeeds either finds the replay of its key or stores one under it.\<close>

lemma service_create_replay_stored:
  assumes "replay_repo_inv (rs_replays s)" "service_create_replay env q cx e s = (Inr r, s')"
  shows "replay_repo_inv (rs_replays s') \<and> dict_get (rs_replays s') (rp_replay_id r) = Some r
    \<and> replay_identity r = (cx_organization_id cx, cx_project cx, cq_idempotency_key q, request_hash env q cx)"
proof (cases "find_replay_by_idempotency (rs_replays s) (cq_idempotency_key q) (cx_organization_id cx) (cx_project cx)")
  case (Some x)
  with assms(2) have "r = x" "s' = s" "rp_input_hash x = request_hash env q cx"
    by (auto simp: service_create_replay_def split: sum.splits if_splits)
  moreover have "x \<in> set (dict_values (rs_replays s))" and k: "rp_idempotency_key x = cq_idempotency_key q"
      "rp_organization_id x = cx_organization_id cx" "rp_project_id x = cx_project cx"
    using Some by (auto simp: find_replay_by_idempotency_def find_Some_iff)
  moreover from this(1) assms(1) obtain i where "dict_get (rs_replays s) i = Some x"
    by (auto simp: replay_repo_inv_def elim: dict_values_get)
  ultimately show ?thesis using assms(1) by (auto simp: replay_identity_def replay_repo_inv_def)
next
  case None
  with assms(2) obtain d0 d s1 where d0: "create_replay (cf_replay_id e) (draft_request env q cx) (cf_created e) = Inr d0"
    and save: "on_replays (save_replay d0 None) s = (Inr d, s1)" and freeze: "freeze_draft env e q cx d s1 = (Inr r, s')"
    by (auto simp: service_create_replay_def split: sum.splits elim!: act_bind_InrE)
  have save0: "save_replay d0 None (rs_replays s) = (Inr d, rs_replays s1)" using save by (simp add: on_replays_Inr)
  then have d: "replay_identity d = replay_identity d0"
    by (auto simp: replay_identity_def dest!: save_replay_Inr)
  note inv1 = replay_repo_inv_save [OF assms(1) save0]
  from freeze obtain x where x: "replay_step d x"
    and save': "save_replay x (Some (rp_version d)) (rs_replays s1) = (Inr r, rs_replays s')"
    by (rule freeze_draft_InrE)
  have "replay_identity d0 = (cx_organization_id cx, cx_project cx, cq_idempotency_key q, request_hash env q cx)"
    using d0 by (simp add: create_replay_def draft_request_def replay_identity_def split: if_splits) auto
  moreover have "replay_identity r = replay_identity x" "dict_get (rs_replays s') (rp_replay_id r) = Some r"
    using save_replay_Inr [OF save'] by (auto simp: replay_identity_def dict_get_put)
  ultimately show ?thesis
    using replay_repo_inv_save [OF inv1 save'] replay_step_identity [OF x] d by simp
qed

interpretation creation: idempotent_command
  "\<lambda>e. service_create_replay env q cx e" "\<lambda>s. replay_repo_inv (rs_replays s)" "\<lambda>_ _. True"
proof
  fix s x s' e e'
  assume inv: "replay_repo_inv (rs_replays s)" and run: "service_create_replay env q cx e s = (Inr x, s')"
  note stored = service_create_replay_stored [OF inv run]
  then have "find_replay_by_idempotency (rs_replays s') (cq_idempotency_key q) (cx_organization_id cx) (cx_project cx) = Some x"
    using find_replay_stored [of "rs_replays s'" "rp_replay_id x" x] by (simp add: replay_identity_def)
  then show "service_create_replay env q cx e' s' = (Inr x, s')"
    using run stored by (auto simp: service_create_replay_def replay_identity_def split: sum.splits)
qed

section \<open>Moves of the system\<close>

text \<open>The job that executes a replay: of the right type, under the key of that replay.\<close>

definition executes :: "job_repo \<Rightarrow> string \<Rightarrow> replay \<Rightarrow> bool" where
  "executes J i r =
     (case dict_get (jr_jobs J) i of None \<Rightarrow> False
      | Some j \<Rightarrow> jb_job_type j = JT_REPLAY_EXECUTION
          \<and> jb_idempotency_key j
              = replay_job_key ''replay-execution'' (rp_organization_id r) (rp_project_id r) (rp_replay_id r))"

text \<open>Where the execution that a replay has reserved is stored.\<close>

definition execution_key :: "replay \<Rightarrow> (string \<times> string \<times> string) option" where
  "execution_key r = map_option (\<lambda>i. (rp_organization_id r, rp_project_id r, i)) (rp_replay_execution_id r)"

definition unreserved :: "replay_repo \<Rightarrow> string \<times> string \<times> string \<Rightarrow> bool" where
  "unreserved s k = list_all (\<lambda>r. execution_key r \<noteq> Some k) (dict_values s)"

definition has_executed :: "replay \<Rightarrow> bool" where
  "has_executed r = (rp_status r \<in> {RPS_EXECUTION_COMPLETED, RPS_EVALUATING, RPS_COMPARING, RPS_COMPLETED})"

lemma not_executed_status: "\<not> has_executed r \<Longrightarrow> rp_status r \<noteq> RPS_COMPLETED"
  by (auto simp: has_executed_def)

text \<open>The lineage of a produced execution names the replay, its source and its frozen configuration.\<close>

definition derived :: "workflow_execution \<Rightarrow> replay \<Rightarrow> bool" where
  "derived x r =
     (pget (wx_metadata x) ''replay_id'' = PStr (rp_replay_id r)
      \<and> pget (wx_metadata x) ''source_execution_id'' = PStr (rp_source_execution_id r)
      \<and> map_option (\<lambda>c. PStr (rf_configuration_hash c)) (rp_configuration r)
          = Some (pget (wx_metadata x) ''configuration_hash''))"

definition produced :: "execution_store \<Rightarrow> replay \<Rightarrow> bool" where
  "produced E r =
     (case execution_key r of None \<Rightarrow> False
      | Some k \<Rightarrow> (case dict_get E k of None \<Rightarrow> False | Some x \<Rightarrow> derived x r))"

text \<open>What a result says of its replay: whose evidence it is, and every identifier of that evidence.\<close>

definition concludes :: "replay_result \<Rightarrow> replay \<Rightarrow> bool" where
  "concludes x r =
     (rt_replay_id x = rp_replay_id r \<and> rt_organization_id x = rp_organization_id r \<and> rt_project_id x = rp_project_id r
      \<and> rt_source_execution_id x = rp_source_execution_id r
      \<and> rp_replay_execution_id r = Some (rt_replay_execution_id x)
      \<and> rp_replay_evaluation_id r = Some (rt_replay_evaluation_id x)
      \<and> rp_baseline_evaluation_id r = Some (rt_baseline_evaluation_id x)
      \<and> rp_comparison_id r = Some (rt_comparison_id x) \<and> rp_drift_id r = Some (rt_drift_id x))"

definition finalized :: "result_repo option \<Rightarrow> replay \<Rightarrow> bool" where
  "finalized R r =
     (case (R, rp_result_id r) of
        (Some u, Some i) \<Rightarrow> (case dict_get u i of None \<Rightarrow> False | Some x \<Rightarrow> concludes x r)
      | _ \<Rightarrow> False)"

text \<open>
  What transitions of a stored replay may link it to: a job that executes it, an execution identifier
  that is not in use, once it has executed the execution it produced, and to complete it a stored
  result of its evidence.
\<close>

definition replay_links ::
  "job_repo \<Rightarrow> execution_store \<Rightarrow> result_repo option \<Rightarrow> replay_repo \<Rightarrow> replay \<Rightarrow> replay \<Rightarrow> bool" where
  "replay_links J E R s r q =
     ((\<forall>j. rp_job_id q = Some j \<longrightarrow> rp_job_id r = Some j \<or> executes J j q)
      \<and> (\<forall>k. execution_key q = Some k \<longrightarrow> execution_key r = Some k \<or> unreserved s k \<and> dict_get E k = None)
      \<and> (has_executed q \<longrightarrow> has_executed r \<or> produced E q)
      \<and> (rp_status q = RPS_COMPLETED \<longrightarrow> q = r \<or> finalized R q))"

text \<open>A change of the replay repository: a fresh draft, or transitions of the stored replay.\<close>

inductive replay_change ::
  "job_repo \<Rightarrow> execution_store \<Rightarrow> result_repo option \<Rightarrow> replay_repo \<Rightarrow> replay_repo \<Rightarrow> bool" for J E R where
  draft: "create_replay i q now = Inr r \<Longrightarrow> save_replay r None s = (x, t) \<Longrightarrow> replay_change J E R s t"
| advance: "dict_get s i = Some r \<Longrightarrow> replay_step\<^sup>*\<^sup>* r q \<Longrightarrow> replay_links J E R s r q \<Longrightarrow>
    save_replay q (Some v) s = (x, t) \<Longrightarrow> replay_change J E R s t"

definition execution_store_key :: "workflow_execution \<Rightarrow> string \<times> string \<times> string" where
  "execution_store_key x = (wx_organization_id x, wx_project_id x, wx_execution_id x)"

inductive replay_move :: "(replay_result \<Rightarrow> bool) \<Rightarrow> replay_system \<Rightarrow> replay_system \<Rightarrow> bool" for A where
  replays: "replay_change (rs_jobs s) (rs_executions s) (rs_results s) (rs_replays s) t \<Longrightarrow> replay_move A s (s\<lparr>rs_replays := t\<rparr>)"
| jobs: "job_repo_step (rs_jobs s) t \<Longrightarrow> replay_move A s (s\<lparr>rs_jobs := t\<rparr>)"
| results: "rs_results s = Some u \<Longrightarrow> save_result x u = (y, t) \<Longrightarrow> new_result x = Inr x \<Longrightarrow>
    dict_get (rs_replays s) i = Some r \<Longrightarrow> concludes x r \<Longrightarrow> A x \<Longrightarrow> replay_move A s (s\<lparr>rs_results := Some t\<rparr>)"
| produced: "dict_get (rs_replays s) i = Some r \<Longrightarrow> execution_key r = Some (execution_store_key x) \<Longrightarrow> derived x r \<Longrightarrow>
    replay_move A s (s\<lparr>rs_executions := upsert_execution x (rs_executions s)\<rparr>)"
| source: "unreserved (rs_replays s) (execution_store_key x) \<Longrightarrow>
    replay_move A s (s\<lparr>rs_executions := upsert_execution x (rs_executions s)\<rparr>)"

text \<open>What holds of one stored replay, and of the whole system.\<close>

definition reservation_ok :: "replay \<Rightarrow> bool" where
  "reservation_ok r =
     (case rp_replay_execution_id r of None \<Rightarrow> True | Some i \<Rightarrow> i \<noteq> [] \<and> rp_status r \<noteq> RPS_DRAFT)"

definition replay_ok :: "job_repo \<Rightarrow> execution_store \<Rightarrow> result_repo option \<Rightarrow> replay \<Rightarrow> bool" where
  "replay_ok J E R r =
     (replay_inv r \<and> reservation_ok r
      \<and> (case rp_job_id r of None \<Rightarrow> True | Some j \<Rightarrow> executes J j r)
      \<and> (has_executed r \<longrightarrow> produced E r)
      \<and> (rp_status r = RPS_COMPLETED \<longrightarrow> finalized R r)
      \<and> (case execution_key r of None \<Rightarrow> True
         | Some k \<Rightarrow> (case dict_get E k of None \<Rightarrow> True | Some x \<Rightarrow> derived x r)))"

definition reserved_once :: "replay_repo \<Rightarrow> bool" where
  "reserved_once s =
     (\<forall>i j r q k. dict_get s i = Some r \<longrightarrow> dict_get s j = Some q \<longrightarrow>
        execution_key r = Some k \<longrightarrow> execution_key q = Some k \<longrightarrow> i = j)"

definition replays_ok :: "job_repo \<Rightarrow> execution_store \<Rightarrow> result_repo option \<Rightarrow> replay_repo \<Rightarrow> bool" where
  "replays_ok J E R s =
     (replay_repo_inv s \<and> reserved_once s \<and> (\<forall>i r. dict_get s i = Some r \<longrightarrow> replay_ok J E R r))"

text \<open>Every stored result is complete and concludes a stored replay.\<close>

definition results_ok :: "replay_repo \<Rightarrow> result_repo option \<Rightarrow> bool" where
  "results_ok s R =
     (case R of None \<Rightarrow> True
      | Some u \<Rightarrow> result_inv u
          \<and> (\<forall>i x. dict_get u i = Some x \<longrightarrow>
                new_result x = Inr x \<and> (\<exists>r. dict_get s (rt_replay_id x) = Some r \<and> concludes x r)))"

definition replay_system_inv :: "replay_system \<Rightarrow> bool" where
  "replay_system_inv s =
     (replays_ok (rs_jobs s) (rs_executions s) (rs_results s) (rs_replays s) \<and> job_repo_inv (rs_jobs s)
      \<and> results_ok (rs_replays s) (rs_results s))"

lemma executes_cong:
  "rp_replay_id q = rp_replay_id r \<Longrightarrow> replay_identity q = replay_identity r \<Longrightarrow> executes J i q = executes J i r"
  by (simp add: executes_def replay_identity_def split: option.splits)

lemma executes_step:
  assumes "job_repo_inv J" "job_repo_step J K" "executes J i r"
  shows "executes K i r"
proof -
  from assms(3) obtain j where j: "dict_get (jr_jobs J) i = Some j" by (auto simp: executes_def split: option.splits)
  from jobs.lookup_step [OF assms(1,2) j] obtain k where "dict_get (jr_jobs K) i = Some k" "job_evolves j k" by blast
  with assms(3) j show ?thesis by (simp add: executes_def job_evolves_def job_content_def)
qed

lemma replay_run_identity:
  "replay_step\<^sup>*\<^sup>* r q \<Longrightarrow> replay_identity q = replay_identity r \<and> rp_replay_id q = rp_replay_id r"
  by (induction rule: rtranclp_induct) (auto dest: replay_step_identity)

lemma reservation_ok_step: "replay_step r q \<Longrightarrow> reservation_ok r \<Longrightarrow> reservation_ok q"
  by (erule replay_step.cases; hypsubst; simp add: replay_transitions split: if_splits; (elim conjE)?;
      hypsubst; simp add: reservation_ok_def not_blank_not_Nil split: option.splits; auto?)

lemma reservation_ok_run: "replay_step\<^sup>*\<^sup>* r q \<Longrightarrow> reservation_ok r \<Longrightarrow> reservation_ok q"
  by (induction rule: rtranclp_induct) (auto dest: reservation_ok_step)

lemma version_cong [simp]:
  "execution_key (r\<lparr>rp_version := n\<rparr>) = execution_key r" "derived x (r\<lparr>rp_version := n\<rparr>) = derived x r"
  "produced E (r\<lparr>rp_version := n\<rparr>) = produced E r" "has_executed (r\<lparr>rp_version := n\<rparr>) = has_executed r"
  "executes J i (r\<lparr>rp_version := n\<rparr>) = executes J i r" "concludes y (r\<lparr>rp_version := n\<rparr>) = concludes y r"
  "finalized R (r\<lparr>rp_version := n\<rparr>) = finalized R r" "replay_ok J E R (r\<lparr>rp_version := n\<rparr>) = replay_ok J E R r"
proof -
  show [simp]: "execution_key (r\<lparr>rp_version := n\<rparr>) = execution_key r" "derived x (r\<lparr>rp_version := n\<rparr>) = derived x r"
    "has_executed (r\<lparr>rp_version := n\<rparr>) = has_executed r" "executes J i (r\<lparr>rp_version := n\<rparr>) = executes J i r"
    "concludes y (r\<lparr>rp_version := n\<rparr>) = concludes y r" for x i y
    by (simp_all add: execution_key_def derived_def has_executed_def executes_def concludes_def split: option.splits)
  show [simp]: "finalized R (r\<lparr>rp_version := n\<rparr>) = finalized R r"
    by (simp add: finalized_def split: option.splits)
  show [simp]: "produced E (r\<lparr>rp_version := n\<rparr>) = produced E r"
    by (simp add: produced_def split: option.splits)
  show "replay_ok J E R (r\<lparr>rp_version := n\<rparr>) = replay_ok J E R r"
    by (simp add: replay_ok_def reservation_ok_def split: option.splits)
qed

lemma unreserved_get: "unreserved s k \<Longrightarrow> dict_get s i = Some r \<Longrightarrow> execution_key r \<noteq> Some k"
  using dict_get_Some_values by (fastforce simp: unreserved_def list_all_iff)

text \<open>Lineage is stated over what transitions of a frozen replay keep.\<close>

lemma derived_keeps:
  assumes "replay_keeps r q" "rp_status r \<noteq> RPS_DRAFT"
  shows "derived x q = derived x r"
  using assms by (simp add: replay_keeps_def replay_content_def derived_def)

lemma reserved_keeps:
  assumes "replay_keeps r q" "reservation_ok r" "execution_key r = Some k"
  shows "execution_key q = Some k" "derived x q = derived x r"
proof -
  from assms(2,3) have r: "truthy (rp_replay_execution_id r)" "rp_status r \<noteq> RPS_DRAFT"
    by (auto simp: execution_key_def reservation_ok_def truthy_def)
  then show "execution_key q = Some k"
    using assms(1,3) by (simp add: execution_key_def replay_keeps_def replay_content_def assigned_ids_def)
  show "derived x q = derived x r" by (rule derived_keeps [OF assms(1) r(2)])
qed

lemma replay_ok_advance:
  assumes ok: "replay_ok J E R r" and run: "replay_step\<^sup>*\<^sup>* r q" and links: "replay_links J E R s r q"
  shows "replay_ok J E R q"
proof -
  have r: "replay_inv r" "reservation_ok r" using ok by (simp_all add: replay_ok_def)
  note q = replay_run [OF run r(1)]
  note reserved = reserved_keeps [OF conjunct2 [OF q] r(2)]
  have job: "executes J j q" if "rp_job_id q = Some j" for j
    using that links ok executes_cong [of q r] replay_run_identity [OF run]
    by (auto simp: replay_links_def replay_ok_def)
  have entry: "derived x q" if "execution_key q = Some k" "dict_get E k = Some x" for k x
    using that links ok reserved [of k] by (auto simp: replay_links_def replay_ok_def)
  have "produced E q" if "has_executed q"
  proof (cases "has_executed r")
    case True
    with ok obtain k x where "execution_key r = Some k" "dict_get E k = Some x" "derived x r"
      by (auto simp: replay_ok_def produced_def split: option.splits)
    then show ?thesis using reserved [of k] by (simp add: produced_def)
  qed (use that links in \<open>simp add: replay_links_def\<close>)
  moreover have "finalized R q" if "rp_status q = RPS_COMPLETED"
    using that links ok by (auto simp: replay_links_def replay_ok_def)
  ultimately show ?thesis
    using q job entry reservation_ok_run [OF run r(2)] by (auto simp: replay_ok_def split: option.splits)
qed

lemma reserved_once_put:
  assumes "reserved_once s" "\<And>k. execution_key a = Some k \<Longrightarrow>
    (\<exists>r. dict_get s i = Some r \<and> execution_key r = Some k) \<or> unreserved s k"
  shows "reserved_once (dict_put i a s)"
  unfolding reserved_once_def
proof (intro allI impI)
  have other: "j = i" if "dict_get s j = Some q" "execution_key q = Some k" "execution_key a = Some k" for j q k
    using assms(2) [OF that(3)] assms(1) that unreserved_get [of s k j q] unfolding reserved_once_def by blast
  fix j l r q k
  assume "dict_get (dict_put i a s) j = Some r" "dict_get (dict_put i a s) l = Some q"
    "execution_key r = Some k" "execution_key q = Some k"
  then show "j = l"
    using other [of j r k] other [of l q k] assms(1) [unfolded reserved_once_def, rule_format, of j r l q k]
    by (simp add: dict_get_put split: if_splits)
qed

lemma replays_ok_change:
  assumes "replay_change J E R s t" "replays_ok J E R s"
  shows "replays_ok J E R t"
  using assms
proof (induction rule: replay_change.induct)
  case (draft i q now r s x t)
  have fresh: "replay_inv r" "rp_job_id r = None" "rp_replay_execution_id r = None" "rp_status r = RPS_DRAFT"
    using draft(1) create_replay_fresh by (auto simp: create_replay_def split: if_splits)
  then have "replay_ok J E R r"
    by (simp add: replay_ok_def reservation_ok_def has_executed_def execution_key_def)
  with draft(2) show ?case
  proof (cases rule: save_replay_cases)
    case (inserted a)
    then have "reserved_once t" using draft(3) fresh
      by (auto simp: replays_ok_def execution_key_def intro!: reserved_once_put)
    then show ?thesis
      using inserted draft(3) \<open>replay_ok J E R r\<close> replay_repo_inv_save [OF _ draft(2)]
      by (auto simp: replays_ok_def dict_get_put split: if_splits)
  qed (use draft(3) in simp_all)
next
  case (advance s i r q v x t)
  have inv: "replay_repo_inv s" and r: "replay_ok J E R r" "rp_replay_id r = i"
    using advance(1,5) by (auto simp: replays_ok_def replay_repo_inv_def)
  have q: "replay_ok J E R q" "rp_replay_id q = i"
    using replay_ok_advance [OF r(1) advance(2,3)] replay_run_identity [OF advance(2)] r(2) by auto
  from advance(4) show ?case
  proof (cases rule: save_replay_cases)
    case (updated c a)
    have "reserved_once t"
      unfolding updated(6) by (rule reserved_once_put) (use advance(1,3,5) updated q(2) in \<open>auto simp: replays_ok_def replay_links_def\<close>)
    then show ?thesis
      using updated advance(5) q(1) replay_repo_inv_save [OF inv advance(4)]
      by (auto simp: replays_ok_def dict_get_put split: if_splits)
  qed (use advance(5) in simp_all)
qed

lemma replay_ok_executions:
  assumes "replay_ok J E R r" "execution_key r = Some (execution_store_key x) \<Longrightarrow> derived x r"
  shows "replay_ok J (upsert_execution x E) R r"
  using assms by (auto simp: replay_ok_def produced_def upsert_execution_def dict_get_put execution_store_key_def
      split: option.splits if_splits)

text \<open>Stored replays along moves: versions grow, and what transitions keep is kept.\<close>

definition succeeds :: "replay \<Rightarrow> replay \<Rightarrow> bool" where
  "succeeds r q = (later_version r q \<and> replay_keeps r q)"

lemma replay_change_lookup:
  assumes "replay_change J E R s t" "replays_ok J E R s" "dict_get s i = Some r"
  shows "\<exists>q. dict_get t i = Some q \<and> succeeds r q"
  using assms
proof (induction rule: replay_change.induct)
  case (draft l q now p s x t)
  from draft(2) show ?case
    by (cases rule: save_replay_cases)
      (use draft(4) in \<open>auto simp: dict_get_put succeeds_def later_version_def replay_keeps_refl\<close>)
next
  case (advance s l p q v x t)
  have p: "replay_inv p" "rp_replay_id p = l"
    using advance(1,5) by (auto simp: replays_ok_def replay_ok_def replay_repo_inv_def)
  note q = replay_run [OF advance(2) p(1)] replay_run_identity [OF advance(2)]
  from advance(4) show ?case
  proof (cases rule: save_replay_cases)
    case (updated c a)
    have "replay_keeps p a" "c = p"
      using q p(2) advance(1) updated(1,4) by (auto simp: replay_keeps_def replay_content_def assigned_ids_def)
    then show ?thesis
      using updated q p(2) advance(1,6)
      by (auto simp: dict_get_put succeeds_def later_version_def replay_identity_def replay_keeps_refl)
  qed (use advance(6) in \<open>auto simp: succeeds_def later_version_def replay_keeps_refl\<close>)
qed

text \<open>A result keeps concluding its replay, since it names identifiers that are never reassigned.\<close>

lemma concludes_keeps:
  assumes "concludes x r" "new_result x = Inr x" "replay_keeps r q"
  shows "concludes x q"
proof -
  have "rt_replay_execution_id x \<noteq> []" "rt_replay_evaluation_id x \<noteq> []" "rt_baseline_evaluation_id x \<noteq> []"
    "rt_comparison_id x \<noteq> []" "rt_drift_id x \<noteq> []"
    using assms(2) by (auto simp: new_result_def not_blank_not_Nil split: if_splits)
  then show ?thesis
    using assms(1,3) by (simp add: concludes_def replay_keeps_def replay_content_def assigned_ids_def truthy_def)
qed

lemma results_ok_replays:
  assumes "results_ok s R" "\<And>i r. dict_get s i = Some r \<Longrightarrow> \<exists>q. dict_get t i = Some q \<and> succeeds r q"
  shows "results_ok t R"
proof (cases R)
  case (Some u)
  show ?thesis
    unfolding results_ok_def Some option.case
  proof (intro conjI allI impI)
    show "result_inv u" using assms(1) Some by (simp add: results_ok_def)
    fix i x assume "dict_get u i = Some x"
    then obtain r where x: "new_result x = Inr x" and r: "dict_get s (rt_replay_id x) = Some r" "concludes x r"
      using assms(1) Some unfolding results_ok_def by auto
    from assms(2) [OF r(1)] obtain q where "dict_get t (rt_replay_id x) = Some q" "replay_keeps r q"
      by (auto simp: succeeds_def)
    with concludes_keeps [OF r(2) x] x show "new_result x = Inr x"
      "\<exists>r. dict_get t (rt_replay_id x) = Some r \<and> concludes x r" by auto
  qed
qed (simp add: results_ok_def)

lemma results_ok_save:
  assumes "results_ok s (Some u)" "save_result x u = (y, t)" "new_result x = Inr x"
    "dict_get s (rt_replay_id x) = Some r" "concludes x r"
  shows "results_ok s (Some t)"
proof -
  have "result_inv t" using assms(1) result_inv_save [OF _ assms(2)] by (simp add: results_ok_def)
  with assms(2) show ?thesis
    by (cases rule: save_result_cases) (use assms(1,3-5) in \<open>auto simp: results_ok_def dict_get_put split: if_splits\<close>)
qed

lemma finalized_save:
  assumes "result_inv u" "save_result x u = (y, t)" "finalized (Some u) r"
  shows "finalized (Some t) r"
  using assms(3) results.lookup_step [OF assms(1) result_step.save [OF assms(2)]]
  by (fastforce simp: finalized_def split: option.splits)

lemma replay_system_inv_move: "replay_move A s t \<Longrightarrow> replay_system_inv s \<Longrightarrow> replay_system_inv t"
proof (induction rule: replay_move.induct)
  case (replays s t)
  then have ok: "replays_ok (rs_jobs s) (rs_executions s) (rs_results s) (rs_replays s)" by (simp add: replay_system_inv_def)
  have "results_ok t (rs_results s)"
    by (rule results_ok_replays [of "rs_replays s"]) (use replays(2) replay_change_lookup [OF replays(1) ok] in \<open>simp_all add: replay_system_inv_def\<close>)
  with replays_ok_change [OF replays(1) ok] replays(2) show ?case by (simp add: replay_system_inv_def)
next
  case (jobs s t)
  have "replay_ok t E R r" if "replay_ok (rs_jobs s) E R r" for E R r
    using that executes_step [OF _ jobs(1)] jobs(2)
    by (auto simp: replay_ok_def replay_system_inv_def split: option.splits)
  with jobs job_repo_inv_step show ?case by (auto simp: replay_system_inv_def replays_ok_def)
next
  case (results s u x y t i r)
  have inv: "result_inv u" using results(1,7) by (simp add: replay_system_inv_def results_ok_def)
  have "replay_ok (rs_jobs s) (rs_executions s) (Some t) q"
    if "replay_ok (rs_jobs s) (rs_executions s) (Some u) q" for q
    using that finalized_save [OF inv results(2)] by (simp add: replay_ok_def)
  moreover have "dict_get (rs_replays s) (rt_replay_id x) = Some r"
    using results(4,5,7) by (auto simp: replay_system_inv_def replays_ok_def replay_repo_inv_def concludes_def)
  note results_ok_save [OF _ results(2,3) this results(5)]
  ultimately show ?case using results(1,7) by (simp add: replay_system_inv_def replays_ok_def)
next
  case (produced s i r x)
  have "derived x q" if "dict_get (rs_replays s) j = Some q" "execution_key q = Some (execution_store_key x)" for j q
  proof -
    have "j = i" using that produced unfolding replay_system_inv_def replays_ok_def reserved_once_def by blast
    with that produced show ?thesis by simp
  qed
  with produced(4) show ?case
    by (auto simp: replay_system_inv_def replays_ok_def intro!: replay_ok_executions)
next
  case (source s x)
  then show ?case using unreserved_get [OF source(1)]
    by (auto simp: replay_system_inv_def replays_ok_def intro!: replay_ok_executions)
qed

lemma succeeds_refl: "succeeds r r"
  by (simp add: succeeds_def later_version_def replay_keeps_refl)

interpretation system_replays: evolving_store "replay_move A" "\<lambda>s. dict_get (rs_replays s)" succeeds replay_system_inv
proof
  show "succeeds r r" for r by (rule succeeds_refl)
  show "succeeds a c" if "succeeds a b" "succeeds b c" for a b c
    using that replay_keeps_trans replays.keeps_trans unfolding succeeds_def by blast
  show "replay_system_inv t" if "replay_system_inv s" "replay_move A s t" for s t
    using that replay_system_inv_move by blast
  show "\<exists>q. dict_get (rs_replays t) i = Some q \<and> succeeds r q"
    if "replay_system_inv s" "replay_move A s t" "dict_get (rs_replays s) i = Some r" for s t i r
    using that(2,1,3)
  proof (induction rule: replay_move.induct)
    case (replays s t)
    then show ?case using replay_change_lookup [OF replays(1)] by (simp add: replay_system_inv_def)
  qed (auto simp: succeeds_refl)
qed

section \<open>Every command is a sequence of moves\<close>

lemma save_within:
  assumes "dict_get (rs_replays s) i = Some r" "replay_step\<^sup>*\<^sup>* r q"
    "replay_links (rs_jobs s) (rs_executions s) (rs_results s) (rs_replays s) r q"
  shows "act_within (replay_move A) (on_replays (save_replay q (Some v))) s"
proof (rule act_within_step)
  fix x s' assume "on_replays (save_replay q (Some v)) s = (x, s')"
  then have "save_replay q (Some v) (rs_replays s) = (x, rs_replays s')" "s' = s\<lparr>rs_replays := rs_replays s'\<rparr>"
    by (simp_all add: on_replays_Inr)
  then show "replay_move A s s' \<or> s' = s"
    using replay_move.replays [OF replay_change.advance [OF assms]] by metis
qed

text \<open>Transitions that link the replay to nothing new.\<close>

definition same_links :: "replay \<Rightarrow> replay \<Rightarrow> bool" where
  "same_links r q =
     (rp_job_id q = rp_job_id r \<and> rp_replay_execution_id q = rp_replay_execution_id r
      \<and> (has_executed q \<longrightarrow> has_executed r) \<and> rp_status q \<noteq> RPS_COMPLETED)"

lemma same_links_links:
  "same_links r q \<Longrightarrow> replay_identity q = replay_identity r \<Longrightarrow> replay_links J E R s r q"
  by (simp add: same_links_def replay_links_def execution_key_def replay_identity_def)

lemma save_step_within:
  assumes "dict_get (rs_replays s) i = Some r" "replay_step r q" "same_links r q"
  shows "act_within (replay_move A) (on_replays (save_replay q (Some v))) s"
  using assms same_links_links replay_step_identity [OF assms(2)] by (intro save_within [OF assms(1)]) auto

lemma transition_links:
  "replay_mark_ready c now r = Inr q \<Longrightarrow> same_links r q" "replay_mark_failed f now r = Inr q \<Longrightarrow> same_links r q"
  "replay_archive now r = Inr q \<Longrightarrow> same_links r q" "replay_mark_running n now r = Inr q \<Longrightarrow> same_links r q"
  "request_cancellation now r = Inr q \<Longrightarrow> same_links r q" "mark_cancelled now r = Inr q \<Longrightarrow> same_links r q"
  "mark_execution_failed f now r = Inr q \<Longrightarrow> same_links r q" "mark_evaluating j now r = Inr q \<Longrightarrow> same_links r q"
  "record_replay_evaluation e now r = Inr q \<Longrightarrow> same_links r q" "record_baseline_evaluation e now r = Inr q \<Longrightarrow> same_links r q"
  "mark_comparing now r = Inr q \<Longrightarrow> same_links r q" "record_comparison e now r = Inr q \<Longrightarrow> same_links r q"
  "record_drift e now r = Inr q \<Longrightarrow> same_links r q"
  by (simp_all add: same_links_def has_executed_def replay_transitions replay_active_def split: if_splits) auto

lemma on_jobs_within:
  assumes "act_within job_repo_step m (rs_jobs s)"
  shows "act_within (replay_move A) (on_jobs m) s"
  unfolding act_within_def
proof (intro allI impI)
  fix x s' assume "on_jobs m s = (x, s')"
  then obtain t where "m (rs_jobs s) = (x, t)" and s': "s' = s\<lparr>rs_jobs := t\<rparr>"
    by (cases "m (rs_jobs s)") (auto simp: act_on_apply)
  then have "job_repo_step\<^sup>*\<^sup>* (rs_jobs s) t" using assms by (auto simp: act_within_def)
  then have "(replay_move A)\<^sup>*\<^sup>* s (s\<lparr>rs_jobs := t\<rparr>)"
  proof (induction rule: rtranclp_induct)
    case (step y z)
    then show ?case using replay_move.jobs [of "s\<lparr>rs_jobs := y\<rparr>" z] by (auto intro: rtranclp.rtrancl_into_rtrancl)
  qed simp
  then show "(replay_move A)\<^sup>*\<^sup>* s s'" using s' by simp
qed

lemma service_get_replay_stored:
  assumes "service_get_replay env i cx s = Inr r"
  shows "dict_get (rs_replays s) i = Some r" "rp_organization_id r = cx_organization_id cx" "rp_project_id r = cx_project cx"
  using assms by (auto simp: service_get_replay_def get_replay_def res_bind_Inr_iff split: option.splits if_splits)

lemma freeze_draft_within:
  assumes "dict_get (rs_replays s) i = Some d"
  shows "act_within (replay_move A) (freeze_draft env e q cx d) s"
proof (cases "resolve_configuration env (cf_resolved e) (cq_source_execution_id q) cx s")
  case (Inr c)
  have "act_within (replay_move A) (on_replays (save_replay x (Some (rp_version d)))) s"
    if "replay_mark_ready c (cf_ready e) d = Inr x" for x
    by (rule save_step_within [OF assms replay_step.ready [OF that] transition_links(1) [OF that]])
  then show ?thesis by (auto simp: act_within_def freeze_draft_def Inr split: sum.splits)
next
  case (Inl y)
  have "act_within (replay_move A) (on_replays (save_replay x (Some (rp_version d)))) s"
    if "replay_mark_failed f (cf_failed e) d = Inr x" for f x
    by (rule save_step_within [OF assms replay_step.failed [OF that] transition_links(2) [OF that]])
  then show ?thesis by (auto simp: act_within_def freeze_draft_def Inl split: sum.splits if_splits)
qed

lemma draft_within:
  assumes "create_replay i q now = Inr r"
  shows "act_within (replay_move A) (on_replays (save_replay r None)) s"
proof (rule act_within_step)
  fix x s' assume "on_replays (save_replay r None) s = (x, s')"
  then have "save_replay r None (rs_replays s) = (x, rs_replays s')" "s' = s\<lparr>rs_replays := rs_replays s'\<rparr>"
    by (simp_all add: on_replays_Inr)
  then show "replay_move A s s' \<or> s' = s"
    using replay_move.replays [OF replay_change.draft [OF assms]] by metis
qed

lemma service_create_replay_within: "act_within (replay_move A) (service_create_replay env q cx e) s"
proof -
  have "act_within (replay_move A) (act_bind (on_replays (save_replay d0 None)) (freeze_draft env e q cx)) s"
    if "create_replay (cf_replay_id e) (draft_request env q cx) (cf_created e) = Inr d0" for d0
  proof (rule act_within_bind [OF draft_within [OF that]])
    fix d s' assume "on_replays (save_replay d0 None) s = (Inr d, s')"
    then have "dict_get (rs_replays s') (rp_replay_id d0) = Some d"
      by (auto simp: on_replays_Inr dict_get_put dest!: save_replay_Inr)
    then show "act_within (replay_move A) (freeze_draft env e q cx d) s'" by (rule freeze_draft_within)
  qed
  then show ?thesis
    unfolding act_within_def service_create_replay_def
    by (auto split: sum.splits option.splits if_splits)
qed

lemma service_archive_replay_within: "act_within (replay_move A) (service_archive_replay env now i cx) s"
proof -
  have "act_within (replay_move A) (on_replays (save_replay q (Some (rp_version r)))) s"
    if "service_get_replay env i cx s = Inr r" "replay_archive now r = Inr q" for r q
    using save_step_within [OF service_get_replay_stored(1) [OF that(1)]] that(2) replay_step.archived transition_links(3)
    by blast
  then show ?thesis
    unfolding act_within_def service_archive_replay_def
    by (auto simp: act_bind_def act_reraise_def split: sum.splits prod.splits)
qed

lemma submit_job_within:
  assumes "dict_get (jr_jobs s) (snd fresh) = None"
  shows "act_within job_repo_step (submit_job fr config fresh sub) s"
  using submit_job_step [OF assms] by (intro act_within_step) blast

lemma on_jobs_submit:
  assumes "job_repo_inv (rs_jobs s)"
    "on_jobs (submit_job fr config fresh sub) s = (Inr j, s')"
  shows "rs_replays s' = rs_replays s" "dict_get (jr_jobs (rs_jobs s')) (jb_job_id j) = Some j"
    "jb_job_type j = jsb_job_type sub" "jb_idempotency_key j = jsb_idempotency_key sub"
proof -
  from assms(2) obtain t where "submit_job fr config fresh sub (rs_jobs s) = (Inr j, t)" "s' = s\<lparr>rs_jobs := t\<rparr>"
    by (cases "submit_job fr config fresh sub (rs_jobs s)") (auto simp: act_on_apply)
  with submit_job_returns [OF assms(1)] show "rs_replays s' = rs_replays s"
    "dict_get (jr_jobs (rs_jobs s')) (jb_job_id j) = Some j"
    "jb_job_type j = jsb_job_type sub" "jb_idempotency_key j = jsb_idempotency_key sub" by auto
qed

lemma submit_replay_within:
  assumes "replay_system_inv s" "dict_get (jr_jobs (rs_jobs s)) (snd (fst e)) = None"
  shows "act_within (replay_move A) (submit_replay env i cx e) s"
proof -
  obtain fresh now where e: "e = (fresh, now)" by (cases e)
  have jobs: "job_repo_inv (rs_jobs s)" using assms(1) by (simp add: replay_system_inv_def)
  have "act_within (replay_move A) (act_bind (act_reraise f
      (on_jobs (submit_job (rv_fr env) config fresh (execution_submission env cx r c)))) (\<lambda>job.
      act_reraise g (act_bind (act_lift (replay_mark_queued (jb_job_id job) now r)) (\<lambda>queued.
        on_replays (save_replay queued (Some (rp_version r))))))) s"
    if get: "service_get_replay env i cx s = Inr r" for r c f g config
  proof (rule act_within_bind)
    show "act_within (replay_move A) (act_reraise f (on_jobs (submit_job (rv_fr env) config fresh (execution_submission env cx r c)))) s"
      using submit_job_within assms(2) e by (simp add: act_within_reraise on_jobs_within)
    fix job s' assume run: "act_reraise f (on_jobs (submit_job (rv_fr env) config fresh (execution_submission env cx r c))) s = (Inr job, s')"
    note submitted = on_jobs_submit [OF jobs run [unfolded act_reraise_Inr_iff]]
    note stored = service_get_replay_stored [OF get]
    have "act_within (replay_move A) (on_replays (save_replay q (Some (rp_version r)))) s'"
      if q: "replay_mark_queued (jb_job_id job) now r = Inr q" for q
    proof (rule save_within)
      show "dict_get (rs_replays s') i = Some r" using stored(1) submitted(1) assms(2) e by simp
      show "replay_step\<^sup>*\<^sup>* r q" using replay_step.queued [OF q] by blast
      have linked: "rp_job_id q = Some (jb_job_id job)" "rp_replay_execution_id q = rp_replay_execution_id r" "\<not> has_executed q"
        using q by (auto simp: replay_mark_queued_def require_replay_status_def has_executed_def split: if_splits)
      note same = replay_step_identity [OF replay_step.queued [OF q]]
      have "executes (rs_jobs s') (jb_job_id job) q"
        using submitted(2-4) stored(2,3) same
        by (auto simp: executes_def execution_submission_def replay_identity_def)
      with linked same not_executed_status show "replay_links (rs_jobs s') (rs_executions s') (rs_results s') (rs_replays s') r q"
        by (auto simp: replay_links_def execution_key_def replay_identity_def)
    qed
    then show "act_within (replay_move A) (act_reraise g (act_bind (act_lift (replay_mark_queued (jb_job_id job) now r)) (\<lambda>queued.
        on_replays (save_replay queued (Some (rp_version r)))))) s'"
      by (intro act_within_reraise act_within_bind_lift)
  qed
  then show ?thesis
    unfolding act_within_def submit_replay_def e
    by (auto split: sum.splits option.splits if_splits)
qed

lemma cancel_replay_within:
  assumes "replay_system_inv s"
  shows "act_within (replay_move A) (cancel_replay env i cx e) s"
proof -
  obtain t1 t2 t3 where e: "e = (t1, t2, t3)" by (cases e)
  have active: "act_within (replay_move A) (act_bind (on_replays (save_replay q (Some (rp_version r)))) (\<lambda>persisted.
      act_bind (act_reraise f (on_jobs (api_cancel_job t2 k (Some cx)))) (\<lambda>job.
      if jb_status job = JS_CANCELLED
      then act_bind (act_lift (mark_cancelled t3 persisted)) (\<lambda>cancelled.
           on_replays (save_replay cancelled (Some (rp_version persisted))))
      else act_return persisted))) s"
    if get: "service_get_replay env i cx s = Inr r" and q: "request_cancellation t1 r = Inr q" for r q k f
  proof (rule act_within_bind)
    show first: "act_within (replay_move A) (on_replays (save_replay q (Some (rp_version r)))) s"
      by (rule save_step_within [OF service_get_replay_stored(1) [OF get] replay_step.cancel_requested [OF q] transition_links(5) [OF q]])
    fix p s1 assume p: "on_replays (save_replay q (Some (rp_version r))) s = (Inr p, s1)"
    have stored: "dict_get (rs_replays s1) (rp_replay_id q) = Some p"
      using p by (auto simp: on_replays_Inr dict_get_put dest!: save_replay_Inr)
    have inv1: "replay_system_inv s1"
      using act_withinD [OF first p] assms replay_system_inv_move by (induction rule: rtranclp_induct) auto
    show "act_within (replay_move A) (act_bind (act_reraise f (on_jobs (api_cancel_job t2 k (Some cx)))) (\<lambda>job.
      if jb_status job = JS_CANCELLED
      then act_bind (act_lift (mark_cancelled t3 p)) (\<lambda>cancelled. on_replays (save_replay cancelled (Some (rp_version p))))
      else act_return p)) s1"
    proof (rule act_within_bind)
      show "act_within (replay_move A) (act_reraise f (on_jobs (api_cancel_job t2 k (Some cx)))) s1"
        using api_cancel_job_step inv1
        by (intro act_within_reraise on_jobs_within) (auto simp: act_within_def replay_system_inv_def)
      fix job s2 assume "act_reraise f (on_jobs (api_cancel_job t2 k (Some cx))) s1 = (Inr job, s2)"
      then have "rs_replays s2 = rs_replays s1" by (auto simp: act_on_apply)
      with stored have s2: "dict_get (rs_replays s2) (rp_replay_id q) = Some p" by simp
      have "act_within (replay_move A) (on_replays (save_replay c (Some (rp_version p)))) s2" if "mark_cancelled t3 p = Inr c" for c
        by (rule save_step_within [OF s2 replay_step.cancelled [OF that] transition_links(6) [OF that]])
      then show "act_within (replay_move A) (if jb_status job = JS_CANCELLED
          then act_bind (act_lift (mark_cancelled t3 p)) (\<lambda>cancelled. on_replays (save_replay cancelled (Some (rp_version p))))
          else act_return p) s2"
        by (simp add: act_within_bind_lift act_within_return)
    qed
  qed
  have ready: "act_within (replay_move A) (on_replays (save_replay c (Some (rp_version r)))) s"
    if get: "service_get_replay env i cx s = Inr r" and q: "request_cancellation t1 r = Inr q" "mark_cancelled t3 q = Inr c" for r q c
  proof (rule save_within [OF service_get_replay_stored(1) [OF get]])
    have steps: "replay_step r q" "replay_step q c" using q by (auto intro: replay_step.intros)
    then show "replay_step\<^sup>*\<^sup>* r c" by auto
    have "same_links r c" using transition_links(5) [OF q(1)] transition_links(6) [OF q(2)] by (simp add: same_links_def)
    then show "replay_links (rs_jobs s) (rs_executions s) (rs_results s) (rs_replays s) r c"
      using replay_step_identity steps by (intro same_links_links) auto
  qed
  from active ready show ?thesis
    unfolding act_within_def cancel_replay_def e
    by (auto split: sum.splits option.splits if_splits)
qed

lemma evaluate_replay_within:
  assumes "replay_system_inv s" "dict_get (jr_jobs (rs_jobs s)) (snd (fst e)) = None"
  shows "act_within (replay_move A) (evaluate_replay env i q cx e) s"
proof -
  obtain fresh now where e: "e = (fresh, now)" by (cases e)
  have "act_within (replay_move A) (act_reraise f
      (act_bind (on_jobs (submit_job (rv_fr env) config fresh sub)) (\<lambda>job.
       act_bind (act_lift (mark_evaluating (jb_job_id job) now r)) (\<lambda>evaluating.
       on_replays (save_replay evaluating (Some (rp_version r))))))) s"
    if get: "service_get_replay env i cx s = Inr r" for r f config sub
  proof (rule act_within_reraise, rule act_within_bind)
    show "act_within (replay_move A) (on_jobs (submit_job (rv_fr env) config fresh sub)) s"
      using submit_job_within assms(2) e by (simp add: on_jobs_within)
    fix job s1 assume "on_jobs (submit_job (rv_fr env) config fresh sub) s = (Inr job, s1)"
    then have "rs_replays s1 = rs_replays s" by (auto simp: act_on_apply)
    then have s1: "dict_get (rs_replays s1) i = Some r" using service_get_replay_stored(1) [OF get] by simp
    have "act_within (replay_move A) (on_replays (save_replay x (Some (rp_version r)))) s1"
      if "mark_evaluating (jb_job_id job) now r = Inr x" for x
      by (rule save_step_within [OF s1 replay_step.evaluating [OF that] transition_links(8) [OF that]])
    then show "act_within (replay_move A) (act_bind (act_lift (mark_evaluating (jb_job_id job) now r)) (\<lambda>evaluating.
       on_replays (save_replay evaluating (Some (rp_version r))))) s1"
      by (rule act_within_bind_lift)
  qed
  then show ?thesis
    unfolding act_within_def evaluate_replay_def e
    by (auto split: sum.splits option.splits if_splits)
qed

end
