(* ===== verification/Replay_Commands.thy ===== *)
theory Replay_Commands
  imports Replay_System
begin

text \<open>
  The worker that executes a replay, and every command of the system as one step relation. The
  handler keeps a copy of the replay while the adapter runs and other commands change the state;
  \<open>follows\<close> says that the stored replay has succeeded that copy, and the version check then makes
  every later save of the handler either apply to the very copy or change nothing.
\<close>

section \<open>A copy of a stored replay\<close>

definition follows :: "replay_system \<Rightarrow> replay \<Rightarrow> bool" where
  "follows s r =
     (case dict_get (rs_replays s) (rp_replay_id r) of None \<Rightarrow> False | Some q \<Rightarrow> succeeds r q)"

lemma follows_stored: "dict_get (rs_replays s) (rp_replay_id r) = Some r \<Longrightarrow> follows s r"
  by (simp add: follows_def succeeds_refl)

lemma follows_run:
  assumes "replay_system_inv s" "follows s r" "(replay_move A)\<^sup>*\<^sup>* s t"
  shows "replay_system_inv t" "follows t r"
proof -
  show "replay_system_inv t" by (rule system_replays.inv_run [OF assms(3,1)])
  from assms(2) obtain q where "dict_get (rs_replays s) (rp_replay_id r) = Some q" "succeeds r q"
    by (auto simp: follows_def split: option.splits)
  with system_replays.lookup_run [OF assms(3,1)] system_replays.keeps_trans show "follows t r"
    by (fastforce simp: follows_def)
qed

lemma save_follows:
  assumes "follows s r" "replay_step\<^sup>*\<^sup>* r q"
    "dict_get (rs_replays s) (rp_replay_id r) = Some r \<Longrightarrow>
      replay_links (rs_jobs s) (rs_executions s) (rs_results s) (rs_replays s) r q"
  shows "act_within (replay_move A) (on_replays (save_replay q (Some (rp_version r)))) s"
proof -
  from assms(1) obtain p where p: "dict_get (rs_replays s) (rp_replay_id r) = Some p" "succeeds r p"
    by (auto simp: follows_def split: option.splits)
  show ?thesis
  proof (cases "rp_version p = rp_version r")
    case True
    then have "p = r" using p(2) by (simp add: succeeds_def later_version_def)
    with p(1) assms(2,3) show ?thesis by (auto intro: save_within)
  next
    case False
    show ?thesis
    proof (rule act_within_step)
      fix x s' assume "on_replays (save_replay q (Some (rp_version r))) s = (x, s')"
      then have save: "save_replay q (Some (rp_version r)) (rs_replays s) = (x, rs_replays s')" "s' = s\<lparr>rs_replays := rs_replays s'\<rparr>"
        by (simp_all add: on_replays_Inr)
      from save(1) have "rs_replays s' = rs_replays s"
        by (cases rule: save_replay_cases) (use False p(1) replay_run_identity [OF assms(2)] in auto)
      with save(2) show "replay_move A s s' \<or> s' = s" by simp
    qed
  qed
qed

lemma save_step_follows:
  assumes "follows s r" "replay_step r q" "same_links r q"
  shows "act_within (replay_move A) (on_replays (save_replay q (Some (rp_version r)))) s"
  using assms same_links_links replay_step_identity [OF assms(2)] by (intro save_follows) auto

lemma saved_stored:
  assumes "on_replays (save_replay q v) s = (Inr a, t)"
  shows "dict_get (rs_replays t) (rp_replay_id a) = Some a" "rs_executions t = rs_executions s"
    "\<exists>n. a = q\<lparr>rp_version := n\<rparr>" "rs_replays t = dict_put (rp_replay_id q) a (rs_replays s)"
proof -
  from assms have "save_replay q v (rs_replays s) = (Inr a, rs_replays t)" "t = s\<lparr>rs_replays := rs_replays t\<rparr>"
    by (simp_all add: on_replays_Inr)
  moreover note save_replay_Inr [OF this(1)]
  ultimately show "dict_get (rs_replays t) (rp_replay_id a) = Some a" "\<exists>n. a = q\<lparr>rp_version := n\<rparr>"
    "rs_replays t = dict_put (rp_replay_id q) a (rs_replays s)" by (auto simp: dict_get_put)
  show "rs_executions t = rs_executions s" by (subst \<open>t = _\<close>) simp
qed

section \<open>The worker\<close>

text \<open>An execution identifier that nothing in the system uses.\<close>

definition fresh_execution_id :: "replay_system \<Rightarrow> string \<Rightarrow> bool" where
  "fresh_execution_id s x =
     (list_all (\<lambda>r. rp_replay_execution_id r \<noteq> Some x) (dict_values (rs_replays s))
      \<and> list_all (\<lambda>((_, _, i), _). i \<noteq> x) (rs_executions s))"

lemma fresh_execution_id_unreserved:
  assumes "fresh_execution_id s x"
  shows "unreserved (rs_replays s) (a, b, x) \<and> dict_get (rs_executions s) (a, b, x) = None"
proof
  show "unreserved (rs_replays s) (a, b, x)"
    using assms by (auto simp: fresh_execution_id_def unreserved_def list_all_iff execution_key_def)
  show "dict_get (rs_executions s) (a, b, x) = None"
    using assms map_of_SomeD [of "rs_executions s" "(a, b, x)"]
    by (cases "dict_get (rs_executions s) (a, b, x)") (auto simp: fresh_execution_id_def list_all_iff)
qed

text \<open>Adapters may run any commands of the system, and nothing else.\<close>

definition adapters_within :: "(replay_result \<Rightarrow> bool) \<Rightarrow> adapter_registry \<Rightarrow> bool" where
  "adapters_within A registry =
     (\<forall>n a x c k s. dict_get registry n = Some a \<longrightarrow> replay_system_inv s \<longrightarrow> act_within (replay_move A) (ad_replay a x c k) s)"

lemma start_execution_within:
  assumes "follows s r"
  shows "act_within (replay_move A) (start_execution fresh j r) s"
proof -
  have "act_within (replay_move A) (on_replays (save_replay q (Some (rp_version r)))) s"
    if "replay_mark_running n t r = Inr q" for n t q
    by (rule save_step_follows [OF assms replay_step.running [OF that] transition_links(4) [OF that]])
  then show ?thesis by (auto simp: start_execution_def intro: act_within_bind_lift within_intros)
qed

lemma start_execution_Inr:
  assumes "start_execution fresh j r s = (Inr q, t)" "dict_get (rs_replays s) (rp_replay_id r) = Some r"
    "replay_repo_inv (rs_replays s)"
  shows "dict_get (rs_replays t) (rp_replay_id q) = Some q" "replay_identity q = replay_identity r"
    "fresh_execution_id s x \<Longrightarrow> fresh_execution_id t x"
proof -
  have "dict_get (rs_replays t) (rp_replay_id q) = Some q \<and> replay_identity q = replay_identity r
    \<and> (fresh_execution_id s x \<longrightarrow> fresh_execution_id t x)"
  proof (cases "rp_status r = RPS_QUEUED")
    case True
    with assms(1) obtain p where p: "replay_mark_running (max (jb_attempt_count j) 1) (hf_running fresh) r = Inr p"
      and save: "on_replays (save_replay p (Some (rp_version r))) s = (Inr q, t)"
      by (auto simp: start_execution_def split: sum.splits)
    note t = saved_stored [OF save]
    have same: "rp_replay_execution_id q = rp_replay_execution_id r" "replay_identity q = replay_identity r"
      using t(3) transition_links(4) [OF p] replay_step_identity [OF replay_step.running [OF p]]
      by (auto simp: same_links_def replay_identity_def)
    have "fresh_execution_id t x" if "fresh_execution_id s x"
    proof -
      have "rp_replay_execution_id u \<noteq> Some x" if "u \<in> set (dict_values (rs_replays t))" for u
      proof -
        have "dict_ok (rs_replays s)" using assms(3) by (simp add: replay_repo_inv_def)
        then have "u = q \<or> u \<in> set (dict_values (rs_replays s))"
          using that dict_values_put [of "rs_replays s" u] dict_get_Some_values unfolding t(4) by metis
        moreover have "r \<in> set (dict_values (rs_replays s))" by (rule dict_get_Some_values [OF assms(2)])
        moreover have "\<forall>u\<in>set (dict_values (rs_replays s)). rp_replay_execution_id u \<noteq> Some x"
          using \<open>fresh_execution_id s x\<close> by (simp add: fresh_execution_id_def list_all_iff)
        ultimately show ?thesis using same(1) by metis
      qed
      then show ?thesis using that t(2) by (simp add: fresh_execution_id_def list_all_iff)
    qed
    with t(1) same(2) show ?thesis by blast
  qed (use assms in \<open>auto simp: start_execution_def\<close>)
  then show "dict_get (rs_replays t) (rp_replay_id q) = Some q" "replay_identity q = replay_identity r"
    "fresh_execution_id s x \<Longrightarrow> fresh_execution_id t x" by blast+
qed

lemma reserve_execution_within:
  assumes "follows s r" "fresh_execution_id s (hf_execution_id fresh)"
  shows "act_within (replay_move A) (reserve_execution fresh r) s"
proof -
  have "act_within (replay_move A) (on_replays (save_replay q (Some (rp_version r)))) s"
    if q: "reserve_replay_execution_id (hf_execution_id fresh) t r = Inr q" for t q
  proof (rule save_follows [OF assms(1)])
    show "replay_step\<^sup>*\<^sup>* r q" using replay_step.reserved [OF q] by blast
    have "rp_job_id q = rp_job_id r" "rp_replay_execution_id q = Some (hf_execution_id fresh)" "\<not> has_executed q"
      using q by (auto simp: reserve_replay_execution_id_def has_executed_def split: if_splits)
    then show "replay_links (rs_jobs s) (rs_executions s) (rs_results s) (rs_replays s) r q"
      using fresh_execution_id_unreserved [OF assms(2)] not_executed_status [of q] by (auto simp: replay_links_def execution_key_def)
  qed
  then show ?thesis by (auto simp: reserve_execution_def intro: act_within_bind_lift within_intros)
qed

lemma reserve_execution_Inr:
  assumes "reserve_execution fresh r s = (Inr q, t)" "dict_get (rs_replays s) (rp_replay_id r) = Some r"
  shows "dict_get (rs_replays t) (rp_replay_id q) = Some q" "rp_replay_execution_id q \<noteq> None"
    "replay_identity q = replay_identity r"
proof -
  have "dict_get (rs_replays t) (rp_replay_id q) = Some q \<and> rp_replay_execution_id q \<noteq> None
    \<and> replay_identity q = replay_identity r"
  proof (cases "rp_replay_execution_id r = None")
    case True
    with assms(1) obtain p where p: "reserve_replay_execution_id (hf_execution_id fresh) (hf_reserved fresh) r = Inr p"
      and save: "on_replays (save_replay p (Some (rp_version r))) s = (Inr q, t)"
      by (auto simp: reserve_execution_def split: sum.splits)
    from p have "rp_replay_execution_id p \<noteq> None"
      by (auto simp: reserve_replay_execution_id_def split: if_splits)
    with saved_stored [OF save] replay_step_identity [OF replay_step.reserved [OF p]] show ?thesis
      by (auto simp: replay_identity_def)
  qed (use assms in \<open>auto simp: reserve_execution_def\<close>)
  then show "dict_get (rs_replays t) (rp_replay_id q) = Some q" "rp_replay_execution_id q \<noteq> None"
    "replay_identity q = replay_identity r" by blast+
qed

lemma fail_execution_within:
  assumes "follows s r"
  shows "act_within (replay_move A) (fail_execution fresh j r e) s"
proof -
  have "act_within (replay_move A) (on_replays (save_replay q (Some (rp_version r)))) s"
    if "mark_execution_failed f t r = Inr q" for f t q
    by (rule save_step_follows [OF assms replay_step.execution_failed [OF that] transition_links(7) [OF that]])
  then show ?thesis
    by (auto simp: fail_execution_def intro!: act_within_bind_lift act_within_bind within_intros)
qed

lemma cancel_execution_within:
  assumes "follows s r"
  shows "act_within (replay_move A) (cancel_execution fresh j r) s"
proof -
  have "act_within (replay_move A) (on_replays (save_replay q (Some (rp_version r)))) s"
    if "mark_cancelled t r = Inr q" for t q
    by (rule save_step_follows [OF assms replay_step.cancelled [OF that] transition_links(6) [OF that]])
  then show ?thesis
    by (auto simp: cancel_execution_def intro!: act_within_bind act_within_bind_lift within_intros)
qed

text \<open>The lineage recorded with a produced execution.\<close>

lemma with_lineage_derived:
  assumes "rp_configuration r = Some c"
  shows "derived (with_lineage j cx r c source x) r"
  using assms by (simp add: derived_def with_lineage_def pget_def opt_or_def dict_get_merge)

lemma complete_execution_within:
  assumes inv: "replay_system_inv s" and r: "follows s r" "reservation_ok r" "rp_configuration r = Some c"
    "rp_organization_id r = cx_organization_id cx" "rp_project_id r = cx_project cx"
  shows "act_within (replay_move A) (complete_execution fresh j cx r c source output) s"
proof -
  let ?save = "\<lambda>x. act_bind (store_execution (with_lineage j cx r c source x)) (\<lambda>_.
     act_bind (act_lift (mark_execution_completed (hf_completed fresh) r)) (\<lambda>completed.
     act_bind (on_replays (save_replay completed (Some (rp_version r)))) (\<lambda>stored.
     act_return (succeeded_result j (result_ref stored)))))"
  have save: "act_within (replay_move A) (?save x) s" if "rp_replay_execution_id r = Some (wx_execution_id x)" for x
  proof (rule act_within_bind)
    let ?e = "with_lineage j cx r c source x"
    have key: "execution_key r = Some (execution_store_key ?e)"
      using that r by (simp add: execution_key_def execution_store_key_def with_lineage_def)
    note derived = with_lineage_derived [OF r(3), of j cx source x]
    from r(1) obtain p where p: "dict_get (rs_replays s) (rp_replay_id r) = Some p" "replay_keeps r p"
      by (auto simp: follows_def succeeds_def split: option.splits)
    have "replay_move A s (s\<lparr>rs_executions := upsert_execution ?e (rs_executions s)\<rparr>)"
      by (rule replay_move.produced [OF p(1)]) (use reserved_keeps [OF p(2) r(2) key] derived in auto)
    then show "act_within (replay_move A) (store_execution ?e) s"
      by (intro act_within_step) (auto simp: store_execution_def)
    fix y t assume "store_execution ?e s = (Inr y, t)"
    then have t: "t = s\<lparr>rs_executions := upsert_execution ?e (rs_executions s)\<rparr>" by (auto simp: store_execution_def)
    then have "follows t r" using r(1) by (simp add: follows_def)
    have "act_within (replay_move A) (on_replays (save_replay q (Some (rp_version r)))) t"
      if q: "mark_execution_completed (hf_completed fresh) r = Inr q" for q
    proof (rule save_follows [OF \<open>follows t r\<close>])
      show "replay_step\<^sup>*\<^sup>* r q" using replay_step.executed [OF q] by blast
      have same: "rp_job_id q = rp_job_id r" "execution_key q = execution_key r" "derived ?e q = derived ?e r"
          "rp_status q = RPS_EXECUTION_COMPLETED"
        using q by (auto simp: mark_execution_completed_def require_replay_status_def execution_key_def derived_def split: if_splits)
      have "produced (rs_executions t) q"
        using same key derived by (simp add: produced_def t upsert_execution_def dict_get_put execution_store_key_def)
      with same show "replay_links (rs_jobs t) (rs_executions t) (rs_results t) (rs_replays t) r q" by (simp add: replay_links_def)
    qed
    then show "act_within (replay_move A) (act_bind (act_lift (mark_execution_completed (hf_completed fresh) r)) (\<lambda>completed.
       act_bind (on_replays (save_replay completed (Some (rp_version r)))) (\<lambda>stored.
       act_return (succeeded_result j (result_ref stored))))) t"
      by (intro act_within_bind_lift act_within_bind within_intros)
  qed
  have "act_within (replay_move A) (act_bind (act_lift (checked (identity_checks r x) ())) (\<lambda>_. ?save x)) s" for x
    by (rule act_within_bind_lift) (use save in \<open>auto simp: identity_checks_def split: if_splits\<close>)
  then show ?thesis
    unfolding complete_execution_def by (rule act_within_bind_lift)
qed

lemma attempt_adapter_within:
  assumes run: "\<And>k. act_within (replay_move A) (ad_replay a source c k) s" and inv: "replay_system_inv s"
    and r: "follows s r" "reservation_ok r" "rp_configuration r = Some c"
      "rp_organization_id r = cx_organization_id cx" "rp_project_id r = cx_project cx"
  shows "act_within (replay_move A) (attempt_adapter fresh j cx r c source a runtime_source) s"
proof -
  let ?run = "act_bind (act_lift (adapter_context j cx r source runtime_source)) (ad_replay a source c)"
  have "act_within (replay_move A) (act_try ?run
        (\<lambda>e s'. if token_cancelled (rp_replay_id r) cx s' then cancel_execution fresh j r s' else (Inl e, s'))
        (\<lambda>output s'.
           if token_cancelled (rp_replay_id r) cx s' then cancel_execution fresh j r s'
           else complete_execution fresh j cx r c source output s')) s"
  proof (rule act_within_try)
    show moves: "act_within (replay_move A) ?run s" using run by (intro act_within_bind_lift)
    note after = follows_run [OF inv r(1) act_withinD [OF moves]]
    show "act_within (replay_move A) (\<lambda>s'. if token_cancelled (rp_replay_id r) cx s' then cancel_execution fresh j r s'
        else complete_execution fresh j cx r c source y s') t" if "?run s = (Inr y, t)" for y t
      using cancel_execution_within [OF after(2) [OF that], of A fresh j]
        complete_execution_within [OF after [OF that] r(2-5), of A fresh j source y]
      by (simp add: act_within_def)
    show "act_within (replay_move A) (\<lambda>s'. if token_cancelled (rp_replay_id r) cx s' then cancel_execution fresh j r s'
        else (Inl e, s')) t" if "?run s = (Inl e, t)" for e t
      using cancel_execution_within [OF after(2) [OF that], of A fresh j] by (simp add: act_within_def)
  qed
  with cancel_execution_within [OF r(1), of A fresh j] show ?thesis
    by (simp add: act_within_def attempt_adapter_def)
qed

lemma run_adapter_within:
  assumes registry: "adapters_within A registry" and inv: "replay_system_inv s" and r: "follows s r" "reservation_ok r"
    "rp_organization_id r = cx_organization_id cx" "rp_project_id r = cx_project cx"
  shows "act_within (replay_move A) (run_adapter registry fresh j cx r) s"
proof -
  have "act_within (replay_move A) (act_bind (act_reraise f (act_lift y)) (attempt_adapter fresh j cx r c source a)) s"
    if "resolve_adapter registry n = Inr a" "rp_configuration r = Some c" for n a c source f y
  proof (rule act_within_bind)
    show "act_within (replay_move A) (act_reraise f (act_lift y)) s" by (intro act_within_reraise within_intros)
    have moves: "act_within (replay_move A) (ad_replay a source c k) s" for k
      using registry inv that(1) unfolding adapters_within_def resolve_adapter_def by (auto split: option.splits)
    fix z t assume "act_reraise f (act_lift y) s = (Inr z, t)"
    then have "t = s" by simp
    with attempt_adapter_within [OF moves inv r(1,2) that(2) r(3,4)]
    show "act_within (replay_move A) (attempt_adapter fresh j cx r c source a z) t" by simp
  qed
  then show ?thesis by (auto simp: act_within_def run_adapter_def split: sum.splits option.splits)
qed

text \<open>The handler, whatever it is given and however its adapter ends.\<close>

lemma handle_execution_within:
  assumes registry: "adapters_within A registry" and inv: "replay_system_inv s"
    and fresh: "fresh_execution_id s (hf_execution_id fresh)"
  shows "act_within (replay_move A) (handle_execution fr registry fresh j) s"
proof -
  have "act_within (replay_move A) (act_try (start_execution fresh j r) (fail_execution fresh j r) (\<lambda>r1.
         act_try (reserve_execution fresh r1) (fail_execution fresh j r1) (\<lambda>r2.
         act_try (run_adapter registry fresh j cx r2) (fail_execution fresh j r2) act_return))) s"
    if get: "get_replay (rs_replays s) i (cx_organization_id cx) (cx_project cx) = Some r" for i r cx
  proof -
    have repo: "replay_repo_inv (rs_replays s)" using inv by (simp add: replay_system_inv_def replays_ok_def)
    have r: "dict_get (rs_replays s) (rp_replay_id r) = Some r"
        "rp_organization_id r = cx_organization_id cx" "rp_project_id r = cx_project cx"
      using get repo by (auto simp: get_replay_def replay_repo_inv_def split: option.splits if_splits)
    show ?thesis
    proof (rule act_within_try)
      show first: "act_within (replay_move A) (start_execution fresh j r) s"
        by (rule start_execution_within [OF follows_stored [OF r(1)]])
      note s1 = follows_run [OF inv follows_stored [OF r(1)] act_withinD [OF first]]
      show "act_within (replay_move A) (fail_execution fresh j r e) t" if "start_execution fresh j r s = (Inl e, t)" for e t
        by (rule fail_execution_within [OF s1(2) [OF that]])
      fix r1 t1 assume start: "start_execution fresh j r s = (Inr r1, t1)"
      note inv1 = s1(1) [OF start] and r1 = start_execution_Inr [OF start r(1) repo]
      show "act_within (replay_move A) (act_try (reserve_execution fresh r1) (fail_execution fresh j r1) (\<lambda>r2.
         act_try (run_adapter registry fresh j cx r2) (fail_execution fresh j r2) act_return)) t1"
      proof (rule act_within_try)
        show second: "act_within (replay_move A) (reserve_execution fresh r1) t1"
          by (rule reserve_execution_within [OF follows_stored [OF r1(1)] r1(3) [OF fresh]])
        note s2 = follows_run [OF inv1 follows_stored [OF r1(1)] act_withinD [OF second]]
        show "act_within (replay_move A) (fail_execution fresh j r1 e) t" if "reserve_execution fresh r1 t1 = (Inl e, t)" for e t
          by (rule fail_execution_within [OF s2(2) [OF that]])
        fix r2 t2 assume reserve: "reserve_execution fresh r1 t1 = (Inr r2, t2)"
        note inv2 = s2(1) [OF reserve] and r2 = reserve_execution_Inr [OF reserve r1(1)]
        have tenant: "rp_organization_id r2 = cx_organization_id cx" "rp_project_id r2 = cx_project cx"
          using r(2,3) r1(2) r2(3) by (simp_all add: replay_identity_def)
        have "reservation_ok r2" using inv2 r2(1) by (auto simp: replay_system_inv_def replays_ok_def replay_ok_def)
        note last = run_adapter_within [OF registry inv2 follows_stored [OF r2(1)] this tenant, of fresh j]
        note s3 = follows_run(2) [OF inv2 follows_stored [OF r2(1)] act_withinD [OF last]]
        show "act_within (replay_move A) (act_try (run_adapter registry fresh j cx r2) (fail_execution fresh j r2) act_return) t2"
          by (rule act_within_try [OF last act_within_return fail_execution_within [OF s3]])
      qed
    qed
  qed
  then show ?thesis
    unfolding act_within_def handle_execution_def by (auto split: sum.splits option.splits if_splits)
qed

section \<open>All commands of the system\<close>

text \<open>
  One command, with the identifiers it generates not yet in use: the commands of the service, a step of
  the job repository, the worker, and the ingestion of a source execution. What a command returns
  or raises does not matter.
\<close>

inductive replay_command :: "replay_env \<Rightarrow> adapter_registry \<Rightarrow> replay_system \<Rightarrow> replay_system \<Rightarrow> bool" for env registry where
  create: "service_create_replay env q cx e s = (x, t) \<Longrightarrow> replay_command env registry s t"
| archive: "service_archive_replay env now i cx s = (x, t) \<Longrightarrow> replay_command env registry s t"
| submit: "submit_replay env i cx e s = (x, t) \<Longrightarrow> dict_get (jr_jobs (rs_jobs s)) (snd (fst e)) = None \<Longrightarrow>
    replay_command env registry s t"
| cancel: "cancel_replay env i cx e s = (x, t) \<Longrightarrow> replay_command env registry s t"
| evaluate: "evaluate_replay env i q cx e s = (x, t) \<Longrightarrow> dict_get (jr_jobs (rs_jobs s)) (snd (fst e)) = None \<Longrightarrow>
    replay_command env registry s t"
| job: "job_repo_step (rs_jobs s) J \<Longrightarrow> replay_command env registry s (s\<lparr>rs_jobs := J\<rparr>)"
| execute: "handle_execution (rv_fr env) registry fresh j s = (x, t) \<Longrightarrow> fresh_execution_id s (hf_execution_id fresh) \<Longrightarrow>
    replay_command env registry s t"
| ingest: "unreserved (rs_replays s) (execution_store_key x) \<Longrightarrow>
    replay_command env registry s (s\<lparr>rs_executions := upsert_execution x (rs_executions s)\<rparr>)"

lemma replay_command_moves:
  assumes "adapters_within A registry"
  shows "replay_command env registry s t \<Longrightarrow> replay_system_inv s \<Longrightarrow> (replay_move A)\<^sup>*\<^sup>* s t"
proof (induction rule: replay_command.induct)
  case (create q cx e s x t)
  show ?case by (rule act_withinD [OF service_create_replay_within create(1)])
next
  case (archive now i cx s x t)
  show ?case by (rule act_withinD [OF service_archive_replay_within archive(1)])
next
  case (submit i cx e s x t)
  show ?case by (rule act_withinD [OF submit_replay_within [OF submit(3,2)] submit(1)])
next
  case (cancel i cx e s x t)
  show ?case by (rule act_withinD [OF cancel_replay_within [OF cancel(2)] cancel(1)])
next
  case (evaluate i q cx e s x t)
  show ?case by (rule act_withinD [OF evaluate_replay_within [OF evaluate(3,2)] evaluate(1)])
next
  case (execute fresh j s x t)
  show ?case by (rule act_withinD [OF handle_execution_within [OF assms execute(3,2)] execute(1)])
next
  case (job s J)
  show ?case using replay_move.jobs [OF job(1)] by (rule r_into_rtranclp)
next
  case (ingest s x)
  show ?case using replay_move.source [OF ingest(1)] by (rule r_into_rtranclp)
qed

interpretation commands: evolving_store "replay_command env registry" "\<lambda>s. dict_get (rs_replays s)" succeeds
  "\<lambda>s. adapters_within A registry \<and> replay_system_inv s"
proof
  show "succeeds a c" if "succeeds a b" "succeeds b c" for a b c
    using that by (rule system_replays.keeps_trans)
  show "adapters_within A registry \<and> replay_system_inv t"
    if "adapters_within A registry \<and> replay_system_inv s" "replay_command env registry s t" for s t
    using that replay_command_moves system_replays.inv_run by blast
  show "\<exists>q. dict_get (rs_replays t) i = Some q \<and> succeeds r q"
    if "adapters_within A registry \<and> replay_system_inv s" "replay_command env registry s t"
      "dict_get (rs_replays s) i = Some r" for s t i r
    using that replay_command_moves system_replays.lookup_run by blast
qed (rule succeeds_refl)

text \<open>A system in which nothing has been replayed yet.\<close>

definition initial_system :: "execution_store \<Rightarrow> result_repo option \<Rightarrow> replay_system" where
  "initial_system E results = \<lparr>rs_replays = [], rs_jobs = empty_job_repo, rs_results = results, rs_executions = E\<rparr>"

lemma initial_system_inv: "replay_system_inv (initial_system E (map_option (\<lambda>_. []) x))"
  by (auto simp: initial_system_def replay_system_inv_def replays_ok_def reserved_once_def initial_replay_repo
      job_repo_inv_empty results_ok_def result_inv_def split: option.splits)

text \<open>
  C17. Whatever commands run and however they interleave with the adapters of the worker, a stored
  replay keeps its evidence: while it is submitted it is linked to an existing job of the right type
  and key, once it has executed the store holds an execution under its reserved identifier whose
  lineage names this replay, its source and its frozen configuration, and no other replay reserves
  that identifier.
\<close>

theorem replay_evidence_in_system:
  assumes "adapters_within A registry" "(replay_command env registry)\<^sup>*\<^sup>* (initial_system E (map_option (\<lambda>_. []) x)) s"
    and "dict_get (rs_replays s) i = Some r"
  shows "replay_inv r
    \<and> (rp_status r \<in> insert RPS_COMPLETED replay_active \<longrightarrow> (\<exists>j. rp_job_id r = Some j \<and> executes (rs_jobs s) j r))
    \<and> (has_executed r \<longrightarrow> produced (rs_executions s) r)
    \<and> (\<forall>k q. execution_key r \<noteq> None \<longrightarrow> dict_get (rs_replays s) k = Some q \<longrightarrow> execution_key q = execution_key r \<longrightarrow> k = i)"
proof -
  have "replay_system_inv s" using commands.inv_run [OF assms(2)] assms(1) initial_system_inv by blast
  then have inv: "reserved_once (rs_replays s)" "replay_ok (rs_jobs s) (rs_executions s) (rs_results s) r"
    using assms(3) by (auto simp: replay_system_inv_def replays_ok_def)
  have "k = i" if "execution_key r \<noteq> None" "dict_get (rs_replays s) k = Some q" "execution_key q = execution_key r" for k q
    using inv(1) assms(3) that unfolding reserved_once_def by (metis option.exhaust)
  moreover have "\<exists>j. rp_job_id r = Some j \<and> executes (rs_jobs s) j r" if "rp_status r \<in> insert RPS_COMPLETED replay_active"
    using inv(2) that by (auto simp: replay_ok_def replay_inv_defs split: option.splits)
  ultimately show ?thesis using inv(2) by (auto simp: replay_ok_def)
qed

text \<open>
  C18. Creating a replay is idempotent: once a creation has returned, every retry of the same request,
  at any later time, with any clock and any fresh identifiers, returns the very replay that was
  stored, as it is by then, and changes nothing.
\<close>

theorem replay_creation_idempotent:
  assumes "adapters_within A registry" "(replay_command env registry)\<^sup>*\<^sup>* (initial_system E (map_option (\<lambda>_. []) x)) s"
    and "service_create_replay env q cx e s = (Inr r, t)" "(replay_command env registry)\<^sup>*\<^sup>* t u"
  shows "\<exists>p. dict_get (rs_replays u) (rp_replay_id r) = Some p \<and> succeeds r p
    \<and> creation.retries env q cx es u = (Inr (replicate (length es) p), u)"
proof -
  have inv: "adapters_within A registry \<and> replay_system_inv s"
    using commands.inv_run [OF assms(2)] assms(1) initial_system_inv by blast
  then have "replay_repo_inv (rs_replays s)" by (simp add: replay_system_inv_def replays_ok_def)
  note stored = service_create_replay_stored [OF this assms(3)]
  have inv': "adapters_within A registry \<and> replay_system_inv t"
    by (rule commands.inv_step [OF inv replay_command.create [OF assms(3)]])
  obtain p where p: "dict_get (rs_replays u) (rp_replay_id r) = Some p" "succeeds r p"
    using commands.lookup_run [OF assms(4) inv'] stored by blast
  have "replay_repo_inv (rs_replays u)"
    using commands.inv_run [OF assms(4) inv'] by (simp add: replay_system_inv_def replays_ok_def)
  note found = find_replay_stored [OF this p(1)]
  have same: "replay_identity p = replay_identity r" using p(2) by (simp add: succeeds_def later_version_def)
  have "service_create_replay env q cx e' u = (Inr p, u)" for e'
    using assms(3) found stored same by (auto simp: service_create_replay_def replay_identity_def split: sum.splits)
  then show ?thesis using p creation.retries_settled by blast
qed

end
