(* ===== verification/Replay_Properties.thy ===== *)
theory Replay_Properties
  imports Replay_Commands
begin

text \<open>
  What a replay command guarantees on its own: the evidence a new replay is frozen on, deliveries of an
  execution job, and two ways in which a command fails but leaves a trace.
\<close>

section \<open>Frozen evidence\<close>

text \<open>A configuration that captures the source execution, by references that cannot move.\<close>

definition frozen_from :: "(rat \<Rightarrow> string) \<Rightarrow> tenant_context \<Rightarrow> workflow_execution \<Rightarrow> replay_configuration \<Rightarrow> bool" where
  "frozen_from fr cx x c =
     (wx_organization_id x = cx_organization_id cx \<and> wx_project_id x = cx_project cx
      \<and> rf_workflow_id c = wx_workflow_id x \<and> rf_workflow_version c = wx_workflow_version x
      \<and> rf_execution_adapter c = wx_execution_adapter x
      \<and> list_all (\<lambda>reference. \<not> is_mutable_alias reference)
          (rf_input_snapshot_ref c # rf_state_snapshot_ref c # rf_artifact_refs c @ rf_prompt_refs c @ rf_model_refs c
           @ rf_dataset_refs c @ rf_policy_refs c)
      \<and> rf_configuration_hash c = hash_value fr (configuration_payload fr x (rf_replay_manifest c))
      \<and> (case rf_replay_manifest c of None \<Rightarrow> pget (wx_metadata x) ''replay_manifest'' = PNone
         | Some m \<Rightarrow> is_eligible m \<and> source_identity x = Some (mf_source_execution_id m)
             \<and> mf_adapter_id m = Some (rf_execution_adapter c)
             \<and> mf_replay_reference m \<in> Some ` set (rf_artifact_refs c)))"

lemma manifest_from_source_metadata_None:
  "manifest_from_source_metadata x = Inr None \<Longrightarrow> pget (wx_metadata x) ''replay_manifest'' = PNone"
  by (auto simp: manifest_from_source_metadata_def split: pyval.splits sum.splits)

lemma validate_source_frozen:
  assumes "validate_source fr now x cx = Inr c"
  shows "frozen_from fr cx x c"
proof -
  from assms obtain m where m: "manifest_from_source_metadata x = Inr m"
    and checks: "checked (source_checks x cx) () = Inr ()"
      "checked (manifest_assessment x m @ [(list_ex is_mutable_alias (frozen_references fr x),
         not_replayable ''Source execution contains a mutable configuration reference.'')]) () = Inr ()"
    and c: "rf_workflow_id c = wx_workflow_id x" "rf_workflow_version c = wx_workflow_version x"
      "rf_execution_adapter c = wx_execution_adapter x" "rf_input_snapshot_ref c = frozen_input fr x"
      "rf_state_snapshot_ref c = frozen_state fr x" "rf_artifact_refs c = list_or (wx_artifact_refs x)"
      "rf_prompt_refs c = list_or (wx_prompt_refs x)" "rf_model_refs c = list_or (wx_model_refs x)"
      "rf_dataset_refs c = list_or (wx_dataset_refs x)" "rf_policy_refs c = list_or (wx_policy_refs x)"
      "rf_configuration_hash c = hash_value fr (configuration_payload fr x m)" "rf_replay_manifest c = m"
    by (auto simp: validate_source_def res_bind_Inr_iff new_configuration_def split: if_splits)
  have "wx_organization_id x = cx_organization_id cx" "wx_project_id x = cx_project cx"
    using checks(1) by (auto simp: source_checks_def split: if_splits)
  moreover have "\<not> list_ex is_mutable_alias (frozen_references fr x)"
    using checks(2) by (cases m) (auto simp: manifest_assessment_def manifest_binding_checks_def Let_def split: if_splits)
  moreover have "is_eligible k \<and> source_identity x = Some (mf_source_execution_id k)
      \<and> mf_adapter_id k = Some (wx_execution_adapter x) \<and> mf_replay_reference k \<in> Some ` set (list_or (wx_artifact_refs x))"
    if "m = Some k" for k
    using checks(2) that by (auto simp: manifest_assessment_def manifest_binding_checks_def Let_def split: if_splits)
  moreover have "pget (wx_metadata x) ''replay_manifest'' = PNone" if "m = None"
    using m that manifest_from_source_metadata_None by simp
  ultimately show ?thesis
    by (auto simp: frozen_from_def c frozen_references_def list_ex_iff list_all_iff split: option.splits)
qed

text \<open>
  C20. A replay that a creation makes ready is frozen on the evidence of its source: the source belongs
  to the caller's project, the configuration copies its workflow and adapter, no reference in it is a
  mutable alias, its hash covers the whole payload, and a manifest, when the source has one, is
  eligible and bound to that source, adapter and evidence.
\<close>

theorem ready_replay_frozen:
  assumes "find_replay_by_idempotency (rs_replays s) (cq_idempotency_key q) (cx_organization_id cx) (cx_project cx) = None"
    and "service_create_replay env q cx e s = (Inr r, t)" "rp_status r = RPS_READY"
  shows "\<exists>x c. get_source_execution (rs_executions s) (cq_source_execution_id q) cx = Some x
    \<and> rp_configuration r = Some c \<and> frozen_from (rv_fr env) cx x c"
proof -
  from assms(1,2) obtain d0 d s1 where d0: "create_replay (cf_replay_id e) (draft_request env q cx) (cf_created e) = Inr d0"
    and save: "on_replays (save_replay d0 None) s = (Inr d, s1)" and freeze: "freeze_draft env e q cx d s1 = (Inr r, t)"
    by (auto simp: service_create_replay_def split: sum.splits elim!: act_bind_InrE)
  have "rs_executions s1 = rs_executions s" by (rule saved_stored(2) [OF save])
  then have resolve: "resolve_configuration env (cf_resolved e) (cq_source_execution_id q) cx s1
      = resolve_configuration env (cf_resolved e) (cq_source_execution_id q) cx s"
    by (simp add: resolve_configuration_def)
  show ?thesis
  proof (cases "resolve_configuration env (cf_resolved e) (cq_source_execution_id q) cx s")
    case (Inr c)
    with freeze resolve obtain p where p: "replay_mark_ready c (cf_ready e) d = Inr p"
      and save': "on_replays (save_replay p (Some (rp_version d))) s1 = (Inr r, t)"
      by (auto simp: freeze_draft_def split: sum.splits)
    have "rp_configuration r = Some c"
      using p saved_stored(3) [OF save'] by (auto simp: replay_mark_ready_def require_replay_status_def split: if_splits)
    with Inr show ?thesis
      using validate_source_frozen by (auto simp: resolve_configuration_def split: option.splits)
  next
    case (Inl y)
    with freeze resolve obtain f p where p: "replay_mark_failed f (cf_failed e) d = Inr p"
      and save': "on_replays (save_replay p (Some (rp_version d))) s1 = (Inr r, t)"
      by (auto simp: freeze_draft_def split: sum.splits if_splits)
    have "rp_status r = RPS_FAILED"
      using p saved_stored(3) [OF save'] by (auto simp: replay_mark_failed_def require_replay_status_def split: if_splits)
    with assms(3) show ?thesis by simp
  qed
qed

section \<open>A creation that strands its draft\<close>

text \<open>
  C21. A creation that raises after it has stored its draft strands it: the draft stays, every retry of
  the request returns the draft as if it had succeeded, and the draft can be neither submitted nor
  cancelled nor archived.
\<close>

theorem failed_creation_strands_draft:
  assumes "replay_repo_inv (rs_replays s)" "service_create_replay env q cx e s = (Inl y, t)" "t \<noteq> s"
  shows "\<exists>d. dict_get (rs_replays t) (rp_replay_id d) = Some d \<and> rp_status d = RPS_DRAFT
    \<and> (\<forall>e'. service_create_replay env q cx e' t = (Inr d, t))
    \<and> (\<forall>e'. \<exists>z. submit_replay env (rp_replay_id d) cx e' t = (Inl z, t))
    \<and> (\<forall>e'. \<exists>z. cancel_replay env (rp_replay_id d) cx e' t = (Inl z, t))
    \<and> (\<forall>now. \<exists>z. service_archive_replay env now (rp_replay_id d) cx t = (Inl z, t))"
proof -
  from assms(2,3) have find: "find_replay_by_idempotency (rs_replays s) (cq_idempotency_key q) (cx_organization_id cx) (cx_project cx) = None"
    by (auto simp: service_create_replay_def split: sum.splits option.splits if_splits)
  have refused: "t = s" if "on_replays (save_replay p v) s = (Inl z, t)" for p v s t z
    using that by (auto simp: on_replays_Inr elim!: save_replay_cases)
  from assms(2,3) find obtain d0 d s1 where
    pass: "replay_authorize env cx ''replay.create'' = Inr ()" "replay_mode (cq_mode q) = Inr ()"
      "configuration_source (cq_configuration_source q) = Inr ()"
    and d0: "create_replay (cf_replay_id e) (draft_request env q cx) (cf_created e) = Inr d0"
    and save: "on_replays (save_replay d0 None) s = (Inr d, s1)" and freeze: "freeze_draft env e q cx d s1 = (Inl y, t)"
    by (auto simp: service_create_replay_def act_bind_def split: sum.splits prod.splits dest: refused)
  have t: "t = s1"
    using freeze refused by (auto simp: freeze_draft_def split: sum.splits if_splits)
  note stored = saved_stored [OF save]
  have d: "rp_status d = RPS_DRAFT" "rp_configuration d = None"
      "replay_identity d = (cx_organization_id cx, cx_project cx, cq_idempotency_key q, request_hash env q cx)"
    using d0 stored(3) by (auto simp: create_replay_def draft_request_def replay_identity_def split: if_splits)
  have "replay_repo_inv (rs_replays s1)"
    using replay_repo_inv_save [OF assms(1)] save by (auto simp: on_replays_Inr)
  from find_replay_stored [OF this stored(1)] d(3) pass have retry: "service_create_replay env q cx e' s1 = (Inr d, s1)" for e'
    by (auto simp: service_create_replay_def replay_identity_def)
  have get: "service_get_replay env (rp_replay_id d) cx s1 = Inr p \<Longrightarrow> p = d" for p
    using stored(1) by (auto dest: service_get_replay_stored(1))
  have "\<exists>z. submit_replay env (rp_replay_id d) cx e' s1 = (Inl z, s1)" for e'
    using get d by (auto simp: submit_replay_def split: sum.splits prod.splits)
  moreover have "\<exists>z. cancel_replay env (rp_replay_id d) cx e' s1 = (Inl z, s1)" for e'
    using get d by (auto simp: cancel_replay_def cancellable_def replay_active_def split: sum.splits prod.splits)
  moreover have "\<exists>z. service_archive_replay env now (rp_replay_id d) cx s1 = (Inl z, s1)" for now
    using get d
    by (auto simp: service_archive_replay_def replay_archive_def act_bind_def act_reraise_def in_state_def split: sum.splits)
  ultimately show ?thesis using stored(1) d retry t by blast
qed

section \<open>Cancelling after the execution\<close>

text \<open>
  A cancellation that comes after the execution job has finished is refused, and recorded
  nevertheless: the caller gets \<open>ReplayCancellationFailed\<close>, but the stored replay carries the
  request from then on, which every cancellation token of a later evaluation reads as cancelled.
\<close>

theorem late_cancellation_refused_but_recorded:
  assumes inv: "replay_repo_inv (rs_replays s)"
    and allowed: "replay_authorize env cx ''replay.cancel'' = Inr ()" "enforce_operation env cx ''replay.cancel'' r = Inr ()"
    and get: "service_get_replay env i cx s = Inr r" "rp_status r = RPS_EXECUTION_COMPLETED" "rp_job_id r = Some k"
    and job: "rv_job_service env = Some config" "api_get_job (rs_jobs s) k (Some cx) = Inr j" "jb_status j = JS_SUCCEEDED"
  shows "\<exists>z t q. cancel_replay env i cx (t1, t2, t3) s = (Inl (Exc ReplayCancellationFailed z), t)
    \<and> dict_get (rs_replays t) i = Some q \<and> rp_status q = RPS_EXECUTION_COMPLETED \<and> rp_cancel_requested_at q = Some t1
    \<and> token_cancelled i cx t"
proof -
  let ?q = "r\<lparr>rp_cancel_requested_at := Some t1, rp_updated_at := t1\<rparr>"
  let ?a = "?q\<lparr>rp_version := rp_version r + 1\<rparr>"
  let ?t = "s\<lparr>rs_replays := dict_put i ?a (rs_replays s)\<rparr>"
  note stored = service_get_replay_stored [OF get(1)]
  have i: "rp_replay_id r = i" using inv stored(1) by (simp add: replay_repo_inv_def)
  have request: "request_cancellation t1 r = Inr ?q"
    using get(2) by (simp add: request_cancellation_def replay_active_def)
  have save: "on_replays (save_replay ?q (Some (rp_version r))) s = (Inr ?a, ?t)"
    using stored(1) i by (simp add: save_replay_def act_on_apply Let_def)
  have refused: "on_jobs (api_cancel_job t2 k (Some cx)) ?t = (Inl (Exc InvalidJobRequestError
      (''Job '' @ quoted k @ '' cannot be cancelled from SUCCEEDED status.'')), ?t)"
    using job(2,3) by (simp add: api_cancel_job_def act_on_apply)
  have "cancel_replay env i cx (t1, t2, t3) s
      = (Inl (Exc ReplayCancellationFailed
          (''Replay cancellation failed: '' @ ''Job '' @ quoted k @ '' cannot be cancelled from SUCCEEDED status.'')), ?t)"
    using allowed get job(1) request save refused
    by (simp add: cancel_replay_def cancellable_def replay_active_def linked_job_def act_reraise_def)
  moreover have "dict_get (rs_replays ?t) i = Some ?a" by (simp add: dict_get_put)
  moreover have "token_cancelled i cx ?t"
    using stored by (simp add: token_cancelled_def get_replay_def dict_get_put)
  ultimately show ?thesis using get(2)
    by (intro exI [of _ "''Replay cancellation failed: '' @ ''Job '' @ quoted k @ '' cannot be cancelled from SUCCEEDED status.''"]
      exI [of _ ?t] exI [of _ ?a]) simp
qed

section \<open>Deliveries of an execution job\<close>

lemma complete_execution_success:
  assumes "complete_execution fresh j cx r c source output s = (Inr res, t)"
  shows "\<exists>a. dict_get (rs_replays t) (rp_replay_id r) = Some a \<and> res = succeeded_result j (result_ref a)
    \<and> has_executed a \<and> rp_job_id a = rp_job_id r \<and> rp_replay_execution_id a = rp_replay_execution_id r
    \<and> replay_identity a = replay_identity r"
proof -
  from assms obtain p s1 a where p: "mark_execution_completed (hf_completed fresh) r = Inr p"
    and save: "on_replays (save_replay p (Some (rp_version r))) s1 = (Inr a, t)"
    and res: "res = succeeded_result j (result_ref a)"
    by (auto simp: complete_execution_def split: sum.splits elim!: act_bind_InrE)
  have "rp_replay_id p = rp_replay_id r" "has_executed p" "rp_job_id p = rp_job_id r"
      "rp_replay_execution_id p = rp_replay_execution_id r" "replay_identity p = replay_identity r"
    using p by (auto simp: mark_execution_completed_def require_replay_status_def has_executed_def replay_identity_def
        split: if_splits)
  with saved_stored [OF save] res show ?thesis by (auto simp: replay_identity_def)
qed

lemma not_success:
  "cancel_execution fresh j r s = (Inr res, t) \<Longrightarrow> jrs_status res \<noteq> JS_SUCCEEDED"
  "fail_execution fresh j r e s = (Inr res, t) \<Longrightarrow> jrs_status res \<noteq> JS_SUCCEEDED"
  by (auto simp: cancel_execution_def fail_execution_def cancelled_result_def failed_result_def
      split: if_splits sum.splits elim!: act_bind_InrE)

lemma run_adapter_success:
  assumes "run_adapter registry fresh j cx r s = (Inr res, t)" "jrs_status res = JS_SUCCEEDED"
  shows "\<exists>a. dict_get (rs_replays t) (rp_replay_id r) = Some a \<and> res = succeeded_result j (result_ref a)
    \<and> has_executed a \<and> rp_job_id a = rp_job_id r \<and> rp_replay_execution_id a = rp_replay_execution_id r
    \<and> replay_identity a = replay_identity r"
proof -
  have "\<exists>source c output s1. complete_execution fresh j cx r c source output s1 = (Inr res, t)"
    using assms not_success(1)
    by (auto simp: run_adapter_def attempt_adapter_def act_try_def split: option.splits sum.splits prod.splits if_splits
        elim!: act_bind_InrE) blast+
  then show ?thesis using complete_execution_success by blast
qed

lemma prepared_copy:
  "start_execution fresh j r s = (Inr q, t) \<Longrightarrow>
    rp_replay_id q = rp_replay_id r \<and> rp_job_id q = rp_job_id r \<and> replay_identity q = replay_identity r"
  "reserve_execution fresh r s = (Inr q, t) \<Longrightarrow>
    rp_replay_id q = rp_replay_id r \<and> rp_job_id q = rp_job_id r \<and> replay_identity q = replay_identity r"
proof -
  have saved: "rp_replay_id q = rp_replay_id r \<and> rp_job_id q = rp_job_id r \<and> replay_identity q = replay_identity r"
    if "on_replays (save_replay p v) s = (Inr q, t)" "replay_step r p" "rp_job_id p = rp_job_id r" for p v
    using saved_stored(3) [OF that(1)] replay_step_identity [OF that(2)] that(3) by (auto simp: replay_identity_def)
  show "rp_replay_id q = rp_replay_id r \<and> rp_job_id q = rp_job_id r \<and> replay_identity q = replay_identity r"
    if run: "start_execution fresh j r s = (Inr q, t)"
  proof (cases "rp_status r = RPS_QUEUED")
    case True
    with run obtain p where "replay_mark_running (max (jb_attempt_count j) 1) (hf_running fresh) r = Inr p"
      "on_replays (save_replay p (Some (rp_version r))) s = (Inr q, t)" by (auto simp: start_execution_def split: sum.splits)
    then show ?thesis using saved replay_step.running transition_links(4) by (simp add: same_links_def)
  qed (use run in \<open>simp add: start_execution_def\<close>)
  show "rp_replay_id q = rp_replay_id r \<and> rp_job_id q = rp_job_id r \<and> replay_identity q = replay_identity r"
    if run: "reserve_execution fresh r s = (Inr q, t)"
  proof (cases "rp_replay_execution_id r = None")
    case True
    with run obtain p where "reserve_replay_execution_id (hf_execution_id fresh) (hf_reserved fresh) r = Inr p"
      "on_replays (save_replay p (Some (rp_version r))) s = (Inr q, t)" by (auto simp: reserve_execution_def split: sum.splits)
    moreover from this(1) have "rp_job_id p = rp_job_id r"
      by (auto simp: reserve_replay_execution_id_def split: if_splits)
    ultimately show ?thesis using saved replay_step.reserved by blast
  qed (use run in \<open>auto simp: reserve_execution_def\<close>)
qed

text \<open>The replay that a job names, in the tenant it was submitted for.\<close>

definition job_replay :: "(rat \<Rightarrow> string) \<Rightarrow> job \<Rightarrow> replay_system \<Rightarrow> replay option" where
  "job_replay fr j s =
     (case (jb_execution_context j, str_item fr (jb_input_refs j) ''replay_id'') of
        (Some c, Some i) \<Rightarrow> get_replay (rs_replays s) i (jx_organization_id c) (jx_project_id c)
      | _ \<Rightarrow> None)"

lemma handle_execution_executed:
  assumes "job_replay fr j s = Some r" "rp_job_id r = Some (jb_job_id j)" "has_executed r" "truthy (rp_replay_execution_id r)"
  shows "handle_execution fr registry fresh j s = (Inr (succeeded_result j (result_ref r)), s)"
  using assms
  by (auto simp: handle_execution_def job_replay_def job_tenant_def has_executed_def cx_project_def opt_or_def
      split: option.splits)

lemma handle_execution_success:
  assumes run: "handle_execution fr registry fresh j s = (Inr res, t)" "jrs_status res = JS_SUCCEEDED"
    and inv: "replay_repo_inv (rs_replays s)"
  shows "\<exists>a. job_replay fr j t = Some a \<and> rp_job_id a = Some (jb_job_id j) \<and> has_executed a
    \<and> res = succeeded_result j (result_ref a)"
proof -
  from run obtain k i r where k: "jb_execution_context j = Some k" and i: "str_item fr (jb_input_refs j) ''replay_id'' = Some i"
    and get: "get_replay (rs_replays s) i (jx_organization_id k) (jx_project_id k) = Some r" and link: "rp_job_id r = Some (jb_job_id j)"
    by (auto simp: handle_execution_def job_tenant_def failed_result_def cx_project_def opt_or_def
        split: option.splits if_splits)
  have r: "rp_replay_id r = i" "rp_organization_id r = jx_organization_id k" "rp_project_id r = jx_project_id k"
    using get inv by (auto simp: get_replay_def replay_repo_inv_def split: option.splits if_splits)
  let ?cx = "\<lparr>cx_organization_id = jx_organization_id k, cx_project_id = Some (jx_project_id k),
    cx_actor_id = jx_actor_id k, cx_request_id = jx_submitted_request_id k, cx_correlation_id = jx_correlation_id k\<rparr>"
  show ?thesis
  proof (cases "has_executed r \<and> truthy (rp_replay_execution_id r)")
    case True
    then show ?thesis
      using run k i get link
      by (auto simp: handle_execution_def job_tenant_def job_replay_def has_executed_def cx_project_def opt_or_def)
  next
    case False
    then obtain r1 s1 r2 s2 where "start_execution fresh j r s = (Inr r1, s1)" "reserve_execution fresh r1 s1 = (Inr r2, s2)"
      and adapter: "run_adapter registry fresh j ?cx r2 s2 = (Inr res, t)"
      using run k i get link not_success(2)
      by (auto simp: handle_execution_def job_tenant_def has_executed_def cx_project_def opt_or_def act_try_def cancelled_result_def
          split: if_splits prod.splits sum.splits)
    then have "rp_replay_id r2 = i" "rp_job_id r2 = Some (jb_job_id j)" "replay_identity r2 = replay_identity r"
      using prepared_copy link r(1) by metis+
    then show ?thesis
      using run_adapter_success [OF adapter run(2)] k i r
      by (auto simp: job_replay_def get_replay_def replay_identity_def)
  qed
qed

text \<open>
  C19. Delivering an execution job again does not execute again: once the handler has reported success, it
  reports the same success for every later delivery while the replay stands as executed, whatever
  commands ran in between, without calling an adapter or changing the state.
\<close>

theorem redelivered_execution_not_repeated:
  assumes "adapters_within A registry" "(replay_command env registry)\<^sup>*\<^sup>* (initial_system E (map_option (\<lambda>_. []) x)) s"
    and "handle_execution (rv_fr env) registry fresh j s = (Inr res, t)" "jrs_status res = JS_SUCCEEDED"
      "fresh_execution_id s (hf_execution_id fresh)" "jb_job_id j \<noteq> []"
    and "(replay_command env registry)\<^sup>*\<^sup>* t u" "job_replay (rv_fr env) j u = Some p" "has_executed p"
  shows "handle_execution (rv_fr env) registry' fresh' j u = (Inr res, u)"
proof -
  have inv: "adapters_within A registry \<and> replay_system_inv s"
    using commands.inv_run [OF assms(2)] assms(1) initial_system_inv by blast
  have inv_t: "adapters_within A registry \<and> replay_system_inv t"
    by (rule commands.inv_step [OF inv replay_command.execute [OF assms(3,5)]])
  have inv_u: "adapters_within A registry \<and> replay_system_inv u" by (rule commands.inv_run [OF assms(7) inv_t])
  obtain a where a: "job_replay (rv_fr env) j t = Some a" "rp_job_id a = Some (jb_job_id j)" "has_executed a"
      "res = succeeded_result j (result_ref a)"
    using handle_execution_success [OF assms(3,4)] inv by (auto simp: replay_system_inv_def replays_ok_def)
  obtain i where i: "dict_get (rs_replays t) i = Some a" "dict_get (rs_replays u) i = Some p"
    using a(1) assms(8) by (auto simp: job_replay_def get_replay_def split: option.splits if_splits)
  then have "succeeds a p" using commands.lookup_run [OF assms(7) inv_t i(1)] by auto
  moreover have "reservation_ok a" "replay_isolated a"
    using inv_t i(1) by (auto simp: replay_system_inv_def replays_ok_def replay_ok_def replay_inv_def)
  then have "truthy (rp_replay_execution_id a)"
    using a(3) by (auto simp: reservation_ok_def replay_isolated_def has_executed_def truthy_def split: option.splits)
  ultimately have "rp_replay_execution_id p = rp_replay_execution_id a" "rp_job_id p = rp_job_id a"
    using a(2) assms(6) by (auto simp: succeeds_def replay_keeps_def assigned_ids_def truthy_def)
  with handle_execution_executed [OF assms(8)] a(2,4) assms(9) \<open>truthy _\<close> show ?thesis by (simp add: result_ref_def)
qed

end
