(* ===== verification/Providers.thy ===== *)
theory Providers
  imports Py_Values Py_Time Py_Sha256 Interfaces
begin

text \<open>
  \<open>providers/provider_descriptor.py\<close>, \<open>providers/provider_capabilities.py\<close>,
  \<open>providers/provider_metadata.py\<close> and the metric names of
  \<open>evaluation/evaluation_metrics.py\<close>: the identity of an evaluation provider, the removal of
  secrets from what is published about it, and the snapshot attached to every evaluation.
\<close>

section \<open>Names\<close>

definition name_char :: "char \<Rightarrow> bool" where
  "name_char c = (is_ascii_lower c \<or> is_ascii_digit c)"

text \<open>\<open>re.sub(r"[^a-z0-9]+", "_", s)\<close>; the flag says that the run of other characters has begun.\<close>

fun collapse :: "bool \<Rightarrow> string \<Rightarrow> string" where
  "collapse seen [] = []"
| "collapse seen (c # cs) =
     (if name_char c then c # collapse False cs else if seen then collapse True cs else CHR ''_'' # collapse True cs)"

definition strip_char :: "char \<Rightarrow> string \<Rightarrow> string" where
  "strip_char c s = rev (dropWhile (\<lambda>x. x = c) (rev (dropWhile (\<lambda>x. x = c) s)))"

definition normalize_provider_name :: "string \<Rightarrow> string" where
  "normalize_provider_name name = strip_char (CHR ''_'') (collapse False (py_lower (py_strip name)))"

definition metric_aliases :: "(string \<times> string) list" where
  "metric_aliases =
     [(''answer_relevance'', ''answer_relevance''), (''context_relevance'', ''context_relevance''),
      (''groundedness'', ''groundedness''), (''Answer Relevance'', ''answer_relevance''),
      (''Context Relevance'', ''context_relevance''), (''Groundedness'', ''groundedness''),
      (''ANSWER_RELEVANCE'', ''answer_relevance''), (''CONTEXT_RELEVANCE'', ''context_relevance''),
      (''GROUNDEDNESS'', ''groundedness'')]"

definition normalize_metric_name :: "string \<Rightarrow> string" where
  "normalize_metric_name name =
     (let normalized = py_strip name in
      case map_of metric_aliases normalized of Some v \<Rightarrow> v
      | None \<Rightarrow> replace_char (CHR '' '') (CHR ''_'') (py_lower normalized))"

section \<open>Secrets\<close>

definition sensitive_key_parts :: "string list" where
  "sensitive_key_parts = [''api_key'', ''apikey'', ''authorization'', ''password'', ''secret'', ''token'']"

definition safe_token_keys :: "string list" where
  "safe_token_keys =
     [''input_tokens'', ''output_tokens'', ''total_tokens'', ''max_tokens'', ''max_output_tokens'', ''token_limit'',
      ''original_prompt_tokens'', ''token_count_kind'']"

definition is_sensitive_key :: "string \<Rightarrow> bool" where
  "is_sensitive_key key =
     (let normalized = py_lower key in
      normalized \<notin> set safe_token_keys \<and> list_ex (\<lambda>part. is_substring part normalized) sensitive_key_parts)"

fun scrub_value :: "pyval \<Rightarrow> pyval"
  and scrub_metadata :: "(string \<times> pyval) list \<Rightarrow> (string \<times> pyval) list"
  and scrub_list :: "pyval list \<Rightarrow> pyval list" where
  "scrub_value (PDict d) = PDict (scrub_metadata d)"
| "scrub_value (PList xs) = PList (scrub_list xs)"
| "scrub_value v = v"
| "scrub_metadata [] = []"
| "scrub_metadata ((k, v) # d) =
     (if is_sensitive_key k then scrub_metadata d else (k, scrub_value v) # scrub_metadata d)"
| "scrub_list [] = []"
| "scrub_list (v # vs) = scrub_value v # scrub_list vs"

section \<open>Capabilities and descriptors\<close>

datatype granularity = ITEM | BATCH

fun granularity_value :: "granularity \<Rightarrow> string" where
  "granularity_value ITEM = ''ITEM''"
| "granularity_value BATCH = ''BATCH''"

record capabilities =
  cp_supported_metrics :: "string list"
  cp_supported_evaluation_modes :: "string list"
  cp_supports_batch :: bool
  cp_supports_async :: bool
  cp_supports_artifacts :: bool
  cp_supports_explanations :: bool
  cp_supports_row_level_results :: bool
  cp_evaluation_granularity :: granularity
  cp_metadata :: "(string \<times> pyval) list"

definition new_capabilities :: "capabilities \<Rightarrow> capabilities" where
  "new_capabilities c = c\<lparr>cp_supported_metrics := map normalize_metric_name (cp_supported_metrics c)\<rparr>"

definition capabilities_to_dict :: "capabilities \<Rightarrow> (string \<times> pyval) list" where
  "capabilities_to_dict c =
     [(''supported_metrics'', PList (map PStr (cp_supported_metrics c))),
      (''supported_evaluation_modes'', PList (map PStr (cp_supported_evaluation_modes c))),
      (''supports_batch'', PBool (cp_supports_batch c)), (''supports_async'', PBool (cp_supports_async c)),
      (''supports_artifacts'', PBool (cp_supports_artifacts c)),
      (''supports_explanations'', PBool (cp_supports_explanations c)),
      (''supports_row_level_results'', PBool (cp_supports_row_level_results c)),
      (''evaluation_granularity'', PStr (granularity_value (cp_evaluation_granularity c))),
      (''metadata'', PDict (cp_metadata c))]"

record descriptor =
  ds_name :: string
  ds_display_name :: string
  ds_version :: string
  ds_adapter_version :: string
  ds_capabilities :: capabilities
  ds_config_schema_version :: string
  ds_configuration_schema :: "(string \<times> pyval) list"
  ds_metadata :: "(string \<times> pyval) list"

definition new_descriptor :: "descriptor \<Rightarrow> descriptor" where
  "new_descriptor d =
     d\<lparr>ds_name := normalize_provider_name (ds_name d), ds_metadata := scrub_metadata (ds_metadata d)\<rparr>"

definition descriptor_to_dict :: "descriptor \<Rightarrow> (string \<times> pyval) list" where
  "descriptor_to_dict d =
     [(''name'', PStr (ds_name d)), (''display_name'', PStr (ds_display_name d)), (''version'', PStr (ds_version d)),
      (''adapter_version'', PStr (ds_adapter_version d)),
      (''capabilities'', PDict (capabilities_to_dict (ds_capabilities d))),
      (''config_schema_version'', PStr (ds_config_schema_version d)),
      (''configuration_schema'', PDict (scrub_metadata (ds_configuration_schema d))),
      (''metadata'', PDict (ds_metadata d))]"

section \<open>Snapshots\<close>

record snapshot =
  sn_provider_name :: string
  sn_provider_version :: string
  sn_adapter_version :: string
  sn_capabilities :: "(string \<times> pyval) list"
  sn_config_schema_version :: string
  sn_metadata :: "(string \<times> pyval) list"
  sn_resolved_at :: datetime
  sn_descriptor_hash :: "string option"

definition descriptor_hash :: "(rat \<Rightarrow> string) \<Rightarrow> descriptor \<Rightarrow> string" where
  "descriptor_hash fr d = sha256_hex (json_dumps fr (PDict (descriptor_to_dict d)))"

definition snapshot_from_descriptor :: "(rat \<Rightarrow> string) \<Rightarrow> datetime \<Rightarrow> descriptor \<Rightarrow> snapshot" where
  "snapshot_from_descriptor fr now d =
     \<lparr>sn_provider_name = ds_name d, sn_provider_version = ds_version d, sn_adapter_version = ds_adapter_version d,
      sn_capabilities = capabilities_to_dict (ds_capabilities d), sn_config_schema_version = ds_config_schema_version d,
      sn_metadata = ds_metadata d, sn_resolved_at = now, sn_descriptor_hash = Some (descriptor_hash fr d)\<rparr>"

definition snapshot_to_dict :: "snapshot \<Rightarrow> (string \<times> pyval) list" where
  "snapshot_to_dict s =
     [(''provider_name'', PStr (sn_provider_name s)), (''provider_version'', PStr (sn_provider_version s)),
      (''adapter_version'', PStr (sn_adapter_version s)), (''capabilities'', PDict (sn_capabilities s)),
      (''config_schema_version'', PStr (sn_config_schema_version s)), (''metadata'', PDict (sn_metadata s)),
      (''resolved_at'', PStr (isoformat (sn_resolved_at s))),
      (''descriptor_hash'', of_opt_str (sn_descriptor_hash s))]"

section \<open>What the removal of secrets guarantees\<close>

text \<open>A secret-bearing key at any depth.\<close>

fun exposes :: "pyval \<Rightarrow> bool"
  and exposes_items :: "(string \<times> pyval) list \<Rightarrow> bool"
  and exposes_elems :: "pyval list \<Rightarrow> bool" where
  "exposes (PDict d) = exposes_items d"
| "exposes (PList xs) = exposes_elems xs"
| "exposes v = False"
| "exposes_items [] = False"
| "exposes_items ((k, v) # d) = (is_sensitive_key k \<or> exposes v \<or> exposes_items d)"
| "exposes_elems [] = False"
| "exposes_elems (v # vs) = (exposes v \<or> exposes_elems vs)"

lemma scrub_safe:
  "\<not> exposes (scrub_value v)" "\<not> exposes_items (scrub_metadata d)" "\<not> exposes_elems (scrub_list vs)"
  by (induction v and d and vs rule: scrub_value_scrub_metadata_scrub_list.induct) auto

lemma scrub_identity:
  "\<not> exposes v \<Longrightarrow> scrub_value v = v" "\<not> exposes_items d \<Longrightarrow> scrub_metadata d = d"
  "\<not> exposes_elems vs \<Longrightarrow> scrub_list vs = vs"
  by (induction v and d and vs rule: scrub_value_scrub_metadata_scrub_list.induct) auto

lemma scrub_get:
  "pget (scrub_metadata d) k = (if is_sensitive_key k then PNone else scrub_value (pget d k))"
  by (induction d) (auto simp: pget_def opt_or_def)

lemma published_keys:
  "\<not> is_sensitive_key ''name''" "\<not> is_sensitive_key ''display_name''" "\<not> is_sensitive_key ''version''"
  "\<not> is_sensitive_key ''adapter_version''" "\<not> is_sensitive_key ''capabilities''" "\<not> is_sensitive_key ''config_schema_version''"
  "\<not> is_sensitive_key ''configuration_schema''" "\<not> is_sensitive_key ''metadata''" "\<not> is_sensitive_key ''provider_name''"
  "\<not> is_sensitive_key ''provider_version''" "\<not> is_sensitive_key ''resolved_at''" "\<not> is_sensitive_key ''descriptor_hash''"
  "\<not> is_sensitive_key ''supported_metrics''" "\<not> is_sensitive_key ''supported_evaluation_modes''"
  "\<not> is_sensitive_key ''supports_batch''" "\<not> is_sensitive_key ''supports_async''" "\<not> is_sensitive_key ''supports_artifacts''"
  "\<not> is_sensitive_key ''supports_explanations''" "\<not> is_sensitive_key ''supports_row_level_results''"
  "\<not> is_sensitive_key ''evaluation_granularity''"
  by code_simp+

lemma strings_expose_nothing: "\<not> exposes_elems (map PStr xs)" "\<not> exposes (of_opt_str v)"
  by (induction xs) (auto simp: of_opt_str_def split: option.splits)

text \<open>
  What is published about a provider, its descriptor and the snapshot attached to each evaluation,
  contains a key that looks like a credential exactly when the metadata of its capabilities does: the
  metadata and the configuration schema are cleaned at every depth, and nothing else is removed from
  them. The metadata of the capabilities is published as it is.
\<close>

theorem published_secrets:
  "(exposes (PDict (descriptor_to_dict (new_descriptor d))) \<longleftrightarrow> exposes_items (cp_metadata (ds_capabilities d)))
   \<and> (exposes (PDict (snapshot_to_dict (snapshot_from_descriptor fr now (new_descriptor d))))
        \<longleftrightarrow> exposes_items (cp_metadata (ds_capabilities d)))
   \<and> pget (ds_metadata (new_descriptor d)) k = (if is_sensitive_key k then PNone else scrub_value (pget (ds_metadata d) k))"
  by (simp add: descriptor_to_dict_def new_descriptor_def capabilities_to_dict_def snapshot_to_dict_def snapshot_from_descriptor_def
      published_keys strings_expose_nothing scrub_safe scrub_get)

section \<open>Normal names\<close>

lemma name_char_lower: "name_char c \<Longrightarrow> lower_char c = c \<and> \<not> py_isspace c"
  by (auto simp: name_char_def is_ascii_lower_def is_ascii_digit_def lower_char_def py_isspace_def Let_def)

text \<open>Strings on which \<open>collapse\<close> changes nothing.\<close>

fun collapsed :: "bool \<Rightarrow> string \<Rightarrow> bool" where
  "collapsed seen [] = True"
| "collapsed seen (c # cs) =
     (if name_char c then collapsed False cs else c = CHR ''_'' \<and> \<not> seen \<and> collapsed True cs)"

lemma collapse_collapsed: "collapsed w (collapse w s)"
  by (induction w s rule: collapse.induct) (auto simp: name_char_def is_ascii_lower_def is_ascii_digit_def code_point_def)

lemma collapsed_collapse: "collapsed w s \<Longrightarrow> collapse w s = s"
  by (induction w s rule: collapsed.induct) (auto split: if_splits)

lemma collapsed_mono: "collapsed True s \<Longrightarrow> collapsed False s"
  by (cases s) (auto split: if_splits)

lemma underscore_not_name: "\<not> name_char (CHR ''_'')"
  by code_simp

lemma collapsed_drop: "collapsed w s \<Longrightarrow> collapsed False (dropWhile (\<lambda>x. x = CHR ''_'') s)"
proof (induction w s rule: collapsed.induct)
  case (2 w c cs)
  then show ?case
    using underscore_not_name by (cases "name_char c") (auto split: if_splits)
qed simp

lemma collapsed_append: "collapsed w (xs @ ys) \<Longrightarrow> collapsed w xs"
  by (induction w xs rule: collapsed.induct) (auto split: if_splits)

lemma dropWhile_rev_prefix: "\<exists>zs. s = rev (dropWhile P (rev s)) @ zs"
  using takeWhile_dropWhile_id [of P "rev s"] by (metis rev_append rev_rev_ident)

lemma collapsed_strip: "collapsed w s \<Longrightarrow> collapsed False (strip_char (CHR ''_'') s)"
proof -
  assume "collapsed w s"
  then have "collapsed False (dropWhile (\<lambda>x. x = CHR ''_'') s)" by (rule collapsed_drop)
  moreover obtain zs where "dropWhile (\<lambda>x. x = CHR ''_'') s
      = rev (dropWhile (\<lambda>x. x = CHR ''_'') (rev (dropWhile (\<lambda>x. x = CHR ''_'') s))) @ zs"
    using dropWhile_rev_prefix by blast
  ultimately show ?thesis unfolding strip_char_def by (metis collapsed_append)
qed

lemma collapsed_chars: "collapsed w s \<Longrightarrow> c \<in> set s \<Longrightarrow> lower_char c = c \<and> \<not> py_isspace c"
proof (induction w s rule: collapsed.induct)
  case (2 w d cs)
  have "lower_char (CHR ''_'') = CHR ''_''" "\<not> py_isspace (CHR ''_'')" by code_simp+
  with 2 name_char_lower show ?case by (auto split: if_splits)
qed simp

lemma strip_char_ends:
  assumes "strip_char c s = x # xs"
  shows "x \<noteq> c" "last (x # xs) \<noteq> c"
proof -
  let ?t = "dropWhile (\<lambda>y. y = c) s"
  have end_ok: "last (x # xs) = hd (dropWhile (\<lambda>y. y = c) (rev ?t))" "dropWhile (\<lambda>y. y = c) (rev ?t) \<noteq> []"
    using assms by (auto simp: strip_char_def simp flip: hd_rev)
  then show "last (x # xs) \<noteq> c" using hd_dropWhile [of "\<lambda>y. y = c" "rev ?t"] by simp
  obtain zs where "?t = (x # xs) @ zs" using dropWhile_rev_prefix [of ?t "\<lambda>y. y = c"] assms by (auto simp: strip_char_def)
  then show "x \<noteq> c" using hd_dropWhile [of "\<lambda>y. y = c" s] by (metis append_Cons list.sel(1) list.simps(3))
qed

lemma strip_char_id: "xs = [] \<or> hd xs \<noteq> c \<and> last xs \<noteq> c \<Longrightarrow> strip_char c xs = xs"
proof (cases "xs = []")
  case False
  assume "xs = [] \<or> hd xs \<noteq> c \<and> last xs \<noteq> c"
  then have "dropWhile (\<lambda>y. y = c) xs = xs" "dropWhile (\<lambda>y. y = c) (rev xs) = rev xs"
    using False by (auto simp: dropWhile_eq_self_iff hd_rev)
  then show ?thesis by (simp add: strip_char_def)
qed (simp add: strip_char_def)

lemma normalize_provider_name_idem:
  "normalize_provider_name (normalize_provider_name s) = normalize_provider_name s"
proof -
  let ?n = "normalize_provider_name s"
  have col: "collapsed False ?n"
    unfolding normalize_provider_name_def by (rule collapsed_strip [OF collapse_collapsed])
  have "py_lower ?n = ?n" unfolding py_lower_def by (rule map_idI) (use collapsed_chars [OF col] in blast)
  moreover have "py_strip ?n = ?n"
  proof -
    have none: "\<not> py_isspace c" if "c \<in> set ?n" for c using collapsed_chars [OF col that] by blast
    then have "dropWhile py_isspace ?n = ?n" "dropWhile py_isspace (rev ?n) = rev ?n"
      by (auto simp: dropWhile_eq_self_iff) (metis hd_in_set set_rev rev_is_Nil_conv)
    then show ?thesis by (simp add: py_strip_def py_lstrip_def)
  qed
  moreover have "strip_char (CHR ''_'') ?n = ?n"
  proof (rule strip_char_id, cases ?n)
    case (Cons x xs)
    then show "?n = [] \<or> hd ?n \<noteq> CHR ''_'' \<and> last ?n \<noteq> CHR ''_''"
      using strip_char_ends [of "CHR ''_''" "collapse False (py_lower (py_strip s))" x xs]
      by (simp add: normalize_provider_name_def)
  qed simp
  ultimately show ?thesis
    using collapsed_collapse [OF col] by (simp add: normalize_provider_name_def [of ?n])
qed

end
