(* ===== verification/Py_Floats.thy ===== *)
theory Py_Floats
  imports Complex_Main "HOL-Library.Log_Nat"
begin

text \<open>
  Python floats as the rational numbers they stand for: an operation computes the exact result and
  rounds it to the nearest IEEE 754 double, ties to even, subnormal numbers included. Infinities, NaN
  and the sign of zero are left out, so the model speaks of results below the overflow threshold.
  \<open>float_sum\<close> is the built-in \<open>sum\<close> of floats, which since Python 3.12 carries a compensation.
\<close>

section \<open>Rounding\<close>

definition round_half_even :: "rat \<Rightarrow> int" where
  "round_half_even x =
     (let n = \<lfloor>x\<rfloor>; d = x - of_int n in
      if d < 1 / 2 then n else if 1 / 2 < d then n + 1 else if even n then n else n + 1)"

text \<open>The exponent of the leading binary digit.\<close>

definition leading_exponent :: "rat \<Rightarrow> int" where
  "leading_exponent x =
     (let (p, q) = quotient_of \<bar>x\<bar>; e = int (floorlog 2 (nat p)) - int (floorlog 2 (nat q)) in
      if 2 powi e \<le> \<bar>x\<bar> then e else e - 1)"

definition grid_exponent :: "rat \<Rightarrow> int" where
  "grid_exponent x = max (leading_exponent x - 52) (- 1074)"

definition binary64 :: "rat \<Rightarrow> rat" where
  "binary64 x = (if x = 0 then 0 else of_int (round_half_even (x / 2 powi grid_exponent x)) * 2 powi grid_exponent x)"

definition float_add :: "rat \<Rightarrow> rat \<Rightarrow> rat" where
  "float_add x y = binary64 (x + y)"

definition float_sub :: "rat \<Rightarrow> rat \<Rightarrow> rat" where
  "float_sub x y = binary64 (x - y)"

definition float_div :: "rat \<Rightarrow> rat \<Rightarrow> rat" where
  "float_div x y = binary64 (x / y)"

fun compensated_sum :: "rat \<Rightarrow> rat \<Rightarrow> rat list \<Rightarrow> rat" where
  "compensated_sum acc c [] = (if c = 0 then acc else float_add acc c)"
| "compensated_sum acc c (x # xs) =
     (let t = float_add acc x in
      compensated_sum t
        (float_add c (if \<bar>x\<bar> \<le> \<bar>acc\<bar> then float_add (float_sub acc t) x else float_add (float_sub x t) acc)) xs)"

definition float_sum :: "rat list \<Rightarrow> rat" where
  "float_sum xs = (case xs of [] \<Rightarrow> 0 | x # ys \<Rightarrow> compensated_sum x 0 ys)"

text \<open>A value that a float can hold.\<close>

definition is_float :: "rat \<Rightarrow> bool" where
  "is_float x = (binary64 x = x)"

section \<open>Symmetry\<close>

lemma round_half_even_minus: "round_half_even (- x) = - round_half_even x"
proof (cases "x = of_int \<lfloor>x\<rfloor>")
  case True
  then have "\<lfloor>- x\<rfloor> = - \<lfloor>x\<rfloor>" by (metis floor_of_int of_int_minus)
  with True show ?thesis by (simp add: round_half_even_def Let_def)
next
  case False
  define n where "n = \<lfloor>x\<rfloor>"
  define d where "d = x - of_int n"
  have x: "x = of_int n + d" by (simp add: d_def)
  have d: "0 < d" "d < 1" using False floor_correct [of x] by (auto simp: d_def n_def less_le)
  have "\<lfloor>- x\<rfloor> = - n - 1" using d by (simp add: floor_eq_iff x)
  then have "round_half_even (- x) = (if 1 / 2 < d then - n - 1 else if d < 1 / 2 then - n else if even n then - n else - n - 1)"
    using d by (simp add: round_half_even_def Let_def x)
  moreover have "round_half_even x = (if d < 1 / 2 then n else if 1 / 2 < d then n + 1 else if even n then n else n + 1)"
    by (simp add: round_half_even_def Let_def n_def [symmetric] d_def)
  ultimately show ?thesis by auto
qed

lemma grid_exponent_minus [simp]: "grid_exponent (- x) = grid_exponent x"
  by (simp add: grid_exponent_def leading_exponent_def)

lemma binary64_minus: "binary64 (- x) = - binary64 x"
  by (simp add: binary64_def round_half_even_minus)

lemma float_sub_swap: "float_sub y x = - float_sub x y"
  using binary64_minus [of "x - y"] by (simp add: float_sub_def)

lemma abs_float_sub: "\<bar>float_sub x y\<bar> = \<bar>float_sub y x\<bar>"
  using float_sub_swap [of x y] by simp

lemma binary64_0 [simp]: "binary64 0 = 0"
  by (simp add: binary64_def)

section \<open>A difference of distinct floats is not zero\<close>

lemma round_half_even_of_int [simp]: "round_half_even (of_int n) = n"
  by (simp add: round_half_even_def)

lemma round_half_even_ge: "of_int n \<le> x \<Longrightarrow> n \<le> round_half_even x"
  using floor_mono [of "of_int n" x] by (auto simp: round_half_even_def Let_def)

lemma leading_exponent_le:
  assumes "x \<noteq> 0"
  shows "2 powi leading_exponent x \<le> \<bar>x\<bar>"
proof -
  obtain p q where pq: "quotient_of \<bar>x\<bar> = (p, q)" by (cases "quotient_of \<bar>x\<bar>")
  then have x: "\<bar>x\<bar> = of_int p / of_int q" and q: "0 < q" by (auto intro: quotient_of_div quotient_of_denom_pos)
  have p: "0 < p"
  proof -
    have "0 < of_int p / (of_int q :: rat)" using assms x by (metis zero_less_abs_iff)
    then show ?thesis using q by (simp add: zero_less_divide_iff)
  qed
  define a b where "a = floorlog 2 (nat p)" and "b = floorlog 2 (nat q)"
  have a: "2 ^ (a - 1) \<le> nat p" "0 < a" and b: "nat q < 2 ^ b"
    using floorlog_bounds [of "nat p" 2] floorlog_bounds [of "nat q" 2] p q by (auto simp: a_def b_def floorlog_def)
  have "rat_of_nat (2 ^ (a - 1)) \<le> rat_of_nat (nat p)" "rat_of_nat (nat q) \<le> rat_of_nat (2 ^ b)"
    using a(1) b by (simp_all only: of_nat_le_iff less_imp_le)
  then have bounds: "(2::rat) ^ (a - 1) \<le> of_int p" "of_int q \<le> (2::rat) ^ b" "0 < a"
    using p q a(2) by simp_all
  have "int a - int b - 1 = int (a - 1) - int b" using bounds(3) by simp
  then have "(2::rat) powi (int a - int b - 1) = 2 powi (int (a - 1) - int b)" by (rule arg_cong)
  also have "\<dots> = 2 powi int (a - 1) / 2 powi int b" by (rule power_int_diff) simp
  also have "\<dots> = 2 ^ (a - 1) / 2 ^ b" unfolding power_int_of_nat ..
  also have "\<dots> \<le> of_int p / of_int q" using bounds(1,2) q p by (intro frac_le) auto
  finally have "(2::rat) powi (int a - int b - 1) \<le> \<bar>x\<bar>" by (simp add: x)
  then show ?thesis by (auto simp: leading_exponent_def pq Let_def a_def b_def)
qed

text \<open>The smallest positive float; every float is a multiple of it.\<close>

definition smallest :: rat where
  "smallest = 2 powi (- 1074)"

lemma smallest_pos: "0 < smallest"
  by (simp add: smallest_def)

lemma binary64_grid: "\<exists>k :: int. binary64 x = of_int k * smallest"
proof (cases "x = 0")
  case True
  then show ?thesis by (intro exI [of _ 0]) simp
next
  case False
  define e where "e = grid_exponent x"
  have "- 1074 \<le> e" unfolding e_def grid_exponent_def by (rule max.cobounded2)
  then have "e = int (nat (e + 1074)) + - 1074" by simp
  then have "(2::rat) powi e = 2 powi int (nat (e + 1074)) * smallest"
    unfolding smallest_def by (metis power_int_add zero_neq_numeral)
  then have "(2::rat) powi e = of_int (2 ^ nat (e + 1074)) * smallest" unfolding power_int_of_nat by simp
  then show ?thesis
    using False by (intro exI [of _ "round_half_even (x / 2 powi e) * 2 ^ nat (e + 1074)"]) (simp add: binary64_def e_def)
qed

lemma binary64_pos:
  assumes x: "x = of_int k * smallest" "0 < x"
  shows "0 < binary64 x"
proof -
  define e where "e = grid_exponent x"
  have "1 \<le> x / 2 powi e"
  proof (cases "leading_exponent x - 52 \<le> - 1074")
    case True
    then have "(2::rat) powi e = smallest" by (simp add: e_def grid_exponent_def smallest_def)
    then have "x / 2 powi e = of_int k" using x(1) smallest_pos by simp
    moreover have "0 < k" using x smallest_pos by (simp add: zero_less_mult_iff)
    ultimately show ?thesis by simp
  next
    case False
    then have e: "e \<le> leading_exponent x" by (simp add: e_def grid_exponent_def)
    have "(2::rat) powi e \<le> 2 powi leading_exponent x" using e by (intro power_int_increasing) auto
    also have "\<dots> \<le> x" using leading_exponent_le [of x] x(2) by simp
    finally show ?thesis by (simp add: le_divide_eq)
  qed
  then have "1 \<le> round_half_even (x / 2 powi e)" using round_half_even_ge [of 1] by simp
  then show ?thesis using x(2) by (simp add: binary64_def e_def zero_less_mult_iff)
qed

theorem float_sub_eq_0:
  assumes "is_float x" "is_float y"
  shows "float_sub x y = 0 \<longleftrightarrow> x = y"
proof -
  obtain k l :: int where kl: "x = of_int k * smallest" "y = of_int l * smallest"
    using assms binary64_grid [of x] binary64_grid [of y] by (auto simp: is_float_def)
  have pos: "0 < float_sub a b" if "a = of_int m * smallest" "b = of_int n * smallest" "b < a" for a b m n
    unfolding float_sub_def by (rule binary64_pos [of _ "m - n"]) (use that in \<open>simp_all add: algebra_simps\<close>)
  show ?thesis
  proof (cases x y rule: linorder_cases)
    case less
    then show ?thesis using pos [OF kl(2,1)] float_sub_swap [of x y] by simp
  next
    case equal
    then show ?thesis by (simp add: float_sub_def)
  next
    case greater
    then show ?thesis using pos [OF kl] by simp
  qed
qed

end
