(* ===== verification/Evaluation.thy ===== *)
theory Evaluation
  imports Providers Py_Floats Replay_Service
begin

text \<open>
  The evaluation of an execution: \<open>domain/evaluation_result.py\<close>,
  \<open>evaluation/evaluation_metrics.py\<close>, \<open>evaluation/evaluation_service.py\<close>,
  \<open>services/dataset_builder.py\<close>, \<open>providers/provider_registry.py\<close>,
  \<open>services/evaluation_api_service.py\<close>, the thresholds of
  \<open>settings_control/operational.py\<close> and the in-memory repository. A provider is code of a plugin:
  its descriptor and its evaluation are fields of the record \<open>provider\<close>; while it runs, other
  commands may change the state. Telemetry and the publication to the graph are left out; values of
  settings and provider installations are parameters.
\<close>

section \<open>Results\<close>

record eval_metric =
  em_metric_name :: string
  em_metric_value :: rat
  em_explanation :: "string option"

record eval_artifact =
  ea_artifact_type :: string
  ea_uri :: "string option"
  ea_payload :: "(string \<times> pyval) list option"
  ea_metadata :: "(string \<times> pyval) list"

record evaluation_result =
  er_evaluation_id :: string
  er_execution_id :: string
  er_evaluator_type :: string
  er_evaluator_version :: string
  er_metrics :: "eval_metric list"
  er_metadata :: "(string \<times> pyval) list"
  er_artifacts :: "eval_artifact list"
  er_provider_metadata :: "(string \<times> pyval) list"
  er_snapshot :: "(string \<times> pyval) list option"
  er_created_at :: datetime
  er_organization_id :: string
  er_project_id :: string

definition new_evaluation_result :: "evaluation_result \<Rightarrow> evaluation_result" where
  "new_evaluation_result r =
     (if er_provider_metadata r = [] \<and> er_metadata r \<noteq> [] then r\<lparr>er_provider_metadata := er_metadata r\<rparr>
      else if er_provider_metadata r \<noteq> [] \<and> er_metadata r = [] then r\<lparr>er_metadata := er_provider_metadata r\<rparr>
      else r)"

definition new_metric_spec :: "metric_spec \<Rightarrow> metric_spec" where
  "new_metric_spec m = m\<lparr>ms_name := normalize_metric_name (ms_name m)\<rparr>"

type_synonym evaluation_repo = "evaluation_result list"

record evaluation_system =
  vs_replay :: replay_system
  vs_evaluations :: evaluation_repo

definition save_evaluation :: "evaluation_result \<Rightarrow> (evaluation_system, unit) action" where
  "save_evaluation r s = (Inr (), s\<lparr>vs_evaluations := vs_evaluations s @ [r]\<rparr>)"

definition find_by_evaluation_id :: "evaluation_repo \<Rightarrow> string \<Rightarrow> evaluation_result option" where
  "find_by_evaluation_id s evaluation_id = List.find (\<lambda>r. er_evaluation_id r = evaluation_id) s"

definition find_by_execution_id :: "evaluation_repo \<Rightarrow> string \<Rightarrow> evaluation_result list" where
  "find_by_execution_id s execution_id = filter (\<lambda>r. er_execution_id r = execution_id) s"

text \<open>\<open>xs[a:b]\<close>: a negative index counts from the end, and both are clamped to the list.\<close>

definition slice_index :: "int \<Rightarrow> nat \<Rightarrow> nat" where
  "slice_index i n = nat (if i < 0 then max 0 (i + int n) else min i (int n))"

definition py_slice :: "int \<Rightarrow> int \<Rightarrow> 'a list \<Rightarrow> 'a list" where
  "py_slice a b xs =
     take (slice_index b (length xs) - slice_index a (length xs)) (drop (slice_index a (length xs)) xs)"

record evaluation_page =
  vp_items :: "evaluation_result list"
  vp_total_count :: int

definition find_page_by_execution_id_prefix ::
  "evaluation_repo \<Rightarrow> string \<Rightarrow> tenant_context \<Rightarrow> int \<Rightarrow> int \<Rightarrow> evaluation_page" where
  "find_page_by_execution_id_prefix s prefix cx offset limit =
     (let results = sort_key (\<lambda>r. (micros (er_created_at r), er_execution_id r, er_evaluation_id r))
            (filter (\<lambda>r. py_startswith (er_execution_id r) prefix \<and> er_organization_id r = cx_organization_id cx
                        \<and> er_project_id r = cx_project cx) s)
      in \<lparr>vp_items = py_slice offset (offset + limit) results, vp_total_count = int (length results)\<rparr>)"

section \<open>Providers\<close>

record evaluation_dataset =
  dt_execution_id :: string
  dt_input_text :: string
  dt_context_text :: string
  dt_output_text :: string
  dt_metadata :: "(string \<times> pyval) list"

record evaluation_order =
  eo_execution :: workflow_execution
  eo_dataset :: evaluation_dataset
  eo_metric_specs :: "metric_spec list"
  eo_provider_config :: "(string \<times> pyval) list"
  eo_snapshot :: "(string \<times> pyval) list"

record provider =
  pv_descriptor :: descriptor
  pv_evaluate :: "evaluation_order \<Rightarrow> (evaluation_system, evaluation_result) action"

type_synonym provider_registry = "(string, provider) dict"

definition provider_error :: "string \<Rightarrow> string \<Rightarrow> exc" where
  "provider_error name message = Exc (OtherError name) message"

definition not_registered :: "string \<Rightarrow> exc" where
  "not_registered name = provider_error ''ProviderNotFoundError'' (''Provider '' @ quoted name @ '' is not registered.'')"

definition register_provider :: "provider \<Rightarrow> (provider_registry, unit) action" where
  "register_provider p s =
     (let name = normalize_provider_name (ds_name (pv_descriptor p)) in
      if dict_get s name \<noteq> None
      then (Inl (provider_error ''ProviderAlreadyRegisteredError''
              (''Provider '' @ quoted name @ '' is already registered.'')), s)
      else (Inr (), dict_put name p s))"

definition get_provider :: "provider_registry \<Rightarrow> string \<Rightarrow> exc + provider" where
  "get_provider s name =
     (case dict_get s (normalize_provider_name name) of
        None \<Rightarrow> Inl (not_registered (normalize_provider_name name)) | Some p \<Rightarrow> Inr p)"

definition list_providers :: "provider_registry \<Rightarrow> descriptor list" where
  "list_providers s = map pv_descriptor (dict_values s)"

definition contains_provider :: "provider_registry \<Rightarrow> string \<Rightarrow> bool" where
  "contains_provider s name = (dict_get s (normalize_provider_name name) \<noteq> None)"

definition unregister_provider :: "string \<Rightarrow> (provider_registry, unit) action" where
  "unregister_provider name s =
     (let n = normalize_provider_name name in
      if dict_get s n = None then (Inl (not_registered n), s) else (Inr (), filter (\<lambda>(k, _). k \<noteq> n) s))"

section \<open>The dataset and the evaluation\<close>

text \<open>\<open>str(a or b or ... or "")\<close>.\<close>

definition text_of :: "(rat \<Rightarrow> string) \<Rightarrow> pyval list \<Rightarrow> string" where
  "text_of fr vs = (case List.find pv_truthy vs of None \<Rightarrow> [] | Some v \<Rightarrow> py_str fr v)"

definition mapping_of :: "(string \<times> pyval) list option \<Rightarrow> exc + (string \<times> pyval) list" where
  "mapping_of v =
     (case v of None \<Rightarrow> Inl (Exc (OtherError ''AttributeError'')
          (quoted ''NoneType'' @ '' object has no attribute '' @ quoted ''get''))
      | Some d \<Rightarrow> Inr d)"

definition build_dataset :: "(rat \<Rightarrow> string) \<Rightarrow> workflow_execution \<Rightarrow> exc + evaluation_dataset" where
  "build_dataset fr x =
     res_bind (mapping_of (wx_input x)) (\<lambda>input.
     res_bind (mapping_of (wx_final_state x)) (\<lambda>final.
     Inr \<lparr>dt_execution_id = wx_execution_id x,
          dt_input_text = text_of fr [pget input ''input'', pget input ''question'', pget input ''query''],
          dt_context_text = text_of fr [pget final ''context''], dt_output_text = text_of fr [pget final ''answer''],
          dt_metadata = wx_metadata x\<rparr>))"

datatype provider_source = Direct provider | Registered provider_registry string

definition contract_error :: "string \<Rightarrow> exc" where
  "contract_error message = provider_error ''ProviderContractError'' message"

definition new_evaluation_service ::
  "provider option \<Rightarrow> provider_registry option \<Rightarrow> string option \<Rightarrow> exc + provider_source" where
  "new_evaluation_service p registry name =
     (case (p, registry, name) of
        (Some q, None, None) \<Rightarrow> Inr (Direct q)
      | (Some q, _, _) \<Rightarrow> Inl (contract_error ''Provide either a direct provider or provider registry/name, not both.'')
      | (None, Some r, Some n) \<Rightarrow> Inr (Registered r n)
      | (None, None, None) \<Rightarrow> Inl (contract_error ''EvaluationService requires a provider or provider registry/name.'')
      | _ \<Rightarrow> Inl (contract_error
               ''Provider registry resolution requires both provider_registry and provider_name.''))"

definition source_provider :: "provider_source \<Rightarrow> exc + provider" where
  "source_provider src = (case src of Direct p \<Rightarrow> Inr p | Registered r n \<Rightarrow> get_provider r n)"

definition evaluate_execution ::
  "(rat \<Rightarrow> string) \<Rightarrow> datetime \<Rightarrow> provider_source \<Rightarrow> workflow_execution \<Rightarrow> (string \<times> pyval) list \<Rightarrow> metric_spec list
     \<Rightarrow> (evaluation_system, evaluation_result) action" where
  "evaluate_execution fr now src x config specs =
     act_bind (act_lift (build_dataset fr x)) (\<lambda>dataset.
     act_bind (act_lift (source_provider src)) (\<lambda>p.
     let snapshot = snapshot_to_dict (snapshot_from_descriptor fr now (pv_descriptor p)) in
     act_bind (pv_evaluate p
       \<lparr>eo_execution = x, eo_dataset = dataset, eo_metric_specs = specs, eo_provider_config = config,
        eo_snapshot = snapshot\<rparr>) (\<lambda>result.
     act_return (if er_snapshot result = None then new_evaluation_result (result\<lparr>er_snapshot := Some snapshot\<rparr>) else result))))"

section \<open>Thresholds\<close>

record evaluation_outcome =
  vo_passed :: bool
  vo_score :: rat
  vo_threshold :: rat
  vo_metric_thresholds :: "(string \<times> rat) list"
  vo_failures :: "string list"

text \<open>A dictionary comprehension over the metrics: the last value of a name wins.\<close>

definition metric_values :: "eval_metric list \<Rightarrow> (string, rat) dict" where
  "metric_values ms = fold (\<lambda>m. dict_put (em_metric_name m) (em_metric_value m)) ms []"

definition metric_threshold :: "rat \<Rightarrow> (string \<times> rat) list \<Rightarrow> string \<Rightarrow> rat" where
  "metric_threshold fallback configured name = opt_or (map_of configured name) fallback"

definition evaluate_thresholds :: "eval_metric list \<Rightarrow> rat \<Rightarrow> (string \<times> rat) list \<Rightarrow> evaluation_outcome" where
  "evaluate_thresholds ms fallback configured =
     (let scores = metric_values ms;
          failures = map fst (filter (\<lambda>(name, score). score < metric_threshold fallback configured name) scores)
      in \<lparr>vo_passed = (scores \<noteq> [] \<and> failures = []),
          vo_score = (if scores = [] then 0 else float_div (float_sum (map snd scores)) (of_nat (length scores))),
          vo_threshold = fallback,
          vo_metric_thresholds = map (\<lambda>(name, _). (name, metric_threshold fallback configured name)) scores,
          vo_failures = failures\<rparr>)"

definition outcome_payload :: "evaluation_outcome \<Rightarrow> pyval" where
  "outcome_payload v = PDict
     [(''passed'', PBool (vo_passed v)), (''score'', PFloat (vo_score v)), (''default_threshold'', PFloat (vo_threshold v)),
      (''metric_thresholds'', PDict (map (\<lambda>(k, x). (k, PFloat x)) (vo_metric_thresholds v))),
      (''failures'', PList (map PStr (vo_failures v)))]"

section \<open>The application service\<close>

record evaluation_settings =
  vg_pass_threshold :: rat
  vg_thresholds :: "(string \<times> rat) list"
  vg_retention :: string

record evaluation_env =
  ve_fr :: "rat \<Rightarrow> string"
  ve_registry :: provider_registry
  ve_settings :: "(tenant_context option \<Rightarrow> evaluation_settings) option"
  ve_installations :: "(string \<Rightarrow> tenant_context \<Rightarrow> exc + string \<times> (string \<times> pyval) list) option"

definition resolve_installation ::
  "evaluation_env \<Rightarrow> string option \<Rightarrow> (string \<times> pyval) list \<Rightarrow> string option \<Rightarrow> tenant_context option
     \<Rightarrow> exc + string \<times> (string \<times> pyval) list" where
  "resolve_installation env name config installation cx =
     (if \<not> truthy installation
      then if \<not> truthy name
           then Inl (provider_error ''EvaluationProviderNotFoundError'' (''Provider '' @ quoted [] @ '' was not found.''))
           else Inr (the name, config)
      else case (ve_installations env, cx) of
        (Some resolve, Some c) \<Rightarrow>
          res_bind (resolve (the installation) c) (\<lambda>(type, installed).
            if truthy name \<and> the name \<noteq> type
            then Inl (Exc ValueError ''Provider installation type does not match the requested provider.'')
            else Inr (type, dict_merge config installed))
      | _ \<Rightarrow> Inl (Exc ValueError ''Provider installations require a tenant-scoped evaluation runtime.''))"

definition resolve_provider :: "evaluation_env \<Rightarrow> string \<Rightarrow> exc + provider" where
  "resolve_provider env name =
     (case get_provider (ve_registry env) name of
        Inl e \<Rightarrow> Inl (provider_error ''EvaluationProviderNotFoundError'' (''Provider '' @ quoted name @ '' was not found.''))
      | Inr p \<Rightarrow> Inr p)"

definition unsupported :: "string \<Rightarrow> string \<Rightarrow> exc" where
  "unsupported metric name = provider_error ''UnsupportedMetricError''
     (''Metric '' @ quoted metric @ '' is not supported by provider '' @ quoted name @ ''.'')"

definition validate_metric_specs :: "metric_spec list \<Rightarrow> descriptor \<Rightarrow> exc + unit" where
  "validate_metric_specs specs d =
     (let supported = map normalize_metric_name (cp_supported_metrics (ds_capabilities d)) in
      checked (map (\<lambda>m. (ms_name m \<notin> set supported, unsupported (ms_name m) (ds_name d))) specs) ())"

definition model_latency :: "workflow_execution \<Rightarrow> int option" where
  "model_latency x =
     (case pget (wx_metadata x) ''runtime_evidence'' of
        PDict d \<Rightarrow> (case pget d ''latency_ms'' of PInt i \<Rightarrow> if i < 0 then None else Some i | _ \<Rightarrow> None)
      | _ \<Rightarrow> None)"

text \<open>What the service adds to the result of a provider, in the order of its statements.\<close>

definition stamp_result ::
  "evaluation_env \<Rightarrow> workflow_execution \<Rightarrow> tenant_context option \<Rightarrow> evaluation_result \<Rightarrow> evaluation_result" where
  "stamp_result env x cx r0 =
     (let r1 = (case model_latency x of None \<Rightarrow> r0
                | Some i \<Rightarrow> r0\<lparr>er_metadata := dict_put ''model_latency_ms'' (PInt i) (er_metadata r0)\<rparr>);
          r2 = (case cx of None \<Rightarrow> r1
                | Some c \<Rightarrow> r1\<lparr>er_organization_id := cx_organization_id c, er_project_id := cx_project c\<rparr>)
      in case ve_settings env of None \<Rightarrow> r2
         | Some f \<Rightarrow>
             r2\<lparr>er_metadata := dict_put ''ai_governance_evaluation_outcome''
                (outcome_payload (evaluate_thresholds (er_metrics r2) (vg_pass_threshold (f cx)) (vg_thresholds (f cx))))
                (er_metadata r2)\<rparr>)"

definition submit_evaluation ::
  "evaluation_env \<Rightarrow> datetime \<Rightarrow> workflow_execution \<Rightarrow> string option \<Rightarrow> metric_spec list \<Rightarrow> (string \<times> pyval) list
     \<Rightarrow> string option \<Rightarrow> tenant_context option \<Rightarrow> (evaluation_system, evaluation_result) action" where
  "submit_evaluation env now x name specs config installation cx =
     act_bind (act_lift (resolve_installation env name config installation cx)) (\<lambda>(provider_name, provider_config).
     act_bind (act_lift (resolve_provider env provider_name)) (\<lambda>p.
     act_bind (act_lift (validate_metric_specs specs (pv_descriptor p))) (\<lambda>_.
     act_bind (evaluate_execution (ve_fr env) now (Registered (ve_registry env) provider_name) x provider_config specs) (\<lambda>r.
     act_bind (save_evaluation (stamp_result env x cx r)) (\<lambda>_.
     act_return (stamp_result env x cx r))))))"

definition evaluation_in_context :: "evaluation_result \<Rightarrow> tenant_context option \<Rightarrow> bool" where
  "evaluation_in_context r cx =
     (case cx of None \<Rightarrow> True
      | Some c \<Rightarrow> er_organization_id r = cx_organization_id c \<and> Some (er_project_id r) = cx_project_id c)"

definition evaluation_missing :: "string \<Rightarrow> exc" where
  "evaluation_missing evaluation_id = Exc EvaluationNotFoundError (''Evaluation '' @ quoted evaluation_id @ '' was not found.'')"

definition get_evaluation :: "evaluation_repo \<Rightarrow> string \<Rightarrow> tenant_context option \<Rightarrow> exc + evaluation_result" where
  "get_evaluation s evaluation_id cx =
     (case find_by_evaluation_id s evaluation_id of
        None \<Rightarrow> Inl (evaluation_missing evaluation_id)
      | Some r \<Rightarrow> if evaluation_in_context r cx then Inr r else Inl (evaluation_missing evaluation_id))"

text \<open>\<open>duration_seconds\<close> and \<open>datetime.timestamp()\<close>: floats.\<close>

definition duration_seconds :: "string \<Rightarrow> exc + rat" where
  "duration_seconds value =
     (let v = py_lower (py_strip value); digits = takeWhile is_ascii_digit v; unit = dropWhile is_ascii_digit v;
          n = of_nat (digits_val digits) :: rat; invalid = Inl (Exc ValueError (''Invalid duration: '' @ value))
      in if digits = [] \<or> hd digits = CHR ''0'' then invalid
         else if unit = ''ms'' then Inr (binary64 (n * binary64 (1 / 1000)))
         else case map_of [(''s'', 1), (''m'', 60), (''h'', 3600), (''d'', 86400), (''w'', 604800)] unit of
           None \<Rightarrow> invalid | Some factor \<Rightarrow> Inr (n * factor))"

definition timestamp :: "datetime \<Rightarrow> rat" where
  "timestamp d = binary64 (of_int (micros d) / 1000000)"

definition get_history ::
  "evaluation_env \<Rightarrow> datetime \<Rightarrow> evaluation_repo \<Rightarrow> string \<Rightarrow> tenant_context option \<Rightarrow> exc + evaluation_result list" where
  "get_history env now s execution_id cx =
     (let results = filter (\<lambda>r. evaluation_in_context r cx) (find_by_execution_id s execution_id) in
      case ve_settings env of None \<Rightarrow> Inr results
      | Some f \<Rightarrow>
          res_bind (duration_seconds (vg_retention (f cx))) (\<lambda>retention.
          let cutoff = float_sub (timestamp now) (binary64 retention) in
          Inr (filter (\<lambda>r. cutoff \<le> timestamp (er_created_at r)) results)))"

text \<open>\<open>max(xs, key=f)\<close>: the first of the greatest.\<close>

fun first_max :: "('a \<Rightarrow> 'k::linorder) \<Rightarrow> 'a \<Rightarrow> 'a list \<Rightarrow> 'a" where
  "first_max f x [] = x"
| "first_max f x (y # ys) = first_max f (if f x < f y then y else x) ys"

definition get_latest ::
  "evaluation_env \<Rightarrow> datetime \<Rightarrow> evaluation_repo \<Rightarrow> string \<Rightarrow> tenant_context option \<Rightarrow> exc + evaluation_result" where
  "get_latest env now s execution_id cx =
     res_bind (get_history env now s execution_id cx) (\<lambda>results.
     case results of
       [] \<Rightarrow> Inl (Exc EvaluationNotFoundError (''No evaluation was found for execution '' @ quoted execution_id @ ''.''))
     | r # rs \<Rightarrow> Inr (first_max (\<lambda>x. micros (er_created_at x)) r rs))"

end
