(* ===== verification/Drift.thy ===== *)
theory Drift
  imports Evaluation
begin

text \<open>
  The comparison of two evaluations: \<open>domain/history/evaluation_comparison.py\<close>,
  \<open>governance/drift_analyzer.py\<close> and \<open>services/replay_governance.py\<close> with the choice of a
  baseline, the comparison, the drift and the result of a replay.
\<close>

section \<open>Comparisons\<close>

record metric_comparison =
  mc_metric_name :: string
  mc_baseline_value :: "rat option"
  mc_candidate_value :: "rat option"

definition score_difference :: "metric_comparison \<Rightarrow> rat option" where
  "score_difference m =
     (case (mc_baseline_value m, mc_candidate_value m) of (Some b, Some c) \<Rightarrow> Some (float_sub c b) | _ \<Rightarrow> None)"

record evaluation_comparison =
  vc_execution_id :: string
  vc_baseline_evaluation_id :: string
  vc_candidate_evaluation_id :: string
  vc_metric_comparisons :: "metric_comparison list"

section \<open>The drift analyzer\<close>

datatype drift_severity = SV_NONE | SV_LOW | SV_MEDIUM | SV_HIGH

fun severity_value :: "drift_severity \<Rightarrow> string" where
  "severity_value SV_NONE = ''NONE''"
| "severity_value SV_LOW = ''LOW''"
| "severity_value SV_MEDIUM = ''MEDIUM''"
| "severity_value SV_HIGH = ''HIGH''"

record evaluation_drift =
  dr_baseline_evaluation_id :: string
  dr_candidate_evaluation_id :: string
  dr_score_difference :: "rat option"
  dr_changed_metrics :: "metric_comparison list"
  dr_new_metrics :: "metric_comparison list"
  dr_removed_metrics :: "metric_comparison list"
  dr_severity :: drift_severity

definition medium_threshold :: rat where
  "medium_threshold = binary64 (1 / 10)"

definition high_threshold :: rat where
  "high_threshold = binary64 (1 / 5)"

text \<open>The sorted names of the keys in the first dictionary that do, or do not, occur in the second.\<close>

definition shared_names :: "(string, rat) dict \<Rightarrow> (string, rat) dict \<Rightarrow> string list" where
  "shared_names b c = sort (filter (\<lambda>n. dict_get c n \<noteq> None) (map fst b))"

definition only_names :: "(string, rat) dict \<Rightarrow> (string, rat) dict \<Rightarrow> string list" where
  "only_names b c = sort (filter (\<lambda>n. dict_get c n = None) (map fst b))"

definition compared :: "(string, rat) dict \<Rightarrow> (string, rat) dict \<Rightarrow> string \<Rightarrow> metric_comparison" where
  "compared b c n = \<lparr>mc_metric_name = n, mc_baseline_value = dict_get b n, mc_candidate_value = dict_get c n\<rparr>"

definition changed_comparisons :: "(string, rat) dict \<Rightarrow> (string, rat) dict \<Rightarrow> metric_comparison list" where
  "changed_comparisons b c = map (compared b c) (filter (\<lambda>n. dict_get b n \<noteq> dict_get c n) (shared_names b c))"

definition average_difference :: "(string, rat) dict \<Rightarrow> (string, rat) dict \<Rightarrow> string list \<Rightarrow> rat option" where
  "average_difference b c names =
     (if names = [] then None
      else Some (float_div (float_sum (map (\<lambda>n. float_sub (the (dict_get c n)) (the (dict_get b n))) names))
             (of_nat (length names))))"

definition max_delta :: "metric_comparison list \<Rightarrow> rat" where
  "max_delta ms = fold max (map abs (List.map_filter score_difference ms)) 0"

definition severity_of ::
  "metric_comparison list \<Rightarrow> metric_comparison list \<Rightarrow> metric_comparison list \<Rightarrow> drift_severity" where
  "severity_of changed new removed =
     (if changed = [] \<and> new = [] \<and> removed = [] then SV_NONE
      else if high_threshold \<le> max_delta changed then SV_HIGH
      else if medium_threshold \<le> max_delta changed \<or> new \<noteq> [] \<or> removed \<noteq> [] then SV_MEDIUM
      else SV_LOW)"

definition analyze_drift :: "evaluation_result \<Rightarrow> evaluation_result \<Rightarrow> evaluation_drift" where
  "analyze_drift baseline candidate =
     (let b = metric_values (er_metrics baseline); c = metric_values (er_metrics candidate);
          changed = changed_comparisons b c;
          new = map (compared b c) (only_names c b);
          removed = map (compared b c) (only_names b c)
      in \<lparr>dr_baseline_evaluation_id = er_evaluation_id baseline, dr_candidate_evaluation_id = er_evaluation_id candidate,
          dr_score_difference = average_difference b c (shared_names b c),
          dr_changed_metrics = changed, dr_new_metrics = new, dr_removed_metrics = removed,
          dr_severity = severity_of changed new removed\<rparr>)"

section \<open>The baseline of a replay\<close>

record baseline_resolution =
  br_evaluation :: evaluation_result
  br_strategy :: string
  br_compatibility_summary :: "(string \<times> pyval) list"
  br_resolved_at :: datetime

definition metric_names :: "evaluation_result \<Rightarrow> string list" where
  "metric_names r = remdups (map em_metric_name (er_metrics r))"

definition compatible :: "evaluation_result \<Rightarrow> evaluation_result \<Rightarrow> bool" where
  "compatible baseline replay =
     (er_evaluator_type baseline = er_evaluator_type replay \<and> er_evaluator_version baseline = er_evaluator_version replay
      \<and> list_ex (\<lambda>n. n \<in> set (metric_names replay)) (metric_names baseline))"

definition resolution_of :: "datetime \<Rightarrow> evaluation_result \<Rightarrow> string \<Rightarrow> evaluation_result \<Rightarrow> baseline_resolution" where
  "resolution_of now e strategy replay =
     \<lparr>br_evaluation = e, br_strategy = strategy,
      br_compatibility_summary =
        [(''evaluator_type'', PStr (er_evaluator_type e)), (''evaluator_version'', PStr (er_evaluator_version e)),
         (''shared_metrics'',
          PList (map PStr (sort (filter (\<lambda>n. n \<in> set (metric_names replay)) (metric_names e)))))],
      br_resolved_at = now\<rparr>"

definition unavailable :: "string \<Rightarrow> exc" where
  "unavailable message = Exc ReplayBaselineUnavailable message"

definition resolve_baseline ::
  "evaluation_env \<Rightarrow> datetime \<Rightarrow> datetime \<Rightarrow> evaluation_repo \<Rightarrow> string \<Rightarrow> evaluation_result \<Rightarrow> string \<Rightarrow> string option
     \<Rightarrow> tenant_context \<Rightarrow> exc + baseline_resolution" where
  "resolve_baseline env now resolved s source_execution_id replay strategy0 explicit cx =
     (let strategy = py_upper strategy0 in
      if strategy \<notin> {''EXPLICIT'', ''LATEST_COMPATIBLE'', ''SOURCE_PRIMARY''}
      then Inl (unavailable (''Unsupported replay baseline strategy '' @ quoted strategy @ ''.''))
      else if strategy = ''EXPLICIT''
      then if \<not> truthy explicit then Inl (unavailable ''An explicit baseline evaluation ID is required.'')
           else res_bind (get_evaluation s (the explicit) (Some cx)) (\<lambda>candidate.
             checked [(er_execution_id candidate \<noteq> source_execution_id,
                       unavailable ''Explicit baseline does not belong to source execution.''),
                      (\<not> compatible candidate replay,
                       Exc ReplayBaselineIncompatible ''Baseline evaluator or metric schema is incompatible.'')]
               (resolution_of resolved candidate strategy replay))
      else res_bind (get_history env now s source_execution_id (Some cx)) (\<lambda>history.
        let primary = filter (\<lambda>r. pget (er_metadata r) ''primary'' = PBool True) history;
            candidates = (if strategy = ''SOURCE_PRIMARY'' \<and> primary \<noteq> [] then primary else history)
        in case filter (\<lambda>r. compatible r replay) candidates of
             [] \<Rightarrow> Inl (unavailable ''No compatible source evaluation is available.'')
           | r # rs \<Rightarrow>
               Inr (resolution_of resolved (first_max (\<lambda>x. (micros (er_created_at x), er_evaluation_id x)) r rs) strategy replay)))"

section \<open>Comparison, drift and result of a replay\<close>

definition metric_value_of :: "evaluation_result \<Rightarrow> string \<Rightarrow> rat option" where
  "metric_value_of r name =
     map_option em_metric_value (List.find (\<lambda>m. em_metric_name m = name) (er_metrics r))"

definition compare_evaluations ::
  "string \<Rightarrow> string \<Rightarrow> evaluation_result \<Rightarrow> evaluation_result \<Rightarrow> exc + evaluation_comparison" where
  "compare_evaluations source_execution_id replay_execution_id baseline replay =
     checked [(er_execution_id baseline \<noteq> source_execution_id \<or> er_execution_id replay \<noteq> replay_execution_id,
               Exc ReplayComparisonFailed ''Evaluation executions do not match replay lineage.'')]
       \<lparr>vc_execution_id = replay_execution_id, vc_baseline_evaluation_id = er_evaluation_id baseline,
        vc_candidate_evaluation_id = er_evaluation_id replay,
        vc_metric_comparisons =
          map (\<lambda>n. \<lparr>mc_metric_name = n, mc_baseline_value = metric_value_of baseline n,
                     mc_candidate_value = metric_value_of replay n\<rparr>)
            (sort (remdups (metric_names baseline @ metric_names replay)))\<rparr>"

fun type_name :: "pyval \<Rightarrow> string" where
  "type_name PNone = ''NoneType''"
| "type_name (PBool _) = ''bool''"
| "type_name (PInt _) = ''int''"
| "type_name (PFloat _) = ''float''"
| "type_name (PStr _) = ''str''"
| "type_name (PList _) = ''list''"
| "type_name (PDict _) = ''dict''"

text \<open>\<open>metadata.get("metric_directions", {}).get(name)\<close>.\<close>

definition direction_in :: "(string \<times> pyval) list \<Rightarrow> string \<Rightarrow> exc + pyval" where
  "direction_in metadata name =
     (case opt_or (map_of metadata ''metric_directions'') (PDict []) of
        PDict d \<Rightarrow> Inr (pget d name)
      | v \<Rightarrow> Inl (Exc (OtherError ''AttributeError'') (quoted (type_name v) @ '' object has no attribute '' @ quoted ''get'')))"

text \<open>Membership in a set of strings; a list or a dictionary cannot be hashed.\<close>

definition known_direction :: "pyval \<Rightarrow> exc + bool" where
  "known_direction v =
     (case v of PStr s \<Rightarrow> Inr (s \<in> {''HIGHER_IS_BETTER'', ''LOWER_IS_BETTER''})
      | PList _ \<Rightarrow> Inl (Exc TypeError (''unhashable type: '' @ quoted ''list''))
      | PDict _ \<Rightarrow> Inl (Exc TypeError (''unhashable type: '' @ quoted ''dict''))
      | _ \<Rightarrow> Inr False)"

definition outcome_of ::
  "evaluation_result \<Rightarrow> evaluation_result \<Rightarrow> metric_comparison \<Rightarrow> exc + string" where
  "outcome_of baseline replay m =
     (if mc_baseline_value m = None then Inr ''NEW''
      else if mc_candidate_value m = None then Inr ''REMOVED''
      else if score_difference m = Some 0 then Inr ''UNCHANGED''
      else res_bind (direction_in (er_metadata replay) (mc_metric_name m)) (\<lambda>d.
        res_bind (if pv_truthy d then Inr d else direction_in (er_metadata baseline) (mc_metric_name m)) (\<lambda>direction.
        res_bind (known_direction direction) (\<lambda>known.
        if \<not> known then Inr ''UNKNOWN''
        else Inr (if (if direction = PStr ''HIGHER_IS_BETTER'' then 0 < the (score_difference m) else the (score_difference m) < 0)
                  then ''IMPROVED'' else ''REGRESSED'')))))"

definition summary_of ::
  "evaluation_comparison \<Rightarrow> evaluation_result \<Rightarrow> evaluation_result \<Rightarrow> exc + comparison_summary" where
  "summary_of comparison baseline replay =
     res_bind (map_res (outcome_of baseline replay) (vc_metric_comparisons comparison)) (\<lambda>outcomes.
     let deltas = List.map_filter score_difference (vc_metric_comparisons comparison);
         count = (\<lambda>name. int (length (filter (\<lambda>x. x = name) outcomes))) in
     Inr \<lparr>cs_metric_count = int (length (vc_metric_comparisons comparison)), cs_improved_metric_count = count ''IMPROVED'',
          cs_regressed_metric_count = count ''REGRESSED'', cs_unchanged_metric_count = count ''UNCHANGED'',
          cs_new_metric_count = count ''NEW'', cs_removed_metric_count = count ''REMOVED'',
          cs_overall_score_delta = (if deltas = [] then None else Some (float_div (float_sum deltas) (of_nat (length deltas))))\<rparr>)"

definition analyze_replay_drift ::
  "evaluation_result \<Rightarrow> evaluation_result \<Rightarrow> (string \<times> pyval) list \<Rightarrow> evaluation_drift \<times> drift_summary" where
  "analyze_replay_drift baseline replay policy =
     (let d = analyze_drift baseline replay in
      (d, \<lparr>dsm_severity = severity_value (dr_severity d), dsm_changed_metrics = map mc_metric_name (dr_changed_metrics d),
           dsm_new_metrics = map mc_metric_name (dr_new_metrics d),
           dsm_removed_metrics = map mc_metric_name (dr_removed_metrics d),
           dsm_analyzer_version = ''governance-drift-v1'', dsm_threshold_policy = policy\<rparr>))"

definition make_replay_result ::
  "string \<Rightarrow> string \<Rightarrow> datetime \<Rightarrow> replay \<Rightarrow> baseline_resolution \<Rightarrow> string \<Rightarrow> string \<Rightarrow> comparison_summary \<Rightarrow> drift_summary
     \<Rightarrow> exc + replay_result" where
  "make_replay_result result_id generated now r resolution comparison_id drift_id comparison drift =
     new_result
       \<lparr>rt_result_id = (if result_id = [] then generated else result_id), rt_replay_id = rp_replay_id r, rt_source_execution_id = rp_source_execution_id r,
        rt_replay_execution_id = opt_or (rp_replay_execution_id r) [],
        rt_baseline_evaluation_id = opt_or (rp_baseline_evaluation_id r) [],
        rt_replay_evaluation_id = opt_or (rp_replay_evaluation_id r) [], rt_comparison_id = comparison_id,
        rt_drift_id = drift_id, rt_baseline_strategy = br_strategy resolution, rt_comparison_summary = comparison,
        rt_drift_summary = drift, rt_organization_id = rp_organization_id r, rt_project_id = rp_project_id r,
        rt_created_at = now,
        rt_metadata = [(''baseline_compatibility'', PDict (br_compatibility_summary resolution)),
          (''threshold_policy'', PDict (dsm_threshold_policy drift))]\<rparr>"

end
