(* ===== verification/Drift_Properties.thy ===== *)
theory Drift_Properties
  imports Drift
begin

text \<open>
  What the drift of two evaluations means: a specification over the values of the metrics, symmetry,
  agreement of the comparison with the drift, and the choice of the baseline.
\<close>

section \<open>The values of the metrics\<close>

text \<open>The value a dictionary comprehension keeps for a name: the last one.\<close>

definition final_value :: "evaluation_result \<Rightarrow> string \<Rightarrow> rat option" where
  "final_value r n = map_of (rev (map (\<lambda>m. (em_metric_name m, em_metric_value m)) (er_metrics r))) n"

lemma metric_values_merge: "metric_values ms = dict_merge [] (map (\<lambda>m. (em_metric_name m, em_metric_value m)) ms)"
proof -
  have "fold (\<lambda>m. dict_put (em_metric_name m) (em_metric_value m)) ms d
      = fold (\<lambda>(k, v). dict_put k v) (map (\<lambda>m. (em_metric_name m, em_metric_value m)) ms) d" for d
    by (induction ms arbitrary: d) auto
  then show ?thesis by (simp add: metric_values_def dict_merge_def)
qed

lemma metric_values_get: "dict_get (metric_values (er_metrics r)) n = final_value r n"
  unfolding metric_values_merge dict_get_merge final_value_def by (simp split: option.splits)

lemma metric_values_ok: "dict_ok (metric_values ms)"
proof -
  have "dict_ok d \<Longrightarrow> dict_ok (fold (\<lambda>m. dict_put (em_metric_name m) (em_metric_value m)) ms d)" for d
    by (induction ms arbitrary: d) auto
  then show ?thesis by (simp add: metric_values_def)
qed

lemma keys_iff: "n \<in> set (map fst d) \<longleftrightarrow> dict_get d n \<noteq> None"
  by (force simp: map_of_eq_None_iff)

lemma names_of:
  assumes "dict_ok b"
  shows "set (shared_names b c) = {n. dict_get b n \<noteq> None \<and> dict_get c n \<noteq> None}" "distinct (shared_names b c)"
    "set (only_names b c) = {n. dict_get b n \<noteq> None \<and> dict_get c n = None}" "distinct (only_names b c)"
    "sorted (shared_names b c)" "sorted (only_names b c)"
  using assms keys_iff [of _ b] by (auto simp: shared_names_def only_names_def dict_ok_def)

lemma thresholds_positive: "0 < medium_threshold" "medium_threshold < high_threshold"
  by code_simp+

lemma fold_max_ge: "x \<le> fold max (xs :: rat list) a \<longleftrightarrow> x \<le> a \<or> (\<exists>y \<in> set xs. x \<le> y)"
  by (induction xs arbitrary: a) (auto simp: le_max_iff_disj)

lemma max_delta_ge:
  "0 < x \<Longrightarrow> x \<le> max_delta ms \<longleftrightarrow> (\<exists>m \<in> set ms. \<exists>d. score_difference m = Some d \<and> x \<le> \<bar>d\<bar>)"
  by (force simp: max_delta_def fold_max_ge map_filter_def)

section \<open>The drift\<close>

text \<open>A metric that both evaluations have, by how much it moved.\<close>

definition moved :: "evaluation_result \<Rightarrow> evaluation_result \<Rightarrow> string \<Rightarrow> rat option" where
  "moved b c n = (case (final_value b n, final_value c n) of (Some x, Some y) \<Rightarrow> Some (float_sub y x) | _ \<Rightarrow> None)"

lemma changed_names:
  "mc_metric_name ` set (dr_changed_metrics (analyze_drift b c))
     = {n. final_value b n \<noteq> None \<and> final_value c n \<noteq> None \<and> final_value b n \<noteq> final_value c n}"
  "mc_metric_name ` set (dr_new_metrics (analyze_drift b c)) = {n. final_value b n = None \<and> final_value c n \<noteq> None}"
  "mc_metric_name ` set (dr_removed_metrics (analyze_drift b c)) = {n. final_value b n \<noteq> None \<and> final_value c n = None}"
  using names_of [OF metric_values_ok, of "er_metrics b"] names_of [OF metric_values_ok, of "er_metrics c"]
  by (auto simp: analyze_drift_def Let_def changed_comparisons_def compared_def metric_values_get image_iff)

lemma changed_moved:
  "0 < x \<Longrightarrow> x \<le> max_delta (dr_changed_metrics (analyze_drift b c)) \<longleftrightarrow> (\<exists>n d. moved b c n = Some d \<and> x \<le> \<bar>d\<bar>)"
  using names_of(1) [OF metric_values_ok, of "er_metrics b" "metric_values (er_metrics c)"]
  by (fastforce simp: max_delta_ge analyze_drift_def Let_def changed_comparisons_def compared_def score_difference_def
      moved_def metric_values_get float_sub_def split: option.splits)

lemma drift_severity_of:
  "dr_severity (analyze_drift b c) = severity_of (dr_changed_metrics (analyze_drift b c))
     (dr_new_metrics (analyze_drift b c)) (dr_removed_metrics (analyze_drift b c))"
  by (simp add: analyze_drift_def Let_def)

lemma image_empty: "f ` set xs = {} \<longleftrightarrow> xs = []"
  by simp

text \<open>
  C35. The drift of two evaluations is what its definition says: metrics are matched by name, a shared one
  is changed when its values differ, and the severity is NONE exactly when both evaluations have the
  same metrics with the same values, HIGH exactly when a shared metric moved by at least 0.2, MEDIUM
  when one moved by at least 0.1 or the sets of metrics differ, and LOW otherwise.
\<close>

theorem drift_specification:
  "mc_metric_name ` set (dr_changed_metrics (analyze_drift b c))
     = {n. final_value b n \<noteq> None \<and> final_value c n \<noteq> None \<and> final_value b n \<noteq> final_value c n}
   \<and> mc_metric_name ` set (dr_new_metrics (analyze_drift b c)) = {n. final_value b n = None \<and> final_value c n \<noteq> None}
   \<and> mc_metric_name ` set (dr_removed_metrics (analyze_drift b c)) = {n. final_value b n \<noteq> None \<and> final_value c n = None}
   \<and> dr_severity (analyze_drift b c) =
       (if final_value b = final_value c then SV_NONE
        else if \<exists>n d. moved b c n = Some d \<and> high_threshold \<le> \<bar>d\<bar> then SV_HIGH
        else if (\<exists>n d. moved b c n = Some d \<and> medium_threshold \<le> \<bar>d\<bar>)
          \<or> dom (final_value b) \<noteq> dom (final_value c) then SV_MEDIUM
        else SV_LOW)"
proof -
  let ?d = "analyze_drift b c"
  have none: "dr_changed_metrics ?d = [] \<and> dr_new_metrics ?d = [] \<and> dr_removed_metrics ?d = []
      \<longleftrightarrow> final_value b = final_value c"
    unfolding image_empty [of mc_metric_name, symmetric] changed_names by (auto simp: fun_eq_iff) (metis not_None_eq)
  have dom: "dr_new_metrics ?d \<noteq> [] \<or> dr_removed_metrics ?d \<noteq> [] \<longleftrightarrow> dom (final_value b) \<noteq> dom (final_value c)"
    unfolding image_empty [of mc_metric_name, symmetric] changed_names by (simp add: set_eq_iff domIff ex_disj_distrib [symmetric]) (metis not_None_eq)
  have "0 < high_threshold" using thresholds_positive by simp
  note high = changed_moved [OF this, of b c]
  note medium = changed_moved [OF thresholds_positive(1), of b c]
  have "dr_severity ?d =
      (if final_value b = final_value c then SV_NONE
       else if \<exists>n d. moved b c n = Some d \<and> high_threshold \<le> \<bar>d\<bar> then SV_HIGH
       else if (\<exists>n d. moved b c n = Some d \<and> medium_threshold \<le> \<bar>d\<bar>)
         \<or> dom (final_value b) \<noteq> dom (final_value c) then SV_MEDIUM
       else SV_LOW)"
    unfolding drift_severity_of severity_of_def none high medium dom ..
  then show ?thesis by (intro conjI changed_names)
qed

text \<open>
  Drift is symmetric: exchanging baseline and candidate keeps the changed metrics and the severity and
  exchanges the new and the removed metrics, rounding included.
\<close>

theorem drift_symmetric:
  "map mc_metric_name (dr_changed_metrics (analyze_drift c b)) = map mc_metric_name (dr_changed_metrics (analyze_drift b c))
   \<and> map mc_metric_name (dr_new_metrics (analyze_drift c b)) = map mc_metric_name (dr_removed_metrics (analyze_drift b c))
   \<and> map mc_metric_name (dr_removed_metrics (analyze_drift c b)) = map mc_metric_name (dr_new_metrics (analyze_drift b c))
   \<and> dr_severity (analyze_drift c b) = dr_severity (analyze_drift b c)"
proof -
  let ?b = "metric_values (er_metrics b)" and ?c = "metric_values (er_metrics c)"
  have names: "map mc_metric_name (map (compared x y) ns) = ns" for x y ns by (induction ns) (simp_all add: compared_def)
  note nb = names_of [OF metric_values_ok, of "er_metrics b"] and nc = names_of [OF metric_values_ok, of "er_metrics c"]
  have shared: "shared_names ?c ?b = shared_names ?b ?c"
    by (rule sorted_distinct_set_unique) (use nb [of ?c] nc [of ?b] in auto)
  have changed: "dr_changed_metrics (analyze_drift c b) = map (compared ?c ?b)
      (filter (\<lambda>n. dict_get ?b n \<noteq> dict_get ?c n) (shared_names ?b ?c))"
    "dr_changed_metrics (analyze_drift b c) = map (compared ?b ?c)
      (filter (\<lambda>n. dict_get ?b n \<noteq> dict_get ?c n) (shared_names ?b ?c))"
    by (simp_all add: analyze_drift_def Let_def changed_comparisons_def shared eq_commute)
  have delta: "map abs (List.map_filter score_difference (map (compared ?c ?b) ns))
      = map abs (List.map_filter score_difference (map (compared ?b ?c) ns))" for ns
    by (induction ns) (auto simp: map_filter_def compared_def score_difference_def abs_float_sub split: option.splits)
  have "max_delta (dr_changed_metrics (analyze_drift c b)) = max_delta (dr_changed_metrics (analyze_drift b c))"
    by (simp only: max_delta_def changed delta)
  moreover have new: "map mc_metric_name (dr_new_metrics (analyze_drift x y)) = only_names (metric_values (er_metrics y)) (metric_values (er_metrics x))"
    "map mc_metric_name (dr_removed_metrics (analyze_drift x y)) = only_names (metric_values (er_metrics x)) (metric_values (er_metrics y))" for x y
    by (simp_all only: analyze_drift_def Let_def evaluation_drift.simps names)
  then have "dr_new_metrics (analyze_drift x y) = [] \<longleftrightarrow> dr_removed_metrics (analyze_drift y x) = []" for x y
    by (metis map_is_Nil_conv)
  moreover have names': "map mc_metric_name (dr_changed_metrics (analyze_drift c b)) = map mc_metric_name (dr_changed_metrics (analyze_drift b c))"
    by (simp only: changed names)
  then have "dr_changed_metrics (analyze_drift c b) = [] \<longleftrightarrow> dr_changed_metrics (analyze_drift b c) = []"
    by (metis map_is_Nil_conv)
  ultimately have "dr_severity (analyze_drift c b) = dr_severity (analyze_drift b c)"
    unfolding drift_severity_of severity_of_def by auto
  with names' new show ?thesis by simp
qed

section \<open>Comparison and drift agree\<close>

lemma map_res_count:
  "map_res f xs = Inr ys \<Longrightarrow> length (filter (\<lambda>y. y = v) ys) = length (filter (\<lambda>x. f x = Inr v) xs)"
  by (induction xs arbitrary: ys) (auto simp: res_bind_Inr_iff)

lemma distinct_values:
  assumes "distinct (map em_metric_name (er_metrics r))"
  shows "metric_value_of r n = final_value r n"
proof -
  have "map_option em_metric_value (List.find (\<lambda>m. em_metric_name m = n) ms)
      = map_of (map (\<lambda>m. (em_metric_name m, em_metric_value m)) ms) n" for ms
    by (induction ms) auto
  moreover have "map_of (rev xs) n = map_of xs n" if "distinct (map fst xs)" for xs :: "(string \<times> rat) list"
    using that map_of_inject_set [of "rev xs" xs] by (simp add: rev_map [symmetric])
  note this [of "map (\<lambda>m. (em_metric_name m, em_metric_value m)) (er_metrics r)"]
  ultimately show ?thesis using assms by (simp add: metric_value_of_def final_value_def comp_def)
qed

lemma metric_names_value: "n \<in> set (metric_names r) \<longleftrightarrow> final_value r n \<noteq> None"
  by (auto simp: metric_names_def final_value_def map_of_eq_None_iff image_iff)

lemma outcome_of_iff:
  "outcome_of b c m = Inr ''NEW'' \<longleftrightarrow> mc_baseline_value m = None"
  "outcome_of b c m = Inr ''REMOVED'' \<longleftrightarrow> mc_baseline_value m \<noteq> None \<and> mc_candidate_value m = None"
  "outcome_of b c m = Inr ''UNCHANGED'' \<longleftrightarrow>
     mc_baseline_value m \<noteq> None \<and> mc_candidate_value m \<noteq> None \<and> score_difference m = Some 0"
proof -
  have "outcome_of b c m = Inr v \<Longrightarrow> mc_baseline_value m \<noteq> None \<Longrightarrow> mc_candidate_value m \<noteq> None \<Longrightarrow>
      score_difference m \<noteq> Some 0 \<Longrightarrow> v \<in> {''UNKNOWN'', ''IMPROVED'', ''REGRESSED''}" for v
    by (simp add: outcome_of_def res_bind_Inr_iff split: if_splits) auto
  from this [of "''NEW''"] this [of "''REMOVED''"] this [of "''UNCHANGED''"] show
    "outcome_of b c m = Inr ''NEW'' \<longleftrightarrow> mc_baseline_value m = None"
    "outcome_of b c m = Inr ''REMOVED'' \<longleftrightarrow> mc_baseline_value m \<noteq> None \<and> mc_candidate_value m = None"
    "outcome_of b c m = Inr ''UNCHANGED'' \<longleftrightarrow>
       mc_baseline_value m \<noteq> None \<and> mc_candidate_value m \<noteq> None \<and> score_difference m = Some 0"
    by (auto simp: outcome_of_def)
qed

lemma length_filter_names:
  assumes "distinct xs" "distinct ys" "set ys = {n \<in> set xs. P n}"
  shows "length (filter P xs) = length ys"
  using assms by (metis (no_types, lifting) Collect_cong distinct_card distinct_filter set_filter)

text \<open>
  C31. The comparison summary and the drift of a replay result are computed by two separate routines, and on
  evaluations whose metrics have distinct names and float values they agree whenever the comparison
  succeeds: the summary counts as many new and as many removed metrics as the drift lists, and every
  metric is counted once, as unchanged by the summary, as changed by the drift, as new or as removed.
  Floats do not blur this: the difference of two distinct floats is never rounded to zero.
\<close>

theorem comparison_agrees_with_drift:
  assumes "distinct (map em_metric_name (er_metrics b))" "distinct (map em_metric_name (er_metrics c))"
    and "list_all (\<lambda>m. is_float (em_metric_value m)) (er_metrics b @ er_metrics c)"
    and "compare_evaluations source target b c = Inr cmp" "summary_of cmp b c = Inr s"
  shows "cs_new_metric_count s = int (length (dr_new_metrics (analyze_drift b c)))
    \<and> cs_removed_metric_count s = int (length (dr_removed_metrics (analyze_drift b c)))
    \<and> cs_metric_count s = cs_unchanged_metric_count s + int (length (dr_changed_metrics (analyze_drift b c)))
        + cs_new_metric_count s + cs_removed_metric_count s"
proof -
  let ?d = "analyze_drift b c"
  let ?U = "sort (remdups (metric_names b @ metric_names c))"
  let ?cmp = "\<lambda>n. \<lparr>mc_metric_name = n, mc_baseline_value = final_value b n, mc_candidate_value = final_value c n\<rparr>"
  have U: "distinct ?U" "set ?U = {n. final_value b n \<noteq> None \<or> final_value c n \<noteq> None}"
    by (auto simp: metric_names_value)
  have cmp: "vc_metric_comparisons cmp = map ?cmp ?U"
    using assms(4) distinct_values [OF assms(1)] distinct_values [OF assms(2)]
    by (auto simp: compare_evaluations_def split: if_splits)
  have zero: "score_difference (?cmp n) = Some 0 \<longleftrightarrow> final_value b n \<noteq> None \<and> final_value c n = final_value b n" for n
  proof -
    have "is_float x" if "final_value r n = Some x" "r = b \<or> r = c" for r x
      using that assms(3) by (auto simp: final_value_def list_all_iff dest!: map_of_SomeD)
    then show ?thesis
      by (auto simp: score_difference_def float_sub_eq_0 split: option.splits)
  qed
  have count: "int (length (filter (\<lambda>y. y = v) ys)) = int (length (filter (\<lambda>n. outcome_of b c (?cmp n) = Inr v) ?U))"
    if "map_res (outcome_of b c) (vc_metric_comparisons cmp) = Inr ys" for ys v
    using map_res_count [OF that] by (simp add: cmp filter_map comp_def)
  from assms(5) obtain ys where ys: "map_res (outcome_of b c) (vc_metric_comparisons cmp) = Inr ys"
    and s: "cs_metric_count s = int (length ?U)" "cs_new_metric_count s = int (length (filter (\<lambda>y. y = ''NEW'') ys))"
      "cs_removed_metric_count s = int (length (filter (\<lambda>y. y = ''REMOVED'') ys))"
      "cs_unchanged_metric_count s = int (length (filter (\<lambda>y. y = ''UNCHANGED'') ys))"
    by (auto simp: summary_of_def res_bind_Inr_iff Let_def cmp)
  note nb = names_of [OF metric_values_ok, of "er_metrics b" "metric_values (er_metrics c)"]
    and nc = names_of [OF metric_values_ok, of "er_metrics c" "metric_values (er_metrics b)"]
  have new: "length (filter (\<lambda>n. final_value b n = None) ?U) = length (dr_new_metrics ?d)"
    by (subst length_filter_names [OF U(1) nc(4)]) (use nc U(2) in \<open>auto simp: metric_values_get analyze_drift_def Let_def\<close>)
  have removed: "length (filter (\<lambda>n. final_value b n \<noteq> None \<and> final_value c n = None) ?U) = length (dr_removed_metrics ?d)"
    by (subst length_filter_names [OF U(1) nb(4)]) (use nb U(2) in \<open>auto simp: metric_values_get analyze_drift_def Let_def\<close>)
  have changed: "length (filter (\<lambda>n. final_value b n \<noteq> None \<and> final_value c n \<noteq> None \<and> final_value c n \<noteq> final_value b n) ?U)
      = length (dr_changed_metrics ?d)"
    by (subst length_filter_names [OF U(1), where ys = "filter (\<lambda>n. final_value b n \<noteq> final_value c n)
          (shared_names (metric_values (er_metrics b)) (metric_values (er_metrics c)))"])
      (use nb U(2) in \<open>auto simp: metric_values_get analyze_drift_def Let_def changed_comparisons_def\<close>)
  have split: "length xs = length (filter (\<lambda>n. P n \<noteq> None \<and> Q n \<noteq> None \<and> Q n = P n) xs)
      + length (filter (\<lambda>n. P n \<noteq> None \<and> Q n \<noteq> None \<and> Q n \<noteq> P n) xs)
      + length (filter (\<lambda>n. P n = None) xs) + length (filter (\<lambda>n. P n \<noteq> None \<and> Q n = None) xs)"
    for P Q :: "string \<Rightarrow> rat option" and xs by (induction xs) auto
  show ?thesis
    using count [OF ys] s split [of ?U "final_value b" "final_value c"] new removed changed
    by (simp add: outcome_of_iff zero) (simp add: conj_comms cong: conj_cong)
qed

end
