(* ===== verification/Replay_Evaluation.thy ===== *)
theory Replay_Evaluation
  imports Drift Replay_Commands
begin

text \<open>
  \<open>services/replay_evaluation.py\<close>: the handler of an evaluation job. It turns an executed replay
  into an evaluation, a comparison with a baseline, a drift and one final result. Every stage
  records its identifier on the replay before the next one begins, so that a job that is delivered
  again continues where the last delivery stopped.
\<close>

section \<open>What the job asks for\<close>

text \<open>
  The worker's own provider installations, and \<open>float\<close> of a text, which it applies to the numbers of
  a metric specification.
\<close>

record evaluation_worker =
  ew_env :: evaluation_env
  ew_installations :: "(string \<Rightarrow> tenant_context \<Rightarrow> exc + string \<times> (string \<times> pyval) list) option"
  ew_float :: "string \<Rightarrow> rat option"

text \<open>\<open>str(refs.get(key, otherwise))\<close>.\<close>

definition ref_text :: "(rat \<Rightarrow> string) \<Rightarrow> (string \<times> pyval) list \<Rightarrow> string \<Rightarrow> string \<Rightarrow> string" where
  "ref_text fr refs key otherwise = opt_or (str_item fr refs key) otherwise"

text \<open>\<open>dict(v)\<close>: a mapping, or a sequence of pairs. Keys that are no strings are left out.\<close>

definition wrong_length :: "nat \<Rightarrow> nat \<Rightarrow> exc" where
  "wrong_length i n = Exc ValueError
     (''dictionary update sequence element #'' @ py_str_int (int i) @ '' has length '' @ py_str_int (int n) @ ''; 2 is required'')"

definition pair_of :: "nat \<Rightarrow> pyval \<Rightarrow> exc + string \<times> pyval" where
  "pair_of i v =
     (case v of
        PList [PStr k, x] \<Rightarrow> Inr (k, x)
      | PList [x, _] \<Rightarrow> Inl (Exc TypeError (''unhashable type: '' @ quoted (type_name x)))
      | PList xs \<Rightarrow> Inl (wrong_length i (length xs))
      | PStr [a, b] \<Rightarrow> Inr ([a], PStr [b])
      | PStr t \<Rightarrow> Inl (wrong_length i (length t))
      | PDict [(a, _), (b, _)] \<Rightarrow> Inr (a, PStr b)
      | PDict d \<Rightarrow> Inl (wrong_length i (length d))
      | _ \<Rightarrow> Inl (Exc TypeError (''cannot convert dictionary update sequence element #'' @ py_str_int (int i) @ '' to a sequence'')))"

definition py_dict :: "pyval \<Rightarrow> exc + (string \<times> pyval) list" where
  "py_dict v =
     (case v of
        PDict d \<Rightarrow> Inr d
      | PList xs \<Rightarrow> res_bind (map_res (\<lambda>(i, x). pair_of i x) (enumerate 0 xs)) (\<lambda>d. Inr (dict_merge [] d))
      | PStr t \<Rightarrow> if t = [] then Inr [] else Inl (wrong_length 0 1)
      | _ \<Rightarrow> Inl (Exc TypeError (quoted (type_name v) @ '' object is not iterable'')))"

definition py_float :: "(string \<Rightarrow> rat option) \<Rightarrow> pyval \<Rightarrow> exc + rat" where
  "py_float parse v =
     (case v of
        PFloat x \<Rightarrow> Inr x
      | PInt i \<Rightarrow> Inr (binary64 (of_int i))
      | PBool b \<Rightarrow> Inr (if b then 1 else 0)
      | PStr t \<Rightarrow> (case parse t of Some x \<Rightarrow> Inr x
          | None \<Rightarrow> Inl (Exc ValueError (''could not convert string to float: '' @ quoted t)))
      | _ \<Rightarrow> Inl (Exc TypeError (''float() argument must be a string or a real number, not '' @ quoted (type_name v))))"

definition optional_float :: "(string \<Rightarrow> rat option) \<Rightarrow> pyval \<Rightarrow> exc + rat option" where
  "optional_float parse v = (if v = PNone then Inr None else res_bind (py_float parse v) (\<lambda>x. Inr (Some x)))"

definition metric_spec_of :: "(rat \<Rightarrow> string) \<Rightarrow> (string \<Rightarrow> rat option) \<Rightarrow> pyval \<Rightarrow> exc + metric_spec" where
  "metric_spec_of fr parse v =
     (case v of
        PDict d \<Rightarrow>
          res_bind (optional_float parse (pget d ''threshold'')) (\<lambda>threshold.
          res_bind (optional_float parse (pget d ''weight'')) (\<lambda>weight.
          res_bind (if pv_truthy (pget d ''metadata'') then py_dict (pget d ''metadata'') else Inr []) (\<lambda>metadata.
          Inr (new_metric_spec \<lparr>ms_name = text_of fr [pget d ''name''],
            ms_description = (if pget d ''description'' = PNone then None else Some (py_str fr (pget d ''description''))),
            ms_threshold = threshold, ms_weight = weight, ms_metadata = metadata\<rparr>))))
      | _ \<Rightarrow> Inl (Exc TypeError ''Replay evaluation metric_specs entries must be objects.''))"

definition metric_specs_of :: "(rat \<Rightarrow> string) \<Rightarrow> (string \<Rightarrow> rat option) \<Rightarrow> pyval \<Rightarrow> exc + metric_spec list" where
  "metric_specs_of fr parse v =
     (case v of PNone \<Rightarrow> Inr []
      | PList xs \<Rightarrow> map_res (metric_spec_of fr parse) xs
      | _ \<Rightarrow> Inl (Exc TypeError ''Replay evaluation metric_specs must be a list.''))"

definition provider_choice :: "evaluation_worker \<Rightarrow> job \<Rightarrow> tenant_context \<Rightarrow> exc + string \<times> (string \<times> pyval) list" where
  "provider_choice w j cx =
     (let fr = ve_fr (ew_env w); provider = ref_text fr (jb_input_refs j) ''evaluation_provider'' [];
          installation = pget (jb_input_refs j) ''provider_installation_id'' in
      if provider = [] then Inl (Exc ValueError ''Replay evaluation provider is required.'')
      else if \<not> pv_truthy installation then Inr (provider, [])
      else case ew_installations w of
        None \<Rightarrow> Inl (Exc ValueError ''Provider installations are unavailable in this worker.'')
      | Some resolve \<Rightarrow>
          res_bind (resolve (py_str fr installation) cx) (\<lambda>(type, config).
          checked [(type \<noteq> provider, Exc ValueError ''Replay provider installation no longer matches its selected type.'')]
            (provider, config)))"

section \<open>Updates of the replay\<close>

record evaluation_fresh =
  ef_evaluating :: datetime
  ef_evaluated :: datetime
  ef_recorded :: datetime
  ef_listed :: datetime
  ef_resolved :: datetime
  ef_baseline :: datetime
  ef_comparing :: datetime
  ef_compared :: datetime
  ef_drift :: datetime
  ef_result_id :: string
  ef_generated_id :: string
  ef_created :: datetime
  ef_completed :: datetime
  ef_cancelled :: datetime
  ef_occurred :: datetime
  ef_failed :: datetime

abbreviation on_system :: "(replay_system, 'a) action \<Rightarrow> (evaluation_system, 'a) action" where
  "on_system \<equiv> act_on vs_replay (\<lambda>t s. s\<lparr>vs_replay := t\<rparr>)"

text \<open>\<open>replay = self._replays.update(replay.transition(...), replay.version)\<close>.\<close>

definition advance :: "(replay \<Rightarrow> exc + replay) \<Rightarrow> replay \<Rightarrow> (evaluation_system, replay) action" where
  "advance f r =
     act_bind (act_lift (f r)) (\<lambda>q. on_system (on_replays (save_replay q (Some (rp_version r)))))"

definition no_results :: "string \<Rightarrow> exc" where
  "no_results method = Exc (OtherError ''AttributeError'')
     (quoted ''NoneType'' @ '' object has no attribute '' @ quoted method)"

definition stored_result :: "string \<Rightarrow> tenant_context \<Rightarrow> (evaluation_system, replay_result option) action" where
  "stored_result replay_id cx s =
     (case rs_results (vs_replay s) of
        None \<Rightarrow> (Inl (no_results ''get_by_replay''), s)
      | Some u \<Rightarrow> (Inr (get_result_by_replay u replay_id (cx_organization_id cx) (cx_project cx)), s))"

definition store_result :: "replay_result \<Rightarrow> (evaluation_system, replay_result) action" where
  "store_result x s =
     (case rs_results (vs_replay s) of
        None \<Rightarrow> (Inl (no_results ''save''), s)
      | Some u \<Rightarrow> (let (y, t) = save_result x u in (y, s\<lparr>vs_replay := (vs_replay s)\<lparr>rs_results := Some t\<rparr>\<rparr>)))"

definition cancel_evaluation :: "evaluation_fresh \<Rightarrow> job \<Rightarrow> replay \<Rightarrow> (evaluation_system, job_result) action" where
  "cancel_evaluation fresh j r =
     act_bind (advance (mark_cancelled (ef_cancelled fresh)) r) (\<lambda>_.
     act_return (cancelled_result j ''Replay cancellation requested.''))"

definition evaluation_failure_stage :: "replay \<Rightarrow> exc \<Rightarrow> failure_stage" where
  "evaluation_failure_stage r e =
     (if exc_kind e = ReplayBaselineUnavailable then FS_BASELINE_RESOLUTION
      else if rp_replay_evaluation_id r = None then FS_EVALUATION else FS_COMPARISON)"

definition fail_evaluation :: "evaluation_fresh \<Rightarrow> job \<Rightarrow> replay \<Rightarrow> exc \<Rightarrow> (evaluation_system, job_result) action" where
  "fail_evaluation fresh j r e =
     (if rp_status r \<notin> {RPS_EXECUTION_COMPLETED, RPS_EVALUATING, RPS_COMPARING} then act_return (failed_result j (exc_message e))
      else
        act_bind (act_lift (new_failure
          \<lparr>ry_code = class_name (exc_kind e), ry_message = exc_message e, ry_stage = evaluation_failure_stage r e,
           ry_details = [(''job_id'', PStr (jb_job_id j)), (''retryable'', PBool (exc_kind e \<noteq> ReplayBaselineUnavailable))],
           ry_occurred_at = ef_occurred fresh\<rparr>)) (\<lambda>failure.
        act_bind (advance (mark_execution_failed failure (ef_failed fresh)) r) (\<lambda>_.
        act_return (failed_result j (exc_message e)))))"

section \<open>The stages\<close>

definition begin_evaluation :: "evaluation_fresh \<Rightarrow> job \<Rightarrow> replay \<Rightarrow> (evaluation_system, replay) action" where
  "begin_evaluation fresh j r =
     (if rp_status r = RPS_EXECUTION_COMPLETED then advance (mark_evaluating (jb_job_id j) (ef_evaluating fresh)) r
      else act_return r)"

definition produce_evaluation ::
  "evaluation_worker \<Rightarrow> evaluation_fresh \<Rightarrow> job \<Rightarrow> tenant_context \<Rightarrow> replay
     \<Rightarrow> (evaluation_system, evaluation_result \<times> replay) action" where
  "produce_evaluation w fresh j cx r s =
     (let E = rs_executions (vs_replay s) in
      case (get_source_execution E (rp_source_execution_id r) cx,
            get_source_execution E (opt_or (rp_replay_execution_id r) []) cx) of
        (Some _, Some x) \<Rightarrow>
          act_bind (act_lift (provider_choice w j cx)) (\<lambda>(provider, config).
          if truthy (rp_replay_evaluation_id r)
          then act_bind (act_lift (get_evaluation (vs_evaluations s) (the (rp_replay_evaluation_id r)) (Some cx))) (\<lambda>e.
               act_return (e, r))
          else
            act_bind (act_lift (metric_specs_of (ve_fr (ew_env w)) (ew_float w) (pget (jb_input_refs j) ''metric_specs''))) (\<lambda>specs.
            act_bind (submit_evaluation (ew_env w) (ef_evaluated fresh) x (Some provider) specs config None (Some cx)) (\<lambda>e.
            act_bind (advance (record_replay_evaluation (er_evaluation_id e) (ef_recorded fresh)) r) (\<lambda>r'.
            act_return (e, r'))))) s
      | _ \<Rightarrow> (Inl (Exc ValueError ''Replay source or produced execution is unavailable.''), s))"

definition choose_baseline ::
  "evaluation_worker \<Rightarrow> evaluation_fresh \<Rightarrow> job \<Rightarrow> tenant_context \<Rightarrow> evaluation_result \<Rightarrow> replay
     \<Rightarrow> (evaluation_system, baseline_resolution \<times> replay) action" where
  "choose_baseline w fresh j cx e r s =
     (let fr = ve_fr (ew_env w); explicit = pget (jb_input_refs j) ''explicit_baseline_evaluation_id'';
          resolve = resolve_baseline (ew_env w) (ef_listed fresh) (ef_resolved fresh) (vs_evaluations s) (rp_source_execution_id r) e in
      if truthy (rp_baseline_evaluation_id r)
      then act_bind (act_lift (get_evaluation (vs_evaluations s) (the (rp_baseline_evaluation_id r)) (Some cx))) (\<lambda>b.
           act_bind (act_lift (resolve ''EXPLICIT'' (Some (er_evaluation_id b)) cx)) (\<lambda>d.
           act_return (d, r))) s
      else act_bind (act_lift (resolve (ref_text fr (jb_input_refs j) ''baseline_strategy'' ''LATEST_COMPATIBLE'')
             (if pv_truthy explicit then Some (py_str fr explicit) else None) cx)) (\<lambda>d.
           act_bind (advance (record_baseline_evaluation (er_evaluation_id (br_evaluation d)) (ef_baseline fresh)) r) (\<lambda>r'.
           act_return (d, r'))) s)"

definition begin_comparison :: "evaluation_fresh \<Rightarrow> replay \<Rightarrow> (evaluation_system, replay) action" where
  "begin_comparison fresh r =
     (if rp_status r = RPS_EVALUATING then advance (mark_comparing (ef_comparing fresh)) r else act_return r)"

definition compare_replay ::
  "evaluation_fresh \<Rightarrow> baseline_resolution \<Rightarrow> evaluation_result \<Rightarrow> replay
     \<Rightarrow> (evaluation_system, evaluation_comparison \<times> replay) action" where
  "compare_replay fresh d e r =
     act_bind (act_lift (compare_evaluations (rp_source_execution_id r) (opt_or (rp_replay_execution_id r) [])
       (br_evaluation d) e)) (\<lambda>comparison.
     act_bind (if rp_comparison_id r = None
       then advance (record_comparison (''replay-comparison:'' @ rp_replay_id r) (ef_compared fresh)) r
       else act_return r) (\<lambda>r'.
     act_return (comparison, r')))"

definition measure_drift ::
  "evaluation_fresh \<Rightarrow> job \<Rightarrow> baseline_resolution \<Rightarrow> evaluation_result \<Rightarrow> replay
     \<Rightarrow> (evaluation_system, drift_summary \<times> replay) action" where
  "measure_drift fresh j d e r =
     act_bind (act_lift (py_dict (opt_or (map_of (jb_input_refs j) ''drift_threshold_policy'') (PDict [])))) (\<lambda>policy.
     act_bind (if rp_drift_id r = None
       then advance (record_drift (''replay-drift:'' @ rp_replay_id r) (ef_drift fresh)) r
       else act_return r) (\<lambda>r'.
     act_return (snd (analyze_replay_drift (br_evaluation d) e policy), r')))"

definition conclude_replay ::
  "evaluation_fresh \<Rightarrow> job \<Rightarrow> tenant_context \<Rightarrow> baseline_resolution \<Rightarrow> evaluation_result \<Rightarrow> evaluation_comparison
     \<Rightarrow> drift_summary \<Rightarrow> replay \<Rightarrow> (evaluation_system, job_result) action" where
  "conclude_replay fresh j cx d e comparison drift r =
     act_bind (stored_result (rp_replay_id r) cx) (\<lambda>existing.
     act_bind (act_lift (case existing of Some x \<Rightarrow> Inr x
       | None \<Rightarrow> res_bind (summary_of comparison (br_evaluation d) e) (\<lambda>summary.
           make_replay_result (if truthy (rp_result_id r) then the (rp_result_id r) else ef_result_id fresh) (ef_generated_id fresh) (ef_created fresh)
             r d (opt_or (rp_comparison_id r) []) (opt_or (rp_drift_id r) []) summary drift))) (\<lambda>x.
     act_bind (store_result x) (\<lambda>y.
     act_bind (if rp_status r = RPS_COMPLETED then act_return r
       else advance (replay_mark_completed (rt_result_id y) (ef_completed fresh)) r) (\<lambda>_.
     act_return (succeeded_result j (''replay_result:'' @ rt_result_id y))))))"

text \<open>
  From the evaluation on. An exception of a stage is handled with the replay as the last update left
  it.
\<close>

definition govern_evaluation ::
  "evaluation_worker \<Rightarrow> evaluation_fresh \<Rightarrow> job \<Rightarrow> tenant_context \<Rightarrow> evaluation_result \<Rightarrow> replay
     \<Rightarrow> (evaluation_system, job_result) action" where
  "govern_evaluation w fresh j cx e r2 =
     act_try (choose_baseline w fresh j cx e r2) (fail_evaluation fresh j r2) (\<lambda>(d, r3).
     act_try (begin_comparison fresh r3) (fail_evaluation fresh j r3) (\<lambda>r4.
     act_try (compare_replay fresh d e r4) (fail_evaluation fresh j r4) (\<lambda>(comparison, r5).
     act_try (measure_drift fresh j d e r5) (fail_evaluation fresh j r5) (\<lambda>(drift, r6).
     act_try (conclude_replay fresh j cx d e comparison drift r6) (fail_evaluation fresh j r6) act_return))))"

definition run_evaluation ::
  "evaluation_worker \<Rightarrow> evaluation_fresh \<Rightarrow> job \<Rightarrow> tenant_context \<Rightarrow> replay \<Rightarrow> (evaluation_system, job_result) action" where
  "run_evaluation w fresh j cx r =
     act_try (begin_evaluation fresh j r) (fail_evaluation fresh j r) (\<lambda>r1.
     if rp_status r1 \<notin> {RPS_EVALUATING, RPS_COMPARING}
     then act_return (failed_result j (''Replay cannot be evaluated from '' @ replay_status_value (rp_status r1) @ ''.''))
     else if rp_cancel_requested_at r1 \<noteq> None
     then act_try (cancel_evaluation fresh j r1) (fail_evaluation fresh j r1) act_return
     else act_try (produce_evaluation w fresh j cx r1) (fail_evaluation fresh j r1) (\<lambda>(e, r2).
       if rp_cancel_requested_at r2 \<noteq> None
       then act_try (cancel_evaluation fresh j r2) (fail_evaluation fresh j r2) act_return
       else govern_evaluation w fresh j cx e r2))"

definition handle_evaluation :: "evaluation_worker \<Rightarrow> evaluation_fresh \<Rightarrow> job \<Rightarrow> (evaluation_system, job_result) action" where
  "handle_evaluation w fresh j s =
     act_bind (act_lift (job_tenant (Exc ValueError ''Replay evaluation job is missing execution context.'') j)) (\<lambda>cx.
     case get_replay (rs_replays (vs_replay s)) (ref_text (ve_fr (ew_env w)) (jb_input_refs j) ''replay_id'' [])
            (cx_organization_id cx) (cx_project cx) of
       None \<Rightarrow> act_return (failed_result j ''Replay evaluation linkage is invalid.'')
     | Some r \<Rightarrow>
       if rp_evaluation_job_id r \<noteq> Some (jb_job_id j) then act_return (failed_result j ''Replay evaluation linkage is invalid.'')
       else if rp_status r = RPS_COMPLETED \<and> truthy (rp_result_id r)
       then act_return (succeeded_result j (''replay_result:'' @ the (rp_result_id r)))
       else if rp_status r \<in> {RPS_CANCELLED, RPS_ARCHIVED}
       then act_return (cancelled_result j ''Replay is cancelled or archived.'')
       else run_evaluation w fresh j cx r) s"

end
