(* ===== verification/Evaluation_System.thy ===== *)
theory Evaluation_System
  imports Replay_Evaluation
begin

text \<open>
  The evaluation worker among all other commands. The state adds the evaluations, which are only ever
  appended. Every stored result is explained by two stored evaluations, and a replay is completed only
  by such a result; both hold in every state that commands and workers reach, with the providers and
  the adapters running any of them meanwhile.
\<close>

section \<open>Evaluations that are read\<close>

lemma first_max_in: "first_max f x xs \<in> set (x # xs)"
  by (induction f x xs rule: first_max.induct) auto

lemma first_max_ge: "y \<in> set (x # xs) \<Longrightarrow> f y \<le> f (first_max f x xs)"
proof (induction f x xs arbitrary: y rule: first_max.induct)
  case (2 f x z zs)
  have "f y \<le> f (if f x < f z then z else x) \<or> y \<in> set zs" using 2(2) by auto
  with 2(1) [of "if f x < f z then z else x"] 2(1) [of y] show ?case by (auto intro: order_trans)
qed simp

lemma get_evaluation_Inr:
  assumes "get_evaluation V i cx = Inr e"
  shows "e \<in> set V" "er_evaluation_id e = i" "evaluation_in_context e cx" "find_by_evaluation_id V i = Some e"
  using assms by (auto simp: get_evaluation_def find_by_evaluation_id_def find_Some_iff split: option.splits if_splits)

lemma get_history_Inr:
  assumes "get_history env now V i cx = Inr es" "e \<in> set es"
  shows "e \<in> set V \<and> er_execution_id e = i \<and> evaluation_in_context e cx"
  using assms by (auto simp: get_history_def find_by_execution_id_def Let_def res_bind_Inr_iff split: option.splits)

lemma if_Inl_Inr: "(if c then Inl a else m) = Inr x \<Longrightarrow> m = Inr x"
  by (simp split: if_splits)

text \<open>The strategies other than EXPLICIT choose from the history of the source.\<close>

definition baseline_candidates :: "string \<Rightarrow> evaluation_result list \<Rightarrow> evaluation_result list" where
  "baseline_candidates strategy es =
     (let primary = filter (\<lambda>r. pget (er_metadata r) ''primary'' = PBool True) es in
      if strategy = ''SOURCE_PRIMARY'' \<and> primary \<noteq> [] then primary else es)"

lemma resolve_baseline_history:
  assumes "resolve_baseline env now resolved V i e strategy explicit cx = Inr d" "py_upper strategy \<noteq> ''EXPLICIT''"
  obtains es r rs where "get_history env now V i (Some cx) = Inr es"
    "filter (\<lambda>r. compatible r e) (baseline_candidates (py_upper strategy) es) = r # rs"
    "br_evaluation d = first_max (\<lambda>x. (micros (er_created_at x), er_evaluation_id x)) r rs"
proof -
  let ?pick = "\<lambda>es. case filter (\<lambda>r. compatible r e) (baseline_candidates (py_upper strategy) es) of
           [] \<Rightarrow> Inl (unavailable ''No compatible source evaluation is available.'')
         | r # rs \<Rightarrow> Inr (resolution_of resolved (first_max (\<lambda>x. (micros (er_created_at x), er_evaluation_id x)) r rs)
             (py_upper strategy) e)"
  have "res_bind (get_history env now V i (Some cx)) ?pick = Inr d"
    using assms(1) unfolding resolve_baseline_def baseline_candidates_def Let_def if_not_P [OF assms(2)] by (rule if_Inl_Inr)
  then obtain es where es: "get_history env now V i (Some cx) = Inr es" and pick: "?pick es = Inr d"
    unfolding res_bind_Inr_iff by blast
  then obtain r rs where cand: "filter (\<lambda>r. compatible r e) (baseline_candidates (py_upper strategy) es) = r # rs"
    by (cases "filter (\<lambda>r. compatible r e) (baseline_candidates (py_upper strategy) es)") simp_all
  have "br_evaluation d = first_max (\<lambda>x. (micros (er_created_at x), er_evaluation_id x)) r rs"
    using pick unfolding cand by (auto simp: resolution_of_def)
  with es cand that show ?thesis by blast
qed

lemma resolve_baseline_Inr:
  assumes "resolve_baseline env now resolved V i e strategy explicit cx = Inr d"
  shows "br_evaluation d \<in> set V" "er_execution_id (br_evaluation d) = i"
    "evaluation_in_context (br_evaluation d) (Some cx)" "compatible (br_evaluation d) e"
    "py_upper strategy = ''EXPLICIT'' \<Longrightarrow> explicit = Some (er_evaluation_id (br_evaluation d))"
proof -
  have "br_evaluation d \<in> set V \<and> er_execution_id (br_evaluation d) = i \<and> evaluation_in_context (br_evaluation d) (Some cx)
    \<and> compatible (br_evaluation d) e
    \<and> (py_upper strategy = ''EXPLICIT'' \<longrightarrow> explicit = Some (er_evaluation_id (br_evaluation d)))"
  proof (cases "py_upper strategy = ''EXPLICIT''")
    case True
    with assms obtain c where "truthy explicit" and c: "get_evaluation V (the explicit) (Some cx) = Inr c"
      and d: "br_evaluation d = c" "er_execution_id c = i" "compatible c e"
      by (auto simp: resolve_baseline_def Let_def res_bind_Inr_iff resolution_of_def split: if_splits)
    with get_evaluation_Inr [OF c] show ?thesis by (auto simp: truthy_def split: option.splits)
  next
    case False
    from resolve_baseline_history [OF assms False] obtain es r rs where es: "get_history env now V i (Some cx) = Inr es"
      and cand: "filter (\<lambda>r. compatible r e) (baseline_candidates (py_upper strategy) es) = r # rs"
      and d: "br_evaluation d = first_max (\<lambda>x. (micros (er_created_at x), er_evaluation_id x)) r rs" by blast
    have "br_evaluation d \<in> set (filter (\<lambda>r. compatible r e) (baseline_candidates (py_upper strategy) es))"
      unfolding cand d by (rule first_max_in)
    then have "br_evaluation d \<in> set es" "compatible (br_evaluation d) e"
      by (auto simp: baseline_candidates_def Let_def split: if_splits)
    then show ?thesis using get_history_Inr [OF es] False by auto
  qed
  then show "br_evaluation d \<in> set V" "er_execution_id (br_evaluation d) = i"
    "evaluation_in_context (br_evaluation d) (Some cx)" "compatible (br_evaluation d) e"
    "py_upper strategy = ''EXPLICIT'' \<Longrightarrow> explicit = Some (er_evaluation_id (br_evaluation d))" by blast+
qed

section \<open>Moves\<close>

text \<open>
  A result is explained by a baseline and an evaluation of the replay that are stored in its tenant:
  the baseline belongs to the source execution, the evaluation to the execution the replay produced,
  both come from the same evaluator, and the result holds their comparison and their drift.
\<close>

definition in_tenant :: "evaluation_result \<Rightarrow> string \<Rightarrow> string \<Rightarrow> bool" where
  "in_tenant e organization_id project_id = (er_organization_id e = organization_id \<and> er_project_id e = project_id)"

definition explained :: "evaluation_repo \<Rightarrow> replay_result \<Rightarrow> bool" where
  "explained V x =
     (\<exists>b \<in> set V. \<exists>e \<in> set V. \<exists>comparison policy.
        er_evaluation_id b = rt_baseline_evaluation_id x \<and> er_evaluation_id e = rt_replay_evaluation_id x
        \<and> in_tenant b (rt_organization_id x) (rt_project_id x) \<and> in_tenant e (rt_organization_id x) (rt_project_id x)
        \<and> er_execution_id b = rt_source_execution_id x \<and> er_execution_id e = rt_replay_execution_id x \<and> compatible b e
        \<and> compare_evaluations (rt_source_execution_id x) (rt_replay_execution_id x) b e = Inr comparison
        \<and> summary_of comparison b e = Inr (rt_comparison_summary x)
        \<and> rt_drift_summary x = snd (analyze_replay_drift b e policy))"

lemma explained_mono: "explained V x \<Longrightarrow> set V \<subseteq> set W \<Longrightarrow> explained W x"
  unfolding explained_def by blast

inductive evaluation_move :: "evaluation_system \<Rightarrow> evaluation_system \<Rightarrow> bool" where
  system: "replay_move (explained (vs_evaluations s)) (vs_replay s) t \<Longrightarrow> evaluation_move s (s\<lparr>vs_replay := t\<rparr>)"
| evaluated: "evaluation_move s (s\<lparr>vs_evaluations := vs_evaluations s @ [e]\<rparr>)"

definition evaluation_inv :: "evaluation_system \<Rightarrow> bool" where
  "evaluation_inv s =
     (replay_system_inv (vs_replay s)
      \<and> (\<forall>u i x. rs_results (vs_replay s) = Some u \<longrightarrow> dict_get u i = Some x \<longrightarrow> explained (vs_evaluations s) x))"

lemma replay_move_results:
  assumes "replay_move A s t" "rs_results t = Some v" "dict_get v i = Some x"
  shows "A x \<or> (\<exists>u. rs_results s = Some u \<and> dict_get u i = Some x)"
  using assms
proof (induction rule: replay_move.induct)
  case (results s u x' y t' j r)
  from results(2) show ?case
    by (cases rule: save_result_cases) (use results in \<open>auto simp: dict_get_put split: if_splits\<close>)
qed auto

interpretation evaluations: evolving_store evaluation_move "\<lambda>s. dict_get (rs_replays (vs_replay s))" succeeds evaluation_inv
proof
  show "succeeds a c" if "succeeds a b" "succeeds b c" for a b c
    using that by (rule system_replays.keeps_trans)
  show "evaluation_inv t" if "evaluation_inv s" "evaluation_move s t" for s t
    using that(2,1)
  proof (induction rule: evaluation_move.induct)
    case (system s t)
    have "explained (vs_evaluations s) x" if "rs_results t = Some v" "dict_get v i = Some x" for v i x
      using replay_move_results [OF system(1) that] system(2) unfolding evaluation_inv_def by blast
    then show ?case using system(2) system_replays.inv_step [OF _ system(1)] by (simp add: evaluation_inv_def)
  next
    case (evaluated s e)
    then show ?case using explained_mono [of "vs_evaluations s" _ "vs_evaluations s @ [e]"] by (auto simp: evaluation_inv_def)
  qed
  show "\<exists>q. dict_get (rs_replays (vs_replay t)) i = Some q \<and> succeeds r q"
    if "evaluation_inv s" "evaluation_move s t" "dict_get (rs_replays (vs_replay s)) i = Some r" for s t i r
    using that(2,1,3)
  proof (induction rule: evaluation_move.induct)
    case (system s t)
    then show ?case using system_replays.lookup_step [OF _ system(1)] by (simp add: evaluation_inv_def)
  qed (simp add: succeeds_refl)
qed (rule succeeds_refl)

lemma evaluations_grow: "evaluation_move\<^sup>*\<^sup>* s t \<Longrightarrow> set (vs_evaluations s) \<subseteq> set (vs_evaluations t)"
proof (induction rule: rtranclp_induct)
  case (step t u)
  from step(2,3) show ?case by (cases rule: evaluation_move.cases) auto
qed simp

lemma system_moves:
  "(replay_move (explained (vs_evaluations s)))\<^sup>*\<^sup>* (vs_replay s) t \<Longrightarrow> evaluation_move\<^sup>*\<^sup>* s (s\<lparr>vs_replay := t\<rparr>)"
proof (induction rule: rtranclp_induct)
  case (step t u)
  then show ?case using evaluation_move.system [of "s\<lparr>vs_replay := t\<rparr>" u] by (auto intro: rtranclp.rtrancl_into_rtrancl)
qed simp

lemma on_system_within:
  assumes "act_within (replay_move (explained (vs_evaluations s))) m (vs_replay s)"
  shows "act_within evaluation_move (on_system m) s"
  unfolding act_within_def
proof (intro allI impI)
  fix x t assume "on_system m s = (x, t)"
  then have "m (vs_replay s) = (x, vs_replay t)" "t = s\<lparr>vs_replay := vs_replay t\<rparr>"
    by (cases "m (vs_replay s)"; auto simp: act_on_apply)+
  then show "evaluation_move\<^sup>*\<^sup>* s t" using system_moves act_withinD [OF assms] by metis
qed

section \<open>The copy of the replay that the worker holds\<close>

definition current :: "tenant_context \<Rightarrow> evaluation_system \<Rightarrow> replay \<Rightarrow> bool" where
  "current cx s r =
     (evaluation_inv s \<and> follows (vs_replay s) r \<and> rp_status r \<noteq> RPS_COMPLETED
      \<and> rp_organization_id r = cx_organization_id cx \<and> rp_project_id r = cx_project cx)"

lemma current_run:
  assumes "current cx s r" "evaluation_move\<^sup>*\<^sup>* s t"
  shows "current cx t r"
proof -
  from assms(1) obtain q where q: "dict_get (rs_replays (vs_replay s)) (rp_replay_id r) = Some q" "succeeds r q"
    by (auto simp: current_def follows_def split: option.splits)
  moreover have "evaluation_inv s" using assms(1) by (simp add: current_def)
  ultimately have "follows (vs_replay t) r"
    using evaluations.lookup_run [OF assms(2)] evaluations.keeps_trans by (fastforce simp: follows_def)
  with assms evaluations.inv_run show ?thesis by (auto simp: current_def)
qed

text \<open>A transition that links the replay to nothing new.\<close>

definition plain :: "(replay \<Rightarrow> exc + replay) \<Rightarrow> replay \<Rightarrow> bool" where
  "plain f r = (\<forall>q. f r = Inr q \<longrightarrow> replay_step r q \<and> same_links r q)"

lemma plain_transitions:
  "plain (mark_cancelled now) r" "plain (mark_execution_failed failure now) r" "plain (mark_evaluating j now) r"
  "plain (record_replay_evaluation i now) r" "plain (record_baseline_evaluation i now) r" "plain (mark_comparing now) r"
  "plain (record_comparison i now) r" "plain (record_drift i now) r"
  unfolding plain_def by (blast intro: replay_step.intros transition_links)+

lemma advance_within:
  assumes "current cx s r" "plain f r"
  shows "act_within evaluation_move (advance f r) s"
  unfolding advance_def
proof (rule act_within_bind_lift, rule on_system_within)
  fix q assume "f r = Inr q"
  with assms show "act_within (replay_move (explained (vs_evaluations s))) (on_replays (save_replay q (Some (rp_version r)))) (vs_replay s)"
    by (intro save_step_follows) (auto simp: plain_def current_def)
qed

lemma advance_Inr:
  assumes "advance f r s = (Inr q, t)"
  obtains p n where "f r = Inr p" "q = p\<lparr>rp_version := n\<rparr>"
    "dict_get (rs_replays (vs_replay t)) (rp_replay_id q) = Some q" "vs_evaluations t = vs_evaluations s"
proof -
  from assms obtain p where p: "f r = Inr p" and "on_system (on_replays (save_replay p (Some (rp_version r)))) s = (Inr q, t)"
    by (auto simp: advance_def split: sum.splits)
  then have "on_replays (save_replay p (Some (rp_version r))) (vs_replay s) = (Inr q, vs_replay t)"
    and t: "vs_evaluations t = vs_evaluations s"
    by (cases "on_replays (save_replay p (Some (rp_version r))) (vs_replay s)"; auto simp: act_on_apply)+
  from saved_stored [OF this(1)] p t that show ?thesis by blast
qed

lemma advance_current:
  assumes "current cx s r" "plain f r" "advance f r s = (Inr q, t)"
  shows "current cx t q" "replay_keeps r q" "rp_replay_execution_id q = rp_replay_execution_id r"
    "vs_evaluations t = vs_evaluations s"
proof -
  from advance_Inr [OF assms(3)] obtain p n where p: "f r = Inr p" "q = p\<lparr>rp_version := n\<rparr>"
    "dict_get (rs_replays (vs_replay t)) (rp_replay_id q) = Some q" and V: "vs_evaluations t = vs_evaluations s" by blast
  have step: "replay_step r p" "same_links r p" using assms(2) p(1) by (auto simp: plain_def)
  show V': "vs_evaluations t = vs_evaluations s" by (rule V)
  show keeps: "replay_keeps r q"
    using replay_keeps_step [OF step(1)] p(2) by (simp add: replay_keeps_def replay_content_def assigned_ids_def)
  show "rp_replay_execution_id q = rp_replay_execution_id r" using step(2) p(2) by (simp add: same_links_def)
  have "evaluation_inv t"
    using act_withinD [OF advance_within [OF assms(1,2)] assms(3)] assms(1) evaluations.inv_run by (auto simp: current_def)
  moreover have "rp_status q \<noteq> RPS_COMPLETED" using step(2) p(2) by (simp add: same_links_def)
  ultimately show "current cx t q"
    using keeps assms(1) follows_stored [OF p(3)] by (simp add: current_def replay_keeps_def replay_content_def)
qed

section \<open>The evaluation and the baseline\<close>

text \<open>Providers may run any commands of the system, and nothing else.\<close>

definition providers_within :: "provider_registry \<Rightarrow> bool" where
  "providers_within registry =
     (\<forall>n p x s. dict_get registry n = Some p \<longrightarrow> evaluation_inv s \<longrightarrow> act_within evaluation_move (pv_evaluate p x) s)"

definition measured :: "tenant_context \<Rightarrow> evaluation_repo \<Rightarrow> replay \<Rightarrow> evaluation_result \<Rightarrow> bool" where
  "measured cx V r e =
     (e \<in> set V \<and> in_tenant e (cx_organization_id cx) (cx_project cx)
      \<and> rp_replay_evaluation_id r = Some (er_evaluation_id e) \<and> er_evaluation_id e \<noteq> [])"

definition based :: "tenant_context \<Rightarrow> evaluation_repo \<Rightarrow> replay \<Rightarrow> evaluation_result \<Rightarrow> evaluation_result \<Rightarrow> bool" where
  "based cx V r e b =
     (b \<in> set V \<and> in_tenant b (cx_organization_id cx) (cx_project cx) \<and> er_execution_id b = rp_source_execution_id r
      \<and> compatible b e \<and> rp_baseline_evaluation_id r = Some (er_evaluation_id b) \<and> er_evaluation_id b \<noteq> [])"

lemma replay_keeps_evaluations:
  assumes "replay_keeps r q"
  shows "rp_source_execution_id q = rp_source_execution_id r"
    "rp_replay_evaluation_id r = Some i \<Longrightarrow> i \<noteq> [] \<Longrightarrow> rp_replay_evaluation_id q = Some i"
    "rp_baseline_evaluation_id r = Some i \<Longrightarrow> i \<noteq> [] \<Longrightarrow> rp_baseline_evaluation_id q = Some i"
  using assms by (simp_all add: replay_keeps_def replay_content_def assigned_ids_def truthy_def)

lemma evidence_keeps:
  assumes "replay_keeps r q" "set V \<subseteq> set W"
  shows "measured cx V r e \<Longrightarrow> measured cx W q e" "based cx V r e b \<Longrightarrow> based cx W q e b"
  using replay_keeps_evaluations [OF assms(1)] assms(2) by (simp_all add: measured_def based_def subset_iff)

lemma context_tenant:
  assumes "evaluation_in_context e (Some cx)" "cx_project_id cx \<noteq> None"
  shows "in_tenant e (cx_organization_id cx) (cx_project cx)"
  using assms by (auto simp: evaluation_in_context_def in_tenant_def cx_project_def opt_or_def)

lemma evaluate_execution_within:
  assumes "providers_within registry" "evaluation_inv s"
  shows "act_within evaluation_move (evaluate_execution fr now (Registered registry n) x config specs) s"
  unfolding evaluate_execution_def Let_def
proof (intro act_within_bind_lift)
  fix dataset p assume "source_provider (Registered registry n) = Inr p"
  then have "dict_get registry (normalize_provider_name n) = Some p"
    by (auto simp: source_provider_def get_provider_def split: option.splits)
  then have "act_within evaluation_move (pv_evaluate p order) s" for order
    using assms unfolding providers_within_def by blast
  then show "act_within evaluation_move (act_bind (pv_evaluate p order) (\<lambda>r. act_return (f r))) s" for order f
    by (rule act_within_bind) (rule act_within_return)
qed

lemma submit_evaluation_within:
  assumes "providers_within (ve_registry env)" "evaluation_inv s"
  shows "act_within evaluation_move (submit_evaluation env now x name specs config installation cx) s"
proof -
  have "act_within evaluation_move (act_bind (evaluate_execution fr now (Registered (ve_registry env) n) x c specs) (\<lambda>r.
     act_bind (save_evaluation (f r)) (\<lambda>_. act_return (f r)))) s" for fr n c f
  proof (rule act_within_bind [OF evaluate_execution_within [OF assms]])
    fix r t
    have "act_within evaluation_move (save_evaluation (f r)) t"
      by (rule act_within_step) (auto simp: save_evaluation_def intro: evaluation_move.evaluated)
    then show "act_within evaluation_move (act_bind (save_evaluation (f r)) (\<lambda>_. act_return (f r))) t"
      by (rule act_within_bind) (rule act_within_return)
  qed
  then show ?thesis
    unfolding submit_evaluation_def by (intro act_within_bind_lift) (simp add: act_within_bind_lift split: prod.split)
qed

lemma submit_evaluation_Inr:
  assumes "submit_evaluation env now x name specs config installation (Some cx) s = (Inr e, t)"
  shows "e \<in> set (vs_evaluations t)" "in_tenant e (cx_organization_id cx) (cx_project cx)"
proof -
  obtain n c where "resolve_installation env name config installation (Some cx) = Inr (n, c)"
    using assms by (cases "resolve_installation env name config installation (Some cx)") (auto simp: submit_evaluation_def)
  with assms obtain r u where "act_bind (save_evaluation (stamp_result env x (Some cx) r)) (\<lambda>_.
      act_return (stamp_result env x (Some cx) r)) u = (Inr e, t)"
    by (simp add: submit_evaluation_def split: sum.splits) (erule act_bind_InrE, blast)
  then have "e = stamp_result env x (Some cx) r" "vs_evaluations t = vs_evaluations u @ [e]"
    by (auto simp: act_bind_def save_evaluation_def)
  then show "e \<in> set (vs_evaluations t)" "in_tenant e (cx_organization_id cx) (cx_project cx)"
    by (simp_all add: stamp_result_def in_tenant_def Let_def split: option.splits)
qed

lemma recorded_ids:
  "record_replay_evaluation i now r = Inr q \<Longrightarrow> rp_replay_evaluation_id q = Some i \<and> i \<noteq> []"
  "record_baseline_evaluation i now r = Inr q \<Longrightarrow> rp_baseline_evaluation_id q = Some i \<and> i \<noteq> []"
  by (auto simp: record_replay_evaluation_def record_baseline_evaluation_def immutable_checks_def not_blank_not_Nil
      split: if_splits)

text \<open>A new evaluation of the replay.\<close>

lemma new_evaluation_stage:
  fixes w x provider specs config
  defines "m r fresh cx \<equiv> act_bind (submit_evaluation (ew_env w) (ef_evaluated fresh) x (Some provider) specs config None (Some cx)) (\<lambda>e.
            act_bind (advance (record_replay_evaluation (er_evaluation_id e) (ef_recorded fresh)) r) (\<lambda>r'.
            act_return (e, r')))"
  assumes "current cx s r" "providers_within (ve_registry (ew_env w))"
  shows "act_within evaluation_move (m r fresh cx) s"
    "m r fresh cx s = (Inr (e, q), t) \<Longrightarrow> current cx t q \<and> replay_keeps r q \<and> measured cx (vs_evaluations t) q e"
proof -
  have "evaluation_inv s" using assms(2) by (simp add: current_def)
  note submitted = submit_evaluation_within [OF assms(3) this]
  note after = current_run [OF assms(2) act_withinD [OF submitted]]
  show "act_within evaluation_move (m r fresh cx) s"
    unfolding m_def
    by (intro act_within_bind [OF submitted] act_within_bind act_within_return) (rule advance_within [OF after plain_transitions(4)])
  assume "m r fresh cx s = (Inr (e, q), t)"
  then obtain u where sub: "submit_evaluation (ew_env w) (ef_evaluated fresh) x (Some provider) specs config None (Some cx) s = (Inr e, u)"
    and adv: "advance (record_replay_evaluation (er_evaluation_id e) (ef_recorded fresh)) r u = (Inr q, t)"
    unfolding m_def by (auto elim!: act_bind_InrE)
  note a = advance_current [OF after [OF sub] plain_transitions(4) adv]
  from advance_Inr [OF adv] obtain p n where "record_replay_evaluation (er_evaluation_id e) (ef_recorded fresh) r = Inr p"
    "q = p\<lparr>rp_version := n\<rparr>" by blast
  with recorded_ids(1) [of "er_evaluation_id e" "ef_recorded fresh" r p] submit_evaluation_Inr [OF sub] a
  show "current cx t q \<and> replay_keeps r q \<and> measured cx (vs_evaluations t) q e" by (simp add: measured_def)
qed

text \<open>The outcome of a stage that only reads.\<close>

lemma lift_stage:
  assumes "act_bind (act_lift m) (\<lambda>x. act_return (x, r)) s = (Inr (e, q), t)"
  shows "m = Inr e" "q = r" "t = s"
  using assms by (auto split: sum.splits)

lemma produce_evaluation_stage:
  assumes "current cx s r" "providers_within (ve_registry (ew_env w))" "cx_project_id cx \<noteq> None"
  shows "act_within evaluation_move (produce_evaluation w fresh j cx r) s"
    "produce_evaluation w fresh j cx r s = (Inr (e, q), t) \<Longrightarrow> current cx t q \<and> replay_keeps r q \<and> measured cx (vs_evaluations t) q e"
proof -
  let ?E = "rs_executions (vs_replay s)"
  let ?get = "act_bind (act_lift (get_evaluation (vs_evaluations s) (the (rp_replay_evaluation_id r)) (Some cx))) (\<lambda>e. act_return (e, r))"
  let ?new = "\<lambda>x provider config.
    act_bind (act_lift (metric_specs_of (ve_fr (ew_env w)) (ew_float w) (pget (jb_input_refs j) ''metric_specs''))) (\<lambda>specs.
    act_bind (submit_evaluation (ew_env w) (ef_evaluated fresh) x (Some provider) specs config None (Some cx)) (\<lambda>e.
    act_bind (advance (record_replay_evaluation (er_evaluation_id e) (ef_recorded fresh)) r) (\<lambda>r'. act_return (e, r'))))"
  note new = new_evaluation_stage [OF assms(1,2)]
  let ?rest = "\<lambda>x (provider, config). if truthy (rp_replay_evaluation_id r) then ?get else ?new x provider config"
  let ?all = "\<lambda>x. act_bind (act_lift (provider_choice w j cx)) (?rest x)"
  have rest: "act_within evaluation_move (?rest x v) s" for x v
    using new(1) by (cases v) (auto intro!: act_within_bind_lift act_within_return)
  then have all: "act_within evaluation_move (?all x) s" for x by (intro act_within_bind_lift)
  have run: "current cx t q \<and> replay_keeps r q \<and> measured cx (vs_evaluations t) q e" if "?all x s = (Inr (e, q), t)" for x
  proof (cases "provider_choice w j cx")
    case (Inr v)
    obtain provider config where v: "v = (provider, config)" by (cases v)
    show ?thesis
    proof (cases "truthy (rp_replay_evaluation_id r)")
      case True
      with that Inr v have got: "?get s = (Inr (e, q), t)" by simp
      note l = lift_stage [OF got] and g = get_evaluation_Inr [OF lift_stage(1) [OF got]]
      from True l(2) g(2) have "rp_replay_evaluation_id q = Some (er_evaluation_id e)" "er_evaluation_id e \<noteq> []"
        by (auto simp: truthy_def split: option.splits)
      with l g(1) context_tenant [OF g(3) assms(3)] assms(1) replay_keeps_refl show ?thesis by (simp add: measured_def)
    next
      case False
      with that Inr v obtain specs where "act_bind (submit_evaluation (ew_env w) (ef_evaluated fresh) x (Some provider) specs config None (Some cx)) (\<lambda>e.
        act_bind (advance (record_replay_evaluation (er_evaluation_id e) (ef_recorded fresh)) r) (\<lambda>r'. act_return (e, r'))) s = (Inr (e, q), t)"
        by (auto split: sum.splits)
      then show ?thesis by (rule new(2))
    qed
  qed (use that in simp)
  have shape: "produce_evaluation w fresh j cx r s =
      (case (get_source_execution ?E (rp_source_execution_id r) cx, get_source_execution ?E (opt_or (rp_replay_execution_id r) []) cx) of
         (Some _, Some x) \<Rightarrow> ?all x s
       | _ \<Rightarrow> (Inl (Exc ValueError ''Replay source or produced execution is unavailable.''), s))"
    by (simp add: produce_evaluation_def Let_def)
  show "act_within evaluation_move (produce_evaluation w fresh j cx r) s"
    using all unfolding act_within_def shape by (auto split: option.splits)
  assume "produce_evaluation w fresh j cx r s = (Inr (e, q), t)"
  then obtain x where "?all x s = (Inr (e, q), t)" unfolding shape by (auto split: option.splits)
  then show "current cx t q \<and> replay_keeps r q \<and> measured cx (vs_evaluations t) q e" by (rule run)
qed

text \<open>A stage that may advance the replay and returns a value computed before.\<close>

lemma advance_stage:
  assumes "current cx s r" "plain f r"
  shows "act_within evaluation_move (act_bind (if c then advance f r else act_return r) (\<lambda>r'. act_return (g r'))) s"
    "act_bind (if c then advance f r else act_return r) (\<lambda>r'. act_return (v, r')) s = (Inr (v', q), t) \<Longrightarrow>
      v' = v \<and> current cx t q \<and> replay_keeps r q \<and> rp_replay_execution_id q = rp_replay_execution_id r
      \<and> vs_evaluations t = vs_evaluations s"
proof -
  have "act_within evaluation_move (if c then advance f r else act_return r) s"
    using advance_within [OF assms] by (simp add: act_within_return)
  then show "act_within evaluation_move (act_bind (if c then advance f r else act_return r) (\<lambda>r'. act_return (g r'))) s"
    by (rule act_within_bind) (rule act_within_return)
  assume "act_bind (if c then advance f r else act_return r) (\<lambda>r'. act_return (v, r')) s = (Inr (v', q), t)"
  then have "v' = v" "(if c then advance f r else act_return r) s = (Inr q, t)" by (auto elim: act_bind_InrE)
  with advance_current [OF assms] assms(1) replay_keeps_refl show "v' = v \<and> current cx t q \<and> replay_keeps r q
      \<and> rp_replay_execution_id q = rp_replay_execution_id r \<and> vs_evaluations t = vs_evaluations s"
    by (auto split: if_splits)
qed

lemma choose_baseline_stage:
  assumes "current cx s r" "cx_project_id cx \<noteq> None"
  shows "act_within evaluation_move (choose_baseline w fresh j cx e r) s"
    "choose_baseline w fresh j cx e r s = (Inr (d, q), t) \<Longrightarrow>
      current cx t q \<and> replay_keeps r q \<and> vs_evaluations t = vs_evaluations s \<and> based cx (vs_evaluations t) q e (br_evaluation d)"
proof -
  let ?V = "vs_evaluations s"
  let ?resolve = "resolve_baseline (ew_env w) (ef_listed fresh) (ef_resolved fresh) ?V (rp_source_execution_id r) e"
  let ?id = "\<lambda>d. er_evaluation_id (br_evaluation d)"
  let ?keep = "\<lambda>d. act_bind (advance (record_baseline_evaluation (?id d) (ef_baseline fresh)) r) (\<lambda>r'. act_return (d, r'))"
  have chosen: "br_evaluation d \<in> set ?V \<and> in_tenant (br_evaluation d) (cx_organization_id cx) (cx_project cx)
      \<and> er_execution_id (br_evaluation d) = rp_source_execution_id r \<and> compatible (br_evaluation d) e"
    if "?resolve strategy explicit cx = Inr d" for strategy explicit d
    using resolve_baseline_Inr [OF that] context_tenant assms(2) by blast
  show "act_within evaluation_move (choose_baseline w fresh j cx e r) s"
  proof (cases "truthy (rp_baseline_evaluation_id r)")
    case True
    then have "choose_baseline w fresh j cx e r s = act_bind (act_lift (get_evaluation ?V (the (rp_baseline_evaluation_id r)) (Some cx)))
      (\<lambda>b. act_bind (act_lift (?resolve ''EXPLICIT'' (Some (er_evaluation_id b)) cx)) (\<lambda>d. act_return (d, r))) s"
      by (simp add: choose_baseline_def Let_def)
    then show ?thesis by (rule act_within_eq) (intro act_within_bind_lift act_within_return)
  next
    case False
    then obtain strategy explicit where "choose_baseline w fresh j cx e r s = act_bind (act_lift (?resolve strategy explicit cx)) ?keep s"
      by (simp add: choose_baseline_def Let_def)
    then show ?thesis
      by (rule act_within_eq) (intro act_within_bind_lift act_within_bind act_within_return advance_within [OF assms(1) plain_transitions(5)])
  qed
  assume run: "choose_baseline w fresh j cx e r s = (Inr (d, q), t)"
  show "current cx t q \<and> replay_keeps r q \<and> vs_evaluations t = ?V \<and> based cx (vs_evaluations t) q e (br_evaluation d)"
  proof (cases "truthy (rp_baseline_evaluation_id r)")
    case True
    with run obtain b where b: "get_evaluation ?V (the (rp_baseline_evaluation_id r)) (Some cx) = Inr b"
      and d: "?resolve ''EXPLICIT'' (Some (er_evaluation_id b)) cx = Inr d" and same: "q = r" "t = s"
      by (auto simp: choose_baseline_def Let_def split: sum.splits)
    have "py_upper ''EXPLICIT'' = ''EXPLICIT''" by code_simp
    from resolve_baseline_Inr(5) [OF d this] get_evaluation_Inr(2) [OF b]
    have "rp_baseline_evaluation_id r = Some (?id d)" "?id d \<noteq> []" using True by (auto simp: truthy_def split: option.splits)
    with chosen [OF d] same assms(1) replay_keeps_refl show ?thesis by (simp add: based_def)
  next
    case False
    with run obtain strategy explicit where d: "?resolve strategy explicit cx = Inr d" and rec: "?keep d s = (Inr (d, q), t)"
      by (auto simp: choose_baseline_def Let_def split: sum.splits elim!: act_bind_InrE)
    from rec have adv: "advance (record_baseline_evaluation (?id d) (ef_baseline fresh)) r s = (Inr q, t)" by (auto elim: act_bind_InrE)
    note a = advance_current [OF assms(1) plain_transitions(5) adv]
    from advance_Inr [OF adv] obtain p n where "record_baseline_evaluation (?id d) (ef_baseline fresh) r = Inr p"
      "q = p\<lparr>rp_version := n\<rparr>" by blast
    with recorded_ids(2) [of "?id d" "ef_baseline fresh" r p] chosen [OF d] a replay_keeps_evaluations(1) [OF a(2)]
    show ?thesis by (simp add: based_def)
  qed
qed

section \<open>Comparison and drift\<close>

lemma begin_stage:
  assumes "current cx s r"
  shows "act_within evaluation_move (begin_evaluation fresh j r) s" "act_within evaluation_move (begin_comparison fresh r) s"
    "begin_evaluation fresh j r s = (Inr q, t) \<Longrightarrow> current cx t q \<and> replay_keeps r q"
    "begin_comparison fresh r s = (Inr q, t) \<Longrightarrow> current cx t q \<and> replay_keeps r q \<and> vs_evaluations t = vs_evaluations s"
  using advance_within [OF assms plain_transitions(3)] advance_within [OF assms plain_transitions(6)]
    advance_current [OF assms plain_transitions(3)] advance_current [OF assms plain_transitions(6)] assms replay_keeps_refl
  by (auto simp: begin_evaluation_def begin_comparison_def act_within_return split: if_splits)

definition compared_evidence :: "replay \<Rightarrow> evaluation_result \<Rightarrow> evaluation_result \<Rightarrow> evaluation_comparison \<Rightarrow> bool" where
  "compared_evidence r b e comparison =
     (compare_evaluations (rp_source_execution_id r) (opt_or (rp_replay_execution_id r) []) b e = Inr comparison)"

lemma compare_stage:
  assumes "current cx s r"
  shows "act_within evaluation_move (compare_replay fresh d e r) s"
    "compare_replay fresh d e r s = (Inr (comparison, q), t) \<Longrightarrow>
      current cx t q \<and> replay_keeps r q \<and> vs_evaluations t = vs_evaluations s
      \<and> compared_evidence q (br_evaluation d) e comparison"
proof -
  note stage = advance_stage [OF assms plain_transitions(7)]
  show "act_within evaluation_move (compare_replay fresh d e r) s"
    unfolding compare_replay_def by (rule act_within_bind_lift) (rule stage(1))
  assume "compare_replay fresh d e r s = (Inr (comparison, q), t)"
  then obtain c where c: "compared_evidence r (br_evaluation d) e c"
    and run: "act_bind (if rp_comparison_id r = None
       then advance (record_comparison (''replay-comparison:'' @ rp_replay_id r) (ef_compared fresh)) r
       else act_return r) (\<lambda>r'. act_return (c, r')) s = (Inr (comparison, q), t)"
    unfolding compare_replay_def compared_evidence_def by (auto split: sum.splits)
  from stage(2) [OF run] c show "current cx t q \<and> replay_keeps r q \<and> vs_evaluations t = vs_evaluations s
      \<and> compared_evidence q (br_evaluation d) e comparison"
    using replay_keeps_evaluations(1) by (auto simp: compared_evidence_def)
qed

lemma drift_stage:
  assumes "current cx s r"
  shows "act_within evaluation_move (measure_drift fresh j d e r) s"
    "measure_drift fresh j d e r s = (Inr (drift, q), t) \<Longrightarrow>
      current cx t q \<and> replay_keeps r q \<and> rp_replay_execution_id q = rp_replay_execution_id r \<and> vs_evaluations t = vs_evaluations s
      \<and> (\<exists>policy. drift = snd (analyze_replay_drift (br_evaluation d) e policy))"
proof -
  note stage = advance_stage [OF assms plain_transitions(8)]
  show "act_within evaluation_move (measure_drift fresh j d e r) s"
    unfolding measure_drift_def by (rule act_within_bind_lift) (rule stage(1))
  assume "measure_drift fresh j d e r s = (Inr (drift, q), t)"
  then obtain policy where "act_bind (if rp_drift_id r = None
       then advance (record_drift (''replay-drift:'' @ rp_replay_id r) (ef_drift fresh)) r
       else act_return r) (\<lambda>r'. act_return (snd (analyze_replay_drift (br_evaluation d) e policy), r')) s = (Inr (drift, q), t)"
    unfolding measure_drift_def by (auto split: sum.splits)
  from stage(2) [OF this] show "current cx t q \<and> replay_keeps r q \<and> rp_replay_execution_id q = rp_replay_execution_id r
      \<and> vs_evaluations t = vs_evaluations s \<and> (\<exists>policy. drift = snd (analyze_replay_drift (br_evaluation d) e policy))" by blast
qed

section \<open>The result\<close>

lemma copy_concluded:
  assumes "current cx s r" "concludes x r" "new_result x = Inr x"
  shows "\<exists>i p. dict_get (rs_replays (vs_replay s)) i = Some p \<and> concludes x p"
proof -
  from assms(1) obtain p where "dict_get (rs_replays (vs_replay s)) (rp_replay_id r) = Some p" "succeeds r p"
    by (auto simp: current_def follows_def split: option.splits)
  then show ?thesis using concludes_keeps [OF assms(2,3)] by (auto simp: succeeds_def)
qed

lemma store_result_within:
  assumes "dict_get (rs_replays (vs_replay s)) i = Some p" "concludes x p" "new_result x = Inr x" "explained (vs_evaluations s) x"
  shows "act_within evaluation_move (store_result x) s"
proof (rule act_within_step)
  fix y t assume run: "store_result x s = (y, t)"
  show "evaluation_move s t \<or> t = s"
  proof (cases "rs_results (vs_replay s)")
    case (Some u)
    obtain z v where save: "save_result x u = (z, v)" by (cases "save_result x u")
    from run Some save have "t = s\<lparr>vs_replay := (vs_replay s)\<lparr>rs_results := Some v\<rparr>\<rparr>" by (auto simp: store_result_def)
    with evaluation_move.system [OF replay_move.results [where A = "explained (vs_evaluations s)", OF Some save assms(3,1,2,4)]]
    show ?thesis by simp
  qed (use run in \<open>simp add: store_result_def\<close>)
qed

lemma store_result_Inr:
  assumes "store_result x s = (Inr y, t)" "evaluation_inv s"
  obtains u where "rs_results (vs_replay t) = Some u" "dict_get u (rt_result_id y) = Some y"
    "rt_replay_id y = rt_replay_id x" "vs_evaluations t = vs_evaluations s"
proof -
  from assms(1) obtain u v where u: "rs_results (vs_replay s) = Some u" and save: "save_result x u = (Inr y, v)"
    and t: "t = s\<lparr>vs_replay := (vs_replay s)\<lparr>rs_results := Some v\<rparr>\<rparr>"
    by (auto simp: store_result_def split: option.splits prod.splits)
  have "result_inv u" using assms(2) u by (simp add: evaluation_inv_def replay_system_inv_def results_ok_def)
  from save_result_stored [OF this save] t that show ?thesis by (simp add: result_tenant_key_def)
qed

lemma stored_result_Some:
  assumes "stored_result i cx s = (Inr (Some x), t)" "evaluation_inv s"
  shows "rt_replay_id x = i" "new_result x = Inr x" "explained (vs_evaluations s) x"
    "\<exists>p. dict_get (rs_replays (vs_replay s)) i = Some p \<and> concludes x p"
proof -
  from assms(1) obtain u where u: "rs_results (vs_replay s) = Some u"
    and x: "get_result_by_replay u i (cx_organization_id cx) (cx_project cx) = Some x"
    by (auto simp: stored_result_def split: option.splits)
  have ok: "results_ok (rs_replays (vs_replay s)) (Some u)"
    using assms(2) u by (simp add: evaluation_inv_def replay_system_inv_def)
  then have stored: "dict_get u (rt_result_id x) = Some x" using get_result_by_replay_stored [OF _ x] by (simp add: results_ok_def)
  show i: "rt_replay_id x = i" using x by (auto simp: get_result_by_replay_def find_Some_iff)
  show "new_result x = Inr x" "\<exists>p. dict_get (rs_replays (vs_replay s)) i = Some p \<and> concludes x p"
    using ok stored i by (auto simp: results_ok_def)
  show "explained (vs_evaluations s) x" using assms(2) u stored unfolding evaluation_inv_def by blast
qed

text \<open>Completing the replay with a stored result of it.\<close>

lemma complete_within:
  assumes "current cx s r" "rs_results (vs_replay s) = Some u" "dict_get u (rt_result_id y) = Some y" "rt_replay_id y = rp_replay_id r"
  shows "act_within evaluation_move (advance (replay_mark_completed (rt_result_id y) now) r) s"
  unfolding advance_def
proof (rule act_within_bind_lift, rule on_system_within, rule save_follows)
  show "follows (vs_replay s) r" using assms(1) by (simp add: current_def)
  fix q assume q: "replay_mark_completed (rt_result_id y) now r = Inr q"
  note step = replay_step.completed [OF q]
  then show "replay_step\<^sup>*\<^sup>* r q" by blast
  assume stored: "dict_get (rs_replays (vs_replay s)) (rp_replay_id r) = Some r"
  have "results_ok (rs_replays (vs_replay s)) (Some u)"
    using assms(1,2) by (simp add: current_def evaluation_inv_def replay_system_inv_def)
  then obtain p where "dict_get (rs_replays (vs_replay s)) (rt_replay_id y) = Some p" "concludes y p"
    using assms(3) unfolding results_ok_def option.case by blast
  then have "concludes y r" using assms(4) stored by simp
  moreover have "rp_job_id q = rp_job_id r" "has_executed r" "rp_result_id q = Some (rt_result_id y)"
      "rp_replay_execution_id q = rp_replay_execution_id r" "concludes y q = concludes y r"
  proof -
    from q have "rp_status r = RPS_COMPARING" and q': "q = r\<lparr>rp_result_id := Some (rt_result_id y), rp_status := RPS_COMPLETED,
        rp_comparison_completed_at := Some now, rp_completed_at := Some now, rp_updated_at := now\<rparr>"
      by (simp_all add: replay_mark_completed_def require_replay_status_def immutable_checks_def split: if_splits)
    then show "has_executed r" by (simp add: has_executed_def)
    show "rp_job_id q = rp_job_id r" "rp_result_id q = Some (rt_result_id y)"
      "rp_replay_execution_id q = rp_replay_execution_id r" "concludes y q = concludes y r"
      unfolding q' by (simp_all add: concludes_def)
  qed
  ultimately show "replay_links (rs_jobs (vs_replay s)) (rs_executions (vs_replay s)) (rs_results (vs_replay s)) (rs_replays (vs_replay s)) r q"
    using assms(2,3) replay_step_identity [OF step]
    by (simp add: replay_links_def finalized_def execution_key_def replay_identity_def)
qed

text \<open>The result the worker makes from the evidence it has gathered.\<close>

lemma made_result:
  assumes "make_replay_result i g now r d (opt_or (rp_comparison_id r) []) (opt_or (rp_drift_id r) []) summary drift = Inr x"
  shows "new_result x = Inr x" "concludes x r" "rt_comparison_summary x = summary" "rt_drift_summary x = drift"
    "rt_replay_execution_id x = opt_or (rp_replay_execution_id r) []"
proof -
  define y where "y = \<lparr>rt_result_id = (if i = [] then g else i), rt_replay_id = rp_replay_id r, rt_source_execution_id = rp_source_execution_id r,
        rt_replay_execution_id = opt_or (rp_replay_execution_id r) [],
        rt_baseline_evaluation_id = opt_or (rp_baseline_evaluation_id r) [],
        rt_replay_evaluation_id = opt_or (rp_replay_evaluation_id r) [], rt_comparison_id = opt_or (rp_comparison_id r) [],
        rt_drift_id = opt_or (rp_drift_id r) [], rt_baseline_strategy = br_strategy d, rt_comparison_summary = summary,
        rt_drift_summary = drift, rt_organization_id = rp_organization_id r, rt_project_id = rp_project_id r,
        rt_created_at = now,
        rt_metadata = [(''baseline_compatibility'', PDict (br_compatibility_summary d)),
          (''threshold_policy'', PDict (dsm_threshold_policy drift))]\<rparr>"
  have "new_result y = Inr x" using assms by (simp add: make_replay_result_def y_def)
  then have x: "x = y" and solid: "\<not> blank (rt_replay_execution_id y)" "\<not> blank (rt_baseline_evaluation_id y)"
      "\<not> blank (rt_replay_evaluation_id y)" "\<not> blank (rt_comparison_id y)" "\<not> blank (rt_drift_id y)"
    by (auto simp: new_result_def split: if_splits)
  have some: "v = Some (opt_or v [])" if "\<not> blank (opt_or v [])" for v
    using not_blank_not_Nil [OF that] by (cases v) (auto simp: opt_or_def)
  show "new_result x = Inr x" using \<open>new_result y = Inr x\<close> x by simp
  show "concludes x r" unfolding concludes_def x using solid by (simp add: y_def some [symmetric])
  show "rt_comparison_summary x = summary" "rt_drift_summary x = drift"
    "rt_replay_execution_id x = opt_or (rp_replay_execution_id r) []" by (simp_all add: x y_def)
qed

lemma made_explained:
  assumes "concludes x r" "rp_organization_id r = cx_organization_id cx" "rp_project_id r = cx_project cx"
    and "measured cx V r e" "based cx V r e b" "compared_evidence r b e comparison"
    and "rt_replay_execution_id x = opt_or (rp_replay_execution_id r) []"
    and "summary_of comparison b e = Inr (rt_comparison_summary x)" "rt_drift_summary x = snd (analyze_replay_drift b e policy)"
  shows "explained V x"
proof -
  have same: "rt_source_execution_id x = rp_source_execution_id r"
      "er_evaluation_id b = rt_baseline_evaluation_id x" "er_evaluation_id e = rt_replay_evaluation_id x"
    using assms(1,4,5) by (auto simp: concludes_def measured_def based_def)
  have cmp: "compare_evaluations (rt_source_execution_id x) (rt_replay_execution_id x) b e = Inr comparison"
    using assms(6,7) same(1) by (simp add: compared_evidence_def)
  then have "er_execution_id e = rt_replay_execution_id x" by (simp add: compare_evaluations_def split: if_splits)
  moreover have "in_tenant b (rt_organization_id x) (rt_project_id x)" "in_tenant e (rt_organization_id x) (rt_project_id x)"
    using assms(1-5) by (simp_all add: concludes_def measured_def based_def)
  ultimately show ?thesis
    unfolding explained_def using assms(4,5,8,9) same cmp unfolding measured_def based_def by fastforce
qed

lemma conclude_within:
  assumes cur: "current cx s r"
    and evidence: "measured cx (vs_evaluations s) r e" "based cx (vs_evaluations s) r e (br_evaluation d)"
      "compared_evidence r (br_evaluation d) e comparison"
    and drift: "drift = snd (analyze_replay_drift (br_evaluation d) e policy)"
  shows "act_within evaluation_move (conclude_replay fresh j cx d e comparison drift r) s"
proof -
  have inv: "evaluation_inv s" using cur by (simp add: current_def)
  let ?complete = "\<lambda>y. act_bind (if rp_status r = RPS_COMPLETED then act_return r
       else advance (replay_mark_completed (rt_result_id y) (ef_completed fresh)) r) (\<lambda>_.
     act_return (succeeded_result j (''replay_result:'' @ rt_result_id y)))"
  have store: "act_within evaluation_move (act_bind (store_result x) ?complete) s"
    if x: "\<exists>i p. dict_get (rs_replays (vs_replay s)) i = Some p \<and> concludes x p" "new_result x = Inr x"
      "explained (vs_evaluations s) x" "rt_replay_id x = rp_replay_id r" for x
  proof (rule act_within_bind)
    from x(1) obtain i p where "dict_get (rs_replays (vs_replay s)) i = Some p" "concludes x p" by blast
    then show first: "act_within evaluation_move (store_result x) s" by (rule store_result_within) (rule x)+
    fix y t assume run: "store_result x s = (Inr y, t)"
    note cur_t = current_run [OF cur act_withinD [OF first run]]
    from store_result_Inr [OF run inv] obtain u where "rs_results (vs_replay t) = Some u"
      "dict_get u (rt_result_id y) = Some y" "rt_replay_id y = rt_replay_id x" by blast
    with complete_within [OF cur_t] x(4) have "act_within evaluation_move
        (advance (replay_mark_completed (rt_result_id y) (ef_completed fresh)) r) t" by simp
    then have "act_within evaluation_move (if rp_status r = RPS_COMPLETED then act_return r
       else advance (replay_mark_completed (rt_result_id y) (ef_completed fresh)) r) t" by (simp add: act_within_return)
    then show "act_within evaluation_move (?complete y) t" by (rule act_within_bind) (rule act_within_return)
  qed
  have new: "act_within evaluation_move (act_bind (store_result x) ?complete) s"
    if made: "make_replay_result i g now r d (opt_or (rp_comparison_id r) []) (opt_or (rp_drift_id r) []) summary drift = Inr x"
      and sum: "summary_of comparison (br_evaluation d) e = Inr summary" for x i g now summary
  proof (rule store)
    note m = made_result [OF made]
    show "\<exists>i p. dict_get (rs_replays (vs_replay s)) i = Some p \<and> concludes x p" by (rule copy_concluded [OF cur m(2,1)])
    show "new_result x = Inr x" "rt_replay_id x = rp_replay_id r" using m(1,2) by (simp_all add: concludes_def)
    show "explained (vs_evaluations s) x"
      by (rule made_explained [OF m(2) _ _ evidence m(5)]) (use cur m(3,4) sum drift in \<open>simp_all add: current_def\<close>)
  qed
  show ?thesis
    unfolding conclude_replay_def
  proof (rule act_within_bind)
    show "act_within evaluation_move (stored_result (rp_replay_id r) cx) s"
      by (rule act_within_step) (auto simp: stored_result_def split: option.splits)
    fix existing t assume run: "stored_result (rp_replay_id r) cx s = (Inr existing, t)"
    then have "t = s" by (auto simp: stored_result_def split: option.splits)
    show "act_within evaluation_move (act_bind (act_lift (case existing of Some x \<Rightarrow> Inr x
       | None \<Rightarrow> res_bind (summary_of comparison (br_evaluation d) e) (\<lambda>summary.
           make_replay_result (if truthy (rp_result_id r) then the (rp_result_id r) else ef_result_id fresh) (ef_generated_id fresh) (ef_created fresh)
             r d (opt_or (rp_comparison_id r) []) (opt_or (rp_drift_id r) []) summary drift))) (\<lambda>x.
       act_bind (store_result x) ?complete)) t"
    proof (rule act_within_bind_lift, cases existing)
      fix x
      assume "existing = None" and x: "(case existing of Some x \<Rightarrow> Inr x
       | None \<Rightarrow> res_bind (summary_of comparison (br_evaluation d) e) (\<lambda>summary.
           make_replay_result (if truthy (rp_result_id r) then the (rp_result_id r) else ef_result_id fresh) (ef_generated_id fresh) (ef_created fresh)
             r d (opt_or (rp_comparison_id r) []) (opt_or (rp_drift_id r) []) summary drift)) = Inr x"
      then show "act_within evaluation_move (act_bind (store_result x) ?complete) t"
        using new unfolding \<open>t = s\<close> by (auto simp: res_bind_Inr_iff)
    next
      fix x y
      assume "existing = Some y" and "(case existing of Some x \<Rightarrow> Inr x
       | None \<Rightarrow> res_bind (summary_of comparison (br_evaluation d) e) (\<lambda>summary.
           make_replay_result (if truthy (rp_result_id r) then the (rp_result_id r) else ef_result_id fresh) (ef_generated_id fresh) (ef_created fresh)
             r d (opt_or (rp_comparison_id r) []) (opt_or (rp_drift_id r) []) summary drift)) = Inr x"
      then have "existing = Some x" by simp
      note f = stored_result_Some [OF run [unfolded this] inv]
      then show "act_within evaluation_move (act_bind (store_result x) ?complete) t"
        unfolding \<open>t = s\<close> by (intro store) blast+
    qed
  qed
qed

section \<open>The worker\<close>

lemma fail_evaluation_within:
  assumes "current cx s r"
  shows "act_within evaluation_move (fail_evaluation fresh j r e) s"
  unfolding fail_evaluation_def
  by (intro act_within_if act_within_bind_lift act_within_bind [OF advance_within [OF assms plain_transitions(2)]] act_within_return)

lemma cancel_evaluation_within:
  assumes "current cx s r"
  shows "act_within evaluation_move (cancel_evaluation fresh j r) s"
  unfolding cancel_evaluation_def
  by (intro act_within_bind [OF advance_within [OF assms plain_transitions(1)]] act_within_return)

text \<open>A stage, the handling of its exceptions, and the rest of the block.\<close>

lemma stage_within:
  assumes "current cx s r" "act_within evaluation_move m s"
    "\<And>v t. m s = (Inr v, t) \<Longrightarrow> act_within evaluation_move (f v) t"
  shows "act_within evaluation_move (act_try m (fail_evaluation fresh j r) f) s"
  using assms(2,3)
proof (rule act_within_try)
  show "act_within evaluation_move (fail_evaluation fresh j r e) t" if "m s = (Inl e, t)" for e t
    by (rule fail_evaluation_within [OF current_run [OF assms(1) act_withinD [OF assms(2) that]]])
qed

lemma govern_evaluation_within:
  assumes cur: "current cx s r" and e: "measured cx (vs_evaluations s) r e" and cx: "cx_project_id cx \<noteq> None"
  shows "act_within evaluation_move (govern_evaluation w fresh j cx e r) s"
  unfolding govern_evaluation_def
proof (rule stage_within [OF cur choose_baseline_stage(1) [OF cur cx]], clarify)
  fix d r3 t3 assume "choose_baseline w fresh j cx e r s = (Inr (d, r3), t3)"
  note s3 = choose_baseline_stage(2) [OF cur cx this]
  then have cur3: "current cx t3 r3" by blast
  have e3: "measured cx (vs_evaluations t3) r3 e" using evidence_keeps(1) [OF _ _ e] s3 by auto
  show "act_within evaluation_move (act_try (begin_comparison fresh r3) (fail_evaluation fresh j r3) (\<lambda>r4.
     act_try (compare_replay fresh d e r4) (fail_evaluation fresh j r4) (\<lambda>(comparison, r5).
     act_try (measure_drift fresh j d e r5) (fail_evaluation fresh j r5) (\<lambda>(drift, r6).
     act_try (conclude_replay fresh j cx d e comparison drift r6) (fail_evaluation fresh j r6) act_return)))) t3"
  proof (rule stage_within [OF cur3 begin_stage(2) [OF cur3]])
    fix r4 t4 assume "begin_comparison fresh r3 t3 = (Inr r4, t4)"
    note s4 = begin_stage(4) [OF cur3 this]
    then have cur4: "current cx t4 r4" by blast
    show "act_within evaluation_move (act_try (compare_replay fresh d e r4) (fail_evaluation fresh j r4) (\<lambda>(comparison, r5).
     act_try (measure_drift fresh j d e r5) (fail_evaluation fresh j r5) (\<lambda>(drift, r6).
     act_try (conclude_replay fresh j cx d e comparison drift r6) (fail_evaluation fresh j r6) act_return))) t4"
    proof (rule stage_within [OF cur4 compare_stage(1) [OF cur4]], clarify)
      fix comparison r5 t5 assume "compare_replay fresh d e r4 t4 = (Inr (comparison, r5), t5)"
      note s5 = compare_stage(2) [OF cur4 this]
      then have cur5: "current cx t5 r5" by blast
      show "act_within evaluation_move (act_try (measure_drift fresh j d e r5) (fail_evaluation fresh j r5) (\<lambda>(drift, r6).
        act_try (conclude_replay fresh j cx d e comparison drift r6) (fail_evaluation fresh j r6) act_return)) t5"
      proof (rule stage_within [OF cur5 drift_stage(1) [OF cur5]], clarify)
        fix drift r6 t6 assume "measure_drift fresh j d e r5 t5 = (Inr (drift, r6), t6)"
        note s6 = drift_stage(2) [OF cur5 this]
        then have cur6: "current cx t6 r6" by blast
        from s6 obtain policy where drift: "drift = snd (analyze_replay_drift (br_evaluation d) e policy)" by blast
        have keeps: "replay_keeps r3 r6" using s4 s5 s6 replay_keeps_trans by blast
        have V: "vs_evaluations t6 = vs_evaluations t3" using s4 s5 s6 by simp
        have evidence: "measured cx (vs_evaluations t6) r6 e" "based cx (vs_evaluations t6) r6 e (br_evaluation d)"
          using s3 by (auto intro: evidence_keeps(1) [OF keeps _ e3] evidence_keeps(2) [OF keeps] simp: V)
        have "compared_evidence r6 (br_evaluation d) e comparison"
          using s5 s6 replay_keeps_evaluations(1) [of r5 r6] by (simp add: compared_evidence_def)
        note conclude_within [OF cur6 evidence this drift]
        then show "act_within evaluation_move (act_try (conclude_replay fresh j cx d e comparison drift r6) (fail_evaluation fresh j r6) act_return) t6"
          by (rule stage_within [OF cur6]) (rule act_within_return)
      qed
    qed
  qed
qed

lemma run_evaluation_within:
  assumes cur: "current cx s r" and cx: "cx_project_id cx \<noteq> None" and providers: "providers_within (ve_registry (ew_env w))"
  shows "act_within evaluation_move (run_evaluation w fresh j cx r) s"
  unfolding run_evaluation_def
proof (rule stage_within [OF cur begin_stage(1) [OF cur]])
  fix r1 t1 assume "begin_evaluation fresh j r s = (Inr r1, t1)"
  with begin_stage(3) [OF cur] have cur1: "current cx t1 r1" by blast
  have cancel: "act_within evaluation_move (act_try (cancel_evaluation fresh j q) (fail_evaluation fresh j q) act_return) t"
    if "current cx t q" for t q
    by (rule stage_within [OF that cancel_evaluation_within [OF that] act_within_return])
  have rest: "act_within evaluation_move (act_try (produce_evaluation w fresh j cx r1) (fail_evaluation fresh j r1) (\<lambda>(e, r2).
       if rp_cancel_requested_at r2 \<noteq> None
       then act_try (cancel_evaluation fresh j r2) (fail_evaluation fresh j r2) act_return
       else govern_evaluation w fresh j cx e r2)) t1"
  proof (rule stage_within [OF cur1 produce_evaluation_stage(1) [OF cur1 providers cx]], clarify)
    fix e r2 t2 assume "produce_evaluation w fresh j cx r1 t1 = (Inr (e, r2), t2)"
    with produce_evaluation_stage(2) [OF cur1 providers cx] cancel govern_evaluation_within [OF _ _ cx]
    show "act_within evaluation_move (if rp_cancel_requested_at r2 \<noteq> None
       then act_try (cancel_evaluation fresh j r2) (fail_evaluation fresh j r2) act_return
       else govern_evaluation w fresh j cx e r2) t2" by presburger
  qed
  from rest cancel [OF cur1] show "act_within evaluation_move (if rp_status r1 \<notin> {RPS_EVALUATING, RPS_COMPARING}
     then act_return (failed_result j (''Replay cannot be evaluated from '' @ replay_status_value (rp_status r1) @ ''.''))
     else if rp_cancel_requested_at r1 \<noteq> None
     then act_try (cancel_evaluation fresh j r1) (fail_evaluation fresh j r1) act_return
     else act_try (produce_evaluation w fresh j cx r1) (fail_evaluation fresh j r1) (\<lambda>(e, r2).
       if rp_cancel_requested_at r2 \<noteq> None
       then act_try (cancel_evaluation fresh j r2) (fail_evaluation fresh j r2) act_return
       else govern_evaluation w fresh j cx e r2)) t1" by (simp add: act_within_return)
qed

lemma handle_evaluation_current:
  assumes "evaluation_inv s" "job_tenant missing j = Inr cx"
    "get_replay (rs_replays (vs_replay s)) i (cx_organization_id cx) (cx_project cx) = Some r"
    "\<not> (rp_status r = RPS_COMPLETED \<and> truthy (rp_result_id r))"
  shows "current cx s r" "cx_project_id cx \<noteq> None" "rp_replay_id r = i"
proof -
  have "replay_repo_inv (rs_replays (vs_replay s))" using assms(1) by (simp add: evaluation_inv_def replay_system_inv_def replays_ok_def)
  with assms(3) have r: "dict_get (rs_replays (vs_replay s)) (rp_replay_id r) = Some r" "rp_replay_id r = i"
    "rp_organization_id r = cx_organization_id cx" "rp_project_id r = cx_project cx"
    by (auto simp: get_replay_def replay_repo_inv_def split: option.splits if_splits)
  have "replay_inv r"
    using r(1) assms(1) by (auto simp: evaluation_inv_def replay_system_inv_def replays_ok_def replay_ok_def)
  then have "rp_status r \<noteq> RPS_COMPLETED" using assms(4) by (auto simp: replay_inv_def replay_evidenced_def)
  with r show "current cx s r" "rp_replay_id r = i" using assms(1) follows_stored by (auto simp: current_def)
  show "cx_project_id cx \<noteq> None" using assms(2) by (auto simp: job_tenant_def split: option.splits)
qed

lemma handle_evaluation_within:
  assumes "evaluation_inv s" "providers_within (ve_registry (ew_env w))"
  shows "act_within evaluation_move (handle_evaluation w fresh j) s"
  using run_evaluation_within [OF handle_evaluation_current(1,2) assms(2)] assms(1)
  unfolding act_within_def handle_evaluation_def by (auto split: sum.splits option.splits)

end
