(* ===== verification/Scenario.thy ===== *)
theory Scenario
  imports Governance_System
begin

text \<open>
  A concrete deployment on which the properties are exercised: one tenant, one running execution, a
  policy for authorizing claim updates, a policy for issuing delegations, and a delegation. Each
  theorem applies a property of the development at this deployment and discharges its hypotheses there.
\<close>

section \<open>Clock, tenant and parameters\<close>

definition float_text :: "rat \<Rightarrow> string" where
  "float_text r = (if r = 0 then ''0.0'' else ''1.0'')"

definition clock :: "int \<Rightarrow> datetime" where
  "clock seconds = \<lparr>micros = 1750000000000000 + seconds * 1000000, tz_aware = True\<rparr>"

definition tenant :: tenant_context where
  "tenant = \<lparr>cx_organization_id = ''org-1'', cx_project_id = Some ''proj-1'', cx_actor_id = ''runtime-1'',
     cx_request_id = ''req-1'', cx_correlation_id = None\<rparr>"

definition env :: service_env where
  "env = \<lparr>se_allowed = (\<lambda>_ _. True), se_windows = (\<lambda>_ _. []), se_lateness_hours = (\<lambda>_. 24)\<rparr>"

section \<open>Policies\<close>

definition same_actor :: policy_condition where
  "same_actor = \<lparr>pc_field_path = ''action.id'', pc_operator = EQUALS,
     pc_expected_value = PStr ''claims.update'', pc_metadata = []\<rparr>"

definition approve_rule :: policy_rule where
  "approve_rule = \<lparr>pr_rule_id = ''r1'', pr_name = ''allow updates'', pr_conditions = [same_actor],
     pr_effect = APPROVE, pr_reason_template = ''ok'', pr_priority = 10, pr_metadata = []\<rparr>"

definition block_rule :: policy_rule where
  "block_rule = \<lparr>pr_rule_id = ''r0'', pr_name = ''risk'', pr_conditions =
       [\<lparr>pc_field_path = ''agent_context.risk'', pc_operator = GREATER_THAN,
         pc_expected_value = PInt 5, pc_metadata = []\<rparr>],
     pr_effect = BLOCK, pr_reason_template = ''too risky'', pr_priority = 1, pr_metadata = []\<rparr>"

definition policy_given :: "string \<Rightarrow> (string \<times> pyval) list \<Rightarrow> policy_definition" where
  "policy_given name metadata =
     \<lparr>pd_policy_id = [], pd_organization_id = ''org-1'', pd_project_id = ''proj-1'', pd_name = name,
      pd_description = None, pd_category = CAT_SECURITY, pd_owner = ''sec'', pd_created_by = ''admin'',
      pd_created_at = clock 0, pd_updated_at = clock 0, pd_metadata = metadata\<rparr>"

definition authorization_metadata :: "(string \<times> pyval) list" where
  "authorization_metadata =
     [(''runtime_action_authorization'', PDict
        [(''purpose'', PStr ''runtime_action_authorization''),
         (''registered_actions'', PList [PStr ''claims.update'']),
         (''registered_resource_types'', PList [PStr ''sqlite.row''])]),
      (''runtime_action_delegation_issuance'', PDict
        [(''purpose'', PStr ''runtime_action_delegation_issuance'')])]"

definition draft_policies :: policy_repo where
  "draft_policies = snd (create_policy (clock 0) ''p1'' (policy_given ''updates'' authorization_metadata)
     [AGENT_EXECUTION] [block_rule, approve_rule] empty_policy_repo)"

definition policies :: policy_repo where
  "policies = snd (activate_version (clock 1) (clock 1) ''p1'' ''1'' ''admin'' draft_policies)"

lemma rules_ok: "\<forall>r \<in> set [block_rule, approve_rule]. rule_ok r"
  by code_simp

lemma draft_reached: "policy_service_step empty_policy_repo draft_policies"
  by (rule policy_service_step.intros(1) [OF rules_ok]) (simp add: draft_policies_def prod_eq_iff)

definition the_definition :: policy_definition where
  "the_definition = (policy_given ''updates'' authorization_metadata)\<lparr>pd_policy_id := ''p1'', pd_updated_at := clock 1\<rparr>"

definition the_version :: policy_version where
  "the_version =
     \<lparr>pv_policy_id = ''p1'', pv_version = ''1'', pv_status = PS_ACTIVE, pv_target_types = [AGENT_EXECUTION],
      pv_rules = [block_rule, approve_rule], pv_created_by = ''admin'', pv_created_at = clock 0,
      pv_activated_at = Some (clock 1), pv_deprecated_at = None, pv_archived_at = None,
      pv_metadata = [(''activated_by'', PStr ''admin'')]\<rparr>"

lemma policies_value: "policies = \<lparr>pa_definitions = [(''p1'', the_definition)], pa_versions = [((''p1'', ''1''), the_version)]\<rparr>"
  by code_simp

lemma activated: "\<exists>dt. activate_version (clock 1) (clock 1) ''p1'' ''1'' ''admin'' draft_policies = (Inr dt, policies)"
proof -
  have "isl (fst (activate_version (clock 1) (clock 1) ''p1'' ''1'' ''admin'' draft_policies)) = False" by code_simp
  then show ?thesis
    by (cases "fst (activate_version (clock 1) (clock 1) ''p1'' ''1'' ''admin'' draft_policies)")
      (auto simp: policies_def prod_eq_iff)
qed

lemma candidates_value: "candidate_definitions policies tenant = [(the_definition, the_version)]"
  by code_simp

section \<open>The execution and the delegation\<close>

definition run1 :: agent_execution where
  "run1 = \<lparr>ex_execution_id = ''ex-1'', ex_organization_id = ''org-1'', ex_project_id = Some ''proj-1'',
     ex_agent_id = ''agent-1'', ex_agent_name = ''claims'', ex_agent_version = ''1'',
     ex_external_execution_id = ''ext-1'', ex_runtime_provider = ''langgraph'', ex_status = EX_RUNNING,
     ex_started_at = clock 0, ex_completed_at = None, ex_correlation_id = Some ''corr-1'',
     ex_parent_execution_id = None, ex_created_at = clock 0, ex_updated_at = clock 0,
     ex_metadata = [], ex_version = 1\<rparr>"

definition trace0 :: trace_store where
  "trace0 = \<lparr>ts_executions = \<lparr>xr_by_id = [(''ex-1'', run1)], xr_by_external = [((''ext-1'', ''langgraph''), ''ex-1'')]\<rparr>,
     ts_events = empty_event_repo\<rparr>"

lemma trace0_inv: "trace_inv fr trace0"
proof -
  have "execution_ok run1" by code_simp
  then show ?thesis
    by (simp add: trace_inv_def trace0_def execution_repo_inv_def)
      (simp add: run1_def empty_event_repo_def)
qed

definition issuer :: tenant_context where
  "issuer = tenant\<lparr>cx_actor_id := ''issuer-1''\<rparr>"

definition claim_permission :: delegation_permission where
  "claim_permission = \<lparr>pm_action_id = ''claims.update'', pm_resource_type = ''sqlite.row'',
     pm_resource_references = [''claim:7'']\<rparr>"

definition claim_registration :: delegation_registration where
  "claim_registration = \<lparr>rg_execution_id = ''ex-1'', rg_runtime_actor_id = ''runtime-1'',
     rg_permissions = [claim_permission], rg_expires_at = clock 3600, rg_idempotency_key = ''reg-1''\<rparr>"

definition grant_terms :: delegation where
  "grant_terms =
     \<lparr>dg_delegation_id = ''del-1'', dg_version = ''1'', dg_organization_id = ''org-1'',
      dg_project_id = ''proj-1'', dg_execution_id = ''ex-1'', dg_issuer_id = ''issuer-1'',
      dg_runtime_actor_id = ''runtime-1'', dg_permissions = [claim_permission],
      dg_issued_at = clock 2, dg_expires_at = clock 3600, dg_contract_digest = [],
      dg_idempotency_key = ''reg-1'', dg_status = DG_ACTIVE, dg_revoked_at = None,
      dg_revoked_by = None, dg_revocation_reference = None,
      dg_schema_version = delegation_schema_version\<rparr>"

definition grant :: delegation where
  "grant = grant_terms\<lparr>dg_contract_digest := compute_contract_digest grant_terms\<rparr>"

definition grants :: delegation_repo where
  "grants = \<lparr>dr_items = [((''org-1'', ''proj-1'', ''del-1''), grant)],
     dr_by_idempotency = [((''org-1'', ''proj-1'', ''reg-1''), grant)]\<rparr>"

lemma scenario_identifiers:
  "match_identifier 127 ''del-1''" "match_identifier 127 ''1''" "match_identifier 127 ''org-1''"
  "match_identifier 127 ''proj-1''" "match_identifier 127 ''ex-1''" "match_identifier 127 ''issuer-1''"
  "match_identifier 127 ''runtime-1''" "match_identifier 127 ''reg-1''" "match_identifier 127 ''p1''"
  "match_identifier 127 ''dec-1''" "match_identifier 127 ''claims.update''" "match_identifier 127 ''key-1''"
  "match_identifier 127 ''corr-1''" "match_identifier 127 ''ALLOW_POLICY_MATCHED''"
  "match_identifier 127 ''DELEGATION_REVOKED''" "match_identifier 127 ''dec-2''" "match_identifier 127 ''key-2''"
  by code_simp+

lemma tenant_fields [simp]:
  "cx_organization_id tenant = ''org-1''" "cx_project_id tenant = Some ''proj-1''"
  "cx_actor_id tenant = ''runtime-1''" "cx_correlation_id tenant = None"
  "cx_organization_id issuer = ''org-1''" "cx_project_id issuer = Some ''proj-1''"
  "cx_actor_id issuer = ''issuer-1''" "cx_correlation_id issuer = None"
  by (simp_all add: issuer_def tenant_def)

lemma claim_registration_fields [simp]:
  "rg_execution_id claim_registration = ''ex-1''" "rg_runtime_actor_id claim_registration = ''runtime-1''"
  "rg_permissions claim_registration = [claim_permission]" "rg_expires_at claim_registration = clock 3600"
  "rg_idempotency_key claim_registration = ''reg-1''"
  by (simp_all add: claim_registration_def)

lemma grant_fields [simp]:
  "dg_delegation_id grant = ''del-1''" "dg_version grant = ''1''" "dg_organization_id grant = ''org-1''"
  "dg_project_id grant = ''proj-1''" "dg_execution_id grant = ''ex-1''" "dg_issuer_id grant = ''issuer-1''"
  "dg_runtime_actor_id grant = ''runtime-1''" "dg_permissions grant = [claim_permission]"
  "dg_issued_at grant = clock 2" "dg_expires_at grant = clock 3600"
  "dg_contract_digest grant = compute_contract_digest grant" "dg_idempotency_key grant = ''reg-1''"
  "dg_status grant = DG_ACTIVE" "dg_revoked_at grant = None" "dg_revoked_by grant = None"
  "dg_revocation_reference grant = None" "dg_schema_version grant = delegation_schema_version"
proof -
  show "dg_contract_digest grant = compute_contract_digest grant" by (simp add: grant_def)
qed (simp_all add: grant_def, simp_all add: grant_terms_def)

lemma clock_fields [simp]:
  "tz_aware (clock n)" "micros (clock n) = 1750000000000000 + n * 1000000"
  by (simp_all add: clock_def)

lemma grant_ok: "delegation_ok grant"
  unfolding delegation_ok_def delegation_checks_def by (simp add: scenario_identifiers)

lemma claim_registered:
  "register_delegation (ts_executions trace0) policies (clock 2, ''del-1'') claim_registration issuer
     empty_delegation_repo = (Inr grant, grants)"
proof -
  have "issuer_permitted policies claim_permission ''runtime-1'' issuer = Inr True" by code_simp
  moreover have "create_runtime_action_delegation ''del-1'' ''org-1'' ''proj-1'' ''ex-1'' ''issuer-1'' ''runtime-1''
      [claim_permission] (clock 2) (clock 3600) ''reg-1'' ''1'' = Inr grant"
    using grant_ok
    by (simp add: create_runtime_action_delegation_def Let_def new_delegation_Inr_iff)
      (simp add: grant_def grant_terms_def)
  ultimately have "registered_delegation policies (clock 2) ''del-1'' claim_registration issuer = Inr grant"
    by (simp add: registered_delegation_def dt_le_def)
  moreover have "get_execution (ts_executions trace0) ''ex-1'' ''org-1'' (Some ''proj-1'') = Some run1"
    by code_simp
  ultimately show ?thesis
    by (simp add: register_delegation_def save_delegation_def find_delegation_by_idempotency_key_def
        empty_delegation_repo_def grants_def dg_identity_def dg_idempotency_def)
qed

lemma grants_inv: "delegation_repo_inv grants"
proof -
  have "delegation_repo_step empty_delegation_repo grants"
    by (rule step_save [OF grant_ok, of _ "Inr grant"])
      (simp add: save_delegation_def empty_delegation_repo_def grants_def dg_identity_def dg_idempotency_def)
  then show ?thesis by (rule delegation_repo_step_inv) simp
qed

section \<open>The request and its decision\<close>

definition args_digest :: string where
  "args_digest = ''sha256:'' @ replicate 64 CHR ''a''"

definition claim_resource :: runtime_action_resource where
  "claim_resource = \<lparr>rs_resource_type = ''sqlite.row'', rs_resource_reference = ''claim:7''\<rparr>"

definition claim_request :: authorization_request where
  "claim_request =
     \<lparr>rq_execution_id = ''ex-1'', rq_action_id = ''claims.update'', rq_resource = claim_resource,
      rq_idempotency_key = ''key-1'', rq_delegation_id = Some ''del-1'', rq_delegation_version = Some ''1'',
      rq_delegation_digest = Some (compute_contract_digest grant),
      rq_tool_arguments_digest = Some args_digest, rq_context = [(''risk'', PInt 2)],
      rq_correlation_id = None, rq_policy_id = None, rq_expected_policy_version = None,
      rq_schema_version = authorization_schema_version\<rparr>"

definition claim_decision :: authorization_decision where
  "claim_decision =
     \<lparr>dc_decision_id = ''dec-1'', dc_outcome = ALLOW, dc_reason_code = ''ALLOW_POLICY_MATCHED'',
      dc_execution_id = ''ex-1'', dc_correlation_id = Some ''corr-1'', dc_action_id = ''claims.update'',
      dc_resource = claim_resource, dc_actor_id = ''runtime-1'', dc_idempotency_key = ''key-1'',
      dc_request_fingerprint = fingerprint float_text claim_request, dc_decided_at = clock 10,
      dc_expires_at = clock 310, dc_delegation_id = Some ''del-1'', dc_delegation_version = Some ''1'',
      dc_delegation_digest = Some (compute_contract_digest grant), dc_tool_arguments_digest = Some args_digest,
      dc_evaluated_policies = [(''p1'', ''1'')], dc_policy_id = Some ''p1'', dc_policy_version = Some ''1'',
      dc_schema_version = authorization_schema_version\<rparr>"

definition claim_verdict :: verdict where
  "claim_verdict = \<lparr>vd_outcome = ALLOW, vd_reason_code = ''ALLOW_POLICY_MATCHED'', vd_policy_id = Some ''p1'',
     vd_policy_version = Some ''1'', vd_delegation = Some grant, vd_evaluated_policies = [(''p1'', ''1'')]\<rparr>"

lemma claim_request_fields [simp]:
  "rq_execution_id claim_request = ''ex-1''" "rq_action_id claim_request = ''claims.update''"
  "rq_resource claim_request = claim_resource" "rq_idempotency_key claim_request = ''key-1''"
  "rq_delegation_id claim_request = Some ''del-1''" "rq_delegation_version claim_request = Some ''1''"
  "rq_delegation_digest claim_request = Some (compute_contract_digest grant)"
  "rq_tool_arguments_digest claim_request = Some args_digest" "rq_context claim_request = [(''risk'', PInt 2)]"
  "rq_correlation_id claim_request = None" "rq_policy_id claim_request = None"
  "rq_expected_policy_version claim_request = None"
  by (simp_all add: claim_request_def)

lemma claim_resource_fields [simp]:
  "rs_resource_type claim_resource = ''sqlite.row''" "rs_resource_reference claim_resource = ''claim:7''"
  by (simp_all add: claim_resource_def)

lemma args_digest_ok: "match_sha256 args_digest"
  by code_simp

lemma delegation_resolved: "resolve_delegation (Some grants) claim_request tenant (clock 10) = Inr (Inr grant)"
  by (simp add: resolve_delegation_Inr_iff usable_delegation_def permits_True_iff get_delegation_def grants_def
      project_or_empty_def permission_covers_def claim_permission_def)

definition claim_evidence :: "string \<Rightarrow> (string \<times> pyval) list" where
  "claim_evidence digest =
     [(''action'', PDict [(''id'', PStr ''claims.update'')]),
      (''resource'', PDict [(''type'', PStr ''sqlite.row''), (''reference'', PStr ''claim:7'')]),
      (''actor'', PDict [(''id'', PStr ''runtime-1'')]),
      (''delegation'', PDict [(''id'', PStr ''del-1''), (''version'', PStr ''1''), (''digest'', PStr digest),
         (''issuer_id'', PStr ''issuer-1''), (''runtime_actor_id'', PStr ''runtime-1'')]),
      (''agent_context'', PDict [(''risk'', PInt 2)])]"

lemma claim_evaluated:
  "evaluate_policies \<lparr>ec_target_type = AGENT_EXECUTION, ec_target_id = ''ex-1'', ec_evidence = claim_evidence digest\<rparr>
     [(the_definition, the_version)] [] None =
   Some ([\<lparr>pm_priority = 10, pm_policy_id = ''p1'', pm_definition = the_definition, pm_version = the_version,
          pm_effect = APPROVE\<rparr>], None)"
  by code_simp

lemma claim_selected: "select_policies policies claim_request tenant = Inr [(the_definition, the_version)]"
proof -
  have "registration the_definition = Some ([''claims.update''], [''sqlite.row''])" by code_simp
  then have "policy_applies claim_request (the_definition, the_version)"
    by (simp add: policy_applies_def the_version_def)
  then show ?thesis by (simp add: select_policies_Inr_iff candidates_value)
qed

lemma claim_judged: "evaluate_request policies (Some grants) claim_request tenant (clock 10) = Inr claim_verdict"
proof -
  have "authorization_context claim_request tenant grant =
      \<lparr>ec_target_type = AGENT_EXECUTION, ec_target_id = ''ex-1'', ec_evidence = claim_evidence (compute_contract_digest grant)\<rparr>"
    by (simp add: authorization_context_def authorization_evidence_def claim_evidence_def)
  then show ?thesis
    by (simp add: evaluate_request_def delegation_resolved claim_selected judge_policies_def claim_evaluated
        combine_matches_def is_deny_match_def claim_verdict_def del: evaluate_policies.simps)
      (simp add: the_definition_def the_version_def)
qed

lemma claim_decision_ok: "decision_ok claim_decision"
  unfolding decision_ok_def decision_checks_def
  by (simp add: claim_decision_def scenario_identifiers partial_binding_def args_digest_ok)

lemma claim_decided:
  "authorization_decision_of 300000000 ''dec-1'' claim_request tenant (Some ''corr-1'') (clock 10)
     (fingerprint float_text claim_request) claim_verdict = Inr claim_decision"
proof -
  have "dt_plus (clock 10) 300000000 = Inr (clock 310)" by code_simp
  with claim_decision_ok show ?thesis
    by (simp add: authorization_decision_of_def new_decision_Inr_iff claim_verdict_def)
      (simp add: claim_decision_def outcome_of_value_def decision_ok_def decision_checks_def)
qed

definition claim_event :: execution_event where
  "claim_event = decision_event float_text trace0 claim_decision claim_request tenant
     (fingerprint float_text claim_request)"

definition trace1 :: trace_store where
  "trace1 = trace0\<lparr>ts_events := append_event claim_event (Some (event_idempotency_key ''key-1'')) empty_event_repo\<rparr>"

lemma claim_decision_fields [simp]:
  "dc_decision_id claim_decision = ''dec-1''" "dc_outcome claim_decision = ALLOW"
  "dc_execution_id claim_decision = ''ex-1''" "dc_correlation_id claim_decision = Some ''corr-1''"
  "dc_resource claim_decision = claim_resource" "dc_decided_at claim_decision = clock 10"
  "dc_expires_at claim_decision = clock 310" "dc_tool_arguments_digest claim_decision = Some args_digest"
  by (simp_all add: claim_decision_def)

lemma not_blank_reference: "\<not> blank ''sqlite.row:claim:7''" "\<not> blank ''dec-1''" "\<not> blank ''ex-1''" "\<not> blank ''org-1''"
  "\<not> blank ''proj-1''"
  by code_simp+

lemma claim_event_ok: "event_ok claim_event"
  unfolding event_ok_def event_checks_def claim_event_def decision_event_def platform_event_def
  by (simp add: decision_attributes_allowed require_filled_def not_blank_reference max_sequence_number_nonneg
      raise_if_before_def dt_less_def trace0_def max_sequence_number_def empty_event_repo_def)

lemma claim_authorized:
  "authorize float_text 300000000 (Some grants) policies (clock 10, ''dec-1'') claim_request tenant trace0
     = (Inr claim_decision, trace1)"
proof -
  have "cx_get_execution trace0 ''ex-1'' tenant = Some run1" by code_simp
  moreover have "resolve_correlation_id claim_request tenant run1 = Inr (Some ''corr-1'')"
    by (simp add: resolve_correlation_id_def run1_def str_or_def)
  moreover have "find_decision_event trace0 claim_request tenant = None"
    by (simp add: find_event_by_idempotency_key_def trace0_def empty_event_repo_def)
  moreover have "new_event claim_event = Inr claim_event" using claim_event_ok by (simp add: new_event_Inr_iff)
  moreover have "save_event claim_event (Some (event_idempotency_key ''key-1'')) empty_event_repo
      = (Inr claim_event, append_event claim_event (Some (event_idempotency_key ''key-1'')) empty_event_repo)"
    by (simp add: save_event_def empty_event_repo_def tool_call_key_def claim_event_def decision_event_def platform_event_def)
  moreover have "ts_events trace0 = empty_event_repo" by (simp add: trace0_def)
  ultimately show ?thesis
    by (simp add: authorize_def authorize_new_def claim_judged claim_decided claim_event_def [symmetric]
        act_on_apply trace1_def)
qed

lemma trace1_new: "trace1 \<noteq> trace0"
  by (simp add: trace1_def trace0_def empty_event_repo_def append_event_def)

end
