(* ===== verification/Witnesses_Policy.thy ===== *)
theory Witnesses_Policy
  imports Scenario
begin

text \<open>The properties of policies and their administration at the policy of the scenario.\<close>

definition the_policy :: governance_policy where
  "the_policy = \<lparr>gp_policy_id = ''p1'', gp_version = ''1'', gp_name = ''updates'', gp_description = None,
     gp_status = PS_ACTIVE, gp_target_types = [AGENT_EXECUTION], gp_rules = [approve_rule, block_rule],
     gp_created_by = ''admin'', gp_created_at = clock 0, gp_metadata = []\<rparr>"

definition the_context :: evaluation_context where
  "the_context = \<lparr>ec_target_type = AGENT_EXECUTION, ec_target_id = ''ex-1'', ec_evidence = claim_evidence ''d''\<rparr>"

definition the_outcome :: evaluation_outcome where
  "the_outcome = \<lparr>eo_policy_id = ''p1'', eo_policy_version = ''1'', eo_matched_rule_id = Some ''r1'',
     eo_effect = APPROVE, eo_reason = ''ok'', eo_matched = True, eo_rule_priority = Some 10\<rparr>"

theorem evaluate_with_trace_refines_witness:
  "\<exists>t. evaluate_with_trace the_policy the_context = Inr t \<and> to_outcome t = the_outcome
     \<and> map (\<lambda>i. (ti_rule_id i, ti_field_path i, ti_operator i, ti_matched i)) (to_evaluation_trace t)
       = concat (map (\<lambda>r. map (\<lambda>c. (pr_rule_id r, pc_field_path c, pc_operator c, condition_matches c (ec_evidence the_context)))
           (pr_conditions r)) (examined_rules the_policy the_context))
     \<and> length (examined_rules the_policy the_context) = 2"
proof -
  have rules: "\<forall>r \<in> set (gp_rules the_policy). rule_ok r" and run: "evaluate the_policy the_context = Inr the_outcome"
    by code_simp+
  have two: "length (examined_rules the_policy the_context) = 2" by code_simp
  from evaluate_with_trace_refines [OF rules, of the_context] two show ?thesis unfolding run by auto
qed

theorem policy_service_invariant_witness: "policy_repo_inv draft_policies"
  by (rule policy_service_invariant) (use draft_reached in blast)

lemma draft_policies_inv: "policy_repo_inv draft_policies"
  using policy_service_step_within [OF draft_reached] policy_versions.inv_run by auto


lemma policies_inv: "policy_repo_inv policies"
proof -
  have "policy_service_step draft_policies policies"
    using activated by (auto intro: policy_service_step.intros(4))
  from policy_service_step_within [OF this draft_policies_inv] draft_policies_inv show ?thesis
    using policy_versions.inv_run by blast
qed

definition archived_policies :: policy_repo where
  "archived_policies = snd (archive_version (clock 9) (clock 9) ''p1'' ''1'' ''admin'' policies)"

theorem released_version_frozen_witness:
  "map_option pv_status (get_version archived_policies ''p1'' ''1'') = Some PS_ARCHIVED
   \<and> (\<exists>w. get_version archived_policies ''p1'' ''1'' = Some w \<and> pv_rules w = [block_rule, approve_rule])"
proof -
  have "policy_service_step policies archived_policies"
    by (rule policy_service_step.intros(5)) (simp add: archived_policies_def prod_eq_iff)
  then have run: "policy_service_step\<^sup>*\<^sup>* policies archived_policies" by blast
  have v: "get_version policies ''p1'' ''1'' = Some the_version" "pv_status the_version \<noteq> PS_DRAFT"
    by (simp_all add: policies_value get_version_def the_version_def)
  have "map_option pv_status (get_version archived_policies ''p1'' ''1'') = Some PS_ARCHIVED" by code_simp
  moreover have "pv_rules the_version = [block_rule, approve_rule]" by (simp add: the_version_def)
  ultimately show ?thesis using released_version_frozen [OF policies_inv run v] by auto
qed

end
