(* ===== verification/Witnesses_Authorization.thy ===== *)
theory Witnesses_Authorization
  imports Witnesses_Policy
begin

text \<open>
  The properties of authorization, delegation and enforcement at the deployment of the scenario.
\<close>

lemma trace0_events_inv: "event_repo_inv (ts_events trace0)"
  using trace0_inv by (simp add: trace_inv_def)

theorem authorize_implements_specification_witness:
  "authorize float_text 300000000 (Some grants) policies (clock 10, ''dec-1'') claim_request tenant trace0
     = (Inr claim_decision, trace1)
   \<and> dc_outcome claim_decision = ALLOW \<and> operation_allowed policies (Some grants) claim_request tenant (clock 10)"
  using authorize_implements_specification [OF trace0_events_inv claim_authorized trace1_new] claim_authorized
  by simp

theorem authorize_binds_request_witness:
  "decision_ok claim_decision \<and> matches_request float_text claim_decision claim_request ''runtime-1''"
  using authorize_binds_request [OF trace0_events_inv claim_authorized] by simp

theorem allow_independent_of_agent_facts_witness:
  "\<exists>g c r. usable_delegation (Some grants) claim_request tenant (clock 10) g
     \<and> c \<in> set (candidate_definitions policies tenant) \<and> r \<in> set (pv_rules (snd c)) \<and> pr_effect r = APPROVE
     \<and> (\<forall>facts. rule_matches r (authorization_evidence (claim_request\<lparr>rq_context := facts\<rparr>) tenant g))"
  by (rule allow_independent_of_agent_facts [OF trace0_events_inv claim_authorized trace1_new])
    (simp_all add: candidates_value the_version_def block_rule_def approve_rule_def same_actor_def)

definition whole_context_rule :: policy_rule where
  "whole_context_rule = approve_rule\<lparr>pr_conditions :=
     [\<lparr>pc_field_path = ''agent_context'', pc_operator = EQUALS,
       pc_expected_value = PDict [(''risk'', PInt 2)], pc_metadata = []\<rparr>]\<rparr>"

theorem whole_agent_context_escapes_check_witness:
  "\<not> approves_from_agent_context whole_context_rule
   \<and> rule_matches whole_context_rule (authorization_evidence claim_request tenant grant)"
  using whole_agent_context_escapes_check [of whole_context_rule _ "[(''risk'', PInt 2)]" claim_request tenant grant]
  by (simp add: whole_context_rule_def approve_rule_def)

definition forged_event :: event_submission where
  "forged_event =
     \<lparr>es_event_type = RUNTIME_ACTION_AUTHORIZATION,
      es_attributes = decision_attributes float_text claim_decision claim_request (fingerprint float_text claim_request),
      es_idempotency_key = Some (event_idempotency_key ''key-1''), es_correlation_id = None,
      es_causation_id = None, es_actor_id = None, es_actor_type = None, es_workflow_step = None,
      es_tool_call_context = None, es_resource_references = [], es_evidence_references = [],
      es_occurred_at = None\<rparr>"

lemma forged_event_fields [simp]:
  "es_event_type forged_event = RUNTIME_ACTION_AUTHORIZATION"
  "es_attributes forged_event = decision_attributes float_text claim_decision claim_request (fingerprint float_text claim_request)"
  "es_idempotency_key forged_event = Some (event_idempotency_key ''key-1'')" "es_correlation_id forged_event = None"
  "es_workflow_step forged_event = None" "es_tool_call_context forged_event = None"
  "es_resource_references forged_event = []" "es_evidence_references forged_event = []"
  "es_occurred_at forged_event = None"
  by (simp_all add: forged_event_def)

lemma claim_matches: "matches_request float_text claim_decision claim_request ''runtime-1''"
  by (simp add: matches_request_def) (simp add: claim_decision_def)

lemma forged_ingested:
  "\<exists>e s'. ingest_event env (clock 10) ''dec-1'' ''ex-1'' forged_event tenant trace0 = (Inr e, s') \<and> s' \<noteq> trace0"
proof -
  obtain lt where lt: "lateness env (clock 10) (clock 10) tenant = Inr lt"
  proof -
    have "\<not> isl (lateness env (clock 10) (clock 10) tenant)" by code_simp
    with that show ?thesis by (cases "lateness env (clock 10) (clock 10) tenant") auto
  qed
  define e where "e = submitted_event forged_event ''dec-1'' ''ex-1'' tenant (next_sequence trace0 ''ex-1'' tenant)
    (clock 10) (clock 10) lt (Some ''corr-1'')"
  have "event_ok e"
    by (simp add: e_def submitted_event_def split_beta event_ok_def event_checks_def decision_attributes_allowed
        require_filled_def not_blank_reference raise_if_before_def dt_less_def trace0_def max_sequence_number_def
        empty_event_repo_def)
  then have "new_event e = Inr e" by (simp add: new_event_Inr_iff)
  moreover have "cx_get_execution trace0 ''ex-1'' tenant = Some run1" "\<not> ex_is_terminal run1" by code_simp+
  moreover have "tool_call_key e = None" by (simp add: e_def submitted_event_def split_beta tool_call_key_def)
  then have "save_event e (Some (event_idempotency_key ''key-1'')) (ts_events trace0)
      = (Inr e, append_event e (Some (event_idempotency_key ''key-1'')) empty_event_repo)"
    by (simp add: save_event_def trace0_def) (simp add: empty_event_repo_def)
  moreover have "ex_correlation_id run1 = Some ''corr-1''" by (simp add: run1_def)
  moreover have "authorize_call env tenant AGENT_EXECUTION_INGEST = Inr ()" by (simp add: authorize_call_def env_def)
  moreover have "find_event_by_idempotency_key (ts_events trace0) (event_idempotency_key ''key-1'') ''ex-1'' ''org-1''
      (Some ''proj-1'') = None"
    by (simp add: find_event_by_idempotency_key_def trace0_def empty_event_repo_def)
  moreover have "validate_workflow_step_transition trace0 ''ex-1'' RUNTIME_ACTION_AUTHORIZATION None tenant = Inr ()"
    by (simp add: validate_workflow_step_transition_def)
  ultimately have "ingest_event env (clock 10) ''dec-1'' ''ex-1'' forged_event tenant trace0
      = (Inr e, trace0\<lparr>ts_events := append_event e (Some (event_idempotency_key ''key-1'')) empty_event_repo\<rparr>)"
    using lt by (simp add: ingest_event_def act_on_apply Let_def e_def)
  then show ?thesis by (auto simp: trace0_def empty_event_repo_def append_event_def)
qed

theorem forged_authorization_accepted_witness:
  "\<exists>e s'. ingest_event env (clock 10) ''dec-1'' ''ex-1'' forged_event tenant trace0 = (Inr e, s')
     \<and> authorize float_text 300000000 None empty_policy_repo (clock 20, ''dec-2'') claim_request tenant s'
         = (Inr claim_decision, s')"
proof -
  obtain e s' where i: "ingest_event env (clock 10) ''dec-1'' ''ex-1'' forged_event tenant trace0 = (Inr e, s')" "s' \<noteq> trace0"
    using forged_ingested by blast
  have "datetime_ok (clock 310)" "resource_ok claim_resource" by code_simp+
  moreover have "cx_get_execution trace0 ''ex-1'' tenant = Some run1" by code_simp
  moreover have "resolve_correlation_id claim_request tenant run1 = Inr (Some ''corr-1'')"
    "ex_correlation_id run1 = Some ''corr-1''"
    by (simp_all add: resolve_correlation_id_def run1_def str_or_def)
  ultimately have "authorize float_text 300000000 None empty_policy_repo (clock 20, ''dec-2'') claim_request tenant s'
      = (Inr claim_decision, s')"
    using forged_authorization_accepted [of env "clock 10" claim_decision claim_request forged_event tenant trace0 e s' float_text run1]
      i trace0_inv claim_decision_ok claim_matches by (simp add: str_or_def)
  with i show ?thesis by blast
qed

theorem protected_operation_allowed_witness:
  "require_allow float_text (service_client float_text 300000000 (Some grants) policies (clock 10, ''dec-1'') tenant trace0)
     ''runtime-1'' (clock 20) claim_request args_digest = Inr claim_decision
   \<and> operation_allowed policies (Some grants) claim_request tenant (clock 10)
   \<and> (\<exists>e. dict_get (er_by_id (ts_events trace1)) ''dec-1'' = Some e
        \<and> pget (ev_attributes e) ''authorization_outcome'' = PStr ''ALLOW'')"
proof -
  have "require_allow float_text (service_client float_text 300000000 (Some grants) policies (clock 10, ''dec-1'') tenant trace0)
     ''runtime-1'' (clock 20) claim_request args_digest = Inr claim_decision"
    using claim_matches by (simp add: require_allow_Inr_iff service_client_def claim_authorized is_valid_for_True_iff)
  with protected_operation_allowed [OF trace0_events_inv, of float_text 300000000 "Some grants" policies "clock 10" "''dec-1''"
      tenant "clock 20" claim_request args_digest claim_decision trace1] claim_authorized trace1_new
  show ?thesis by auto
qed

theorem require_allow_fail_closed_witness:
  "require_allow float_text (\<lambda>_. Inr (Some claim_decision)) ''runtime-1'' (clock 20) claim_request args_digest = Inr claim_decision
   \<and> require_allow float_text (\<lambda>_. Inr (Some claim_decision)) ''runtime-2'' (clock 20) claim_request args_digest \<noteq> Inr claim_decision"
proof -
  have "require_allow float_text (\<lambda>_. Inr (Some claim_decision)) ''runtime-1'' (clock 20) claim_request args_digest = Inr claim_decision"
    using claim_matches claim_authorized by (simp add: require_allow_Inr_iff is_valid_for_True_iff)
  moreover from this have "dc_actor_id claim_decision = ''runtime-1''" using require_allow_fail_closed by blast
  ultimately show ?thesis using require_allow_fail_closed by auto
qed

section \<open>Delegations\<close>

lemma grants_new: "grants \<noteq> empty_delegation_repo"
  by (simp add: grants_def empty_delegation_repo_def)

theorem registration_authorized_witness:
  "delegation_ok grant \<and> dg_status grant = DG_ACTIVE \<and> dg_issuer_id grant = ''issuer-1''
   \<and> Some APPROVE \<in> candidate_effect (issuance_evidence issuer ''runtime-1'' claim_permission ''claim:7'')
        ` set (issuance_candidates policies issuer)"
  using registration_authorized [OF claim_registered grants_new]
  by (simp add: Let_def claim_permission_def)

theorem registration_retries_idempotent_witness:
  "delegation_registration.retries (ts_executions trace0) policies claim_registration issuer
     [(clock 3, ''del-2''), (clock 4, ''del-3'')] grants = (Inr [grant, grant], grants)"
  using registration_retries_idempotent [OF empty_delegation_repo_inv claim_registered,
      of "[(clock 3, ''del-2''), (clock 4, ''del-3'')]"]
  by (simp add: numeral_2_eq_2)

definition revoked_grant :: delegation where
  "revoked_grant = grant\<lparr>dg_status := DG_REVOKED, dg_revoked_at := Some (clock 50), dg_revoked_by := Some ''issuer-1'',
     dg_revocation_reference := Some ''incident-7''\<rparr>"

definition revoked_grants :: delegation_repo where
  "revoked_grants = \<lparr>dr_items = [((''org-1'', ''proj-1'', ''del-1''), revoked_grant)],
     dr_by_idempotency = [((''org-1'', ''proj-1'', ''reg-1''), revoked_grant)]\<rparr>"

lemma grant_revoked:
  "service_revoke_delegation (clock 50) ''del-1'' (Some ''incident-7'') issuer grants = (Inr revoked_grant, revoked_grants)"
proof -
  have "\<not> blank ''incident-7''" by code_simp
  then have "delegation_ok revoked_grant"
    unfolding delegation_ok_def delegation_checks_def by (simp add: revoked_grant_def scenario_identifiers)
  then have "new_delegation revoked_grant = Inr revoked_grant" by (simp add: new_delegation_Inr_iff)
  then show ?thesis
    by (simp add: service_revoke_delegation_def revoke_delegation_def project_or_empty_def grants_def
        revoked_grants_def revoked_grant_def [symmetric])
qed

theorem revocation_final_witness:
  "get_delegation revoked_grants ''del-1'' ''org-1'' (Some ''proj-1'') = Some revoked_grant
   \<and> permits revoked_grant ''runtime-1'' ''ex-1'' ''claims.update'' ''sqlite.row'' ''claim:7'' (clock 60) = Inr False"
  using revocation_final [OF grants_inv grant_revoked rtranclp.rtrancl_refl] by simp

theorem delegation_content_fixed_witness:
  "\<exists>d'. get_delegation revoked_grants ''del-1'' ''org-1'' (Some ''proj-1'') = Some d'
     \<and> grant_content d' = grant_content grant \<and> dg_contract_digest d' = compute_contract_digest grant"
proof (rule delegation_content_fixed [OF grants_inv])
  show "get_delegation grants ''del-1'' ''org-1'' (Some ''proj-1'') = Some grant"
    by (simp add: get_delegation_def grants_def project_or_empty_def)
  show "delegation_repo_step\<^sup>*\<^sup>* grants revoked_grants"
    using service_revoke_delegation_step [OF grant_revoked] by simp
qed

section \<open>After a revocation\<close>

definition deployment :: system where
  "deployment = \<lparr>sy_trace = trace0, sy_delegations = grants, sy_policies = policies\<rparr>"

definition revoked_deployment :: system where
  "revoked_deployment = deployment\<lparr>sy_delegations := revoked_grants\<rparr>"

lemma deployment_inv: "system_inv float_text deployment"
  by (simp add: system_inv_def deployment_def trace0_inv grants_inv policies_inv)

lemma deployment_fields [simp]:
  "sy_trace revoked_deployment = trace0" "sy_delegations revoked_deployment = revoked_grants"
  "sy_policies revoked_deployment = policies" "sy_delegations deployment = grants"
  by (simp_all add: revoked_deployment_def deployment_def)

definition refusal :: authorization_decision where
  "refusal = claim_decision\<lparr>dc_outcome := DENY, dc_reason_code := ''DELEGATION_REVOKED'', dc_decided_at := clock 60,
     dc_expires_at := clock 360, dc_delegation_id := None, dc_delegation_version := None, dc_delegation_digest := None,
     dc_evaluated_policies := [], dc_policy_id := None, dc_policy_version := None\<rparr>"

lemma refusal_decided:
  "evaluate_request policies (Some revoked_grants) claim_request tenant (clock 60) = Inr (deny ''DELEGATION_REVOKED'' None [])"
  "authorization_decision_of 300000000 ''dec-1'' claim_request tenant (Some ''corr-1'') (clock 60)
     (fingerprint float_text claim_request) (deny ''DELEGATION_REVOKED'' None []) = Inr refusal"
proof -
  show "evaluate_request policies (Some revoked_grants) claim_request tenant (clock 60) = Inr (deny ''DELEGATION_REVOKED'' None [])"
    by (simp add: evaluate_request_def resolve_delegation_def get_delegation_def revoked_grants_def project_or_empty_def
        revoked_grant_def)
  have "decision_ok refusal"
    unfolding decision_ok_def decision_checks_def
    by (simp add: refusal_def claim_decision_def scenario_identifiers partial_binding_def args_digest_ok)
  moreover have "dt_plus (clock 60) 300000000 = Inr (clock 360)" by code_simp
  ultimately show "authorization_decision_of 300000000 ''dec-1'' claim_request tenant (Some ''corr-1'') (clock 60)
     (fingerprint float_text claim_request) (deny ''DELEGATION_REVOKED'' None []) = Inr refusal"
    by (simp add: authorization_decision_of_def new_decision_Inr_iff deny_def)
      (simp add: refusal_def claim_decision_def outcome_of_value_def decision_ok_def decision_checks_def)
qed

lemma refusal_fields [simp]:
  "dc_decision_id refusal = ''dec-1''" "dc_execution_id refusal = ''ex-1''" "dc_resource refusal = claim_resource"
  "dc_decided_at refusal = clock 60" "dc_correlation_id refusal = Some ''corr-1''" "dc_outcome refusal = DENY"
  by (simp_all add: refusal_def)

lemma refused:
  "\<exists>t. authorize float_text 300000000 (Some revoked_grants) policies (clock 60, ''dec-1'') claim_request tenant trace0
     = (Inr refusal, t) \<and> t \<noteq> trace0"
proof -
  define e where "e = decision_event float_text trace0 refusal claim_request tenant (fingerprint float_text claim_request)"
  have "event_ok e"
    unfolding event_ok_def event_checks_def e_def decision_event_def platform_event_def
    by (simp add: decision_attributes_allowed require_filled_def not_blank_reference
        raise_if_before_def dt_less_def trace0_def max_sequence_number_def empty_event_repo_def)
  then have "new_event e = Inr e" by (simp add: new_event_Inr_iff)
  moreover have "cx_get_execution trace0 ''ex-1'' tenant = Some run1" by code_simp
  moreover have "resolve_correlation_id claim_request tenant run1 = Inr (Some ''corr-1'')"
    by (simp add: resolve_correlation_id_def run1_def str_or_def)
  moreover have "find_decision_event trace0 claim_request tenant = None"
    by (simp add: find_event_by_idempotency_key_def trace0_def empty_event_repo_def)
  moreover have "save_event e (Some (event_idempotency_key ''key-1'')) empty_event_repo
      = (Inr e, append_event e (Some (event_idempotency_key ''key-1'')) empty_event_repo)"
    by (simp add: save_event_def empty_event_repo_def tool_call_key_def e_def decision_event_def platform_event_def)
  moreover have "ts_events trace0 = empty_event_repo" by (simp add: trace0_def)
  ultimately have "authorize float_text 300000000 (Some revoked_grants) policies (clock 60, ''dec-1'') claim_request tenant trace0
      = (Inr refusal, trace0\<lparr>ts_events := append_event e (Some (event_idempotency_key ''key-1'')) empty_event_repo\<rparr>)"
    by (simp add: authorize_def authorize_new_def refusal_decided e_def [symmetric] act_on_apply)
  then show ?thesis by (auto simp: trace0_def empty_event_repo_def append_event_def)
qed

theorem revoked_delegation_never_authorizes_witness:
  "\<exists>t. authorize float_text 300000000 (Some (sy_delegations revoked_deployment)) (sy_policies revoked_deployment)
        (clock 60, ''dec-1'') claim_request tenant (sy_trace revoked_deployment) = (Inr refusal, t)
     \<and> t \<noteq> sy_trace revoked_deployment \<and> dc_outcome refusal = DENY"
proof -
  obtain t where t: "authorize float_text 300000000 (Some (sy_delegations revoked_deployment)) (sy_policies revoked_deployment)
        (clock 60, ''dec-1'') claim_request tenant (sy_trace revoked_deployment) = (Inr refusal, t)"
    "t \<noteq> sy_trace revoked_deployment" using refused by auto
  have revoke: "service_revoke_delegation (clock 50) ''del-1'' (Some ''incident-7'') issuer (sy_delegations deployment)
      = (Inr revoked_grant, revoked_grants)" using grant_revoked by simp
  have run: "(system_step float_text)\<^sup>*\<^sup>* (deployment\<lparr>sy_delegations := revoked_grants\<rparr>) revoked_deployment"
    by (simp add: revoked_deployment_def)
  have "dc_outcome refusal = DENY"
    by (rule revoked_delegation_never_authorizes [OF deployment_inv revoke run _ _ _ t]) simp_all
  with t show ?thesis by blast
qed

end
