(* ===== verification/Sha_Conformance.thy ===== *)
theory Sha_Conformance
  imports Execution_Service
begin

text \<open>
  The digest function of the model against published and recorded values: the test vector of FIPS
  180-4, and the identities of two receipts as \<open>hashlib\<close> computes them, one for an initial
  receipt and one for the receipt that supersedes it.
\<close>

lemma sha256_hex_abc:
  "sha256_hex ''abc'' = ''ba7816bf8f01cfea414140de5dae2223b00361a396177a9cb410ff61f20015ad''"
  by code_simp

definition first_receipt_id :: string where
  "first_receipt_id = ''receipt:8faa04043931a79c2cd62d08d872b4e934e59dd5891a44a893dd5730cce32832''"

definition second_receipt_id :: string where
  "second_receipt_id = ''receipt:107d069e407a5e0cb5b1e6b9976b91534e8f01633e7173b99ecc73480fed7769''"

lemma first_receipt_digest:
  "sha256_hex ''runtime-action-receipt:dec-1:call-1:initial'' = drop 8 first_receipt_id"
  by code_simp

lemma second_receipt_digest:
  "sha256_hex (''runtime-action-receipt:dec-1:call-1:'' @ first_receipt_id) = drop 8 second_receipt_id"
  by code_simp

lemma receipt_event_id_values:
  "receipt_event_id ''dec-1'' ''call-1'' None = first_receipt_id"
  "receipt_event_id ''dec-1'' ''call-1'' (Some first_receipt_id) = second_receipt_id"
  using first_receipt_digest second_receipt_digest
  by (simp_all add: receipt_event_id_def str_or_def first_receipt_id_def second_receipt_id_def)

end
