(* ===== verification/Witnesses_Trace.thy ===== *)
theory Witnesses_Trace
  imports Witnesses_Policy Sha_Conformance
begin

text \<open>
  The properties of the trace of an execution, its events and its receipts, at concrete stores.
\<close>

section \<open>Executions and events\<close>

definition received_run :: agent_execution where
  "received_run = run1\<lparr>ex_status := EX_RECEIVED, ex_version := 0\<rparr>"

definition succeeded_run :: agent_execution where
  "succeeded_run = run1\<lparr>ex_status := EX_SUCCEEDED, ex_completed_at := Some (clock 90), ex_updated_at := clock 90,
     ex_version := 0\<rparr>"

definition running_run :: agent_execution where
  "running_run = run1\<lparr>ex_updated_at := clock 5, ex_version := 0\<rparr>"

theorem execution_lifecycle_monotone_witness:
  "execution_edge\<^sup>*\<^sup>* EX_RECEIVED EX_SUCCEEDED"
proof -
  have "mark_running received_run (clock 5) = Inr running_run"
    "mark_terminal running_run EX_SUCCEEDED (clock 90) = Inr succeeded_run" by code_simp+
  then have "execution_step received_run running_run" "execution_step running_run succeeded_run"
    by (blast intro: execution_step.intros)+
  then have run: "execution_step\<^sup>*\<^sup>* received_run succeeded_run" by auto
  have "ex_status received_run = EX_RECEIVED" "ex_status succeeded_run = EX_SUCCEEDED"
    by (simp_all add: received_run_def succeeded_run_def)
  with execution_lifecycle_monotone [OF run] show ?thesis by simp
qed

definition model_call :: "string \<Rightarrow> int \<Rightarrow> execution_event" where
  "model_call event_id seq = platform_event event_id ''ex-1'' tenant MODEL_CALL seq (clock 5) None None None MODEL
     [(''usage'', PDict [(''input_tokens'', PInt 12)])]"

theorem event_attributes_private_witness:
  "normalize_key ''input_tokens'' \<notin> set prohibited_keys"
proof (rule event_attributes_private)
  show "new_event (model_call ''ev-1'' 1) = Inr (model_call ''ev-1'' 1)" by code_simp
  show "key_occurs ''input_tokens'' (PDict (ev_attributes (model_call ''ev-1'' 1)))"
    by (simp add: model_call_def platform_event_def key_occurs_Dict_Cons)
qed

definition store1 :: event_repo where
  "store1 = append_event (model_call ''ev-1'' 1) (Some ''k1'') empty_event_repo"

definition store2 :: event_repo where
  "store2 = append_event (model_call ''ev-2'' 2) None store1"

lemma store_steps: "event_repo_step empty_event_repo store1" "event_repo_step store1 store2"
proof -
  have "event_ok (model_call ''ev-1'' 1)" "event_ok (model_call ''ev-2'' 2)"
    "save_event (model_call ''ev-1'' 1) (Some ''k1'') empty_event_repo = (Inr (model_call ''ev-1'' 1), store1)"
    "save_event (model_call ''ev-2'' 2) None store1 = (Inr (model_call ''ev-2'' 2), store2)"
    by code_simp+
  then show "event_repo_step empty_event_repo store1" "event_repo_step store1 store2"
    by (blast intro: event_repo_step.intros)+
qed

theorem event_store_append_only_witness:
  "dict_get (er_by_id store2) ''ev-1'' = Some (model_call ''ev-1'' 1)
   \<and> dict_get (er_by_idempotency store2) (''k1'', ''ex-1'') = Some (model_call ''ev-1'' 1)
   \<and> distinct (map ev_event_id (events_of store2 ''ex-1''))"
proof -
  have "event_repo_inv store1" by (rule event_repo_step_inv [OF store_steps(1)]) simp
  moreover have "event_repo_step\<^sup>*\<^sup>* store1 store2" using store_steps(2) by blast
  moreover have "dict_get (er_by_id store1) ''ev-1'' = Some (model_call ''ev-1'' 1)"
    "dict_get (er_by_idempotency store1) (''k1'', ''ex-1'') = Some (model_call ''ev-1'' 1)" by code_simp+
  ultimately show ?thesis using event_store_append_only by blast
qed

definition tool_call :: execution_event where
  "tool_call = (platform_event ''ev-3'' ''ex-1'' tenant TOOL_CALL 3 (clock 6) None None None TOOL [])
     \<lparr>ev_tool_call_context := Some \<lparr>tc_schema_version = ''1'', tc_runtime_tool_call_id = ''call-1'',
        tc_tool_call_group_id = ''g'', tc_depends_on_tool_call_ids = []\<rparr>\<rparr>"

theorem runtime_tool_call_unique_witness:
  "{f. \<exists>i. dict_get (er_by_id (append_event tool_call None empty_event_repo)) i = Some f
        \<and> tool_call_key f = Some (''ex-1'', ''call-1'')} = {tool_call}"
proof -
  have "event_ok tool_call" "save_event tool_call None empty_event_repo = (Inr tool_call, append_event tool_call None empty_event_repo)"
    "tool_call_key tool_call = Some (''ex-1'', ''call-1'')"
    "dict_get (er_by_id (append_event tool_call None empty_event_repo)) ''ev-3'' = Some tool_call"
    by code_simp+
  moreover from this have "event_repo_step\<^sup>*\<^sup>* empty_event_repo (append_event tool_call None empty_event_repo)"
    by (blast intro: event_repo_step.intros)
  ultimately show ?thesis using runtime_tool_call_unique by blast
qed

section \<open>Ingestion\<close>

definition busy_trace :: trace_store where
  "busy_trace = trace0\<lparr>ts_events := store2\<rparr>"

definition later_call :: event_submission where
  "later_call =
     \<lparr>es_event_type = MODEL_CALL, es_attributes = [], es_idempotency_key = None, es_correlation_id = None,
      es_causation_id = None, es_actor_id = None, es_actor_type = None, es_workflow_step = None,
      es_tool_call_context = None, es_resource_references = [], es_evidence_references = [],
      es_occurred_at = None\<rparr>"

theorem ingested_event_sequence_witness:
  "\<exists>e s'. ingest_event env (clock 7) ''ev-9'' ''ex-1'' later_call tenant busy_trace = (Inr e, s')
     \<and> ev_sequence_number (model_call ''ev-2'' 2) < ev_sequence_number e"
proof -
  let ?run = "ingest_event env (clock 7) ''ev-9'' ''ex-1'' later_call tenant busy_trace"
  have "\<not> isl (fst ?run)" "dict_get (er_by_id (ts_events (snd ?run))) ''ev-9'' \<noteq> None"
    "dict_get (er_by_id (ts_events busy_trace)) ''ev-9'' = None" by code_simp+
  then obtain e where run: "?run = (Inr e, snd ?run)" and new: "snd ?run \<noteq> busy_trace"
    by (cases "fst ?run") (fastforce simp: prod_eq_iff)+
  have "model_call ''ev-2'' 2 \<in> set (events_of (ts_events busy_trace) ''ex-1'')"
    "in_scope (cx_organization_id tenant) (cx_project_id tenant) (ev_organization_id (model_call ''ev-2'' 2))
       (ev_project_id (model_call ''ev-2'' 2))" by code_simp+
  from ingested_event_sequence [OF run new this] run show ?thesis by blast
qed

definition quiet :: execution_event where
  "quiet = model_call ''ev-0'' 0"

definition a_step :: workflow_step where
  "a_step = \<lparr>ws_step_id = ''s1'', ws_step_name = ''retrieve'', ws_lifecycle = STEP_COMPLETED,
     ws_parent_step_id = None, ws_source_kind = None\<rparr>"

definition step_started :: execution_event where
  "step_started = (platform_event ''ev-s'' ''ex-1'' tenant WORKFLOW_STEP 201 (clock 6) None None None AGENT [])
     \<lparr>ev_workflow_step := Some (a_step\<lparr>ws_lifecycle := STEP_STARTED\<rparr>)\<rparr>"

definition long_trace :: trace_store where
  "long_trace = trace0\<lparr>ts_events := empty_event_repo\<lparr>er_by_execution := [(''ex-1'', replicate 200 quiet @ [step_started])]\<rparr>\<rparr>"

theorem workflow_step_window_gap_witness:
  "validate_workflow_step_transition long_trace ''ex-1'' WORKFLOW_STEP (Some a_step) tenant =
     Inl (invalid_transition (''Workflow step '' @ quoted ''s1'' @ '' must start before it terminates.''))"
proof -
  have "events_of (ts_events long_trace) ''ex-1'' = replicate 200 quiet @ step_started # []"
    by (simp add: events_of_def long_trace_def)
  moreover have "ws_step_id a_step = ''s1''" by (simp add: a_step_def)
  ultimately show ?thesis
    using workflow_step_window_gap [of long_trace "''ex-1''" "replicate 200 quiet" step_started "[]" tenant a_step]
    by (simp add: quiet_def model_call_def platform_event_def in_scope_def step_started_def a_step_def)
qed

theorem completed_event_without_duration_witness:
  "\<exists>y s'. mark_completed env (clock 60) ''ev-c'' ''ex-1'' EX_SUCCEEDED tenant trace0 = (Inr y, s')
     \<and> duration_micros y = Some 60000000
     \<and> (\<exists>e. dict_get (er_by_id (ts_events s')) ''ev-c'' = Some e \<and> pget (ev_attributes e) ''duration_seconds'' = PNone)"
proof -
  let ?run = "mark_completed env (clock 60) ''ev-c'' ''ex-1'' EX_SUCCEEDED tenant trace0"
  have "\<not> isl (fst ?run)" by code_simp
  then obtain y where run: "?run = (Inr y, snd ?run)" by (cases "fst ?run") (auto simp: prod_eq_iff)
  have "cx_get_execution trace0 ''ex-1'' tenant = Some run1" "\<not> ex_is_terminal run1"
    "ex_completed_at run1 = None" "dict_get (er_by_id (ts_events trace0)) ''ev-c'' = None"
    "micros (clock 60) - micros (ex_started_at run1) = 60000000" by code_simp+
  with completed_event_without_duration [OF run] run show ?thesis by auto
qed

definition other_run :: agent_execution where
  "other_run = run1\<lparr>ex_execution_id := ''ex-2'', ex_organization_id := ''org-2''\<rparr>"

definition same_start :: start_submission where
  "same_start = \<lparr>ss_agent_id = ''agent-1'', ss_agent_name = ''claims'', ss_agent_version = ''1'',
     ss_external_execution_id = ''ext-1'', ss_runtime_provider = ''langgraph'', ss_correlation_id = None,
     ss_parent_execution_id = None, ss_metadata = []\<rparr>"

theorem external_id_shadowed_by_other_tenant_witness:
  "\<exists>t. save_execution other_run (ts_executions trace0) = (Inr other_run, t)
     \<and> ingest_start env (clock 70) ''ex-3'' ''ev-7'' same_start tenant (trace0\<lparr>ts_executions := t\<rparr>)
       = start_new_execution (clock 70) ''ex-3'' ''ev-7'' same_start tenant (trace0\<lparr>ts_executions := t\<rparr>)"
  using external_id_shadowed_by_other_tenant [of other_run trace0 other_run _ same_start tenant env "clock 70" "''ex-3''" "''ev-7''"]
  by (simp add: save_execution_def other_run_def same_start_def run1_def env_def)

section \<open>Receipts\<close>

definition request_digest :: string where
  "request_digest = replicate 64 CHR ''b''"

definition allow_event :: execution_event where
  "allow_event = platform_event ''dec-1'' ''ex-1'' tenant RUNTIME_ACTION_AUTHORIZATION 1 (clock 10) (Some ''corr-1'') None
     (Some ''runtime-1'') GOVERNANCE
     [(''authorization_outcome'', PStr ''ALLOW''), (''request_fingerprint'', PStr request_digest),
      (''action_id'', PStr ''claims.update''), (''tool_arguments_digest'', PStr args_digest),
      (''actor_id'', PStr ''runtime-1'')]"

definition allowed_trace :: trace_store where
  "allowed_trace = trace0\<lparr>ts_events := append_event allow_event (Some ''k'') empty_event_repo\<rparr>"

definition uncertain :: receipt_submission where
  "uncertain = \<lparr>sb_decision_id = ''dec-1'', sb_request_fingerprint = request_digest, sb_action_id = ''claims.update'',
     sb_runtime_tool_call_id = ''call-1'', sb_tool_arguments_digest = args_digest, sb_receipt_status = ''UNKNOWN'',
     sb_reason_code = ''TIMEOUT'', sb_idempotency_key = ''rk-1'', sb_result_reference = None,
     sb_result_digest = None, sb_supersedes_receipt_id = None\<rparr>"

definition reconciled :: receipt_submission where
  "reconciled = uncertain\<lparr>sb_receipt_status := ''SUCCEEDED'', sb_reason_code := ''CONFIRMED'',
     sb_idempotency_key := ''rk-2'', sb_result_reference := Some ''row:7'', sb_result_digest := Some args_digest,
     sb_supersedes_receipt_id := Some first_receipt_id\<rparr>"

definition uncertain_receipt :: execution_receipt where
  "uncertain_receipt = submitted_receipt uncertain first_receipt_id tenant (clock 40)"

definition uncertain_event :: execution_event where
  "uncertain_event = receipt_event first_receipt_id ''ex-1'' tenant 2 (clock 40) (Some ''corr-1'') uncertain uncertain_receipt"

definition uncertain_trace :: trace_store where
  "uncertain_trace = allowed_trace\<lparr>ts_events := append_event uncertain_event None (ts_events allowed_trace)\<rparr>"

definition reconciled_receipt :: execution_receipt where
  "reconciled_receipt = (submitted_receipt reconciled second_receipt_id tenant (clock 80))\<lparr>rc_status := RC_SUCCEEDED\<rparr>"

definition reconciled_event :: execution_event where
  "reconciled_event = receipt_event second_receipt_id ''ex-1'' tenant 3 (clock 80) (Some ''corr-1'') reconciled reconciled_receipt"

definition reconciled_trace :: trace_store where
  "reconciled_trace = uncertain_trace\<lparr>ts_events := append_event reconciled_event None (ts_events uncertain_trace)\<rparr>"

lemma allowed_trace_inv: "trace_inv float_text allowed_trace"
proof (rule trace_step_inv [OF _ trace0_inv])
  have "event_ok allow_event" "ev_event_type allow_event \<noteq> RUNTIME_ACTION_EXECUTION_RECEIPT" by code_simp+
  moreover have "save_event allow_event (Some ''k'') (ts_events trace0)
      = (Inr allow_event, append_event allow_event (Some ''k'') empty_event_repo)" by code_simp
  ultimately show "trace_step float_text trace0 allowed_trace"
    unfolding allowed_trace_def by (blast intro: trace_step.write_event)
qed

lemma env_permits: "authorize_call env tenant AGENT_EXECUTION_INGEST = Inr ()"
  by (simp add: authorize_call_def env_def)

text \<open>The checks of an accepted receipt, one by one.\<close>

lemma ingest_new_receipt_stored:
  assumes "cx_get_event s (sb_decision_id sub) k cx = Some de"
    and "validate_receipt_decision_link (Some de) sub cx = Inr ()"
    and "receipt_status_of (sb_receipt_status sub) = Some st"
    and "case sb_supersedes_receipt_id sub of None \<Rightarrow> True
         | Some t \<Rightarrow> validate_receipt_supersession fr s k rid t sub st cx = Inr ()"
    and "rc = (submitted_receipt sub rid cx now)\<lparr>rc_status := st\<rparr>" "receipt_ok rc"
    and "e = receipt_event rid k cx n now (ev_correlation_id de) sub rc" "n = next_sequence s k cx" "event_ok e"
    and "save_event e None (ts_events s) = (Inr e, t)"
  shows "ingest_new_receipt fr now rid k sub cx s = (Inr e, s\<lparr>ts_events := t\<rparr>)"
proof -
  have "new_receipt (receipt_status_value st) (submitted_receipt sub rid cx now) = Inr rc"
    using assms(5,6) by (simp add: new_receipt_Inr_iff)
  moreover have "new_event (receipt_event rid k cx (next_sequence s k cx) now (ev_correlation_id de) sub rc) = Inr e"
    using assms(7-9) by (simp add: new_event_Inr_iff)
  ultimately show ?thesis
    using assms(1-4,10)
    by (cases "sb_supersedes_receipt_id sub") (simp_all add: ingest_new_receipt_def Let_def act_on_apply)
qed

lemma save_event_fresh:
  "dict_get (er_by_id s) (ev_event_id e) = None \<Longrightarrow> tool_call_key e = None \<Longrightarrow>
     save_event e None s = (Inr e, append_event e None s)"
  by (simp add: save_event_def)

lemma clocks_ok: "datetime_ok (clock 40)" "datetime_ok (clock 80)"
  by code_simp+

lemma receipt_keys_allowed:
  "\<not> prohibited ''runtime_action_execution_receipt''" "\<not> prohibited ''receipt_submission_idempotency_key''"
  "\<not> prohibited ''schema_version''" "\<not> prohibited ''receipt_id''" "\<not> prohibited ''decision_id''"
  "\<not> prohibited ''request_fingerprint''" "\<not> prohibited ''action_id''" "\<not> prohibited ''runtime_tool_call_id''"
  "\<not> prohibited ''tool_arguments_digest''" "\<not> prohibited ''status''" "\<not> prohibited ''reason_code''"
  "\<not> prohibited ''attested_by''" "\<not> prohibited ''attested_at''" "\<not> prohibited ''result_reference''"
  "\<not> prohibited ''result_digest''" "\<not> prohibited ''supersedes_receipt_id''"
  by code_simp+

lemma receipt_attributes_allowed:
  "all_pass (attribute_checks (ev_attributes (receipt_event i k cx n now c sub r)))"
proof -
  have "find_prohibited_key (of_opt_str x) p = None" for x p by (cases x) simp_all
  then show ?thesis
    by (simp add: attribute_checks_def receipt_event_def platform_event_def receipt_to_payload_def receipt_keys_allowed)
qed

lemma scenario_strings:
  "\<not> blank ''row:7''" "\<not> blank first_receipt_id" "\<not> blank second_receipt_id" "first_receipt_id \<noteq> ''dec-1''"
  "second_receipt_id \<noteq> ''dec-1''" "second_receipt_id \<noteq> first_receipt_id"
  by code_simp+

lemma receipt_events_ok: "event_ok uncertain_event" "event_ok reconciled_event"
proof -
  have attrs: "all_pass (attribute_checks (ev_attributes uncertain_event))"
    "all_pass (attribute_checks (ev_attributes reconciled_event))"
    by (simp_all add: uncertain_event_def reconciled_event_def receipt_attributes_allowed)
  show "event_ok uncertain_event" "event_ok reconciled_event"
    unfolding event_ok_def event_checks_def
    by (simp_all add: attrs)
      (simp_all add: uncertain_event_def reconciled_event_def receipt_event_def platform_event_def uncertain_def
        reconciled_def require_filled_def scenario_strings not_blank_reference raise_if_before_def dt_less_def)
qed

lemma receipts_ok: "receipt_ok uncertain_receipt" "receipt_ok reconciled_receipt"
  by code_simp+

lemma uncertain_trace_lookup:
  "cx_get_event uncertain_trace first_receipt_id ''ex-1'' tenant = Some uncertain_event"
  "cx_get_event uncertain_trace ''dec-1'' ''ex-1'' tenant = Some allow_event"
  "cx_get_event uncertain_trace second_receipt_id ''ex-1'' tenant = None"
  using scenario_strings(4-6)
  by (simp_all add: get_event_by_id_def uncertain_trace_def allowed_trace_def append_event_def empty_event_repo_def
      uncertain_event_def allow_event_def receipt_event_def platform_event_def in_scope_def dict_get_put)

lemma uncertain_read_back: "receipt_from_event float_text uncertain_event = Inr uncertain_receipt"
  unfolding uncertain_event_def
  by (rule receipt_from_receipt_event [OF receipts_ok(1)])
    (simp_all add: uncertain_receipt_def submitted_receipt_def clocks_ok)

lemma reconciled_read_back: "receipt_from_event float_text reconciled_event = Inr reconciled_receipt"
  unfolding reconciled_event_def
  by (rule receipt_from_receipt_event [OF receipts_ok(2)])
    (simp_all add: reconciled_receipt_def submitted_receipt_def clocks_ok)

lemma submission_fields [simp]:
  "sb_decision_id uncertain = ''dec-1''" "sb_runtime_tool_call_id uncertain = ''call-1''"
  "sb_receipt_status uncertain = ''UNKNOWN''" "sb_supersedes_receipt_id uncertain = None"
  "sb_decision_id reconciled = ''dec-1''" "sb_runtime_tool_call_id reconciled = ''call-1''"
  "sb_receipt_status reconciled = ''SUCCEEDED''" "sb_supersedes_receipt_id reconciled = Some first_receipt_id"
  "ev_correlation_id allow_event = Some ''corr-1''"
  by (simp_all add: uncertain_def reconciled_def allow_event_def platform_event_def)

lemma uncertain_ingested:
  "ingest_receipt float_text env (clock 40) ''ex-1'' uncertain tenant allowed_trace = (Inr uncertain_event, uncertain_trace)"
proof -
  have de: "cx_get_event allowed_trace (sb_decision_id uncertain) ''ex-1'' tenant = Some allow_event"
    and link: "validate_receipt_decision_link (Some allow_event) uncertain tenant = Inr ()"
    and seq: "2 = next_sequence allowed_trace ''ex-1'' tenant" by code_simp+
  have save: "save_event uncertain_event None (ts_events allowed_trace)
      = (Inr uncertain_event, append_event uncertain_event None (ts_events allowed_trace))"
    by (rule save_event_fresh)
      (use scenario_strings(4) in \<open>simp_all add: uncertain_event_def tool_call_key_def allowed_trace_def append_event_def empty_event_repo_def
        allow_event_def receipt_event_def platform_event_def\<close>)
  have "ingest_new_receipt float_text (clock 40) first_receipt_id ''ex-1'' uncertain tenant allowed_trace
      = (Inr uncertain_event, uncertain_trace)"
    unfolding uncertain_trace_def
    by (rule ingest_new_receipt_stored [OF de link _ _ _ receipts_ok(1) _ seq receipt_events_ok(1) save, where st = UNKNOWN])
      (simp_all add: receipt_status_of_def uncertain_event_def uncertain_receipt_def submitted_receipt_def)
  moreover have "cx_get_execution allowed_trace ''ex-1'' tenant \<noteq> None"
    "cx_get_event allowed_trace first_receipt_id ''ex-1'' tenant = None" "\<not> blank (sb_idempotency_key uncertain)" by code_simp+
  moreover have "receipt_event_id (sb_decision_id uncertain) (sb_runtime_tool_call_id uncertain)
      (sb_supersedes_receipt_id uncertain) = first_receipt_id"
    by (simp add: uncertain_def receipt_event_id_values)
  ultimately show ?thesis by (auto simp: ingest_receipt_def env_permits)
qed

lemma uncertain_superseded:
  "validate_receipt_supersession float_text uncertain_trace ''ex-1'' second_receipt_id first_receipt_id reconciled
     RC_SUCCEEDED tenant = Inr ()"
proof -
  have "events_of (ts_events uncertain_trace) ''ex-1'' = [allow_event, uncertain_event]"
    using scenario_strings(4)
    by (simp add: events_of_def uncertain_trace_def allowed_trace_def append_event_def empty_event_repo_def insert_event_def)
      (simp add: uncertain_event_def allow_event_def receipt_event_def platform_event_def)
  then have "list_by_execution (ts_events uncertain_trace) ''ex-1'' ''org-1'' (Some ''proj-1'') = [allow_event, uncertain_event]"
    by (simp add: list_by_execution_def events_of_def)
      (simp add: uncertain_event_def allow_event_def receipt_event_def platform_event_def in_scope_def)
  moreover have "ev_event_type allow_event = RUNTIME_ACTION_AUTHORIZATION" by (simp add: allow_event_def platform_event_def)
  ultimately show ?thesis
    using scenario_strings(6) uncertain_trace_lookup(1)
    by (simp add: validate_receipt_supersession_def uncertain_read_back)
      (simp add: uncertain_receipt_def submitted_receipt_def reconciled_def uncertain_def)
qed

lemma reconciled_ingested:
  "ingest_receipt float_text env (clock 80) ''ex-1'' reconciled tenant uncertain_trace = (Inr reconciled_event, reconciled_trace)"
proof -
  have link: "validate_receipt_decision_link (Some allow_event) reconciled tenant = Inr ()" by code_simp
  have de: "cx_get_event uncertain_trace (sb_decision_id reconciled) ''ex-1'' tenant = Some allow_event"
    using uncertain_trace_lookup(2) by simp
  have seq: "3 = next_sequence uncertain_trace ''ex-1'' tenant"
    using scenario_strings(4)
    by (simp add: max_sequence_number_def uncertain_trace_def allowed_trace_def append_event_def empty_event_repo_def insert_event_def)
      (simp add: uncertain_event_def allow_event_def receipt_event_def platform_event_def in_scope_def)
  have save: "save_event reconciled_event None (ts_events uncertain_trace)
      = (Inr reconciled_event, append_event reconciled_event None (ts_events uncertain_trace))"
    by (rule save_event_fresh)
      (use scenario_strings(4-6) in \<open>simp_all add: reconciled_event_def tool_call_key_def uncertain_trace_def allowed_trace_def append_event_def
        empty_event_repo_def uncertain_event_def allow_event_def receipt_event_def platform_event_def dict_get_put\<close>)
  have "ingest_new_receipt float_text (clock 80) second_receipt_id ''ex-1'' reconciled tenant uncertain_trace
      = (Inr reconciled_event, reconciled_trace)"
    unfolding reconciled_trace_def
    by (rule ingest_new_receipt_stored [OF de link _ _ _ receipts_ok(2) _ seq receipt_events_ok(2) save, where st = RC_SUCCEEDED])
      (simp_all add: receipt_status_of_def uncertain_superseded reconciled_event_def reconciled_receipt_def)
  moreover have "cx_get_execution uncertain_trace ''ex-1'' tenant \<noteq> None"
    by (simp add: uncertain_trace_def allowed_trace_def trace0_def get_execution_def run1_def in_scope_def)
  moreover have "\<not> blank (sb_idempotency_key reconciled)" by code_simp
  moreover have "receipt_event_id (sb_decision_id reconciled) (sb_runtime_tool_call_id reconciled)
      (sb_supersedes_receipt_id reconciled) = second_receipt_id"
    by (simp add: reconciled_def uncertain_def receipt_event_id_values)
  ultimately show ?thesis using uncertain_trace_lookup(3) by (auto simp: ingest_receipt_def env_permits)
qed

lemma reconciled_trace_inv: "trace_inv float_text reconciled_trace"
proof -
  have "trace_inv float_text uncertain_trace"
    using trace_events.inv_run [OF act_withinD [OF ingest_receipt_within [OF clocks_ok(1)] uncertain_ingested] allowed_trace_inv] .
  then show ?thesis
    using trace_events.inv_run [OF act_withinD [OF ingest_receipt_within [OF clocks_ok(2)] reconciled_ingested]] by blast
qed

theorem receipt_requires_allow_witness:
  "\<exists>de. cx_get_event allowed_trace ''dec-1'' ''ex-1'' tenant = Some de
     \<and> pget (ev_attributes de) ''authorization_outcome'' = PStr ''ALLOW''"
proof -
  have "uncertain_trace \<noteq> allowed_trace"
    by (simp add: uncertain_trace_def allowed_trace_def trace0_def append_event_def empty_event_repo_def)
      (simp add: uncertain_event_def allow_event_def first_receipt_id_def receipt_event_def platform_event_def)
  from receipt_requires_allow [OF uncertain_ingested this] show ?thesis by (auto simp: uncertain_def)
qed

theorem receipt_payload_roundtrip_witness:
  "receipt_from_payload float_text (PDict (receipt_to_payload reconciled_receipt)) = Inr reconciled_receipt"
  by (rule receipt_payload_roundtrip) code_simp+

theorem receipt_status_evidence_witness:
  "\<exists>ref d. rc_result_reference reconciled_receipt = Some ref \<and> rc_result_digest reconciled_receipt = Some d"
proof -
  have "new_receipt ''SUCCEEDED'' reconciled_receipt = Inr reconciled_receipt"
    "rc_status reconciled_receipt = RC_SUCCEEDED" by code_simp+
  with receipt_status_evidence show ?thesis by blast
qed

section \<open>The system\<close>

definition system_with :: "trace_store \<Rightarrow> system" where
  "system_with t = \<lparr>sy_trace = t, sy_delegations = grants, sy_policies = draft_policies\<rparr>"

lemma system_with_inv: "trace_inv fr t \<Longrightarrow> system_inv fr (system_with t)"
  by (simp add: system_inv_def system_with_def grants_inv draft_policies_inv)

lemma activation_step: "system_step fr (system_with t) (system_with t\<lparr>sy_policies := policies\<rparr>)"
proof (rule system_step.policy)
  show "policy_service_step (sy_policies (system_with t)) policies"
    using activated by (auto simp: system_with_def intro: policy_service_step.intros(4))
qed

theorem system_invariant_witness:
  "system_inv float_text (empty_system\<lparr>sy_policies := draft_policies\<rparr>)"
proof (rule system_invariant)
  have "policy_service_step (sy_policies empty_system) draft_policies"
    using draft_reached by (simp add: empty_system_def)
  from system_step.policy [OF this, of float_text]
  show "(system_step float_text)\<^sup>*\<^sup>* empty_system (empty_system\<lparr>sy_policies := draft_policies\<rparr>)" by blast
qed

definition finished_trace :: trace_store where
  "finished_trace = trace0\<lparr>ts_executions := \<lparr>xr_by_id = [(''ex-1'', succeeded_run)], xr_by_external = []\<rparr>\<rparr>"

lemma finished_trace_inv: "trace_inv fr finished_trace"
proof -
  have "execution_ok succeeded_run" by code_simp
  then show ?thesis
    by (simp add: trace_inv_def finished_trace_def trace0_def execution_repo_inv_def)
      (simp add: succeeded_run_def run1_def empty_event_repo_def)
qed

theorem terminal_execution_immutable_witness:
  "\<exists>s'. (system_step float_text)\<^sup>*\<^sup>* (system_with finished_trace) s' \<and> s' \<noteq> system_with finished_trace
     \<and> dict_get (xr_by_id (ts_executions (sy_trace s'))) ''ex-1'' = Some succeeded_run"
proof (intro exI conjI)
  show run: "(system_step float_text)\<^sup>*\<^sup>* (system_with finished_trace) (system_with finished_trace\<lparr>sy_policies := policies\<rparr>)"
    using activation_step by blast
  have "policies \<noteq> draft_policies"
  proof -
    have "map_option pv_status (get_version draft_policies ''p1'' ''1'') = Some PS_DRAFT"
      "map_option pv_status (get_version policies ''p1'' ''1'') = Some PS_ACTIVE" by code_simp+
    then show ?thesis by auto
  qed
  then show "system_with finished_trace\<lparr>sy_policies := policies\<rparr> \<noteq> system_with finished_trace"
    by (simp add: system_with_def)
  have "dict_get (xr_by_id (ts_executions (sy_trace (system_with finished_trace)))) ''ex-1'' = Some succeeded_run"
    "ex_is_terminal succeeded_run"
    by (simp add: system_with_def finished_trace_def) code_simp
  from terminal_execution_immutable [OF system_with_inv [OF finished_trace_inv] run this]
  show "dict_get (xr_by_id (ts_executions (sy_trace (system_with finished_trace\<lparr>sy_policies := policies\<rparr>)))) ''ex-1''
      = Some succeeded_run" .
qed

theorem receipt_retries_idempotent_witness:
  "receipt_ingestion.retries float_text env ''ex-1'' uncertain tenant [clock 41, clock 42] uncertain_trace
     = (Inr [uncertain_event, uncertain_event], uncertain_trace)"
proof -
  have "ingest_receipt float_text env (clock 40) ''ex-1'' uncertain tenant (sy_trace (system_with allowed_trace))
      = (Inr uncertain_event, uncertain_trace)"
    using uncertain_ingested by (simp add: system_with_def)
  from receipt_retries_idempotent [OF system_with_inv [OF allowed_trace_inv] clocks_ok(1) this rtranclp.rtrancl_refl,
      of "[clock 41, clock 42]"]
  show ?thesis by (simp add: numeral_2_eq_2)
qed

theorem receipt_superseded_once_witness:
  "{f. \<exists>j q. dict_get (er_by_id (ts_events reconciled_trace)) j = Some f
        \<and> ev_event_type f = RUNTIME_ACTION_EXECUTION_RECEIPT \<and> receipt_from_event float_text f = Inr q
        \<and> rc_supersedes_receipt_id q = Some first_receipt_id} = {reconciled_event}"
proof -
  have e: "dict_get (er_by_id (ts_events reconciled_trace)) second_receipt_id = Some reconciled_event"
    by (simp add: reconciled_trace_def append_event_def) (simp add: reconciled_event_def receipt_event_def platform_event_def dict_get_put)
  have r: "receipt_from_event float_text reconciled_event = Inr reconciled_receipt"
    "rc_supersedes_receipt_id reconciled_receipt = Some first_receipt_id"
    "ev_event_type reconciled_event = RUNTIME_ACTION_EXECUTION_RECEIPT"
    by (simp_all add: reconciled_read_back)
      (simp_all add: reconciled_receipt_def submitted_receipt_def reconciled_def reconciled_event_def receipt_event_def platform_event_def)
  have st: "sy_trace (system_with reconciled_trace) = reconciled_trace" by (simp add: system_with_def)
  from receipt_superseded_once [OF system_with_inv [OF reconciled_trace_inv], unfolded st, OF e r(3) _ _ r(1,2)]
  show ?thesis using e r by blast
qed

theorem authorization_retries_idempotent_witness:
  "\<exists>s''. (system_step float_text)\<^sup>*\<^sup>* (system_with trace1) s'' \<and> sy_policies s'' = policies
     \<and> authorization.retries float_text 300000000 (Some (sy_delegations s'')) (sy_policies s'') claim_request tenant
         [(clock 20, ''dec-2''), (clock 9000, ''dec-3'')] (sy_trace s'')
       = (Inr [claim_decision, claim_decision], sy_trace s'')"
proof (intro exI conjI)
  let ?s = "system_with trace0" and ?s'' = "system_with trace1\<lparr>sy_policies := policies\<rparr>"
  show run: "(system_step float_text)\<^sup>*\<^sup>* (system_with trace1) ?s''" using activation_step by blast
  show "sy_policies ?s'' = policies" by simp
  have "resource_ok claim_resource" by code_simp
  then have "authorization_inv claim_request tenant (sy_trace ?s)" "fresh_decision_id (sy_trace ?s) (clock 10, ''dec-1'')"
    using trace0_inv by (simp_all add: authorization_inv_def fresh_decision_id_def system_with_def trace_inv_def)
      (simp_all add: trace0_def empty_event_repo_def)
  moreover have "authorize float_text 300000000 (Some grants) policies (clock 10, ''dec-1'') claim_request tenant (sy_trace ?s)
      = (Inr claim_decision, trace1)"
    using claim_authorized by (simp add: system_with_def)
  moreover have "?s\<lparr>sy_trace := trace1\<rparr> = system_with trace1" by (simp add: system_with_def)
  ultimately show "authorization.retries float_text 300000000 (Some (sy_delegations ?s'')) (sy_policies ?s'') claim_request
      tenant [(clock 20, ''dec-2''), (clock 9000, ''dec-3'')] (sy_trace ?s'') = (Inr [claim_decision, claim_decision], sy_trace ?s'')"
    using authorization_retries_idempotent [OF system_with_inv [OF trace0_inv], of claim_request tenant "(clock 10, ''dec-1'')"
        float_text 300000000 "Some grants" policies claim_decision trace1 ?s'' "[(clock 20, ''dec-2''), (clock 9000, ''dec-3'')]"] run
    by (simp add: numeral_2_eq_2)
qed

end
