(* ===== verification/Witnesses_Transport.thy ===== *)
theory Witnesses_Transport
  imports Http_Transport Scenario
begin

text \<open>The properties of the remote boundary at the deployment of the scenario.\<close>

lemma claim_request_ok: "request_ok claim_request"
proof -
  have "all_pass (validated_context_checks [(''risk'', PInt 2)])" by code_simp
  moreover have "match_identifier 127 ''ex-1''" "match_identifier 127 ''claims.update''" "match_identifier 127 ''key-1''"
    "match_identifier 127 ''del-1''" "match_identifier 127 ''1''" by code_simp+
  moreover have "rq_schema_version claim_request = authorization_schema_version" by (simp add: claim_request_def)
  ultimately show ?thesis
    using args_digest_ok by (simp add: request_ok_def request_checks_def partial_binding_def)
qed

lemma claim_resource_ok: "resource_ok claim_resource"
  by code_simp

text \<open>A parser that reads the declared fields.\<close>

definition text_of :: "pyval \<Rightarrow> string" where
  "text_of v = (case v of PStr t \<Rightarrow> t | _ \<Rightarrow> [])"

definition opt_text_of :: "pyval \<Rightarrow> string option" where
  "opt_text_of v = (case v of PStr t \<Rightarrow> Some t | _ \<Rightarrow> None)"

definition items_of :: "pyval \<Rightarrow> (string \<times> pyval) list" where
  "items_of v = (case v of PDict d \<Rightarrow> d | _ \<Rightarrow> [])"

definition body_read :: "(string \<times> pyval) list \<Rightarrow> request_body" where
  "body_read v =
     (let r = items_of (pget v ''resource'') in
      \<lparr>bd_schema_version = text_of (opt_or (map_of v ''schema_version'') (PStr authorization_schema_version)),
       bd_execution_id = text_of (pget v ''execution_id''), bd_correlation_id = opt_text_of (pget v ''correlation_id''),
       bd_action_id = text_of (pget v ''action_id''), bd_resource_type = text_of (pget r ''resource_type''),
       bd_resource_reference = text_of (pget r ''resource_reference''),
       bd_delegation_id = opt_text_of (pget v ''delegation_id''),
       bd_delegation_version = opt_text_of (pget v ''delegation_version''),
       bd_delegation_digest = opt_text_of (pget v ''delegation_digest''),
       bd_tool_arguments_digest = text_of (pget v ''tool_arguments_digest''),
       bd_context = items_of (opt_or (map_of v ''context'') (PDict [])),
       bd_idempotency_key = text_of (pget v ''idempotency_key''), bd_policy_id = opt_text_of (pget v ''policy_id''),
       bd_expected_policy_version = opt_text_of (pget v ''expected_policy_version'')\<rparr>)"

definition read_request_body :: "(string \<times> pyval) list \<Rightarrow> request_body option" where
  "read_request_body v = (if body_carries v (body_read v) then Some (body_read v) else None)"

lemma carries_opt_text: "carries_opt v name x \<Longrightarrow> opt_text_of (pget v name) = x"
  by (auto simp: carries_opt_def opt_text_of_def pget_def split: option.splits pyval.splits)

lemma carries_text: "map_of v name = Some (PStr t) \<Longrightarrow> text_of (pget v name) = t"
  by (simp add: text_of_def pget_def)

lemma read_request_body_reads: "reads_declared_fields read_request_body"
  unfolding reads_declared_fields_def
proof (intro allI impI)
  fix v b
  assume carries: "body_carries v b"
  then obtain r where r: "map_of v ''resource'' = Some (PDict r)" "carries_resource r b"
    by (auto simp: body_carries_def split: option.splits pyval.splits)
  then have "items_of (pget v ''resource'') = r" by (simp add: items_of_def pget_def)
  moreover have "text_of (opt_or (map_of v ''schema_version'') (PStr authorization_schema_version)) = bd_schema_version b"
    "items_of (opt_or (map_of v ''context'') (PDict [])) = bd_context b"
    using carries by (simp_all add: body_carries_def text_of_def items_of_def)
  ultimately have "body_read v = b"
    using carries r(2) unfolding body_read_def Let_def body_carries_def carries_resource_def
    by (intro request_body.equality) (simp_all add: carries_opt_text carries_text)
  then show "read_request_body v = Some b" using carries by (simp add: read_request_body_def)
qed


theorem blank_reference_escapes_validation_witness:
  "authorize_runtime_action float_text isoformat 300000000 (Some grants) policies (clock 10, ''dec-1'') tenant
     ((body_of_request claim_request)\<lparr>bd_resource_reference := '' ''\<rparr>) trace0
   = (Inl (Exc ValueError ''resource_reference must not be blank.''), trace0)"
proof -
  have "body_valid (body_of_request claim_request)"
    using body_of_request(2) claim_request_ok claim_resource_ok by simp
  then have "body_valid ((body_of_request claim_request)\<lparr>bd_resource_reference := '' ''\<rparr>)"
    by (simp add: body_valid_def field_length_def)
  moreover have "blank '' ''" by code_simp
  ultimately show ?thesis using blank_reference_escapes_validation by simp
qed

end
