(* ===== verification/Witnesses_Jobs.thy ===== *)
theory Witnesses_Jobs
  imports Job_Service Scenario
begin

text \<open>
  The properties of the job control plane at a concrete queue: one evaluation job, claimed, released,
  cancelled and finished by two workers. The hash of the input is a parameter of the queue.
\<close>

definition job_of :: "string \<Rightarrow> job" where
  "job_of h =
     \<lparr>jb_job_id = ''job-1'', jb_job_type = JT_EVALUATION, jb_status = JS_QUEUED,
      jb_input_refs = [(''dataset'', PStr ''ds-1'')], jb_input_hash = h, jb_idempotency_key = ''key-1'',
      jb_submitted_by = ''alice'', jb_attempt_count = 0, jb_max_attempts = 2, jb_result_ref = None,
      jb_failure_reason = None, jb_leased_by = None, jb_lease_expires_at = None, jb_heartbeat_at = None,
      jb_created_at = clock 0, jb_updated_at = clock 0, jb_started_at = None, jb_completed_at = None,
      jb_execution_context = None\<rparr>"

definition queue_of :: "string \<Rightarrow> job_repo" where
  "queue_of h = \<lparr>jr_jobs = [(''job-1'', job_of h)], jr_workers = []\<rparr>"

definition evaluation_submission :: job_submission where
  "evaluation_submission =
     \<lparr>jsb_job_type = JT_EVALUATION, jsb_input_refs = [(''dataset'', PStr ''ds-1'')],
      jsb_idempotency_key = ''key-1'', jsb_submitted_by = ''alice'', jsb_max_attempts = 2,
      jsb_execution_context = None\<rparr>"

definition worker :: "string \<Rightarrow> job_worker" where
  "worker i = \<lparr>jw_worker_id = i, jw_lease_seconds = 300, jw_job_types = [], jw_job_operations = []\<rparr>"

definition leased_job :: "string \<Rightarrow> string \<Rightarrow> int \<Rightarrow> int \<Rightarrow> job" where
  "leased_job h w n attempt =
     (job_of h)\<lparr>jb_status := JS_RUNNING, jb_attempt_count := attempt, jb_leased_by := Some w,
       jb_lease_expires_at := Some (clock (n + 300)), jb_heartbeat_at := Some (clock n),
       jb_started_at := Some (clock 10), jb_updated_at := clock n\<rparr>"

definition leased_queue :: "string \<Rightarrow> string \<Rightarrow> int \<Rightarrow> int \<Rightarrow> job_repo" where
  "leased_queue h w n attempt = (queue_of h)\<lparr>jr_jobs := [(''job-1'', leased_job h w n attempt)]\<rparr>"

lemma first_claim:
  "worker_claim float_text None (worker ''w1'') (clock 10) (clock 10) (clock 10) (queue_of ''h'')
     = (Inr (Some (leased_job ''h'' ''w1'' 10 1)), leased_queue ''h'' ''w1'' 10 1)"
  by code_simp

lemma second_claim:
  "worker_claim float_text None (worker ''w2'') (clock 1000) (clock 1000) (clock 1000) (leased_queue ''h'' ''w1'' 10 1)
     = (Inr (Some (leased_job ''h'' ''w2'' 1000 2)), leased_queue ''h'' ''w2'' 1000 2)"
  by code_simp

lemma queue_of_inv:
  assumes "\<not> blank h"
  shows "job_repo_inv (queue_of h)"
proof -
  have "job_ok (job_of h)" using assms by (simp add: job_checks_def require_job_field_def job_of_def) code_simp
  then have "job_repo_step empty_job_repo (put_job (jb_job_id (job_of h)) (job_of h) empty_job_repo)"
    by (intro job_repo_step.insert)
      (simp_all add: empty_job_repo_def job_of_def own_key_def find_job_by_idempotency_key_def dict_values_def)
  then have "job_repo_inv (put_job (jb_job_id (job_of h)) (job_of h) empty_job_repo)"
    using job_repo_inv_empty by (rule job_repo_inv_step)
  then show ?thesis by (simp add: queue_of_def empty_job_repo_def job_of_def)
qed

lemma h_not_blank: "\<not> blank ''h''" by code_simp

lemma leased_queue_inv: "job_repo_inv (leased_queue ''h'' ''w1'' 10 1)"
  using jobs.inv_run [OF worker_claim_step [OF _ first_claim]] queue_of_inv [OF h_not_blank] by blast

abbreviation the_hash :: string where
  "the_hash \<equiv> stable_input_hash float_text [(''dataset'', PStr ''ds-1'')] None None"

lemma submitted_evaluation: "submitted_job float_text (clock 0) ''job-1'' evaluation_submission = job_of the_hash"
  by (simp add: submitted_job_def evaluation_submission_def job_of_def)

lemma the_hash_not_blank: "\<not> blank the_hash"
  unfolding stable_input_hash_def
  by (rule match_identifier_not_blank [OF match_hex64_identifier [OF match_hex64_sha256, of 63]]) simp

lemma evaluation_submitted:
  "submit_job float_text None (clock 0, ''job-1'') evaluation_submission empty_job_repo
     = (Inr (job_of the_hash), queue_of the_hash)"
proof -
  have "new_job (job_of the_hash) = Inr (job_of the_hash)"
    using job_repo_invD(4) [OF queue_of_inv [OF the_hash_not_blank], of "''job-1''"]
    by (simp add: queue_of_def new_job_def checked_Inr_iff)
  moreover have "checked (submission_checks evaluation_submission) () = Inr ()" by code_simp
  ultimately show ?thesis
    by (simp add: submit_job_def submitted_evaluation find_job_by_idempotency_key_def empty_job_repo_def
        queue_full_def save_job_def dict_values_def Let_def queue_of_def)
      (simp add: job_of_def)
qed

section \<open>Bounds, cancellation and stale workers\<close>

lemma claim_of_submitted:
  assumes "\<not> blank h"
  shows "worker_claim float_text None (worker ''w1'') (clock 10) (clock 10) (clock 10) (queue_of h)
     = (Inr (Some (leased_job h ''w1'' 10 1)), leased_queue h ''w1'' 10 1)"
proof -
  have acquired: "acquired_job (clock 10) ''w1'' (clock 310) (job_of h) = leased_job h ''w1'' 10 1"
    by (simp add: acquired_job_def leased_job_def job_of_def opt_or_def)
  have "dict_get (jr_jobs (queue_of h)) ''job-1'' = Some (job_of h)" by (simp add: queue_of_def)
  with job_repo_invD(4) [OF queue_of_inv [OF assms]] have "job_ok (job_of h)" by blast
  then have "job_ok (leased_job h ''w1'' 10 1)"
    using job_move_job_ok [OF job_move.claim, of "job_of h" "clock 10" "''w1''" "clock 310"] acquired by (simp add: job_of_def)
  then have new: "new_job (leased_job h ''w1'' 10 1) = Inr (leased_job h ''w1'' 10 1)" by (simp add: new_job_def checked_Inr_iff)
  have "release_expired_leases (clock 10) (queue_of h) = (Inr 0, queue_of h)"
    by (simp add: release_expired_leases_def queue_of_def dict_values_def lease_expired_def job_of_def)
  moreover have "heartbeat_worker ''w1'' (clock 10) (queue_of h) = queue_of h"
    by (simp add: heartbeat_worker_def queue_of_def)
  moreover have "claimable_jobs float_text [] [] (queue_of h) = [job_of h]"
    by (simp add: claimable_jobs_def list_by_status_def repo_list_jobs_def listed_in_def py_prefix_def queue_of_def dict_values_def job_of_def)
  moreover have "dt_plus (clock 10) 300000000 = Inr (clock 310)" by code_simp
  moreover have "save_job (leased_job h ''w1'' 10 1) (queue_of h) = (Inr (), leased_queue h ''w1'' 10 1)"
    by (simp add: save_job_def find_job_by_idempotency_key_def queue_of_def leased_queue_def leased_job_def job_of_def
        dict_values_def Let_def)
  ultimately show ?thesis
    using acquired new
    by (simp add: worker_claim_def worker_def acquire_next_queued_job_def act_bind_def)
qed

theorem job_attempts_bounded_witness:
  "claimed_run float_text ''job-1'' empty_job_repo 1 (leased_queue the_hash ''w1'' 10 1)
   \<and> 1 \<le> jb_attempt_count (leased_job the_hash ''w1'' 10 1) \<and> jb_max_attempts (leased_job the_hash ''w1'' 10 1) \<le> 10"
proof -
  have "job_system_step float_text empty_job_repo (queue_of the_hash)"
    by (rule job_system_step.submit [OF _ evaluation_submitted]) (simp add: empty_job_repo_def)
  then have "claimed_run float_text ''job-1'' empty_job_repo 0 (queue_of the_hash)"
    by (rule claimed_run.command [OF claimed_run.start])
  from claimed_run.claim [OF this claim_of_submitted [OF the_hash_not_blank]]
  have run: "claimed_run float_text ''job-1'' empty_job_repo 1 (leased_queue the_hash ''w1'' 10 1)"
    by (simp add: leased_job_def job_of_def)
  moreover have "dict_get (jr_jobs (leased_queue the_hash ''w1'' 10 1)) ''job-1'' = Some (leased_job the_hash ''w1'' 10 1)"
    by (simp add: leased_queue_def queue_of_def)
  ultimately show ?thesis using job_attempts_bounded [OF run] by fastforce
qed

definition cancelled_queue :: job_repo where
  "cancelled_queue = put_job ''job-1'' (cancelled_job (clock 20) (leased_job ''h'' ''w1'' 10 1)) (leased_queue ''h'' ''w1'' 10 1)"

definition good_result :: job_result where
  "good_result = \<lparr>jrs_job_id = ''job-1'', jrs_status = JS_SUCCEEDED, jrs_result_ref = Some ''result-1'',
     jrs_failure_reason = None\<rparr>"

theorem cancelled_job_final_witness:
  "\<exists>k. dict_get (jr_jobs (snd (worker_finish (clock 30) (clock 30) ''job-1'' (Inr good_result) cancelled_queue))) ''job-1''
       = Some k \<and> jb_status k = JS_CANCELLED \<and> jb_attempt_count k = 1 \<and> jb_result_ref k = None"
proof -
  let ?u = "snd (worker_finish (clock 30) (clock 30) ''job-1'' (Inr good_result) cancelled_queue)"
  let ?j = "cancelled_job (clock 20) (leased_job ''h'' ''w1'' 10 1)"
  have "api_cancel_job (clock 20) ''job-1'' None (leased_queue ''h'' ''w1'' 10 1) = (Inr ?j, cancelled_queue)"
    by code_simp
  moreover have "(job_system_step float_text)\<^sup>*\<^sup>* cancelled_queue ?u"
    by (rule r_into_rtranclp) (rule job_system_step.finish [OF surjective_pairing])
  ultimately have "\<exists>k. dict_get (jr_jobs ?u) ''job-1'' = Some k \<and> jb_status k = JS_CANCELLED
      \<and> job_content k = job_content ?j \<and> jb_attempt_count k = jb_attempt_count ?j \<and> jb_result_ref k = jb_result_ref ?j"
    using cancelled_job_final [OF leased_queue_inv] by blast
  moreover have "jb_attempt_count ?j = 1" "jb_result_ref ?j = None" by code_simp+
  ultimately show ?thesis by auto
qed

theorem stale_worker_overwrites_result_witness:
  "\<exists>x y. dict_get (jr_jobs (snd (worker_finish (clock 1100) (clock 1100) ''job-1'' (Inr good_result)
          (leased_queue ''h'' ''w2'' 1000 2)))) ''job-1'' = Some x \<and> jb_status x = JS_SUCCEEDED
     \<and> dict_get (jr_jobs (snd (worker_finish (clock 1200) (clock 1200) ''job-1'' (Inl (Exc ValueError ''late''))
         (snd (worker_finish (clock 1100) (clock 1100) ''job-1'' (Inr good_result) (leased_queue ''h'' ''w2'' 1000 2))))))
         ''job-1'' = Some y \<and> jb_status y = JS_FAILED \<and> jb_result_ref y = None"
proof -
  let ?s3 = "worker_finish (clock 1100) (clock 1100) ''job-1'' (Inr good_result) (leased_queue ''h'' ''w2'' 1000 2)"
  let ?s4 = "worker_finish (clock 1200) (clock 1200) ''job-1'' (Inl (Exc ValueError ''late'')) (snd ?s3)"
  have id: "jb_job_id (leased_job ''h'' w n a) = ''job-1''" for w n a by (simp add: leased_job_def job_of_def)
  from stale_worker_overwrites_result [OF queue_of_inv [OF h_not_blank] first_claim second_claim _
      surjective_pairing [of ?s3, folded id [of "''w2''" 1000 2]], of "''result-1''", unfolded id, OF refl]
  show ?thesis
    using surjective_pairing [of ?s4] by (fastforce simp: good_result_def)
qed

section \<open>Progress, submission and claims\<close>

definition round_clock :: worker_clock where
  "round_clock = \<lparr>wc_heartbeat = clock 10, wc_release = clock 10, wc_claim = clock 10, wc_finish = clock 20,
     wc_failure = clock 21\<rparr>"

theorem worker_drains_queue_witness:
  "\<exists>k. dict_get (jr_jobs (worker_rounds float_text (\<lambda>_. Inl (Exc ValueError ''handler'')) (worker ''w1'')
         [round_clock] (queue_of ''h''))) ''job-1'' = Some k \<and> job_terminal (jb_status k)"
proof (rule worker_drains_queue [OF queue_of_inv [OF h_not_blank], where j = "job_of ''h''"])
  have status: "jb_status (job_of ''h'') = JS_QUEUED" by (simp add: job_of_def)
  then show "jobs_with JS_RUNNING (queue_of ''h'') = {}" by (auto simp: jobs_with_def queue_of_def split: if_splits)
  have "jobs_with JS_QUEUED (queue_of ''h'') = {''job-1''}"
    using status by (auto simp: jobs_with_def queue_of_def split: if_splits)
  then show "card (jobs_with JS_QUEUED (queue_of ''h'')) \<le> length [round_clock]" by simp
  show "\<forall>t \<in> set [round_clock]. \<exists>x. dt_plus (wc_claim t) (jw_lease_seconds (worker ''w1'') * 1000000) = Inr x"
  proof -
    have "dt_plus (wc_claim round_clock) (jw_lease_seconds (worker ''w1'') * 1000000) = Inr (clock 310)" by code_simp
    then show ?thesis by simp
  qed
  show "dict_get (jr_jobs (queue_of ''h'')) ''job-1'' = Some (job_of ''h'')" by (simp add: queue_of_def)
qed (simp_all add: worker_def)

text \<open>A hundred evaluations in front of one replay.\<close>

definition crowd :: "nat \<Rightarrow> job" where
  "crowd n = (job_of ''h'')\<lparr>jb_job_id := replicate n (CHR ''j''), jb_created_at := clock (int n)\<rparr>"

definition late_replay :: job where
  "late_replay = (crowd 100)\<lparr>jb_job_type := JT_REPLAY\<rparr>"

definition crowded_queue :: job_repo where
  "crowded_queue = \<lparr>jr_jobs = map (\<lambda>j. (jb_job_id j, j)) (map crowd [0..<100] @ [late_replay]), jr_workers = []\<rparr>"

lemma crowded_queue_listed: "list_by_status crowded_queue JS_QUEUED 500 = map crowd [0..<100] @ [late_replay]"
proof -
  let ?js = "map crowd [0..<100] @ [late_replay]"
  let ?f = "\<lambda>j. (micros (jb_created_at j), jb_job_id j)"
  have f: "?f (crowd n) = (1750000000000000 + int n * 1000000, replicate n (CHR ''j''))" for n
    by (simp add: crowd_def clock_def)
  have l: "?f late_replay = ?f (crowd 100)" by (simp add: late_replay_def)
  have "map ?f ?js = map (\<lambda>n. ?f (crowd n)) ([0..<100] @ [100])"
    by (simp add: l comp_def del: upt_rec_numeral)
  also have "[0..<100] @ [100] = [0..<Suc 100]" by (simp only: upt_Suc_append)
  finally have "sorted (map ?f ?js)"
    by (auto simp only: f sorted_map intro!: sorted_wrt_mono_rel [OF _ sorted_wrt_upt]) simp
  then have "sort_key ?f ?js = ?js" by (rule sort_key_id_if_sorted)
  moreover have "dict_values (jr_jobs crowded_queue) = ?js"
    by (simp add: dict_values_def crowded_queue_def comp_def del: upt_rec_numeral)
  moreover have "filter (\<lambda>j. JS_QUEUED = jb_status j) ?js = ?js"
    by (simp add: filter_id_conv crowd_def late_replay_def job_of_def del: upt_rec_numeral)
  ultimately show ?thesis
    by (simp add: list_by_status_def repo_list_jobs_def listed_in_def py_prefix_def del: upt_rec_numeral)
qed

theorem claim_window_starves_witness:
  "acquire_next_queued_job float_text (clock 500) ''w1'' 300 [JT_REPLAY] [] crowded_queue = (Inr None, crowded_queue)
   \<and> late_replay \<in> set (list_by_status crowded_queue JS_QUEUED 500) \<and> jb_job_type late_replay = JT_REPLAY"
proof -
  have "jb_job_type (crowd n) = JT_EVALUATION" "jb_job_type late_replay = JT_REPLAY" for n
    by (simp_all add: crowd_def job_of_def late_replay_def)
  with claim_window_starves [OF crowded_queue_listed, of "[JT_REPLAY]"] show ?thesis
    by (simp add: crowded_queue_listed del: upt_rec_numeral)
qed

end
