(* ===== verification/Witnesses_Replay.thy ===== *)
theory Witnesses_Replay
  imports Replay Scenario
begin

text \<open>
  The properties of replays at a concrete one: a request that goes from its draft through execution,
  evaluation and comparison to its result, and two writers that read the same version of it.
\<close>

definition replay_order :: replay_request where
  "replay_order =
     \<lparr>rr_source_execution_id = ''exec-1'', rr_requested_by = ''alice'', rr_organization_id = ''org-1'',
      rr_project_id = ''proj-1'', rr_request_id = ''req-1'', rr_correlation_id = None,
      rr_idempotency_key = ''key-1'', rr_input_hash = ''hash-1'', rr_metadata = [], rr_intervention = None\<rparr>"

definition frozen_configuration :: replay_configuration where
  "frozen_configuration =
     \<lparr>rf_workflow_id = ''wf-1'', rf_workflow_version = ''1'', rf_execution_adapter = ''adapter-1'',
      rf_input_snapshot_ref = ''input-1'', rf_state_snapshot_ref = ''state-1'', rf_artifact_refs = [],
      rf_prompt_refs = [], rf_model_refs = [], rf_dataset_refs = [], rf_policy_refs = [],
      rf_runtime_parameters = [], rf_resolved_at = None, rf_configuration_hash = ''hash-2'',
      rf_replay_manifest = None\<rparr>"

definition draft :: replay where
  "draft = projr (create_replay ''replay-1'' replay_order (clock 0))"

lemma draft_created: "create_replay ''replay-1'' replay_order (clock 0) = Inr draft"
  by code_simp

definition run_replay :: "(replay \<Rightarrow> exc + replay) list \<Rightarrow> replay \<Rightarrow> exc + replay" where
  "run_replay fs r = fold (\<lambda>f x. res_bind x f) fs (Inr r)"

lemma run_replay_Cons: "run_replay (f # fs) r = res_bind (f r) (run_replay fs)"
proof -
  have "fold (\<lambda>f x. res_bind x f) fs (Inl e) = Inl e" for e by (induction fs) simp_all
  then show ?thesis by (cases "f r") (simp_all add: run_replay_def)
qed

lemma run_replay_steps:
  "run_replay fs r = Inr q \<Longrightarrow> (\<And>f a b. f \<in> set fs \<Longrightarrow> f a = Inr b \<Longrightarrow> replay_step a b) \<Longrightarrow> replay_step\<^sup>*\<^sup>* r q"
proof (induction fs arbitrary: r)
  case Nil
  then show ?case by (simp add: run_replay_def)
next
  case (Cons f fs)
  from Cons.prems(1) obtain x where "f r = Inr x" "run_replay fs x = Inr q"
    by (auto simp: run_replay_Cons res_bind_Inr_iff)
  with Cons show ?case by (meson converse_rtranclp_into_rtranclp list.set_intros)
qed

definition first_half :: "(replay \<Rightarrow> exc + replay) list" where
  "first_half =
     [replay_mark_ready frozen_configuration (clock 1), replay_mark_queued ''job-1'' (clock 2),
      replay_mark_running 1 (clock 3), reserve_replay_execution_id ''exec-2'' (clock 4),
      mark_execution_completed (clock 5)]"

definition second_half :: "(replay \<Rightarrow> exc + replay) list" where
  "second_half =
     [mark_evaluating ''job-2'' (clock 6), record_replay_evaluation ''eval-2'' (clock 7),
      record_baseline_evaluation ''eval-1'' (clock 8), mark_comparing (clock 9),
      record_comparison ''cmp-1'' (clock 10), record_drift ''drift-1'' (clock 11),
      replay_mark_completed ''result-1'' (clock 12)]"

definition executed_replay :: replay where
  "executed_replay = projr (run_replay first_half draft)"

definition completed_replay :: replay where
  "completed_replay = projr (run_replay second_half executed_replay)"

lemma draft_executed: "replay_step\<^sup>*\<^sup>* draft executed_replay"
proof (rule run_replay_steps)
  show "run_replay first_half draft = Inr executed_replay" by code_simp
qed (auto simp: first_half_def intro: replay_step.intros)

lemma executed_completed: "replay_step\<^sup>*\<^sup>* executed_replay completed_replay"
proof (rule run_replay_steps)
  show "run_replay second_half executed_replay = Inr completed_replay" by code_simp
qed (auto simp: second_half_def intro: replay_step.intros)

lemma completed_status: "rp_status completed_replay = RPS_COMPLETED"
  by code_simp

theorem replay_evidence_complete_witness:
  "rp_status completed_replay = RPS_COMPLETED \<and> replay_content completed_replay = replay_content draft
   \<and> rp_replay_execution_id completed_replay \<noteq> Some (rp_source_execution_id completed_replay)
   \<and> rp_job_id completed_replay \<noteq> None \<and> truthy (rp_result_id completed_replay)"
  using replay_evidence_complete [OF draft_created draft_executed executed_completed] completed_status by simp

definition stored_draft :: replay where
  "stored_draft = draft\<lparr>rp_version := 1\<rparr>"

definition ready_draft :: replay where
  "ready_draft = projr (replay_mark_ready frozen_configuration (clock 1) stored_draft)"

definition failed_draft :: replay where
  "failed_draft = projr (replay_mark_failed
     \<lparr>ry_code = ''SOURCE'', ry_message = ''gone'', ry_stage = FS_SOURCE_RESOLUTION, ry_details = [],
      ry_occurred_at = clock 2\<rparr> (clock 2) stored_draft)"

lemma draft_saved: "save_replay draft None [] = (Inr stored_draft, [(''replay-1'', stored_draft)])"
  by code_simp

lemma ready_saved:
  "save_replay ready_draft (Some 1) [(''replay-1'', stored_draft)]
     = (Inr (ready_draft\<lparr>rp_version := 2\<rparr>), [(''replay-1'', ready_draft\<lparr>rp_version := 2\<rparr>)])"
  by code_simp

lemma same_replay: "rp_replay_id failed_draft = rp_replay_id ready_draft"
  by code_simp

theorem stale_replay_update_refused_witness:
  "save_replay failed_draft (Some 1) [(''replay-1'', ready_draft\<lparr>rp_version := 2\<rparr>)]
     = (Inl (Exc ReplayConflict ''Replay was modified by another request.''),
        [(''replay-1'', ready_draft\<lparr>rp_version := 2\<rparr>)])"
  using stale_replay_update_refused [OF r_into_rtranclp [of replay_repo_step, OF replay_repo_step.save [OF draft_saved]]
      ready_saved rtranclp.rtrancl_refl same_replay] by simp

end
