(* ===== verification/Evaluation_Properties.thy ===== *)
theory Evaluation_Properties
  imports Evaluation_System
begin

text \<open>
  What the evaluation worker guarantees among all commands of the system: a completed replay is
  explained by stored evidence, its result never changes, and a job that is delivered again repeats
  nothing. The last section is about the choice of the baseline.
\<close>

section \<open>All commands\<close>

inductive evaluation_command ::
  "replay_env \<Rightarrow> adapter_registry \<Rightarrow> evaluation_worker \<Rightarrow> evaluation_system \<Rightarrow> evaluation_system \<Rightarrow> bool"
  for env registry w where
  system: "replay_command env registry (vs_replay s) t \<Longrightarrow> evaluation_command env registry w s (s\<lparr>vs_replay := t\<rparr>)"
| submit: "submit_evaluation (ew_env w) now x name specs config installation cx s = (y, t) \<Longrightarrow> evaluation_command env registry w s t"
| evaluate: "handle_evaluation w fresh j s = (y, t) \<Longrightarrow> evaluation_command env registry w s t"

text \<open>Adapters and providers may run any commands of the system, and nothing else.\<close>

definition plugins_within :: "adapter_registry \<Rightarrow> evaluation_worker \<Rightarrow> bool" where
  "plugins_within registry w =
     ((\<forall>V. adapters_within (explained V) registry) \<and> providers_within (ve_registry (ew_env w)))"

lemma evaluation_command_moves:
  assumes "plugins_within registry w"
  shows "evaluation_command env registry w s t \<Longrightarrow> evaluation_inv s \<Longrightarrow> evaluation_move\<^sup>*\<^sup>* s t"
proof (induction rule: evaluation_command.induct)
  case (system s t)
  have adapters: "adapters_within (explained (vs_evaluations s)) registry" using assms by (simp add: plugins_within_def)
  have "(replay_move (explained (vs_evaluations s)))\<^sup>*\<^sup>* (vs_replay s) t"
    by (rule replay_command_moves [OF adapters system(1)]) (use system(2) in \<open>simp add: evaluation_inv_def\<close>)
  then show ?case by (rule system_moves)
next
  case (submit now x name specs config installation cx s y t)
  then show ?case using assms act_withinD [OF submit_evaluation_within] by (auto simp: plugins_within_def)
next
  case (evaluate fresh j s y t)
  then show ?case using assms act_withinD [OF handle_evaluation_within] by (auto simp: plugins_within_def)
qed

interpretation evaluation_commands: evolving_store "evaluation_command env registry w"
  "\<lambda>s. dict_get (rs_replays (vs_replay s))" succeeds "\<lambda>s. plugins_within registry w \<and> evaluation_inv s"
proof
  show "succeeds a c" if "succeeds a b" "succeeds b c" for a b c
    using that by (rule system_replays.keeps_trans)
  show "plugins_within registry w \<and> evaluation_inv t"
    if "plugins_within registry w \<and> evaluation_inv s" "evaluation_command env registry w s t" for s t
    using that evaluation_command_moves evaluations.inv_run by blast
  show "\<exists>q. dict_get (rs_replays (vs_replay t)) i = Some q \<and> succeeds r q"
    if "plugins_within registry w \<and> evaluation_inv s" "evaluation_command env registry w s t"
      "dict_get (rs_replays (vs_replay s)) i = Some r" for s t i r
    using that evaluation_command_moves evaluations.lookup_run by blast
qed (rule succeeds_refl)

text \<open>The store of results, as a client of the system sees it.\<close>

definition result_at :: "evaluation_system \<Rightarrow> string \<Rightarrow> replay_result option" where
  "result_at s i = Option.bind (rs_results (vs_replay s)) (\<lambda>u. dict_get u i)"

lemma replay_move_keeps_results:
  assumes "replay_move A s t" "results_ok (rs_replays s) (rs_results s)" "rs_results s = Some u" "dict_get u i = Some x"
  shows "\<exists>v. rs_results t = Some v \<and> dict_get v i = Some x"
  using assms
proof (induction rule: replay_move.induct)
  case (results s u' x' y t j r)
  then show ?case using results.lookup_step [of u t i x] result_step.save [OF results(2)] by (auto simp: results_ok_def)
qed auto

interpretation final_results: evolving_store "evaluation_command env registry w" result_at "(=)"
  "\<lambda>s. plugins_within registry w \<and> evaluation_inv s"
proof
  have move: "result_at t i = Some x" if "evaluation_move s t" "evaluation_inv s" "result_at s i = Some x" for s t i x
    using that
  proof (induction rule: evaluation_move.induct)
    case (system s t)
    then show ?case using replay_move_keeps_results [OF system(1)]
      by (fastforce simp: result_at_def evaluation_inv_def replay_system_inv_def split: bind_splits)
  qed (simp add: result_at_def)
  have "result_at t i = Some x" if "evaluation_move\<^sup>*\<^sup>* s t" "evaluation_inv s" "result_at s i = Some x" for s t i x
    using that
  proof (induction rule: rtranclp_induct)
    case (step t u)
    then show ?case using move evaluations.inv_run [OF step(1)] by blast
  qed
  then show "\<exists>y. result_at t i = Some y \<and> x = y"
    if "plugins_within registry w \<and> evaluation_inv s" "evaluation_command env registry w s t" "result_at s i = Some x"
    for s t i x
    using that evaluation_command_moves by blast
qed (use evaluation_commands.inv_step in blast)+

definition initial_evaluations :: "execution_store \<Rightarrow> evaluation_repo \<Rightarrow> evaluation_system" where
  "initial_evaluations E V = \<lparr>vs_replay = initial_system E (Some []), vs_evaluations = V\<rparr>"

lemma initial_evaluation_inv: "evaluation_inv (initial_evaluations E V)"
  using initial_system_inv [of E "Some ()"] by (simp add: initial_evaluations_def evaluation_inv_def initial_system_def)

section \<open>Completed replays\<close>

text \<open>
  C32. Whatever commands, workers, adapters and providers have run, a replay that is COMPLETED has exactly
  one stored result. It carries the identifiers the replay recorded, and it is explained by stored
  evaluations of the same tenant: a baseline of the source execution and an evaluation of the
  produced execution by the same evaluator, of which it holds the comparison and the drift.
\<close>

theorem completed_replay_explained:
  assumes "plugins_within registry w" "(evaluation_command env registry w)\<^sup>*\<^sup>* (initial_evaluations E V) s"
    and "dict_get (rs_replays (vs_replay s)) i = Some r" "rp_status r = RPS_COMPLETED"
  shows "\<exists>x. rp_result_id r = Some (rt_result_id x) \<and> result_at s (rt_result_id x) = Some x
    \<and> concludes x r \<and> explained (vs_evaluations s) x
    \<and> (\<forall>k y. result_at s k = Some y \<longrightarrow> rt_replay_id y = i \<longrightarrow> y = x)"
proof -
  have inv: "evaluation_inv s" using evaluation_commands.inv_run [OF assms(2)] assms(1) initial_evaluation_inv by blast
  then have ok: "replay_system_inv (vs_replay s)" by (simp add: evaluation_inv_def)
  have r: "finalized (rs_results (vs_replay s)) r" "rp_replay_id r = i"
    using ok assms(3,4) by (auto simp: replay_system_inv_def replays_ok_def replay_ok_def replay_repo_inv_def)
  then obtain u x where u: "rs_results (vs_replay s) = Some u" and x: "dict_get u (the (rp_result_id r)) = Some x"
      "rp_result_id r \<noteq> None" "concludes x r" by (auto simp: finalized_def split: option.splits)
  have res: "results_ok (rs_replays (vs_replay s)) (Some u)" using ok u by (simp add: replay_system_inv_def)
  then have id: "rp_result_id r = Some (rt_result_id x)" using x(1,2) by (auto simp: results_ok_def result_inv_def)
  have "y = x" if y: "dict_get u k = Some y" "rt_replay_id y = i" for k y
  proof -
    obtain p where "dict_get (rs_replays (vs_replay s)) (rt_replay_id y) = Some p" "concludes y p"
      using res y(1) unfolding results_ok_def option.case by blast
    then have "concludes y r" using y(2) assms(3) by simp
    then have "result_tenant_key y = result_tenant_key x" using x(3) by (simp add: concludes_def result_tenant_key_def)
    then have "k = the (rp_result_id r)" using res y(1) x(1) unfolding results_ok_def option.case result_inv_def by blast
    then show ?thesis using y(1) x(1) by simp
  qed
  moreover have "explained (vs_evaluations s) x" using inv u x(1) unfolding evaluation_inv_def by blast
  ultimately show ?thesis using id x u by (auto simp: result_at_def)
qed

text \<open>
  The result of a completed replay is final: in every later state the result is stored unchanged
  under its identifier, and the replay still names it together with all evidence it concludes.
\<close>

theorem completed_replay_final:
  assumes "plugins_within registry w" "(evaluation_command env registry w)\<^sup>*\<^sup>* (initial_evaluations E V) s"
    and "dict_get (rs_replays (vs_replay s)) i = Some r" "rp_status r = RPS_COMPLETED"
    and "result_at s (the (rp_result_id r)) = Some x" "(evaluation_command env registry w)\<^sup>*\<^sup>* s t"
  shows "result_at t (rt_result_id x) = Some x
    \<and> (\<exists>q. dict_get (rs_replays (vs_replay t)) i = Some q \<and> rp_result_id q = Some (rt_result_id x) \<and> concludes x q)"
proof -
  have inv: "plugins_within registry w \<and> evaluation_inv s"
    using evaluation_commands.inv_run [OF assms(2)] assms(1) initial_evaluation_inv by blast
  then have ok: "replay_system_inv (vs_replay s)" by (simp add: evaluation_inv_def)
  have "finalized (rs_results (vs_replay s)) r"
    using ok assms(3,4) by (auto simp: replay_system_inv_def replays_ok_def replay_ok_def)
  moreover obtain u where u: "rs_results (vs_replay s) = Some u" "dict_get u (the (rp_result_id r)) = Some x"
    using assms(5) by (auto simp: result_at_def bind_eq_Some_conv)
  ultimately have x: "concludes x r" "rp_result_id r \<noteq> None" by (auto simp: finalized_def split: option.splits)
  have res: "results_ok (rs_replays (vs_replay s)) (Some u)" using ok u(1) by (simp add: replay_system_inv_def)
  then have solid: "new_result x = Inr x" "rt_result_id x = the (rp_result_id r)"
    using u(2) unfolding results_ok_def option.case result_inv_def by blast+
  obtain q where q: "dict_get (rs_replays (vs_replay t)) i = Some q" "replay_keeps r q"
    using evaluation_commands.lookup_run [OF assms(6) inv assms(3)] unfolding succeeds_def by blast
  have "rt_result_id x \<noteq> []" using solid(1) by (auto simp: new_result_def not_blank_not_Nil split: if_splits)
  moreover have "rp_result_id r = Some (rt_result_id x)" using x(2) solid(2) by auto
  ultimately have "rp_result_id q = Some (rt_result_id x)"
    using q(2) by (simp add: replay_keeps_def assigned_ids_def truthy_def)
  with q concludes_keeps [OF x(1) solid(1) q(2)] final_results.lookup_run [OF assms(6) inv assms(5)] solid(2) x(2) show ?thesis
    by auto
qed

section \<open>Deliveries of an evaluation job\<close>

text \<open>The replay of a job, as the handler looks it up.\<close>

definition evaluated_replay :: "evaluation_worker \<Rightarrow> job \<Rightarrow> evaluation_system \<Rightarrow> replay option" where
  "evaluated_replay w j s =
     (case job_tenant (Exc ValueError ''Replay evaluation job is missing execution context.'') j of
        Inl _ \<Rightarrow> None
      | Inr cx \<Rightarrow> get_replay (rs_replays (vs_replay s)) (ref_text (ve_fr (ew_env w)) (jb_input_refs j) ''replay_id'' [])
          (cx_organization_id cx) (cx_project cx))"

lemma handle_evaluation_completed:
  assumes "evaluated_replay w j s = Some r" "rp_evaluation_job_id r = Some (jb_job_id j)"
    "rp_status r = RPS_COMPLETED" "rp_result_id r = Some i" "i \<noteq> []"
  shows "handle_evaluation w fresh j s = (Inr (succeeded_result j (''replay_result:'' @ i)), s)"
  using assms by (auto simp: evaluated_replay_def handle_evaluation_def truthy_def split: sum.splits)

text \<open>A handler that ends in success has completed the replay.\<close>

definition concluded :: "job \<Rightarrow> replay \<Rightarrow> job_result \<Rightarrow> evaluation_system \<Rightarrow> bool" where
  "concluded j r res s =
     (\<exists>q i. dict_get (rs_replays (vs_replay s)) (rp_replay_id r) = Some q \<and> replay_keeps r q \<and> rp_status q = RPS_COMPLETED
        \<and> rp_result_id q = Some i \<and> i \<noteq> [] \<and> res = succeeded_result j (''replay_result:'' @ i))"

definition reports :: "job \<Rightarrow> replay \<Rightarrow> (evaluation_system, job_result) action \<Rightarrow> evaluation_system \<Rightarrow> bool" where
  "reports j r m s = (\<forall>res t. m s = (Inr res, t) \<longrightarrow> jrs_status res = JS_SUCCEEDED \<longrightarrow> concluded j r res t)"

lemma reports_other:
  "jrs_status v \<noteq> JS_SUCCEEDED \<Longrightarrow> reports j r (act_return v) s"
  by (simp add: reports_def)

lemma reports_failure: "reports j r (fail_evaluation fresh j' q e) s"
  by (auto simp: reports_def fail_evaluation_def failed_result_def split: if_splits sum.splits elim!: act_bind_InrE)

lemma reports_cancel: "reports j r (cancel_evaluation fresh j' q) s"
  by (auto simp: reports_def cancel_evaluation_def cancelled_result_def elim!: act_bind_InrE)

lemma reports_stage:
  assumes "\<And>v t. m s = (Inr v, t) \<Longrightarrow> reports j r (f v) t"
  shows "reports j r (act_try m (fail_evaluation fresh j' q) f) s"
  using assms reports_failure unfolding reports_def act_try_def by (fastforce split: prod.splits sum.splits)

lemma reports_tail: "reports j r m s \<Longrightarrow> reports j r (act_try m (fail_evaluation fresh j' q) act_return) s"
  using reports_failure unfolding reports_def act_try_def by (fastforce split: prod.splits sum.splits)

lemma reports_keeps: "replay_keeps r q \<Longrightarrow> reports j q m s \<Longrightarrow> reports j r m s"
proof -
  assume keeps: "replay_keeps r q" and m: "reports j q m s"
  have "rp_replay_id q = rp_replay_id r" using keeps by (simp add: replay_keeps_def replay_content_def)
  then have "concluded j q res t \<Longrightarrow> concluded j r res t" for res t
    unfolding concluded_def using replay_keeps_trans [OF keeps] by auto
  with m show "reports j r m s" unfolding reports_def by blast
qed

lemma reports_conclude:
  assumes "current cx s r"
  shows "reports j r (conclude_replay fresh j cx d e comparison drift r) s"
  unfolding reports_def
proof (intro allI impI)
  fix res t assume "conclude_replay fresh j cx d e comparison drift r s = (Inr res, t)"
  then obtain y :: replay_result and u q v where "(if rp_status r = RPS_COMPLETED then act_return r
       else advance (replay_mark_completed (rt_result_id y) (ef_completed fresh)) r) u = (Inr q, v)"
    and last: "act_return (succeeded_result j (''replay_result:'' @ rt_result_id y)) v = (Inr res, t)"
    unfolding conclude_replay_def by (elim act_bind_InrE) blast
  then have adv: "advance (replay_mark_completed (rt_result_id y) (ef_completed fresh)) r u = (Inr q, t)"
    and res: "res = succeeded_result j (''replay_result:'' @ rt_result_id y)"
    using assms by (auto simp: current_def)
  from advance_Inr [OF adv] obtain p n where p: "replay_mark_completed (rt_result_id y) (ef_completed fresh) r = Inr p"
    "q = p\<lparr>rp_version := n\<rparr>" "dict_get (rs_replays (vs_replay t)) (rp_replay_id q) = Some q" by blast
  have "rp_status p = RPS_COMPLETED" "rp_result_id p = Some (rt_result_id y)" "rt_result_id y \<noteq> []"
    using p(1) by (auto simp: replay_mark_completed_def require_replay_status_def immutable_checks_def not_blank_not_Nil split: if_splits)
  moreover have "replay_keeps r q" "rp_replay_id q = rp_replay_id r"
    using replay_keeps_step [OF replay_step.completed [OF p(1)]] p(2)
    by (simp_all add: replay_keeps_def replay_content_def assigned_ids_def)
  ultimately show "concluded j r res t" using p res by (auto simp: concluded_def)
qed

lemma reports_govern:
  assumes cur: "current cx s r" and cx: "cx_project_id cx \<noteq> None"
  shows "reports j r (govern_evaluation w fresh j cx e r) s"
  unfolding govern_evaluation_def
proof (rule reports_stage, clarify)
  fix d r3 t3 assume "choose_baseline w fresh j cx e r s = (Inr (d, r3), t3)"
  note s3 = choose_baseline_stage(2) [OF cur cx this]
  show "reports j r (act_try (begin_comparison fresh r3) (fail_evaluation fresh j r3) (\<lambda>r4.
     act_try (compare_replay fresh d e r4) (fail_evaluation fresh j r4) (\<lambda>(comparison, r5).
     act_try (measure_drift fresh j d e r5) (fail_evaluation fresh j r5) (\<lambda>(drift, r6).
     act_try (conclude_replay fresh j cx d e comparison drift r6) (fail_evaluation fresh j r6) act_return)))) t3"
  proof (rule reports_stage)
    fix r4 t4 assume "begin_comparison fresh r3 t3 = (Inr r4, t4)"
    note s4 = begin_stage(4) [OF conjunct1 [OF s3] this]
    show "reports j r (act_try (compare_replay fresh d e r4) (fail_evaluation fresh j r4) (\<lambda>(comparison, r5).
       act_try (measure_drift fresh j d e r5) (fail_evaluation fresh j r5) (\<lambda>(drift, r6).
       act_try (conclude_replay fresh j cx d e comparison drift r6) (fail_evaluation fresh j r6) act_return))) t4"
    proof (rule reports_stage, clarify)
      fix comparison r5 t5 assume "compare_replay fresh d e r4 t4 = (Inr (comparison, r5), t5)"
      note s5 = compare_stage(2) [OF conjunct1 [OF s4] this]
      show "reports j r (act_try (measure_drift fresh j d e r5) (fail_evaluation fresh j r5) (\<lambda>(drift, r6).
         act_try (conclude_replay fresh j cx d e comparison drift r6) (fail_evaluation fresh j r6) act_return)) t5"
      proof (rule reports_stage, clarify)
        fix drift r6 t6 assume drift: "measure_drift fresh j d e r5 t5 = (Inr (drift, r6), t6)"
        note s6 = drift_stage(2) [OF conjunct1 [OF s5] drift]
        have keeps: "replay_keeps r r6" using s3 s4 s5 s6 replay_keeps_trans by blast
        show "reports j r (act_try (conclude_replay fresh j cx d e comparison drift r6) (fail_evaluation fresh j r6) act_return) t6"
          by (rule reports_tail, rule reports_keeps [OF keeps], rule reports_conclude [OF conjunct1 [OF s6]])
      qed
    qed
  qed
qed

lemma reports_run:
  assumes cur: "current cx s r" and cx: "cx_project_id cx \<noteq> None" and providers: "providers_within (ve_registry (ew_env w))"
  shows "reports j r (run_evaluation w fresh j cx r) s"
  unfolding run_evaluation_def
proof (rule reports_stage)
  fix r1 t1 assume "begin_evaluation fresh j r s = (Inr r1, t1)"
  note s1 = begin_stage(3) [OF cur this]
  have rest: "reports j r (act_try (produce_evaluation w fresh j cx r1) (fail_evaluation fresh j r1) (\<lambda>(e, r2).
       if rp_cancel_requested_at r2 \<noteq> None
       then act_try (cancel_evaluation fresh j r2) (fail_evaluation fresh j r2) act_return
       else govern_evaluation w fresh j cx e r2)) t1"
  proof (rule reports_stage, clarify)
    fix e r2 t2 assume "produce_evaluation w fresh j cx r1 t1 = (Inr (e, r2), t2)"
    note s2 = produce_evaluation_stage(2) [OF conjunct1 [OF s1] providers cx this]
    have "replay_keeps r r2" using s1 s2 replay_keeps_trans by blast
    with reports_keeps [OF _ reports_govern [OF conjunct1 [OF s2] cx]] reports_tail [OF reports_cancel]
    show "reports j r (if rp_cancel_requested_at r2 \<noteq> None
       then act_try (cancel_evaluation fresh j r2) (fail_evaluation fresh j r2) act_return
       else govern_evaluation w fresh j cx e r2) t2" by presburger
  qed
  have failed: "reports j r (act_return (failed_result j reason)) t1" for reason
    by (rule reports_other) (simp add: failed_result_def)
  from rest failed reports_tail [OF reports_cancel] show "reports j r (if rp_status r1 \<notin> {RPS_EVALUATING, RPS_COMPARING}
     then act_return (failed_result j (''Replay cannot be evaluated from '' @ replay_status_value (rp_status r1) @ ''.''))
     else if rp_cancel_requested_at r1 \<noteq> None
     then act_try (cancel_evaluation fresh j r1) (fail_evaluation fresh j r1) act_return
     else act_try (produce_evaluation w fresh j cx r1) (fail_evaluation fresh j r1) (\<lambda>(e, r2).
       if rp_cancel_requested_at r2 \<noteq> None
       then act_try (cancel_evaluation fresh j r2) (fail_evaluation fresh j r2) act_return
       else govern_evaluation w fresh j cx e r2)) t1" by presburger
qed

lemma handle_evaluation_success:
  assumes inv: "evaluation_inv s" and providers: "providers_within (ve_registry (ew_env w))"
    and run: "handle_evaluation w fresh j s = (Inr res, t)" "jrs_status res = JS_SUCCEEDED" and job: "jb_job_id j \<noteq> []"
  shows "\<exists>q i. evaluated_replay w j t = Some q \<and> rp_evaluation_job_id q = Some (jb_job_id j) \<and> rp_status q = RPS_COMPLETED
    \<and> rp_result_id q = Some i \<and> i \<noteq> [] \<and> res = succeeded_result j (''replay_result:'' @ i)"
proof -
  obtain cx where cx: "job_tenant (Exc ValueError ''Replay evaluation job is missing execution context.'') j = Inr cx"
    using run(1) by (auto simp: handle_evaluation_def split: sum.splits)
  let ?i = "ref_text (ve_fr (ew_env w)) (jb_input_refs j) ''replay_id'' []"
  let ?get = "\<lambda>s. get_replay (rs_replays (vs_replay s)) ?i (cx_organization_id cx) (cx_project cx)"
  have look: "evaluated_replay w j u = ?get u" for u by (simp add: evaluated_replay_def cx)
  obtain r where r: "?get s = Some r" "rp_evaluation_job_id r = Some (jb_job_id j)"
    using run by (auto simp: handle_evaluation_def cx failed_result_def split: option.splits if_splits)
  show ?thesis
  proof (cases "rp_status r = RPS_COMPLETED \<and> truthy (rp_result_id r)")
    case True
    then obtain i where i: "rp_result_id r = Some i" "i \<noteq> []" by (auto simp: truthy_def split: option.splits)
    have "evaluated_replay w j s = Some r" using r(1) look by simp
    from handle_evaluation_completed [OF this r(2) _ i] True run(1) r i look show ?thesis by auto
  next
    case False
    then have "run_evaluation w fresh j cx r s = (Inr res, t)"
      using run r by (auto simp: handle_evaluation_def cx cancelled_result_def split: if_splits)
    then have "concluded j r res t"
      using reports_run [OF handle_evaluation_current(1,2) [OF inv cx r(1) False] providers] run(2) by (auto simp: reports_def)
    then obtain q i where q: "dict_get (rs_replays (vs_replay t)) (rp_replay_id r) = Some q" "replay_keeps r q"
      "rp_status q = RPS_COMPLETED" "rp_result_id q = Some i" "i \<noteq> []" "res = succeeded_result j (''replay_result:'' @ i)"
      by (auto simp: concluded_def)
    have "rp_replay_id r = ?i" by (rule handle_evaluation_current(3) [OF inv cx r(1) False])
    then have "?get t = Some q"
      using q(1,2) r(1) by (auto simp: get_replay_def replay_keeps_def replay_content_def split: option.splits if_splits)
    moreover have "rp_evaluation_job_id q = Some (jb_job_id j)"
      using q(2) r(2) job by (simp add: replay_keeps_def assigned_ids_def truthy_def)
    ultimately show ?thesis using q look by auto
  qed
qed

text \<open>
  C33. Delivering an evaluation job again does not evaluate again: once the handler has reported success,
  it reports the same result for every later delivery while the replay stands as completed, whatever
  commands ran in between, without calling a provider or changing the state.
\<close>

theorem redelivered_evaluation_not_repeated:
  assumes "plugins_within registry w" "(evaluation_command env registry w)\<^sup>*\<^sup>* (initial_evaluations E V) s"
    and "handle_evaluation w fresh j s = (Inr res, t)" "jrs_status res = JS_SUCCEEDED" "jb_job_id j \<noteq> []"
    and "(evaluation_command env registry w)\<^sup>*\<^sup>* t u" "evaluated_replay w j u = Some p" "rp_status p = RPS_COMPLETED"
  shows "handle_evaluation w fresh' j u = (Inr res, u)"
proof -
  have inv: "plugins_within registry w \<and> evaluation_inv s"
    using evaluation_commands.inv_run [OF assms(2)] assms(1) initial_evaluation_inv by blast
  have inv_t: "plugins_within registry w \<and> evaluation_inv t"
    by (rule evaluation_commands.inv_step [OF inv evaluation_command.evaluate [OF assms(3)]])
  obtain q i where q: "evaluated_replay w j t = Some q" "rp_evaluation_job_id q = Some (jb_job_id j)"
      "rp_result_id q = Some i" "i \<noteq> []" "res = succeeded_result j (''replay_result:'' @ i)"
    using handle_evaluation_success [OF _ _ assms(3-5)] inv by (auto simp: plugins_within_def)
  obtain k where k: "dict_get (rs_replays (vs_replay t)) k = Some q" "dict_get (rs_replays (vs_replay u)) k = Some p"
    using q(1) assms(7) by (auto simp: evaluated_replay_def get_replay_def split: sum.splits option.splits if_splits)
  then have "replay_keeps q p" using evaluation_commands.lookup_run [OF assms(6) inv_t k(1)] by (auto simp: succeeds_def)
  then have "rp_result_id p = Some i" "rp_evaluation_job_id p = Some (jb_job_id j)"
    using q(2-4) assms(5) by (simp_all add: replay_keeps_def assigned_ids_def truthy_def)
  with handle_evaluation_completed [OF assms(7) _ assms(8)] q(4,5) show ?thesis by simp
qed

section \<open>The choice of the baseline\<close>

text \<open>
  C34. A baseline is never taken from elsewhere: whatever the strategy, it is a stored evaluation of the
  source execution, visible in the tenant, of the same evaluator and version and with a metric in
  common. With LATEST_COMPATIBLE no compatible evaluation in the retained history is more recent, and
  of those as recent none has a greater identifier.
\<close>

theorem baseline_choice:
  assumes "resolve_baseline env now resolved V i e strategy explicit cx = Inr d"
  shows "br_evaluation d \<in> set V \<and> er_execution_id (br_evaluation d) = i
    \<and> evaluation_in_context (br_evaluation d) (Some cx)
    \<and> er_evaluator_type (br_evaluation d) = er_evaluator_type e \<and> er_evaluator_version (br_evaluation d) = er_evaluator_version e
    \<and> (\<exists>n. n \<in> set (metric_names (br_evaluation d)) \<and> n \<in> set (metric_names e))
    \<and> (py_upper strategy = ''LATEST_COMPATIBLE'' \<longrightarrow>
        (\<exists>es. get_history env now V i (Some cx) = Inr es
          \<and> (\<forall>c \<in> set es. compatible c e \<longrightarrow>
               (micros (er_created_at c), er_evaluation_id c)
                 \<le> (micros (er_created_at (br_evaluation d)), er_evaluation_id (br_evaluation d)))))"
proof -
  have "\<exists>es. get_history env now V i (Some cx) = Inr es
      \<and> (\<forall>c \<in> set es. compatible c e \<longrightarrow> (micros (er_created_at c), er_evaluation_id c)
            \<le> (micros (er_created_at (br_evaluation d)), er_evaluation_id (br_evaluation d)))"
    if latest: "py_upper strategy = ''LATEST_COMPATIBLE''"
  proof -
    have "py_upper strategy \<noteq> ''EXPLICIT''" "baseline_candidates (py_upper strategy) es = es" for es
      using latest by (simp_all add: baseline_candidates_def)
    then obtain es r rs where es: "get_history env now V i (Some cx) = Inr es"
      and rs: "filter (\<lambda>r. compatible r e) es = r # rs"
      and d: "br_evaluation d = first_max (\<lambda>x. (micros (er_created_at x), er_evaluation_id x)) r rs"
      using resolve_baseline_history [OF assms] by metis
    have "c \<in> set (r # rs)" if "c \<in> set es" "compatible c e" for c using that unfolding rs [symmetric] by simp
    then show ?thesis using es first_max_ge [of _ r rs "\<lambda>x. (micros (er_created_at x), er_evaluation_id x)"] unfolding d by blast
  qed
  moreover have "br_evaluation d \<in> set V \<and> er_execution_id (br_evaluation d) = i
      \<and> evaluation_in_context (br_evaluation d) (Some cx) \<and> compatible (br_evaluation d) e"
    using resolve_baseline_Inr [OF assms] by blast
  ultimately show ?thesis unfolding compatible_def list_ex_iff by blast
qed

end
