(* ===== verification/Witnesses_Replay_System.thy ===== *)
theory Witnesses_Replay_System
  imports Replay_Properties Witnesses_Replay
begin

text \<open>
  The replay system at a concrete deployment: one source execution, replayed by the built-in adapter
  from the creation to its delivered job. Hashes stay symbolic; that they are not blank is all the
  code needs of them.
\<close>

section \<open>The deployment\<close>

definition source_run :: workflow_execution where
  "source_run =
     \<lparr>wx_workflow_id = ''wf-1'', wx_execution_id = ''exec-1'', wx_workflow_name = ''claims'', wx_workflow_version = ''1'',
      wx_execution_status = ''COMPLETED'', wx_input = Some [], wx_final_state = Some [], wx_events = [],
      wx_organization_id = ''org-1'', wx_project_id = ''proj-1'', wx_execution_adapter = ''historical'',
      wx_input_snapshot_ref = Some ''input-1'', wx_state_snapshot_ref = Some ''state-1'', wx_artifact_refs = None,
      wx_prompt_refs = None, wx_model_refs = None, wx_dataset_refs = None, wx_policy_refs = None,
      wx_runtime_parameters = None, wx_metadata = [], wx_created_at = None\<rparr>"

definition deployed :: replay_env where
  "deployed = \<lparr>rv_fr = float_text, rv_require = None, rv_enforcers = [], rv_job_service = Some None, rv_settings = None,
     rv_providers = None\<rparr>"

definition registry :: adapter_registry where
  "registry = [(''historical'', historical_adapter (clock 8))]"

definition order :: create_request where
  "order = \<lparr>cq_source_execution_id = ''exec-1'', cq_idempotency_key = ''key-1'', cq_mode = ''FULL'',
     cq_configuration_source = ''ORIGINAL'', cq_metadata = [], cq_intervention = None\<rparr>"

definition creation_fresh :: create_fresh where
  "creation_fresh = \<lparr>cf_replay_id = ''replay-1'', cf_created = clock 0, cf_resolved = clock 1, cf_ready = clock 2,
     cf_occurred = clock 2, cf_failed = clock 2\<rparr>"

definition worker_fresh :: handler_fresh where
  "worker_fresh = \<lparr>hf_execution_id = ''exec-2'', hf_running = clock 5, hf_reserved = clock 6, hf_completed = clock 9,
     hf_cancelled = clock 9, hf_occurred = clock 9, hf_failed = clock 9\<rparr>"

lemmas deployment_defs = deployed_def order_def creation_fresh_def worker_fresh_def tenant_def cx_project_def opt_or_def

lemma registry_within: "adapters_within A registry"
proof -
  have "act_within (replay_move A) (historical_replay now x c k) s" for now x c k s
    by (auto simp: act_within_def historical_replay_def)
  then show ?thesis by (auto simp: adapters_within_def registry_def historical_adapter_def)
qed

lemma hash_not_blank [simp]: "\<not> blank (hash_value fr v)" "\<not> blank (stable_input_hash fr refs a b)"
  unfolding hash_value_def stable_input_hash_def
  by (rule match_identifier_not_blank [OF match_hex64_identifier [OF match_hex64_sha256, of 63]], simp)+

lemma request_hash_not_blank [simp]: "\<not> blank (request_hash e q cx)"
  by (simp add: request_hash_def)

lemma name_not_blank:
  "\<not> blank ''replay-1''" "\<not> blank ''exec-1''" "\<not> blank ''runtime-1''" "\<not> blank ''org-1''" "\<not> blank ''proj-1''"
  "\<not> blank ''req-1''" "\<not> blank ''key-1''" "\<not> blank ''wf-1''" "\<not> blank ''1''" "\<not> blank ''historical''"
  "\<not> blank ''input-1''" "\<not> blank ''state-1''" "\<not> blank ''job-1''" "\<not> blank ''exec-2''" "blank '' ''"
  "\<not> blank (''replay-execution:org-1:proj-1:replay-1'')"
  by code_simp+

section \<open>Creation\<close>

definition source_hash :: string where
  "source_hash = hash_value float_text (configuration_payload float_text source_run None)"

definition the_configuration :: replay_configuration where
  "the_configuration =
     \<lparr>rf_workflow_id = ''wf-1'', rf_workflow_version = ''1'', rf_execution_adapter = ''historical'',
      rf_input_snapshot_ref = ''input-1'', rf_state_snapshot_ref = ''state-1'', rf_artifact_refs = [],
      rf_prompt_refs = [], rf_model_refs = [], rf_dataset_refs = [], rf_policy_refs = [],
      rf_runtime_parameters = [], rf_resolved_at = Some (clock 1), rf_configuration_hash = source_hash,
      rf_replay_manifest = None\<rparr>"

lemma source_validated: "validate_source float_text (clock 1) source_run tenant = Inr the_configuration"
proof -
  have "\<not> list_ex is_mutable_alias [''input-1'', ''state-1'']" by code_simp
  moreover have "frozen_references float_text source_run = [''input-1'', ''state-1'']"
    by (simp add: frozen_references_def frozen_input_def frozen_state_def source_run_def str_or_def opt_or_def)
  ultimately show ?thesis
    by (simp add: validate_source_def source_checks_def manifest_from_source_metadata_def manifest_assessment_def
        new_configuration_def res_bind_def pget_def name_not_blank the_configuration_def source_hash_def
        frozen_input_def frozen_state_def str_or_def deployment_defs)
      (simp add: source_run_def name_not_blank frozen_input_def frozen_state_def str_or_def opt_or_def)
qed

definition first_draft :: replay where
  "first_draft = projr (create_replay ''replay-1'' (draft_request deployed order tenant) (clock 0))"

lemma first_draft_created: "create_replay ''replay-1'' (draft_request deployed order tenant) (clock 0) = Inr first_draft"
  by (simp add: first_draft_def create_replay_def draft_request_def name_not_blank deployment_defs)

lemma first_draft_fields [simp]:
  "rp_replay_id first_draft = ''replay-1''" "rp_status first_draft = RPS_DRAFT" "rp_failure first_draft = None"
  "rp_organization_id first_draft = ''org-1''" "rp_project_id first_draft = ''proj-1''"
  "rp_source_execution_id first_draft = ''exec-1''" "rp_job_id first_draft = None"
  "rp_replay_execution_id first_draft = None" "rp_cancel_requested_at first_draft = None"
  "rp_intervention first_draft = None" "rp_idempotency_key first_draft = ''key-1''"
  "rp_input_hash first_draft = request_hash deployed order tenant"
  by (simp_all add: first_draft_def create_replay_def draft_request_def name_not_blank deployment_defs)

definition ready_replay :: replay where
  "ready_replay = first_draft\<lparr>rp_status := RPS_READY, rp_configuration := Some the_configuration, rp_updated_at := clock 2,
     rp_version := 2\<rparr>"

definition store0 :: execution_store where
  "store0 = [((''org-1'', ''proj-1'', ''exec-1''), source_run)]"

definition replay_state :: "replay \<Rightarrow> job_repo \<Rightarrow> execution_store \<Rightarrow> replay_system" where
  "replay_state r J E = \<lparr>rs_replays = [(''replay-1'', r)], rs_jobs = J, rs_results = Some [], rs_executions = E\<rparr>"

abbreviation start :: replay_system where
  "start \<equiv> initial_system store0 (map_option (\<lambda>_. []) (Some ()))"

lemma saved_first_draft:
  "on_replays (save_replay first_draft None) start
     = (Inr (first_draft\<lparr>rp_version := 1\<rparr>), replay_state (first_draft\<lparr>rp_version := 1\<rparr>) empty_job_repo store0)"
  by (simp add: act_on_apply save_replay_def find_replay_by_idempotency_def dict_values_def Let_def replay_state_def
      initial_system_def)

lemma saved_next:
  assumes "rp_replay_id q = ''replay-1''" "rp_replay_id r = ''replay-1''" "replay_identity q = replay_identity r"
  shows "on_replays (save_replay q (Some (rp_version r))) (replay_state r J E)
     = (Inr (q\<lparr>rp_version := rp_version r + 1\<rparr>), replay_state (q\<lparr>rp_version := rp_version r + 1\<rparr>) J E)"
  using assms by (simp add: act_on_apply save_replay_def Let_def replay_state_def replay_identity_def)

lemma replay_created:
  "service_create_replay deployed order tenant creation_fresh start = (Inr ready_replay, replay_state ready_replay empty_job_repo store0)"
proof -
  let ?d = "first_draft\<lparr>rp_version := 1\<rparr>"
  let ?r = "?d\<lparr>rp_status := RPS_READY, rp_configuration := Some the_configuration, rp_updated_at := clock 2\<rparr>"
  have "resolve_configuration deployed (clock 1) ''exec-1'' tenant (replay_state ?d empty_job_repo store0) = Inr the_configuration"
    using source_validated
    by (simp add: resolve_configuration_def get_source_execution_def source_key_def store0_def replay_state_def deployment_defs)
  then have "freeze_draft deployed creation_fresh order tenant ?d (replay_state ?d empty_job_repo store0)
      = (Inr (?r\<lparr>rp_version := 2\<rparr>), replay_state (?r\<lparr>rp_version := 2\<rparr>) empty_job_repo store0)"
    using saved_next [of ?r ?d empty_job_repo store0]
    by (simp add: freeze_draft_def creation_fresh_def order_def replay_mark_ready_def require_replay_status_def replay_identity_def)
  moreover have "?r\<lparr>rp_version := 2\<rparr> = ready_replay" by (simp add: ready_replay_def)
  ultimately show ?thesis
    using first_draft_created saved_first_draft
    by (simp add: service_create_replay_def replay_authorize_def replay_mode_def configuration_source_def
        find_replay_by_idempotency_def dict_values_def initial_system_def [of store0 "map_option _ _"] creation_fresh_def)
      (simp add: deployed_def order_def initial_system_def)
qed

section \<open>Submission\<close>

definition the_submission :: job_submission where
  "the_submission = execution_submission deployed tenant ready_replay the_configuration"

definition the_job :: job where
  "the_job = submitted_job float_text (clock 3) ''job-1'' the_submission"

definition the_queue :: job_repo where
  "the_queue = \<lparr>jr_jobs = [(''job-1'', the_job)], jr_workers = []\<rparr>"

lemma ready_replay_fields [simp]:
  "rp_replay_id ready_replay = ''replay-1''" "rp_status ready_replay = RPS_READY"
  "rp_organization_id ready_replay = ''org-1''" "rp_project_id ready_replay = ''proj-1''" "rp_version ready_replay = 2"
  "rp_configuration ready_replay = Some the_configuration" "rp_job_id ready_replay = None"
  by (simp_all add: ready_replay_def)

lemma job_submitted: "submit_job float_text None (clock 3, ''job-1'') the_submission empty_job_repo = (Inr the_job, the_queue)"
proof -
  have sub: "jsb_idempotency_key the_submission = ''replay-execution:org-1:proj-1:replay-1''"
      "jsb_submitted_by the_submission = ''runtime-1''" "jsb_input_refs the_submission \<noteq> []"
      "jsb_max_attempts the_submission = 3"
    by (simp_all add: the_submission_def execution_submission_def replay_max_attempts_def replay_job_key_def deployment_defs)
  have "new_job the_job = Inr the_job"
    by (simp add: new_job_def job_checks_def require_job_field_def the_job_def submitted_job_def Let_def sub name_not_blank)
  moreover have "checked (submission_checks the_submission) () = Inr ()"
    by (simp add: submission_checks_def sub name_not_blank)
  moreover have "jb_job_id the_job = ''job-1''" by (simp add: the_job_def submitted_job_def Let_def)
  ultimately show ?thesis
    by (simp add: submit_job_def the_job_def [symmetric] find_job_by_idempotency_key_def empty_job_repo_def
        queue_full_def save_job_def dict_values_def Let_def the_queue_def)
qed

definition queued_replay :: replay where
  "queued_replay = ready_replay\<lparr>rp_status := RPS_QUEUED, rp_job_id := Some ''job-1'', rp_queued_at := Some (clock 4),
     rp_updated_at := clock 4, rp_version := 3\<rparr>"

lemma the_job_id [simp]: "jb_job_id the_job = ''job-1''"
  by (simp add: the_job_def submitted_job_def Let_def)

lemma replay_submitted:
  "submit_replay deployed ''replay-1'' tenant ((clock 3, ''job-1''), clock 4) (replay_state ready_replay empty_job_repo store0)
     = (Inr queued_replay, replay_state queued_replay the_queue store0)"
proof -
  let ?q = "ready_replay\<lparr>rp_status := RPS_QUEUED, rp_job_id := Some ''job-1'', rp_queued_at := Some (clock 4),
     rp_updated_at := clock 4\<rparr>"
  have "service_get_replay deployed ''replay-1'' tenant (replay_state ready_replay empty_job_repo store0) = Inr ready_replay"
    by (simp add: service_get_replay_def replay_authorize_def get_replay_def replay_state_def deployment_defs res_bind_def)
  moreover have "on_jobs (submit_job float_text None (clock 3, ''job-1'') the_submission) (replay_state ready_replay empty_job_repo store0)
      = (Inr the_job, replay_state ready_replay the_queue store0)"
    using job_submitted by (simp add: act_on_apply replay_state_def)
  moreover have "on_replays (save_replay ?q (Some 2)) (replay_state ready_replay the_queue store0)
      = (Inr queued_replay, replay_state queued_replay the_queue store0)"
    using saved_next [of ?q ready_replay the_queue store0] by (simp add: queued_replay_def replay_identity_def)
  ultimately show ?thesis
    by (simp add: submit_replay_def replay_authorize_def enforce_operation_def deployed_def the_submission_def act_reraise_def
        replay_mark_queued_def require_replay_status_def name_not_blank)
qed

section \<open>Execution\<close>

definition claimed_job :: job where
  "claimed_job = the_job\<lparr>jb_attempt_count := 1\<rparr>"

definition running_replay :: replay where
  "running_replay = queued_replay\<lparr>rp_status := RPS_RUNNING, rp_started_at := Some (clock 5), rp_updated_at := clock 5,
     rp_attempt_count := 1, rp_version := 4\<rparr>"

definition reserved_replay :: replay where
  "reserved_replay = running_replay\<lparr>rp_replay_execution_id := Some ''exec-2'', rp_updated_at := clock 6, rp_version := 5\<rparr>"

definition delivered_replay :: replay where
  "delivered_replay = reserved_replay\<lparr>rp_status := RPS_EXECUTION_COMPLETED, rp_execution_completed_at := Some (clock 9),
     rp_updated_at := clock 9, rp_version := 6\<rparr>"

lemma stage_fields [simp]:
  "rp_status queued_replay = RPS_QUEUED" "rp_status running_replay = RPS_RUNNING" "rp_status reserved_replay = RPS_RUNNING"
  "rp_status delivered_replay = RPS_EXECUTION_COMPLETED" "rp_version queued_replay = 3" "rp_version running_replay = 4"
  "rp_version reserved_replay = 5" "rp_job_id queued_replay = Some ''job-1''"
  "rp_replay_id queued_replay = ''replay-1''" "rp_replay_id running_replay = ''replay-1''"
  "rp_replay_id reserved_replay = ''replay-1''" "rp_replay_execution_id queued_replay = None" "rp_replay_execution_id running_replay = None"
  "rp_replay_execution_id reserved_replay = Some ''exec-2''" "rp_source_execution_id running_replay = ''exec-1''"
  "rp_source_execution_id reserved_replay = ''exec-1''" "rp_configuration reserved_replay = Some the_configuration"
  "rp_organization_id reserved_replay = ''org-1''" "rp_project_id reserved_replay = ''proj-1''"
  "rp_organization_id queued_replay = ''org-1''" "rp_project_id queued_replay = ''proj-1''"
  "rp_cancel_requested_at reserved_replay = None" "rp_intervention reserved_replay = None"
  "rp_replay_execution_id delivered_replay = Some ''exec-2''" "rp_job_id delivered_replay = Some ''job-1''"
  "rp_organization_id delivered_replay = ''org-1''" "rp_project_id delivered_replay = ''proj-1''"
  by (simp_all add: delivered_replay_def reserved_replay_def running_replay_def queued_replay_def ready_replay_def)

lemma execution_started:
  "start_execution worker_fresh claimed_job queued_replay (replay_state queued_replay J E)
     = (Inr running_replay, replay_state running_replay J E)"
  using saved_next [of "queued_replay\<lparr>rp_status := RPS_RUNNING, rp_started_at := Some (clock 5), rp_updated_at := clock 5,
     rp_attempt_count := 1\<rparr>" queued_replay J E]
  by (simp add: start_execution_def replay_mark_running_def require_replay_status_def claimed_job_def worker_fresh_def
      replay_identity_def running_replay_def)

lemma execution_reserved:
  "reserve_execution worker_fresh running_replay (replay_state running_replay J E)
     = (Inr reserved_replay, replay_state reserved_replay J E)"
  using saved_next [of "running_replay\<lparr>rp_replay_execution_id := Some ''exec-2'', rp_updated_at := clock 6\<rparr>" running_replay J E]
  by (simp add: reserve_execution_def reserve_replay_execution_id_def worker_fresh_def name_not_blank truthy_def
      replay_identity_def reserved_replay_def)

definition adapter_run :: workflow_execution where
  "adapter_run =
     \<lparr>wx_workflow_id = ''wf-1'', wx_execution_id = ''exec-2'', wx_workflow_name = ''claims'', wx_workflow_version = ''1'',
      wx_execution_status = ''COMPLETED'', wx_input = Some [], wx_final_state = Some [],
      wx_events = [PDict [(''type'', PStr ''REPLAY_COMPLETED'')]],
      wx_organization_id = ''org-1'', wx_project_id = ''proj-1'', wx_execution_adapter = ''historical'',
      wx_input_snapshot_ref = Some ''input-1'', wx_state_snapshot_ref = Some ''state-1'', wx_artifact_refs = Some [],
      wx_prompt_refs = Some [], wx_model_refs = Some [], wx_dataset_refs = Some [], wx_policy_refs = Some [],
      wx_runtime_parameters = Some [], wx_metadata = [], wx_created_at = Some (clock 8)\<rparr>"

definition produced_run :: workflow_execution where
  "produced_run = with_lineage claimed_job tenant reserved_replay the_configuration source_run adapter_run"

definition store1 :: execution_store where
  "store1 = upsert_execution produced_run store0"

definition the_result :: job_result where
  "the_result = succeeded_result claimed_job (result_ref delivered_replay)"

lemma not_cancelled: "\<not> token_cancelled ''replay-1'' tenant (replay_state reserved_replay J E)"
  by (simp add: token_cancelled_def get_replay_def replay_state_def tenant_def cx_project_def opt_or_def)

lemma execution_completed:
  "complete_execution worker_fresh claimed_job tenant reserved_replay the_configuration source_run (Workflow adapter_run)
     (replay_state reserved_replay J store0) = (Inr the_result, replay_state delivered_replay J store1)"
proof -
  let ?q = "reserved_replay\<lparr>rp_status := RPS_EXECUTION_COMPLETED, rp_execution_completed_at := Some (clock 9), rp_updated_at := clock 9\<rparr>"
  have "checked (identity_checks reserved_replay adapter_run) () = Inr ()"
    by (simp add: identity_checks_def adapter_run_def)
  moreover have "store_execution produced_run (replay_state reserved_replay J store0) = (Inr (), replay_state reserved_replay J store1)"
    by (simp add: store_execution_def replay_state_def store1_def)
  moreover have "on_replays (save_replay ?q (Some 5)) (replay_state reserved_replay J store1)
      = (Inr delivered_replay, replay_state delivered_replay J store1)"
    using saved_next [of ?q reserved_replay J store1] by (simp add: delivered_replay_def replay_identity_def)
  ultimately show ?thesis
    by (simp add: complete_execution_def produced_run_def mark_execution_completed_def require_replay_status_def worker_fresh_def
        the_result_def)
qed

lemma adapter_ran:
  "run_adapter registry worker_fresh claimed_job tenant reserved_replay (replay_state reserved_replay J store0)
     = (Inr the_result, replay_state delivered_replay J store1)"
proof -
  obtain k where k: "adapter_context claimed_job tenant reserved_replay source_run None = Inr k" "ec_is_cancelled k = token_cancelled ''replay-1'' tenant"
      "ec_intervention k = None" "ec_new_execution_id k = Some ''exec-2''" "ec_organization_id k = ''org-1''"
      "ec_project_id k = ''proj-1''" "ec_metadata k = []"
    by (simp add: adapter_context_def intervention_envelope_of_def res_bind_def tenant_def cx_project_def opt_or_def)
  have run: "historical_replay (clock 8) source_run the_configuration k (replay_state reserved_replay J store0)
      = (Inr (Workflow adapter_run), replay_state reserved_replay J store0)"
    using k(2-) not_cancelled [of J store0]
    by (simp add: historical_replay_def dict_of_def res_bind_def adapter_run_def)
      (simp add: source_run_def the_configuration_def)
  then have "act_bind (act_lift (adapter_context claimed_job tenant reserved_replay source_run None))
      (historical_replay (clock 8) source_run the_configuration) (replay_state reserved_replay J store0)
      = (Inr (Workflow adapter_run), replay_state reserved_replay J store0)" using k(1) by simp
  then have attempt: "attempt_adapter worker_fresh claimed_job tenant reserved_replay the_configuration source_run
      (historical_adapter (clock 8)) None (replay_state reserved_replay J store0)
      = (Inr the_result, replay_state delivered_replay J store1)"
    using not_cancelled [of J store0] execution_completed [of J]
    by (simp add: attempt_adapter_def historical_adapter_def act_try_def)
  have source: "get_source_execution (rs_executions (replay_state reserved_replay J store0)) ''exec-1'' tenant = Some source_run"
    by (simp add: get_source_execution_def source_key_def replay_state_def store0_def tenant_def cx_project_def opt_or_def)
  have "resolve_adapter registry (rf_execution_adapter the_configuration) = Inr (historical_adapter (clock 8))"
    "runtime_replay_source source_run the_configuration = Inr None"
    "ad_validate (historical_adapter (clock 8)) source_run the_configuration = Inr ()"
    by (simp_all add: resolve_adapter_def registry_def runtime_replay_source_def pget_def opt_or_def historical_adapter_def
        historical_validate_def source_run_def the_configuration_def runtime_source_schema_def)
  then show ?thesis
    using source attempt by (simp add: run_adapter_def res_bind_def act_bind_def act_reraise_def)
qed

lemma claimed_job_fields:
  "jb_execution_context claimed_job = Some (job_context_of tenant)" "str_item fr (jb_input_refs claimed_job) ''replay_id'' = Some ''replay-1''"
  by (simp_all add: claimed_job_def the_job_def submitted_job_def the_submission_def execution_submission_def Let_def str_item_def)

lemma execution_delivered:
  "handle_execution float_text registry worker_fresh claimed_job (replay_state queued_replay J store0)
     = (Inr the_result, replay_state delivered_replay J store1)"
proof -
  have "job_tenant e claimed_job = Inr tenant" for e
    by (simp add: job_tenant_def claimed_job_fields job_context_of_def tenant_def cx_project_def opt_or_def)
  moreover have "get_replay (rs_replays (replay_state queued_replay J store0)) ''replay-1'' (cx_organization_id tenant) (cx_project tenant)
      = Some queued_replay"
    by (simp add: get_replay_def replay_state_def tenant_def cx_project_def opt_or_def)
  ultimately show ?thesis
    by (simp add: handle_execution_def claimed_job_fields act_try_def execution_started execution_reserved adapter_ran)
      (simp add: claimed_job_def)
qed

section \<open>Witnesses\<close>

lemma reached_ready: "(replay_command deployed registry)\<^sup>*\<^sup>* start (replay_state ready_replay empty_job_repo store0)"
  using replay_command.create [OF replay_created] by (rule r_into_rtranclp)

lemma reached_queued: "(replay_command deployed registry)\<^sup>*\<^sup>* start (replay_state queued_replay the_queue store0)"
proof (rule rtranclp.rtrancl_into_rtrancl [OF reached_ready], rule replay_command.submit [OF replay_submitted])
  show "dict_get (jr_jobs (rs_jobs (replay_state ready_replay empty_job_repo store0))) (snd (fst ((clock 3, ''job-1''), clock 4))) = None"
    by (simp add: replay_state_def empty_job_repo_def)
qed

lemma second_run_fresh: "fresh_execution_id (replay_state queued_replay the_queue store0) (hf_execution_id worker_fresh)"
  by (simp add: fresh_execution_id_def replay_state_def store0_def dict_values_def worker_fresh_def)

lemma float_text_deployed: "rv_fr deployed = float_text"
  by (simp add: deployed_def)

lemma delivered: "handle_execution (rv_fr deployed) registry worker_fresh claimed_job (replay_state queued_replay the_queue store0)
     = (Inr the_result, replay_state delivered_replay the_queue store1)"
  unfolding float_text_deployed by (rule execution_delivered)

lemma reached_delivered: "(replay_command deployed registry)\<^sup>*\<^sup>* start (replay_state delivered_replay the_queue store1)"
  by (rule rtranclp.rtrancl_into_rtrancl [OF reached_queued replay_command.execute [OF delivered second_run_fresh]])

lemma delivered_lookup: "dict_get (rs_replays (replay_state delivered_replay J E)) ''replay-1'' = Some delivered_replay"
  by (simp add: replay_state_def)

theorem replay_evidence_in_system_witness:
  "has_executed delivered_replay \<and> produced store1 delivered_replay \<and> executes the_queue ''job-1'' delivered_replay"
proof -
  have "has_executed delivered_replay" "rp_status delivered_replay \<in> insert RPS_COMPLETED replay_active"
    by (simp_all add: has_executed_def replay_active_def)
  with replay_evidence_in_system [OF registry_within reached_delivered delivered_lookup] show ?thesis
    by (simp add: replay_state_def)
qed

theorem replay_creation_idempotent_witness:
  "creation.retries deployed order tenant [creation_fresh, creation_fresh] (replay_state delivered_replay the_queue store1)
     = (Inr [delivered_replay, delivered_replay], replay_state delivered_replay the_queue store1)"
proof -
  have later: "(replay_command deployed registry)\<^sup>*\<^sup>* (replay_state ready_replay empty_job_repo store0) (replay_state delivered_replay the_queue store1)"
  proof (rule rtranclp.rtrancl_into_rtrancl [OF r_into_rtranclp])
    show "replay_command deployed registry (replay_state ready_replay empty_job_repo store0) (replay_state queued_replay the_queue store0)"
      by (rule replay_command.submit [OF replay_submitted]) (simp add: replay_state_def empty_job_repo_def)
    show "replay_command deployed registry (replay_state queued_replay the_queue store0) (replay_state delivered_replay the_queue store1)"
      by (rule replay_command.execute [OF delivered second_run_fresh])
  qed
  have "\<exists>p. dict_get (rs_replays (replay_state delivered_replay the_queue store1)) (rp_replay_id ready_replay) = Some p
      \<and> creation.retries deployed order tenant [creation_fresh, creation_fresh] (replay_state delivered_replay the_queue store1)
        = (Inr (replicate (length [creation_fresh, creation_fresh]) p), replay_state delivered_replay the_queue store1)"
    using replay_creation_idempotent [OF registry_within rtranclp.rtrancl_refl replay_created later] by blast
  then show ?thesis by (simp add: delivered_lookup)
qed

theorem redelivered_execution_not_repeated_witness:
  "handle_execution (rv_fr deployed) [] worker_fresh claimed_job (replay_state delivered_replay the_queue store1)
     = (Inr the_result, replay_state delivered_replay the_queue store1)"
proof (rule redelivered_execution_not_repeated [OF registry_within reached_queued delivered _ second_run_fresh _ rtranclp.rtrancl_refl])
  show "jrs_status the_result = JS_SUCCEEDED" by (simp add: the_result_def succeeded_result_def)
  show "jb_job_id claimed_job \<noteq> []" by (simp add: claimed_job_def)
  show "job_replay (rv_fr deployed) claimed_job (replay_state delivered_replay the_queue store1) = Some delivered_replay"
    by (simp add: job_replay_def claimed_job_fields job_context_of_def get_replay_def replay_state_def tenant_def cx_project_def opt_or_def)
  show "has_executed delivered_replay" by (simp add: has_executed_def)
qed

theorem ready_replay_frozen_witness:
  "frozen_from float_text tenant source_run the_configuration"
proof -
  have "find_replay_by_idempotency (rs_replays start) (cq_idempotency_key order) (cx_organization_id tenant) (cx_project tenant) = None"
    by (simp add: initial_system_def find_replay_by_idempotency_def dict_values_def)
  from ready_replay_frozen [OF this replay_created]
  have "\<exists>x c. get_source_execution store0 ''exec-1'' tenant = Some x \<and> Some the_configuration = Some c
      \<and> frozen_from (rv_fr deployed) tenant x c"
    by (simp add: initial_system_def order_def)
  then show ?thesis
    by (simp add: get_source_execution_def source_key_def store0_def tenant_def cx_project_def opt_or_def deployed_def)
qed

definition blank_store :: execution_store where
  "blank_store = [((''org-1'', ''proj-1'', ''exec-1''), source_run\<lparr>wx_input_snapshot_ref := Some '' ''\<rparr>)]"

definition stranded :: replay where
  "stranded = first_draft\<lparr>rp_version := 1\<rparr>"

abbreviation blank_start :: replay_system where
  "blank_start \<equiv> initial_system blank_store (Some [])"

lemma blank_source_refused:
  "resolve_configuration deployed (clock 1) ''exec-1'' tenant (replay_state r J blank_store)
     = Inl (Exc ValueError ''Replay configuration input_snapshot_ref is required.'')"
proof -
  let ?x = "source_run\<lparr>wx_input_snapshot_ref := Some '' ''\<rparr>"
  have "\<not> list_ex is_mutable_alias ['' '', ''state-1'']" by code_simp
  moreover have "frozen_references float_text ?x = ['' '', ''state-1'']"
    by (simp add: frozen_references_def frozen_input_def frozen_state_def source_run_def str_or_def opt_or_def)
  ultimately have "validate_source float_text (clock 1) ?x tenant
      = Inl (Exc ValueError ''Replay configuration input_snapshot_ref is required.'')"
    by (simp add: validate_source_def source_checks_def manifest_from_source_metadata_def manifest_assessment_def
        new_configuration_def res_bind_def pget_def name_not_blank frozen_input_def frozen_state_def str_or_def deployment_defs)
      (simp add: source_run_def name_not_blank frozen_input_def frozen_state_def str_or_def opt_or_def)
  then show ?thesis
    by (simp add: resolve_configuration_def get_source_execution_def source_key_def blank_store_def replay_state_def deployment_defs)
qed

lemma creation_stranded:
  "service_create_replay deployed order tenant creation_fresh blank_start
     = (Inl (Exc ValueError ''Replay configuration input_snapshot_ref is required.''), replay_state stranded empty_job_repo blank_store)"
proof -
  have "on_replays (save_replay first_draft None) blank_start = (Inr stranded, replay_state stranded empty_job_repo blank_store)"
    by (simp add: act_on_apply save_replay_def find_replay_by_idempotency_def dict_values_def Let_def replay_state_def
        initial_system_def stranded_def)
  then show ?thesis
    using first_draft_created blank_source_refused [of stranded empty_job_repo]
    by (simp add: service_create_replay_def replay_authorize_def replay_mode_def configuration_source_def freeze_draft_def
        find_replay_by_idempotency_def dict_values_def creation_fresh_def)
      (simp add: deployed_def order_def initial_system_def freeze_draft_def)
qed

theorem failed_creation_strands_draft_witness:
  "\<exists>d. rp_status d = RPS_DRAFT \<and> (\<forall>e. service_create_replay deployed order tenant e (replay_state stranded empty_job_repo blank_store)
     = (Inr d, replay_state stranded empty_job_repo blank_store))"
proof -
  have "replay_repo_inv (rs_replays blank_start)" by (simp add: initial_system_def initial_replay_repo)
  moreover have "replay_state stranded empty_job_repo blank_store \<noteq> blank_start"
    by (simp add: replay_state_def initial_system_def)
  ultimately show ?thesis
    using failed_creation_strands_draft [OF _ creation_stranded] by blast
qed

definition finished_queue :: job_repo where
  "finished_queue = \<lparr>jr_jobs = [(''job-1'', the_job\<lparr>jb_status := JS_SUCCEEDED\<rparr>)], jr_workers = []\<rparr>"

theorem late_cancellation_refused_but_recorded_witness:
  "\<exists>z t. cancel_replay deployed ''replay-1'' tenant (clock 20, clock 21, clock 22) (replay_state delivered_replay finished_queue store1)
     = (Inl (Exc ReplayCancellationFailed z), t) \<and> token_cancelled ''replay-1'' tenant t"
proof -
  let ?s = "replay_state delivered_replay finished_queue store1"
  have version: "rp_version delivered_replay = 6" "rp_replay_id delivered_replay = ''replay-1''"
    by (simp_all add: delivered_replay_def)
  have 1: "replay_repo_inv (rs_replays ?s)" by (simp add: replay_repo_inv_def replay_state_def dict_ok_def version)
  have 2: "replay_authorize deployed tenant ''replay.cancel'' = Inr ()" "enforce_operation deployed tenant ''replay.cancel'' delivered_replay = Inr ()"
    "rv_job_service deployed = Some None"
    by (simp_all add: replay_authorize_def enforce_operation_def deployed_def)
  have 3: "service_get_replay deployed ''replay-1'' tenant ?s = Inr delivered_replay"
    by (simp add: service_get_replay_def replay_authorize_def get_replay_def replay_state_def deployment_defs res_bind_def)
  have 4: "api_get_job (rs_jobs ?s) ''job-1'' (Some tenant) = Inr (the_job\<lparr>jb_status := JS_SUCCEEDED\<rparr>)"
    by (simp add: api_get_job_def find_job_by_id_def in_context_def replay_state_def finished_queue_def cx_proj_def the_job_def
        submitted_job_def Let_def the_submission_def execution_submission_def job_context_of_def tenant_def cx_project_def opt_or_def)
  show ?thesis
    using late_cancellation_refused_but_recorded [OF 1 2(1,2) 3 _ _ 2(3) 4, of "clock 20" "clock 21" "clock 22"] by auto
qed

end
