(* ===== verification/Witnesses_Evaluation.thy ===== *)
theory Witnesses_Evaluation
  imports Evaluation_Properties Drift_Properties Witnesses_Replay_System
begin

text \<open>
  The deployment of \<open>Witnesses_Replay_System\<close> carried on: the executed replay is submitted for
  evaluation, a provider evaluates it, and the worker compares it with a stored evaluation of its
  source, measures the drift and completes the replay.
\<close>

section \<open>The provider and the worker\<close>

definition score :: "rat \<Rightarrow> eval_metric" where
  "score v = \<lparr>em_metric_name = ''groundedness'', em_metric_value = v, em_explanation = None\<rparr>"

definition judged :: "string \<Rightarrow> string \<Rightarrow> rat \<Rightarrow> evaluation_result" where
  "judged i execution_id v =
     \<lparr>er_evaluation_id = i, er_execution_id = execution_id, er_evaluator_type = ''judge'', er_evaluator_version = ''1'',
      er_metrics = [score v], er_metadata = [], er_artifacts = [], er_provider_metadata = [], er_snapshot = Some [],
      er_created_at = clock 0, er_organization_id = ''org-1'', er_project_id = ''proj-1''\<rparr>"

definition judge :: provider where
  "judge =
     \<lparr>pv_descriptor =
        \<lparr>ds_name = ''judge'', ds_display_name = ''Judge'', ds_version = ''1'', ds_adapter_version = ''1'',
         ds_capabilities = \<lparr>cp_supported_metrics = [''groundedness''], cp_supported_evaluation_modes = [''sync''],
           cp_supports_batch = False, cp_supports_async = False, cp_supports_artifacts = True, cp_supports_explanations = True,
           cp_supports_row_level_results = False, cp_evaluation_granularity = ITEM, cp_metadata = []\<rparr>,
         ds_config_schema_version = ''1'', ds_configuration_schema = [], ds_metadata = []\<rparr>,
      pv_evaluate = (\<lambda>x. act_return (judged ''eval-2'' (dt_execution_id (eo_dataset x)) (3 / 4)))\<rparr>"

definition evaluator :: evaluation_worker where
  "evaluator =
     \<lparr>ew_env = \<lparr>ve_fr = float_text, ve_registry = [(''judge'', judge)], ve_settings = None, ve_installations = None\<rparr>,
      ew_installations = None, ew_float = (\<lambda>_. None)\<rparr>"

definition history :: evaluation_repo where
  "history = [judged ''eval-1'' ''exec-1'' (1 / 2)]"

definition evaluator_fresh :: evaluation_fresh where
  "evaluator_fresh =
     \<lparr>ef_evaluating = clock 12, ef_evaluated = clock 12, ef_recorded = clock 13, ef_listed = clock 14, ef_resolved = clock 14,
      ef_baseline = clock 14, ef_comparing = clock 15, ef_compared = clock 16, ef_drift = clock 17, ef_result_id = ''result-1'', ef_generated_id = ''result-2'',
      ef_created = clock 18, ef_completed = clock 19, ef_cancelled = clock 19, ef_occurred = clock 19, ef_failed = clock 19\<rparr>"

lemma plugins_ok: "plugins_within registry evaluator"
proof -
  have "providers_within [(''judge'', judge)]"
    by (auto simp: providers_within_def judge_def intro: act_within_return)
  then show ?thesis by (simp add: plugins_within_def registry_within evaluator_def)
qed

section \<open>Submission\<close>

definition evaluation_order_1 :: replay_evaluation_request where
  "evaluation_order_1 =
     \<lparr>vq_evaluation_provider = Some ''judge'', vq_provider_installation_id = None, vq_metric_specs = [],
      vq_drift_threshold_policy = None, vq_governance_context = [], vq_baseline_strategy = ''LATEST_COMPATIBLE'',
      vq_baseline_evaluation_id = None\<rparr>"

definition second_submission :: job_submission where
  "second_submission = Replay_Service.evaluation_submission deployed evaluation_order_1 tenant delivered_replay ''judge''"

definition second_job :: job where
  "second_job = submitted_job float_text (clock 10) ''job-2'' second_submission"

definition second_queue :: job_repo where
  "second_queue = \<lparr>jr_jobs = [(''job-1'', the_job), (''job-2'', second_job)], jr_workers = []\<rparr>"

lemma more_names_not_blank:
  "\<not> blank ''job-2''" "\<not> blank ''replay-evaluation:org-1:proj-1:replay-1''" "\<not> blank ''eval-1''" "\<not> blank ''eval-2''"
  "\<not> blank ''replay-comparison:replay-1''" "\<not> blank ''replay-drift:replay-1''" "\<not> blank ''result-1''" "\<not> blank ''LATEST_COMPATIBLE''"
  by code_simp+

lemma delivered_fields [simp]:
  "rp_version delivered_replay = 6" "rp_replay_id delivered_replay = ''replay-1''" "rp_source_execution_id delivered_replay = ''exec-1''"
  "rp_evaluation_job_id delivered_replay = None" "rp_cancel_requested_at delivered_replay = None"
  "rp_replay_evaluation_id delivered_replay = None" "rp_baseline_evaluation_id delivered_replay = None"
  "rp_comparison_id delivered_replay = None" "rp_drift_id delivered_replay = None" "rp_result_id delivered_replay = None"
  by (simp_all add: delivered_replay_def reserved_replay_def running_replay_def queued_replay_def ready_replay_def first_draft_def
      create_replay_def draft_request_def name_not_blank deployment_defs)

lemma second_job_id [simp]: "jb_job_id second_job = ''job-2''"
  by (simp add: second_job_def submitted_job_def Let_def)

lemma second_job_submitted:
  "submit_job float_text None (clock 10, ''job-2'') second_submission the_queue = (Inr second_job, second_queue)"
proof -
  have sub: "jsb_idempotency_key second_submission = ''replay-evaluation:org-1:proj-1:replay-1''"
      "jsb_submitted_by second_submission = ''runtime-1''" "jsb_input_refs second_submission \<noteq> []"
      "jsb_max_attempts second_submission = 3" "jsb_job_type second_submission = JT_REPLAY_EVALUATION"
    by (simp_all add: second_submission_def Replay_Service.evaluation_submission_def evaluation_max_attempts_def replay_job_key_def
        deployment_defs)
  have "new_job second_job = Inr second_job"
    by (simp add: new_job_def job_checks_def require_job_field_def second_job_def submitted_job_def Let_def sub more_names_not_blank
        name_not_blank)
  moreover have "checked (submission_checks second_submission) () = Inr ()"
    by (simp add: submission_checks_def sub more_names_not_blank name_not_blank)
  moreover have none: "find_job_by_idempotency_key the_queue (job_type_value JT_REPLAY_EVALUATION)
      ''replay-evaluation:org-1:proj-1:replay-1'' a b = None" for a b
    by (simp add: find_job_by_idempotency_key_def the_queue_def dict_values_def the_job_def submitted_job_def Let_def
        the_submission_def execution_submission_def has_key_def)
  moreover have "save_job second_job the_queue = (Inr (), second_queue)"
  proof -
    have "jb_job_type second_job = JT_REPLAY_EVALUATION" "jb_idempotency_key second_job = ''replay-evaluation:org-1:proj-1:replay-1''"
      by (simp_all add: second_job_def submitted_job_def Let_def sub)
    then have "save_job second_job the_queue = (Inr (), the_queue\<lparr>jr_jobs := dict_put ''job-2'' second_job (jr_jobs the_queue)\<rparr>)"
      by (simp only: save_job_def Let_def none option.case second_job_id)
    then show ?thesis by (simp add: the_queue_def second_queue_def)
  qed
  ultimately show ?thesis
    by (simp add: submit_job_def second_job_def [symmetric] sub queue_full_def Let_def)
qed

definition evaluating_replay :: replay where
  "evaluating_replay = delivered_replay\<lparr>rp_status := RPS_EVALUATING, rp_evaluation_job_id := Some ''job-2'',
     rp_evaluation_started_at := Some (clock 11), rp_updated_at := clock 11, rp_version := 7\<rparr>"

lemma second_request_accepted:
  "evaluate_replay deployed ''replay-1'' evaluation_order_1 tenant ((clock 10, ''job-2''), clock 11)
     (replay_state delivered_replay the_queue store1) = (Inr evaluating_replay, replay_state evaluating_replay second_queue store1)"
proof -
  let ?q = "delivered_replay\<lparr>rp_status := RPS_EVALUATING, rp_evaluation_job_id := Some ''job-2'',
     rp_evaluation_started_at := Some (clock 11), rp_updated_at := clock 11\<rparr>"
  have "service_get_replay deployed ''replay-1'' tenant (replay_state delivered_replay the_queue store1) = Inr delivered_replay"
    by (simp add: service_get_replay_def replay_authorize_def get_replay_def replay_state_def deployment_defs res_bind_def)
  moreover have "on_jobs (submit_job float_text None (clock 10, ''job-2'') second_submission) (replay_state delivered_replay the_queue store1)
      = (Inr second_job, replay_state delivered_replay second_queue store1)"
    using second_job_submitted by (simp add: act_on_apply replay_state_def)
  moreover have "on_replays (save_replay ?q (Some 6)) (replay_state delivered_replay second_queue store1)
      = (Inr evaluating_replay, replay_state evaluating_replay second_queue store1)"
    using saved_next [of ?q delivered_replay second_queue store1] by (simp add: evaluating_replay_def replay_identity_def)
  moreover have "select_provider deployed evaluation_order_1 tenant delivered_replay = Inr ''judge''"
    by (simp add: select_provider_def evaluation_order_1_def truthy_def str_or_def)
  moreover have "baseline_checks evaluation_order_1 = [(False, evaluation_failed ''An explicit baseline evaluation ID is required.'')]"
    unfolding baseline_checks_def evaluation_order_1_def by (simp add: truthy_def) code_simp
  ultimately show ?thesis
    by (simp add: evaluate_replay_def replay_authorize_def deployed_def second_submission_def act_reraise_def
        mark_evaluating_def require_replay_status_def more_names_not_blank truthy_def)
qed

section \<open>The evaluation\<close>

definition evaluation_state :: "replay \<Rightarrow> result_repo \<Rightarrow> evaluation_repo \<Rightarrow> evaluation_system" where
  "evaluation_state r u V =
     \<lparr>vs_replay = \<lparr>rs_replays = [(''replay-1'', r)], rs_jobs = second_queue, rs_results = Some u, rs_executions = store1\<rparr>,
      vs_evaluations = V\<rparr>"

lemma advanced:
  assumes "f r = Inr q" "rp_replay_id q = ''replay-1''" "rp_replay_id r = ''replay-1''" "replay_identity q = replay_identity r"
  shows "advance f r (evaluation_state r u V)
     = (Inr (q\<lparr>rp_version := rp_version r + 1\<rparr>), evaluation_state (q\<lparr>rp_version := rp_version r + 1\<rparr>) u V)"
  using assms by (simp add: advance_def act_on_apply save_replay_def Let_def evaluation_state_def replay_identity_def)

definition stage2 :: replay where
  "stage2 = evaluating_replay\<lparr>rp_replay_evaluation_id := Some ''eval-2'', rp_updated_at := clock 13, rp_version := 8\<rparr>"

definition stage3 :: replay where
  "stage3 = stage2\<lparr>rp_baseline_evaluation_id := Some ''eval-1'', rp_updated_at := clock 14, rp_version := 9\<rparr>"

definition stage4 :: replay where
  "stage4 = stage3\<lparr>rp_status := RPS_COMPARING,
     rp_evaluation_completed_at := Some (opt_or (rp_evaluation_completed_at stage3) (clock 15)),
     rp_comparison_started_at := Some (clock 15), rp_updated_at := clock 15, rp_version := 10\<rparr>"

definition stage5 :: replay where
  "stage5 = stage4\<lparr>rp_comparison_id := Some ''replay-comparison:replay-1'', rp_updated_at := clock 16, rp_version := 11\<rparr>"

definition stage6 :: replay where
  "stage6 = stage5\<lparr>rp_drift_id := Some ''replay-drift:replay-1'', rp_updated_at := clock 17, rp_version := 12\<rparr>"

definition evaluated :: replay where
  "evaluated = stage6\<lparr>rp_result_id := Some ''result-1'', rp_status := RPS_COMPLETED, rp_comparison_completed_at := Some (clock 19),
     rp_completed_at := Some (clock 19), rp_updated_at := clock 19, rp_version := 13\<rparr>"

lemma evaluating_fields [simp]:
  "rp_status evaluating_replay = RPS_EVALUATING" "rp_version evaluating_replay = 7" "rp_replay_id evaluating_replay = ''replay-1''"
  "rp_source_execution_id evaluating_replay = ''exec-1''" "rp_replay_execution_id evaluating_replay = Some ''exec-2''"
  "rp_organization_id evaluating_replay = ''org-1''" "rp_project_id evaluating_replay = ''proj-1''"
  "rp_evaluation_job_id evaluating_replay = Some ''job-2''" "rp_cancel_requested_at evaluating_replay = None"
  "rp_replay_evaluation_id evaluating_replay = None" "rp_baseline_evaluation_id evaluating_replay = None"
  "rp_comparison_id evaluating_replay = None" "rp_drift_id evaluating_replay = None" "rp_result_id evaluating_replay = None"
  by (simp_all add: evaluating_replay_def)

lemmas stage_defs = stage2_def stage3_def stage4_def stage5_def stage6_def evaluated_def

definition produced_evaluation :: evaluation_result where
  "produced_evaluation = judged ''eval-2'' ''exec-2'' (3 / 4)"

lemma produced_found: "get_source_execution store1 ''exec-2'' tenant = Some produced_run" "get_source_execution store1 ''exec-1'' tenant = Some source_run"
  by (simp_all add: get_source_execution_def source_key_def store1_def store0_def upsert_execution_def produced_run_def with_lineage_def
      adapter_run_def tenant_def cx_project_def opt_or_def)

lemma evaluation_ran:
  "submit_evaluation (ew_env evaluator) (clock 12) produced_run (Some ''judge'') [] [] None (Some tenant) (evaluation_state r u history)
     = (Inr produced_evaluation, evaluation_state r u (history @ [produced_evaluation]))"
proof -
  have name: "normalize_provider_name ''judge'' = ''judge''" by code_simp
  have run: "wx_input produced_run = Some []" "wx_final_state produced_run = Some []" "wx_execution_id produced_run = ''exec-2''"
    "model_latency produced_run = None"
    by (simp_all add: produced_run_def with_lineage_def adapter_run_def model_latency_def pget_def opt_or_def dict_get_merge)
  have "build_dataset float_text produced_run = Inr \<lparr>dt_execution_id = ''exec-2'', dt_input_text = [], dt_context_text = [],
      dt_output_text = [], dt_metadata = wx_metadata produced_run\<rparr>"
    by (simp add: build_dataset_def run mapping_of_def res_bind_def text_of_def pget_def opt_or_def)
  then have "evaluate_execution float_text (clock 12) (Registered [(''judge'', judge)] ''judge'') produced_run [] [] s
      = (Inr produced_evaluation, s)" for s
    by (simp add: evaluate_execution_def source_provider_def get_provider_def name Let_def)
      (simp add: act_bind_def judge_def produced_evaluation_def judged_def)
  moreover have "stamp_result (ew_env evaluator) produced_run (Some tenant) produced_evaluation = produced_evaluation"
    by (simp add: stamp_result_def run evaluator_def produced_evaluation_def judged_def tenant_def cx_project_def opt_or_def)
  moreover have "ve_registry (ew_env evaluator) = [(''judge'', judge)]" "ve_fr (ew_env evaluator) = float_text"
    by (simp_all add: evaluator_def)
  ultimately show ?thesis
    by (simp add: submit_evaluation_def resolve_installation_def truthy_def resolve_provider_def get_provider_def name
        validate_metric_specs_def save_evaluation_def evaluation_state_def)
qed

lemma second_job_refs:
  "str_item fr (jb_input_refs second_job) ''replay_id'' = Some ''replay-1''"
  "str_item fr (jb_input_refs second_job) ''evaluation_provider'' = Some ''judge''"
  "pget (jb_input_refs second_job) ''provider_installation_id'' = PNone"
  "pget (jb_input_refs second_job) ''metric_specs'' = PList []"
  "pget (jb_input_refs second_job) ''explicit_baseline_evaluation_id'' = PNone"
  "str_item fr (jb_input_refs second_job) ''baseline_strategy'' = Some ''LATEST_COMPATIBLE''"
  "map_of (jb_input_refs second_job) ''drift_threshold_policy'' = Some (PDict [(''policy'', PStr ''governance-default-v1'')])"
  "jb_execution_context second_job = Some (job_context_of tenant)"
proof -
  have "py_upper ''LATEST_COMPATIBLE'' = ''LATEST_COMPATIBLE''" by code_simp
  then show "str_item fr (jb_input_refs second_job) ''baseline_strategy'' = Some ''LATEST_COMPATIBLE''"
    by (simp add: second_job_def submitted_job_def Let_def second_submission_def Replay_Service.evaluation_submission_def str_item_def
        evaluation_order_1_def)
qed (simp_all add: second_job_def submitted_job_def Let_def second_submission_def Replay_Service.evaluation_submission_def str_item_def
    pget_def opt_or_def evaluation_order_1_def of_opt_str_def drift_threshold_policy_def deployed_def)

lemma evaluation_produced:
  "produce_evaluation evaluator evaluator_fresh second_job tenant evaluating_replay (evaluation_state evaluating_replay u history)
     = (Inr (produced_evaluation, stage2), evaluation_state stage2 u (history @ [produced_evaluation]))"
proof -
  let ?f = "record_replay_evaluation ''eval-2'' (clock 13)"
  have "?f evaluating_replay = Inr (evaluating_replay\<lparr>rp_replay_evaluation_id := Some ''eval-2'', rp_updated_at := clock 13\<rparr>)"
    by (simp add: record_replay_evaluation_def immutable_checks_def more_names_not_blank truthy_def)
  from advanced [where f = ?f and r = evaluating_replay, OF this, of u "history @ [produced_evaluation]"]
  have "advance ?f evaluating_replay (evaluation_state evaluating_replay u (history @ [produced_evaluation]))
      = (Inr stage2, evaluation_state stage2 u (history @ [produced_evaluation]))"
    by (simp add: stage2_def replay_identity_def)
  moreover have "provider_choice evaluator second_job tenant = Inr (''judge'', [])"
    by (simp add: provider_choice_def ref_text_def second_job_refs opt_or_def)
  moreover have "rs_executions (vs_replay (evaluation_state evaluating_replay u history)) = store1"
    by (simp add: evaluation_state_def)
  moreover have "er_evaluation_id produced_evaluation = ''eval-2''" by (simp add: produced_evaluation_def judged_def)
  ultimately show ?thesis
    using evaluation_ran [of evaluating_replay u]
    by (simp add: produce_evaluation_def produced_found opt_or_def truthy_def metric_specs_of_def second_job_refs evaluator_fresh_def
        Let_def)
qed

definition the_resolution :: baseline_resolution where
  "the_resolution = resolution_of (clock 14) (judged ''eval-1'' ''exec-1'' (1 / 2)) ''LATEST_COMPATIBLE'' produced_evaluation"

lemma baseline_found:
  "resolve_baseline (ew_env evaluator) (clock 14) (clock 14) (history @ [produced_evaluation]) ''exec-1'' produced_evaluation
     ''LATEST_COMPATIBLE'' explicit tenant = Inr the_resolution"
proof -
  have "py_upper ''LATEST_COMPATIBLE'' = ''LATEST_COMPATIBLE''" by code_simp
  moreover have "get_history (ew_env evaluator) (clock 14) (history @ [produced_evaluation]) ''exec-1'' (Some tenant) = Inr history"
    by (simp add: get_history_def evaluator_def find_by_execution_id_def history_def produced_evaluation_def judged_def
        evaluation_in_context_def tenant_def)
  moreover have "compatible (judged ''eval-1'' ''exec-1'' (1 / 2)) produced_evaluation"
    by (simp add: compatible_def judged_def produced_evaluation_def metric_names_def score_def)
  ultimately show ?thesis
    by (simp add: resolve_baseline_def res_bind_def the_resolution_def history_def)
qed

lemma baseline_chosen:
  "choose_baseline evaluator evaluator_fresh second_job tenant produced_evaluation stage2
     (evaluation_state stage2 u (history @ [produced_evaluation]))
     = (Inr (the_resolution, stage3), evaluation_state stage3 u (history @ [produced_evaluation]))"
proof -
  let ?f = "record_baseline_evaluation ''eval-1'' (clock 14)"
  have "?f stage2 = Inr (stage2\<lparr>rp_baseline_evaluation_id := Some ''eval-1'', rp_updated_at := clock 14\<rparr>)"
    by (simp add: record_baseline_evaluation_def immutable_checks_def more_names_not_blank truthy_def stage2_def)
  from advanced [where f = ?f and r = stage2, OF this, of u "history @ [produced_evaluation]"]
  have "advance ?f stage2 (evaluation_state stage2 u (history @ [produced_evaluation]))
      = (Inr stage3, evaluation_state stage3 u (history @ [produced_evaluation]))"
    by (simp add: stage3_def stage2_def replay_identity_def)
  moreover have "er_evaluation_id (br_evaluation the_resolution) = ''eval-1''"
    by (simp add: the_resolution_def resolution_of_def judged_def)
  moreover have "rp_source_execution_id stage2 = ''exec-1''" "rp_baseline_evaluation_id stage2 = None" by (simp_all add: stage2_def)
  moreover have "vs_evaluations (evaluation_state stage2 u (history @ [produced_evaluation])) = history @ [produced_evaluation]"
    by (simp add: evaluation_state_def)
  ultimately show ?thesis
    using baseline_found by (simp add: choose_baseline_def ref_text_def second_job_refs opt_or_def truthy_def evaluator_fresh_def Let_def)
qed

text \<open>The stages that only advance the replay.\<close>

lemma later_stages:
  "advance (mark_comparing (clock 15)) stage3 (evaluation_state stage3 u V) = (Inr stage4, evaluation_state stage4 u V)"
  "advance (record_comparison ''replay-comparison:replay-1'' (clock 16)) stage4 (evaluation_state stage4 u V)
     = (Inr stage5, evaluation_state stage5 u V)"
  "advance (record_drift ''replay-drift:replay-1'' (clock 17)) stage5 (evaluation_state stage5 u V)
     = (Inr stage6, evaluation_state stage6 u V)"
  "advance (replay_mark_completed ''result-1'' (clock 19)) stage6 (evaluation_state stage6 u V)
     = (Inr evaluated, evaluation_state evaluated u V)"
proof -
  let ?q4 = "stage3\<lparr>rp_status := RPS_COMPARING,
     rp_evaluation_completed_at := Some (opt_or (rp_evaluation_completed_at stage3) (clock 15)),
     rp_comparison_started_at := Some (clock 15), rp_updated_at := clock 15\<rparr>"
  let ?q5 = "stage4\<lparr>rp_comparison_id := Some ''replay-comparison:replay-1'', rp_updated_at := clock 16\<rparr>"
  let ?q6 = "stage5\<lparr>rp_drift_id := Some ''replay-drift:replay-1'', rp_updated_at := clock 17\<rparr>"
  let ?q7 = "stage6\<lparr>rp_result_id := Some ''result-1'', rp_status := RPS_COMPLETED, rp_comparison_completed_at := Some (clock 19),
     rp_completed_at := Some (clock 19), rp_updated_at := clock 19\<rparr>"
  have "mark_comparing (clock 15) stage3 = Inr ?q4" "record_comparison ''replay-comparison:replay-1'' (clock 16) stage4 = Inr ?q5"
    "record_drift ''replay-drift:replay-1'' (clock 17) stage5 = Inr ?q6" "replay_mark_completed ''result-1'' (clock 19) stage6 = Inr ?q7"
    by (simp_all add: mark_comparing_def record_comparison_def record_drift_def replay_mark_completed_def require_replay_status_def
        immutable_checks_def more_names_not_blank truthy_def stage_defs)
  note q = this
  show "advance (mark_comparing (clock 15)) stage3 (evaluation_state stage3 u V) = (Inr stage4, evaluation_state stage4 u V)"
    using advanced [where f = "mark_comparing (clock 15)" and r = stage3, OF q(1), of u V]
    by (simp add: stage4_def [symmetric] replay_identity_def) (simp add: stage_defs replay_identity_def)
  show "advance (record_comparison ''replay-comparison:replay-1'' (clock 16)) stage4 (evaluation_state stage4 u V)
     = (Inr stage5, evaluation_state stage5 u V)"
    using advanced [where f = "record_comparison ''replay-comparison:replay-1'' (clock 16)" and r = stage4, OF q(2), of u V]
    by (simp add: stage_defs replay_identity_def)
  show "advance (record_drift ''replay-drift:replay-1'' (clock 17)) stage5 (evaluation_state stage5 u V)
     = (Inr stage6, evaluation_state stage6 u V)"
    using advanced [where f = "record_drift ''replay-drift:replay-1'' (clock 17)" and r = stage5, OF q(3), of u V]
    by (simp add: stage_defs replay_identity_def)
  show "advance (replay_mark_completed ''result-1'' (clock 19)) stage6 (evaluation_state stage6 u V)
     = (Inr evaluated, evaluation_state evaluated u V)"
    using advanced [where f = "replay_mark_completed ''result-1'' (clock 19)" and r = stage6, OF q(4), of u V]
    by (simp add: stage_defs replay_identity_def)
qed

definition the_comparison :: evaluation_comparison where
  "the_comparison = \<lparr>vc_execution_id = ''exec-2'', vc_baseline_evaluation_id = ''eval-1'', vc_candidate_evaluation_id = ''eval-2'',
     vc_metric_comparisons =
       [\<lparr>mc_metric_name = ''groundedness'', mc_baseline_value = Some (1 / 2), mc_candidate_value = Some (3 / 4)\<rparr>]\<rparr>"

definition the_summary :: comparison_summary where
  "the_summary = \<lparr>cs_metric_count = 1, cs_improved_metric_count = 0, cs_regressed_metric_count = 0, cs_unchanged_metric_count = 0,
     cs_new_metric_count = 0, cs_removed_metric_count = 0, cs_overall_score_delta = Some (float_div (float_sum [1 / 4]) 1)\<rparr>"

definition the_drift :: drift_summary where
  "the_drift = snd (analyze_replay_drift (judged ''eval-1'' ''exec-1'' (1 / 2)) produced_evaluation [(''policy'', PStr ''governance-default-v1'')])"

lemma the_evidence:
  "br_evaluation the_resolution = judged ''eval-1'' ''exec-1'' (1 / 2)" "br_strategy the_resolution = ''LATEST_COMPATIBLE''"
  "compare_evaluations ''exec-1'' ''exec-2'' (judged ''eval-1'' ''exec-1'' (1 / 2)) produced_evaluation = Inr the_comparison"
  by (simp_all add: the_resolution_def resolution_of_def compare_evaluations_def judged_def produced_evaluation_def the_comparison_def
      metric_names_def score_def metric_value_of_def)

lemma summarized: "summary_of the_comparison (judged ''eval-1'' ''exec-1'' (1 / 2)) produced_evaluation = Inr the_summary"
proof -
  have d: "float_sub (3 / 4) (1 / 2) = 1 / 4" by code_simp
  let ?m = "\<lparr>mc_metric_name = ''groundedness'', mc_baseline_value = Some (1 / 2), mc_candidate_value = Some (3 / 4)\<rparr>"
  have m: "score_difference ?m = Some (1 / 4)" by (simp add: score_difference_def d)
  have "direction_in (er_metadata produced_evaluation) n = Inr PNone" "direction_in (er_metadata (judged i x v)) n = Inr PNone" for n i x v
    by (simp_all add: direction_in_def judged_def produced_evaluation_def pget_def opt_or_def)
  then have "outcome_of (judged ''eval-1'' ''exec-1'' (1 / 2)) produced_evaluation ?m = Inr ''UNKNOWN''"
    by (simp add: outcome_of_def m known_direction_def res_bind_def)
  moreover have "vc_metric_comparisons the_comparison = [?m]" by (simp add: the_comparison_def)
  moreover note m
  ultimately show ?thesis
    by (simp add: summary_of_def res_bind_def map_filter_def the_summary_def) (rule exI [of _ "1 / 4"], simp)
qed

definition final_result :: replay_result where
  "final_result = projr (make_replay_result ''result-1'' ''result-2'' (clock 18) stage6 the_resolution ''replay-comparison:replay-1''
     ''replay-drift:replay-1'' the_summary the_drift)"

lemma stage6_fields [simp]:
  "rp_replay_id stage6 = ''replay-1''" "rp_source_execution_id stage6 = ''exec-1''" "rp_replay_execution_id stage6 = Some ''exec-2''"
  "rp_baseline_evaluation_id stage6 = Some ''eval-1''" "rp_replay_evaluation_id stage6 = Some ''eval-2''"
  "rp_comparison_id stage6 = Some ''replay-comparison:replay-1''" "rp_drift_id stage6 = Some ''replay-drift:replay-1''"
  "rp_organization_id stage6 = ''org-1''" "rp_project_id stage6 = ''proj-1''" "rp_status stage6 = RPS_COMPARING"
  "rp_result_id stage6 = None"
  by (simp_all add: stage_defs)

lemma result_made:
  "make_replay_result ''result-1'' ''result-2'' (clock 18) stage6 the_resolution ''replay-comparison:replay-1'' ''replay-drift:replay-1''
     the_summary the_drift = Inr final_result" "rt_result_id final_result = ''result-1''" "rt_replay_id final_result = ''replay-1''"
  by (simp_all add: final_result_def make_replay_result_def new_result_def name_not_blank more_names_not_blank the_evidence(2) opt_or_def)

lemma replay_concluded:
  "conclude_replay evaluator_fresh second_job tenant the_resolution produced_evaluation the_comparison the_drift stage6
     (evaluation_state stage6 [] V)
     = (Inr (succeeded_result second_job ''replay_result:result-1''), evaluation_state evaluated [(''result-1'', final_result)] V)"
proof -
  have "stored_result ''replay-1'' tenant (evaluation_state stage6 [] V) = (Inr None, evaluation_state stage6 [] V)"
    by (simp add: stored_result_def evaluation_state_def get_result_by_replay_def dict_values_def)
  moreover have "store_result final_result (evaluation_state stage6 [] V)
      = (Inr final_result, evaluation_state stage6 [(''result-1'', final_result)] V)"
    by (simp add: store_result_def evaluation_state_def save_result_def get_result_by_replay_def dict_values_def result_made)
  ultimately show ?thesis
    using later_stages(4) [of "[(''result-1'', final_result)]" V]
    by (simp add: conclude_replay_def the_evidence(1) summarized res_bind_def result_made opt_or_def truthy_def evaluator_fresh_def)
qed

lemma evaluation_delivered:
  "handle_evaluation evaluator evaluator_fresh second_job (evaluation_state evaluating_replay [] history)
     = (Inr (succeeded_result second_job ''replay_result:result-1''),
        evaluation_state evaluated [(''result-1'', final_result)] (history @ [produced_evaluation]))"
proof -
  let ?V = "history @ [produced_evaluation]"
  have comparing: "begin_comparison evaluator_fresh stage3 (evaluation_state stage3 [] ?V) = (Inr stage4, evaluation_state stage4 [] ?V)"
    using later_stages(1) [of "[]" ?V] by (simp add: begin_comparison_def evaluator_fresh_def) (simp add: stage_defs)
  have fields: "rp_source_execution_id stage4 = ''exec-1''" "rp_replay_execution_id stage4 = Some ''exec-2''" "rp_comparison_id stage4 = None"
      "rp_replay_id stage4 = ''replay-1''" "rp_drift_id stage5 = None" "rp_replay_id stage5 = ''replay-1''" "rp_cancel_requested_at stage2 = None"
    by (simp_all add: stage_defs)
  have compared: "compare_replay evaluator_fresh the_resolution produced_evaluation stage4 (evaluation_state stage4 [] ?V)
      = (Inr (the_comparison, stage5), evaluation_state stage5 [] ?V)"
    using later_stages(2) [of "[]" ?V] by (simp add: compare_replay_def fields opt_or_def the_evidence evaluator_fresh_def)
  have drift: "measure_drift evaluator_fresh second_job the_resolution produced_evaluation stage5 (evaluation_state stage5 [] ?V)
      = (Inr (the_drift, stage6), evaluation_state stage6 [] ?V)"
    using later_stages(3) [of "[]" ?V]
    by (simp add: measure_drift_def fields opt_or_def second_job_refs py_dict_def evaluator_fresh_def the_drift_def the_evidence)
  have governed: "govern_evaluation evaluator evaluator_fresh second_job tenant produced_evaluation stage2 (evaluation_state stage2 [] ?V)
      = (Inr (succeeded_result second_job ''replay_result:result-1''), evaluation_state evaluated [(''result-1'', final_result)] ?V)"
    by (simp add: govern_evaluation_def act_try_def baseline_chosen comparing compared drift replay_concluded)
  have "begin_evaluation evaluator_fresh second_job evaluating_replay s = (Inr evaluating_replay, s)" for s
    by (simp add: begin_evaluation_def)
  then have run: "run_evaluation evaluator evaluator_fresh second_job tenant evaluating_replay (evaluation_state evaluating_replay [] history)
      = (Inr (succeeded_result second_job ''replay_result:result-1''), evaluation_state evaluated [(''result-1'', final_result)] ?V)"
    by (simp add: run_evaluation_def act_try_def evaluation_produced governed fields)
  have "job_tenant e second_job = Inr tenant" for e
    by (simp add: job_tenant_def second_job_refs job_context_of_def tenant_def cx_project_def opt_or_def)
  moreover have "get_replay (rs_replays (vs_replay (evaluation_state evaluating_replay [] history))) ''replay-1'' (cx_organization_id tenant)
      (cx_project tenant) = Some evaluating_replay"
    by (simp add: get_replay_def evaluation_state_def tenant_def cx_project_def opt_or_def)
  ultimately show ?thesis
    using run by (simp add: handle_evaluation_def ref_text_def second_job_refs opt_or_def)
qed

section \<open>Witnesses\<close>

lemma replays_run:
  "(replay_command deployed registry)\<^sup>*\<^sup>* s t \<Longrightarrow>
     (evaluation_command deployed registry evaluator)\<^sup>*\<^sup>* \<lparr>vs_replay = s, vs_evaluations = V\<rparr> \<lparr>vs_replay = t, vs_evaluations = V\<rparr>"
proof (induction rule: rtranclp_induct)
  case (step t u)
  then show ?case
    using evaluation_command.system [of deployed registry "\<lparr>vs_replay = t, vs_evaluations = V\<rparr>" u evaluator] by (auto intro: rtranclp.rtrancl_into_rtrancl)
qed simp

lemma reached_evaluating:
  "(evaluation_command deployed registry evaluator)\<^sup>*\<^sup>* (initial_evaluations store0 history) (evaluation_state evaluating_replay [] history)"
proof -
  have "dict_get (jr_jobs (rs_jobs (replay_state delivered_replay the_queue store1))) (snd (fst ((clock 10, ''job-2''), clock 11))) = None"
    by (simp add: replay_state_def the_queue_def)
  from rtranclp.rtrancl_into_rtrancl [OF reached_delivered replay_command.evaluate [OF second_request_accepted this]]
  have "(replay_command deployed registry)\<^sup>*\<^sup>* start (replay_state evaluating_replay second_queue store1)" .
  note run = replays_run [OF this, of history]
  have "\<lparr>vs_replay = start, vs_evaluations = history\<rparr> = initial_evaluations store0 history"
    "\<lparr>vs_replay = replay_state evaluating_replay second_queue store1, vs_evaluations = history\<rparr>
       = evaluation_state evaluating_replay [] history"
    by (simp_all add: initial_evaluations_def evaluation_state_def replay_state_def)
  with run show ?thesis by (simp only:)
qed

lemma reached_completed:
  "(evaluation_command deployed registry evaluator)\<^sup>*\<^sup>* (initial_evaluations store0 history)
     (evaluation_state evaluated [(''result-1'', final_result)] (history @ [produced_evaluation]))"
proof (rule rtranclp.rtrancl_into_rtrancl)
  show "(evaluation_command deployed registry evaluator)\<^sup>*\<^sup>* (initial_evaluations store0 history) (evaluation_state evaluating_replay [] history)"
    by (rule reached_evaluating)
  show "evaluation_command deployed registry evaluator (evaluation_state evaluating_replay [] history)
     (evaluation_state evaluated [(''result-1'', final_result)] (history @ [produced_evaluation]))"
    using evaluation_delivered by (rule evaluation_command.evaluate)
qed

lemma completed_lookup:
  "dict_get (rs_replays (vs_replay (evaluation_state evaluated u V))) ''replay-1'' = Some evaluated"
  "rp_status evaluated = RPS_COMPLETED" "rp_result_id evaluated = Some ''result-1''"
  "result_at (evaluation_state r [(''result-1'', final_result)] V) ''result-1'' = Some final_result"
  by (simp_all add: evaluation_state_def evaluated_def result_at_def)

theorem completed_replay_explained_witness:
  "concludes final_result evaluated \<and> explained (history @ [produced_evaluation]) final_result"
proof -
  let ?s = "evaluation_state evaluated [(''result-1'', final_result)] (history @ [produced_evaluation])"
  obtain x where "rp_result_id evaluated = Some (rt_result_id x)" "result_at ?s (rt_result_id x) = Some x"
    "concludes x evaluated" "explained (vs_evaluations ?s) x"
    using completed_replay_explained [OF plugins_ok reached_completed completed_lookup(1,2)] by blast
  then show ?thesis using completed_lookup(3,4) by (simp add: evaluation_state_def)
qed

theorem completed_replay_final_witness:
  "result_at (evaluation_state evaluated [(''result-1'', final_result)] (history @ [produced_evaluation])) ''result-1''
     = Some final_result"
  using completed_replay_final [OF plugins_ok reached_completed completed_lookup(1,2) _ rtranclp.rtrancl_refl, of final_result]
    completed_lookup(3,4) result_made(2) by simp

theorem redelivered_evaluation_not_repeated_witness:
  "handle_evaluation evaluator (evaluator_fresh\<lparr>ef_result_id := ''result-2''\<rparr>) second_job
     (evaluation_state evaluated [(''result-1'', final_result)] (history @ [produced_evaluation]))
     = (Inr (succeeded_result second_job ''replay_result:result-1''),
        evaluation_state evaluated [(''result-1'', final_result)] (history @ [produced_evaluation]))"
proof (rule redelivered_evaluation_not_repeated [OF plugins_ok reached_evaluating evaluation_delivered _ _ rtranclp.rtrancl_refl])
  show "jrs_status (succeeded_result second_job ''replay_result:result-1'') = JS_SUCCEEDED" by (simp add: succeeded_result_def)
  show "jb_job_id second_job \<noteq> []" by simp
  show "evaluated_replay evaluator second_job (evaluation_state evaluated [(''result-1'', final_result)] (history @ [produced_evaluation]))
      = Some evaluated"
    by (simp add: evaluated_replay_def job_tenant_def second_job_refs job_context_of_def ref_text_def get_replay_def evaluation_state_def
        tenant_def cx_project_def opt_or_def) (simp add: stage_defs)
  show "rp_status evaluated = RPS_COMPLETED" by (rule completed_lookup)
qed

theorem baseline_choice_witness:
  "br_evaluation the_resolution \<in> set (history @ [produced_evaluation]) 
     \<and> er_evaluator_version (br_evaluation the_resolution) = er_evaluator_version produced_evaluation"
  using baseline_choice [OF baseline_found] by blast

theorem drift_specification_witness:
  "dr_severity (analyze_drift (judged ''eval-1'' ''exec-1'' (1 / 2)) (produced_evaluation\<lparr>er_metrics := []\<rparr>)) = SV_MEDIUM"
proof -
  let ?b = "judged ''eval-1'' ''exec-1'' (1 / 2)" and ?c = "produced_evaluation\<lparr>er_metrics := []\<rparr>"
  have none: "final_value ?c n = None" "moved ?b ?c n = None" for n
    by (simp_all add: final_value_def moved_def split: option.splits)
  have some: "final_value ?b (em_metric_name (score (1 / 2))) \<noteq> None"
    by (simp add: final_value_def judged_def)
  then have "final_value ?b \<noteq> final_value ?c" "dom (final_value ?b) \<noteq> dom (final_value ?c)"
    using none(1) by (metis, metis domIff)
  then show ?thesis using drift_specification [of ?b ?c] none(2) by simp
qed

theorem comparison_agrees_with_drift_witness:
  "cs_metric_count the_summary = cs_unchanged_metric_count the_summary
     + int (length (dr_changed_metrics (analyze_drift (judged ''eval-1'' ''exec-1'' (1 / 2)) produced_evaluation)))
     + cs_new_metric_count the_summary + cs_removed_metric_count the_summary"
proof -
  have "is_float (1 / 2)" "is_float (3 / 4)" by code_simp+
  then have "list_all (\<lambda>m. is_float (em_metric_value m)) (er_metrics (judged ''eval-1'' ''exec-1'' (1 / 2)) @ er_metrics produced_evaluation)"
    by (simp add: judged_def produced_evaluation_def score_def)
  moreover have "distinct (map em_metric_name (er_metrics (judged i x v)))" "distinct (map em_metric_name (er_metrics produced_evaluation))" for i x v
    by (simp_all add: judged_def produced_evaluation_def)
  ultimately show ?thesis using comparison_agrees_with_drift [OF _ _ _ the_evidence(3) summarized] by blast
qed

end
