(* ===== verification/Tenancy.thy ===== *)
theory Tenancy
  imports Execution_Ledger
begin

text \<open>
  The tenancy control plane, \<open>tenancy/\<close>: organizations, projects, memberships and role
  assignments with their in-memory repository (\<open>repository.py\<close>), the permission model
  (\<open>permissions.py\<close>), the authorization service that answers whether an actor may do
  something and keeps the audit (\<open>authorization.py\<close>), the service that administers them, the
  provisioning of service accounts and the bootstrap of a tenant (\<open>services.py\<close>).
  The extension permissions, a module-level set, are a field of the state. Environment variables
  and clock readings are arguments.
\<close>

section \<open>Domain\<close>

definition slug_part :: "string \<Rightarrow> bool" where
  "slug_part s = (s \<noteq> [] \<and> list_all (\<lambda>c. is_ascii_digit c \<or> is_ascii_lower c) s)"

definition validate_slug :: "string \<Rightarrow> exc + string" where
  "validate_slug value =
     (let v = py_strip value in
      checked [(\<not> (1 \<le> length v \<and> length v \<le> 63) \<or> \<not> list_all slug_part (py_split (CHR ''-'') v),
        Exc ValueError ''slug must contain lowercase letters, numbers, and single hyphens'')] v)"

datatype organization_status = OGS_ACTIVE | OGS_SUSPENDED | OGS_ARCHIVED

datatype project_status = PJS_ACTIVE | PJS_SUSPENDED | PJS_ARCHIVED

datatype actor_type = AT_USER | AT_SERVICE | AT_SYSTEM

datatype membership_status = MBS_ACTIVE | MBS_SUSPENDED | MBS_REMOVED

datatype built_in_role =
    ORGANIZATION_ADMIN | GOVERNANCE_ADMIN | GOVERNANCE_REVIEWER | PLATFORM_OPERATOR
  | EXTERNAL_RUNTIME_OPERATOR | EXTERNAL_RUNTIME_TEST_OPERATOR | VIEWER

primrec role_value :: "built_in_role \<Rightarrow> string" where
  "role_value ORGANIZATION_ADMIN = ''ORGANIZATION_ADMIN''"
| "role_value GOVERNANCE_ADMIN = ''GOVERNANCE_ADMIN''"
| "role_value GOVERNANCE_REVIEWER = ''GOVERNANCE_REVIEWER''"
| "role_value PLATFORM_OPERATOR = ''PLATFORM_OPERATOR''"
| "role_value EXTERNAL_RUNTIME_OPERATOR = ''EXTERNAL_RUNTIME_OPERATOR''"
| "role_value EXTERNAL_RUNTIME_TEST_OPERATOR = ''EXTERNAL_RUNTIME_TEST_OPERATOR''"
| "role_value VIEWER = ''VIEWER''"

record organization =
  og_organization_id :: string
  og_name :: string
  og_slug :: string
  og_status :: organization_status
  og_created_at :: datetime
  og_updated_at :: datetime

definition new_organization :: "organization \<Rightarrow> exc + organization" where
  "new_organization x =
     res_bind (checked [(blank (og_organization_id x) \<or> blank (og_name x),
       Exc ValueError ''organization id and name are required'')] ()) (\<lambda>_.
     res_bind (validate_slug (og_slug x)) (\<lambda>_. Inr x))"

record project =
  pj_project_id :: string
  pj_organization_id :: string
  pj_name :: string
  pj_slug :: string
  pj_description :: "string option"
  pj_status :: project_status
  pj_created_at :: datetime
  pj_updated_at :: datetime

definition new_project :: "project \<Rightarrow> exc + project" where
  "new_project x =
     res_bind (checked [(blank (pj_project_id x) \<or> blank (pj_organization_id x) \<or> blank (pj_name x),
       Exc ValueError ''project id, organization id, and name are required'')] ()) (\<lambda>_.
     res_bind (validate_slug (pj_slug x)) (\<lambda>_. Inr x))"

record membership =
  mb_organization_id :: string
  mb_actor_id :: string
  mb_status :: membership_status
  mb_created_at :: datetime
  mb_updated_at :: datetime
  mb_display_name :: "string option"

record role_assignment =
  ra_assignment_id :: string
  ra_organization_id :: string
  ra_project_id :: "string option"
  ra_actor_id :: string
  ra_role :: built_in_role
  ra_created_at :: datetime
  ra_created_by :: string

record principal =
  pn_subject :: string
  pn_type :: actor_type
  pn_organization_id :: "string option"
  pn_client_id :: string
  pn_issuer :: string

record authorization_resource =
  az_resource_type :: string
  az_resource_id :: "string option"
  az_organization_id :: "string option"
  az_project_id :: "string option"

text \<open>The context of a request (\<open>context_factory.py\<close>); \<open>generated\<close> is the fresh identifier.\<close>

definition create_context ::
  "string \<Rightarrow> principal \<Rightarrow> string option \<Rightarrow> string option \<Rightarrow> string option \<Rightarrow> string option \<Rightarrow> tenant_context" where
  "create_context generated p organization_id project_id correlation_id request_id =
     (let org = (if truthy organization_id then organization_id else pn_organization_id p)
      in \<lparr>cx_organization_id = opt_or org [], cx_project_id = project_id, cx_actor_id = pn_subject p,
          cx_request_id = (if truthy request_id then the request_id else ''req_'' @ generated),
          cx_correlation_id = correlation_id\<rparr>)"

section \<open>Permissions\<close>

datatype permission =
    PM_ORGANIZATION_READ | PM_ORGANIZATION_UPDATE | PM_PROJECT_CREATE | PM_PROJECT_READ | PM_PROJECT_UPDATE
  | PM_PROJECT_ARCHIVE | PM_MEMBERSHIP_READ | PM_MEMBERSHIP_MANAGE | PM_ROLE_ASSIGNMENT_READ
  | PM_ROLE_ASSIGNMENT_MANAGE | PM_POLICY_CREATE | PM_POLICY_READ | PM_POLICY_UPDATE | PM_POLICY_VALIDATE
  | PM_POLICY_SIMULATE | PM_POLICY_REVIEW | PM_POLICY_PUBLISH | PM_POLICY_DEPRECATE | PM_DECISION_EVALUATE
  | PM_DECISION_READ | PM_DECISION_EXPLAIN | PM_EVALUATION_EXECUTE | PM_EVALUATION_READ | PM_JOB_SUBMIT
  | PM_JOB_READ | PM_JOB_CANCEL | PM_JOB_RETRY | PM_ONTOLOGY_READ | PM_ONTOLOGY_SYNCHRONIZE | PM_ONTOLOGY_RECONCILE
  | PM_AUDIT_READ | PM_MCP_AUDIT_READ | PM_PLATFORM_HEALTH_READ | PM_ASSET_MANAGE | PM_RUNTIME_CONNECTION_MANAGE
  | PM_SETTINGS_READ | PM_SETTINGS_MANAGE | PM_REPLAY_READ | PM_REPLAY_CREATE | PM_REPLAY_ARCHIVE
  | PM_REPLAY_EXECUTE | PM_REPLAY_CANCEL | PM_REPLAY_EVALUATE | PM_REPLAY_RESULT_READ | PM_AGENT_EXECUTION_INGEST
  | PM_AGENT_EXECUTION_READ | PM_RUNTIME_ACTION_DELEGATION_ISSUE | PM_RUNTIME_FINDING_READ
  | PM_RUNTIME_FINDING_DETECT | PM_RUNTIME_FINDING_RECONCILE | PM_RUNTIME_FINDING_REVIEW | PM_CAUSAL_AUDIT_CREATE
  | PM_CAUSAL_AUDIT_READ | PM_ENTERPRISE_RECOMMENDATIONS_READ | PM_ENTERPRISE_RECOMMENDATIONS_SYNTHESIZE

primrec permission_value :: "permission \<Rightarrow> string" where
  "permission_value PM_ORGANIZATION_READ = ''organization.read''"
| "permission_value PM_ORGANIZATION_UPDATE = ''organization.update''"
| "permission_value PM_PROJECT_CREATE = ''project.create''"
| "permission_value PM_PROJECT_READ = ''project.read''"
| "permission_value PM_PROJECT_UPDATE = ''project.update''"
| "permission_value PM_PROJECT_ARCHIVE = ''project.archive''"
| "permission_value PM_MEMBERSHIP_READ = ''membership.read''"
| "permission_value PM_MEMBERSHIP_MANAGE = ''membership.manage''"
| "permission_value PM_ROLE_ASSIGNMENT_READ = ''role_assignment.read''"
| "permission_value PM_ROLE_ASSIGNMENT_MANAGE = ''role_assignment.manage''"
| "permission_value PM_POLICY_CREATE = ''policy.create''"
| "permission_value PM_POLICY_READ = ''policy.read''"
| "permission_value PM_POLICY_UPDATE = ''policy.update''"
| "permission_value PM_POLICY_VALIDATE = ''policy.validate''"
| "permission_value PM_POLICY_SIMULATE = ''policy.simulate''"
| "permission_value PM_POLICY_REVIEW = ''policy.review''"
| "permission_value PM_POLICY_PUBLISH = ''policy.publish''"
| "permission_value PM_POLICY_DEPRECATE = ''policy.deprecate''"
| "permission_value PM_DECISION_EVALUATE = ''decision.evaluate''"
| "permission_value PM_DECISION_READ = ''decision.read''"
| "permission_value PM_DECISION_EXPLAIN = ''decision.explain''"
| "permission_value PM_EVALUATION_EXECUTE = ''evaluation.execute''"
| "permission_value PM_EVALUATION_READ = ''evaluation.read''"
| "permission_value PM_JOB_SUBMIT = ''job.submit''"
| "permission_value PM_JOB_READ = ''job.read''"
| "permission_value PM_JOB_CANCEL = ''job.cancel''"
| "permission_value PM_JOB_RETRY = ''job.retry''"
| "permission_value PM_ONTOLOGY_READ = ''ontology.read''"
| "permission_value PM_ONTOLOGY_SYNCHRONIZE = ''ontology.synchronize''"
| "permission_value PM_ONTOLOGY_RECONCILE = ''ontology.reconcile''"
| "permission_value PM_AUDIT_READ = ''audit.read''"
| "permission_value PM_MCP_AUDIT_READ = ''mcp_audit.read''"
| "permission_value PM_PLATFORM_HEALTH_READ = ''platform_health.read''"
| "permission_value PM_ASSET_MANAGE = ''asset.manage''"
| "permission_value PM_RUNTIME_CONNECTION_MANAGE = ''runtime_connection.manage''"
| "permission_value PM_SETTINGS_READ = ''settings.read''"
| "permission_value PM_SETTINGS_MANAGE = ''settings.manage''"
| "permission_value PM_REPLAY_READ = ''replay.read''"
| "permission_value PM_REPLAY_CREATE = ''replay.create''"
| "permission_value PM_REPLAY_ARCHIVE = ''replay.archive''"
| "permission_value PM_REPLAY_EXECUTE = ''replay.execute''"
| "permission_value PM_REPLAY_CANCEL = ''replay.cancel''"
| "permission_value PM_REPLAY_EVALUATE = ''replay.evaluate''"
| "permission_value PM_REPLAY_RESULT_READ = ''replay.result.read''"
| "permission_value PM_AGENT_EXECUTION_INGEST = ''agent_execution.ingest''"
| "permission_value PM_AGENT_EXECUTION_READ = ''agent_execution.read''"
| "permission_value PM_RUNTIME_ACTION_DELEGATION_ISSUE = ''runtime_action_delegation.issue''"
| "permission_value PM_RUNTIME_FINDING_READ = ''runtime_finding.read''"
| "permission_value PM_RUNTIME_FINDING_DETECT = ''runtime_finding.detect''"
| "permission_value PM_RUNTIME_FINDING_RECONCILE = ''runtime_finding.reconcile''"
| "permission_value PM_RUNTIME_FINDING_REVIEW = ''runtime_finding.review''"
| "permission_value PM_CAUSAL_AUDIT_CREATE = ''causal_audit.create''"
| "permission_value PM_CAUSAL_AUDIT_READ = ''causal_audit.read''"
| "permission_value PM_ENTERPRISE_RECOMMENDATIONS_READ = ''enterprise.recommendations.read''"
| "permission_value PM_ENTERPRISE_RECOMMENDATIONS_SYNTHESIZE = ''enterprise.recommendations.synthesize''"

definition all_permissions :: "permission list" where
  "all_permissions =
     [PM_ORGANIZATION_READ, PM_ORGANIZATION_UPDATE, PM_PROJECT_CREATE, PM_PROJECT_READ, PM_PROJECT_UPDATE,
      PM_PROJECT_ARCHIVE, PM_MEMBERSHIP_READ, PM_MEMBERSHIP_MANAGE, PM_ROLE_ASSIGNMENT_READ,
      PM_ROLE_ASSIGNMENT_MANAGE, PM_POLICY_CREATE, PM_POLICY_READ, PM_POLICY_UPDATE, PM_POLICY_VALIDATE,
      PM_POLICY_SIMULATE, PM_POLICY_REVIEW, PM_POLICY_PUBLISH, PM_POLICY_DEPRECATE, PM_DECISION_EVALUATE,
      PM_DECISION_READ, PM_DECISION_EXPLAIN, PM_EVALUATION_EXECUTE, PM_EVALUATION_READ, PM_JOB_SUBMIT, PM_JOB_READ,
      PM_JOB_CANCEL, PM_JOB_RETRY, PM_ONTOLOGY_READ, PM_ONTOLOGY_SYNCHRONIZE, PM_ONTOLOGY_RECONCILE, PM_AUDIT_READ,
      PM_MCP_AUDIT_READ, PM_PLATFORM_HEALTH_READ, PM_ASSET_MANAGE, PM_RUNTIME_CONNECTION_MANAGE, PM_SETTINGS_READ,
      PM_SETTINGS_MANAGE, PM_REPLAY_READ, PM_REPLAY_CREATE, PM_REPLAY_ARCHIVE, PM_REPLAY_EXECUTE, PM_REPLAY_CANCEL,
      PM_REPLAY_EVALUATE, PM_REPLAY_RESULT_READ, PM_AGENT_EXECUTION_INGEST, PM_AGENT_EXECUTION_READ,
      PM_RUNTIME_ACTION_DELEGATION_ISSUE, PM_RUNTIME_FINDING_READ, PM_RUNTIME_FINDING_DETECT,
      PM_RUNTIME_FINDING_RECONCILE, PM_RUNTIME_FINDING_REVIEW, PM_CAUSAL_AUDIT_CREATE, PM_CAUSAL_AUDIT_READ,
      PM_ENTERPRISE_RECOMMENDATIONS_READ, PM_ENTERPRISE_RECOMMENDATIONS_SYNTHESIZE]"

definition viewer :: "permission list" where
  "viewer =
     [PM_POLICY_READ, PM_DECISION_READ, PM_DECISION_EXPLAIN, PM_EVALUATION_READ, PM_JOB_READ, PM_ONTOLOGY_READ,
      PM_AUDIT_READ, PM_PLATFORM_HEALTH_READ, PM_SETTINGS_READ, PM_REPLAY_READ, PM_REPLAY_RESULT_READ,
      PM_AGENT_EXECUTION_READ, PM_ENTERPRISE_RECOMMENDATIONS_READ]"

definition reviewer :: "permission list" where
  "reviewer = viewer @ [PM_POLICY_REVIEW, PM_POLICY_PUBLISH]"

definition operator :: "permission list" where
  "operator =
     [PM_JOB_SUBMIT, PM_JOB_READ, PM_JOB_CANCEL, PM_JOB_RETRY, PM_EVALUATION_EXECUTE, PM_EVALUATION_READ,
      PM_ONTOLOGY_READ, PM_ONTOLOGY_RECONCILE, PM_PLATFORM_HEALTH_READ, PM_MCP_AUDIT_READ, PM_SETTINGS_READ,
      PM_SETTINGS_MANAGE, PM_REPLAY_READ, PM_AGENT_EXECUTION_INGEST, PM_AGENT_EXECUTION_READ,
      PM_RUNTIME_FINDING_READ, PM_RUNTIME_FINDING_DETECT, PM_ENTERPRISE_RECOMMENDATIONS_READ]"

definition governance_admin :: "permission list" where
  "governance_admin =
     [PM_ASSET_MANAGE, PM_RUNTIME_CONNECTION_MANAGE, PM_POLICY_CREATE, PM_POLICY_READ, PM_POLICY_UPDATE,
      PM_POLICY_VALIDATE, PM_POLICY_SIMULATE, PM_POLICY_REVIEW, PM_POLICY_PUBLISH, PM_POLICY_DEPRECATE,
      PM_DECISION_EVALUATE, PM_DECISION_READ, PM_DECISION_EXPLAIN, PM_EVALUATION_EXECUTE, PM_EVALUATION_READ,
      PM_JOB_SUBMIT, PM_JOB_READ, PM_ONTOLOGY_READ, PM_ONTOLOGY_SYNCHRONIZE, PM_AUDIT_READ, PM_SETTINGS_READ,
      PM_REPLAY_READ, PM_REPLAY_CREATE, PM_REPLAY_ARCHIVE, PM_REPLAY_EXECUTE, PM_REPLAY_CANCEL, PM_REPLAY_EVALUATE,
      PM_REPLAY_RESULT_READ, PM_SETTINGS_MANAGE, PM_AGENT_EXECUTION_INGEST, PM_AGENT_EXECUTION_READ,
      PM_RUNTIME_ACTION_DELEGATION_ISSUE, PM_RUNTIME_FINDING_READ, PM_RUNTIME_FINDING_DETECT,
      PM_RUNTIME_FINDING_RECONCILE, PM_RUNTIME_FINDING_REVIEW, PM_CAUSAL_AUDIT_CREATE, PM_CAUSAL_AUDIT_READ,
      PM_ENTERPRISE_RECOMMENDATIONS_READ, PM_ENTERPRISE_RECOMMENDATIONS_SYNTHESIZE]"

definition external_runtime_operator :: "permission list" where
  "external_runtime_operator =
     [PM_JOB_SUBMIT, PM_AGENT_EXECUTION_INGEST, PM_AGENT_EXECUTION_READ, PM_RUNTIME_FINDING_READ,
      PM_RUNTIME_FINDING_DETECT, PM_RUNTIME_FINDING_RECONCILE, PM_CAUSAL_AUDIT_CREATE, PM_CAUSAL_AUDIT_READ,
      PM_REPLAY_CREATE, PM_REPLAY_READ, PM_REPLAY_RESULT_READ, PM_SETTINGS_READ]"

definition external_runtime_test_operator :: "permission list" where
  "external_runtime_test_operator = external_runtime_operator @ [PM_SETTINGS_MANAGE]"

primrec built_in_permissions :: "built_in_role \<Rightarrow> permission list" where
  "built_in_permissions ORGANIZATION_ADMIN = all_permissions"
| "built_in_permissions GOVERNANCE_ADMIN = governance_admin"
| "built_in_permissions GOVERNANCE_REVIEWER = reviewer"
| "built_in_permissions PLATFORM_OPERATOR = operator"
| "built_in_permissions EXTERNAL_RUNTIME_OPERATOR = external_runtime_operator"
| "built_in_permissions EXTERNAL_RUNTIME_TEST_OPERATOR = external_runtime_test_operator"
| "built_in_permissions VIEWER = viewer"

text \<open>
  \<open>Permission | str\<close>: a member of the enumeration or a plain string. The two are equal, and hash
  alike, when the string is the value of the member; \<open>is\<close> tells them apart.
\<close>

datatype permission_name = Member permission | Plain string

primrec name_text :: "permission_name \<Rightarrow> string" where
  "name_text (Member p) = permission_value p"
| "name_text (Plain s) = s"

definition named :: "permission list \<Rightarrow> permission_name \<Rightarrow> bool" where
  "named ps p = (name_text p \<in> set (map permission_value ps))"

definition role_permissions :: "string list \<Rightarrow> built_in_role \<Rightarrow> string list" where
  "role_permissions extensions role =
     map permission_value (built_in_permissions role) @ (if role = ORGANIZATION_ADMIN then extensions else [])"

text \<open>The loop stops at the first refused definition and keeps what it has added.\<close>

fun register_extension_permissions :: "string list \<Rightarrow> (string list, unit) action" where
  "register_extension_permissions [] s = (Inr (), s)"
| "register_extension_permissions (d # ds) s =
     (let name = py_strip d in
      if name = [] \<or> name \<in> set (map permission_value all_permissions) \<or> name \<in> set s
      then (Inl (Exc ValueError (''Permission '' @ quoted name @ '' is already registered or invalid.'')), s)
      else register_extension_permissions ds (s @ [name]))"

section \<open>Repository\<close>

datatype reason_code =
    ALLOWED_BY_ROLE | ACTOR_NOT_MEMBER | MEMBERSHIP_INACTIVE | NO_ROLE_ASSIGNMENT | PERMISSION_NOT_GRANTED
  | ORGANIZATION_INACTIVE | PROJECT_INACTIVE | TENANT_SCOPE_MISMATCH

primrec reason_value :: "reason_code \<Rightarrow> string" where
  "reason_value ALLOWED_BY_ROLE = ''ALLOWED_BY_ROLE''"
| "reason_value ACTOR_NOT_MEMBER = ''ACTOR_NOT_MEMBER''"
| "reason_value MEMBERSHIP_INACTIVE = ''MEMBERSHIP_INACTIVE''"
| "reason_value NO_ROLE_ASSIGNMENT = ''NO_ROLE_ASSIGNMENT''"
| "reason_value PERMISSION_NOT_GRANTED = ''PERMISSION_NOT_GRANTED''"
| "reason_value ORGANIZATION_INACTIVE = ''ORGANIZATION_INACTIVE''"
| "reason_value PROJECT_INACTIVE = ''PROJECT_INACTIVE''"
| "reason_value TENANT_SCOPE_MISMATCH = ''TENANT_SCOPE_MISMATCH''"

record authorization_answer =
  aw_allowed :: bool
  aw_permission :: permission_name
  aw_matched_roles :: "built_in_role list"
  aw_reason_code :: reason_code
  aw_permission_model_version :: string

record authorization_audit =
  au_organization_id :: string
  au_project_id :: "string option"
  au_actor_id :: string
  au_operation :: string
  au_permission :: permission_name
  au_authorization_result :: bool
  au_reason_code :: reason_code
  au_matched_roles :: "built_in_role list"
  au_permission_model_version :: string
  au_resource_type :: "string option"
  au_resource_id :: "string option"
  au_request_id :: string
  au_correlation_id :: "string option"
  au_occurred_at :: datetime

record control_plane =
  tp_organizations :: "(string, organization) dict"
  tp_projects :: "(string \<times> string, project) dict"
  tp_memberships :: "(string \<times> string, membership) dict"
  tp_assignments :: "(string, role_assignment) dict"
  tp_audit :: "authorization_audit list"

definition empty_control_plane :: control_plane where
  "empty_control_plane = \<lparr>tp_organizations = [], tp_projects = [], tp_memberships = [], tp_assignments = [], tp_audit = []\<rparr>"

definition tenancy_error :: "string \<Rightarrow> string \<Rightarrow> exc" where
  "tenancy_error name subject = Exc (OtherError name) subject"

definition get_organization :: "control_plane \<Rightarrow> string \<Rightarrow> exc + organization" where
  "get_organization s i =
     (case dict_get (tp_organizations s) i of None \<Rightarrow> Inl (tenancy_error ''OrganizationNotFound'' i) | Some x \<Rightarrow> Inr x)"

definition get_organization_by_slug :: "control_plane \<Rightarrow> string \<Rightarrow> exc + organization" where
  "get_organization_by_slug s slug =
     (case List.find (\<lambda>x. og_slug x = slug) (dict_values (tp_organizations s)) of
        None \<Rightarrow> Inl (tenancy_error ''OrganizationNotFound'' slug) | Some x \<Rightarrow> Inr x)"

definition list_organizations :: "control_plane \<Rightarrow> organization list" where
  "list_organizations s = sort_key (\<lambda>x. micros (og_created_at x)) (dict_values (tp_organizations s))"

definition put_organization :: "organization \<Rightarrow> control_plane \<Rightarrow> control_plane" where
  "put_organization x s = s\<lparr>tp_organizations := dict_put (og_organization_id x) x (tp_organizations s)\<rparr>"

definition repo_create_organization :: "organization \<Rightarrow> (control_plane, organization) action" where
  "repo_create_organization x s =
     (if dict_get (tp_organizations s) (og_organization_id x) \<noteq> None
         \<or> list_ex (\<lambda>y. og_slug y = og_slug x) (dict_values (tp_organizations s))
      then (Inl (tenancy_error ''OrganizationSlugConflict'' (og_slug x)), s)
      else (Inr x, put_organization x s))"

definition repo_update_organization :: "organization \<Rightarrow> (control_plane, organization) action" where
  "repo_update_organization x s =
     (case get_organization s (og_organization_id x) of Inl e \<Rightarrow> (Inl e, s)
      | Inr _ \<Rightarrow>
          if list_ex (\<lambda>y. og_slug y = og_slug x \<and> og_organization_id y \<noteq> og_organization_id x) (dict_values (tp_organizations s))
          then (Inl (tenancy_error ''OrganizationSlugConflict'' (og_slug x)), s)
          else (Inr x, put_organization x s))"

definition get_project :: "control_plane \<Rightarrow> string \<Rightarrow> string \<Rightarrow> exc + project" where
  "get_project s org i =
     (case dict_get (tp_projects s) (org, i) of None \<Rightarrow> Inl (tenancy_error ''ProjectNotFound'' i) | Some x \<Rightarrow> Inr x)"

definition list_projects :: "control_plane \<Rightarrow> string \<Rightarrow> exc + project list" where
  "list_projects s org =
     res_bind (get_organization s org) (\<lambda>_.
     Inr (sort_key (\<lambda>x. micros (pj_created_at x)) (filter (\<lambda>x. pj_organization_id x = org) (dict_values (tp_projects s)))))"

definition put_project :: "project \<Rightarrow> control_plane \<Rightarrow> control_plane" where
  "put_project x s = s\<lparr>tp_projects := dict_put (pj_organization_id x, pj_project_id x) x (tp_projects s)\<rparr>"

definition repo_create_project :: "project \<Rightarrow> (control_plane, project) action" where
  "repo_create_project x s =
     (case get_organization s (pj_organization_id x) of Inl e \<Rightarrow> (Inl e, s)
      | Inr _ \<Rightarrow>
          if dict_get (tp_projects s) (pj_organization_id x, pj_project_id x) \<noteq> None
             \<or> list_ex (\<lambda>y. pj_organization_id y = pj_organization_id x \<and> pj_slug y = pj_slug x) (dict_values (tp_projects s))
          then (Inl (tenancy_error ''ProjectSlugConflict'' (pj_slug x)), s)
          else (Inr x, put_project x s))"

definition repo_update_project :: "project \<Rightarrow> (control_plane, project) action" where
  "repo_update_project x s =
     (case get_project s (pj_organization_id x) (pj_project_id x) of Inl e \<Rightarrow> (Inl e, s)
      | Inr _ \<Rightarrow>
          if list_ex (\<lambda>y. pj_organization_id y = pj_organization_id x \<and> pj_slug y = pj_slug x
                        \<and> pj_project_id y \<noteq> pj_project_id x) (dict_values (tp_projects s))
          then (Inl (tenancy_error ''ProjectSlugConflict'' (pj_slug x)), s)
          else (Inr x, put_project x s))"

definition get_membership :: "control_plane \<Rightarrow> string \<Rightarrow> string \<Rightarrow> exc + membership" where
  "get_membership s org actor =
     (case dict_get (tp_memberships s) (org, actor) of None \<Rightarrow> Inl (tenancy_error ''MembershipNotFound'' actor) | Some x \<Rightarrow> Inr x)"

definition list_memberships :: "control_plane \<Rightarrow> string \<Rightarrow> membership list" where
  "list_memberships s org = filter (\<lambda>x. mb_organization_id x = org) (dict_values (tp_memberships s))"

definition put_membership :: "membership \<Rightarrow> control_plane \<Rightarrow> control_plane" where
  "put_membership x s = s\<lparr>tp_memberships := dict_put (mb_organization_id x, mb_actor_id x) x (tp_memberships s)\<rparr>"

definition repo_create_membership :: "membership \<Rightarrow> (control_plane, membership) action" where
  "repo_create_membership x s =
     (case get_organization s (mb_organization_id x) of Inl e \<Rightarrow> (Inl e, s)
      | Inr _ \<Rightarrow>
          if dict_get (tp_memberships s) (mb_organization_id x, mb_actor_id x) \<noteq> None
          then (Inl (tenancy_error ''MembershipConflict'' (mb_actor_id x)), s)
          else (Inr x, put_membership x s))"

definition repo_update_membership :: "membership \<Rightarrow> (control_plane, membership) action" where
  "repo_update_membership x s =
     (case get_membership s (mb_organization_id x) (mb_actor_id x) of Inl e \<Rightarrow> (Inl e, s)
      | Inr _ \<Rightarrow> (Inr x, put_membership x s))"

definition same_grant :: "role_assignment \<Rightarrow> role_assignment \<Rightarrow> bool" where
  "same_grant x y =
     (ra_organization_id y = ra_organization_id x \<and> ra_project_id y = ra_project_id x \<and> ra_actor_id y = ra_actor_id x
      \<and> ra_role y = ra_role x)"

definition put_assignment :: "role_assignment \<Rightarrow> control_plane \<Rightarrow> control_plane" where
  "put_assignment x s = s\<lparr>tp_assignments := dict_put (ra_assignment_id x) x (tp_assignments s)\<rparr>"

definition create_assignment :: "role_assignment \<Rightarrow> (control_plane, role_assignment) action" where
  "create_assignment x s =
     (case get_membership s (ra_organization_id x) (ra_actor_id x) of Inl e \<Rightarrow> (Inl e, s)
      | Inr _ \<Rightarrow>
          (case (case ra_project_id x of None \<Rightarrow> Inr ()
                 | Some p \<Rightarrow> res_bind (get_project s (ra_organization_id x) p) (\<lambda>_. Inr ())) of
             Inl e \<Rightarrow> (Inl e, s)
           | Inr _ \<Rightarrow>
               if list_ex (same_grant x) (dict_values (tp_assignments s))
               then (Inl (tenancy_error ''RoleAssignmentConflict'' (ra_actor_id x)), s)
               else (Inr x, put_assignment x s)))"

definition get_assignment :: "control_plane \<Rightarrow> string \<Rightarrow> string \<Rightarrow> exc + role_assignment" where
  "get_assignment s org i =
     (case dict_get (tp_assignments s) i of
        Some x \<Rightarrow> if ra_organization_id x = org then Inr x else Inl (tenancy_error ''RoleAssignmentNotFound'' i)
      | None \<Rightarrow> Inl (tenancy_error ''RoleAssignmentNotFound'' i))"

definition list_assignments :: "control_plane \<Rightarrow> string \<Rightarrow> string option \<Rightarrow> string option \<Rightarrow> role_assignment list" where
  "list_assignments s org actor project =
     filter (\<lambda>x. ra_organization_id x = org \<and> (actor = None \<or> Some (ra_actor_id x) = actor)
               \<and> (project = None \<or> ra_project_id x \<in> {None, project}))
       (dict_values (tp_assignments s))"

definition delete_assignment :: "string \<Rightarrow> string \<Rightarrow> (control_plane, role_assignment) action" where
  "delete_assignment org i s =
     (case get_assignment s org i of Inl e \<Rightarrow> (Inl e, s)
      | Inr x \<Rightarrow> (Inr x, s\<lparr>tp_assignments := AList.delete i (tp_assignments s)\<rparr>))"

definition save_authorization_audit :: "authorization_audit \<Rightarrow> control_plane \<Rightarrow> control_plane" where
  "save_authorization_audit x s = s\<lparr>tp_audit := tp_audit s @ [x]\<rparr>"

section \<open>Authorization\<close>

record tenancy =
  ty_repository :: control_plane
  ty_extensions :: "string list"
  ty_audit_records :: "authorization_audit list"
  ty_decision_metrics :: "(string \<times> bool \<times> string, int) dict"

abbreviation on_repository :: "(control_plane, 'a) action \<Rightarrow> (tenancy, 'a) action" where
  "on_repository \<equiv> act_on ty_repository (\<lambda>t s. s\<lparr>ty_repository := t\<rparr>)"

definition suspended_permissions :: "permission list" where
  "suspended_permissions =
     [PM_ORGANIZATION_READ, PM_ORGANIZATION_UPDATE, PM_PROJECT_READ, PM_MEMBERSHIP_READ, PM_ROLE_ASSIGNMENT_READ, PM_AUDIT_READ]"

definition security_writes :: "permission list" where
  "security_writes =
     [PM_ORGANIZATION_UPDATE, PM_PROJECT_CREATE, PM_PROJECT_UPDATE, PM_PROJECT_ARCHIVE, PM_MEMBERSHIP_MANAGE,
      PM_ROLE_ASSIGNMENT_MANAGE]"

definition answer :: "bool \<Rightarrow> permission_name \<Rightarrow> built_in_role list \<Rightarrow> reason_code \<Rightarrow> authorization_answer" where
  "answer allowed permission roles reason =
     \<lparr>aw_allowed = allowed, aw_permission = permission, aw_matched_roles = roles, aw_reason_code = reason,
      aw_permission_model_version = ''1''\<rparr>"

text \<open>Whether a resource lies outside the scope of the call.\<close>

definition out_of_scope :: "tenant_context \<Rightarrow> authorization_resource option \<Rightarrow> bool" where
  "out_of_scope cx resource =
     (case resource of None \<Rightarrow> False
      | Some r \<Rightarrow> (truthy (az_organization_id r) \<and> az_organization_id r \<noteq> Some (cx_organization_id cx))
          \<or> (truthy (az_project_id r) \<and> az_project_id r \<noteq> cx_project_id cx))"

definition scoped :: "tenant_context \<Rightarrow> role_assignment \<Rightarrow> bool" where
  "scoped cx x = (ra_project_id x = None \<or> ra_project_id x = cx_project_id cx)"

definition judge_roles :: "control_plane \<Rightarrow> string list \<Rightarrow> tenant_context \<Rightarrow> permission_name \<Rightarrow> authorization_answer" where
  "judge_roles s extensions cx permission =
     (let assignments = list_assignments s (cx_organization_id cx) (Some (cx_actor_id cx)) (cx_project_id cx);
          roles = sort_key role_value (remdups (map ra_role (filter (scoped cx) assignments)));
          matched = filter (\<lambda>r. name_text permission \<in> set (role_permissions extensions r)) roles
      in if assignments = [] then answer False permission [] NO_ROLE_ASSIGNMENT
         else if matched \<noteq> [] then answer True permission matched ALLOWED_BY_ROLE
         else answer False permission roles PERMISSION_NOT_GRANTED)"

definition judge ::
  "control_plane \<Rightarrow> string list \<Rightarrow> tenant_context \<Rightarrow> permission_name \<Rightarrow> authorization_resource option \<Rightarrow> authorization_answer" where
  "judge s extensions cx permission resource =
     (let denied = answer False permission [] in
      case get_organization s (cx_organization_id cx) of Inl _ \<Rightarrow> denied TENANT_SCOPE_MISMATCH
      | Inr org \<Rightarrow>
          if og_status org = OGS_ARCHIVED \<and> permission \<noteq> Member PM_ORGANIZATION_READ then denied ORGANIZATION_INACTIVE
          else if og_status org = OGS_SUSPENDED \<and> \<not> named suspended_permissions permission then denied ORGANIZATION_INACTIVE
          else case get_membership s (cx_organization_id cx) (cx_actor_id cx) of Inl _ \<Rightarrow> denied ACTOR_NOT_MEMBER
          | Inr m \<Rightarrow>
              if mb_status m \<noteq> MBS_ACTIVE then denied MEMBERSHIP_INACTIVE
              else if out_of_scope cx resource then denied TENANT_SCOPE_MISMATCH
              else if \<not> truthy (cx_project_id cx) then judge_roles s extensions cx permission
              else case get_project s (cx_organization_id cx) (the (cx_project_id cx)) of Inl _ \<Rightarrow> denied TENANT_SCOPE_MISMATCH
              | Inr p \<Rightarrow>
                  if pj_status p \<noteq> PJS_ACTIVE then denied PROJECT_INACTIVE else judge_roles s extensions cx permission)"

definition audit_of ::
  "datetime \<Rightarrow> tenant_context \<Rightarrow> authorization_answer \<Rightarrow> authorization_resource option \<Rightarrow> authorization_audit" where
  "audit_of now cx d resource =
     \<lparr>au_organization_id = cx_organization_id cx, au_project_id = cx_project_id cx, au_actor_id = cx_actor_id cx,
      au_operation = name_text (aw_permission d), au_permission = aw_permission d, au_authorization_result = aw_allowed d,
      au_reason_code = aw_reason_code d, au_matched_roles = aw_matched_roles d,
      au_permission_model_version = aw_permission_model_version d,
      au_resource_type = map_option az_resource_type resource,
      au_resource_id = (case resource of None \<Rightarrow> None | Some r \<Rightarrow> az_resource_id r),
      au_request_id = cx_request_id cx, au_correlation_id = cx_correlation_id cx, au_occurred_at = now\<rparr>"

definition record_decision ::
  "datetime \<Rightarrow> tenant_context \<Rightarrow> authorization_answer \<Rightarrow> authorization_resource option \<Rightarrow> tenancy \<Rightarrow> tenancy" where
  "record_decision now cx d resource s =
     (let key = (name_text (aw_permission d), aw_allowed d, reason_value (aw_reason_code d));
          counted = s\<lparr>ty_decision_metrics :=
            dict_put key (opt_or (dict_get (ty_decision_metrics s) key) 0 + 1) (ty_decision_metrics s)\<rparr>
      in if aw_allowed d \<and> \<not> named security_writes (aw_permission d) then counted
         else counted\<lparr>ty_audit_records := ty_audit_records counted @ [audit_of now cx d resource],
                      ty_repository := save_authorization_audit (audit_of now cx d resource) (ty_repository counted)\<rparr>)"

definition authorize_permission ::
  "datetime \<Rightarrow> tenant_context \<Rightarrow> permission_name \<Rightarrow> authorization_resource option \<Rightarrow> (tenancy, authorization_answer) action" where
  "authorize_permission now cx permission resource s =
     (let d = judge (ty_repository s) (ty_extensions s) cx permission resource in (Inr d, record_decision now cx d resource s))"

definition effective_permissions :: "tenancy \<Rightarrow> tenant_context \<Rightarrow> string list" where
  "effective_permissions s cx =
     remdups (concat (map (\<lambda>x. role_permissions (ty_extensions s) (ra_role x))
       (filter (scoped cx) (list_assignments (ty_repository s) (cx_organization_id cx) (Some (cx_actor_id cx)) (cx_project_id cx)))))"

section \<open>Administration\<close>

text \<open>
  \<open>tf_at\<close> is when the authorization is recorded, \<open>tf_now\<close> the clock of the command and
  \<open>tf_hex\<close> the digits of its fresh UUID.
\<close>

record command_fresh =
  tf_at :: datetime
  tf_now :: datetime
  tf_hex :: string

definition require_permission :: "datetime \<Rightarrow> tenant_context \<Rightarrow> permission_name \<Rightarrow> (tenancy, unit) action" where
  "require_permission when cx permission =
     act_bind (authorize_permission when cx permission None) (\<lambda>d.
     if aw_allowed d then act_return ()
     else act_raise (Exc AuthorizationDenied ''Actor is not authorized for this operation''))"

definition role_id :: "string \<Rightarrow> string" where
  "role_id hex = ''role_'' @ hex"

definition create_organization ::
  "command_fresh \<Rightarrow> string \<Rightarrow> string \<Rightarrow> string \<Rightarrow> string \<Rightarrow> string option \<Rightarrow> (tenancy, organization) action" where
  "create_organization f organization_id name slug actor_id actor_name =
     act_bind (act_lift (validate_slug slug)) (\<lambda>valid.
     act_bind (act_lift (new_organization
       \<lparr>og_organization_id = organization_id, og_name = py_strip name, og_slug = valid, og_status = OGS_ACTIVE,
        og_created_at = tf_now f, og_updated_at = tf_now f\<rparr>)) (\<lambda>x.
     act_bind (on_repository (repo_create_organization x)) (\<lambda>org.
     act_bind (on_repository (repo_create_membership
       \<lparr>mb_organization_id = organization_id, mb_actor_id = actor_id, mb_status = MBS_ACTIVE, mb_created_at = tf_now f,
        mb_updated_at = tf_now f, mb_display_name = actor_name\<rparr>)) (\<lambda>_.
     act_bind (on_repository (create_assignment
       \<lparr>ra_assignment_id = role_id (tf_hex f), ra_organization_id = organization_id, ra_project_id = None, ra_actor_id = actor_id,
        ra_role = ORGANIZATION_ADMIN, ra_created_at = tf_now f, ra_created_by = actor_id\<rparr>)) (\<lambda>_.
     act_return org)))))"

definition accessible_organizations :: "tenancy \<Rightarrow> string \<Rightarrow> organization list" where
  "accessible_organizations s actor_id =
     filter (\<lambda>x. list_ex (\<lambda>m. mb_actor_id m = actor_id \<and> mb_status m = MBS_ACTIVE)
         (list_memberships (ty_repository s) (og_organization_id x)))
       (list_organizations (ty_repository s))"

text \<open>\<open>validate_slug(slug) if slug else current\<close>, and \<open>name.strip() if name else current\<close>.\<close>

definition given_slug :: "string option \<Rightarrow> string \<Rightarrow> exc + string" where
  "given_slug slug current = (if truthy slug then validate_slug (the slug) else Inr current)"

definition given_name :: "string option \<Rightarrow> string \<Rightarrow> string" where
  "given_name name current = (if truthy name then py_strip (the name) else current)"

definition update_organization ::
  "command_fresh \<Rightarrow> tenant_context \<Rightarrow> string option \<Rightarrow> string option \<Rightarrow> organization_status option
     \<Rightarrow> (tenancy, organization) action" where
  "update_organization f cx name slug status =
     act_bind (require_permission (tf_at f) cx (Member PM_ORGANIZATION_UPDATE)) (\<lambda>_.
     act_bind (act_read (\<lambda>s. get_organization (ty_repository s) (cx_organization_id cx))) (\<lambda>current.
     if og_status current = OGS_ARCHIVED then act_raise (tenancy_error ''OrganizationInactive'' (og_organization_id current))
     else
       act_bind (act_lift (given_slug slug (og_slug current))) (\<lambda>valid.
       act_bind (act_lift (new_organization (current\<lparr>og_name := given_name name (og_name current), og_slug := valid,
         og_status := opt_or status (og_status current), og_updated_at := tf_now f\<rparr>))) (\<lambda>x.
       on_repository (repo_update_organization x)))))"

definition service_create_project ::
  "command_fresh \<Rightarrow> tenant_context \<Rightarrow> string \<Rightarrow> string \<Rightarrow> string \<Rightarrow> string option \<Rightarrow> (tenancy, project) action" where
  "service_create_project f cx project_id name slug description =
     act_bind (require_permission (tf_at f) cx (Member PM_PROJECT_CREATE)) (\<lambda>_.
     act_bind (act_lift (validate_slug slug)) (\<lambda>valid.
     act_bind (act_lift (new_project
       \<lparr>pj_project_id = project_id, pj_organization_id = cx_organization_id cx, pj_name = py_strip name, pj_slug = valid,
        pj_description = description, pj_status = PJS_ACTIVE, pj_created_at = tf_now f, pj_updated_at = tf_now f\<rparr>)) (\<lambda>x.
     on_repository (repo_create_project x))))"

definition service_update_project ::
  "command_fresh \<Rightarrow> tenant_context \<Rightarrow> string \<Rightarrow> string option \<Rightarrow> string option \<Rightarrow> string option \<Rightarrow> project_status option
     \<Rightarrow> (tenancy, project) action" where
  "service_update_project f cx project_id name slug description status =
     act_bind (require_permission (tf_at f) cx
       (Member (if status = Some PJS_ARCHIVED then PM_PROJECT_ARCHIVE else PM_PROJECT_UPDATE))) (\<lambda>_.
     act_bind (act_read (\<lambda>s. get_project (ty_repository s) (cx_organization_id cx) project_id)) (\<lambda>current.
     if pj_status current = PJS_ARCHIVED then act_raise (tenancy_error ''OrganizationInactive'' project_id)
     else
       act_bind (act_lift (given_slug slug (pj_slug current))) (\<lambda>valid.
       act_bind (act_lift (new_project (current\<lparr>pj_name := given_name name (pj_name current), pj_slug := valid,
         pj_description := (if description = None then pj_description current else description),
         pj_status := opt_or status (pj_status current), pj_updated_at := tf_now f\<rparr>))) (\<lambda>x.
       on_repository (repo_update_project x)))))"

definition add_membership ::
  "command_fresh \<Rightarrow> tenant_context \<Rightarrow> string \<Rightarrow> string option \<Rightarrow> (tenancy, membership) action" where
  "add_membership f cx actor_id display_name =
     act_bind (require_permission (tf_at f) cx (Member PM_MEMBERSHIP_MANAGE)) (\<lambda>_.
     on_repository (repo_create_membership
       \<lparr>mb_organization_id = cx_organization_id cx, mb_actor_id = actor_id, mb_status = MBS_ACTIVE, mb_created_at = tf_now f,
        mb_updated_at = tf_now f, mb_display_name = display_name\<rparr>))"

text \<open>The administrators that remain; the membership of each candidate is looked up and may be missing.\<close>

fun active_admins :: "control_plane \<Rightarrow> string \<Rightarrow> string \<Rightarrow> string option \<Rightarrow> role_assignment list \<Rightarrow> exc + string list" where
  "active_admins s org actor excluded [] = Inr []"
| "active_admins s org actor excluded (x # xs) =
     (if ra_role x = ORGANIZATION_ADMIN \<and> ra_project_id x = None \<and> Some (ra_assignment_id x) \<noteq> excluded
      then res_bind (get_membership s org (ra_actor_id x)) (\<lambda>m.
        res_bind (active_admins s org actor excluded xs) (\<lambda>rest.
        Inr (if mb_status m = MBS_ACTIVE \<and> ra_actor_id x \<noteq> actor then ra_actor_id x # rest else rest)))
      else active_admins s org actor excluded xs)"

definition protect_last_admin :: "control_plane \<Rightarrow> string \<Rightarrow> string \<Rightarrow> string option \<Rightarrow> exc + unit" where
  "protect_last_admin s org actor excluded =
     res_bind (active_admins s org actor excluded (list_assignments s org None None)) (\<lambda>admins.
     checked [(admins = [], tenancy_error ''LastOrganizationAdministrator'' actor)] ())"

text \<open>The part of a command that holds the lock.\<close>

definition change_membership ::
  "datetime \<Rightarrow> string \<Rightarrow> string \<Rightarrow> membership_status \<Rightarrow> (control_plane, membership) action" where
  "change_membership now org actor_id status =
     act_bind (act_read (\<lambda>s. get_membership s org actor_id)) (\<lambda>current.
     act_bind (act_read (\<lambda>s. if status \<noteq> MBS_ACTIVE then protect_last_admin s org actor_id None else Inr ())) (\<lambda>_.
     repo_update_membership (current\<lparr>mb_status := status, mb_updated_at := now\<rparr>)))"

definition update_membership ::
  "command_fresh \<Rightarrow> tenant_context \<Rightarrow> string \<Rightarrow> membership_status \<Rightarrow> (tenancy, membership) action" where
  "update_membership f cx actor_id status =
     act_bind (require_permission (tf_at f) cx (Member PM_MEMBERSHIP_MANAGE)) (\<lambda>_.
     on_repository (change_membership (tf_now f) (cx_organization_id cx) actor_id status))"

definition assign_role ::
  "command_fresh \<Rightarrow> tenant_context \<Rightarrow> string \<Rightarrow> built_in_role \<Rightarrow> string option \<Rightarrow> (tenancy, role_assignment) action" where
  "assign_role f cx actor_id role project_id =
     act_bind (require_permission (tf_at f) cx (Member PM_ROLE_ASSIGNMENT_MANAGE)) (\<lambda>_.
     on_repository (create_assignment
       \<lparr>ra_assignment_id = role_id (tf_hex f), ra_organization_id = cx_organization_id cx, ra_project_id = project_id,
        ra_actor_id = actor_id, ra_role = role, ra_created_at = tf_now f, ra_created_by = cx_actor_id cx\<rparr>))"

definition withdraw_assignment :: "string \<Rightarrow> string \<Rightarrow> (control_plane, role_assignment) action" where
  "withdraw_assignment org i =
     act_bind (act_read (\<lambda>s. get_assignment s org i)) (\<lambda>x.
     act_bind (act_read (\<lambda>s. if ra_role x = ORGANIZATION_ADMIN \<and> ra_project_id x = None
       then protect_last_admin s org (ra_actor_id x) (Some i) else Inr ())) (\<lambda>_.
     delete_assignment org i))"

definition remove_assignment :: "command_fresh \<Rightarrow> tenant_context \<Rightarrow> string \<Rightarrow> (tenancy, role_assignment) action" where
  "remove_assignment f cx i =
     act_bind (require_permission (tf_at f) cx (Member PM_ROLE_ASSIGNMENT_MANAGE)) (\<lambda>_.
     on_repository (withdraw_assignment (cx_organization_id cx) i))"

section \<open>Service accounts\<close>

text \<open>\<open>actor_id or os.getenv(...)\<close>.\<close>

definition configured_actor :: "string option \<Rightarrow> string option \<Rightarrow> string option" where
  "configured_actor actor_id variable = (if truthy actor_id then actor_id else variable)"

definition without_hyphens :: "string \<Rightarrow> string" where
  "without_hyphens s = filter (\<lambda>c. c \<noteq> CHR ''-'') s"

definition activate_member :: "datetime \<Rightarrow> string \<Rightarrow> string \<Rightarrow> string \<Rightarrow> (control_plane, unit) action" where
  "activate_member now org actor display_name s =
     (case get_membership s org actor of
        Inr m \<Rightarrow>
          if mb_status m \<noteq> MBS_ACTIVE
          then act_bind (repo_update_membership (m\<lparr>mb_status := MBS_ACTIVE, mb_updated_at := now\<rparr>)) (\<lambda>_. act_return ()) s
          else (Inr (), s)
      | Inl _ \<Rightarrow>
          act_bind (repo_create_membership
            \<lparr>mb_organization_id = org, mb_actor_id = actor, mb_status = MBS_ACTIVE, mb_created_at = now, mb_updated_at = now,
             mb_display_name = Some display_name\<rparr>) (\<lambda>_. act_return ()) s)"

definition provisioned_id :: "string \<Rightarrow> built_in_role \<Rightarrow> string \<Rightarrow> string" where
  "provisioned_id prefix role actor = ''role_'' @ prefix @ ''_'' @ py_lower (role_value role) @ ''_'' @ without_hyphens actor"

definition grant_role ::
  "datetime \<Rightarrow> string \<Rightarrow> string option \<Rightarrow> string \<Rightarrow> string \<Rightarrow> built_in_role \<Rightarrow> (control_plane, unit) action" where
  "grant_role now org project actor prefix role s =
     (if list_ex (\<lambda>x. ra_project_id x = project \<and> ra_role x = role) (list_assignments s org (Some actor) None)
      then (Inr (), s)
      else
        (case create_assignment
           \<lparr>ra_assignment_id = provisioned_id prefix role actor, ra_organization_id = org, ra_project_id = project,
            ra_actor_id = actor, ra_role = role, ra_created_at = now, ra_created_by = actor\<rparr> s of
           (Inr _, t) \<Rightarrow> (Inr (), t)
         | (Inl e, t) \<Rightarrow> if exc_kind e = OtherError ''RoleAssignmentConflict'' then (Inr (), t) else (Inl e, t)))"

definition provision_service_account ::
  "datetime \<Rightarrow> string \<Rightarrow> string option \<Rightarrow> string option \<Rightarrow> string \<Rightarrow> string \<Rightarrow> built_in_role \<Rightarrow> (control_plane, unit) action" where
  "provision_service_account now org project actor display_name prefix role =
     (if \<not> truthy actor then act_return ()
      else act_bind (activate_member now org (the actor) display_name) (\<lambda>_.
        grant_role now org project (the actor) prefix role))"

definition provision_mcp_service_account ::
  "datetime \<Rightarrow> string option \<Rightarrow> string \<Rightarrow> string option \<Rightarrow> (control_plane, unit) action" where
  "provision_mcp_service_account now variable org actor =
     provision_service_account now org None (configured_actor actor variable)
       ''AI Governance Control Plane MCP service account'' ''mcp'' PLATFORM_OPERATOR"

definition provision_walkthrough_service_account ::
  "datetime \<Rightarrow> string option \<Rightarrow> string \<Rightarrow> string option \<Rightarrow> (control_plane, unit) action" where
  "provision_walkthrough_service_account now variable org actor0 =
     (let actor = configured_actor actor0 variable; legacy = ''role_walkthrough_'' @ without_hyphens (the actor) in
      act_bind (provision_service_account now org None actor
        ''AI Governance Control Plane walkthrough service account'' ''walkthrough'' GOVERNANCE_ADMIN) (\<lambda>_ s.
      if \<not> truthy actor then (Inr (), s)
      else case get_assignment s org legacy of Inl _ \<Rightarrow> (Inr (), s)
        | Inr x \<Rightarrow> if ra_role x = PLATFORM_OPERATOR then act_bind (delete_assignment org legacy) (\<lambda>_. act_return ()) s else (Inr (), s)))"

fun delete_all :: "string \<Rightarrow> role_assignment list \<Rightarrow> (control_plane, unit) action" where
  "delete_all org [] = act_return ()"
| "delete_all org (x # xs) = act_bind (delete_assignment org (ra_assignment_id x)) (\<lambda>_. delete_all org xs)"

definition provision_external_runtime_service_account ::
  "datetime \<Rightarrow> string option \<Rightarrow> string \<Rightarrow> string \<Rightarrow> string option \<Rightarrow> bool \<Rightarrow> (control_plane, unit) action" where
  "provision_external_runtime_service_account now variable org project actor0 grant_test =
     (let actor = configured_actor actor0 variable;
          role = (if grant_test then EXTERNAL_RUNTIME_TEST_OPERATOR else EXTERNAL_RUNTIME_OPERATOR) in
      act_bind (provision_service_account now org (Some project) actor
        ''Synthetic Agent Runtime service account'' ''external_runtime'' role) (\<lambda>_ s.
      if \<not> truthy actor then (Inr (), s)
      else delete_all org (filter (\<lambda>x. ra_project_id x = Some project
          \<and> ra_role x \<in> {EXTERNAL_RUNTIME_OPERATOR, EXTERNAL_RUNTIME_TEST_OPERATOR} \<and> ra_role x \<noteq> role)
        (list_assignments s org actor None)) s))"

definition provision_causal_audit_validator_service_account ::
  "datetime \<Rightarrow> string option \<Rightarrow> string \<Rightarrow> string \<Rightarrow> string option \<Rightarrow> (control_plane, unit) action" where
  "provision_causal_audit_validator_service_account now variable org project actor =
     provision_service_account now org (Some project) (configured_actor actor variable)
       ''Causal Audit validator service account'' ''causal_audit_validator'' EXTERNAL_RUNTIME_OPERATOR"

section \<open>Bootstrap\<close>

text \<open>\<open>getenv\<close> stands for \<open>os.getenv\<close>.\<close>

definition resolve_bootstrap_administrator :: "(string \<Rightarrow> string option) \<Rightarrow> string \<Rightarrow> exc + string \<times> string option" where
  "resolve_bootstrap_administrator getenv auth_mode =
     (if auth_mode = ''development''
      then Inr (opt_or (getenv ''AI_GOVERNANCE_DEVELOPMENT_ACTOR_ID'') ''local-admin'',
                Some (opt_or (getenv ''AI_GOVERNANCE_DEVELOPMENT_ACTOR_NAME'') ''Local Administrator''))
      else if auth_mode = ''keycloak''
      then if \<not> truthy (getenv ''AI_GOVERNANCE_BOOTSTRAP_ADMIN_SUB'')
           then Inl (Exc ValueError (''AI_GOVERNANCE_BOOTSTRAP_ADMIN_SUB is required when AI_GOVERNANCE_AUTH_MODE=keycloak. ''
             @ ''This value must match the Keycloak JWT sub claim for the intended initial administrator.''))
           else Inr (the (getenv ''AI_GOVERNANCE_BOOTSTRAP_ADMIN_SUB''), getenv ''AI_GOVERNANCE_BOOTSTRAP_ADMIN_NAME'')
      else Inl (Exc ValueError (''Unsupported authentication mode: '' @ auth_mode)))"

definition fresh_service :: "string list \<Rightarrow> control_plane \<Rightarrow> tenancy" where
  "fresh_service extensions s =
     \<lparr>ty_repository = s, ty_extensions = extensions, ty_audit_records = [], ty_decision_metrics = []\<rparr>"

definition bootstrap_context :: "string \<Rightarrow> string \<Rightarrow> tenant_context" where
  "bootstrap_context org actor =
     \<lparr>cx_organization_id = org, cx_project_id = None, cx_actor_id = actor, cx_request_id = ''bootstrap'', cx_correlation_id = None\<rparr>"

record bootstrap_request =
  bq_organization_id :: string
  bq_organization_name :: string
  bq_organization_slug :: string
  bq_project_id :: string
  bq_project_name :: string
  bq_project_slug :: string
  bq_auth_mode :: string
  bq_administrator :: "string option"
  bq_administrator_name :: "string option"

definition bootstrap_control_plane ::
  "(string \<Rightarrow> string option) \<Rightarrow> string list \<Rightarrow> command_fresh \<Rightarrow> command_fresh \<Rightarrow> bootstrap_request \<Rightarrow> (control_plane, unit) action" where
  "bootstrap_control_plane getenv extensions f g q s =
     (case get_organization s (bq_organization_id q) of Inr _ \<Rightarrow> (Inr (), s)
      | Inl _ \<Rightarrow>
          act_bind (act_lift (case bq_administrator q of
              Some a \<Rightarrow> Inr (a, bq_administrator_name q)
            | None \<Rightarrow> resolve_bootstrap_administrator getenv (bq_auth_mode q))) (\<lambda>(given, label) s.
          let actor = (if given = [] then ''local-admin'' else given);
              name = (if truthy label then the label else ''Local Administrator'');
              (r, t) = act_bind (create_organization f (bq_organization_id q) (bq_organization_name q) (bq_organization_slug q)
                  actor (Some name)) (\<lambda>_.
                act_bind (service_create_project g (bootstrap_context (bq_organization_id q) actor) (bq_project_id q)
                  (bq_project_name q) (bq_project_slug q) None) (\<lambda>_. act_return ()))
                (fresh_service extensions s)
          in (r, ty_repository t)) s)"

end
