(* ===== verification/Tenancy_Properties.thy ===== *)
theory Tenancy_Properties
  imports Tenancy Interfaces
begin

text \<open>
  The control plane over time. Every write of a command happens in one critical section of the
  repository, a \<open>control_move\<close>; the commands are sequences of moves, so what holds along moves
  holds when commands interleave between their sections. Moves keep the integrity of the store and
  never take the last administrator of an organization away.
\<close>

section \<open>Dictionaries\<close>

lemma dict_get_delete [dict_simps]: "dict_get (AList.delete k d) k' = (if k' = k then None else dict_get d k')"
  by (simp add: delete_conv')

lemma dict_ok_delete [simp]: "dict_ok d \<Longrightarrow> dict_ok (AList.delete k d)"
  by (simp add: dict_ok_def distinct_delete)

lemma dict_values_iff: "dict_ok d \<Longrightarrow> v \<in> set (dict_values d) \<longleftrightarrow> (\<exists>k. dict_get d k = Some v)"
  by (metis dict_values_get dict_get_Some_values)

definition all_entries :: "('k \<Rightarrow> 'v \<Rightarrow> bool) \<Rightarrow> ('k, 'v) dict \<Rightarrow> bool" where
  "all_entries P d = (\<forall>k x. dict_get d k = Some x \<longrightarrow> P k x)"

definition unique_entries :: "('v \<Rightarrow> 'v \<Rightarrow> bool) \<Rightarrow> ('k, 'v) dict \<Rightarrow> bool" where
  "unique_entries R d = (\<forall>i j x y. dict_get d i = Some x \<and> dict_get d j = Some y \<and> R x y \<longrightarrow> i = j)"

lemma all_entriesD: "all_entries P d \<Longrightarrow> dict_get d k = Some x \<Longrightarrow> P k x"
  by (simp add: all_entries_def)

lemma all_entries_put: "all_entries P d \<Longrightarrow> P k x \<Longrightarrow> all_entries P (dict_put k x d)"
  by (simp add: all_entries_def dict_get_put)

lemma all_entries_delete: "all_entries P d \<Longrightarrow> all_entries P (AList.delete k d)"
  by (simp add: all_entries_def dict_get_delete)

lemma all_entries_mono: "all_entries P d \<Longrightarrow> (\<And>k x. P k x \<Longrightarrow> Q k x) \<Longrightarrow> all_entries Q d"
  by (simp add: all_entries_def)

lemma unique_entriesD: "unique_entries R d \<Longrightarrow> dict_get d i = Some x \<Longrightarrow> dict_get d j = Some y \<Longrightarrow> R x y \<Longrightarrow> i = j"
  unfolding unique_entries_def by blast

lemma unique_entries_put:
  assumes "unique_entries R d" "\<And>j y. dict_get d j = Some y \<Longrightarrow> R x y \<or> R y x \<Longrightarrow> j = k"
  shows "unique_entries R (dict_put k x d)"
  using assms unfolding unique_entries_def dict_get_put by (metis option.inject)

lemma unique_entries_delete: "unique_entries R d \<Longrightarrow> unique_entries R (AList.delete k d)"
  unfolding unique_entries_def dict_get_delete by (metis option.distinct(1))

section \<open>Integrity\<close>

definition organizations_ok :: "control_plane \<Rightarrow> bool" where
  "organizations_ok s =
     (dict_ok (tp_organizations s) \<and> all_entries (\<lambda>i x. og_organization_id x = i) (tp_organizations s)
      \<and> unique_entries (\<lambda>x y. og_slug x = og_slug y) (tp_organizations s))"

definition projects_ok :: "control_plane \<Rightarrow> bool" where
  "projects_ok s =
     (dict_ok (tp_projects s)
      \<and> all_entries (\<lambda>k x. k = (pj_organization_id x, pj_project_id x)
            \<and> dict_get (tp_organizations s) (pj_organization_id x) \<noteq> None) (tp_projects s)
      \<and> unique_entries (\<lambda>x y. pj_organization_id x = pj_organization_id y \<and> pj_slug x = pj_slug y) (tp_projects s))"

definition memberships_ok :: "control_plane \<Rightarrow> bool" where
  "memberships_ok s =
     (dict_ok (tp_memberships s)
      \<and> all_entries (\<lambda>k x. k = (mb_organization_id x, mb_actor_id x)
            \<and> dict_get (tp_organizations s) (mb_organization_id x) \<noteq> None) (tp_memberships s))"

definition hex_id :: "string \<Rightarrow> bool" where
  "hex_id i = (\<exists>h. list_all is_lower_hex h \<and> i = role_id h)"

definition assignment_ok :: "control_plane \<Rightarrow> string \<Rightarrow> role_assignment \<Rightarrow> bool" where
  "assignment_ok s i x =
     (ra_assignment_id x = i \<and> dict_get (tp_memberships s) (ra_organization_id x, ra_actor_id x) \<noteq> None
      \<and> (\<forall>p. ra_project_id x = Some p \<longrightarrow> dict_get (tp_projects s) (ra_organization_id x, p) \<noteq> None)
      \<and> (ra_role x = ORGANIZATION_ADMIN \<longrightarrow> hex_id i))"

definition assignments_ok :: "control_plane \<Rightarrow> bool" where
  "assignments_ok s =
     (dict_ok (tp_assignments s) \<and> all_entries (assignment_ok s) (tp_assignments s) \<and> unique_entries same_grant (tp_assignments s))"

definition control_plane_ok :: "control_plane \<Rightarrow> bool" where
  "control_plane_ok s = (organizations_ok s \<and> projects_ok s \<and> memberships_ok s \<and> assignments_ok s)"

text \<open>An active member with the administrator role for the whole organization.\<close>

definition administers :: "control_plane \<Rightarrow> string \<Rightarrow> role_assignment \<Rightarrow> bool" where
  "administers s org x =
     (ra_organization_id x = org \<and> ra_role x = ORGANIZATION_ADMIN \<and> ra_project_id x = None
      \<and> (\<exists>m. dict_get (tp_memberships s) (org, ra_actor_id x) = Some m \<and> mb_status m = MBS_ACTIVE))"

definition has_administrator :: "control_plane \<Rightarrow> string \<Rightarrow> bool" where
  "has_administrator s org = (\<exists>i x. dict_get (tp_assignments s) i = Some x \<and> administers s org x)"

inductive control_move :: "control_plane \<Rightarrow> control_plane \<Rightarrow> bool" where
  audited: "control_move s (save_authorization_audit a s)"
| organization_created: "repo_create_organization x s = (Inr y, t) \<Longrightarrow> control_move s t"
| organization_updated: "repo_update_organization x s = (Inr y, t) \<Longrightarrow> control_move s t"
| project_created: "repo_create_project x s = (Inr y, t) \<Longrightarrow> control_move s t"
| project_updated: "repo_update_project x s = (Inr y, t) \<Longrightarrow> control_move s t"
| member_added: "repo_create_membership x s = (Inr y, t) \<Longrightarrow> control_move s t"
| member_activated: "repo_update_membership x s = (Inr y, t) \<Longrightarrow> mb_status x = MBS_ACTIVE \<Longrightarrow> control_move s t"
| member_changed: "change_membership now org actor status s = (Inr y, t) \<Longrightarrow> control_move s t"
| role_assigned: "create_assignment x s = (Inr y, t) \<Longrightarrow> hex_id (ra_assignment_id x)
    \<Longrightarrow> dict_get (tp_assignments s) (ra_assignment_id x) = None \<Longrightarrow> control_move s t"
| role_provisioned: "create_assignment x s = (Inr y, t) \<Longrightarrow> \<not> hex_id (ra_assignment_id x)
    \<Longrightarrow> ra_role x \<noteq> ORGANIZATION_ADMIN \<Longrightarrow> control_move s t"
| role_withdrawn: "withdraw_assignment org i s = (Inr y, t) \<Longrightarrow> control_move s t"
| role_dropped: "delete_assignment org i s = (Inr y, t) \<Longrightarrow> ra_role y \<noteq> ORGANIZATION_ADMIN \<Longrightarrow> control_move s t"

text \<open>What each section writes.\<close>

lemma organization_writes:
  "repo_create_organization x s = (Inr y, t) \<longleftrightarrow> y = x \<and> t = put_organization x s
     \<and> dict_get (tp_organizations s) (og_organization_id x) = None \<and> (\<forall>z \<in> set (dict_values (tp_organizations s)). og_slug z \<noteq> og_slug x)"
  "repo_update_organization x s = (Inr y, t) \<longleftrightarrow> y = x \<and> t = put_organization x s
     \<and> dict_get (tp_organizations s) (og_organization_id x) \<noteq> None
     \<and> (\<forall>z \<in> set (dict_values (tp_organizations s)). og_slug z = og_slug x \<longrightarrow> og_organization_id z = og_organization_id x)"
  by (auto simp: repo_create_organization_def repo_update_organization_def get_organization_def list_ex_iff split: if_splits option.splits)

lemma project_writes:
  "repo_create_project x s = (Inr y, t) \<longleftrightarrow> y = x \<and> t = put_project x s \<and> dict_get (tp_organizations s) (pj_organization_id x) \<noteq> None
     \<and> dict_get (tp_projects s) (pj_organization_id x, pj_project_id x) = None
     \<and> (\<forall>z \<in> set (dict_values (tp_projects s)). pj_organization_id z = pj_organization_id x \<longrightarrow> pj_slug z \<noteq> pj_slug x)"
  "repo_update_project x s = (Inr y, t) \<longleftrightarrow> y = x \<and> t = put_project x s
     \<and> dict_get (tp_projects s) (pj_organization_id x, pj_project_id x) \<noteq> None
     \<and> (\<forall>z \<in> set (dict_values (tp_projects s)). pj_organization_id z = pj_organization_id x \<and> pj_slug z = pj_slug x
           \<longrightarrow> pj_project_id z = pj_project_id x)"
  by (auto simp: repo_create_project_def repo_update_project_def get_organization_def get_project_def list_ex_iff
      split: if_splits option.splits)

lemma membership_writes:
  "repo_create_membership x s = (Inr y, t) \<longleftrightarrow> y = x \<and> t = put_membership x s
     \<and> dict_get (tp_organizations s) (mb_organization_id x) \<noteq> None
     \<and> dict_get (tp_memberships s) (mb_organization_id x, mb_actor_id x) = None"
  "repo_update_membership x s = (Inr y, t) \<longleftrightarrow> y = x \<and> t = put_membership x s
     \<and> dict_get (tp_memberships s) (mb_organization_id x, mb_actor_id x) \<noteq> None"
  by (auto simp: repo_create_membership_def repo_update_membership_def get_organization_def get_membership_def
      split: if_splits option.splits)

lemma assignment_writes:
  "create_assignment x s = (Inr y, t) \<longleftrightarrow> y = x \<and> t = put_assignment x s
     \<and> dict_get (tp_memberships s) (ra_organization_id x, ra_actor_id x) \<noteq> None
     \<and> (\<forall>p. ra_project_id x = Some p \<longrightarrow> dict_get (tp_projects s) (ra_organization_id x, p) \<noteq> None)
     \<and> (\<forall>z \<in> set (dict_values (tp_assignments s)). \<not> same_grant x z)"
  "delete_assignment org i s = (Inr y, t) \<longleftrightarrow> t = s\<lparr>tp_assignments := AList.delete i (tp_assignments s)\<rparr>
     \<and> dict_get (tp_assignments s) i = Some y \<and> ra_organization_id y = org"
  by (auto simp: create_assignment_def delete_assignment_def get_membership_def get_project_def get_assignment_def list_ex_iff
      split: if_splits option.splits sum.splits)

text \<open>A write keeps the store whole when what it refers to exists and what must be unique is.\<close>

lemma control_plane_okD:
  assumes "control_plane_ok s"
  shows "dict_get (tp_organizations s) i = Some x \<Longrightarrow> og_organization_id x = i"
    and "dict_get (tp_projects s) k = Some p \<Longrightarrow> k = (pj_organization_id p, pj_project_id p) \<and> dict_get (tp_organizations s) (pj_organization_id p) \<noteq> None"
    and "dict_get (tp_memberships s) k = Some m \<Longrightarrow> k = (mb_organization_id m, mb_actor_id m) \<and> dict_get (tp_organizations s) (mb_organization_id m) \<noteq> None"
    and "dict_get (tp_assignments s) i = Some a \<Longrightarrow> assignment_ok s i a"
    and "dict_ok (tp_assignments s)"
  using assms
  by (auto simp: control_plane_ok_def organizations_ok_def projects_ok_def memberships_ok_def assignments_ok_def dest: all_entriesD)

lemma put_organization_ok:
  assumes "control_plane_ok s"
    and "\<forall>z \<in> set (dict_values (tp_organizations s)). og_slug z = og_slug x \<longrightarrow> og_organization_id z = og_organization_id x"
  shows "control_plane_ok (put_organization x s)"
proof -
  have "j = og_organization_id x" if "dict_get (tp_organizations s) j = Some y" "og_slug x = og_slug y \<or> og_slug y = og_slug x" for j y
    using that assms(2) control_plane_okD(1) [OF assms(1) that(1)] dict_get_Some_values [OF that(1)] by metis
  with assms(1) show ?thesis
    unfolding control_plane_ok_def organizations_ok_def projects_ok_def memberships_ok_def assignments_ok_def
    by (simp add: put_organization_def assignment_ok_def [abs_def] all_entries_put unique_entries_put)
      (auto simp: dict_get_put elim!: all_entries_mono)
qed

lemma put_project_ok:
  assumes "control_plane_ok s" "dict_get (tp_organizations s) (pj_organization_id x) \<noteq> None"
    and "\<forall>z \<in> set (dict_values (tp_projects s)). pj_organization_id z = pj_organization_id x \<and> pj_slug z = pj_slug x
           \<longrightarrow> pj_project_id z = pj_project_id x"
  shows "control_plane_ok (put_project x s)"
proof -
  have "j = (pj_organization_id x, pj_project_id x)"
    if "dict_get (tp_projects s) j = Some y" "pj_organization_id y = pj_organization_id x" "pj_slug y = pj_slug x" for j y
    using that assms(3) control_plane_okD(2) [OF assms(1) that(1)] dict_get_Some_values [OF that(1)] by metis
  then have "unique_entries (\<lambda>x y. pj_organization_id x = pj_organization_id y \<and> pj_slug x = pj_slug y) (tp_projects (put_project x s))"
    using assms(1) by (auto simp: put_project_def control_plane_ok_def projects_ok_def intro!: unique_entries_put)
  moreover have "all_entries (assignment_ok (put_project x s)) (tp_assignments s)"
    using assms(1) unfolding control_plane_ok_def assignments_ok_def
    by (auto simp: assignment_ok_def put_project_def dict_get_put elim!: all_entries_mono)
  ultimately show ?thesis
    using assms(1,2) unfolding control_plane_ok_def organizations_ok_def projects_ok_def memberships_ok_def assignments_ok_def
    by (simp add: put_project_def all_entries_put)
qed

lemma put_membership_ok:
  assumes "control_plane_ok s" "dict_get (tp_organizations s) (mb_organization_id x) \<noteq> None"
  shows "control_plane_ok (put_membership x s)"
proof -
  have "all_entries (assignment_ok (put_membership x s)) (tp_assignments s)"
    using assms(1) unfolding control_plane_ok_def assignments_ok_def
    by (auto simp: assignment_ok_def put_membership_def dict_get_put elim!: all_entries_mono)
  then show ?thesis
    using assms unfolding control_plane_ok_def organizations_ok_def projects_ok_def memberships_ok_def assignments_ok_def
    by (simp add: put_membership_def all_entries_put)
qed

lemma same_grant_sym: "same_grant x y \<longleftrightarrow> same_grant y x"
  by (auto simp: same_grant_def)

lemma put_assignment_ok:
  assumes "control_plane_ok s" "assignment_ok s (ra_assignment_id x) x"
    and "\<forall>z \<in> set (dict_values (tp_assignments s)). \<not> same_grant x z"
  shows "control_plane_ok (put_assignment x s)"
proof -
  have "unique_entries same_grant (tp_assignments (put_assignment x s))"
    using assms(1,3) same_grant_sym dict_get_Some_values unfolding put_assignment_def
    by (fastforce simp: control_plane_ok_def assignments_ok_def intro!: unique_entries_put)
  moreover have "assignment_ok (put_assignment x s) = assignment_ok s"
    by (intro ext) (simp add: assignment_ok_def put_assignment_def)
  ultimately show ?thesis
    using assms(1,2) unfolding control_plane_ok_def organizations_ok_def projects_ok_def memberships_ok_def assignments_ok_def
    by (simp add: put_assignment_def all_entries_put)
qed

lemma delete_assignment_ok:
  assumes "control_plane_ok s"
  shows "control_plane_ok (s\<lparr>tp_assignments := AList.delete i (tp_assignments s)\<rparr>)" (is "control_plane_ok ?t")
proof -
  have "assignment_ok ?t = assignment_ok s" by (intro ext) (simp add: assignment_ok_def)
  then show ?thesis
    using assms unfolding control_plane_ok_def organizations_ok_def projects_ok_def memberships_ok_def assignments_ok_def
    by (simp add: all_entries_delete unique_entries_delete)
qed

text \<open>The sections that hold the lock.\<close>

lemma active_admins_in:
  assumes "active_admins s org actor excluded xs = Inr as" "a \<in> set as"
  shows "\<exists>x \<in> set xs. ra_actor_id x = a \<and> a \<noteq> actor \<and> Some (ra_assignment_id x) \<noteq> excluded
    \<and> ra_role x = ORGANIZATION_ADMIN \<and> ra_project_id x = None
    \<and> (\<exists>m. dict_get (tp_memberships s) (org, a) = Some m \<and> mb_status m = MBS_ACTIVE)"
  using assms
  by (induction xs arbitrary: as)
    (force simp: res_bind_Inr_iff get_membership_def split: if_splits option.splits)+

lemma protect_last_admin_Inr:
  assumes "control_plane_ok s" "protect_last_admin s org actor excluded = Inr u"
  obtains i x where "dict_get (tp_assignments s) i = Some x" "administers s org x" "ra_actor_id x \<noteq> actor" "Some i \<noteq> excluded"
proof -
  from assms(2) obtain as where as: "active_admins s org actor excluded (list_assignments s org None None) = Inr as" "as \<noteq> []"
    by (auto simp: protect_last_admin_def res_bind_Inr_iff split: if_splits)
  then obtain a where "a \<in> set as" by (cases as) auto
  from active_admins_in [OF as(1) this] obtain x where x: "x \<in> set (list_assignments s org None None)"
    "ra_actor_id x \<noteq> actor" "Some (ra_assignment_id x) \<noteq> excluded" "ra_role x = ORGANIZATION_ADMIN" "ra_project_id x = None"
    "\<exists>m. dict_get (tp_memberships s) (org, ra_actor_id x) = Some m \<and> mb_status m = MBS_ACTIVE" by auto
  from x(1) have "ra_organization_id x = org" "x \<in> set (dict_values (tp_assignments s))" by (auto simp: list_assignments_def)
  moreover note control_plane_okD(5) [OF assms(1)]
  ultimately obtain i where i: "dict_get (tp_assignments s) i = Some x" using dict_values_get by metis
  with control_plane_okD(4) [OF assms(1)] have "ra_assignment_id x = i" by (simp add: assignment_ok_def)
  with i x \<open>ra_organization_id x = org\<close> that [of i x] show ?thesis by (auto simp: administers_def)
qed

lemma change_membership_Inr:
  assumes "change_membership now org actor status s = (Inr y, t)"
  shows "\<exists>m. dict_get (tp_memberships s) (org, actor) = Some m \<and> repo_update_membership (m\<lparr>mb_status := status, mb_updated_at := now\<rparr>) s = (Inr y, t)"
    and "status \<noteq> MBS_ACTIVE \<Longrightarrow> protect_last_admin s org actor None = Inr ()"
  using assms by (auto simp: change_membership_def get_membership_def split: option.splits sum.splits if_splits)

lemma withdraw_assignment_Inr:
  assumes "withdraw_assignment org i s = (Inr y, t)"
  shows "delete_assignment org i s = (Inr y, t)"
    and "ra_role y = ORGANIZATION_ADMIN \<Longrightarrow> ra_project_id y = None \<Longrightarrow> protect_last_admin s org (ra_actor_id y) (Some i) = Inr ()"
  using assms by (auto simp: withdraw_assignment_def get_assignment_def delete_assignment_def split: option.splits sum.splits if_splits)

lemma control_move_ok:
  assumes "control_plane_ok s" "control_move s t"
  shows "control_plane_ok t"
  using assms(2,1)
proof (cases rule: control_move.cases)
  case (audited a)
  with assms(1) show ?thesis
    by (simp add: control_plane_ok_def organizations_ok_def projects_ok_def memberships_ok_def assignments_ok_def
        assignment_ok_def [abs_def] save_authorization_audit_def)
next
  case (organization_created x y)
  then show ?thesis using assms(1) by (auto simp: organization_writes intro: put_organization_ok)
next
  case (organization_updated x y)
  then show ?thesis using assms(1) by (auto simp: organization_writes intro: put_organization_ok)
next
  case (project_created x y)
  then show ?thesis using assms(1) by (auto simp: project_writes intro!: put_project_ok)
next
  case (project_updated x y)
  then have "dict_get (tp_organizations s) (pj_organization_id x) \<noteq> None"
    using control_plane_okD(2) [OF assms(1)] by (force simp: project_writes)
  with project_updated show ?thesis using assms(1) by (auto simp: project_writes intro!: put_project_ok)
next
  case (member_added x y)
  then show ?thesis using assms(1) by (auto simp: membership_writes intro!: put_membership_ok)
next
  case (member_activated x y)
  then have "dict_get (tp_organizations s) (mb_organization_id x) \<noteq> None"
    using control_plane_okD(3) [OF assms(1)] by (force simp: membership_writes)
  with member_activated show ?thesis using assms(1) by (auto simp: membership_writes intro!: put_membership_ok)
next
  case (member_changed now org actor status y)
  then obtain m where "repo_update_membership (m\<lparr>mb_status := status, mb_updated_at := now\<rparr>) s = (Inr y, t)"
    using change_membership_Inr(1) by blast
  then have "dict_get (tp_organizations s) (mb_organization_id m) \<noteq> None" "t = put_membership (m\<lparr>mb_status := status, mb_updated_at := now\<rparr>) s"
    using control_plane_okD(3) [OF assms(1)] by (force simp: membership_writes)+
  then show ?thesis using assms(1) by (auto intro!: put_membership_ok)
next
  case (role_assigned x y)
  then show ?thesis using assms(1) by (auto simp: assignment_writes assignment_ok_def intro!: put_assignment_ok)
next
  case (role_provisioned x y)
  then show ?thesis using assms(1) by (auto simp: assignment_writes assignment_ok_def intro!: put_assignment_ok)
next
  case (role_withdrawn org i y)
  then show ?thesis using assms(1) withdraw_assignment_Inr(1) by (force simp: assignment_writes intro: delete_assignment_ok)
next
  case (role_dropped org i y)
  then show ?thesis using assms(1) by (auto simp: assignment_writes intro: delete_assignment_ok)
qed

section \<open>Administrators\<close>

text \<open>An assignment that administers goes on doing so while it stays and its member is active.\<close>

lemma has_administratorI: "dict_get (tp_assignments s) i = Some x \<Longrightarrow> administers s org x \<Longrightarrow> has_administrator s org"
  unfolding has_administrator_def by blast

lemma has_administratorE:
  assumes "has_administrator s org"
  obtains i x where "dict_get (tp_assignments s) i = Some x" "administers s org x"
  using assms unfolding has_administrator_def by blast

lemma administers_put_membership:
  assumes "administers s org x" "mb_status m = MBS_ACTIVE \<or> (mb_organization_id m, mb_actor_id m) \<noteq> (org, ra_actor_id x)"
  shows "administers (put_membership m s) org x"
  using assms by (auto simp: administers_def put_membership_def dict_get_put)

lemma change_membership_administrator:
  assumes "control_plane_ok s" "change_membership now o' actor status s = (Inr y, t)" "has_administrator s org"
  shows "has_administrator t org"
proof -
  from change_membership_Inr(1) [OF assms(2)] obtain m where m: "dict_get (tp_memberships s) (o', actor) = Some m"
    "t = put_membership (m\<lparr>mb_status := status, mb_updated_at := now\<rparr>) s" by (auto simp: membership_writes)
  from control_plane_okD(3) [OF assms(1) m(1)] have key: "mb_organization_id m = o'" "mb_actor_id m = actor" by auto
  obtain i x where "dict_get (tp_assignments s) i = Some x" "administers s org x" "status = MBS_ACTIVE \<or> (o', actor) \<noteq> (org, ra_actor_id x)"
  proof (cases "status = MBS_ACTIVE \<or> org \<noteq> o'")
    case True
    with assms(3) that show ?thesis by (auto elim!: has_administratorE)
  next
    case False
    with change_membership_Inr(2) [OF assms(2)] have "protect_last_admin s o' actor None = Inr ()" by simp
    from protect_last_admin_Inr [OF assms(1) this] obtain i x where "dict_get (tp_assignments s) i = Some x"
      "administers s o' x" "ra_actor_id x \<noteq> actor" by blast
    with False that show ?thesis by auto
  qed
  then show ?thesis
    unfolding m(2) using key
    by (intro has_administratorI [of _ i x] administers_put_membership) (auto simp: put_membership_def)
qed

lemma delete_administrator:
  assumes "delete_assignment o' i s = (Inr y, t)" "dict_get (tp_assignments s) j = Some x" "administers s org x" "j \<noteq> i"
  shows "has_administrator t org"
  using assms by (intro has_administratorI [of _ j x]) (auto simp: assignment_writes administers_def dict_get_delete)

lemma withdraw_administrator:
  assumes "control_plane_ok s" "withdraw_assignment o' i s = (Inr y, t)" "has_administrator s org"
  shows "has_administrator t org"
proof -
  note del = withdraw_assignment_Inr(1) [OF assms(2)]
  then have y: "dict_get (tp_assignments s) i = Some y" "ra_organization_id y = o'" by (auto simp: assignment_writes)
  from assms(3) obtain j x where x: "dict_get (tp_assignments s) j = Some x" "administers s org x" by (rule has_administratorE)
  show ?thesis
  proof (cases "j = i")
    case False
    with del x show ?thesis by (rule delete_administrator)
  next
    case True
    with x y have "ra_role y = ORGANIZATION_ADMIN" "ra_project_id y = None" "org = o'" by (auto simp: administers_def)
    then have "protect_last_admin s org (ra_actor_id y) (Some i) = Inr ()" using withdraw_assignment_Inr(2) [OF assms(2)] by simp
    from protect_last_admin_Inr [OF assms(1) this] obtain k z where
      "dict_get (tp_assignments s) k = Some z" "administers s org z" "k \<noteq> i" by blast
    with del show ?thesis by (rule delete_administrator)
  qed
qed

lemma create_assignment_administrator:
  assumes "create_assignment a s = (Inr y, t)" "has_administrator s org"
    and "\<And>x. dict_get (tp_assignments s) (ra_assignment_id a) = Some x \<Longrightarrow> ra_role x \<noteq> ORGANIZATION_ADMIN"
  shows "has_administrator t org"
proof -
  from assms(2) obtain j x where "dict_get (tp_assignments s) j = Some x" "administers s org x" by (rule has_administratorE)
  moreover with assms(3) have "j \<noteq> ra_assignment_id a" by (auto simp: administers_def)
  ultimately show ?thesis using assms(1)
    by (intro has_administratorI [of _ j x]) (auto simp: assignment_writes administers_def put_assignment_def dict_get_put)
qed

lemma administers_cong:
  "tp_memberships t = tp_memberships s \<Longrightarrow> tp_assignments t = tp_assignments s \<Longrightarrow> has_administrator t org = has_administrator s org"
  by (simp add: has_administrator_def administers_def)

lemma control_move_administrator:
  assumes "control_plane_ok s" "control_move s t" "has_administrator s org"
  shows "has_administrator t org"
  using assms(2)
proof (cases rule: control_move.cases)
  case (audited a)
  with assms(3) administers_cong [of t s] show ?thesis by (simp add: save_authorization_audit_def)
next
  case (organization_created x y)
  with assms(3) administers_cong [of t s] show ?thesis by (simp add: organization_writes put_organization_def)
next
  case (organization_updated x y)
  with assms(3) administers_cong [of t s] show ?thesis by (simp add: organization_writes put_organization_def)
next
  case (project_created x y)
  with assms(3) administers_cong [of t s] show ?thesis by (simp add: project_writes put_project_def)
next
  case (project_updated x y)
  with assms(3) administers_cong [of t s] show ?thesis by (simp add: project_writes put_project_def)
next
  case (member_added x y)
  with assms(3) show ?thesis
    by (auto simp: membership_writes administers_def put_membership_def dict_get_put elim!: has_administratorE intro!: has_administratorI)
next
  case (member_activated x y)
  from assms(3) obtain i z where "dict_get (tp_assignments s) i = Some z" "administers s org z" by (rule has_administratorE)
  with member_activated show ?thesis
    by (intro has_administratorI [of _ i z]) (auto simp: membership_writes put_membership_def [of x] intro: administers_put_membership [of s org z x, unfolded put_membership_def])
next
  case (member_changed now o' actor status y)
  with assms(1,3) show ?thesis by (blast intro: change_membership_administrator)
next
  case (role_assigned x y)
  with assms(3) show ?thesis by (auto intro: create_assignment_administrator)
next
  case (role_provisioned x y)
  show ?thesis
    by (rule create_assignment_administrator [OF role_provisioned(1) assms(3)])
      (use role_provisioned(2) control_plane_okD(4) [OF assms(1)] in \<open>auto simp: assignment_ok_def\<close>)
next
  case (role_withdrawn o' i y)
  with assms(1,3) show ?thesis by (blast intro: withdraw_administrator)
next
  case (role_dropped o' i y)
  from assms(3) obtain j x where x: "dict_get (tp_assignments s) j = Some x" "administers s org x" by (rule has_administratorE)
  moreover from x role_dropped have "j \<noteq> i" by (auto simp: assignment_writes administers_def)
  ultimately show ?thesis using role_dropped(1) by (rule delete_administrator [rotated])
qed

text \<open>The control plane as a store that only evolves: an organization once administered stays so.\<close>

interpretation administration: evolving_store control_move
  "\<lambda>s org. if has_administrator s org then Some () else None" "\<lambda>_ _. True" control_plane_ok
  by unfold_locales (auto intro: control_move_ok control_move_administrator split: if_splits)

section \<open>Commands\<close>

definition tenancy_move :: "tenancy \<Rightarrow> tenancy \<Rightarrow> bool" where
  "tenancy_move s t = (ty_repository t = ty_repository s \<or> control_move (ty_repository s) (ty_repository t))"

text \<open>A section either fails and writes nothing or is one move.\<close>

definition critical :: "(control_plane, 'a) action \<Rightarrow> control_plane \<Rightarrow> bool" where
  "critical m s = (\<forall>r t. m s = (r, t) \<longrightarrow> t = s \<or> (\<exists>y. r = Inr y \<and> control_move s t))"

lemma section_within: "critical m s \<Longrightarrow> act_within control_move m s"
  by (auto simp: critical_def act_within_def)

lemma section_on_repository: "critical m (ty_repository s) \<Longrightarrow> act_within tenancy_move (on_repository m) s"
  by (intro act_within_step) (auto simp: critical_def tenancy_move_def act_on_def Let_def split: prod.splits)

lemma failed_writes:
  "repo_create_organization x s = (Inl e, t) \<Longrightarrow> t = s" "repo_update_organization x s = (Inl e, t) \<Longrightarrow> t = s"
  "repo_create_project p s = (Inl e, t) \<Longrightarrow> t = s" "repo_update_project p s = (Inl e, t) \<Longrightarrow> t = s"
  "repo_create_membership m s = (Inl e, t) \<Longrightarrow> t = s" "repo_update_membership m s = (Inl e, t) \<Longrightarrow> t = s"
  "create_assignment a s = (Inl e, t) \<Longrightarrow> t = s" "delete_assignment org i s = (Inl e, t) \<Longrightarrow> t = s"
  by (auto simp: repo_create_organization_def repo_update_organization_def repo_create_project_def repo_update_project_def
      repo_create_membership_def repo_update_membership_def create_assignment_def delete_assignment_def
      split: if_splits sum.splits)

lemma failed_sections:
  "change_membership now org actor status s = (Inl e, t) \<Longrightarrow> t = s" "withdraw_assignment org i s = (Inl e, t) \<Longrightarrow> t = s"
  by (auto simp: change_membership_def withdraw_assignment_def split: sum.splits if_splits dest: failed_writes)

lemma sections:
  "critical (repo_create_organization x) s" "critical (repo_update_organization x) s" "critical (repo_create_project p) s"
  "critical (repo_update_project p) s" "critical (repo_create_membership m) s"
  "critical (change_membership now org actor status) s" "critical (withdraw_assignment org i) s"
  unfolding critical_def
  by (metis sum.exhaust failed_writes failed_sections control_move.intros)+

lemma role_section:
  assumes "hex_id (ra_assignment_id x)" "dict_get (tp_assignments s) (ra_assignment_id x) = None"
  shows "critical (create_assignment x) s"
  unfolding critical_def using assms by (metis sum.exhaust failed_writes(7) role_assigned)

lemma provision_section:
  assumes "\<not> hex_id (ra_assignment_id x)" "ra_role x \<noteq> ORGANIZATION_ADMIN"
  shows "critical (create_assignment x) s"
  unfolding critical_def using assms by (metis sum.exhaust failed_writes(7) role_provisioned)

lemma activation_section: "mb_status x = MBS_ACTIVE \<Longrightarrow> critical (repo_update_membership x) s"
  unfolding critical_def by (metis sum.exhaust failed_writes(6) member_activated)

lemma permission_check_within: "act_within tenancy_move (authorize_permission now cx p resource) s"
  by (intro act_within_step)
    (auto simp: authorize_permission_def Let_def record_decision_def tenancy_move_def intro: control_move.audited)

lemma require_within: "act_within tenancy_move (require_permission now cx p) s"
  unfolding require_permission_def
  by (intro act_within_bind permission_check_within) (auto intro: within_intros)

text \<open>The authorization of a command leaves the tenants as they are.\<close>

definition same_tenants :: "control_plane \<Rightarrow> control_plane \<Rightarrow> bool" where
  "same_tenants s t =
     (tp_organizations t = tp_organizations s \<and> tp_projects t = tp_projects s \<and> tp_memberships t = tp_memberships s
      \<and> tp_assignments t = tp_assignments s)"

lemma same_tenants_simps [simp]: "same_tenants s s" "same_tenants s (save_authorization_audit a s)"
  by (simp_all add: same_tenants_def save_authorization_audit_def)

lemma authorize_tenants: "same_tenants (ty_repository s) (ty_repository (record_decision now cx d resource s))"
  "ty_extensions (record_decision now cx d resource s) = ty_extensions s"
  by (simp_all add: same_tenants_def record_decision_def Let_def save_authorization_audit_def)

lemma require_Inr:
  assumes "require_permission now cx p s = (r, t)"
  shows "same_tenants (ty_repository s) (ty_repository t)" "ty_extensions t = ty_extensions s"
    "r = Inr u \<Longrightarrow> aw_allowed (judge (ty_repository s) (ty_extensions s) cx p None)"
    "\<not> aw_allowed (judge (ty_repository s) (ty_extensions s) cx p None)
      \<Longrightarrow> r = Inl (Exc AuthorizationDenied ''Actor is not authorized for this operation'')"
  using assms authorize_tenants
  by (auto simp: require_permission_def authorize_permission_def Let_def act_bind_def split: if_splits)

definition fresh_id :: "command_fresh \<Rightarrow> tenancy \<Rightarrow> bool" where
  "fresh_id f s =
     (list_all is_lower_hex (tf_hex f) \<and> dict_get (tp_assignments (ty_repository s)) (role_id (tf_hex f)) = None)"

lemma hex_role_id: "list_all is_lower_hex h \<Longrightarrow> hex_id (role_id h)"
  by (auto simp: hex_id_def)

lemma provisioned_id_shape: "\<not> hex_id (provisioned_id prefix role actor)" "\<not> hex_id (''role_walkthrough_'' @ rest)"
  by (auto simp: hex_id_def provisioned_id_def role_id_def is_lower_hex_def)

text \<open>Each command is a sequence of moves, whatever it returns.\<close>

lemma on_repository_assignments:
  "on_repository (repo_create_organization x) s = (r, t) \<Longrightarrow> tp_assignments (ty_repository t) = tp_assignments (ty_repository s)"
  "on_repository (repo_create_membership m) s = (r', t) \<Longrightarrow> tp_assignments (ty_repository t) = tp_assignments (ty_repository s)"
  by (auto simp: act_on_def Let_def repo_create_organization_def repo_create_membership_def put_organization_def
      put_membership_def split: prod.splits if_splits sum.splits)

lemma create_organization_within:
  assumes "fresh_id f s"
  shows "act_within tenancy_move (create_organization f i name slug actor label) s"
  unfolding create_organization_def
proof (intro act_within_bind_lift act_within_bind section_on_repository sections act_within_return, goal_cases)
  case (1 _ _ _ t _ u)
  then have "tp_assignments (ty_repository u) = tp_assignments (ty_repository s)" using on_repository_assignments by metis
  with assms show ?case by (intro role_section) (simp_all add: fresh_id_def hex_role_id)
qed

lemma service_within:
  "act_within tenancy_move (update_organization f cx name slug status) s"
  "act_within tenancy_move (service_create_project f cx i name' slug' description) s"
  "act_within tenancy_move (service_update_project f cx i name slug description pstatus) s"
  "act_within tenancy_move (add_membership f cx actor label) s"
  "act_within tenancy_move (update_membership f cx actor mstatus) s"
  "act_within tenancy_move (remove_assignment f cx i) s"
  unfolding update_organization_def service_create_project_def service_update_project_def add_membership_def
    update_membership_def remove_assignment_def
  by (intro act_within_bind require_within act_within_read act_within_lift act_within_if act_within_raise section_on_repository sections)+

lemma assign_role_within:
  assumes "fresh_id f s"
  shows "act_within tenancy_move (assign_role f cx actor role project) s"
  unfolding assign_role_def
proof (intro act_within_bind require_within section_on_repository, goal_cases)
  case (1 u t)
  from require_Inr(1) [OF 1] have "tp_assignments (ty_repository t) = tp_assignments (ty_repository s)" by (simp add: same_tenants_def)
  with assms show ?case by (intro role_section) (simp_all add: fresh_id_def hex_role_id)
qed

lemma activate_member_within: "act_within control_move (activate_member now org actor label) s"
proof (rule act_within_step)
  fix r t
  assume run: "activate_member now org actor label s = (r, t)"
  show "control_move s t \<or> t = s"
  proof (cases "get_membership s org actor")
    case (Inl e)
    with run show ?thesis by (auto simp: activate_member_def act_bind_def split: prod.splits sum.splits dest: failed_writes intro: member_added)
  next
    case (Inr m)
    with run show ?thesis
      by (auto simp: activate_member_def act_bind_def split: prod.splits sum.splits if_splits dest: failed_writes intro: member_activated)
  qed
qed

lemma grant_role_within:
  assumes "role \<noteq> ORGANIZATION_ADMIN"
  shows "act_within control_move (grant_role now org project actor prefix role) s"
proof (rule act_within_step)
  fix r t
  let ?a = "\<lparr>ra_assignment_id = provisioned_id prefix role actor, ra_organization_id = org, ra_project_id = project,
    ra_actor_id = actor, ra_role = role, ra_created_at = now, ra_created_by = actor\<rparr>"
  have crit: "critical (create_assignment ?a) s"
    by (rule provision_section) (simp_all add: provisioned_id_shape assms)
  assume "grant_role now org project actor prefix role s = (r, t)"
  then have "t = s \<or> (\<exists>q. create_assignment ?a s = (q, t))"
    by (auto simp: grant_role_def split: if_splits prod.splits sum.splits)
  with crit show "control_move s t \<or> t = s" unfolding critical_def by blast
qed

lemma provision_within:
  assumes "role \<noteq> ORGANIZATION_ADMIN"
  shows "act_within control_move (provision_service_account now org project actor label prefix role) s"
  unfolding provision_service_account_def
  by (intro act_within_if act_within_return act_within_bind activate_member_within grant_role_within assms)

lemma drop_move:
  assumes "get_assignment s org i = Inr x" "ra_role x \<noteq> ORGANIZATION_ADMIN" "delete_assignment org i s = (q, t)"
  shows "control_move s t"
proof -
  have "fst (delete_assignment org i s) = Inr x" by (simp add: delete_assignment_def assms(1))
  with assms(3) have "delete_assignment org i s = (Inr x, t)" by simp
  then show ?thesis using assms(2) by (rule control_move.role_dropped)
qed

lemma delete_all_within:
  assumes "\<forall>x \<in> set xs. \<forall>y. dict_get (tp_assignments s) (ra_assignment_id x) = Some y \<longrightarrow> ra_role y \<noteq> ORGANIZATION_ADMIN"
  shows "act_within control_move (delete_all org xs) s"
  using assms
proof (induction xs arbitrary: s)
  case Nil
  show ?case by (simp add: act_within_def)
next
  case (Cons x xs)
  have "act_within control_move (delete_assignment org (ra_assignment_id x)) s"
  proof (rule act_within_step)
    fix r t
    assume run: "delete_assignment org (ra_assignment_id x) s = (r, t)"
    show "control_move s t \<or> t = s"
    proof (cases r)
      case (Inl e)
      with run failed_writes(8) show ?thesis by blast
    next
      case (Inr y)
      with run Cons.prems have "ra_role y \<noteq> ORGANIZATION_ADMIN" by (simp add: assignment_writes)
      with run Inr show ?thesis by (blast intro: role_dropped)
    qed
  qed
  moreover have "act_within control_move (delete_all org xs) t" if "delete_assignment org (ra_assignment_id x) s = (Inr y, t)" for y t
    using Cons.prems that by (intro Cons.IH) (auto simp: assignment_writes dict_get_delete)
  ultimately show ?case by (simp add: act_within_bind)
qed

lemma listed_assignment:
  assumes "control_plane_ok s" "x \<in> set (list_assignments s org actor project)"
  shows "dict_get (tp_assignments s) (ra_assignment_id x) = Some x"
proof -
  from assms(2) have "x \<in> set (dict_values (tp_assignments s))" by (simp add: list_assignments_def)
  then obtain i where "dict_get (tp_assignments s) i = Some x" using dict_values_get control_plane_okD(5) [OF assms(1)] by metis
  with control_plane_okD(4) [OF assms(1)] show ?thesis by (fastforce simp: assignment_ok_def)
qed

lemma act_within_ok: "act_within control_move m s \<Longrightarrow> control_plane_ok s \<Longrightarrow> m s = (r, t) \<Longrightarrow> control_plane_ok t"
  by (rule administration.inv_run [OF act_withinD])

lemma walkthrough_within:
  assumes "control_plane_ok s"
  shows "act_within control_move (provision_walkthrough_service_account now variable org actor) s"
  unfolding provision_walkthrough_service_account_def Let_def
proof (intro act_within_bind provision_within, goal_cases)
  case (2 u t)
  let ?i = "''role_walkthrough_'' @ without_hyphens (the (configured_actor actor variable))"
  obtain q w where del: "delete_assignment org ?i t = (q, w)" by fastforce
  show ?case
  proof (cases "get_assignment t org ?i")
    case (Inl e)
    then show ?thesis by (simp add: act_within_def)
  next
    case (Inr x)
    with del have "act_within control_move (act_bind (delete_assignment org ?i) (\<lambda>_. act_return ())) t" if "ra_role x = PLATFORM_OPERATOR"
      using that drop_move [OF Inr _ del] by (intro act_within_bind act_within_return act_within_step) auto
    with Inr show ?thesis by (auto simp: act_within_def split: if_splits)
  qed
qed simp

lemma external_runtime_within:
  assumes "control_plane_ok s"
  shows "act_within control_move (provision_external_runtime_service_account now variable org project actor test) s"
  unfolding provision_external_runtime_service_account_def Let_def
proof (intro act_within_bind provision_within, goal_cases)
  case (2 u t)
  from act_within_ok [OF provision_within assms 2] have ok: "control_plane_ok t" by (auto split: if_splits)
  let ?xs = "filter (\<lambda>x. ra_project_id x = Some project \<and> ra_role x \<in> {EXTERNAL_RUNTIME_OPERATOR, EXTERNAL_RUNTIME_TEST_OPERATOR}
    \<and> ra_role x \<noteq> (if test then EXTERNAL_RUNTIME_TEST_OPERATOR else EXTERNAL_RUNTIME_OPERATOR))
    (list_assignments t org (configured_actor actor variable) None)"
  have "act_within control_move (delete_all org ?xs) t"
    by (rule delete_all_within) (auto dest: listed_assignment [OF ok])
  then show ?case by (auto simp: act_within_def)
qed simp

lemma tenancy_moves: "tenancy_move\<^sup>*\<^sup>* s t \<Longrightarrow> control_move\<^sup>*\<^sup>* (ty_repository s) (ty_repository t)"
  by (induction rule: rtranclp_induct) (auto simp: tenancy_move_def intro: rtranclp.rtrancl_into_rtrancl)

lemma bootstrap_moves:
  assumes "bootstrap_control_plane getenv extensions f g q s = (r, t)" "fresh_id f (fresh_service extensions s)"
  shows "control_move\<^sup>*\<^sup>* s t"
proof -
  have within: "act_within tenancy_move (act_bind (create_organization f i n sl a label) (\<lambda>_.
      act_bind (service_create_project g cx p pn psl d) (\<lambda>_. act_return ()))) (fresh_service extensions s)" for i n sl a label cx p pn psl d
    by (intro act_within_bind create_organization_within service_within act_within_return assms(2))
  have "control_move\<^sup>*\<^sup>* s (ty_repository v)"
    if "act_bind (create_organization f i n sl a label) (\<lambda>_. act_bind (service_create_project g cx p pn psl d) (\<lambda>_. act_return ()))
      (fresh_service extensions s) = (r', v)" for i n sl a label cx p pn psl d r' v
    using tenancy_moves [OF act_withinD [OF within that]] by (simp add: fresh_service_def)
  then show ?thesis
    using assms(1) by (auto simp: bootstrap_control_plane_def Let_def split: sum.splits prod.splits)
qed

text \<open>Everything that changes the control plane.\<close>

inductive tenancy_command :: "tenancy \<Rightarrow> tenancy \<Rightarrow> bool" where
  authorized: "authorize_permission now cx p resource s = (r, t) \<Longrightarrow> tenancy_command s t"
| organization_new: "create_organization f i name slug actor label s = (r, t) \<Longrightarrow> fresh_id f s \<Longrightarrow> tenancy_command s t"
| organization_changed: "update_organization f cx oname oslug ostatus s = (r, t) \<Longrightarrow> tenancy_command s t"
| project_new: "service_create_project f cx i name slug description s = (r, t) \<Longrightarrow> tenancy_command s t"
| project_changed: "service_update_project f cx i oname oslug description pstatus s = (r, t) \<Longrightarrow> tenancy_command s t"
| member_new: "add_membership f cx actor label s = (r, t) \<Longrightarrow> tenancy_command s t"
| member_update: "update_membership f cx actor mstatus s = (r, t) \<Longrightarrow> tenancy_command s t"
| role_new: "assign_role f cx actor role project s = (r, t) \<Longrightarrow> fresh_id f s \<Longrightarrow> tenancy_command s t"
| role_removed: "remove_assignment f cx i s = (r, t) \<Longrightarrow> tenancy_command s t"
| mcp: "on_repository (provision_mcp_service_account now variable i account) s = (r, t) \<Longrightarrow> tenancy_command s t"
| walkthrough: "on_repository (provision_walkthrough_service_account now variable i account) s = (r, t) \<Longrightarrow> tenancy_command s t"
| external_runtime: "on_repository (provision_external_runtime_service_account now variable i name account test) s = (r, t)
    \<Longrightarrow> tenancy_command s t"
| validator: "on_repository (provision_causal_audit_validator_service_account now variable i name account) s = (r, t)
    \<Longrightarrow> tenancy_command s t"
| bootstrap: "on_repository (bootstrap_control_plane getenv (ty_extensions s) f g q) s = (r, t) \<Longrightarrow> fresh_id f s \<Longrightarrow> tenancy_command s t"
| extension: "register_extension_permissions names (ty_extensions s) = (r, extensions) \<Longrightarrow> tenancy_command s (s\<lparr>ty_extensions := extensions\<rparr>)"

lemma on_repository_moves:
  assumes "act_within control_move m (ty_repository s)" "on_repository m s = (r, t)"
  shows "control_move\<^sup>*\<^sup>* (ty_repository s) (ty_repository t)"
  using assms by (auto simp: act_on_def Let_def act_within_def split: prod.splits)

lemma tenancy_command_moves:
  assumes "control_plane_ok (ty_repository s)" "tenancy_command s t"
  shows "control_move\<^sup>*\<^sup>* (ty_repository s) (ty_repository t)"
  using assms(2)
proof (cases rule: tenancy_command.cases)
  case (mcp now variable i account r)
  then show ?thesis by (intro on_repository_moves) (auto simp: provision_mcp_service_account_def intro!: provision_within)
next
  case (walkthrough now variable i account r)
  with assms(1) show ?thesis by (blast intro: on_repository_moves walkthrough_within)
next
  case (external_runtime now variable i name account test r)
  with assms(1) show ?thesis by (blast intro: on_repository_moves external_runtime_within)
next
  case (validator now variable i name account r)
  then show ?thesis
    by (intro on_repository_moves) (auto simp: provision_causal_audit_validator_service_account_def intro!: provision_within)
next
  case (bootstrap getenv f g q r)
  have "fresh_service (ty_extensions s) (ty_repository s) = s\<lparr>ty_audit_records := [], ty_decision_metrics := []\<rparr>"
    by (simp add: fresh_service_def)
  with bootstrap(2) have "fresh_id f (fresh_service (ty_extensions s) (ty_repository s))" by (simp add: fresh_id_def)
  with bootstrap(1) show ?thesis by (auto simp: act_on_def Let_def split: prod.splits dest: bootstrap_moves)
qed (auto intro: tenancy_moves act_withinD permission_check_within create_organization_within assign_role_within service_within)

lemma on_repository_Inr:
  assumes "on_repository m s = (Inr x, t)"
  shows "m (ty_repository s) = (Inr x, ty_repository t)"
  using assms by (auto simp: act_on_def Let_def split: prod.splits)

lemma created_organization_administered:
  assumes "create_organization f i name slug actor label s = (Inr x, t)"
  shows "has_administrator (ty_repository t) i"
proof -
  from assms obtain u v m a where member: "on_repository (repo_create_membership
      \<lparr>mb_organization_id = i, mb_actor_id = actor, mb_status = MBS_ACTIVE, mb_created_at = tf_now f,
       mb_updated_at = tf_now f, mb_display_name = label\<rparr>) u = (Inr m, v)"
    and role: "on_repository (create_assignment
      \<lparr>ra_assignment_id = role_id (tf_hex f), ra_organization_id = i, ra_project_id = None, ra_actor_id = actor,
       ra_role = ORGANIZATION_ADMIN, ra_created_at = tf_now f, ra_created_by = actor\<rparr>) v = (Inr a, t)"
    unfolding create_organization_def by (auto elim!: act_bind_InrE split: sum.splits)
  from on_repository_Inr [OF member] have active: "\<exists>z. dict_get (tp_memberships (ty_repository v)) (i, actor) = Some z \<and> mb_status z = MBS_ACTIVE"
    by (auto simp: membership_writes put_membership_def dict_get_put)
  with on_repository_Inr [OF role] show ?thesis
    by (intro has_administratorI [of _ "role_id (tf_hex f)" a]) (auto simp: assignment_writes put_assignment_def dict_get_put administers_def)
qed

lemma commands_moves:
  assumes "tenancy_command\<^sup>*\<^sup>* s t" "control_plane_ok (ty_repository s)"
  shows "control_move\<^sup>*\<^sup>* (ty_repository s) (ty_repository t)"
  using assms
proof (induction rule: rtranclp_induct)
  case base
  show ?case by simp
next
  case (step t u)
  then have "control_plane_ok (ty_repository t)" by (blast intro: administration.inv_run)
  from tenancy_command_moves [OF this step(2)] step(3,4) show ?case by auto
qed

lemma empty_control_plane_ok: "control_plane_ok empty_control_plane"
  by (simp add: control_plane_ok_def organizations_ok_def projects_ok_def memberships_ok_def assignments_ok_def
      empty_control_plane_def all_entries_def unique_entries_def)

text \<open>
  C23. An organization is never left without an administrator: from its creation on, whatever commands of
  the control plane, service-account provisioning and bootstraps follow and whoever calls them, there
  is an active member who holds the administrator role for the whole organization. The integrity of
  the store is kept as well: slugs are unique and every assignment names an existing member and project.
\<close>

theorem organization_keeps_administrator:
  assumes "tenancy_command\<^sup>*\<^sup>* (fresh_service extensions empty_control_plane) s"
    and "create_organization f i name slug actor label s = (Inr x, t)" "fresh_id f s"
    and "tenancy_command\<^sup>*\<^sup>* t u"
  shows "has_administrator (ty_repository u) i \<and> control_plane_ok (ty_repository u)"
proof -
  have "control_plane_ok (ty_repository (fresh_service extensions empty_control_plane))"
    by (simp add: fresh_service_def empty_control_plane_ok)
  with assms(1) have s: "control_plane_ok (ty_repository s)" by (blast intro: administration.inv_run dest: commands_moves)
  with organization_new [OF assms(2,3)] have t: "control_plane_ok (ty_repository t)"
    by (blast intro: administration.inv_run dest: tenancy_command_moves)
  note run = commands_moves [OF assms(4) t]
  from administration.lookup_run [OF run t, of i "()"] created_organization_administered [OF assms(2)]
  have "has_administrator (ty_repository u) i" by (auto split: if_splits)
  with administration.inv_run [OF run t] show ?thesis by simp
qed

end
