(* ===== verification/Tenancy_Authorization.thy ===== *)
theory Tenancy_Authorization
  imports Tenancy_Properties
begin

text \<open>
  What the control plane permits. The answer of the authorization service equals the permission model
  on the stored entries; a command changes the organization of its own context only, and only when
  the actor is permitted to; and two gaps: a project administrator can become administrator of the
  organization, and provisioning an account twice takes a role away.
\<close>

section \<open>The permission model\<close>

text \<open>What the permission model says, on the stored entries.\<close>

definition granting :: "control_plane \<Rightarrow> string list \<Rightarrow> tenant_context \<Rightarrow> permission_name \<Rightarrow> built_in_role \<Rightarrow> bool" where
  "granting s extensions cx p role =
     (name_text p \<in> set (role_permissions extensions role)
      \<and> (\<exists>i x. dict_get (tp_assignments s) i = Some x \<and> ra_organization_id x = cx_organization_id cx
          \<and> ra_actor_id x = cx_actor_id cx \<and> ra_project_id x \<in> {None, cx_project_id cx} \<and> ra_role x = role))"

definition permitted :: "control_plane \<Rightarrow> string list \<Rightarrow> tenant_context \<Rightarrow> permission_name \<Rightarrow> bool" where
  "permitted s extensions cx p =
     ((\<exists>org. dict_get (tp_organizations s) (cx_organization_id cx) = Some org
          \<and> (og_status org = OGS_ARCHIVED \<longrightarrow> p = Member PM_ORGANIZATION_READ)
          \<and> (og_status org = OGS_SUSPENDED \<longrightarrow> named suspended_permissions p))
      \<and> (\<exists>m. dict_get (tp_memberships s) (cx_organization_id cx, cx_actor_id cx) = Some m \<and> mb_status m = MBS_ACTIVE)
      \<and> (\<forall>i. cx_project_id cx = Some i \<and> i \<noteq> [] \<longrightarrow>
           (\<exists>j. dict_get (tp_projects s) (cx_organization_id cx, i) = Some j \<and> pj_status j = PJS_ACTIVE))
      \<and> (\<exists>role. granting s extensions cx p role))"

lemma judge_roles_granting:
  assumes "control_plane_ok s"
  shows "aw_allowed (judge_roles s extensions cx p) \<longleftrightarrow> (\<exists>role. granting s extensions cx p role)"
    and "aw_allowed (judge_roles s extensions cx p) \<Longrightarrow> set (aw_matched_roles (judge_roles s extensions cx p)) = {role. granting s extensions cx p role}"
proof -
  let ?listed = "list_assignments s (cx_organization_id cx) (Some (cx_actor_id cx)) (cx_project_id cx)"
  let ?roles = "sort_key role_value (remdups (map ra_role (filter (scoped cx) ?listed)))"
  let ?matched = "filter (\<lambda>r. name_text p \<in> set (role_permissions extensions r)) ?roles"
  have "r \<in> set ?matched \<longleftrightarrow> granting s extensions cx p r" for r
    unfolding granting_def
    by (auto simp: list_assignments_def scoped_def dict_values_iff [OF control_plane_okD(5) [OF assms]])
  then have set: "set ?matched = {r. granting s extensions cx p r}" by blast
  have "?listed = [] \<Longrightarrow> ?matched = []" by simp
  with set show "aw_allowed (judge_roles s extensions cx p) \<longleftrightarrow> (\<exists>role. granting s extensions cx p role)"
    and "aw_allowed (judge_roles s extensions cx p) \<Longrightarrow> set (aw_matched_roles (judge_roles s extensions cx p)) = {role. granting s extensions cx p role}"
    unfolding judge_roles_def Let_def by (auto simp: answer_def set_empty [symmetric] simp del: set_empty set_filter set_sort split: if_splits)
qed

lemma judge_permitted:
  assumes "control_plane_ok s"
  shows "aw_allowed (judge s extensions cx p resource) \<longleftrightarrow> permitted s extensions cx p \<and> \<not> out_of_scope cx resource"
    and "aw_allowed (judge s extensions cx p resource) \<Longrightarrow> judge s extensions cx p resource = judge_roles s extensions cx p"
  unfolding judge_def Let_def permitted_def
  by (auto simp: get_organization_def get_membership_def get_project_def truthy_def answer_def judge_roles_granting [OF assms]
      split: option.splits if_splits)

text \<open>
  C22. The answer of the authorization service is the one of the permission model: it allows exactly what
  is permitted to an active member of an organization that is not suspended or archived for that
  permission, inside an active project, through a role held for the organization or for that project,
  on a resource of the scope; the matched roles are all roles that grant it. Nothing but the audit is
  written: every refusal and every permitted change of the control plane leaves a record, no other
  answer does.
\<close>

theorem authorize_specification:
  assumes "control_plane_ok (ty_repository s)"
  shows "\<exists>d t. authorize_permission now cx p resource s = (Inr d, t) \<and> aw_permission d = p
    \<and> (aw_allowed d \<longleftrightarrow> permitted (ty_repository s) (ty_extensions s) cx p \<and> \<not> out_of_scope cx resource)
    \<and> (aw_allowed d \<longrightarrow> set (aw_matched_roles d) = {role. granting (ty_repository s) (ty_extensions s) cx p role})
    \<and> same_tenants (ty_repository s) (ty_repository t)
    \<and> ty_audit_records t = ty_audit_records s
        @ (if aw_allowed d \<and> \<not> named security_writes p then [] else [audit_of now cx d resource])"
proof -
  let ?d = "judge (ty_repository s) (ty_extensions s) cx p resource"
  have "aw_permission ?d = p"
    by (simp add: judge_def judge_roles_def Let_def answer_def split: sum.splits option.splits)
  moreover note judge_permitted [OF assms, of "ty_extensions s" cx p resource] judge_roles_granting(2) [OF assms, of "ty_extensions s" cx p]
  ultimately show ?thesis
    unfolding authorize_permission_def Let_def by (auto simp: authorize_tenants record_decision_def Let_def)
qed

section \<open>Tenants\<close>

text \<open>All that is stored about one organization.\<close>

definition tenant_view :: "control_plane \<Rightarrow> string \<Rightarrow> organization option \<times> (string \<Rightarrow> project option) \<times> (string \<Rightarrow> membership option)
    \<times> (string \<Rightarrow> role_assignment option)" where
  "tenant_view s org =
     (dict_get (tp_organizations s) org, \<lambda>i. dict_get (tp_projects s) (org, i), \<lambda>a. dict_get (tp_memberships s) (org, a),
      \<lambda>i. case dict_get (tp_assignments s) i of None \<Rightarrow> None | Some x \<Rightarrow> if ra_organization_id x = org then Some x else None)"

lemma tenant_view_same: "same_tenants s t \<Longrightarrow> tenant_view t = tenant_view s"
  by (simp add: tenant_view_def same_tenants_def fun_eq_iff)

lemma control_plane_ok_same:
  assumes "same_tenants s t"
  shows "control_plane_ok t = control_plane_ok s"
proof -
  have "assignment_ok t = assignment_ok s" using assms by (intro ext) (simp add: assignment_ok_def same_tenants_def)
  with assms show ?thesis
    by (simp add: control_plane_ok_def organizations_ok_def projects_ok_def memberships_ok_def assignments_ok_def same_tenants_def)
qed

lemma tenant_view_put:
  "og_organization_id x \<noteq> org \<Longrightarrow> tenant_view (put_organization x s) org = tenant_view s org"
  "pj_organization_id p \<noteq> org \<Longrightarrow> tenant_view (put_project p s) org = tenant_view s org"
  "mb_organization_id m \<noteq> org \<Longrightarrow> tenant_view (put_membership m s) org = tenant_view s org"
  "ra_organization_id a \<noteq> org \<Longrightarrow> dict_get (tp_assignments s) (ra_assignment_id a) = None
    \<Longrightarrow> tenant_view (put_assignment a s) org = tenant_view s org"
  by (auto simp: tenant_view_def put_organization_def put_project_def put_membership_def put_assignment_def dict_get_put fun_eq_iff)

lemma tenant_view_delete:
  "delete_assignment o' i s = (r, t) \<Longrightarrow> o' \<noteq> org \<Longrightarrow> tenant_view t org = tenant_view s org"
  by (cases r) (auto simp: assignment_writes tenant_view_def dict_get_delete fun_eq_iff dest!: failed_writes(8))

text \<open>An action on the repository that touches no organization but one.\<close>

definition confined :: "string \<Rightarrow> (control_plane, 'a) action \<Rightarrow> control_plane \<Rightarrow> bool" where
  "confined org m s = (\<forall>r t o'. m s = (r, t) \<and> o' \<noteq> org \<longrightarrow> tenant_view t o' = tenant_view s o')"

lemma confined_writes:
  "og_organization_id x = org \<Longrightarrow> confined org (repo_update_organization x) s"
  "pj_organization_id p = org \<Longrightarrow> confined org (repo_create_project p) s"
  "pj_organization_id p = org \<Longrightarrow> confined org (repo_update_project p) s"
  "mb_organization_id m = org \<Longrightarrow> confined org (repo_create_membership m) s"
  "mb_organization_id m = org \<Longrightarrow> confined org (repo_update_membership m) s"
  "ra_organization_id a = org \<Longrightarrow> dict_get (tp_assignments s) (ra_assignment_id a) = None \<Longrightarrow> confined org (create_assignment a) s"
  "confined org (delete_assignment org i) s"
  unfolding confined_def
  by (metis failed_writes sum.exhaust organization_writes project_writes membership_writes assignment_writes(1) tenant_view_put
      tenant_view_delete)+

lemma confined_sections:
  "control_plane_ok s \<Longrightarrow> confined org (change_membership now org actor status) s" "confined org (withdraw_assignment org i) s"
proof -
  assume ok: "control_plane_ok s"
  show "confined org (change_membership now org actor status) s"
    unfolding confined_def
  proof (intro allI impI, elim conjE)
    fix r t o'
    assume run: "change_membership now org actor status s = (r, t)" and o': "o' \<noteq> org"
    show "tenant_view t o' = tenant_view s o'"
    proof (cases r)
      case (Inl e)
      with run failed_sections show ?thesis by blast
    next
      case (Inr y)
      with run change_membership_Inr(1) obtain m where m: "dict_get (tp_memberships s) (org, actor) = Some m"
        "repo_update_membership (m\<lparr>mb_status := status, mb_updated_at := now\<rparr>) s = (Inr y, t)" by blast
      from control_plane_okD(3) [OF ok m(1)] have "mb_organization_id m = org" by simp
      with m(2) o' show ?thesis by (auto simp: membership_writes tenant_view_put)
    qed
  qed
next
  show "confined org (withdraw_assignment org i) s"
    unfolding confined_def
    by (metis failed_sections(2) sum.exhaust withdraw_assignment_Inr(1) tenant_view_delete)
qed

text \<open>
  A command in a context: the permission is required, then one action confined to the organization of
  the context follows.
\<close>

definition guarded :: "tenant_context \<Rightarrow> permission \<Rightarrow> tenancy \<Rightarrow> tenancy \<Rightarrow> bool" where
  "guarded cx p s t =
     (\<forall>org. tenant_view (ty_repository t) org \<noteq> tenant_view (ty_repository s) org \<longrightarrow>
        org = cx_organization_id cx \<and> permitted (ty_repository s) (ty_extensions s) cx (Member p))"

lemma guardedI:
  assumes "control_plane_ok (ty_repository s)" "act_bind (require_permission now cx (Member p)) m s = (r, t)"
    and "\<And>u. same_tenants (ty_repository s) (ty_repository u) \<Longrightarrow> control_plane_ok (ty_repository u)
      \<Longrightarrow> m () u = (r, t) \<Longrightarrow> \<forall>o'. o' \<noteq> cx_organization_id cx \<longrightarrow> tenant_view (ty_repository t) o' = tenant_view (ty_repository u) o'"
  shows "guarded cx p s t"
proof -
  obtain q u where req: "require_permission now cx (Member p) s = (q, u)" by fastforce
  note same = require_Inr(1) [OF req]
  then have view: "tenant_view (ty_repository u) = tenant_view (ty_repository s)" by (rule tenant_view_same)
  show ?thesis
  proof (cases q)
    case (Inl e)
    with assms(2) req have "t = u" by simp
    with view show ?thesis by (simp add: guarded_def)
  next
    case (Inr v)
    then have "permitted (ty_repository s) (ty_extensions s) cx (Member p)"
      using require_Inr(3) [OF req] judge_permitted(1) [OF assms(1)] by simp
    moreover from Inr assms(2) req have "m () u = (r, t)" by simp
    ultimately show ?thesis
      using assms(3) [OF same] view assms(1) by (auto simp: guarded_def control_plane_ok_same [OF same])
  qed
qed

lemma confined_on_repository:
  "confined org m (ty_repository s) \<Longrightarrow> on_repository m s = (r, t) \<Longrightarrow> o' \<noteq> org
    \<Longrightarrow> tenant_view (ty_repository t) o' = tenant_view (ty_repository s) o'"
  by (auto simp: confined_def act_on_def Let_def split: prod.splits)

lemmas views_after =
  confined_on_repository [OF confined_writes(1) [OF refl]] confined_on_repository [OF confined_writes(2) [OF refl]]
  confined_on_repository [OF confined_writes(3) [OF refl]] confined_on_repository [OF confined_writes(4) [OF refl]]

text \<open>The commands that an actor gives in a context, each with the permission it requires.\<close>

inductive administration_command :: "tenant_context \<Rightarrow> permission \<Rightarrow> tenancy \<Rightarrow> tenancy \<Rightarrow> bool" for cx where
  "update_organization f cx name slug status s = (r, t) \<Longrightarrow> administration_command cx PM_ORGANIZATION_UPDATE s t"
| "service_create_project f cx i new_name new_slug description s = (r, t) \<Longrightarrow> administration_command cx PM_PROJECT_CREATE s t"
| "service_update_project f cx i name slug description pstatus s = (r, t)
    \<Longrightarrow> administration_command cx (if pstatus = Some PJS_ARCHIVED then PM_PROJECT_ARCHIVE else PM_PROJECT_UPDATE) s t"
| "add_membership f cx actor label s = (r, t) \<Longrightarrow> administration_command cx PM_MEMBERSHIP_MANAGE s t"
| "update_membership f cx actor mstatus s = (r, t) \<Longrightarrow> administration_command cx PM_MEMBERSHIP_MANAGE s t"
| "assign_role f cx actor role project s = (r, t) \<Longrightarrow> fresh_id f s \<Longrightarrow> administration_command cx PM_ROLE_ASSIGNMENT_MANAGE s t"
| "remove_assignment f cx i s = (r, t) \<Longrightarrow> administration_command cx PM_ROLE_ASSIGNMENT_MANAGE s t"

lemma new_entry_Inr: "new_organization x = Inr y \<Longrightarrow> y = x" "new_project p = Inr q \<Longrightarrow> q = p"
  by (auto simp: new_organization_def new_project_def res_bind_Inr_iff split: if_splits)

text \<open>
  C24. Nobody reaches into another organization or changes their own without permission: when a command
  given in a context changes anything that is stored about an organization, its projects, members or
  roles, it is the organization of the context, and the permission model permits the command to the
  actor at that moment.
\<close>

theorem control_plane_change_permitted:
  assumes "control_plane_ok (ty_repository s)" "administration_command cx p s t"
    and "tenant_view (ty_repository t) org \<noteq> tenant_view (ty_repository s) org"
  shows "org = cx_organization_id cx \<and> permitted (ty_repository s) (ty_extensions s) cx (Member p)"
proof -
  note views = confined_on_repository [of "cx_organization_id cx"]
  from assms(2) have "guarded cx p s t"
  proof (cases rule: administration_command.cases)
    case (1 f name slug status r)
    show ?thesis
      unfolding 1(1)
    proof (rule guardedI [OF assms(1) 1(2) [unfolded update_organization_def]], goal_cases)
      case (1 u)
      then show ?case
        by (auto split: sum.splits if_splits option.splits simp: get_organization_def dest!: new_entry_Inr control_plane_okD(1)
            dest: views_after(1))
    qed
  next
    case (2 f i new_name new_slug description r)
    show ?thesis
      unfolding 2(1)
      by (rule guardedI [OF assms(1) 2(2) [unfolded service_create_project_def]])
        (auto split: sum.splits dest!: new_entry_Inr dest: views_after(2))
  next
    case (3 f i name slug description pstatus r)
    show ?thesis
      unfolding 3(1)
    proof (rule guardedI [OF assms(1) 3(2) [unfolded service_update_project_def]], goal_cases)
      case (1 u)
      then show ?case
        by (auto split: sum.splits if_splits option.splits simp: get_project_def dest!: new_entry_Inr control_plane_okD(2)
            dest: views_after(3))
    qed
  next
    case (4 f actor label r)
    show ?thesis
      unfolding 4(1)
      by (rule guardedI [OF assms(1) 4(2) [unfolded add_membership_def]]) (auto dest: views_after(4))
  next
    case (5 f actor mstatus r)
    show ?thesis
      unfolding 5(1)
      by (rule guardedI [OF assms(1) 5(2) [unfolded update_membership_def]]) (auto intro!: views [OF confined_sections(1)])
  next
    case (6 f actor role project r)
    show ?thesis
      unfolding 6(1)
      by (rule guardedI [OF assms(1) 6(2) [unfolded assign_role_def]])
        (use 6(3) in \<open>auto simp: fresh_id_def same_tenants_def intro!: views [OF confined_writes(6)]\<close>)
  next
    case (7 f i r)
    show ?thesis
      unfolding 7(1)
      by (rule guardedI [OF assms(1) 7(2) [unfolded remove_assignment_def]]) (auto intro!: views [OF confined_sections(2)])
  qed
  with assms(3) show ?thesis by (simp add: guarded_def)
qed

section \<open>Where the control plane falls short\<close>

lemma all_permissions_complete: "q \<in> set all_permissions"
  by (cases q) (simp_all add: all_permissions_def)

lemma administrator_grants:
  assumes "dict_get (tp_assignments s) k = Some x" "ra_organization_id x = cx_organization_id cx" "ra_actor_id x = cx_actor_id cx"
    "ra_project_id x \<in> {None, cx_project_id cx}" "ra_role x = ORGANIZATION_ADMIN"
  shows "granting s extensions cx (Member q) ORGANIZATION_ADMIN"
proof -
  have "name_text (Member q) \<in> set (role_permissions extensions ORGANIZATION_ADMIN)"
    by (simp add: role_permissions_def all_permissions_complete)
  with assms show ?thesis unfolding granting_def by blast
qed

lemma require_permitted:
  assumes "control_plane_ok (ty_repository s)" "permitted (ty_repository s) (ty_extensions s) cx p"
  obtains u where "require_permission now cx p s = (Inr (), u)" "same_tenants (ty_repository s) (ty_repository u)"
    "ty_extensions u = ty_extensions s"
proof -
  from assms have "aw_allowed (judge (ty_repository s) (ty_extensions s) cx p None)"
    by (simp add: judge_permitted(1) out_of_scope_def)
  then have "fst (require_permission now cx p s) = Inr ()"
    by (simp add: require_permission_def authorize_permission_def Let_def act_bind_def)
  then have "require_permission now cx p s = (Inr (), snd (require_permission now cx p s))" by (metis prod.collapse)
  with require_Inr(1,2) [OF this] that show ?thesis by blast
qed

text \<open>
  The check of a permission looks at the project of the context, but the assignment of a role is not
  bound to it: whoever administers one project makes themselves administrator of the organization.
\<close>

theorem project_administrator_escalates:
  assumes ok: "control_plane_ok (ty_repository s)" and "fresh_id f s"
    and org: "dict_get (tp_organizations (ty_repository s)) (cx_organization_id cx) = Some org" "og_status org = OGS_ACTIVE"
    and member: "dict_get (tp_memberships (ty_repository s)) (cx_organization_id cx, cx_actor_id cx) = Some m" "mb_status m = MBS_ACTIVE"
    and project: "cx_project_id cx = Some i" "dict_get (tp_projects (ty_repository s)) (cx_organization_id cx, i) = Some j" "pj_status j = PJS_ACTIVE"
    and role: "dict_get (tp_assignments (ty_repository s)) k = Some x" "ra_organization_id x = cx_organization_id cx"
      "ra_actor_id x = cx_actor_id cx" "ra_project_id x = Some i" "ra_role x = ORGANIZATION_ADMIN"
    and only: "\<forall>k x. dict_get (tp_assignments (ty_repository s)) k = Some x \<and> ra_organization_id x = cx_organization_id cx
      \<and> ra_actor_id x = cx_actor_id cx \<longrightarrow> ra_project_id x \<noteq> None"
  shows "\<exists>y t. assign_role f cx (cx_actor_id cx) ORGANIZATION_ADMIN None s = (Inr y, t)
    \<and> \<not> permitted (ty_repository s) (ty_extensions s) (cx\<lparr>cx_project_id := None\<rparr>) (Member q)
    \<and> permitted (ty_repository t) (ty_extensions t) (cx\<lparr>cx_project_id := None\<rparr>) (Member q)"
proof -
  let ?a = "\<lparr>ra_assignment_id = role_id (tf_hex f), ra_organization_id = cx_organization_id cx, ra_project_id = None,
    ra_actor_id = cx_actor_id cx, ra_role = ORGANIZATION_ADMIN, ra_created_at = tf_now f, ra_created_by = cx_actor_id cx\<rparr>"
  have "granting (ty_repository s) (ty_extensions s) cx (Member PM_ROLE_ASSIGNMENT_MANAGE) ORGANIZATION_ADMIN"
    using role project(1) by (intro administrator_grants [of _ k x]) simp_all
  then have "permitted (ty_repository s) (ty_extensions s) cx (Member PM_ROLE_ASSIGNMENT_MANAGE)"
    unfolding permitted_def using org member project by auto
  from require_permitted [OF ok this] obtain u where u: "require_permission (tf_at f) cx (Member PM_ROLE_ASSIGNMENT_MANAGE) s = (Inr (), u)"
    "same_tenants (ty_repository s) (ty_repository u)" "ty_extensions u = ty_extensions s" by metis
  have "\<not> same_grant ?a z" if "z \<in> set (dict_values (tp_assignments (ty_repository s)))" for z
    using only that unfolding dict_values_iff [OF control_plane_okD(5) [OF ok]] by (auto simp: same_grant_def)
  with member u(2) have "create_assignment ?a (ty_repository u) = (Inr ?a, put_assignment ?a (ty_repository u))"
    by (simp add: assignment_writes same_tenants_def)
  then have run: "assign_role f cx (cx_actor_id cx) ORGANIZATION_ADMIN None s = (Inr ?a, u\<lparr>ty_repository := put_assignment ?a (ty_repository u)\<rparr>)"
    using u(1) by (simp add: assign_role_def act_on_apply)
  have "granting (put_assignment ?a (ty_repository u)) (ty_extensions u) (cx\<lparr>cx_project_id := None\<rparr>) (Member q) ORGANIZATION_ADMIN"
    by (rule administrator_grants [of _ "role_id (tf_hex f)" ?a]) (simp_all add: put_assignment_def dict_get_put)
  then have "permitted (put_assignment ?a (ty_repository u)) (ty_extensions u) (cx\<lparr>cx_project_id := None\<rparr>) (Member q)"
    unfolding permitted_def using org member u(2) by (auto simp: put_assignment_def same_tenants_def)
  moreover have "\<not> permitted (ty_repository s) (ty_extensions s) (cx\<lparr>cx_project_id := None\<rparr>) (Member q)"
    unfolding permitted_def granting_def using only by auto
  ultimately show ?thesis using run by auto
qed

text \<open>
  The identifier of a provisioned assignment does not name the organization, and an assignment is
  stored under its identifier alone: provisioning the same account in a second organization takes its
  role in the first one away.
\<close>

lemma no_assignment_without_member:
  assumes "control_plane_ok s" "dict_get (tp_memberships s) (org, actor) = None"
  shows "list_assignments s org (Some actor) project = []"
proof -
  have "x \<notin> set (list_assignments s org (Some actor) project)" for x
    using listed_assignment [OF assms(1), of x org "Some actor" project] control_plane_okD(4) [OF assms(1)] assms(2)
    by (fastforce simp: assignment_ok_def list_assignments_def)
  then show ?thesis by (metis last_in_set)
qed

lemma provisioned_new:
  assumes ok: "control_plane_ok s" and "dict_get (tp_organizations s) org \<noteq> None" "dict_get (tp_memberships s) (org, actor) = None" "actor \<noteq> []"
  shows "\<exists>a m. provision_mcp_service_account now variable org (Some actor) s = (Inr (), put_assignment a (put_membership m s))
    \<and> ra_assignment_id a = provisioned_id ''mcp'' PLATFORM_OPERATOR actor \<and> ra_organization_id a = org \<and> ra_actor_id a = actor
    \<and> mb_organization_id m = org \<and> mb_actor_id m = actor \<and> control_plane_ok (put_assignment a (put_membership m s))"
proof -
  let ?m = "\<lparr>mb_organization_id = org, mb_actor_id = actor, mb_status = MBS_ACTIVE, mb_created_at = now, mb_updated_at = now,
    mb_display_name = Some ''AI Governance Control Plane MCP service account''\<rparr>"
  let ?a = "\<lparr>ra_assignment_id = provisioned_id ''mcp'' PLATFORM_OPERATOR actor, ra_organization_id = org, ra_project_id = None,
    ra_actor_id = actor, ra_role = PLATFORM_OPERATOR, ra_created_at = now, ra_created_by = actor\<rparr>"
  let ?t = "put_membership ?m s"
  have none: "list_assignments s org (Some actor) None = []" by (rule no_assignment_without_member [OF assms(1,3)])
  then have same: "\<not> same_grant ?a z" if "z \<in> set (dict_values (tp_assignments s))" for z
    using that by (auto simp: list_assignments_def same_grant_def filter_empty_conv)
  have "activate_member now org actor ''AI Governance Control Plane MCP service account'' s = (Inr (), ?t)"
    using assms(2,3) by (auto simp: activate_member_def get_membership_def act_bind_def repo_create_membership_def get_organization_def)
  moreover have create: "create_assignment ?a ?t = (Inr ?a, put_assignment ?a ?t)"
    using same by (simp add: assignment_writes put_membership_def dict_get_put)
  moreover have "list_assignments ?t org (Some actor) None = []" using none by (simp add: list_assignments_def put_membership_def)
  ultimately have run: "provision_mcp_service_account now variable org (Some actor) s = (Inr (), put_assignment ?a ?t)"
    using assms(4) by (simp add: provision_mcp_service_account_def provision_service_account_def configured_actor_def truthy_def grant_role_def)
  have "act_within control_move (provision_mcp_service_account now variable org (Some actor)) s"
    by (simp add: provision_mcp_service_account_def provision_within)
  from act_within_ok [OF this ok run] run show ?thesis by (intro exI [of _ ?a] exI [of _ ?m]) simp
qed

theorem provisioning_takes_role_away:
  assumes "control_plane_ok s" "actor \<noteq> []" "first \<noteq> second"
    and "dict_get (tp_organizations s) first \<noteq> None" "dict_get (tp_memberships s) (first, actor) = None"
    and "dict_get (tp_organizations s) second \<noteq> None" "dict_get (tp_memberships s) (second, actor) = None"
  shows "\<exists>t u. provision_mcp_service_account now variable first (Some actor) s = (Inr (), t)
    \<and> provision_mcp_service_account now' variable second (Some actor) t = (Inr (), u)
    \<and> list_assignments t first (Some actor) None \<noteq> [] \<and> list_assignments u first (Some actor) None = []"
proof -
  from provisioned_new [OF assms(1,4,5,2)] obtain a m where a: "provision_mcp_service_account now variable first (Some actor) s
      = (Inr (), put_assignment a (put_membership m s))" "ra_assignment_id a = provisioned_id ''mcp'' PLATFORM_OPERATOR actor"
    "ra_organization_id a = first" "ra_actor_id a = actor" "mb_organization_id m = first" "mb_actor_id m = actor"
    "control_plane_ok (put_assignment a (put_membership m s))" by blast
  let ?t = "put_assignment a (put_membership m s)"
  from a(5,6) assms(3,6,7) have "dict_get (tp_organizations ?t) second \<noteq> None" "dict_get (tp_memberships ?t) (second, actor) = None"
    by (simp_all add: put_assignment_def put_membership_def dict_get_put)
  from provisioned_new [OF a(7) this assms(2)] obtain b n where b: "provision_mcp_service_account now' variable second (Some actor) ?t
      = (Inr (), put_assignment b (put_membership n ?t))" "ra_assignment_id b = provisioned_id ''mcp'' PLATFORM_OPERATOR actor"
    "ra_organization_id b = second" "control_plane_ok (put_assignment b (put_membership n ?t))" by blast
  let ?u = "put_assignment b (put_membership n ?t)"
  have "a \<in> set (dict_values (tp_assignments ?t))" by (simp add: put_assignment_def dict_values_put_in)
  with a(3,4) have "list_assignments ?t first (Some actor) None \<noteq> []" by (auto simp: list_assignments_def filter_empty_conv)
  moreover have "x \<notin> set (list_assignments ?u first (Some actor) None)" for x
  proof
    assume x: "x \<in> set (list_assignments ?u first (Some actor) None)"
    with b(3) assms(3) have org: "ra_organization_id x = first" "ra_actor_id x = actor" "x \<noteq> b" by (auto simp: list_assignments_def)
    from listed_assignment [OF b(4) x] have "dict_get (tp_assignments ?u) (ra_assignment_id x) = Some x" .
    with org a(2) b(2) have "dict_get (tp_assignments s) (ra_assignment_id x) = Some x"
      by (auto simp: put_assignment_def put_membership_def dict_get_put split: if_splits)
    from control_plane_okD(4) [OF assms(1) this] org assms(5) show False by (simp add: assignment_ok_def)
  qed
  then have "list_assignments ?u first (Some actor) None = []" by (metis last_in_set)
  ultimately show ?thesis using a(1) b(1) by blast
qed

end
