(* ===== verification/Tenancy_Replay.thy ===== *)
theory Tenancy_Replay
  imports Tenancy_Authorization Replay_Service
begin

text \<open>
  The control plane in front of the replay service, as the API wires it: every route of
  \<open>api/routers/replays.py\<close> depends on \<open>enforce_replay_permission\<close>
  (\<open>api/dependencies/authorization.py\<close>), which derives the permission from the method and the path and
  asks the control plane for it; the service itself is built without an authorization service
  (\<open>api/dependencies/replay.py\<close>), so its own checks do nothing. The mapping of results and errors to
  responses, the timeline of a replay and the validation of bodies by the framework are left out.
\<close>

section \<open>Routes\<close>

text \<open>\<open>ReplayCreateRequest\<close>.\<close>

record create_body =
  cb_source_execution_id :: string
  cb_mode :: string
  cb_configuration_source :: string
  cb_idempotency_key :: string
  cb_metadata :: "(string \<times> pyval) list"
  cb_reason :: "string option"
  cb_dry_run :: bool

datatype replay_route =
    RR_CREATE create_body | RR_LIST replay_filters | RR_GET string | RR_ARCHIVE string | RR_SUBMIT string bool | RR_CANCEL string bool
  | RR_EVALUATE string bool replay_evaluation_request | RR_RESULT string

datatype route_reply = RY_REPLAY replay | RY_REPLAYS "replay list" | RY_CONFIGURATION replay_configuration | RY_RESULT replay_result

text \<open>The methods and paths of the decorators, under the prefix of the router.\<close>

definition replays_prefix :: string where
  "replays_prefix = ''/api/v1/replays''"

fun route_method :: "replay_route \<Rightarrow> string" where
  "route_method (RR_LIST _) = ''GET''"
| "route_method (RR_GET _) = ''GET''"
| "route_method (RR_RESULT _) = ''GET''"
| "route_method _ = ''POST''"

fun route_path :: "replay_route \<Rightarrow> string" where
  "route_path (RR_CREATE _) = replays_prefix"
| "route_path (RR_LIST _) = replays_prefix"
| "route_path (RR_GET i) = replays_prefix @ ''/'' @ i"
| "route_path (RR_ARCHIVE i) = replays_prefix @ ''/'' @ i @ ''/archive''"
| "route_path (RR_SUBMIT i _) = replays_prefix @ ''/'' @ i @ ''/submit''"
| "route_path (RR_CANCEL i _) = replays_prefix @ ''/'' @ i @ ''/cancel''"
| "route_path (RR_EVALUATE i _ _) = replays_prefix @ ''/'' @ i @ ''/evaluate''"
| "route_path (RR_RESULT i) = replays_prefix @ ''/'' @ i @ ''/result''"

text \<open>A path parameter holds no slash.\<close>

fun route_id :: "replay_route \<Rightarrow> string" where
  "route_id (RR_CREATE _) = []"
| "route_id (RR_LIST _) = []"
| "route_id (RR_GET i) = i"
| "route_id (RR_ARCHIVE i) = i"
| "route_id (RR_SUBMIT i _) = i"
| "route_id (RR_CANCEL i _) = i"
| "route_id (RR_EVALUATE i _ _) = i"
| "route_id (RR_RESULT i) = i"

section \<open>The permission of a request\<close>

definition py_endswith :: "string \<Rightarrow> string \<Rightarrow> bool" where
  "py_endswith s p = py_startswith (rev s) (rev p)"

definition enforced_replay_permission :: "string \<Rightarrow> string \<Rightarrow> Tenancy.permission" where
  "enforced_replay_permission http_method path =
     (if py_endswith path ''/result'' then PM_REPLAY_RESULT_READ
      else if http_method \<in> {''GET'', ''HEAD'', ''OPTIONS''} then PM_REPLAY_READ
      else if py_endswith path ''/archive'' then PM_REPLAY_ARCHIVE
      else if py_endswith path ''/submit'' then PM_REPLAY_EXECUTE
      else if py_endswith path ''/cancel'' then PM_REPLAY_CANCEL
      else if py_endswith path ''/evaluate'' then PM_REPLAY_EVALUATE
      else PM_REPLAY_CREATE)"

section \<open>Serving a request\<close>

text \<open>The identifiers and clock readings a request may use.\<close>

record route_fresh =
  rf_create :: create_fresh
  rf_now :: datetime
  rf_submit :: "(datetime \<times> string) \<times> datetime"
  rf_cancel :: "datetime \<times> datetime \<times> datetime"
  rf_evaluate :: "(datetime \<times> string) \<times> datetime"

definition routed_service :: "replay_env \<Rightarrow> replay_env" where
  "routed_service env = env\<lparr>rv_require := None\<rparr>"

definition create_metadata :: "create_body \<Rightarrow> (string \<times> pyval) list" where
  "create_metadata b =
     (if truthy (cb_reason b) then dict_put ''reason'' (PStr (the (cb_reason b))) (cb_metadata b) else cb_metadata b)"

definition replied :: "('b \<Rightarrow> route_reply) \<Rightarrow> (replay_system, 'b) action \<Rightarrow> (replay_system, route_reply) action" where
  "replied reply m = act_bind m (\<lambda>x. act_return (reply x))"

definition route_handler :: "replay_env \<Rightarrow> route_fresh \<Rightarrow> replay_route \<Rightarrow> tenant_context \<Rightarrow> (replay_system, route_reply) action" where
  "route_handler env f r cx =
     (case r of
        RR_CREATE b \<Rightarrow>
          if cb_dry_run b
          then replied RY_CONFIGURATION (act_read (dry_run env (rf_now f) (cb_source_execution_id b) (cb_mode b) (cb_configuration_source b) cx))
          else replied RY_REPLAY (service_create_replay env
            \<lparr>cq_source_execution_id = cb_source_execution_id b, cq_idempotency_key = cb_idempotency_key b, cq_mode = cb_mode b,
             cq_configuration_source = cb_configuration_source b, cq_metadata = create_metadata b, cq_intervention = None\<rparr> cx (rf_create f))
      | RR_LIST filters \<Rightarrow> replied RY_REPLAYS (act_read (service_list_replays env cx (Some filters)))
      | RR_GET i \<Rightarrow> replied RY_REPLAY (act_read (service_get_replay env i cx))
      | RR_ARCHIVE i \<Rightarrow> replied RY_REPLAY (service_archive_replay env (rf_now f) i cx)
      | RR_SUBMIT i dry \<Rightarrow>
          if dry then replied RY_REPLAY (act_read (validate_submission env i cx)) else replied RY_REPLAY (submit_replay env i cx (rf_submit f))
      | RR_CANCEL i dry \<Rightarrow>
          if dry then replied RY_REPLAY (act_read (validate_cancellation env i cx)) else replied RY_REPLAY (cancel_replay env i cx (rf_cancel f))
      | RR_EVALUATE i dry q \<Rightarrow>
          if dry then replied RY_REPLAY (act_read (validate_evaluation env i q cx)) else replied RY_REPLAY (evaluate_replay env i q cx (rf_evaluate f))
      | RR_RESULT i \<Rightarrow> replied RY_RESULT (act_read (service_get_result env i cx)))"

definition serve_replay ::
  "datetime \<Rightarrow> replay_env \<Rightarrow> route_fresh \<Rightarrow> replay_route \<Rightarrow> tenant_context \<Rightarrow> (tenancy \<times> replay_system, route_reply) action" where
  "serve_replay now env f r cx z =
     (case z of (s, v) \<Rightarrow>
      case require_permission now cx (Member (enforced_replay_permission (route_method r) (route_path r))) s of
        (Inl e, s') \<Rightarrow> (Inl e, (s', v))
      | (Inr _, s') \<Rightarrow> (case route_handler (routed_service env) f r cx v of (x, v') \<Rightarrow> (x, (s', v'))))"

section \<open>The permission each route needs\<close>

fun needed_permission :: "replay_route \<Rightarrow> Tenancy.permission" where
  "needed_permission (RR_CREATE _) = PM_REPLAY_CREATE"
| "needed_permission (RR_LIST _) = PM_REPLAY_READ"
| "needed_permission (RR_GET i) = (if i = ''result'' then PM_REPLAY_RESULT_READ else PM_REPLAY_READ)"
| "needed_permission (RR_ARCHIVE _) = PM_REPLAY_ARCHIVE"
| "needed_permission (RR_SUBMIT _ _) = PM_REPLAY_EXECUTE"
| "needed_permission (RR_CANCEL _ _) = PM_REPLAY_CANCEL"
| "needed_permission (RR_EVALUATE _ _ _) = PM_REPLAY_EVALUATE"
| "needed_permission (RR_RESULT _) = PM_REPLAY_RESULT_READ"

lemma endswith_iff: "py_endswith s p \<longleftrightarrow> (\<exists>zs. s = zs @ p)"
proof -
  have "py_endswith s p \<longleftrightarrow> (\<exists>zs. rev s = rev p @ zs)"
    unfolding py_endswith_def py_startswith_def by (metis append_eq_conv_conj append_take_drop_id)
  also have "\<dots> \<longleftrightarrow> (\<exists>zs. s = rev zs @ p)" by (metis rev_append rev_rev_ident)
  finally show ?thesis by (metis rev_rev_ident)
qed

lemma endswith_segment:
  assumes "CHR ''/'' \<notin> set i" "CHR ''/'' \<notin> set w"
  shows "py_endswith (zs @ CHR ''/'' # i) (CHR ''/'' # w) \<longleftrightarrow> i = w"
proof
  assume "py_endswith (zs @ CHR ''/'' # i) (CHR ''/'' # w)"
  then obtain ys where "zs @ CHR ''/'' # i = ys @ CHR ''/'' # w" using endswith_iff by blast
  then have "takeWhile (\<lambda>c. c \<noteq> CHR ''/'') (rev (zs @ CHR ''/'' # i)) = takeWhile (\<lambda>c. c \<noteq> CHR ''/'') (rev (ys @ CHR ''/'' # w))" by simp
  moreover have "takeWhile (\<lambda>c. c \<noteq> CHR ''/'') (rev (zs @ CHR ''/'' # i)) = rev i" if "CHR ''/'' \<notin> set i" for zs i
    using takeWhile_append2 [of "rev i" "\<lambda>c. c \<noteq> CHR ''/''" "CHR ''/'' # rev zs"] that by auto
  ultimately show "i = w" using assms by (metis rev_rev_ident)
qed (auto simp: endswith_iff)

lemma last_segment:
  assumes "CHR ''/'' \<notin> set u" "CHR ''/'' \<notin> set w"
  shows "py_endswith (replays_prefix @ ''/'' @ i @ CHR ''/'' # u) (CHR ''/'' # w) \<longleftrightarrow> u = w"
  using endswith_segment [OF assms, of "replays_prefix @ ''/'' @ i"] by simp

lemma enforced_is_needed:
  assumes "CHR ''/'' \<notin> set (route_id r)"
  shows "enforced_replay_permission (route_method r) (route_path r) = needed_permission r"
proof -
  have list: "\<not> py_endswith replays_prefix p" if "p \<in> {''/result'', ''/archive'', ''/submit'', ''/cancel'', ''/evaluate''}" for p
    using that by (auto simp: replays_prefix_def py_endswith_def py_startswith_def)
  show ?thesis
  proof (cases r)
    case (RR_GET i)
    then show ?thesis
      using assms endswith_segment [of i "''result''" replays_prefix] by (simp add: enforced_replay_permission_def)
  qed (use list last_segment in \<open>simp_all add: enforced_replay_permission_def\<close>)
qed

text \<open>
  C25. A request to the replay API (every route of \<open>api/routers/replays.py\<close> but the audit timeline) is
  served exactly when the caller is permitted: a request to create, run, cancel, evaluate, archive, list or
  read replays or to read a result runs its handler when the caller is an active member of the active
  organization with a role that grants just the permission of that operation, for an active project if
  one is named; otherwise it is denied and leaves replays, jobs, results and executions as they were. A
  trial run needs what the run needs. The permission is taken from the last segment of the path, so reading
  a replay named \<open>result\<close> needs the permission to read results. In both cases the control plane changes
  at most in its audit. The control plane is one its commands can build, and the identifier in the path
  has no slash.
\<close>

theorem replay_routes_need_permission:
  assumes "control_plane_ok (ty_repository s)" "CHR ''/'' \<notin> set (route_id r)"
  shows "\<exists>t. same_tenants (ty_repository s) (ty_repository t) \<and> ty_extensions t = ty_extensions s
    \<and> serve_replay now env f r cx (s, v)
      = (if permitted (ty_repository s) (ty_extensions s) cx (Member (needed_permission r))
         then (case route_handler (routed_service env) f r cx v of (x, w) \<Rightarrow> (x, (t, w)))
         else (Inl (Exc AuthorizationDenied ''Actor is not authorized for this operation''), (t, v)))"
proof -
  obtain x t where run: "require_permission now cx (Member (needed_permission r)) s = (x, t)" by fastforce
  have allowed: "aw_allowed (judge (ty_repository s) (ty_extensions s) cx (Member (needed_permission r)) None)
      \<longleftrightarrow> permitted (ty_repository s) (ty_extensions s) cx (Member (needed_permission r))"
    using judge_permitted(1) [OF assms(1)] by (simp add: out_of_scope_def)
  have "x = Inr () \<longleftrightarrow> aw_allowed (judge (ty_repository s) (ty_extensions s) cx (Member (needed_permission r)) None)"
    using run by (auto simp: require_permission_def authorize_permission_def Let_def act_bind_def split: if_splits)
  then show ?thesis
    using run allowed require_Inr(1,2,4) [OF run]
    by (intro exI [of _ t]) (auto simp: serve_replay_def enforced_is_needed [OF assms(2)] split: sum.splits)
qed

lemma suspended_not_permitted:
  assumes "control_plane_ok (ty_repository s)" "update_membership f admin (cx_actor_id cx) status s = (Inr m, t)" "status \<noteq> MBS_ACTIVE"
    "cx_organization_id cx = cx_organization_id admin"
  shows "\<not> permitted (ty_repository t) extensions cx p" "control_plane_ok (ty_repository t)"
proof -
  from assms(2) obtain u where u: "require_permission (tf_at f) admin (Member PM_MEMBERSHIP_MANAGE) s = (Inr (), u)"
    "change_membership (tf_now f) (cx_organization_id admin) (cx_actor_id cx) status (ty_repository u) = (Inr m, ty_repository t)"
    unfolding update_membership_def by (auto elim!: act_bind_InrE dest!: on_repository_Inr)
  from control_plane_ok_same [OF require_Inr(1) [OF u(1)]] assms(1) have ok: "control_plane_ok (ty_repository u)" by simp
  from control_move_ok [OF this control_move.member_changed [OF u(2)]] show "control_plane_ok (ty_repository t)" .
  from change_membership_Inr(1) [OF u(2)] obtain z where z: "dict_get (tp_memberships (ty_repository u)) (cx_organization_id admin, cx_actor_id cx) = Some z"
    "ty_repository t = put_membership (z\<lparr>mb_status := status, mb_updated_at := tf_now f\<rparr>) (ty_repository u)"
    by (auto simp: membership_writes)
  with control_plane_okD(3) [OF ok z(1)] assms(3,4) show "\<not> permitted (ty_repository t) extensions cx p"
    by (auto simp: permitted_def put_membership_def dict_get_put)
qed

lemma denied_without_permission:
  assumes "control_plane_ok (ty_repository s)" "\<And>p. \<not> permitted (ty_repository s) (ty_extensions s) cx p"
  shows "\<exists>t e. serve_replay now env f r cx (s, v) = (Inl e, (t, v))"
proof -
  obtain x t where run: "require_permission now cx (Member (enforced_replay_permission (route_method r) (route_path r))) s = (x, t)" by fastforce
  have "\<not> aw_allowed (judge (ty_repository s) (ty_extensions s) cx (Member (enforced_replay_permission (route_method r) (route_path r))) None)"
    using judge_permitted(1) [OF assms(1)] assms(2) by simp
  from require_Inr(4) [OF run this] run show ?thesis by (simp add: serve_replay_def)
qed

text \<open>
  Suspending or removing a member takes effect at once and completely: no request of that actor in the
  organization reaches a replay from then on, in whatever project and through whatever role.
\<close>

theorem suspended_member_locked_out:
  assumes "control_plane_ok (ty_repository s)" "update_membership g admin (cx_actor_id cx) status s = (Inr m, t)" "status \<noteq> MBS_ACTIVE"
    and "cx_organization_id cx = cx_organization_id admin"
  shows "\<exists>u e. serve_replay now env f r cx (t, v) = (Inl e, (u, v))"
  using denied_without_permission [OF suspended_not_permitted(2,1) [OF assms]] .

end
