(* ===== verification/Witnesses_Tenancy.thy ===== *)
theory Witnesses_Tenancy
  imports Tenancy_Replay Witnesses_Replay_System
begin

text \<open>
  A tenant on which the properties of the control plane are applied: an organization with its
  administrator, a project, and a second member with the role of a governance administrator.
\<close>

definition admin_context :: tenant_context where
  "admin_context = \<lparr>cx_organization_id = ''acme'', cx_project_id = None, cx_actor_id = ''alice'', cx_request_id = ''r-1'', cx_correlation_id = None\<rparr>"

definition member_context :: tenant_context where
  "member_context = admin_context\<lparr>cx_actor_id := ''bob''\<rparr>"

definition fresh_role :: "string \<Rightarrow> command_fresh" where
  "fresh_role hex = \<lparr>tf_at = clock 1, tf_now = clock 2, tf_hex = hex\<rparr>"

definition tenancy0 :: tenancy where
  "tenancy0 = fresh_service [] empty_control_plane"

definition tenancy1 :: tenancy where
  "tenancy1 = snd (create_organization (fresh_role ''a1'') ''acme'' ''Acme'' ''acme'' ''alice'' None tenancy0)"

definition tenancy2 :: tenancy where
  "tenancy2 = snd (service_create_project (fresh_role ''a2'') admin_context ''claims'' ''Claims'' ''claims'' None tenancy1)"

definition tenancy3 :: tenancy where
  "tenancy3 = snd (add_membership (fresh_role ''a3'') admin_context ''bob'' None tenancy2)"

definition tenancy4 :: tenancy where
  "tenancy4 = snd (assign_role (fresh_role ''a4'') admin_context ''bob'' GOVERNANCE_ADMIN None tenancy3)"

lemma acme_created: "\<exists>x. create_organization (fresh_role ''a1'') ''acme'' ''Acme'' ''acme'' ''alice'' None tenancy0 = (Inr x, tenancy1)"
proof -
  have "\<not> isl (fst (create_organization (fresh_role ''a1'') ''acme'' ''Acme'' ''acme'' ''alice'' None tenancy0))" by code_simp
  then show ?thesis by (metis isl_def sum.exhaust prod.collapse tenancy1_def)
qed

lemma fresh_ids: "fresh_id (fresh_role ''a1'') tenancy0" "fresh_id (fresh_role ''a4'') tenancy3"
  by code_simp+

definition lone_suspension :: "(exc + membership) \<times> tenancy" where
  "lone_suspension = update_membership (fresh_role ''a2'') admin_context ''alice'' MBS_SUSPENDED tenancy1"

lemma last_administrator_kept: "fst lone_suspension = Inl (tenancy_error ''LastOrganizationAdministrator'' ''alice'')"
  by code_simp

theorem organization_keeps_administrator_witness:
  "has_administrator (ty_repository (snd lone_suspension)) ''acme'' \<and> control_plane_ok (ty_repository (snd lone_suspension))"
proof -
  have "tenancy_command\<^sup>*\<^sup>* tenancy1 (snd lone_suspension)"
    unfolding lone_suspension_def by (intro r_into_rtranclp) (rule tenancy_command.member_update [OF surjective_pairing])
  moreover obtain x where "create_organization (fresh_role ''a1'') ''acme'' ''Acme'' ''acme'' ''alice'' None tenancy0 = (Inr x, tenancy1)"
    using acme_created by blast
  ultimately show ?thesis
    using fresh_ids(1) organization_keeps_administrator [OF rtranclp.rtrancl_refl] unfolding tenancy0_def by blast
qed

lemma tenancy1_ok: "control_plane_ok (ty_repository tenancy1)"
proof -
  have "control_plane_ok (ty_repository tenancy0)" by (simp add: tenancy0_def fresh_service_def empty_control_plane_ok)
  moreover have "tenancy_command tenancy0 tenancy1"
    unfolding tenancy1_def by (rule tenancy_command.organization_new [OF surjective_pairing fresh_ids(1)])
  ultimately show ?thesis by (blast intro: administration.inv_run dest: tenancy_command_moves)
qed

lemma later_ok: "control_plane_ok (ty_repository tenancy4)"
proof -
  have "tenancy_command tenancy1 tenancy2"
    unfolding tenancy2_def by (rule tenancy_command.project_new [OF surjective_pairing])
  moreover have "tenancy_command tenancy2 tenancy3"
    unfolding tenancy3_def by (rule tenancy_command.member_new [OF surjective_pairing])
  moreover have "tenancy_command tenancy3 tenancy4"
    unfolding tenancy4_def by (rule tenancy_command.role_new [OF surjective_pairing fresh_ids(2)])
  ultimately have "tenancy_command\<^sup>*\<^sup>* tenancy1 tenancy4" by (meson converse_rtranclp_into_rtranclp r_into_rtranclp)
  from commands_moves [OF this tenancy1_ok] tenancy1_ok show ?thesis by (rule administration.inv_run)
qed

theorem authorize_specification_witness:
  "\<exists>d t. authorize_permission (clock 3) member_context (Member PM_REPLAY_CREATE) None tenancy4 = (Inr d, t)
    \<and> (aw_allowed d \<longleftrightarrow> permitted (ty_repository tenancy4) (ty_extensions tenancy4) member_context (Member PM_REPLAY_CREATE))
    \<and> same_tenants (ty_repository tenancy4) (ty_repository t)"
  using authorize_specification [OF later_ok, of "clock 3" member_context "Member PM_REPLAY_CREATE" None]
  by (auto simp: out_of_scope_def)

theorem control_plane_change_permitted_witness:
  "permitted (ty_repository tenancy1) (ty_extensions tenancy1) admin_context (Member PM_PROJECT_CREATE)"
proof -
  have "administration_command admin_context PM_PROJECT_CREATE tenancy1 tenancy2"
    unfolding tenancy2_def by (rule administration_command.intros(2) [OF surjective_pairing])
  moreover have "dict_get (tp_projects (ty_repository tenancy1)) (''acme'', ''claims'') = None"
    "dict_get (tp_projects (ty_repository tenancy2)) (''acme'', ''claims'') \<noteq> None" by code_simp+
  then have "tenant_view (ty_repository tenancy2) ''acme'' \<noteq> tenant_view (ty_repository tenancy1) ''acme''"
    by (auto simp: tenant_view_def fun_eq_iff)
  ultimately show ?thesis using control_plane_change_permitted [OF tenancy1_ok] by blast
qed

definition route_times :: route_fresh where
  "route_times =
     \<lparr>rf_create = \<lparr>cf_replay_id = ''replay-9'', cf_created = clock 6, cf_resolved = clock 6, cf_ready = clock 6,
                  cf_occurred = clock 6, cf_failed = clock 6\<rparr>,
      rf_now = clock 6, rf_submit = ((clock 6, ''job-9''), clock 7), rf_cancel = (clock 6, clock 7, clock 8),
      rf_evaluate = ((clock 6, ''job-9''), clock 7)\<rparr>"

definition busy_replays :: replay_system where
  "busy_replays = replay_state delivered_replay the_queue store1"

lemma bob_not_yet_permitted: "\<not> permitted (ty_repository tenancy1) (ty_extensions tenancy1) member_context (Member PM_REPLAY_EXECUTE)"
proof -
  have "dict_get (tp_memberships (ty_repository tenancy1)) (''acme'', ''bob'') = None" by code_simp
  then show ?thesis by (simp add: permitted_def member_context_def admin_context_def)
qed

theorem replay_routes_need_permission_witness:
  "\<exists>t. serve_replay (clock 5) deployed route_times (RR_SUBMIT ''replay-1'' False) member_context (tenancy1, busy_replays)
     = (Inl (Exc AuthorizationDenied ''Actor is not authorized for this operation''), (t, busy_replays))"
  using replay_routes_need_permission [OF tenancy1_ok, of "RR_SUBMIT ''replay-1'' False" "clock 5" deployed route_times member_context busy_replays]
    bob_not_yet_permitted by auto

definition suspension :: "(exc + membership) \<times> tenancy" where
  "suspension = update_membership (fresh_role ''a5'') admin_context ''bob'' MBS_SUSPENDED tenancy4"

theorem suspended_member_locked_out_witness:
  "\<exists>u e. serve_replay (clock 5) deployed route_times (RR_SUBMIT ''replay-1'' False) member_context (snd suspension, busy_replays)
     = (Inl e, (u, busy_replays))"
proof -
  have "\<not> isl (fst suspension)" by code_simp
  then obtain m where "update_membership (fresh_role ''a5'') admin_context (cx_actor_id member_context) MBS_SUSPENDED tenancy4 = (Inr m, snd suspension)"
    unfolding suspension_def by (simp add: member_context_def) (metis isl_def sum.exhaust prod.collapse)
  from suspended_member_locked_out [OF later_ok this] show ?thesis by (simp add: member_context_def)
qed

end
