(* ===== verification/Settings.thy ===== *)
theory Settings
  imports Replay_Evaluation
begin

text \<open>
  Settings control, \<open>settings_control/\<close>: definitions of settings with their validators
  (\<open>domain.py\<close>, \<open>definitions/common.py\<close>), the registry and the parser of values
  (\<open>registry.py\<close>), the in-memory repository with optimistic versions and an audit
  (\<open>repository.py\<close>), and the configuration service (\<open>service.py\<close>) that resolves a value from
  the environment, the project, the organization, the system and the default, in this order.
  Labels and descriptions are left out. \<open>json.loads\<close>, the text of numbers and the number of a
  text are fields of \<open>settings_host\<close>, as are the environment and the versions of the package and
  of Python; event publication is left out. Floats are finite, as everywhere in the model.
\<close>

section \<open>Definitions of settings\<close>

datatype setting_category =
    CT_AGENTS_RUNTIME | CT_GENERAL | CT_REPOSITORIES | CT_JOBS | CT_GOVERNANCE | CT_EVALUATION | CT_ONTOLOGY | CT_AUDIT | CT_MCP
  | CT_INTEGRATIONS | CT_OBSERVABILITY | CT_SYSTEM

primrec category_name :: "setting_category \<Rightarrow> string" where
  "category_name CT_AGENTS_RUNTIME = ''Agents Runtime''"
| "category_name CT_GENERAL = ''General''"
| "category_name CT_REPOSITORIES = ''Repositories''"
| "category_name CT_JOBS = ''Jobs''"
| "category_name CT_GOVERNANCE = ''Governance''"
| "category_name CT_EVALUATION = ''Evaluation''"
| "category_name CT_ONTOLOGY = ''Ontology''"
| "category_name CT_AUDIT = ''Audit''"
| "category_name CT_MCP = ''MCP''"
| "category_name CT_INTEGRATIONS = ''Integrations''"
| "category_name CT_OBSERVABILITY = ''Observability''"
| "category_name CT_SYSTEM = ''System''"

datatype value_type = VT_STRING | VT_INTEGER | VT_FLOAT | VT_BOOLEAN | VT_DURATION | VT_ENUM | VT_JSON

datatype setting_scope = SC_SYSTEM | SC_ORGANIZATION | SC_PROJECT

primrec scope_value :: "setting_scope \<Rightarrow> string" where
  "scope_value SC_SYSTEM = ''SYSTEM''"
| "scope_value SC_ORGANIZATION = ''ORGANIZATION''"
| "scope_value SC_PROJECT = ''PROJECT''"

datatype setting_source = SR_ENVIRONMENT | SR_RUNTIME_PROJECT | SR_RUNTIME_ORGANIZATION | SR_RUNTIME_SYSTEM | SR_DEFAULT

record setting_context =
  sx_organization_id :: "string option"
  sx_project_id :: "string option"

record setting_definition =
  sd_key :: string
  sd_category :: setting_category
  sd_value_type :: value_type
  sd_default_value :: pyval
  sd_mutable :: bool
  sd_sensitive :: bool
  sd_restart_required :: bool
  sd_environment_variable :: "string option"
  sd_validator :: "(pyval \<Rightarrow> exc option) option"
  sd_enum_values :: "string list"
  sd_allowed_scopes :: "setting_scope list"
  sd_runtime_applied :: bool

record settings_host =
  sh_fr :: "rat \<Rightarrow> string"
  sh_general :: "rat \<Rightarrow> string"
  sh_float :: "string \<Rightarrow> rat option"
  sh_json :: "string \<Rightarrow> exc + pyval"
  sh_environment :: "(string \<times> string) list"
  sh_version :: string
  sh_python_version :: string

definition setting_error :: "string \<Rightarrow> string \<Rightarrow> exc" where
  "setting_error name message = Exc (OtherError name) message"

abbreviation validation_error :: "string \<Rightarrow> exc" where
  "validation_error \<equiv> setting_error ''SettingValidationError''"

section \<open>Validators\<close>

text \<open>The number of a value, for \<open><\<close> between numbers.\<close>

definition number_of :: "pyval \<Rightarrow> rat option" where
  "number_of v = (case v of PInt i \<Rightarrow> Some (of_int i) | PFloat x \<Rightarrow> Some x | PBool b \<Rightarrow> Some (if b then 1 else 0) | _ \<Rightarrow> None)"

definition range_validator :: "settings_host \<Rightarrow> rat \<Rightarrow> rat \<Rightarrow> pyval \<Rightarrow> exc option" where
  "range_validator h low high v =
     (case number_of v of
        Some x \<Rightarrow> if low \<le> x \<and> x \<le> high then None
          else Some (validation_error (''Value must be between '' @ sh_general h low @ '' and '' @ sh_general h high @ ''.''))
      | None \<Rightarrow> Some (Exc TypeError (quoted ''<='' @ '' not supported between instances of '' @ quoted ''int'' @ '' and '' @ quoted (type_name v))))"

definition non_empty :: "settings_host \<Rightarrow> pyval \<Rightarrow> exc option" where
  "non_empty h v = (if blank (py_str (sh_fr h) v) then Some (validation_error ''Value must not be blank.'') else None)"

text \<open>
  The scheme and the authority that \<open>urlparse\<close> finds. Leading control characters and blanks and all
  tabs and line ends are removed first; a host in brackets is not examined further.
\<close>

definition scheme_char :: "char \<Rightarrow> bool" where
  "scheme_char c = (is_ascii_alnum c \<or> c \<in> set ''+-.'')"

definition url_scheme :: "string \<Rightarrow> string \<times> string" where
  "url_scheme url =
     (let name = takeWhile (\<lambda>c. c \<noteq> CHR '':'') url; rest = dropWhile (\<lambda>c. c \<noteq> CHR '':'') url in
      if name \<noteq> [] \<and> rest \<noteq> [] \<and> (is_ascii_upper (hd name) \<or> is_ascii_lower (hd name)) \<and> list_all scheme_char name
      then (py_lower name, tl rest) else ([], url))"

definition url_parts :: "string \<Rightarrow> exc + string \<times> string" where
  "url_parts text =
     (let url = filter (\<lambda>c. code_point c \<notin> {9, 10, 13}) (dropWhile (\<lambda>c. code_point c \<le> 32) text);
          (scheme, rest) = url_scheme url;
          netloc = (if py_startswith rest ''//'' then takeWhile (\<lambda>c. c \<notin> set ''/?#'') (drop 2 rest) else [])
      in if (CHR ''['' \<in> set netloc) \<noteq> (CHR '']'' \<in> set netloc) then Inl (Exc ValueError ''Invalid IPv6 URL'')
         else Inr (scheme, netloc))"

definition https_url :: "settings_host \<Rightarrow> pyval \<Rightarrow> exc option" where
  "https_url h v =
     (case url_parts (py_str (sh_fr h) v) of
        Inl e \<Rightarrow> Some e
      | Inr (scheme, netloc) \<Rightarrow> if scheme \<noteq> ''https'' \<or> netloc = [] then Some (validation_error ''Expected an HTTPS URL.'') else None)"

definition optional_env_secret_reference :: "settings_host \<Rightarrow> pyval \<Rightarrow> exc option" where
  "optional_env_secret_reference h v =
     (let reference = py_strip (py_str (sh_fr h) v) in
      if reference \<noteq> [] \<and> \<not> py_startswith reference ''env://'' then Some (validation_error ''Expected an env:// secret reference.'')
      else None)"

definition rate_error :: "string \<Rightarrow> (string \<times> pyval) list \<Rightarrow> string \<Rightarrow> exc option" where
  "rate_error model rates key =
     (let ok = (case pget rates key of PInt i \<Rightarrow> 0 \<le> i | PFloat x \<Rightarrow> 0 \<le> x | _ \<Rightarrow> False) in
      if ok then None
      else Some (validation_error (''Pricing for '' @ quoted model @ '' must include a non-negative '' @ quoted key @ '' rate.'')))"

definition synthesizer_pricing :: "pyval \<Rightarrow> exc option" where
  "synthesizer_pricing v =
     (case v of
        PDict d \<Rightarrow> first_Some (\<lambda>(model, rates).
          if blank model then Some (validation_error ''Each pricing entry requires a model name and rate object.'')
          else case rates of
            PDict r \<Rightarrow> first_Some (rate_error model r) [''input'', ''cached_input'', ''output'']
          | _ \<Rightarrow> Some (validation_error ''Each pricing entry requires a model name and rate object.'')) d
      | _ \<Rightarrow> Some (validation_error ''Expected a model-to-pricing JSON object.''))"

text \<open>\<open>domain/models/runtime_providers.py\<close>.\<close>

definition known_runtime_model_provider_keys :: "string list" where
  "known_runtime_model_provider_keys =
     [''openai'', ''anthropic'', ''google_ai'', ''google_vertex_ai'', ''azure_openai'', ''azure_ai_foundry'', ''aws_bedrock'',
      ''aws_sagemaker'', ''mistral'', ''cohere'', ''xai'', ''deepseek'', ''ai21'', ''ibm_watsonx'', ''nvidia_nim'',
      ''huggingface_inference'', ''together'', ''groq'', ''fireworks'', ''perplexity'', ''ollama'', ''alibaba_qwen'',
      ''baidu_qianfan'', ''tencent_hunyuan'', ''moonshot'', ''minimax'', ''zhipu'', ''custom'']"

definition provider_aliases :: "(string \<times> string) list" where
  "provider_aliases =
     [(''google'', ''google_ai''), (''google_ai_studio'', ''google_ai''), (''gemini'', ''google_ai''), (''vertex_ai'', ''google_vertex_ai''),
      (''google_vertex'', ''google_vertex_ai''), (''azure'', ''azure_openai''), (''bedrock'', ''aws_bedrock''),
      (''amazon_bedrock'', ''aws_bedrock''), (''sagemaker'', ''aws_sagemaker''), (''amazon_sagemaker'', ''aws_sagemaker''),
      (''mistral_ai'', ''mistral''), (''ibm_watsonx_ai'', ''ibm_watsonx''), (''huggingface'', ''huggingface_inference''),
      (''hugging_face'', ''huggingface_inference''), (''together_ai'', ''together''), (''fireworks_ai'', ''fireworks''),
      (''alibaba_cloud_qwen'', ''alibaba_qwen''), (''baidu'', ''baidu_qianfan''), (''tencent'', ''tencent_hunyuan''),
      (''moonshot_ai'', ''moonshot''), (''zhipu_ai'', ''zhipu''), (''other'', ''custom'')]"

definition runtime_model_provider_key :: "string \<Rightarrow> string option" where
  "runtime_model_provider_key value =
     (let normalized = normalize_provider_name value in
      if py_startswith normalized ''custom_'' then Some ''custom''
      else if normalized \<in> set known_runtime_model_provider_keys then Some normalized
      else map_of provider_aliases normalized)"

definition runtime_model_provider_allow_list :: "pyval \<Rightarrow> exc option" where
  "runtime_model_provider_allow_list v =
     (let canonical = validation_error ''Each runtime provider must be a canonical built-in provider key.'' in
      case v of
        PList (x # xs) \<Rightarrow>
          (case those (map (\<lambda>y. case y of PStr t \<Rightarrow> Some t | _ \<Rightarrow> None) (x # xs)) of
             None \<Rightarrow> Some canonical
           | Some names \<Rightarrow>
               if \<not> distinct names then Some (validation_error ''Runtime provider keys must not be repeated.'')
               else if list_ex (\<lambda>n. n \<notin> set known_runtime_model_provider_keys \<or> runtime_model_provider_key n \<noteq> Some n) names
               then Some canonical else None)
      | _ \<Rightarrow> Some (validation_error ''Expected a non-empty JSON array of runtime provider keys.''))"

text \<open>\<open>definition\<close> of \<open>definitions/common.py\<close>.\<close>

definition setting ::
  "string \<Rightarrow> setting_category \<Rightarrow> value_type \<Rightarrow> pyval \<Rightarrow> bool \<Rightarrow> string option \<Rightarrow> bool \<Rightarrow> (pyval \<Rightarrow> exc option) option
     \<Rightarrow> string list \<Rightarrow> bool \<Rightarrow> setting_scope list option \<Rightarrow> bool \<Rightarrow> setting_definition" where
  "setting key category type default_value mutable env restart validator enum sensitive scopes applied =
     \<lparr>sd_key = key, sd_category = category, sd_value_type = type, sd_default_value = default_value, sd_mutable = mutable,
      sd_sensitive = sensitive, sd_restart_required = restart, sd_environment_variable = env, sd_validator = validator,
      sd_enum_values = enum,
      sd_allowed_scopes = (case scopes of Some x \<Rightarrow> x
        | None \<Rightarrow> if mutable then [SC_SYSTEM, SC_ORGANIZATION, SC_PROJECT] else [SC_SYSTEM]),
      sd_runtime_applied = applied\<rparr>"

section \<open>Registry and values\<close>

type_synonym definition_registry = "(string, setting_definition) dict"

fun compose_definitions :: "setting_definition list \<Rightarrow> definition_registry \<Rightarrow> exc + definition_registry" where
  "compose_definitions [] r = Inr r"
| "compose_definitions (d # ds) r =
     (if dict_get r (sd_key d) \<noteq> None then Inl (Exc ValueError (''Duplicate built-in setting definition: '' @ quoted (sd_key d) @ ''.''))
      else compose_definitions ds (dict_put (sd_key d) d r))"

fun register_extension_definitions :: "setting_definition list \<Rightarrow> (definition_registry, unit) action" where
  "register_extension_definitions [] r = (Inr (), r)"
| "register_extension_definitions (d # ds) r =
     (if dict_get r (sd_key d) \<noteq> None then (Inl (Exc ValueError (''Setting '' @ quoted (sd_key d) @ '' is already registered.'')), r)
      else register_extension_definitions ds (dict_put (sd_key d) d r))"

definition py_int_of :: "pyval \<Rightarrow> exc + int" where
  "py_int_of v =
     (case v of
        PInt i \<Rightarrow> Inr i
      | PBool b \<Rightarrow> Inr (if b then 1 else 0)
      | PFloat x \<Rightarrow> Inr (if 0 \<le> x then \<lfloor>x\<rfloor> else \<lceil>x\<rceil>)
      | PStr t \<Rightarrow> (case py_int t of Some i \<Rightarrow> Inr i
          | None \<Rightarrow> Inl (Exc ValueError (''invalid literal for int() with base 10: '' @ quoted t)))
      | _ \<Rightarrow> Inl (Exc TypeError (''int() argument must be a string, a bytes-like object or a real number, not '' @ quoted (type_name v))))"

text \<open>\<open>re.fullmatch(r"[1-9][0-9]*(ms|s|m|h|d|w)", text)\<close>.\<close>

definition is_duration :: "string \<Rightarrow> bool" where
  "is_duration text =
     (let digits = takeWhile is_ascii_digit text in
      digits \<noteq> [] \<and> hd digits \<noteq> CHR ''0'' \<and> dropWhile is_ascii_digit text \<in> {''ms'', ''s'', ''m'', ''h'', ''d'', ''w''})"

fun comma_separated :: "string list \<Rightarrow> string" where
  "comma_separated [] = []"
| "comma_separated [x] = x"
| "comma_separated (x # xs) = x @ '', '' @ comma_separated xs"

definition converted :: "settings_host \<Rightarrow> setting_definition \<Rightarrow> pyval \<Rightarrow> exc + pyval" where
  "converted h d v =
     (let normal = py_lower (py_strip (py_str (sh_fr h) v)) in
      case sd_value_type d of
        VT_STRING \<Rightarrow> Inr (PStr (py_str (sh_fr h) v))
      | VT_INTEGER \<Rightarrow> res_bind (py_int_of v) (\<lambda>i. Inr (PInt i))
      | VT_FLOAT \<Rightarrow> res_bind (py_float (sh_float h) v) (\<lambda>x. Inr (PFloat x))
      | VT_BOOLEAN \<Rightarrow>
          (case v of PBool b \<Rightarrow> Inr (PBool b)
           | _ \<Rightarrow> if normal \<in> {''1'', ''true'', ''yes'', ''on''} then Inr (PBool True)
               else if normal \<in> {''0'', ''false'', ''no'', ''off''} then Inr (PBool False)
               else Inl (Exc ValueError ''expected a boolean''))
      | VT_JSON \<Rightarrow> (case v of PStr t \<Rightarrow> sh_json h t | _ \<Rightarrow> Inr v)
      | VT_DURATION \<Rightarrow>
          if is_duration normal then Inr (PStr normal) else Inl (Exc ValueError ''expected a duration such as 30s, 5m, 24h, or 30d'')
      | VT_ENUM \<Rightarrow>
          if normal \<in> set (sd_enum_values d) then Inr (PStr normal)
          else Inl (Exc ValueError (''expected one of: '' @ comma_separated (sd_enum_values d))))"

definition parse_value :: "settings_host \<Rightarrow> setting_definition \<Rightarrow> pyval \<Rightarrow> exc + pyval" where
  "parse_value h d v =
     (case converted h d v of
        Inl e \<Rightarrow>
          if exc_kind e = TypeError \<or> is_value_error (exc_kind e)
          then Inl (validation_error (''Invalid value for '' @ quoted (sd_key d) @ '': '' @ exc_message e)) else Inl e
      | Inr parsed \<Rightarrow>
          (case sd_validator d of None \<Rightarrow> Inr parsed
           | Some check \<Rightarrow> (case check parsed of Some e \<Rightarrow> Inl e | None \<Rightarrow> Inr parsed)))"

section \<open>Repository\<close>

record runtime_setting =
  rst_key :: string
  rst_scope :: setting_scope
  rst_scope_id :: string
  rst_value :: pyval
  rst_version :: int
  rst_updated_by :: string
  rst_updated_at :: datetime

record setting_audit =
  sa_audit_id :: string
  sa_key :: string
  sa_scope :: setting_scope
  sa_scope_id :: string
  sa_old_value :: pyval
  sa_new_value :: pyval
  sa_actor_id :: string
  sa_reason :: string
  sa_version :: int
  sa_created_at :: datetime

record settings_metrics =
  sm_updates :: int
  sm_validation_failures :: int
  sm_environment_overrides :: int

type_synonym setting_identity = "string \<times> setting_scope \<times> string"

record settings_state =
  ss_values :: "(setting_identity, runtime_setting) dict"
  ss_audit :: "setting_audit list"
  ss_metrics :: settings_metrics

definition empty_settings :: settings_state where
  "empty_settings = \<lparr>ss_values = [], ss_audit = [], ss_metrics = \<lparr>sm_updates = 0, sm_validation_failures = 0, sm_environment_overrides = 0\<rparr>\<rparr>"

definition get_setting :: "settings_state \<Rightarrow> setting_identity \<Rightarrow> runtime_setting option" where
  "get_setting s k = dict_get (ss_values s) k"

definition list_settings :: "settings_state \<Rightarrow> runtime_setting list" where
  "list_settings s = dict_values (ss_values s)"

definition version_conflict :: "string \<Rightarrow> int \<Rightarrow> int \<Rightarrow> exc" where
  "version_conflict key expected current = setting_error ''SettingVersionConflict''
     (''Setting '' @ quoted key @ '' changed from expected version '' @ py_str_int expected @ '' to '' @ py_str_int current
      @ ''. Refresh and retry.'')"

definition save_setting ::
  "datetime \<Rightarrow> string \<Rightarrow> setting_identity \<Rightarrow> pyval \<Rightarrow> string \<Rightarrow> string \<Rightarrow> int \<Rightarrow> (settings_state, runtime_setting) action" where
  "save_setting now audit_id k value actor reason expected s =
     (case k of (key, scope, scope_id) \<Rightarrow>
      let old = get_setting s k; current = (case old of None \<Rightarrow> 0 | Some x \<Rightarrow> rst_version x);
          item = \<lparr>rst_key = key, rst_scope = scope, rst_scope_id = scope_id, rst_value = value, rst_version = current + 1,
                  rst_updated_by = actor, rst_updated_at = now\<rparr>
      in if current \<noteq> expected then (Inl (version_conflict key expected current), s)
         else (Inr item, s\<lparr>ss_values := dict_put k item (ss_values s),
           ss_audit := ss_audit s @ [\<lparr>sa_audit_id = audit_id, sa_key = key, sa_scope = scope, sa_scope_id = scope_id,
             sa_old_value = (case old of None \<Rightarrow> PNone | Some x \<Rightarrow> rst_value x), sa_new_value = value, sa_actor_id = actor,
             sa_reason = reason, sa_version = current + 1, sa_created_at = now\<rparr>]\<rparr>))"

definition list_setting_audit ::
  "settings_state \<Rightarrow> string option \<Rightarrow> setting_scope option \<Rightarrow> string option \<Rightarrow> setting_audit list" where
  "list_setting_audit s key scope scope_id =
     filter (\<lambda>x. (key = None \<or> Some (sa_key x) = key) \<and> (scope = None \<or> Some (sa_scope x) = scope)
               \<and> (scope_id = None \<or> Some (sa_scope_id x) = scope_id)) (rev (ss_audit s))"

section \<open>The configuration service\<close>

record configuration =
  cg_host :: settings_host
  cg_registry :: definition_registry
  cg_enforcers :: "enforcer list"

record resolved_setting =
  rv_definition :: setting_definition
  rv_edit_scope :: setting_scope
  rv_edit_scope_id :: string
  rv_runtime_value :: "pyval option"
  rv_effective_value :: pyval
  rv_source :: setting_source
  rv_inherited_from :: "setting_scope option"
  rv_version :: "int option"
  rv_updated_by :: "string option"
  rv_updated_at :: "datetime option"

definition setting_not_found :: "string \<Rightarrow> exc" where
  "setting_not_found key = setting_error ''SettingNotFound'' key"

definition scope_id :: "setting_scope \<Rightarrow> setting_context \<Rightarrow> exc + string" where
  "scope_id scope cx =
     (case scope of
        SC_SYSTEM \<Rightarrow> Inr []
      | SC_ORGANIZATION \<Rightarrow> if truthy (sx_organization_id cx) then Inr (the (sx_organization_id cx))
          else Inl (setting_error ''SettingScopeInvalid'' (scope_value scope @ '' scope requires matching tenant context''))
      | SC_PROJECT \<Rightarrow> if truthy (sx_project_id cx) then Inr (the (sx_project_id cx))
          else Inl (setting_error ''SettingScopeInvalid'' (scope_value scope @ '' scope requires matching tenant context'')))"

definition runtime_candidates :: "setting_context \<Rightarrow> (setting_scope \<times> string option) list" where
  "runtime_candidates cx = [(SC_PROJECT, sx_project_id cx), (SC_ORGANIZATION, sx_organization_id cx), (SC_SYSTEM, Some [])]"

definition resolve_runtime :: "settings_state \<Rightarrow> string \<Rightarrow> setting_scope list \<Rightarrow> setting_context \<Rightarrow> runtime_setting option" where
  "resolve_runtime s key allowed cx =
     first_Some (\<lambda>(scope, i). if scope \<in> set allowed \<and> i \<noteq> None then get_setting s (key, scope, the i) else None)
       (runtime_candidates cx)"

definition environment_of :: "configuration \<Rightarrow> setting_definition \<Rightarrow> string option" where
  "environment_of c d =
     (if truthy (sd_environment_variable d) then map_of (sh_environment (cg_host c)) (the (sd_environment_variable d)) else None)"

definition environment_value :: "configuration \<Rightarrow> setting_definition \<Rightarrow> string \<Rightarrow> exc + pyval" where
  "environment_value c d text =
     (if py_startswith (sd_key d) ''integrations.'' then Inr (PStr (if blank text then ''disconnected'' else ''connected''))
      else parse_value (cg_host c) d (PStr text))"

definition computed_default :: "configuration \<Rightarrow> setting_definition \<Rightarrow> pyval" where
  "computed_default c d =
     (if sd_key d = ''system.python_version'' then PStr (sh_python_version (cg_host c)) else sd_default_value d)"

primrec source_of_scope :: "setting_scope \<Rightarrow> setting_source" where
  "source_of_scope SC_SYSTEM = SR_RUNTIME_SYSTEM"
| "source_of_scope SC_ORGANIZATION = SR_RUNTIME_ORGANIZATION"
| "source_of_scope SC_PROJECT = SR_RUNTIME_PROJECT"

text \<open>The value in force, its source and the scope it comes from.\<close>

definition effective ::
  "configuration \<Rightarrow> settings_state \<Rightarrow> setting_definition \<Rightarrow> setting_context \<Rightarrow> exc + pyval \<times> setting_source \<times> setting_scope option" where
  "effective c s d cx =
     (case environment_of c d of
        Some text \<Rightarrow>
          res_bind (environment_value c d text) (\<lambda>v.
          Inr (if sd_sensitive d then PStr ''connected'' else v, SR_ENVIRONMENT, None))
      | None \<Rightarrow>
          (case resolve_runtime s (sd_key d) (sd_allowed_scopes d) cx of
             Some x \<Rightarrow> Inr (rst_value x, source_of_scope (rst_scope x), Some (rst_scope x))
           | None \<Rightarrow> Inr (computed_default c d, SR_DEFAULT, None)))"

definition counted_override :: "settings_state \<Rightarrow> settings_state" where
  "counted_override s = s\<lparr>ss_metrics := (ss_metrics s)\<lparr>sm_environment_overrides := sm_environment_overrides (ss_metrics s) + 1\<rparr>\<rparr>"

definition resolve_setting ::
  "configuration \<Rightarrow> string \<Rightarrow> setting_context \<Rightarrow> setting_scope \<Rightarrow> (settings_state, resolved_setting) action" where
  "resolve_setting c key cx edit_scope s =
     (case dict_get (cg_registry c) key of None \<Rightarrow> (Inl (setting_not_found key), s)
      | Some d \<Rightarrow>
          (case scope_id edit_scope cx of Inl e \<Rightarrow> (Inl e, s)
           | Inr i \<Rightarrow>
               let (scope, sid) = (if edit_scope \<in> set (sd_allowed_scopes d) then (edit_scope, i) else (SC_SYSTEM, []));
                   edited = get_setting s (key, scope, sid);
                   s' = (if environment_of c d = None then s else counted_override s)
               in (res_bind (effective c s d cx) (\<lambda>(v, source, inherited).
                     Inr \<lparr>rv_definition = d, rv_edit_scope = scope, rv_edit_scope_id = sid, rv_runtime_value = map_option rst_value edited,
                          rv_effective_value = v, rv_source = source, rv_inherited_from = inherited,
                          rv_version = map_option rst_version edited, rv_updated_by = map_option rst_updated_by edited,
                          rv_updated_at = map_option rst_updated_at edited\<rparr>), s')))"

definition setting_value :: "configuration \<Rightarrow> string \<Rightarrow> setting_context \<Rightarrow> (settings_state, pyval) action" where
  "setting_value c key cx = act_bind (resolve_setting c key cx SC_SYSTEM) (\<lambda>r. act_return (rv_effective_value r))"

fun resolve_all :: "configuration \<Rightarrow> setting_context \<Rightarrow> setting_scope \<Rightarrow> string list \<Rightarrow> (settings_state, resolved_setting list) action" where
  "resolve_all c cx scope [] = act_return []"
| "resolve_all c cx scope (k # ks) =
     act_bind (resolve_setting c k cx scope) (\<lambda>r. act_bind (resolve_all c cx scope ks) (\<lambda>rs. act_return (r # rs)))"

definition list_resolved ::
  "configuration \<Rightarrow> string option \<Rightarrow> setting_context \<Rightarrow> setting_scope \<Rightarrow> (settings_state, resolved_setting list) action" where
  "list_resolved c category cx scope =
     act_bind (resolve_all c cx scope (map fst (cg_registry c))) (\<lambda>rs.
     act_return (filter (\<lambda>r. \<not> truthy category \<or> py_lower (category_name (sd_category (rv_definition r))) = py_lower (the category)) rs))"

definition validate_setting :: "configuration \<Rightarrow> string \<Rightarrow> pyval \<Rightarrow> (settings_state, pyval) action" where
  "validate_setting c key v s =
     (case dict_get (cg_registry c) key of None \<Rightarrow> (Inl (setting_not_found key), s)
      | Some d \<Rightarrow>
          (case parse_value (cg_host c) d v of
             Inr x \<Rightarrow> (Inr x, s)
           | Inl e \<Rightarrow> (Inl e, s\<lparr>ss_metrics := (ss_metrics s)\<lparr>sm_validation_failures := sm_validation_failures (ss_metrics s) + 1\<rparr>\<rparr>)))"

definition denied_update :: exc where
  "denied_update = Exc AuthorizationDenied ''Actor is not authorized for this operation''"

fun enforcers_allow :: "enforcer list \<Rightarrow> enforcement_request \<Rightarrow> exc + unit" where
  "enforcers_allow [] q = Inr ()"
| "enforcers_allow (f # fs) q =
     (case f q of Inl e \<Rightarrow> Inl e | Inr d \<Rightarrow> if ed_allowed d then enforcers_allow fs q else Inl denied_update)"

definition enforce_update ::
  "configuration \<Rightarrow> setting_definition \<Rightarrow> setting_scope \<Rightarrow> string \<Rightarrow> tenant_context option \<Rightarrow> exc + unit" where
  "enforce_update c d scope sid tenant =
     (if cg_enforcers c = [] then Inr ()
      else case tenant of None \<Rightarrow> Inl denied_update
        | Some t \<Rightarrow> enforcers_allow (cg_enforcers c)
            \<lparr>eq_context = t, eq_action = ''settings.update'',
             eq_resource = \<lparr>af_resource_type = ''Setting'', af_resource_id = scope_value scope @ '':'' @ sid @ '':'' @ sd_key d,
               af_organization_id = cx_organization_id t, af_project_id = cx_project_id t, af_owner_id = None,
               af_lifecycle_state = Some (scope_value scope), af_environment = None, af_classification = None, af_version = None,
               af_attributes = [(''category'', PStr (category_name (sd_category d))), (''sensitive'', PBool (sd_sensitive d))]\<rparr>\<rparr>)"

record setting_change =
  sg_key :: string
  sg_value :: pyval
  sg_actor_id :: string
  sg_reason :: string
  sg_expected_version :: int
  sg_scope :: setting_scope
  sg_context :: setting_context
  sg_tenant :: "tenant_context option"

definition change_checks :: "configuration \<Rightarrow> setting_change \<Rightarrow> setting_definition \<Rightarrow> (bool \<times> exc) list" where
  "change_checks c q d =
     [(\<not> sd_mutable d, setting_error ''SettingReadOnly'' (sg_key q)),
      (\<not> sd_runtime_applied d, setting_error ''SettingReadOnly'' (sg_key q @ '' has no live runtime consumer'')),
      (sg_scope q \<notin> set (sd_allowed_scopes d),
        setting_error ''SettingScopeInvalid'' (sg_key q @ '' does not support '' @ scope_value (sg_scope q) @ '' scope'')),
      (environment_of c d \<noteq> None, setting_error ''SettingEnvironmentOverride'' (sg_key q))]"

definition update_setting ::
  "configuration \<Rightarrow> datetime \<Rightarrow> string \<Rightarrow> setting_change \<Rightarrow> (settings_state, resolved_setting) action" where
  "update_setting c now audit_id q s =
     (case dict_get (cg_registry c) (sg_key q) of None \<Rightarrow> (Inl (setting_not_found (sg_key q)), s)
      | Some d \<Rightarrow>
          act_bind (act_lift (checked (change_checks c q d) ())) (\<lambda>_.
          act_bind (act_lift (scope_id (sg_scope q) (sg_context q))) (\<lambda>sid.
          act_bind (act_lift (enforce_update c d (sg_scope q) sid (sg_tenant q))) (\<lambda>_.
          act_bind (validate_setting c (sg_key q) (sg_value q)) (\<lambda>parsed.
          act_bind (save_setting now audit_id (sg_key q, sg_scope q, sid) parsed (sg_actor_id q) (sg_reason q)
            (sg_expected_version q)) (\<lambda>_.
          act_bind (\<lambda>s. (Inr (), s\<lparr>ss_metrics := (ss_metrics s)\<lparr>sm_updates := sm_updates (ss_metrics s) + 1\<rparr>\<rparr>)) (\<lambda>_.
          resolve_setting c (sg_key q) (sg_context q) (sg_scope q))))))) s)"

end
