(* ===== verification/Settings_Definitions.thy ===== *)
theory Settings_Definitions
  imports Settings
begin

text \<open>
  The built-in settings, \<open>settings_control/definitions/\<close>: one list per module, in the order of
  the modules, and the registry they compose to. Two long modules are split by the subject of their
  settings. Labels and descriptions are left out.
\<close>

text \<open>\<open>GENERAL_OPERATIONAL_DEFINITIONS\<close> of \<open>definitions/general.py\<close>.\<close>

definition general_definitions :: "settings_host \<Rightarrow> setting_definition list" where
  "general_definitions h =
     [setting ''general.instance_name'' CT_GENERAL VT_STRING (PStr ''AI Governance Control Plane'') True (Some
        ''AI_GOVERNANCE_INSTANCE_NAME'') False (Some (non_empty h)) [] False None True,
      setting ''general.environment'' CT_GENERAL VT_ENUM (PStr ''local'') False (Some ''AI_GOVERNANCE_ENV'') True None [''local'',
        ''development'', ''staging'', ''production''] False None False,
      setting ''general.version'' CT_GENERAL VT_STRING (PStr (sh_version h)) False None False None [] False None False,
      setting ''general.build'' CT_GENERAL VT_STRING (PStr ''development'') False (Some ''AI_GOVERNANCE_BUILD_ID'') True None [] False
        None False,
      setting ''general.timezone'' CT_GENERAL VT_STRING (PStr ''UTC'') True (Some ''AI_GOVERNANCE_TIMEZONE'') False (Some (non_empty h))
        [] False None True,
      setting ''repositories.active_backend'' CT_REPOSITORIES VT_ENUM (PStr ''inmemory'') False (Some ''AI_GOVERNANCE_POLICY_REPOSITORY'')
        True None [''inmemory'', ''sqlite'', ''postgres''] False None False,
      setting ''repositories.settings_backend'' CT_REPOSITORIES VT_ENUM (PStr ''inmemory'') False (Some
        ''AI_GOVERNANCE_SETTINGS_REPOSITORY'') True None [''inmemory'', ''sqlite'', ''postgres''] False None False,
      setting ''repositories.connection_status'' CT_REPOSITORIES VT_ENUM (PStr ''connected'') False None False None [''connected'',
        ''disconnected''] False None False,
      setting ''repositories.migration_status'' CT_REPOSITORIES VT_ENUM (PStr ''current'') False None False None [''current'',
        ''pending'', ''unknown''] False None False,
      setting ''jobs.worker_concurrency'' CT_JOBS VT_INTEGER (PInt 4) True (Some ''AI_GOVERNANCE_JOB_WORKER_CONCURRENCY'') False (Some
        (range_validator h (1) (128))) [] False None True,
      setting ''jobs.retry_attempts'' CT_JOBS VT_INTEGER (PInt 3) True (Some ''AI_GOVERNANCE_JOB_RETRY_ATTEMPTS'') False (Some
        (range_validator h (1) (10))) [] False None True,
      setting ''jobs.retry_delay'' CT_JOBS VT_DURATION (PStr ''1ms'') True (Some ''AI_GOVERNANCE_JOB_RETRY_DELAY'') False None [] False
        None True,
      setting ''jobs.queue_size'' CT_JOBS VT_INTEGER (PInt 1000) True (Some ''AI_GOVERNANCE_JOB_QUEUE_SIZE'') False (Some (range_validator
        h (1) (100000))) [] False None True,
      setting ''jobs.retention'' CT_JOBS VT_DURATION (PStr ''30d'') True (Some ''AI_GOVERNANCE_JOB_RETENTION'') False None [] False None
        True]"

text \<open>\<open>GOVERNANCE_DEFINITIONS\<close> of \<open>definitions/governance.py\<close>.\<close>

definition retention_and_replay_definitions :: "settings_host \<Rightarrow> setting_definition list" where
  "retention_and_replay_definitions h =
     [setting ''governance.decision_retention'' CT_GOVERNANCE VT_DURATION (PStr ''365d'') True (Some ''AI_GOVERNANCE_DECISION_RETENTION'')
        False None [] False None True,
      setting ''governance.replay_retention'' CT_GOVERNANCE VT_DURATION (PStr ''90d'') True (Some ''AI_GOVERNANCE_REPLAY_RETENTION'')
        False None [] False None True,
      setting ''replay.retention'' CT_GOVERNANCE VT_DURATION (PStr ''90d'') True (Some ''AI_GOVERNANCE_REPLAY_RETENTION'') False None []
        False None True,
      setting ''replay.max_concurrent_jobs'' CT_GOVERNANCE VT_INTEGER (PInt 4) True (Some ''AI_GOVERNANCE_REPLAY_MAX_CONCURRENT_JOBS'')
        False (Some (range_validator h (1) (128))) [] False None True,
      setting ''replay.max_concurrent_jobs_per_project'' CT_GOVERNANCE VT_INTEGER (PInt 2) True (Some
        ''AI_GOVERNANCE_REPLAY_MAX_CONCURRENT_JOBS_PER_PROJECT'') False (Some (range_validator h (1) (128))) [] False None True,
      setting ''replay.max_attempts'' CT_GOVERNANCE VT_INTEGER (PInt 3) True (Some ''AI_GOVERNANCE_REPLAY_MAX_ATTEMPTS'') False (Some
        (range_validator h (1) (10))) [] False None True,
      setting ''replay.default_baseline_strategy'' CT_GOVERNANCE VT_ENUM (PStr ''LATEST_COMPATIBLE'') True (Some
        ''AI_GOVERNANCE_REPLAY_DEFAULT_BASELINE_STRATEGY'') False None [''EXPLICIT'', ''LATEST_COMPATIBLE'', ''SOURCE_PRIMARY''] False None
        True,
      setting ''replay.evaluation_max_attempts'' CT_GOVERNANCE VT_INTEGER (PInt 3) True (Some
        ''AI_GOVERNANCE_REPLAY_EVALUATION_MAX_ATTEMPTS'') False (Some (range_validator h (1) (10))) [] False None True,
      setting ''replay.drift_threshold_policy'' CT_GOVERNANCE VT_JSON (PDict [(''policy'', PStr ''governance-default-v1'')]) True (Some
        ''AI_GOVERNANCE_REPLAY_DRIFT_THRESHOLD_POLICY'') False None [] False None True,
      setting ''replay.result_retention'' CT_GOVERNANCE VT_DURATION (PStr ''90d'') True (Some ''AI_GOVERNANCE_REPLAY_RESULT_RETENTION'')
        False None [] False None True]"

definition recommendation_definitions :: "settings_host \<Rightarrow> setting_definition list" where
  "recommendation_definitions h =
     [setting ''intelligence.replay_history_limit'' CT_GOVERNANCE VT_INTEGER (PInt 3) True (Some
        ''AI_GOVERNANCE_INTELLIGENCE_REPLAY_HISTORY_LIMIT'') False (Some (range_validator h (1) (20))) [] False None True,
      setting ''intelligence.synthesizer_provider'' CT_GOVERNANCE VT_STRING (PStr ''openai'') True (Some
        ''AI_GOVERNANCE_INTELLIGENCE_SYNTHESIZER_PROVIDER'') False (Some (non_empty h)) [] False None True,
      setting ''intelligence.synthesizer_model'' CT_GOVERNANCE VT_STRING (PStr ''gpt-4.1-mini'') True (Some
        ''AI_GOVERNANCE_INTELLIGENCE_SYNTHESIZER_MODEL'') False (Some (non_empty h)) [] False None True,
      setting ''intelligence.synthesizer_pricing'' CT_GOVERNANCE VT_JSON (PDict [(''gpt-4.1-mini'', PDict [(''input'', PFloat (binary64 (2
        / 5))), (''cached_input'', PFloat (binary64 (1 / 10))), (''output'', PFloat (binary64 (8 / 5)))]), (''gpt-5.6-luna'', PDict
        [(''input'', PFloat 1), (''cached_input'', PFloat (binary64 (1 / 10))), (''output'', PFloat 6)]), (''gpt-5.6-terra'', PDict
        [(''input'', PFloat (binary64 (5 / 2))), (''cached_input'', PFloat (binary64 (1 / 4))), (''output'', PFloat 15)]), (''gpt-5.6-sol'',
        PDict [(''input'', PFloat 5), (''cached_input'', PFloat (binary64 (1 / 2))), (''output'', PFloat 30)])]) True (Some
        ''AI_GOVERNANCE_INTELLIGENCE_SYNTHESIZER_PRICING'') False (Some (synthesizer_pricing)) [] False None True,
      setting ''enterprise.recommendations.enabled'' CT_GOVERNANCE VT_BOOLEAN (PBool True) True (Some
        ''AI_GOVERNANCE_ENTERPRISE_RECOMMENDATIONS_ENABLED'') False None [] False None True,
      setting ''enterprise.recommendations.default_limit'' CT_GOVERNANCE VT_INTEGER (PInt 20) True None False (Some (range_validator h (1)
        (100))) [] False None True,
      setting ''enterprise.recommendations.include_informational'' CT_GOVERNANCE VT_BOOLEAN (PBool False) True None False None [] False
        None True,
      setting ''enterprise.recommendations.narrative_enabled'' CT_GOVERNANCE VT_BOOLEAN (PBool False) True None False None [] False None
        True,
      setting ''enterprise.recommendations.max_narrative_items'' CT_GOVERNANCE VT_INTEGER (PInt 5) True None False (Some (range_validator
        h (0) (20))) [] False None True,
      setting ''enterprise.recommendations.operational_window_days'' CT_GOVERNANCE VT_INTEGER (PInt 7) True None False (Some
        (range_validator h (1) (30))) [] False None True,
      setting ''enterprise.recommendations.governance_weight'' CT_GOVERNANCE VT_FLOAT (PFloat 1) True None False (Some (range_validator h
        (0) (10))) [] False None True,
      setting ''enterprise.recommendations.replay_weight'' CT_GOVERNANCE VT_FLOAT (PFloat 1) True None False (Some (range_validator h (0)
        (10))) [] False None True,
      setting ''enterprise.recommendations.experiment_weight'' CT_GOVERNANCE VT_FLOAT (PFloat 1) True None False (Some (range_validator h
        (0) (10))) [] False None True,
      setting ''enterprise.recommendations.root_cause_weight'' CT_GOVERNANCE VT_FLOAT (PFloat 1) True None False (Some (range_validator h
        (0) (10))) [] False None True,
      setting ''enterprise.recommendations.operational_weight'' CT_GOVERNANCE VT_FLOAT (PFloat 1) True None False (Some (range_validator h
        (0) (10))) [] False None True,
      setting ''governance.default_policy_version_behavior'' CT_GOVERNANCE VT_ENUM (PStr ''active'') True (Some
        ''AI_GOVERNANCE_DEFAULT_POLICY_VERSION_BEHAVIOR'') False None [''active'', ''latest'', ''explicit''] False None True]"

definition governance_definitions :: "settings_host \<Rightarrow> setting_definition list" where
  "governance_definitions h =
     retention_and_replay_definitions h @ recommendation_definitions h"

text \<open>\<open>EVALUATION_ONTOLOGY_DEFINITIONS\<close> of \<open>definitions/evaluation.py\<close>.\<close>

definition evaluation_definitions :: "settings_host \<Rightarrow> setting_definition list" where
  "evaluation_definitions h =
     [setting ''evaluation.default_provider'' CT_EVALUATION VT_STRING (PStr ''mock'') True (Some
        ''AI_GOVERNANCE_DEFAULT_EVALUATION_PROVIDER'') False (Some (non_empty h)) [] False None True,
      setting ''evaluation.pass_threshold'' CT_EVALUATION VT_FLOAT (PFloat (binary64 (4 / 5))) True (Some
        ''AI_GOVERNANCE_EVALUATION_PASS_THRESHOLD'') False (Some (range_validator h (0) (1))) [] False None True,
      setting ''evaluation.thresholds'' CT_EVALUATION VT_JSON (PDict []) True (Some ''AI_GOVERNANCE_EVALUATION_THRESHOLDS'') False None []
        False None True,
      setting ''evaluation.retention'' CT_EVALUATION VT_DURATION (PStr ''180d'') True (Some ''AI_GOVERNANCE_EVALUATION_RETENTION'') False
        None [] False None True,
      setting ''ontology.projection_interval'' CT_ONTOLOGY VT_DURATION (PStr ''30s'') True (Some
        ''AI_GOVERNANCE_ONTOLOGY_PROJECTION_INTERVAL'') False None [] False None True,
      setting ''ontology.reconciliation_interval'' CT_ONTOLOGY VT_DURATION (PStr ''5m'') True (Some
        ''AI_GOVERNANCE_ONTOLOGY_RECONCILIATION_INTERVAL'') False None [] False None True,
      setting ''ontology.neo4j_endpoint'' CT_ONTOLOGY VT_STRING (PStr ''not configured'') False (Some ''AI_GOVERNANCE_GRAPH_URI'') True
        None [] False None False,
      setting ''ontology.connection_health'' CT_ONTOLOGY VT_ENUM (PStr ''unknown'') False None False None [''connected'',
        ''disconnected'', ''unknown''] False None False]"

text \<open>\<open>OPERATIONS_DEFINITIONS\<close> of \<open>definitions/operations.py\<close>.\<close>

definition operations_definitions :: "settings_host \<Rightarrow> setting_definition list" where
  "operations_definitions h =
     [setting ''audit.retention'' CT_AUDIT VT_DURATION (PStr ''365d'') True (Some ''AI_GOVERNANCE_AUDIT_RETENTION'') False None [] False
        None True,
      setting ''audit.interrupted_timeout'' CT_AUDIT VT_DURATION (PStr ''15m'') True (Some ''AI_GOVERNANCE_AUDIT_INTERRUPTED_TIMEOUT'')
        False None [] False None True,
      setting ''audit.backend'' CT_AUDIT VT_ENUM (PStr ''sqlite'') False (Some ''AI_GOVERNANCE_MCP_AUDIT_BACKEND'') True None [''memory'',
        ''sqlite'', ''postgres''] False None False,
      setting ''mcp.dry_run_default'' CT_MCP VT_BOOLEAN (PBool False) True (Some ''AI_GOVERNANCE_MCP_DRY_RUN_DEFAULT'') False None []
        False None True,
      setting ''mcp.audit_required'' CT_MCP VT_BOOLEAN (PBool True) True (Some ''AI_GOVERNANCE_MCP_AUDIT_REQUIRED'') False None [] False
        None True,
      setting ''mcp.idempotency_expiry'' CT_MCP VT_DURATION (PStr ''24h'') True (Some ''AI_GOVERNANCE_MCP_IDEMPOTENCY_EXPIRY'') False None
        [] False None True,
      setting ''integrations.openai'' CT_INTEGRATIONS VT_ENUM (PStr ''disconnected'') False (Some ''OPENAI_API_KEY'') False None
        [''connected'', ''disconnected''] True None False,
      setting ''model_registry.allowed_runtime_providers'' CT_INTEGRATIONS VT_JSON (PList (map PStr known_runtime_model_provider_keys))
        True None False (Some (runtime_model_provider_allow_list)) [] False None True,
      setting ''integrations.neo4j'' CT_INTEGRATIONS VT_ENUM (PStr ''disconnected'') False (Some ''AI_GOVERNANCE_GRAPH_URI'') False None
        [''connected'', ''disconnected''] False None False,
      setting ''integrations.msteams'' CT_INTEGRATIONS VT_ENUM (PStr ''disconnected'') False (Some ''AI_GOVERNANCE_MSTEAMS_WEBHOOK_URL'')
        False None [''connected'', ''disconnected''] True None False,
      setting ''integrations.webhook'' CT_INTEGRATIONS VT_ENUM (PStr ''disconnected'') False (Some ''AI_GOVERNANCE_WEBHOOK_URL'') False
        None [''connected'', ''disconnected''] True None False,
      setting ''system.version'' CT_SYSTEM VT_STRING (PStr (sh_version h)) False None False None [] False None False,
      setting ''system.commit_sha'' CT_SYSTEM VT_STRING (PStr ''unknown'') False (Some ''AI_GOVERNANCE_COMMIT_SHA'') True None [] False
        None False,
      setting ''system.build_date'' CT_SYSTEM VT_STRING (PStr ''unknown'') False (Some ''AI_GOVERNANCE_BUILD_DATE'') True None [] False
        None False,
      setting ''system.python_version'' CT_SYSTEM VT_STRING (PStr ''runtime'') False None False None [] False None False]"

text \<open>\<open>TELEMETRY_DEFINITIONS\<close> of \<open>definitions/telemetry.py\<close>.\<close>

definition telemetry_definitions :: "settings_host \<Rightarrow> setting_definition list" where
  "telemetry_definitions h =
     [setting ''telemetry.mode'' CT_OBSERVABILITY VT_ENUM (PStr ''standard'') True (Some ''AI_GOVERNANCE_TELEMETRY_MODE'') False None
        [''standard'', ''disabled''] False (Some [SC_SYSTEM]) True,
      setting ''telemetry.essential.enabled'' CT_OBSERVABILITY VT_BOOLEAN (PBool True) True (Some
        ''AI_GOVERNANCE_TELEMETRY_ESSENTIAL_ENABLED'') False None [] False (Some [SC_SYSTEM]) True,
      setting ''telemetry.product_analytics.enabled'' CT_OBSERVABILITY VT_BOOLEAN (PBool False) True (Some
        ''AI_GOVERNANCE_TELEMETRY_PRODUCT_ANALYTICS_ENABLED'') False None [] False (Some [SC_SYSTEM]) True,
      setting ''telemetry.performance_research.enabled'' CT_OBSERVABILITY VT_BOOLEAN (PBool False) True (Some
        ''AI_GOVERNANCE_TELEMETRY_PERFORMANCE_RESEARCH_ENABLED'') False None [] False (Some [SC_SYSTEM]) True,
      setting ''telemetry.exporter.type'' CT_OBSERVABILITY VT_ENUM (PStr ''none'') True (Some ''AI_GOVERNANCE_TELEMETRY_EXPORTER'') False
        None [''none'', ''posthog''] False (Some [SC_SYSTEM]) True,
      setting ''telemetry.exporter.posthog_api_key_ref'' CT_OBSERVABILITY VT_STRING (PStr []) True (Some
        ''AI_GOVERNANCE_TELEMETRY_POSTHOG_API_KEY_REF'') False (Some (optional_env_secret_reference h)) [] False (Some [SC_SYSTEM]) True,
      setting ''telemetry.exporter.posthog_endpoint'' CT_OBSERVABILITY VT_STRING (PStr ''https://us.i.posthog.com/capture/'') True (Some
        ''AI_GOVERNANCE_TELEMETRY_POSTHOG_ENDPOINT'') False (Some (https_url h)) [] False (Some [SC_SYSTEM]) True,
      setting ''telemetry.aggregation_period'' CT_OBSERVABILITY VT_DURATION (PStr ''1d'') True (Some
        ''AI_GOVERNANCE_TELEMETRY_AGGREGATION_PERIOD'') False None [] False (Some [SC_SYSTEM]) True]"

text \<open>\<open>RUNTIME_FINDINGS_DEFINITIONS\<close> of \<open>definitions/runtime_findings.py\<close>.\<close>

definition tool_failure_rate_definitions :: "settings_host \<Rightarrow> setting_definition list" where
  "tool_failure_rate_definitions h =
     [setting ''runtime_findings.tool_failure_rate.min_observation_count'' CT_AGENTS_RUNTIME VT_INTEGER (PInt 30) True (Some
        ''AI_GOVERNANCE_RUNTIME_FINDINGS_TOOL_FAILURE_MIN_OBSERVATIONS'') False (Some (range_validator h (1) (10000))) [] False None True,
      setting ''runtime_findings.tool_failure_rate.baseline_window_days'' CT_AGENTS_RUNTIME VT_INTEGER (PInt 7) True (Some
        ''AI_GOVERNANCE_RUNTIME_FINDINGS_TOOL_FAILURE_BASELINE_DAYS'') False (Some (range_validator h (1) (365))) [] False None True,
      setting ''runtime_findings.tool_failure_rate.observation_window_hours'' CT_AGENTS_RUNTIME VT_INTEGER (PInt 24) True (Some
        ''AI_GOVERNANCE_RUNTIME_FINDINGS_TOOL_FAILURE_OBSERVATION_HOURS'') False (Some (range_validator h (1) (720))) [] False None True,
      setting ''runtime_findings.tool_failure_rate.absolute_threshold'' CT_AGENTS_RUNTIME VT_FLOAT (PFloat (binary64 (1 / 20))) True (Some
        ''AI_GOVERNANCE_RUNTIME_FINDINGS_TOOL_FAILURE_ABSOLUTE_THRESHOLD'') False (Some (range_validator h (0) (1))) [] False None True,
      setting ''runtime_findings.tool_failure_rate.relative_threshold'' CT_AGENTS_RUNTIME VT_FLOAT (PFloat 2) True (Some
        ''AI_GOVERNANCE_RUNTIME_FINDINGS_TOOL_FAILURE_RELATIVE_THRESHOLD'') False (Some (range_validator h (1) (100))) [] False None True,
      setting ''runtime_findings.tool_failure_rate.severity_critical_threshold'' CT_AGENTS_RUNTIME VT_FLOAT (PFloat (binary64 (1 / 4)))
        True (Some ''AI_GOVERNANCE_RUNTIME_FINDINGS_TOOL_FAILURE_SEVERITY_CRITICAL'') False (Some (range_validator h (0) (1))) [] False None
        True,
      setting ''runtime_findings.tool_failure_rate.severity_high_threshold'' CT_AGENTS_RUNTIME VT_FLOAT (PFloat (binary64 (3 / 20))) True
        (Some ''AI_GOVERNANCE_RUNTIME_FINDINGS_TOOL_FAILURE_SEVERITY_HIGH'') False (Some (range_validator h (0) (1))) [] False None True,
      setting ''runtime_findings.tool_failure_rate.severity_medium_threshold'' CT_AGENTS_RUNTIME VT_FLOAT (PFloat (binary64 (1 / 10)))
        True (Some ''AI_GOVERNANCE_RUNTIME_FINDINGS_TOOL_FAILURE_SEVERITY_MEDIUM'') False (Some (range_validator h (0) (1))) [] False None
        True,
      setting ''runtime_findings.tool_failure_rate.severity_low_threshold'' CT_AGENTS_RUNTIME VT_FLOAT (PFloat (binary64 (1 / 20))) True
        (Some ''AI_GOVERNANCE_RUNTIME_FINDINGS_TOOL_FAILURE_SEVERITY_LOW'') False (Some (range_validator h (0) (1))) [] False None True,
      setting ''runtime_findings.tool_failure_rate.resolution_window_hours'' CT_AGENTS_RUNTIME VT_INTEGER (PInt 48) True (Some
        ''AI_GOVERNANCE_RUNTIME_FINDINGS_TOOL_FAILURE_RESOLUTION_HOURS'') False (Some (range_validator h (1) (720))) [] False None True]"

definition agent_execution_failure_rate_definitions :: "settings_host \<Rightarrow> setting_definition list" where
  "agent_execution_failure_rate_definitions h =
     [setting ''runtime_findings.agent_execution_failure_rate.min_observation_count'' CT_AGENTS_RUNTIME VT_INTEGER (PInt 20) True (Some
        ''AI_GOVERNANCE_RUNTIME_FINDINGS_AGENT_EXEC_FAILURE_MIN_OBSERVATIONS'') False (Some (range_validator h (1) (10000))) [] False None
        True,
      setting ''runtime_findings.agent_execution_failure_rate.baseline_window_days'' CT_AGENTS_RUNTIME VT_INTEGER (PInt 7) True (Some
        ''AI_GOVERNANCE_RUNTIME_FINDINGS_AGENT_EXEC_FAILURE_BASELINE_DAYS'') False (Some (range_validator h (1) (365))) [] False None True,
      setting ''runtime_findings.agent_execution_failure_rate.observation_window_hours'' CT_AGENTS_RUNTIME VT_INTEGER (PInt 24) True (Some
        ''AI_GOVERNANCE_RUNTIME_FINDINGS_AGENT_EXEC_FAILURE_OBSERVATION_HOURS'') False (Some (range_validator h (1) (720))) [] False None
        True,
      setting ''runtime_findings.agent_execution_failure_rate.absolute_threshold'' CT_AGENTS_RUNTIME VT_FLOAT (PFloat (binary64 (1 / 10)))
        True (Some ''AI_GOVERNANCE_RUNTIME_FINDINGS_AGENT_EXEC_FAILURE_ABSOLUTE_THRESHOLD'') False (Some (range_validator h (0) (1))) []
        False None True,
      setting ''runtime_findings.agent_execution_failure_rate.relative_threshold'' CT_AGENTS_RUNTIME VT_FLOAT (PFloat 2) True (Some
        ''AI_GOVERNANCE_RUNTIME_FINDINGS_AGENT_EXEC_FAILURE_RELATIVE_THRESHOLD'') False (Some (range_validator h (1) (100))) [] False None
        True,
      setting ''runtime_findings.agent_execution_failure_rate.severity_critical_threshold'' CT_AGENTS_RUNTIME VT_FLOAT (PFloat (binary64
        (1 / 2))) True (Some ''AI_GOVERNANCE_RUNTIME_FINDINGS_AGENT_EXEC_FAILURE_SEVERITY_CRITICAL'') False (Some (range_validator h (0)
        (1))) [] False None True,
      setting ''runtime_findings.agent_execution_failure_rate.severity_high_threshold'' CT_AGENTS_RUNTIME VT_FLOAT (PFloat (binary64 (3 /
        10))) True (Some ''AI_GOVERNANCE_RUNTIME_FINDINGS_AGENT_EXEC_FAILURE_SEVERITY_HIGH'') False (Some (range_validator h (0) (1))) []
        False None True,
      setting ''runtime_findings.agent_execution_failure_rate.severity_medium_threshold'' CT_AGENTS_RUNTIME VT_FLOAT (PFloat (binary64 (1
        / 5))) True (Some ''AI_GOVERNANCE_RUNTIME_FINDINGS_AGENT_EXEC_FAILURE_SEVERITY_MEDIUM'') False (Some (range_validator h (0) (1))) []
        False None True,
      setting ''runtime_findings.agent_execution_failure_rate.severity_low_threshold'' CT_AGENTS_RUNTIME VT_FLOAT (PFloat (binary64 (1 /
        10))) True (Some ''AI_GOVERNANCE_RUNTIME_FINDINGS_AGENT_EXEC_FAILURE_SEVERITY_LOW'') False (Some (range_validator h (0) (1))) []
        False None True,
      setting ''runtime_findings.agent_execution_failure_rate.resolution_window_hours'' CT_AGENTS_RUNTIME VT_INTEGER (PInt 48) True (Some
        ''AI_GOVERNANCE_RUNTIME_FINDINGS_AGENT_EXEC_FAILURE_RESOLUTION_HOURS'') False (Some (range_validator h (1) (720))) [] False None
        True]"

definition execution_latency_regression_definitions :: "settings_host \<Rightarrow> setting_definition list" where
  "execution_latency_regression_definitions h =
     [setting ''runtime_findings.execution_latency_regression.min_observation_count'' CT_AGENTS_RUNTIME VT_INTEGER (PInt 20) True (Some
        ''AI_GOVERNANCE_RUNTIME_FINDINGS_LATENCY_MIN_OBSERVATIONS'') False (Some (range_validator h (1) (10000))) [] False None True,
      setting ''runtime_findings.execution_latency_regression.baseline_window_days'' CT_AGENTS_RUNTIME VT_INTEGER (PInt 7) True (Some
        ''AI_GOVERNANCE_RUNTIME_FINDINGS_LATENCY_BASELINE_DAYS'') False (Some (range_validator h (1) (365))) [] False None True,
      setting ''runtime_findings.execution_latency_regression.observation_window_hours'' CT_AGENTS_RUNTIME VT_INTEGER (PInt 24) True (Some
        ''AI_GOVERNANCE_RUNTIME_FINDINGS_LATENCY_OBSERVATION_HOURS'') False (Some (range_validator h (1) (720))) [] False None True,
      setting ''runtime_findings.execution_latency_regression.relative_threshold'' CT_AGENTS_RUNTIME VT_FLOAT (PFloat (binary64 (3 / 2)))
        True (Some ''AI_GOVERNANCE_RUNTIME_FINDINGS_LATENCY_RELATIVE_THRESHOLD'') False (Some (range_validator h (1) (100))) [] False None
        True,
      setting ''runtime_findings.execution_latency_regression.severity_critical_threshold'' CT_AGENTS_RUNTIME VT_FLOAT (PFloat 3) True
        (Some ''AI_GOVERNANCE_RUNTIME_FINDINGS_LATENCY_SEVERITY_CRITICAL'') False (Some (range_validator h (1) (100))) [] False None True,
      setting ''runtime_findings.execution_latency_regression.severity_high_threshold'' CT_AGENTS_RUNTIME VT_FLOAT (PFloat 2) True (Some
        ''AI_GOVERNANCE_RUNTIME_FINDINGS_LATENCY_SEVERITY_HIGH'') False (Some (range_validator h (1) (100))) [] False None True,
      setting ''runtime_findings.execution_latency_regression.severity_medium_threshold'' CT_AGENTS_RUNTIME VT_FLOAT (PFloat (binary64 (3
        / 2))) True (Some ''AI_GOVERNANCE_RUNTIME_FINDINGS_LATENCY_SEVERITY_MEDIUM'') False (Some (range_validator h (1) (100))) [] False
        None True,
      setting ''runtime_findings.execution_latency_regression.severity_low_threshold'' CT_AGENTS_RUNTIME VT_FLOAT (PFloat (binary64 (6 /
        5))) True (Some ''AI_GOVERNANCE_RUNTIME_FINDINGS_LATENCY_SEVERITY_LOW'') False (Some (range_validator h (1) (100))) [] False None
        True,
      setting ''runtime_findings.execution_latency_regression.resolution_window_hours'' CT_AGENTS_RUNTIME VT_INTEGER (PInt 48) True (Some
        ''AI_GOVERNANCE_RUNTIME_FINDINGS_LATENCY_RESOLUTION_HOURS'') False (Some (range_validator h (1) (720))) [] False None True]"

definition evaluation_failure_rate_definitions :: "settings_host \<Rightarrow> setting_definition list" where
  "evaluation_failure_rate_definitions h =
     [setting ''runtime_findings.evaluation_failure_rate.min_observation_count'' CT_AGENTS_RUNTIME VT_INTEGER (PInt 10) True (Some
        ''AI_GOVERNANCE_RUNTIME_FINDINGS_EVAL_FAILURE_MIN_OBSERVATIONS'') False (Some (range_validator h (1) (10000))) [] False None True,
      setting ''runtime_findings.evaluation_failure_rate.baseline_window_days'' CT_AGENTS_RUNTIME VT_INTEGER (PInt 7) True (Some
        ''AI_GOVERNANCE_RUNTIME_FINDINGS_EVAL_FAILURE_BASELINE_DAYS'') False (Some (range_validator h (1) (365))) [] False None True,
      setting ''runtime_findings.evaluation_failure_rate.observation_window_hours'' CT_AGENTS_RUNTIME VT_INTEGER (PInt 24) True (Some
        ''AI_GOVERNANCE_RUNTIME_FINDINGS_EVAL_FAILURE_OBSERVATION_HOURS'') False (Some (range_validator h (1) (720))) [] False None True,
      setting ''runtime_findings.evaluation_failure_rate.absolute_threshold'' CT_AGENTS_RUNTIME VT_FLOAT (PFloat (binary64 (3 / 20))) True
        (Some ''AI_GOVERNANCE_RUNTIME_FINDINGS_EVAL_FAILURE_ABSOLUTE_THRESHOLD'') False (Some (range_validator h (0) (1))) [] False None
        True,
      setting ''runtime_findings.evaluation_failure_rate.relative_threshold'' CT_AGENTS_RUNTIME VT_FLOAT (PFloat 2) True (Some
        ''AI_GOVERNANCE_RUNTIME_FINDINGS_EVAL_FAILURE_RELATIVE_THRESHOLD'') False (Some (range_validator h (1) (100))) [] False None True,
      setting ''runtime_findings.evaluation_failure_rate.severity_critical_threshold'' CT_AGENTS_RUNTIME VT_FLOAT (PFloat (binary64 (1 /
        2))) True (Some ''AI_GOVERNANCE_RUNTIME_FINDINGS_EVAL_FAILURE_SEVERITY_CRITICAL'') False (Some (range_validator h (0) (1))) [] False
        None True,
      setting ''runtime_findings.evaluation_failure_rate.severity_high_threshold'' CT_AGENTS_RUNTIME VT_FLOAT (PFloat (binary64 (3 / 10)))
        True (Some ''AI_GOVERNANCE_RUNTIME_FINDINGS_EVAL_FAILURE_SEVERITY_HIGH'') False (Some (range_validator h (0) (1))) [] False None
        True,
      setting ''runtime_findings.evaluation_failure_rate.severity_medium_threshold'' CT_AGENTS_RUNTIME VT_FLOAT (PFloat (binary64 (1 /
        5))) True (Some ''AI_GOVERNANCE_RUNTIME_FINDINGS_EVAL_FAILURE_SEVERITY_MEDIUM'') False (Some (range_validator h (0) (1))) [] False
        None True,
      setting ''runtime_findings.evaluation_failure_rate.severity_low_threshold'' CT_AGENTS_RUNTIME VT_FLOAT (PFloat (binary64 (3 / 20)))
        True (Some ''AI_GOVERNANCE_RUNTIME_FINDINGS_EVAL_FAILURE_SEVERITY_LOW'') False (Some (range_validator h (0) (1))) [] False None True,
      setting ''runtime_findings.evaluation_failure_rate.resolution_window_hours'' CT_AGENTS_RUNTIME VT_INTEGER (PInt 48) True (Some
        ''AI_GOVERNANCE_RUNTIME_FINDINGS_EVAL_FAILURE_RESOLUTION_HOURS'') False (Some (range_validator h (1) (720))) [] False None True]"

definition policy_denial_rate_definitions :: "settings_host \<Rightarrow> setting_definition list" where
  "policy_denial_rate_definitions h =
     [setting ''runtime_findings.policy_denial_rate.min_observation_count'' CT_AGENTS_RUNTIME VT_INTEGER (PInt 10) True (Some
        ''AI_GOVERNANCE_RUNTIME_FINDINGS_POLICY_DENIAL_MIN_OBSERVATIONS'') False (Some (range_validator h (1) (10000))) [] False None True,
      setting ''runtime_findings.policy_denial_rate.baseline_window_days'' CT_AGENTS_RUNTIME VT_INTEGER (PInt 7) True (Some
        ''AI_GOVERNANCE_RUNTIME_FINDINGS_POLICY_DENIAL_BASELINE_DAYS'') False (Some (range_validator h (1) (365))) [] False None True,
      setting ''runtime_findings.policy_denial_rate.observation_window_hours'' CT_AGENTS_RUNTIME VT_INTEGER (PInt 24) True (Some
        ''AI_GOVERNANCE_RUNTIME_FINDINGS_POLICY_DENIAL_OBSERVATION_HOURS'') False (Some (range_validator h (1) (720))) [] False None True,
      setting ''runtime_findings.policy_denial_rate.absolute_threshold'' CT_AGENTS_RUNTIME VT_FLOAT (PFloat (binary64 (1 / 10))) True
        (Some ''AI_GOVERNANCE_RUNTIME_FINDINGS_POLICY_DENIAL_ABSOLUTE_THRESHOLD'') False (Some (range_validator h (0) (1))) [] False None
        True,
      setting ''runtime_findings.policy_denial_rate.relative_threshold'' CT_AGENTS_RUNTIME VT_FLOAT (PFloat 2) True (Some
        ''AI_GOVERNANCE_RUNTIME_FINDINGS_POLICY_DENIAL_RELATIVE_THRESHOLD'') False (Some (range_validator h (1) (100))) [] False None True,
      setting ''runtime_findings.policy_denial_rate.severity_critical_threshold'' CT_AGENTS_RUNTIME VT_FLOAT (PFloat (binary64 (1 / 2)))
        True (Some ''AI_GOVERNANCE_RUNTIME_FINDINGS_POLICY_DENIAL_SEVERITY_CRITICAL'') False (Some (range_validator h (0) (1))) [] False
        None True,
      setting ''runtime_findings.policy_denial_rate.severity_high_threshold'' CT_AGENTS_RUNTIME VT_FLOAT (PFloat (binary64 (3 / 10))) True
        (Some ''AI_GOVERNANCE_RUNTIME_FINDINGS_POLICY_DENIAL_SEVERITY_HIGH'') False (Some (range_validator h (0) (1))) [] False None True,
      setting ''runtime_findings.policy_denial_rate.severity_medium_threshold'' CT_AGENTS_RUNTIME VT_FLOAT (PFloat (binary64 (1 / 5)))
        True (Some ''AI_GOVERNANCE_RUNTIME_FINDINGS_POLICY_DENIAL_SEVERITY_MEDIUM'') False (Some (range_validator h (0) (1))) [] False None
        True,
      setting ''runtime_findings.policy_denial_rate.severity_low_threshold'' CT_AGENTS_RUNTIME VT_FLOAT (PFloat (binary64 (1 / 10))) True
        (Some ''AI_GOVERNANCE_RUNTIME_FINDINGS_POLICY_DENIAL_SEVERITY_LOW'') False (Some (range_validator h (0) (1))) [] False None True,
      setting ''runtime_findings.policy_denial_rate.resolution_window_hours'' CT_AGENTS_RUNTIME VT_INTEGER (PInt 48) True (Some
        ''AI_GOVERNANCE_RUNTIME_FINDINGS_POLICY_DENIAL_RESOLUTION_HOURS'') False (Some (range_validator h (1) (720))) [] False None True]"

definition repeated_runtime_error_definitions :: "settings_host \<Rightarrow> setting_definition list" where
  "repeated_runtime_error_definitions h =
     [setting ''runtime_findings.repeated_runtime_error.min_observation_count'' CT_AGENTS_RUNTIME VT_INTEGER (PInt 5) True (Some
        ''AI_GOVERNANCE_RUNTIME_FINDINGS_REPEATED_ERROR_MIN_OBSERVATIONS'') False (Some (range_validator h (1) (10000))) [] False None True,
      setting ''runtime_findings.repeated_runtime_error.baseline_window_days'' CT_AGENTS_RUNTIME VT_INTEGER (PInt 7) True (Some
        ''AI_GOVERNANCE_RUNTIME_FINDINGS_REPEATED_ERROR_BASELINE_DAYS'') False (Some (range_validator h (1) (365))) [] False None True,
      setting ''runtime_findings.repeated_runtime_error.observation_window_hours'' CT_AGENTS_RUNTIME VT_INTEGER (PInt 24) True (Some
        ''AI_GOVERNANCE_RUNTIME_FINDINGS_REPEATED_ERROR_OBSERVATION_HOURS'') False (Some (range_validator h (1) (720))) [] False None True,
      setting ''runtime_findings.repeated_runtime_error.absolute_threshold'' CT_AGENTS_RUNTIME VT_INTEGER (PInt 3) True (Some
        ''AI_GOVERNANCE_RUNTIME_FINDINGS_REPEATED_ERROR_ABSOLUTE_THRESHOLD'') False (Some (range_validator h (1) (1000))) [] False None True,
      setting ''runtime_findings.repeated_runtime_error.severity_critical_threshold'' CT_AGENTS_RUNTIME VT_INTEGER (PInt 20) True (Some
        ''AI_GOVERNANCE_RUNTIME_FINDINGS_REPEATED_ERROR_SEVERITY_CRITICAL'') False (Some (range_validator h (1) (10000))) [] False None True,
      setting ''runtime_findings.repeated_runtime_error.severity_high_threshold'' CT_AGENTS_RUNTIME VT_INTEGER (PInt 10) True (Some
        ''AI_GOVERNANCE_RUNTIME_FINDINGS_REPEATED_ERROR_SEVERITY_HIGH'') False (Some (range_validator h (1) (10000))) [] False None True,
      setting ''runtime_findings.repeated_runtime_error.severity_medium_threshold'' CT_AGENTS_RUNTIME VT_INTEGER (PInt 5) True (Some
        ''AI_GOVERNANCE_RUNTIME_FINDINGS_REPEATED_ERROR_SEVERITY_MEDIUM'') False (Some (range_validator h (1) (10000))) [] False None True,
      setting ''runtime_findings.repeated_runtime_error.severity_low_threshold'' CT_AGENTS_RUNTIME VT_INTEGER (PInt 3) True (Some
        ''AI_GOVERNANCE_RUNTIME_FINDINGS_REPEATED_ERROR_SEVERITY_LOW'') False (Some (range_validator h (1) (10000))) [] False None True,
      setting ''runtime_findings.repeated_runtime_error.resolution_window_hours'' CT_AGENTS_RUNTIME VT_INTEGER (PInt 24) True (Some
        ''AI_GOVERNANCE_RUNTIME_FINDINGS_REPEATED_ERROR_RESOLUTION_HOURS'') False (Some (range_validator h (1) (720))) [] False None True]"

definition findings_lifecycle_definitions :: "settings_host \<Rightarrow> setting_definition list" where
  "findings_lifecycle_definitions h =
     [setting ''runtime_findings.auto_resolution.consecutive_normal_windows'' CT_AGENTS_RUNTIME VT_INTEGER (PInt 2) True (Some
        ''AI_GOVERNANCE_RUNTIME_FINDINGS_AUTO_RESOLUTION_CONSECUTIVE_WINDOWS'') False (Some (range_validator h (1) (10))) [] False None True,
      setting ''runtime_findings.reconciliation.allowed_lateness_hours'' CT_AGENTS_RUNTIME VT_INTEGER (PInt 2) True (Some
        ''AI_GOVERNANCE_RUNTIME_FINDINGS_ALLOWED_LATENESS_HOURS'') False (Some (range_validator h (0) (168))) [] False None True,
      setting ''runtime_findings.validation_profile.enabled'' CT_AGENTS_RUNTIME VT_BOOLEAN (PBool False) True None False None [] False
        (Some [SC_PROJECT]) True,
      setting ''runtime_findings.validation_profile.baseline_minutes'' CT_AGENTS_RUNTIME VT_INTEGER (PInt 10) True None False (Some
        (range_validator h (1) (1440))) [] False (Some [SC_PROJECT]) True,
      setting ''runtime_findings.validation_profile.observation_minutes'' CT_AGENTS_RUNTIME VT_INTEGER (PInt 2) True None False (Some
        (range_validator h (1) (1440))) [] False (Some [SC_PROJECT]) True,
      setting ''runtime_findings.validation_profile.resolution_minutes'' CT_AGENTS_RUNTIME VT_INTEGER (PInt 2) True None False (Some
        (range_validator h (1) (1440))) [] False (Some [SC_PROJECT]) True]"

definition runtime_findings_definitions :: "settings_host \<Rightarrow> setting_definition list" where
  "runtime_findings_definitions h =
     tool_failure_rate_definitions h @ agent_execution_failure_rate_definitions h @ execution_latency_regression_definitions
     h @ evaluation_failure_rate_definitions h @ policy_denial_rate_definitions h @ repeated_runtime_error_definitions h @
     findings_lifecycle_definitions h"

text \<open>\<open>CAUSAL_AUDIT_DEFINITIONS\<close> of \<open>definitions/causal_audit.py\<close>.\<close>

definition causal_audit_definitions :: "settings_host \<Rightarrow> setting_definition list" where
  "causal_audit_definitions h =
     [setting ''causal_audit.influence_threshold'' CT_AGENTS_RUNTIME VT_FLOAT (PFloat (binary64 (1 / 100))) True (Some
        ''AI_GOVERNANCE_CAUSAL_AUDIT_INFLUENCE_THRESHOLD'') False (Some (range_validator h (0) (1000000))) [] False None True,
      setting ''causal_audit.saturation_threshold'' CT_AGENTS_RUNTIME VT_FLOAT (PFloat (binary64 (19 / 20))) True (Some
        ''AI_GOVERNANCE_CAUSAL_AUDIT_SATURATION_THRESHOLD'') False (Some (range_validator h (0) (1000000))) [] False None True,
      setting ''causal_audit.default_counterfactual_samples'' CT_AGENTS_RUNTIME VT_INTEGER (PInt 3) True (Some
        ''AI_GOVERNANCE_CAUSAL_AUDIT_DEFAULT_COUNTERFACTUAL_SAMPLES'') False (Some (range_validator h (1) (100))) [] False None True,
      setting ''causal_audit.max_counterfactual_samples'' CT_AGENTS_RUNTIME VT_INTEGER (PInt 10) True (Some
        ''AI_GOVERNANCE_CAUSAL_AUDIT_MAX_COUNTERFACTUAL_SAMPLES'') False (Some (range_validator h (1) (100))) [] False None True,
      setting ''causal_audit.max_tool_calls'' CT_AGENTS_RUNTIME VT_INTEGER (PInt 20) True (Some
        ''AI_GOVERNANCE_CAUSAL_AUDIT_MAX_TOOL_CALLS'') False (Some (range_validator h (1) (1000))) [] False None True]"

lemmas definition_lists =
  general_definitions_def retention_and_replay_definitions_def recommendation_definitions_def governance_definitions_def
  evaluation_definitions_def operations_definitions_def telemetry_definitions_def tool_failure_rate_definitions_def
  agent_execution_failure_rate_definitions_def execution_latency_regression_definitions_def
  evaluation_failure_rate_definitions_def policy_denial_rate_definitions_def repeated_runtime_error_definitions_def
  findings_lifecycle_definitions_def runtime_findings_definitions_def causal_audit_definitions_def

text \<open>\<open>OSS_SETTING_DEFINITION_SETS\<close> and \<open>SETTINGS_REGISTRY\<close>.\<close>

definition built_in_definitions :: "settings_host \<Rightarrow> setting_definition list" where
  "built_in_definitions h =
     general_definitions h @ governance_definitions h @ evaluation_definitions h @ operations_definitions h
     @ telemetry_definitions h @ runtime_findings_definitions h @ causal_audit_definitions h"

definition settings_registry :: "settings_host \<Rightarrow> exc + definition_registry" where
  "settings_registry h = compose_definitions (built_in_definitions h) []"

end
