(* ===== verification/Settings_Registry.thy ===== *)
theory Settings_Registry
  imports Settings_Definitions
begin

text \<open>
  The values that a definition admits, and the registry of the built-in definitions: it composes
  without a duplicate, every default is a value that its own definition parses to itself, with one
  exception, and that exception can never be set.
\<close>

section \<open>Values of a definition\<close>

definition has_value_type :: "setting_definition \<Rightarrow> pyval \<Rightarrow> bool" where
  "has_value_type d v =
     (case (sd_value_type d, v) of
        (VT_STRING, PStr t) \<Rightarrow> True
      | (VT_INTEGER, PInt i) \<Rightarrow> True
      | (VT_FLOAT, PFloat x) \<Rightarrow> True
      | (VT_BOOLEAN, PBool b) \<Rightarrow> True
      | (VT_DURATION, PStr t) \<Rightarrow> is_duration t
      | (VT_ENUM, PStr t) \<Rightarrow> t \<in> set (sd_enum_values d)
      | (VT_JSON, _) \<Rightarrow> True
      | _ \<Rightarrow> False)"

definition conforms :: "setting_definition \<Rightarrow> pyval \<Rightarrow> bool" where
  "conforms d v = (has_value_type d v \<and> (case sd_validator d of None \<Rightarrow> True | Some check \<Rightarrow> check v = None))"

lemma converted_has_type: "converted h d v = Inr p \<Longrightarrow> has_value_type d p"
  by (auto simp: converted_def has_value_type_def Let_def res_bind_Inr_iff split: value_type.splits pyval.splits if_splits)

lemma parse_value_Inr_iff:
  "parse_value h d v = Inr p \<longleftrightarrow>
     converted h d v = Inr p \<and> (case sd_validator d of None \<Rightarrow> True | Some check \<Rightarrow> check p = None)"
  by (auto simp: parse_value_def split: sum.splits option.splits if_splits)

lemma parse_value_conforms: "parse_value h d v = Inr p \<Longrightarrow> conforms d p"
  by (auto simp: parse_value_Inr_iff conforms_def dest: converted_has_type)

text \<open>An enumerated value is lower case: no other name of the enumeration is ever accepted.\<close>

lemma lower_char_not_upper: "\<not> is_ascii_upper (lower_char c)"
  by (simp add: lower_char_def is_ascii_upper_def code_point_def Let_def)

lemma enum_value_lower:
  assumes "parse_value h d v = Inr (PStr t)" "sd_value_type d = VT_ENUM"
  shows "t \<in> set (sd_enum_values d) \<and> list_all (\<lambda>c. \<not> is_ascii_upper c) t"
  using assms by (auto simp: parse_value_Inr_iff converted_def Let_def py_lower_def list_all_iff lower_char_not_upper split: if_splits)

section \<open>The registry\<close>

lemma compose_definitions_distinct:
  "distinct (map fst r @ map sd_key ds) \<Longrightarrow> compose_definitions ds r = Inr (r @ map (\<lambda>d. (sd_key d, d)) ds)"
proof (induction ds arbitrary: r)
  case (Cons d ds)
  then have new: "sd_key d \<notin> fst ` set r" by auto
  then have "dict_put (sd_key d) d r = r @ [(sd_key d, d)]" by (induction r) auto
  moreover have "dict_get r (sd_key d) = None" using new by (simp add: map_of_eq_None_iff)
  ultimately show ?case using Cons by simp
qed simp

lemma built_in_keys_distinct: "distinct (map sd_key (built_in_definitions h))"
  by (simp add: built_in_definitions_def definition_lists setting_def)

lemma settings_registry_eq: "settings_registry h = Inr (map (\<lambda>d. (sd_key d, d)) (built_in_definitions h))"
  using compose_definitions_distinct [of "[]"] built_in_keys_distinct by (simp add: settings_registry_def)

text \<open>
  What the service relies on in a definition: its default is admissible; what it reports instead of a
  secret or of the address of an integration is a name of its enumeration; the version of Python is a text.
\<close>

definition reported_as_status :: "setting_definition \<Rightarrow> bool" where
  "reported_as_status d = (sd_sensitive d \<or> py_startswith (sd_key d) ''integrations.'')"

definition definition_sound :: "settings_host \<Rightarrow> setting_definition \<Rightarrow> bool" where
  "definition_sound h d =
     ((sd_key d = ''replay.default_baseline_strategy'' \<or> parse_value h d (sd_default_value d) = Inr (sd_default_value d))
      \<and> conforms d (sd_default_value d)
      \<and> (if reported_as_status d
          then sd_value_type d = VT_ENUM \<and> ''connected'' \<in> set (sd_enum_values d) \<and> ''disconnected'' \<in> set (sd_enum_values d)
               \<and> Option.is_none (sd_validator d) else True)
      \<and> (if sd_key d = ''system.python_version'' then sd_value_type d = VT_STRING \<and> Option.is_none (sd_validator d) else True))"

lemma definitions_sound:
  "list_all (definition_sound h) (general_definitions h)"
  "list_all (definition_sound h) (governance_definitions h)"
  "list_all (definition_sound h) (evaluation_definitions h)"
  "list_all (definition_sound h) (operations_definitions h)"
  "list_all (definition_sound h) (telemetry_definitions h)"
  "list_all (definition_sound h) (runtime_findings_definitions h)"
  "list_all (definition_sound h) (causal_audit_definitions h)"
        apply code_simp
       apply code_simp
      apply code_simp
     apply code_simp
    apply code_simp
   apply code_simp
  apply code_simp
  done

lemma built_in_definition_sound: "d \<in> set (built_in_definitions h) \<Longrightarrow> definition_sound h d"
  using definitions_sound [of h] unfolding built_in_definitions_def list_all_iff by auto

text \<open>The shape of the definitions that the properties speak of.\<close>

abbreviation retention_key :: string where
  "retention_key \<equiv> ''evaluation.retention''"

abbreviation strategy_key :: string where
  "strategy_key \<equiv> ''replay.default_baseline_strategy''"

definition named_shape :: "setting_definition \<Rightarrow> bool" where
  "named_shape d =
     ((if sd_key d = retention_key then sd_value_type d = VT_DURATION else True)
      \<and> (if sd_key d = strategy_key
          then sd_value_type d = VT_ENUM \<and> sd_enum_values d = [''EXPLICIT'', ''LATEST_COMPATIBLE'', ''SOURCE_PRIMARY'']
               \<and> sd_environment_variable d = Some ''AI_GOVERNANCE_REPLAY_DEFAULT_BASELINE_STRATEGY'' else True))"

lemma named_shapes:
  "list_all named_shape (general_definitions h)" "list_all named_shape (governance_definitions h)"
  "list_all named_shape (evaluation_definitions h)" "list_all named_shape (operations_definitions h)"
  "list_all named_shape (telemetry_definitions h)" "list_all named_shape (runtime_findings_definitions h)"
  "list_all named_shape (causal_audit_definitions h)"
  by (simp_all add: definition_lists setting_def named_shape_def)

lemma built_in_named_shape: "d \<in> set (built_in_definitions h) \<Longrightarrow> named_shape d"
  using named_shapes [of h] unfolding built_in_definitions_def list_all_iff by auto

lemma strategy_registered: "strategy_key \<in> sd_key ` set (built_in_definitions h)"
  by (simp add: built_in_definitions_def image_Un governance_definitions_def retention_and_replay_definitions_def setting_def)

text \<open>
  The built-in definitions form one registry: no key is defined twice, every definition stands under
  its own key, every default is a value its definition admits, and every default but that of
  \<open>replay.default_baseline_strategy\<close> is parsed to itself, so that writing the default of a setting
  back is no change.
\<close>

theorem built_in_settings_consistent:
  "\<exists>r. settings_registry h = Inr r \<and> map fst r = map sd_key (built_in_definitions h) \<and> dict_ok r
    \<and> list_all (\<lambda>(k, d). sd_key d = k \<and> conforms d (sd_default_value d)) r
    \<and> list_all (\<lambda>(k, d). k = strategy_key \<or> parse_value h d (sd_default_value d) = Inr (sd_default_value d)) r"
proof -
  let ?r = "map (\<lambda>d. (sd_key d, d)) (built_in_definitions h)"
  have "dict_ok ?r" using built_in_keys_distinct [of h] by (simp add: dict_ok_def comp_def)
  moreover have "list_all (\<lambda>(k, d). sd_key d = k \<and> conforms d (sd_default_value d)) ?r"
    "list_all (\<lambda>(k, d). k = strategy_key \<or> parse_value h d (sd_default_value d) = Inr (sd_default_value d)) ?r"
    using built_in_definition_sound [of _ h] by (auto simp: list_all_iff definition_sound_def)
  ultimately show ?thesis using settings_registry_eq [of h] by (simp add: comp_def)
qed

end
