(* ===== verification/Settings_Properties.thy ===== *)
theory Settings_Properties
  imports Settings_Registry Tenancy_Properties
begin

text \<open>
  Properties of settings control. A value in force always conforms to its definition; the audit
  determines the stored settings; an update is never lost to another with the same expected version;
  what an update changes, and for whom; and the retention that the evaluation service reads is a
  duration it can use.
\<close>

section \<open>Writes\<close>

definition version_of :: "settings_state \<Rightarrow> setting_identity \<Rightarrow> int" where
  "version_of s k = (case get_setting s k of None \<Rightarrow> 0 | Some x \<Rightarrow> rst_version x)"

definition stored_item :: "datetime \<Rightarrow> setting_identity \<Rightarrow> pyval \<Rightarrow> string \<Rightarrow> int \<Rightarrow> runtime_setting" where
  "stored_item now k v actor version =
     \<lparr>rst_key = fst k, rst_scope = fst (snd k), rst_scope_id = snd (snd k), rst_value = v, rst_version = version,
      rst_updated_by = actor, rst_updated_at = now\<rparr>"

definition audit_entry :: "datetime \<Rightarrow> string \<Rightarrow> setting_identity \<Rightarrow> runtime_setting option \<Rightarrow> pyval \<Rightarrow> string \<Rightarrow> string \<Rightarrow> int \<Rightarrow> setting_audit" where
  "audit_entry now i k old v actor reason version =
     \<lparr>sa_audit_id = i, sa_key = fst k, sa_scope = fst (snd k), sa_scope_id = snd (snd k),
      sa_old_value = (case old of None \<Rightarrow> PNone | Some x \<Rightarrow> rst_value x), sa_new_value = v, sa_actor_id = actor,
      sa_reason = reason, sa_version = version, sa_created_at = now\<rparr>"

lemma save_setting_Inr_iff:
  "save_setting now i k v actor reason expected s = (Inr x, t) \<longleftrightarrow>
     version_of s k = expected \<and> x = stored_item now k v actor (expected + 1)
     \<and> t = s\<lparr>ss_values := dict_put k x (ss_values s),
            ss_audit := ss_audit s @ [audit_entry now i k (get_setting s k) v actor reason (expected + 1)]\<rparr>"
  by (cases k) (auto simp: save_setting_def version_of_def stored_item_def audit_entry_def Let_def split: option.splits)

lemma save_setting_conflict:
  "version_of s k \<noteq> expected \<Longrightarrow>
     save_setting now i k v actor reason expected s = (Inl (version_conflict (fst k) expected (version_of s k)), s)"
  by (cases k) (auto simp: save_setting_def version_of_def Let_def split: option.splits)

text \<open>One write of the repository, with what the service has checked by then; or a count.\<close>

inductive setting_move :: "configuration \<Rightarrow> settings_state \<Rightarrow> settings_state \<Rightarrow> bool" for c where
  counted: "setting_move c s (s\<lparr>ss_metrics := m\<rparr>)"
| saved: "dict_get (cg_registry c) (fst k) = Some d \<Longrightarrow> sd_mutable d \<Longrightarrow> sd_runtime_applied d
    \<Longrightarrow> fst (snd k) \<in> set (sd_allowed_scopes d) \<Longrightarrow> environment_of c d = None \<Longrightarrow> parse_value (cg_host c) d v = Inr p
    \<Longrightarrow> save_setting now i k p actor reason expected s = (Inr x, t) \<Longrightarrow> setting_move c s t"

inductive_cases setting_moveE: "setting_move c s t"

lemma resolve_setting_moves: "act_within (setting_move c) (resolve_setting c key cx scope) s"
  by (rule act_within_step)
    (auto simp: resolve_setting_def counted_override_def Let_def split: option.splits sum.splits prod.splits if_splits
      intro: setting_move.counted)

lemma change_checks_passed:
  "checked (change_checks c q d) () = Inr () \<longleftrightarrow>
     sd_mutable d \<and> sd_runtime_applied d \<and> sg_scope q \<in> set (sd_allowed_scopes d) \<and> environment_of c d = None"
  by (auto simp: change_checks_def split: if_splits)

lemma resolve_setting_stored:
  assumes "dict_get (cg_registry c) key = Some d" "scope \<in> set (sd_allowed_scopes d)" "scope_id scope cx = Inr i" "environment_of c d = None"
  shows "resolve_setting c key cx scope s =
    (res_bind (effective c s d cx) (\<lambda>(v, source, inherited).
       Inr \<lparr>rv_definition = d, rv_edit_scope = scope, rv_edit_scope_id = i,
            rv_runtime_value = map_option rst_value (get_setting s (key, scope, i)), rv_effective_value = v, rv_source = source,
            rv_inherited_from = inherited, rv_version = map_option rst_version (get_setting s (key, scope, i)),
            rv_updated_by = map_option rst_updated_by (get_setting s (key, scope, i)),
            rv_updated_at = map_option rst_updated_at (get_setting s (key, scope, i))\<rparr>), s)"
  using assms by (simp add: resolve_setting_def Let_def)

lemma validate_setting_Inr_iff:
  "validate_setting c key v s = (Inr p, t) \<longleftrightarrow>
     t = s \<and> (\<exists>d. dict_get (cg_registry c) key = Some d \<and> parse_value (cg_host c) d v = Inr p)"
  by (auto simp: validate_setting_def split: option.splits sum.splits)

text \<open>What a successful update has checked and what it leaves.\<close>

definition updated :: "configuration \<Rightarrow> datetime \<Rightarrow> string \<Rightarrow> setting_change \<Rightarrow> setting_definition \<Rightarrow> string \<Rightarrow> pyval
     \<Rightarrow> settings_state \<Rightarrow> settings_state \<Rightarrow> bool" where
  "updated c now i q d sid p s t =
     (let k = (sg_key q, sg_scope q, sid) in
      dict_get (cg_registry c) (sg_key q) = Some d \<and> sd_mutable d \<and> sd_runtime_applied d
      \<and> sg_scope q \<in> set (sd_allowed_scopes d) \<and> environment_of c d = None
      \<and> scope_id (sg_scope q) (sg_context q) = Inr sid \<and> enforce_update c d (sg_scope q) sid (sg_tenant q) = Inr ()
      \<and> parse_value (cg_host c) d (sg_value q) = Inr p \<and> version_of s k = sg_expected_version q
      \<and> t = s\<lparr>ss_values := dict_put k (stored_item now k p (sg_actor_id q) (sg_expected_version q + 1)) (ss_values s),
             ss_audit := ss_audit s
               @ [audit_entry now i k (get_setting s k) p (sg_actor_id q) (sg_reason q) (sg_expected_version q + 1)],
             ss_metrics := (ss_metrics s)\<lparr>sm_updates := sm_updates (ss_metrics s) + 1\<rparr>\<rparr>)"

lemma update_setting_InrD:
  assumes "update_setting c now i q s = (Inr r, t)"
  shows "\<exists>d sid p. updated c now i q d sid p s t"
proof -
  obtain d where d: "dict_get (cg_registry c) (sg_key q) = Some d"
    using assms by (auto simp: update_setting_def split: option.splits)
  note run = assms [unfolded update_setting_def d option.case]
  have checks: "checked (change_checks c q d) () = Inr ()" using run by (cases "checked (change_checks c q d) ()") simp_all
  note run1 = run [unfolded checks act_bind_lift sum.case]
  obtain sid where sid: "scope_id (sg_scope q) (sg_context q) = Inr sid"
    using run1 by (cases "scope_id (sg_scope q) (sg_context q)") simp_all
  have enforced: "enforce_update c d (sg_scope q) sid (sg_tenant q) = Inr ()"
    using run1 unfolding sid by (cases "enforce_update c d (sg_scope q) sid (sg_tenant q)") simp_all
  note run2 = run1 [unfolded sid enforced act_bind_lift sum.case]
  obtain p s' where p: "validate_setting c (sg_key q) (sg_value q) s = (Inr p, s')"
    and rest: "act_bind (save_setting now i (sg_key q, sg_scope q, sid) p (sg_actor_id q) (sg_reason q) (sg_expected_version q)) (\<lambda>_.
        act_bind (\<lambda>s. (Inr (), s\<lparr>ss_metrics := (ss_metrics s)\<lparr>sm_updates := sm_updates (ss_metrics s) + 1\<rparr>\<rparr>)) (\<lambda>_.
        resolve_setting c (sg_key q) (sg_context q) (sg_scope q))) s' = (Inr r, t)"
    using run2 by (rule act_bind_InrE)
  have s': "s' = s" "parse_value (cg_host c) d (sg_value q) = Inr p" using p d by (auto simp: validate_setting_Inr_iff)
  obtain x u where u: "save_setting now i (sg_key q, sg_scope q, sid) p (sg_actor_id q) (sg_reason q) (sg_expected_version q) s = (Inr x, u)"
    and last: "act_bind (\<lambda>s. (Inr (), s\<lparr>ss_metrics := (ss_metrics s)\<lparr>sm_updates := sm_updates (ss_metrics s) + 1\<rparr>\<rparr>)) (\<lambda>_.
        resolve_setting c (sg_key q) (sg_context q) (sg_scope q)) u = (Inr r, t)"
    using rest unfolding s'(1) by (rule act_bind_InrE)
  have ok: "sd_mutable d" "sd_runtime_applied d" "sg_scope q \<in> set (sd_allowed_scopes d)" "environment_of c d = None"
    using checks by (simp_all add: change_checks_passed)
  have "t = u\<lparr>ss_metrics := (ss_metrics u)\<lparr>sm_updates := sm_updates (ss_metrics u) + 1\<rparr>\<rparr>"
    using last resolve_setting_stored [OF d ok(3) sid ok(4)] by (simp add: act_bind_def)
  then have "updated c now i q d sid p s t"
    using d ok sid enforced s'(2) u by (simp add: updated_def Let_def save_setting_Inr_iff)
  then show ?thesis by blast
qed

text \<open>An update that is refused changes at most the counters.\<close>

lemma resolve_setting_stored_Inr:
  assumes "dict_get (cg_registry c) key = Some d" "scope \<in> set (sd_allowed_scopes d)" "scope_id scope cx = Inr i" "environment_of c d = None"
  shows "resolve_setting c key cx scope s \<noteq> (Inl e, t)"
  unfolding resolve_setting_stored [OF assms] using assms(4) by (auto simp: effective_def split: option.splits)

lemma update_setting_InlD:
  assumes "update_setting c now i q s = (Inl e, t)"
  shows "\<exists>m. t = s\<lparr>ss_metrics := m\<rparr>"
proof (cases "dict_get (cg_registry c) (sg_key q)")
  case None
  then show ?thesis using assms by (auto simp: update_setting_def intro: exI [of _ "ss_metrics s"])
next
  case (Some d)
  note run = assms [unfolded update_setting_def Some option.case]
  show ?thesis
  proof (cases "t = s")
    case True
    then show ?thesis by (auto intro: exI [of _ "ss_metrics s"])
  next
    case False
    have checks: "checked (change_checks c q d) () = Inr ()" using run False by (cases "checked (change_checks c q d) ()") auto
    obtain sid where sid: "scope_id (sg_scope q) (sg_context q) = Inr sid"
      using run False unfolding checks by (cases "scope_id (sg_scope q) (sg_context q)") auto
    have enforced: "enforce_update c d (sg_scope q) sid (sg_tenant q) = Inr ()"
      using run False unfolding checks sid by (cases "enforce_update c d (sg_scope q) sid (sg_tenant q)") auto
    have ok: "sg_scope q \<in> set (sd_allowed_scopes d)" "environment_of c d = None"
      using checks by (simp_all add: change_checks_passed)
    show ?thesis
      using run False resolve_setting_stored_Inr [OF Some ok(1) sid ok(2)]
      unfolding checks sid enforced act_bind_lift sum.case act_bind_def validate_setting_def Some
      by (auto simp: save_setting_def Let_def split: sum.splits prod.splits if_splits)
  qed
qed

lemma updated_moves:
  assumes "updated c now i q d sid p s t"
  shows "(setting_move c)\<^sup>*\<^sup>* s t"
proof -
  let ?k = "(sg_key q, sg_scope q, sid)"
  have "save_setting now i ?k p (sg_actor_id q) (sg_reason q) (sg_expected_version q) s
      = (Inr (stored_item now ?k p (sg_actor_id q) (sg_expected_version q + 1)), t\<lparr>ss_metrics := ss_metrics s\<rparr>)"
    using assms by (simp add: updated_def Let_def save_setting_Inr_iff)
  then have "setting_move c s (t\<lparr>ss_metrics := ss_metrics s\<rparr>)"
    using assms by (intro setting_move.saved [where k = ?k and d = d and v = "sg_value q"]) (simp_all add: updated_def Let_def)
  moreover have "setting_move c (t\<lparr>ss_metrics := ss_metrics s\<rparr>) t"
    using setting_move.counted [of c "t\<lparr>ss_metrics := ss_metrics s\<rparr>" "ss_metrics t"] by simp
  ultimately show ?thesis by (meson converse_rtranclp_into_rtranclp r_into_rtranclp)
qed

lemma update_setting_moves: "(setting_move c)\<^sup>*\<^sup>* s (snd (update_setting c now i q s))"
proof (cases "update_setting c now i q s")
  case (Pair r t)
  then show ?thesis
    by (cases r) (auto dest!: update_setting_InlD update_setting_InrD dest: updated_moves intro: setting_move.counted)
qed

section \<open>Values conform\<close>

definition values_ok :: "configuration \<Rightarrow> settings_state \<Rightarrow> bool" where
  "values_ok c s = all_entries (\<lambda>k x. rst_scope x = fst (snd k)
     \<and> (\<exists>d. dict_get (cg_registry c) (fst k) = Some d \<and> conforms d (rst_value x))) (ss_values s)"

definition setting_history :: "settings_state \<Rightarrow> setting_identity \<Rightarrow> setting_audit list" where
  "setting_history s k = filter (\<lambda>a. (sa_key a, sa_scope a, sa_scope_id a) = k) (ss_audit s)"

definition setting_of_audit :: "setting_audit \<Rightarrow> runtime_setting" where
  "setting_of_audit a =
     \<lparr>rst_key = sa_key a, rst_scope = sa_scope a, rst_scope_id = sa_scope_id a, rst_value = sa_new_value a, rst_version = sa_version a,
      rst_updated_by = sa_actor_id a, rst_updated_at = sa_created_at a\<rparr>"

text \<open>The stored setting is the last of its history, which is numbered from 1 and without a gap.\<close>

definition accounted :: "settings_state \<Rightarrow> setting_identity \<Rightarrow> bool" where
  "accounted s k =
     (let h = setting_history s k in
      get_setting s k = (if h = [] then None else Some (setting_of_audit (last h)))
      \<and> map sa_version h = map int [1..<Suc (length h)]
      \<and> map sa_old_value h = butlast (PNone # map sa_new_value h))"

definition settings_inv :: "configuration \<Rightarrow> settings_state \<Rightarrow> bool" where
  "settings_inv c s = (values_ok c s \<and> (\<forall>k. accounted s k))"

lemma empty_settings_inv: "settings_inv c empty_settings"
  by (simp add: settings_inv_def values_ok_def all_entries_def accounted_def setting_history_def get_setting_def empty_settings_def)

lemma saved_values_ok:
  assumes "values_ok c s" "dict_get (cg_registry c) (fst k) = Some d" "parse_value (cg_host c) d v = Inr p"
    and "save_setting now i k p actor reason expected s = (Inr x, t)"
  shows "values_ok c t"
  using assms unfolding values_ok_def
  by (auto simp: save_setting_Inr_iff stored_item_def intro!: all_entries_put dest: parse_value_conforms)

lemma accounted_version: "accounted s k \<Longrightarrow> version_of s k = int (length (setting_history s k))"
proof -
  assume a: "accounted s k"
  show ?thesis
  proof (cases "setting_history s k = []")
    case False
    let ?h = "setting_history s k"
    have "sa_version (last ?h) = last (map sa_version ?h)" using False by (simp add: last_map)
    also have "\<dots> = last (map int [1..<Suc (length ?h)])" using a by (simp only: accounted_def Let_def)
    also have "\<dots> = int (length ?h)" using False by (simp add: last_map Suc_le_eq)
    finally have "sa_version (last ?h) = int (length ?h)" .
    with False a show ?thesis by (simp add: accounted_def version_of_def setting_of_audit_def Let_def)
  qed (use a in \<open>simp add: accounted_def version_of_def\<close>)
qed

lemma saved_history:
  assumes "save_setting now i k p actor reason expected s = (Inr x, t)"
  shows "setting_history t k' = setting_history s k'
      @ (if k' = k then [audit_entry now i k (get_setting s k) p actor reason (expected + 1)] else [])"
    and "get_setting t k' = (if k' = k then Some (stored_item now k p actor (expected + 1)) else get_setting s k')"
  using assms by (auto simp: save_setting_Inr_iff setting_history_def audit_entry_def get_setting_def dict_get_put)

lemma saved_accounted:
  assumes "accounted s k'" "save_setting now i k p actor reason expected s = (Inr x, t)"
  shows "accounted t k'"
proof (cases "k' = k")
  case False
  then show ?thesis using assms(1) by (simp add: accounted_def saved_history [OF assms(2)])
next
  case True
  let ?h = "setting_history s k" and ?a = "audit_entry now i k (get_setting s k) p actor reason (expected + 1)"
  have v: "expected = int (length ?h)"
    using accounted_version [OF assms(1)] assms(2) True by (simp add: save_setting_Inr_iff)
  have "sa_old_value ?a = last (PNone # map sa_new_value ?h)"
    using assms(1) True by (simp add: accounted_def audit_entry_def setting_of_audit_def Let_def last_map)
  then have "map sa_old_value (?h @ [?a]) = butlast (PNone # map sa_new_value (?h @ [?a]))"
    using assms(1) True by (simp add: accounted_def Let_def append_butlast_last_id butlast_append)
  moreover have "map sa_version (?h @ [?a]) = map int [1..<Suc (length (?h @ [?a]))]"
    using assms(1) True v by (simp add: accounted_def Let_def audit_entry_def)
  ultimately show ?thesis
    by (simp add: accounted_def saved_history [OF assms(2)] True Let_def)
      (simp add: stored_item_def setting_of_audit_def audit_entry_def)
qed

lemma settings_inv_move:
  assumes "settings_inv c s" "setting_move c s t"
  shows "settings_inv c t"
  using assms(2)
proof (cases rule: setting_move.cases)
  case (counted m)
  then show ?thesis
    using assms(1) by (simp add: settings_inv_def values_ok_def accounted_def setting_history_def get_setting_def)
next
  case (saved k d v p now i actor reason expected x)
  then show ?thesis using assms(1) by (auto simp: settings_inv_def intro: saved_values_ok saved_accounted)
qed

lemma setting_version_move:
  assumes "setting_move c s t" "get_setting s k = Some x"
  shows "\<exists>y. get_setting t k = Some y \<and> rst_version x \<le> rst_version y"
  using assms(1)
proof (cases rule: setting_move.cases)
  case (counted m)
  then show ?thesis using assms(2) by (simp add: get_setting_def)
next
  case (saved k' d v p now i actor reason expected y)
  then have "version_of s k' = expected" by (simp add: save_setting_Inr_iff)
  then show ?thesis using assms(2) by (auto simp: saved_history [OF saved(7)] version_of_def stored_item_def)
qed

interpretation settings_store: evolving_store "setting_move c" get_setting "\<lambda>x y. rst_version x \<le> rst_version y" "settings_inv c" for c
  by unfold_locales (auto intro: settings_inv_move dest: setting_version_move)

section \<open>The properties\<close>

lemma registered:
  assumes "settings_registry (cg_host c) = Inr (cg_registry c)" "dict_get (cg_registry c) key = Some d"
  shows "sd_key d = key \<and> definition_sound (cg_host c) d \<and> named_shape d"
proof -
  have "(key, d) \<in> set (map (\<lambda>d. (sd_key d, d)) (built_in_definitions (cg_host c)))"
    using assms by (metis settings_registry_eq map_of_SomeD sum.inject(2))
  then show ?thesis using built_in_definition_sound built_in_named_shape by auto
qed

lemma resolve_runtime_stored:
  assumes "resolve_runtime s key allowed cx = Some x"
  shows "\<exists>scope i. get_setting s (key, scope, i) = Some x"
  using assms by (auto simp: resolve_runtime_def runtime_candidates_def split: if_splits option.splits)

lemma environment_value_conforms:
  assumes "definition_sound (cg_host c) d" "environment_value c d text = Inr v"
  shows "conforms d (if sd_sensitive d then PStr ''connected'' else v)"
proof (cases "reported_as_status d")
  case True
  then have "conforms d (PStr ''connected'')" "conforms d (PStr ''disconnected'')"
    using assms(1) by (auto simp: definition_sound_def conforms_def has_value_type_def Option.is_none_def split: option.splits)
  then show ?thesis
    using assms(2) True by (auto simp: environment_value_def reported_as_status_def split: if_splits dest: parse_value_conforms)
next
  case False
  then show ?thesis using assms(2) by (auto simp: environment_value_def reported_as_status_def dest: parse_value_conforms)
qed

lemma computed_default_conforms: "definition_sound (cg_host c) d \<Longrightarrow> conforms d (computed_default c d)"
  by (auto simp: definition_sound_def computed_default_def conforms_def has_value_type_def Option.is_none_def
      split: option.splits if_splits)

lemma effective_conforms:
  assumes "settings_registry (cg_host c) = Inr (cg_registry c)" "values_ok c s" "dict_get (cg_registry c) key = Some d"
    and "effective c s d cx = Inr (v, source, inherited)"
  shows "conforms d v"
proof -
  have d: "sd_key d = key" "definition_sound (cg_host c) d" using registered [OF assms(1,3)] by auto
  show ?thesis
  proof (cases "environment_of c d")
    case (Some t)
    then show ?thesis using assms(4) environment_value_conforms [OF d(2)] by (auto simp: effective_def res_bind_Inr_iff)
  next
    case None
    show ?thesis
    proof (cases "resolve_runtime s key (sd_allowed_scopes d) cx")
      case (Some x)
      then obtain scope i where "dict_get (ss_values s) (key, scope, i) = Some x"
        using resolve_runtime_stored unfolding get_setting_def by blast
      from all_entriesD [OF assms(2) [unfolded values_ok_def] this] have "conforms d (rst_value x)" using assms(3) by auto
      then show ?thesis using assms(4) None Some d(1) by (simp add: effective_def)
    qed (use assms(4) None d computed_default_conforms [OF d(2)] in \<open>simp add: effective_def\<close>)
  qed
qed

lemma resolve_setting_effective:
  assumes "resolve_setting c key cx scope s = (Inr r, t)"
  shows "dict_get (cg_registry c) key = Some (rv_definition r)
    \<and> effective c s (rv_definition r) cx = Inr (rv_effective_value r, rv_source r, rv_inherited_from r)"
  using assms by (auto simp: resolve_setting_def Let_def res_bind_Inr_iff split: option.splits sum.splits prod.splits)

text \<open>
  C27. The value of a setting is always one that its definition admits. Whatever updates were made, at any
  scope and however they interleave, a value that the service returns has the type of its definition, a
  duration has the form of a duration, an enumerated value is a name of the enumeration, and the
  validator of the definition accepts it: an environment variable that would break this is refused when
  the value is read.
\<close>

theorem value_in_force_conforms:
  assumes "settings_registry (cg_host c) = Inr (cg_registry c)" "(setting_move c)\<^sup>*\<^sup>* empty_settings s"
    and "resolve_setting c key cx scope s = (Inr r, t)"
  shows "sd_key (rv_definition r) = key \<and> conforms (rv_definition r) (rv_effective_value r)"
proof -
  have "values_ok c s" using settings_store.inv_run [OF assms(2) empty_settings_inv] by (simp add: settings_inv_def)
  then show ?thesis using resolve_setting_effective [OF assms(3)] registered [OF assms(1)] effective_conforms [OF assms(1)] by blast
qed

text \<open>
  C28. The audit accounts for every stored setting. For each key, scope and identifier the records that
  \<open>list_audit\<close> returns, oldest first, are numbered 1, 2, 3 and so on, each starts from the value the
  one before it left, and the last of them is what is stored, with its value, version, author and time;
  without records nothing is stored.
\<close>

theorem audit_accounts_for_settings:
  assumes "(setting_move c)\<^sup>*\<^sup>* empty_settings s"
    and "t = snd (update_setting c now i q s)" "h = rev (list_setting_audit t (Some key) (Some scope) (Some sid))"
  shows "get_setting t (key, scope, sid) = (if h = [] then None else Some (setting_of_audit (last h)))
    \<and> map sa_version h = map int [1..<Suc (length h)] \<and> map sa_old_value h = butlast (PNone # map sa_new_value h)"
proof -
  have "(setting_move c)\<^sup>*\<^sup>* empty_settings t" using assms(1,2) update_setting_moves by (metis rtranclp_trans)
  then have "accounted t (key, scope, sid)"
    using settings_store.inv_run empty_settings_inv unfolding settings_inv_def by blast
  moreover have "h = setting_history t (key, scope, sid)"
    unfolding assms(3) list_setting_audit_def setting_history_def by (simp add: rev_filter)
  ultimately show ?thesis by (simp add: accounted_def Let_def)
qed

text \<open>
  C29. Of two updates from the same version one is refused. After a successful update of a setting, however
  much else happens, an update of the same setting at the same scope that expects the version the first
  one expected, or an older one, fails and leaves the values and the audit as they are.
\<close>

theorem stale_setting_update_refused:
  assumes "(setting_move c)\<^sup>*\<^sup>* empty_settings s" "update_setting c now i q s = (Inr r, t)" "(setting_move c)\<^sup>*\<^sup>* t u"
    and "sg_key q' = sg_key q" "sg_scope q' = sg_scope q" "scope_id (sg_scope q') (sg_context q') = scope_id (sg_scope q) (sg_context q)"
    and "sg_expected_version q' \<le> sg_expected_version q"
  shows "\<exists>e. fst (update_setting c now' i' q' u) = Inl e \<and> ss_values (snd (update_setting c now' i' q' u)) = ss_values u
    \<and> ss_audit (snd (update_setting c now' i' q' u)) = ss_audit u"
proof -
  obtain d sid p where up: "updated c now i q d sid p s t" using update_setting_InrD [OF assms(2)] by blast
  let ?k = "(sg_key q, sg_scope q, sid)"
  have "(setting_move c)\<^sup>*\<^sup>* empty_settings t" using assms(1) updated_moves [OF up] by simp
  then have inv: "settings_inv c t" using settings_store.inv_run empty_settings_inv by blast
  have "get_setting t ?k = Some (stored_item now ?k p (sg_actor_id q) (sg_expected_version q + 1))"
    using up by (simp add: updated_def Let_def get_setting_def dict_get_put)
  from settings_store.lookup_run [OF assms(3) inv this] have newer: "sg_expected_version q < version_of u ?k"
    by (auto simp: version_of_def stored_item_def)
  have sid: "scope_id (sg_scope q) (sg_context q) = Inr sid" using up by (simp add: updated_def Let_def)
  have "update_setting c now' i' q' u \<noteq> (Inr x, v)" for x v
  proof
    assume "update_setting c now' i' q' u = (Inr x, v)"
    then obtain d' sid' p' where "updated c now' i' q' d' sid' p' u v" using update_setting_InrD by blast
    then have "version_of u ?k = sg_expected_version q'" using assms(4-6) sid by (simp add: updated_def Let_def)
    then show False using newer assms(7) by simp
  qed
  then obtain e v where "update_setting c now' i' q' u = (Inl e, v)" by (metis surj_pair sum.exhaust)
  then show ?thesis using update_setting_InlD by fastforce
qed

section \<open>Reach of an update\<close>

primrec scope_target :: "setting_scope \<Rightarrow> setting_context \<Rightarrow> string option" where
  "scope_target SC_SYSTEM cx = Some []"
| "scope_target SC_ORGANIZATION cx = sx_organization_id cx"
| "scope_target SC_PROJECT cx = sx_project_id cx"

primrec narrower :: "setting_scope \<Rightarrow> setting_scope list" where
  "narrower SC_SYSTEM = [SC_ORGANIZATION, SC_PROJECT]"
| "narrower SC_ORGANIZATION = [SC_PROJECT]"
| "narrower SC_PROJECT = []"

definition stored_at :: "settings_state \<Rightarrow> setting_definition \<Rightarrow> setting_context \<Rightarrow> setting_scope \<Rightarrow> runtime_setting option" where
  "stored_at s d cx scope =
     (if scope \<in> set (sd_allowed_scopes d)
      then case scope_target scope cx of None \<Rightarrow> None | Some i \<Rightarrow> get_setting s (sd_key d, scope, i) else None)"

definition shadowed :: "settings_state \<Rightarrow> setting_definition \<Rightarrow> setting_context \<Rightarrow> setting_scope \<Rightarrow> bool" where
  "shadowed s d cx scope = list_ex (\<lambda>x. stored_at s d cx x \<noteq> None) (narrower scope)"

lemma resolve_runtime_layers:
  "resolve_runtime s (sd_key d) (sd_allowed_scopes d) cx = first_Some (stored_at s d cx) [SC_PROJECT, SC_ORGANIZATION, SC_SYSTEM]"
  by (simp add: resolve_runtime_def runtime_candidates_def stored_at_def split: option.splits)

lemma stored_at_updated:
  assumes "updated c now i q d sid p s t"
  shows "stored_at t d' cx x =
    (if sd_key d' = sg_key q \<and> x = sg_scope q \<and> x \<in> set (sd_allowed_scopes d') \<and> scope_target x cx = Some sid
     then Some (stored_item now (sg_key q, sg_scope q, sid) p (sg_actor_id q) (sg_expected_version q + 1))
     else stored_at s d' cx x)"
  using assms by (auto simp: updated_def Let_def stored_at_def get_setting_def dict_get_put split: option.splits)

lemma effective_updated:
  assumes "updated c now i q d sid p s t" "sd_key d = sg_key q"
  shows "effective c t d cx =
    (if scope_target (sg_scope q) cx = Some sid \<and> \<not> shadowed s d cx (sg_scope q)
     then Inr (p, source_of_scope (sg_scope q), Some (sg_scope q)) else effective c s d cx)"
proof -
  obtain y where y: "y = stored_item now (sg_key q, sg_scope q, sid) p (sg_actor_id q) (sg_expected_version q + 1)" by blast
  have ok: "environment_of c d = None" "sg_scope q \<in> set (sd_allowed_scopes d)" using assms(1) by (auto simp: updated_def Let_def)
  have x: "rst_value y = p" "rst_scope y = sg_scope q" by (simp_all add: y stored_item_def)
  have at: "stored_at t d cx z = (if z = sg_scope q \<and> scope_target z cx = Some sid then Some y else stored_at s d cx z)" for z
    using stored_at_updated [OF assms(1)] ok(2) assms(2) y by auto
  show ?thesis
    using x ok(1) unfolding effective_def resolve_runtime_layers shadowed_def
    by (cases "sg_scope q"; simp add: at split: option.splits)
qed

lemma effective_other: "updated c now i q d sid p s t \<Longrightarrow> sd_key d' \<noteq> sg_key q \<Longrightarrow> effective c t d' cx = effective c s d' cx"
  by (cases "environment_of c d'") (simp_all add: effective_def resolve_runtime_layers stored_at_updated split: option.splits)

text \<open>
  C26. What an update does, and to whom. It stores the parsed value under the next version; it changes the
  value of no other setting; of its own setting it changes the value exactly in the contexts that share
  the identifier of its scope and hold no value at a narrower scope, where the new value is in force
  from then on.
\<close>

theorem setting_update_effect:
  assumes "settings_registry (cg_host c) = Inr (cg_registry c)" "update_setting c now i q s = (Inr r, t)"
  shows "\<exists>d sid p. dict_get (cg_registry c) (sg_key q) = Some d \<and> parse_value (cg_host c) d (sg_value q) = Inr p
    \<and> scope_id (sg_scope q) (sg_context q) = Inr sid
    \<and> version_of t (sg_key q, sg_scope q, sid) = version_of s (sg_key q, sg_scope q, sid) + 1
    \<and> (\<forall>cx. effective c t d cx =
          (if scope_target (sg_scope q) cx = Some sid \<and> \<not> shadowed s d cx (sg_scope q)
           then Inr (p, source_of_scope (sg_scope q), Some (sg_scope q)) else effective c s d cx))
    \<and> (\<forall>d' cx. sd_key d' \<noteq> sg_key q \<longrightarrow> effective c t d' cx = effective c s d' cx)"
proof -
  obtain d sid p where up: "updated c now i q d sid p s t" using update_setting_InrD [OF assms(2)] by blast
  have d: "dict_get (cg_registry c) (sg_key q) = Some d" "parse_value (cg_host c) d (sg_value q) = Inr p"
      "scope_id (sg_scope q) (sg_context q) = Inr sid" "version_of s (sg_key q, sg_scope q, sid) = sg_expected_version q"
    using up by (simp_all add: updated_def Let_def)
  moreover have "version_of t (sg_key q, sg_scope q, sid) = sg_expected_version q + 1"
    using up by (simp add: updated_def Let_def version_of_def get_setting_def dict_get_put stored_item_def)
  moreover have "sd_key d = sg_key q" using registered [OF assms(1) d(1)] by simp
  ultimately show ?thesis using effective_updated [OF up] effective_other [OF up] by metis
qed

text \<open>
  A value at the PROJECT scope is stored under the identifier of the project alone, while projects are
  identified by organization and identifier (\<open>repo_create_project\<close> refuses a second project only of the
  same pair). An update by a member of one organization is in force at once for every organization
  that has a project of the same identifier, whatever that organization has set for itself.
\<close>

theorem project_setting_crosses_organizations:
  assumes "settings_registry (cg_host c) = Inr (cg_registry c)" "update_setting c now i q s = (Inr r, t)"
    and "sg_scope q = SC_PROJECT" "sx_project_id (sg_context q) = Some project"
  shows "\<exists>d v. dict_get (cg_registry c) (sg_key q) = Some d \<and> parse_value (cg_host c) d (sg_value q) = Inr v
    \<and> (\<forall>organization. effective c t d \<lparr>sx_organization_id = organization, sx_project_id = Some project\<rparr>
          = Inr (v, SR_RUNTIME_PROJECT, Some SC_PROJECT))"
proof -
  obtain d sid p where up: "updated c now i q d sid p s t" using update_setting_InrD [OF assms(2)] by blast
  have d: "dict_get (cg_registry c) (sg_key q) = Some d" "parse_value (cg_host c) d (sg_value q) = Inr p"
      "scope_id SC_PROJECT (sg_context q) = Inr sid"
    using up assms(3) by (simp_all add: updated_def Let_def)
  have "sid = project" using d(3) assms(4) by (simp add: scope_id_def split: if_splits)
  moreover have "sd_key d = sg_key q" using registered [OF assms(1) d(1)] by simp
  ultimately show ?thesis
    using d effective_updated [OF up] assms(3) by (auto simp: shadowed_def)
qed

section \<open>The retention of evaluations\<close>

lemma name_text_normal: "(\<And>c. c \<in> set t \<Longrightarrow> name_char c) \<Longrightarrow> py_lower (py_strip t) = t"
proof -
  assume name: "\<And>c. c \<in> set t \<Longrightarrow> name_char c"
  have "py_strip t = t"
    using name name_char_lower by (auto simp: py_strip_def py_lstrip_def dropWhile_eq_self_iff) (metis dropWhile_eq_self_iff hd_in_set rev_rev_ident set_rev)
  moreover have "py_lower t = t" unfolding py_lower_def by (rule map_idI) (use name name_char_lower in blast)
  ultimately show ?thesis by simp
qed

lemma duration_seconds_defined:
  assumes "is_duration t"
  shows "\<exists>x. duration_seconds t = Inr x"
proof -
  have unit: "dropWhile is_ascii_digit t \<in> {''ms'', ''s'', ''m'', ''h'', ''d'', ''w''}" using assms by (simp add: is_duration_def Let_def)
  have "list_all (list_all name_char) [''ms'', ''s'', ''m'', ''h'', ''d'', ''w'']" by code_simp
  then have "list_all name_char (dropWhile is_ascii_digit t)" using unit unfolding list_all_iff [of "list_all name_char"] by auto
  moreover have "name_char c" if "c \<in> set (takeWhile is_ascii_digit t)" for c
    using set_takeWhileD [OF that] by (simp add: name_char_def)
  ultimately have "name_char c" if "c \<in> set (takeWhile is_ascii_digit t @ dropWhile is_ascii_digit t)" for c
    using that unfolding set_append list_all_iff by blast
  then have "name_char c" if "c \<in> set t" for c using that unfolding takeWhile_dropWhile_id by blast
  then have "py_lower (py_strip t) = t" by (rule name_text_normal)
  then show ?thesis using assms unit by (auto simp: duration_seconds_def is_duration_def Let_def)
qed

text \<open>
  The history of evaluations is always available: the retention that the evaluation service reads from
  the configuration is a duration it can use, whatever updates were made, so \<open>get_history\<close> does
  not fail on it. (A retention beyond the range of floats is outside the model of floats.)
\<close>

theorem evaluation_retention_usable:
  assumes "settings_registry (cg_host c) = Inr (cg_registry c)" "(setting_move c)\<^sup>*\<^sup>* empty_settings s"
    and "setting_value c ''evaluation.retention'' scx s = (Inr v, t)"
    and "ve_settings env = Some f" "v = PStr (vg_retention (f cx))"
  shows "\<exists>results. get_history env now V i cx = Inr results"
proof -
  obtain r where r: "resolve_setting c ''evaluation.retention'' scx SC_SYSTEM s = (Inr r, t)" "rv_effective_value r = v"
    using assms(3) unfolding setting_value_def by (rule act_bind_InrE) simp
  have d: "dict_get (cg_registry c) ''evaluation.retention'' = Some (rv_definition r)"
      "effective c s (rv_definition r) scx = Inr (v, rv_source r, rv_inherited_from r)"
    using resolve_setting_effective [OF r(1)] r(2) by simp_all
  have "values_ok c s" using settings_store.inv_run [OF assms(2) empty_settings_inv] by (simp add: settings_inv_def)
  then have "conforms (rv_definition r) v" using effective_conforms [OF assms(1) _ d] by blast
  moreover have "sd_value_type (rv_definition r) = VT_DURATION"
    using registered [OF assms(1) d(1)] by (simp add: named_shape_def)
  ultimately have "is_duration (vg_retention (f cx))" by (simp add: conforms_def has_value_type_def assms(5))
  from duration_seconds_defined [OF this] show ?thesis by (auto simp: get_history_def assms(4))
qed

section \<open>A setting that cannot be set\<close>

lemma strategy_never_parses:
  assumes "settings_registry (cg_host c) = Inr (cg_registry c)" "dict_get (cg_registry c) strategy_key = Some d"
  shows "parse_value (cg_host c) d v \<noteq> Inr p"
proof
  assume parsed: "parse_value (cg_host c) d v = Inr p"
  have d: "sd_value_type d = VT_ENUM" "sd_enum_values d = [''EXPLICIT'', ''LATEST_COMPATIBLE'', ''SOURCE_PRIMARY'']"
    using registered [OF assms] by (auto simp: named_shape_def)
  obtain t where "p = PStr t" using parsed d(1) by (auto simp: parse_value_Inr_iff converted_def Let_def split: if_splits)
  then have "t \<in> {''EXPLICIT'', ''LATEST_COMPATIBLE'', ''SOURCE_PRIMARY''}" "list_all (\<lambda>c. \<not> is_ascii_upper c) t"
    using enum_value_lower [of "cg_host c" d v t] parsed d by auto
  moreover have "\<forall>u \<in> {''EXPLICIT'', ''LATEST_COMPATIBLE'', ''SOURCE_PRIMARY''}. \<not> list_all (\<lambda>c. \<not> is_ascii_upper c) u" by code_simp
  ultimately show False by blast
qed

lemma resolve_all_fails:
  assumes "key \<in> set keys" "\<And>s. \<exists>e. fst (resolve_setting c key cx scope s) = Inl e"
  shows "\<exists>e. fst (resolve_all c cx scope keys s) = Inl e"
  using assms(1)
proof (induction keys arbitrary: s)
  case (Cons k ks)
  show ?case
  proof (cases "resolve_setting c k cx scope s")
    case (Pair r t)
    have "\<exists>e. fst (resolve_all c cx scope ks t) = Inl e" if "k \<noteq> key" using Cons that by auto
    moreover have "\<exists>e. r = Inl e" if "k = key" using assms(2) [of s] Pair that by simp
    ultimately show ?thesis
      using Pair by (cases r; cases "k = key") (auto simp: act_bind_def split: prod.splits sum.splits)
  qed
qed simp

text \<open>
  C30. The strategy for the baseline of a replay cannot be configured. The names of its enumeration are upper
  case and the parser lowers a value before it looks it up, so every update of
  \<open>replay.default_baseline_strategy\<close> is refused, also of a name that the definition lists; and when its
  environment variable is present, whatever its value, the list of all settings fails in every context.
\<close>

theorem baseline_strategy_cannot_be_set:
  assumes "settings_registry (cg_host c) = Inr (cg_registry c)"
  shows "(sg_key q = ''replay.default_baseline_strategy'' \<longrightarrow> (\<exists>e. fst (update_setting c now i q s) = Inl e))
    \<and> (map_of (sh_environment (cg_host c)) ''AI_GOVERNANCE_REPLAY_DEFAULT_BASELINE_STRATEGY'' \<noteq> None
         \<longrightarrow> (\<exists>e. fst (list_resolved c category cx scope s) = Inl e))"
proof (intro conjI impI)
  assume q: "sg_key q = strategy_key"
  have "update_setting c now i q s \<noteq> (Inr r, t)" for r t
    using update_setting_InrD [of c now i q s r t] strategy_never_parses [OF assms] q by (fastforce simp: updated_def Let_def)
  then show "\<exists>e. fst (update_setting c now i q s) = Inl e" by (metis surj_pair sum.exhaust fst_conv)
next
  assume env: "map_of (sh_environment (cg_host c)) ''AI_GOVERNANCE_REPLAY_DEFAULT_BASELINE_STRATEGY'' \<noteq> None"
  have fails: "\<exists>e. fst (resolve_setting c strategy_key cx scope s) = Inl e" for s
  proof (cases "resolve_setting c strategy_key cx scope s")
    case (Pair r t)
    then show ?thesis
    proof (cases r)
      case (Inr x)
      let ?d = "rv_definition x"
      have d: "dict_get (cg_registry c) strategy_key = Some ?d"
          "effective c s ?d cx = Inr (rv_effective_value x, rv_source x, rv_inherited_from x)"
        using resolve_setting_effective Pair Inr by blast+
      have "sd_key ?d = strategy_key" "sd_environment_variable ?d = Some ''AI_GOVERNANCE_REPLAY_DEFAULT_BASELINE_STRATEGY''"
        using registered [OF assms d(1)] by (auto simp: named_shape_def)
      then obtain text' where "environment_of c ?d = Some text'" "environment_value c ?d text' = parse_value (cg_host c) ?d (PStr text')"
        using env by (auto simp: environment_of_def environment_value_def py_startswith_def truthy_def)
      then show ?thesis using d(2) strategy_never_parses [OF assms d(1)] by (auto simp: effective_def res_bind_Inr_iff)
    qed simp
  qed
  have "strategy_key \<in> set (map fst (cg_registry c))"
  proof -
    have "cg_registry c = map (\<lambda>d. (sd_key d, d)) (built_in_definitions (cg_host c))"
      using assms settings_registry_eq [of "cg_host c"] by simp
    then show ?thesis using strategy_registered [of "cg_host c"] by (simp add: comp_def)
  qed
  from resolve_all_fails [OF this fails, of s] show "\<exists>e. fst (list_resolved c category cx scope s) = Inl e"
    unfolding list_resolved_def by (auto simp: act_bind_def split: prod.splits sum.splits)
qed

text \<open>
  A secret integration is reported as connected whenever its variable is present, also when it is blank,
  where one that is not secret is reported as disconnected.
\<close>

lemma blank_secret_reported_connected:
  assumes "environment_of c d = Some t" "blank t" "py_startswith (sd_key d) ''integrations.''"
  shows "effective c s d cx = Inr (PStr (if sd_sensitive d then ''connected'' else ''disconnected''), SR_ENVIRONMENT, None)"
  using assms by (simp add: effective_def environment_value_def)

end
