(* ===== verification/Witnesses_Settings.thy ===== *)
theory Witnesses_Settings
  imports Settings_Properties
begin

text \<open>
  Concrete settings: the built-in registry on one host, an update of the name of the instance for one
  project of one organization, and a host with the variable of the baseline strategy.
\<close>

definition plain_host :: settings_host where
  "plain_host =
     \<lparr>sh_fr = (\<lambda>_. ''0.0''), sh_general = (\<lambda>_. ''0''), sh_float = (\<lambda>_. None), sh_json = (\<lambda>_. Inr PNone),
      sh_environment = [], sh_version = ''1.0.0'', sh_python_version = ''3.12.0''\<rparr>"

definition configured :: "settings_host \<Rightarrow> configuration" where
  "configured h = \<lparr>cg_host = h, cg_registry = map (\<lambda>d. (sd_key d, d)) (built_in_definitions h), cg_enforcers = []\<rparr>"

definition in_project :: setting_context where
  "in_project = \<lparr>sx_organization_id = Some ''org-1'', sx_project_id = Some ''project-1''\<rparr>"

definition rename_instance :: setting_change where
  "rename_instance =
     \<lparr>sg_key = ''general.instance_name'', sg_value = PStr ''Acme'', sg_actor_id = ''admin-1'', sg_reason = ''branding'',
      sg_expected_version = 0, sg_scope = SC_PROJECT, sg_context = in_project, sg_tenant = None\<rparr>"

definition renaming :: "(exc + resolved_setting) \<times> settings_state" where
  "renaming = update_setting (configured plain_host) \<lparr>micros = 0, tz_aware = True\<rparr> ''audit-1'' rename_instance empty_settings"

definition rereading :: "(exc + resolved_setting) \<times> settings_state" where
  "rereading = resolve_setting (configured plain_host) ''general.instance_name'' in_project SC_SYSTEM (snd renaming)"

lemma configured_registry: "settings_registry (cg_host (configured h)) = Inr (cg_registry (configured h))"
  by (simp add: configured_def settings_registry_eq)

lemma renaming_succeeds: "\<not> isl (fst renaming)"
  by code_simp

lemma rereading_succeeds: "\<not> isl (fst rereading)"
  by code_simp

lemma renamed: "update_setting (configured plain_host) \<lparr>micros = 0, tz_aware = True\<rparr> ''audit-1'' rename_instance empty_settings
    = (Inr (projr (fst renaming)), snd renaming)"
  using renaming_succeeds unfolding renaming_def by (metis sum.collapse(2) surjective_pairing)

lemma reread: "resolve_setting (configured plain_host) ''general.instance_name'' in_project SC_SYSTEM (snd renaming)
    = (Inr (projr (fst rereading)), snd rereading)"
  using rereading_succeeds unfolding rereading_def by (metis sum.collapse(2) surjective_pairing)

lemma renamed_reachable: "(setting_move (configured plain_host))\<^sup>*\<^sup>* empty_settings (snd renaming)"
  unfolding renaming_def by (rule update_setting_moves)

theorem value_in_force_conforms_witness:
  "conforms (rv_definition (projr (fst rereading))) (rv_effective_value (projr (fst rereading)))"
  using value_in_force_conforms [OF configured_registry renamed_reachable reread] by blast

theorem audit_accounts_for_settings_witness:
  "map sa_version (rev (list_setting_audit (snd renaming) (Some ''general.instance_name'') (Some SC_PROJECT) (Some ''project-1'')))
     = map int [1..<Suc (length (rev (list_setting_audit (snd renaming) (Some ''general.instance_name'') (Some SC_PROJECT) (Some ''project-1''))))]"
  using audit_accounts_for_settings [OF rtranclp.rtrancl_refl renaming_def [THEN arg_cong, of snd] refl] by blast

theorem stale_setting_update_refused_witness:
  "\<exists>e. fst (update_setting (configured plain_host) \<lparr>micros = 1, tz_aware = True\<rparr> ''audit-2'' rename_instance (snd renaming)) = Inl e"
  using stale_setting_update_refused [OF rtranclp.rtrancl_refl renamed rtranclp.rtrancl_refl refl refl refl order_refl] by blast

theorem setting_update_effect_witness:
  "\<exists>d. dict_get (cg_registry (configured plain_host)) ''general.instance_name'' = Some d
     \<and> effective (configured plain_host) (snd renaming) d \<lparr>sx_organization_id = Some ''org-1'', sx_project_id = Some ''project-2''\<rparr>
         = effective (configured plain_host) empty_settings d \<lparr>sx_organization_id = Some ''org-1'', sx_project_id = Some ''project-2''\<rparr>"
  using setting_update_effect [OF configured_registry renamed]
  by (auto simp: rename_instance_def in_project_def scope_id_def truthy_def)

theorem project_setting_crosses_organizations_witness:
  "\<exists>d v. dict_get (cg_registry (configured plain_host)) ''general.instance_name'' = Some d
     \<and> effective (configured plain_host) (snd renaming) d \<lparr>sx_organization_id = Some ''org-2'', sx_project_id = Some ''project-1''\<rparr>
         = Inr (v, SR_RUNTIME_PROJECT, Some SC_PROJECT)"
proof -
  have "sg_scope rename_instance = SC_PROJECT" "sx_project_id (sg_context rename_instance) = Some ''project-1''"
    "sg_key rename_instance = ''general.instance_name''"
    by (simp_all add: rename_instance_def in_project_def)
  then show ?thesis using project_setting_crosses_organizations [OF configured_registry renamed] by metis
qed

definition strategy_host :: settings_host where
  "strategy_host = plain_host\<lparr>sh_environment := [(''AI_GOVERNANCE_REPLAY_DEFAULT_BASELINE_STRATEGY'', ''LATEST_COMPATIBLE'')]\<rparr>"

theorem baseline_strategy_cannot_be_set_witness:
  "\<exists>e. fst (list_resolved (configured strategy_host) None in_project SC_SYSTEM empty_settings) = Inl e"
  using baseline_strategy_cannot_be_set [OF configured_registry, of rename_instance strategy_host]
  by (simp add: configured_def strategy_host_def)

end
