(* ===== verification/Spec2Isabelle.thy ===== *)
theory Spec2Isabelle
  imports
    Governance_System Http_Transport Replay_Properties Drift_Properties Evaluation_System
    Witnesses_Authorization Witnesses_Trace Witnesses_Transport Witnesses_Jobs Witnesses_Replay
    Witnesses_Evaluation Witnesses_Tenancy Witnesses_Settings
begin

text \<open>
  A verification of the runtime governance path of the AI governance control plane, a Python program
  under \<open>src/src/ai_governance\<close>.

  \<^bold>\<open>The program.\<close> An agent runtime reports its executions to the control plane and asks it for
  permission before it runs a protected operation. An administrator writes versioned policies; an
  issuer grants a delegation to a runtime actor; the authorization service decides a request from the
  delegation and the active policies and records the decision as an event of the execution; the
  boundary inside the runtime lets the tool run only on a valid ALLOW; the runtime attests what
  happened with a receipt that must refer to the recorded decision.

  \<^bold>\<open>Host language.\<close> \<open>Gov_Prelude\<close> reads exceptions as \<open>Inl\<close>, chains of
  \<open>if ...: raise\<close> as guard lists and dictionaries as association lists in insertion order.
  \<open>Py_Strings\<close>, \<open>Py_Values\<close>, \<open>Py_Time\<close> and \<open>Py_Sha256\<close> model what the program
  uses of Python: string methods and anchored patterns, dynamically typed values with \<open>==\<close>,
  \<open><\<close>, \<open>in\<close> and \<open>json.dumps\<close>, \<open>datetime\<close> with \<open>isoformat\<close> and
  \<open>fromisoformat\<close>, and SHA-256 on 32 bit words; \<open>Sha_Conformance\<close> compares the hash with
  known digests. The text of a float inside \<open>json.dumps\<close> is the parameter \<open>fr\<close>.
  \<open>Interfaces\<close> holds the contracts between components as locales: a lifecycle
  (\<open>status_machine\<close>), a repository over time (\<open>evolving_store\<close>) and a command that may be
  retried (\<open>idempotent_command\<close>); every one of them is interpreted on the operations below.

  \<^bold>\<open>Components.\<close>
  \<^item> \<open>Contracts\<close>: \<open>runtime_authorization/contracts.py\<close>. Requests, decisions, their
    checks and fingerprints.
  \<^item> \<open>Enforcement\<close>: \<open>runtime_authorization/enforcement.py\<close>. The boundary, shown to
    let an operation through exactly on an unexpired ALLOW bound to this request, this actor and the
    very arguments, and to fail in no other way than by its own exception or on incomparable clocks.
  \<^item> \<open>Delegation\<close>, \<open>Delegation_Service\<close>: \<open>runtime_authorization/delegation.py\<close>,
    the in-memory repository and \<open>runtime_action_delegation_service.py\<close>. Grants are recorded only
    with authority, keep their content, and once revoked permit nothing.
  \<^item> \<open>Policy\<close>: \<open>decisions/policies.py\<close>. The evaluator and its traced variant, shown
    equivalent for every context, with the content of the trace.
  \<^item> \<open>Policy_Admin\<close>: \<open>decisions/policy_administration.py\<close>, its in-memory repository
    and \<open>policy_administration_service.py\<close>. At most one active version, released versions are
    frozen, the effect of an activation.
  \<^item> \<open>Agent_Execution\<close>: \<open>domain/agent_execution\<close>. The lifecycle of an execution and
    the privacy of event attributes.
  \<^item> \<open>Receipts\<close>: \<open>runtime_authorization/receipts.py\<close>. Checks and the round trip of
    the payload.
  \<^item> \<open>Execution_Ledger\<close>: \<open>in_memory_agent_execution_repository.py\<close>. The append-only
    event store with its idempotency and tool-call indexes.
  \<^item> \<open>Execution_Service\<close>: \<open>agent_execution_service.py\<close>. Ingestion of executions,
    events, receipts and completions.
  \<^item> \<open>Authorization_Service\<close>: \<open>runtime_action_authorization_service.py\<close>. The
    decision, refined to the abstract specification \<open>operation_allowed\<close>.
  \<^item> \<open>Governance_System\<close>: all services on one state, with a step relation of every
    command; invariants and safety under every interleaving.
  \<^item> \<open>Http_Transport\<close>: \<open>runtime_authorization/http_client.py\<close> and the
    authorization endpoint under \<open>api/\<close>. The remote boundary decides as the local one, for every reader of
    bodies that takes each declared field from its own key.
  \<^item> \<open>Jobs\<close>, \<open>Job_Service\<close>: \<open>domain/jobs/job.py\<close>, its in-memory repository,
    \<open>job_submission_service.py\<close>, \<open>job_api_service.py\<close>, \<open>job_executor.py\<close> and
    \<open>workers/job_worker.py\<close>. The claims of a job are bounded, the work terminates, a worker drains the queue,
    cancellation is final. The measure of termination is \<open>total_work\<close>: what each job may still
    cost in claims and releases.
  \<^item> \<open>Replay_Manifest\<close>, \<open>Replay\<close>: \<open>domain/replay/manifest.py\<close>,
    \<open>domain/replay/replay.py\<close> and \<open>in_memory_replay_repository.py\<close>. A completed replay has
    all its evidence, assigned identifiers stay, and no update is lost.
  \<^item> \<open>Replay_Result\<close>, \<open>Replay_Service\<close>: \<open>domain/replay/replay_result.py\<close> with its
    repository, and \<open>replay_application_service.py\<close>: validation and freezing of the source
    evidence, creation, submission, cancellation, evaluation request and archive.
  \<^item> \<open>Replay_Contracts\<close>, \<open>Replay_Execution\<close>: \<open>replay.py\<close> of the plugin API and
    \<open>replay_execution.py\<close>: payloads for a runtime with their round trips, the adapter registry,
    the built-in adapter and the worker's handler. While an adapter runs, other commands change the
    state, so its run is an action on the whole system.
  \<^item> \<open>Replay_System\<close>, \<open>Replay_Commands\<close>, \<open>Replay_Properties\<close>: the service, the job
    repository, the worker and the execution store on one state. Every command is a sequence of moves;
    along all interleavings each replay keeps its job and its produced execution; deliveries and
    retries are idempotent.
  \<^item> \<open>Py_Floats\<close>: binary64 on rationals: rounding to nearest even, the operators and the
    compensated \<open>sum\<close>; a difference of distinct floats is never zero. NaN and the infinities are
    outside the model: a setting that names one counts as one that cannot be parsed, and every built-in
    setting of that type refuses it by its range.
  \<^item> \<open>Providers\<close>: \<open>providers/provider_descriptor.py\<close>, \<open>provider_capabilities.py\<close>
    and \<open>provider_metadata.py\<close>. What is published about a provider and what is removed from it.
  \<^item> \<open>Evaluation\<close>: \<open>provider_registry.py\<close>, \<open>evaluation_service.py\<close>,
    \<open>dataset_builder.py\<close>, \<open>evaluation_api_service.py\<close> and the in-memory repository of
    evaluations. A provider is an action on the whole system, since others may act while it runs.
  \<^item> \<open>Drift\<close>, \<open>Drift_Properties\<close>: \<open>governance/drift_analyzer.py\<close> and
    \<open>replay_governance.py\<close>. Drift equals its specification and agrees with the comparison.
  \<^item> \<open>Replay_Evaluation\<close>, \<open>Evaluation_System\<close>, \<open>Evaluation_Properties\<close>:
    \<open>replay_evaluation.py\<close>, the worker that evaluates an executed replay. Every command of the
    replay system and every delivery of an evaluation job is a sequence of moves
    (\<open>evaluation_move\<close>), each of which may add a result only if it is explained by stored
    evaluations; \<open>plugins_within\<close> says that adapters and providers touch the stores by such moves
    only. A completed replay has one result, it is explained, it is final, and no delivery evaluates
    twice.
  \<^item> \<open>Tenancy\<close>, \<open>Tenancy_Properties\<close>, \<open>Tenancy_Authorization\<close>: \<open>tenancy/\<close>,
    the organizations, projects, memberships and roles behind every permission check, with their
    administration, the provisioning of service accounts and the bootstrap. Writes are sections under
    the lock of the repository (\<open>control_move\<close>) and commands are sequences of them. No
    organization loses its last administrator, the answers equal the permission model, and a command
    changes only the organization of its context.
  \<^item> \<open>Tenancy_Replay\<close>: the routes of \<open>api/routers/replays.py\<close> behind
    \<open>enforce_replay_permission\<close>: a request is served exactly with the permission of its operation, and
    a suspended member is locked out. The service itself is wired without an authorization service.
  \<^item> \<open>Settings\<close>, \<open>Settings_Definitions\<close>, \<open>Settings_Registry\<close>,
    \<open>Settings_Properties\<close>: \<open>settings_control/\<close>, the definitions of the 140 built-in settings, the
    parser, the versioned repository with its audit and the configuration service. Writes are moves
    (\<open>setting_move\<close>). A value in force conforms to its definition, the audit determines what is
    stored, no update is lost, an update reaches exactly the contexts of its scope, and the retention
    that the evaluation service reads is always usable.
  \<^item> \<open>Scenario\<close>, \<open>Witnesses_Policy\<close>, \<open>Witnesses_Authorization\<close>,
    \<open>Witnesses_Trace\<close>, \<open>Witnesses_Transport\<close>, \<open>Witnesses_Jobs\<close>,
    \<open>Witnesses_Replay\<close>, \<open>Witnesses_Replay_System\<close>, \<open>Witnesses_Evaluation\<close>,
    \<open>Witnesses_Tenancy\<close>, \<open>Witnesses_Settings\<close>: a
    concrete deployment on which every property is applied.

  \<^bold>\<open>State and effects.\<close> A dataclass is a record, its \<open>__post_init__\<close> a list of guards
  and its constructor a function to the record or the first exception. A repository is a record of
  dictionaries; an operation is an action that returns or raises and leaves a state behind in both
  cases. Clock readings and fresh identifiers are arguments, so a theorem holds for all of them.
  Microseconds since the epoch are integers; \<open>datetime_ok\<close> is the range of \<open>datetime\<close>.
  No definition needs fuel: all loops of the modelled code run over finite collections.

  \<^bold>\<open>Where the code falls short.\<close> Some theorems state behaviour that the code does not intend:
  a runtime can forge the evidence of its own authorization (\<open>forged_authorization_accepted\<close>), a
  rule over the whole agent context escapes the check against agent facts
  (\<open>whole_agent_context_escapes_check\<close>), workflow steps are validated against the first 200 events
  only (\<open>workflow_step_window_gap\<close>), the completion event never carries the duration
  (\<open>completed_event_without_duration\<close>), and the index of external identifiers ignores the tenant
  (\<open>external_id_shadowed_by_other_tenant\<close>), a worker that lost its lease overwrites a result
  (\<open>stale_worker_overwrites_result\<close>), a specialised worker can starve
  (\<open>claim_window_starves\<close>), a blank resource reference passes the validation of the endpoint
  (\<open>blank_reference_escapes_validation\<close>), a creation that fails after its draft is stored strands
  it (\<open>failed_creation_strands_draft\<close>), the capabilities of a provider are published uncleaned
  (\<open>published_secrets\<close>), an administrator of one project can become administrator of the
  organization (\<open>project_administrator_escalates\<close>), provisioning an account in a second organization
  takes its role in the first away (\<open>provisioning_takes_role_away\<close>), the strategy for baselines can
  never be configured (\<open>baseline_strategy_cannot_be_set\<close>), a project setting reaches projects of the
  same identifier in other organizations (\<open>project_setting_crosses_organizations\<close>), and a cancellation that is refused is recorded nevertheless
  (\<open>late_cancellation_refused_but_recorded\<close>).

  \<^bold>\<open>Not modelled.\<close> The other HTTP routes, the MCP and command line front ends, the SQL repositories and the graph
  projection (I/O through third-party drivers), the bodies of providers and plugins, telemetry and event publication
  (external sinks), the validation of tokens (parameters), and the experiment, dataset, findings and
  reporting services, which are neither on the authorization nor on the replay path.
\<close>

end
